(* ===== verification/Eudiplo_Base.thy ===== *)
theory Eudiplo_Base
  imports Main
begin

text \<open>
  Shared vocabulary of the development: points in time, JavaScript truthiness, JSON values,
  relational tables and the interface contracts the components are verified against.

  Points in time (\<open>Date\<close>) are milliseconds since the epoch, as \<open>Date.getTime()\<close> returns them.
  \<open>undefined\<close> and SQL \<open>NULL\<close> are both \<^term>\<open>None\<close>. A table is the list of its rows in the order
  the database returns them; the statements the TypeORM adapters issue (\<open>find\<close>, \<open>update\<close>,
  \<open>delete\<close>, \<open>insert\<close>) are the documented SQL statements on it, with the number of affected rows.
  One statement is atomic; handlers that issue several statements are modelled statement by
  statement, so that other requests can run between them.
\<close>

named_theorems sql \<open>defining equations of the SQL statements\<close>
named_theorems returns \<open>when a sequence of checks returns a value\<close>
named_theorems frame \<open>columns and rows an operation leaves alone\<close>

type_synonym date = int

text \<open>\<open>JSON.parse\<close> results, as far as the program inspects them.\<close>

datatype json =
    JNull
  | JBool bool
  | JNum int
  | JStr string
  | JArr "json list"
  | JObj "(string \<times> json) list"

text \<open>Property access \<open>value?.name\<close>; a missing property, and a property of a non-object, is
  \<open>undefined\<close>.\<close>

definition jget :: "string \<Rightarrow> json option \<Rightarrow> json option" where
  "jget k v = (case v of Some (JObj kvs) \<Rightarrow> map_of kvs k | _ \<Rightarrow> None)"

definition jstr :: "json option \<Rightarrow> string option" where
  "jstr v = (case v of Some (JStr s) \<Rightarrow> Some s | _ \<Rightarrow> None)"

text \<open>Truthiness of a value.\<close>

definition jtruthy :: "json option \<Rightarrow> bool" where
  "jtruthy v = (case v of None \<Rightarrow> False | Some JNull \<Rightarrow> False | Some (JBool b) \<Rightarrow> b
     | Some (JNum n) \<Rightarrow> n \<noteq> 0 | Some (JStr s) \<Rightarrow> s \<noteq> [] | Some _ \<Rightarrow> True)"

text \<open>Truthiness of an optional string: neither \<open>undefined\<close> nor empty.\<close>

definition truthy :: "string option \<Rightarrow> bool" where
  "truthy v = (case v of None \<Rightarrow> False | Some s \<Rightarrow> s \<noteq> [])"

text \<open>The nullish coalescing operator \<open>a ?? b\<close>.\<close>

definition coalesce :: "'a option \<Rightarrow> 'a \<Rightarrow> 'a" where
  "coalesce a b = (case a of None \<Rightarrow> b | Some x \<Rightarrow> x)"

definition coalesce_opt :: "'a option \<Rightarrow> 'a option \<Rightarrow> 'a option" where
  "coalesce_opt a b = (case a of None \<Rightarrow> b | Some x \<Rightarrow> Some x)"

lemma truthy_simps [simp]:
  "\<not> truthy None" "truthy (Some s) \<longleftrightarrow> s \<noteq> []"
  by (simp_all add: truthy_def)

lemma truthyE: "truthy v \<Longrightarrow> \<exists>s. v = Some s \<and> s \<noteq> []"
  by (cases v) auto

lemma coalesce_simps [simp]:
  "coalesce None b = b" "coalesce (Some x) b = x"
  "coalesce_opt None c = c" "coalesce_opt (Some x) c = Some x"
  by (simp_all add: coalesce_def coalesce_opt_def)


lemma map_enumerate_snd: "map (\<lambda>(i, x). f x) (enumerate n xs) = map f xs"
  by (induction xs arbitrary: n) simp_all

text \<open>Partners in lists related element by element.\<close>

lemma list_all2_right: "list_all2 P xs ys \<Longrightarrow> y \<in> set ys \<Longrightarrow> \<exists>x \<in> set xs. P x y"
  by (induction rule: list_all2_induct) auto

lemma list_all2_left: "list_all2 P xs ys \<Longrightarrow> x \<in> set xs \<Longrightarrow> \<exists>y \<in> set ys. P x y"
  by (induction rule: list_all2_induct) auto

lemma set_map_filter: "set (List.map_filter f xs) = {y. \<exists>x \<in> set xs. f x = Some y}"
  by (induction xs) (auto simp: map_filter_simps split: option.splits)

lemma filter_map_filter_frame:
  assumes "\<And>x. x \<in> set xs \<Longrightarrow> P x \<Longrightarrow> f x = Some x"
    and "\<And>x y. x \<in> set xs \<Longrightarrow> \<not> P x \<Longrightarrow> f x = Some y \<Longrightarrow> \<not> P y"
  shows "filter P (List.map_filter f xs) = filter P xs"
  using assms
proof (induction xs)
  case (Cons x xs)
  have IH: "filter P (List.map_filter f xs) = filter P xs"
    by (intro Cons.IH) (use Cons.prems in auto)
  show ?case
  proof (cases "P x")
    case True
    with IH Cons.prems(1) show ?thesis by simp
  next
    case False
    with IH Cons.prems(2) [of x] show ?thesis by (cases "f x") auto
  qed
qed simp


section \<open>Text\<close>

fun contains_text :: "string \<Rightarrow> string \<Rightarrow> bool" where
  "contains_text [] pat = (pat = [])"
| "contains_text (c # cs) pat = (take (length pat) (c # cs) = pat \<or> contains_text cs pat)"

definition ascii_lower :: "char \<Rightarrow> char" where
  "ascii_lower c = (let n = of_char c :: nat in if 65 \<le> n \<and> n \<le> 90 then char_of (n + 32) else c)"

definition digit_char :: "nat \<Rightarrow> char" where
  "digit_char d = char_of (48 + d)"

fun show_nat :: "nat \<Rightarrow> string" where
  "show_nat n = (if n < 10 then [digit_char n] else show_nat (n div 10) @ [digit_char (n mod 10)])"

declare show_nat.simps [simp del]

fun join :: "string \<Rightarrow> string list \<Rightarrow> string" where
  "join sep [] = []"
| "join sep [s] = s"
| "join sep (s # ss) = s @ sep @ join sep ss"

definition show_int :: "int \<Rightarrow> string" where
  "show_int v = (if v < 0 then ''-'' @ show_nat (nat (- v)) else show_nat (nat v))"


section \<open>Checks that may fail\<close>

text \<open>A guard that throws \<open>e\<close> unless \<open>P\<close>, and the sequence of two steps the first of which may throw.\<close>

definition require :: "bool \<Rightarrow> 'e \<Rightarrow> 'e + unit" where
  "require P e = (if P then Inr () else Inl e)"

definition ebind :: "'e + 'a \<Rightarrow> ('a \<Rightarrow> 'e + 'b) \<Rightarrow> 'e + 'b" where
  "ebind m f = (case m of Inl e \<Rightarrow> Inl e | Inr x \<Rightarrow> f x)"

lemma ebind_simps [simp]: "ebind (Inl e) f = Inl e" "ebind (Inr x) f = f x"
  by (simp_all add: ebind_def)

lemma require_simps [simp]: "require True e = Inr ()" "require False e = Inl e"
  by (simp_all add: require_def)

lemma require_returns [returns]: "require P e = Inr u \<longleftrightarrow> P"
  by (simp add: require_def)

lemma require_throws [returns]: "require P e = Inl e' \<longleftrightarrow> \<not> P \<and> e = e'"
  by (simp add: require_def)

lemma ebind_returns [returns]: "ebind m f = Inr y \<longleftrightarrow> (\<exists>x. m = Inr x \<and> f x = Inr y)"
  by (cases m) simp_all


section \<open>Relational tables\<close>

definition sql_find :: "('r \<Rightarrow> bool) \<Rightarrow> 'r list \<Rightarrow> 'r list" where
  "sql_find P t = filter P t"

definition sql_find_one :: "('r \<Rightarrow> bool) \<Rightarrow> 'r list \<Rightarrow> 'r option" where
  "sql_find_one P t = List.find P t"

text \<open>\<open>UPDATE t SET f WHERE P\<close>: the new rows and the number of affected rows.\<close>

definition sql_update :: "('r \<Rightarrow> bool) \<Rightarrow> ('r \<Rightarrow> 'r) \<Rightarrow> 'r list \<Rightarrow> 'r list \<times> nat" where
  "sql_update P f t = (map (\<lambda>r. if P r then f r else r) t, length (filter P t))"

definition sql_delete :: "('r \<Rightarrow> bool) \<Rightarrow> 'r list \<Rightarrow> 'r list \<times> nat" where
  "sql_delete P t = (filter (\<lambda>r. \<not> P r) t, length (filter P t))"

text \<open>\<open>INSERT\<close> under a primary key or unique constraint on \<open>k\<close>: \<^term>\<open>None\<close> is the
  unique violation the driver raises.\<close>

definition sql_insert :: "('r \<Rightarrow> 'k) \<Rightarrow> 'r \<Rightarrow> 'r list \<Rightarrow> 'r list option" where
  "sql_insert k r t = (if k r \<in> k ` set t then None else Some (t @ [r]))"

text \<open>The primary key holds: no two rows share it.\<close>

definition unique_key :: "('r \<Rightarrow> 'k) \<Rightarrow> 'r list \<Rightarrow> bool" where
  "unique_key k t = distinct (map k t)"

lemmas sql_defs [sql] =
  sql_find_def sql_find_one_def sql_update_def sql_delete_def sql_insert_def

lemma sql_find_one_Some:
  "sql_find_one P t = Some r \<Longrightarrow> r \<in> set t \<and> P r"
  by (auto simp: sql_find_one_def find_Some_iff)

lemma sql_find_one_None:
  "sql_find_one P t = None \<longleftrightarrow> (\<forall>r \<in> set t. \<not> P r)"
  by (auto simp: sql_find_one_def find_None_iff)

lemma sql_find_one_unique:
  assumes "unique_key k t" "r \<in> set t" "P r" "\<And>r'. r' \<in> set t \<Longrightarrow> P r' \<Longrightarrow> k r' = k r"
  shows "sql_find_one P t = Some r"
proof (cases "sql_find_one P t")
  case None
  with assms(2,3) show ?thesis by (auto simp: sql_find_one_None)
next
  case (Some r')
  then have "r' \<in> set t" "P r'" by (auto dest: sql_find_one_Some)
  with assms have "r' = r" by (auto simp: unique_key_def distinct_map dest: inj_onD)
  with Some show ?thesis by simp
qed

lemma sql_find_one_append:
  "sql_find_one P (xs @ ys) = (case sql_find_one P xs of None \<Rightarrow> sql_find_one P ys | Some x \<Rightarrow> Some x)"
  by (induction xs) (simp_all add: sql_find_one_def)

lemma sql_update_affected:
  "0 < snd (sql_update P f t) \<longleftrightarrow> (\<exists>r \<in> set t. P r)"
  by (auto simp: sql_update_def filter_empty_conv)

lemma sql_update_rows:
  "set (fst (sql_update P f t)) = (\<lambda>r. if P r then f r else r) ` set t"
  by (auto simp: sql_update_def)

lemma sql_update_none:
  "\<forall>r \<in> set t. \<not> P r \<Longrightarrow> sql_update P f t = (t, 0)"
  by (induction t) (auto simp: sql_update_def)

lemma sql_update_not_affected:
  "snd (sql_update P f t) = 0 \<Longrightarrow> fst (sql_update P f t) = t"
  using sql_update_affected [of P f t] sql_update_none [of t P f] by (metis fst_conv less_numeral_extra(3))

lemma sql_delete_rows: "set (fst (sql_delete P t)) = {r \<in> set t. \<not> P r}"
  by (auto simp: sql_delete_def)

lemma sql_delete_affected: "0 < snd (sql_delete P t) \<longleftrightarrow> (\<exists>r \<in> set t. P r)"
  by (auto simp: sql_delete_def filter_empty_conv)

lemma unique_key_update [intro]:
  assumes "unique_key k t" "\<And>r. k (f r) = k r"
  shows "unique_key k (fst (sql_update P f t))"
proof -
  have "map k (fst (sql_update P f t)) = map k t"
    by (simp add: sql_update_def assms(2))
  with assms(1) show ?thesis by (simp add: unique_key_def del: map_map)
qed

lemma unique_key_delete [intro]:
  "unique_key k t \<Longrightarrow> unique_key k (fst (sql_delete P t))"
  by (simp add: unique_key_def sql_delete_def distinct_map_filter)

lemma unique_key_insert [intro]:
  "unique_key k t \<Longrightarrow> sql_insert k r t = Some t' \<Longrightarrow> unique_key k t'"
  by (auto simp: unique_key_def sql_insert_def split: if_splits)

lemma unique_key_le_one:
  assumes "unique_key k t" "\<And>r. P r \<Longrightarrow> k r = c"
  shows "length (filter P t) \<le> 1"
proof -
  have d: "distinct (map k (filter P t))"
    using assms(1) by (simp add: unique_key_def distinct_map_filter)
  have "set (map k (filter P t)) \<subseteq> {c}" using assms(2) by auto
  then have "card (set (map k (filter P t))) \<le> 1"
    by (metis card.empty card_insert_disjoint card_mono finite.emptyI finite.insertI empty_iff One_nat_def)
  with d show ?thesis by (metis distinct_card length_map)
qed


section \<open>The interface of a table\<close>

text \<open>
  What the repositories rely on from the database: a conditional update changes exactly the
  matching rows and reports whether there were any. The compare-and-set lemmas below are proved
  from these laws alone.
\<close>

locale table_store =
  fixes rows :: "'t \<Rightarrow> 'r set"
    and update :: "('r \<Rightarrow> bool) \<Rightarrow> ('r \<Rightarrow> 'r) \<Rightarrow> 't \<Rightarrow> 't \<times> nat"
    and delete :: "('r \<Rightarrow> bool) \<Rightarrow> 't \<Rightarrow> 't \<times> nat"
    and find_one :: "('r \<Rightarrow> bool) \<Rightarrow> 't \<Rightarrow> 'r option"
  assumes update_rows: "rows (fst (update P f t)) = (\<lambda>r. if P r then f r else r) ` rows t"
    and update_affected: "0 < snd (update P f t) \<longleftrightarrow> (\<exists>r \<in> rows t. P r)"
    and delete_rows: "rows (fst (delete P t)) = {r \<in> rows t. \<not> P r}"
    and delete_affected: "0 < snd (delete P t) \<longleftrightarrow> (\<exists>r \<in> rows t. P r)"
    and find_one_Some: "find_one P t = Some r \<Longrightarrow> r \<in> rows t \<and> P r"
    and find_one_None: "find_one P t = None \<longleftrightarrow> (\<forall>r \<in> rows t. \<not> P r)"
begin

text \<open>A compare-and-set whose SET clause falsifies its WHERE clause has one winner.\<close>

lemma cas_single_winner:
  assumes "\<And>r. r \<in> rows t \<Longrightarrow> P r \<Longrightarrow> \<not> P (f r)"
  shows "snd (update P g (fst (update P f t))) = 0"
proof -
  have "\<not> (\<exists>r \<in> rows (fst (update P f t)). P r)"
    using assms by (auto simp: update_rows)
  then show ?thesis using update_affected [of P g "fst (update P f t)"] by simp
qed

text \<open>Deleting a row by key succeeds once.\<close>

lemma delete_single_winner: "snd (delete P (fst (delete P t))) = 0"
proof -
  have "\<not> (\<exists>r \<in> rows (fst (delete P t)). P r)" by (simp add: delete_rows)
  then show ?thesis using delete_affected [of P "fst (delete P t)"] by simp
qed

text \<open>A predicate that no update establishes stays unsatisfied.\<close>

lemma update_keeps_absent:
  assumes "\<And>r. r \<in> rows t \<Longrightarrow> \<not> Q r" "\<And>r. r \<in> rows t \<Longrightarrow> P r \<Longrightarrow> \<not> Q (f r)"
  shows "r \<in> rows (fst (update P f t)) \<Longrightarrow> \<not> Q r"
  using assms by (auto simp: update_rows)

lemma find_after_delete: "find_one P (fst (delete P t)) = None"
  by (simp add: find_one_None delete_rows)

end

interpretation sql_table: table_store set sql_update sql_delete sql_find_one
  by unfold_locales
    (auto simp: sql_update_rows sql_update_affected sql_delete_rows sql_delete_affected
      sql_find_one_None dest: sql_find_one_Some)


section \<open>Single-use resources\<close>

text \<open>
  Requests compete for a resource that may be used once (an authorization code, a PAR
  \<open>request_uri\<close>, a credential offer, a nonce). A run is a sequence of atomic database
  statements in any order: claims on the resource, and other statements of the program.
  \<open>wins\<close> counts the claims that reported success.
\<close>

fun wins :: "('c \<Rightarrow> 't \<Rightarrow> bool \<times> 't) \<Rightarrow> ('o \<Rightarrow> 't \<Rightarrow> 't) \<Rightarrow> ('c + 'o) list \<Rightarrow> 't \<Rightarrow> nat" where
  "wins claim other [] t = 0"
| "wins claim other (Inl c # as) t =
     (case claim c t of (w, t') \<Rightarrow> (if w then 1 else 0) + wins claim other as t')"
| "wins claim other (Inr e # as) t = wins claim other as (other e t)"

locale single_use =
  fixes claim :: "'c \<Rightarrow> 't \<Rightarrow> bool \<times> 't"
    and other :: "'o \<Rightarrow> 't \<Rightarrow> 't"
    and claim_ok :: "'c \<Rightarrow> bool"
    and other_ok :: "'o \<Rightarrow> bool"
    and inv :: "'t \<Rightarrow> bool"
    and live :: "'t \<Rightarrow> bool"
  assumes claim_inv: "inv t \<Longrightarrow> inv (snd (claim c t))"
    and other_inv: "inv t \<Longrightarrow> inv (other e t)"
    and claim_live: "inv t \<Longrightarrow> claim_ok c \<Longrightarrow> fst (claim c t) \<Longrightarrow> live t"
    and claim_spends: "inv t \<Longrightarrow> claim_ok c \<Longrightarrow> fst (claim c t) \<Longrightarrow> \<not> live (snd (claim c t))"
    and claim_dead: "inv t \<Longrightarrow> claim_ok c \<Longrightarrow> \<not> live t \<Longrightarrow> \<not> live (snd (claim c t))"
    and other_dead: "inv t \<Longrightarrow> other_ok e \<Longrightarrow> \<not> live t \<Longrightarrow> \<not> live (other e t)"
begin

lemma wins_dead:
  assumes "list_all (case_sum claim_ok other_ok) as" "inv t" "\<not> live t"
  shows "wins claim other as t = 0"
  using assms
proof (induction as arbitrary: t)
  case Nil
  then show ?case by simp
next
  case (Cons a as)
  show ?case
  proof (cases a)
    case (Inl c)
    then have "\<not> fst (claim c t)" and "\<not> live (snd (claim c t))"
      using Cons.prems claim_live claim_dead by auto
    then show ?thesis using Inl Cons claim_inv by (simp add: split_beta)
  next
    case (Inr e)
    then show ?thesis using Cons other_dead other_inv by simp
  qed
qed

lemma wins_at_most_once:
  assumes "list_all (case_sum claim_ok other_ok) as" "inv t"
  shows "wins claim other as t \<le> 1"
  using assms
proof (induction as arbitrary: t)
  case Nil
  then show ?case by simp
next
  case (Cons a as)
  show ?case
  proof (cases a)
    case (Inl c)
    show ?thesis
    proof (cases "fst (claim c t)")
      case True
      then have "wins claim other as (snd (claim c t)) = 0"
        using Inl Cons.prems claim_spends claim_inv wins_dead by simp
      with True Inl show ?thesis by (simp add: split_beta)
    next
      case False
      with Inl Cons claim_inv show ?thesis by (simp add: split_beta)
    qed
  next
    case (Inr e)
    then show ?thesis using Cons other_inv by simp
  qed
qed

text \<open>A run whose first claim succeeds has exactly one winner: the resource is neither lost nor
  used twice.\<close>

lemma wins_exactly_once:
  assumes "list_all (case_sum claim_ok other_ok) (Inl c # as)" "inv t" "fst (claim c t)"
  shows "wins claim other (Inl c # as) t = 1"
  using assms claim_spends claim_inv wins_dead [of as "snd (claim c t)"]
  by (simp add: split_beta)

end

end
