(* ===== verification/Session_Types.thy ===== *)
theory Session_Types
  imports Eudiplo_Base
begin

text \<open>
  The session data shared by issuance and verification: \<open>session/domain/session-data.ts\<close>,
  \<open>session-state.ts\<close>, \<open>session-list.ts\<close> and \<open>session-retention.ts\<close> (types), and the columns
  of \<open>session/entities/session.entity.ts\<close>. A database row is a \<open>session\<close> record. The read-only
  tenant projection (\<open>SessionTenant\<close>) is left out: no modelled operation reads or writes it.
  Structured values the modelled code only stores (credentials, webhooks, keys) are \<open>json\<close>.
\<close>

datatype status = Active | Fetched | Completed | Expired | Failed | Cancelled

datatype session_type = Issuance | Presentation

datatype offer_flow = Authorization_Code_Flow | Pre_Authorized_Code_Flow

datatype response_type = Uri_Response | Dc_Api_Response | Iso_18013_7_Response

record session_authorization =
  aq_issuer_state :: "string option"
  aq_response_type :: "string option"
  aq_client_id :: "string option"
  aq_redirect_uri :: "string option"
  aq_resource :: "string option"
  aq_scope :: "string option"
  aq_code_challenge :: "string option"
  aq_code_challenge_method :: "string option"
  aq_dpop_jkt :: "string option"
  aq_request_uri :: "string option"
  aq_auth_session :: "string option"
  aq_state :: "string option"
  aq_authorization_details :: "json option"

record session_offer_request =
  or_response_type :: response_type
  or_flow :: offer_flow
  or_tx_code :: "string option"
  or_tx_code_description :: "string option"
  or_credentialConfigurationIds :: "string list"
  or_authorization_server :: "string option"
  or_credentialClaims :: "json option"
  or_webhookEndpointId :: "string option"
  or_offerLifetimeSeconds :: "int option"
  or_reference :: "string option"

record notification =
  nt_id :: string
  nt_event :: "string option"
  nt_eventDescription :: "string option"
  nt_credentialConfigurationId :: string

record session =
  s_id :: string
  s_createdAt :: date
  s_updatedAt :: date
  s_expiresAt :: "date option"
  s_useDcApi :: bool
  s_dcApiProtocol :: "string option"
  s_browserOrigin :: "string option"
  s_tenantId :: string
  s_reference :: "string option"
  s_status :: status
  s_authorization_code :: "string option"
  s_authorization_code_expires_at :: "date option"
  s_dpop_jkt :: "string option"
  s_client_key_jkt :: "string option"
  s_refresh_token :: "string option"
  s_refresh_token_expires_at :: "date option"
  s_request_uri :: "string option"
  s_request_uri_expires_at :: "date option"
  s_auth_queries :: "session_authorization option"
  s_offer :: "json option"
  s_offerUrl :: "string option"
  s_credentialPayload :: "session_offer_request option"
  s_credentialConfigurationIds :: "string list option"
  s_webhookEndpointId :: "string option"
  s_notifications :: "notification list"
  s_requestId :: "string option"
  s_requestUrl :: "string option"
  s_requestObject :: "string option"
  s_responseEncryptionPrivateJwk :: "json option"
  s_credentials :: "json option"
  s_vp_nonce :: "string option"
  s_clientId :: "string option"
  s_walletNonce :: "string option"
  s_responseCode :: "string option"
  s_responseUri :: "string option"
  s_redirectUri :: "string option"
  s_parsedWebhook :: "json option"
  s_transaction_data :: "json option"
  s_skewSeconds :: "int option"
  s_externalIssuer :: "string option"
  s_authorizationServerId :: "string option"
  s_externalSubject :: "string option"
  s_errorReason :: "string option"
  s_failureCode :: "string option"
  s_outcome :: "json option"
  s_txCodeFailedAttempts :: nat
  s_consumed :: bool
  s_consumedAt :: "date option"

text \<open>
  The row \<open>INSERT\<close> creates for a new session with the column defaults of the entity;
  \<open>now\<close> fills the create and update date columns.
\<close>

definition blank_session :: "string \<Rightarrow> string \<Rightarrow> date \<Rightarrow> session" where
  "blank_session sid tenant now = \<lparr>
     s_id = sid, s_createdAt = now, s_updatedAt = now, s_expiresAt = None,
     s_useDcApi = False, s_dcApiProtocol = None, s_browserOrigin = None,
     s_tenantId = tenant, s_reference = None, s_status = Active,
     s_authorization_code = None, s_authorization_code_expires_at = None,
     s_dpop_jkt = None, s_client_key_jkt = None,
     s_refresh_token = None, s_refresh_token_expires_at = None,
     s_request_uri = None, s_request_uri_expires_at = None,
     s_auth_queries = None, s_offer = None, s_offerUrl = None,
     s_credentialPayload = None, s_credentialConfigurationIds = None,
     s_webhookEndpointId = None, s_notifications = [], s_requestId = None,
     s_requestUrl = None, s_requestObject = None,
     s_responseEncryptionPrivateJwk = None, s_credentials = None, s_vp_nonce = None,
     s_clientId = None, s_walletNonce = None, s_responseCode = None,
     s_responseUri = None, s_redirectUri = None, s_parsedWebhook = None,
     s_transaction_data = None, s_skewSeconds = None, s_externalIssuer = None,
     s_authorizationServerId = None, s_externalSubject = None, s_errorReason = None,
     s_failureCode = None, s_outcome = None, s_txCodeFailedAttempts = 0,
     s_consumed = False, s_consumedAt = None\<rparr>"

end
