(* ===== verification/Session_Update.thy ===== *)
theory Session_Update
  imports Session_Types
begin

text \<open>
  \<open>SessionUpdate\<close> of \<open>session/domain/session-data.ts\<close>: the columns an update may set. It has a
  constructor for every column but \<open>id\<close>, \<open>tenantId\<close>, \<open>createdAt\<close> and \<open>updatedAt\<close>, which the
  type of the source omits. A property that is \<open>undefined\<close> in the source is not in the list (TypeORM
  skips it); \<open>null\<close> is \<open>Set_c None\<close>.
\<close>

datatype (plugins only: size) assign =
    Set_expiresAt "date option"
  | Set_useDcApi bool
  | Set_dcApiProtocol "string option"
  | Set_browserOrigin "string option"
  | Set_reference "string option"
  | Set_status status
  | Set_authorization_code "string option"
  | Set_authorization_code_expires_at "date option"
  | Set_dpop_jkt "string option"
  | Set_client_key_jkt "string option"
  | Set_refresh_token "string option"
  | Set_refresh_token_expires_at "date option"
  | Set_request_uri "string option"
  | Set_request_uri_expires_at "date option"
  | Set_auth_queries "session_authorization option"
  | Set_offer "json option"
  | Set_offerUrl "string option"
  | Set_credentialPayload "session_offer_request option"
  | Set_credentialConfigurationIds "string list option"
  | Set_webhookEndpointId "string option"
  | Set_notifications "notification list"
  | Set_requestId "string option"
  | Set_requestUrl "string option"
  | Set_requestObject "string option"
  | Set_responseEncryptionPrivateJwk "json option"
  | Set_credentials "json option"
  | Set_vp_nonce "string option"
  | Set_clientId "string option"
  | Set_walletNonce "string option"
  | Set_responseCode "string option"
  | Set_responseUri "string option"
  | Set_redirectUri "string option"
  | Set_parsedWebhook "json option"
  | Set_transaction_data "json option"
  | Set_skewSeconds "int option"
  | Set_externalIssuer "string option"
  | Set_authorizationServerId "string option"
  | Set_externalSubject "string option"
  | Set_errorReason "string option"
  | Set_failureCode "string option"
  | Set_outcome "json option"
  | Set_txCodeFailedAttempts nat
  | Set_consumed bool
  | Set_consumedAt "date option"

type_synonym session_update = "assign list"

primrec apply_assign :: "assign \<Rightarrow> session \<Rightarrow> session" where
  "apply_assign (Set_expiresAt v) s = s\<lparr>s_expiresAt := v\<rparr>"
| "apply_assign (Set_useDcApi v) s = s\<lparr>s_useDcApi := v\<rparr>"
| "apply_assign (Set_dcApiProtocol v) s = s\<lparr>s_dcApiProtocol := v\<rparr>"
| "apply_assign (Set_browserOrigin v) s = s\<lparr>s_browserOrigin := v\<rparr>"
| "apply_assign (Set_reference v) s = s\<lparr>s_reference := v\<rparr>"
| "apply_assign (Set_status v) s = s\<lparr>s_status := v\<rparr>"
| "apply_assign (Set_authorization_code v) s = s\<lparr>s_authorization_code := v\<rparr>"
| "apply_assign (Set_authorization_code_expires_at v) s = s\<lparr>s_authorization_code_expires_at := v\<rparr>"
| "apply_assign (Set_dpop_jkt v) s = s\<lparr>s_dpop_jkt := v\<rparr>"
| "apply_assign (Set_client_key_jkt v) s = s\<lparr>s_client_key_jkt := v\<rparr>"
| "apply_assign (Set_refresh_token v) s = s\<lparr>s_refresh_token := v\<rparr>"
| "apply_assign (Set_refresh_token_expires_at v) s = s\<lparr>s_refresh_token_expires_at := v\<rparr>"
| "apply_assign (Set_request_uri v) s = s\<lparr>s_request_uri := v\<rparr>"
| "apply_assign (Set_request_uri_expires_at v) s = s\<lparr>s_request_uri_expires_at := v\<rparr>"
| "apply_assign (Set_auth_queries v) s = s\<lparr>s_auth_queries := v\<rparr>"
| "apply_assign (Set_offer v) s = s\<lparr>s_offer := v\<rparr>"
| "apply_assign (Set_offerUrl v) s = s\<lparr>s_offerUrl := v\<rparr>"
| "apply_assign (Set_credentialPayload v) s = s\<lparr>s_credentialPayload := v\<rparr>"
| "apply_assign (Set_credentialConfigurationIds v) s = s\<lparr>s_credentialConfigurationIds := v\<rparr>"
| "apply_assign (Set_webhookEndpointId v) s = s\<lparr>s_webhookEndpointId := v\<rparr>"
| "apply_assign (Set_notifications v) s = s\<lparr>s_notifications := v\<rparr>"
| "apply_assign (Set_requestId v) s = s\<lparr>s_requestId := v\<rparr>"
| "apply_assign (Set_requestUrl v) s = s\<lparr>s_requestUrl := v\<rparr>"
| "apply_assign (Set_requestObject v) s = s\<lparr>s_requestObject := v\<rparr>"
| "apply_assign (Set_responseEncryptionPrivateJwk v) s = s\<lparr>s_responseEncryptionPrivateJwk := v\<rparr>"
| "apply_assign (Set_credentials v) s = s\<lparr>s_credentials := v\<rparr>"
| "apply_assign (Set_vp_nonce v) s = s\<lparr>s_vp_nonce := v\<rparr>"
| "apply_assign (Set_clientId v) s = s\<lparr>s_clientId := v\<rparr>"
| "apply_assign (Set_walletNonce v) s = s\<lparr>s_walletNonce := v\<rparr>"
| "apply_assign (Set_responseCode v) s = s\<lparr>s_responseCode := v\<rparr>"
| "apply_assign (Set_responseUri v) s = s\<lparr>s_responseUri := v\<rparr>"
| "apply_assign (Set_redirectUri v) s = s\<lparr>s_redirectUri := v\<rparr>"
| "apply_assign (Set_parsedWebhook v) s = s\<lparr>s_parsedWebhook := v\<rparr>"
| "apply_assign (Set_transaction_data v) s = s\<lparr>s_transaction_data := v\<rparr>"
| "apply_assign (Set_skewSeconds v) s = s\<lparr>s_skewSeconds := v\<rparr>"
| "apply_assign (Set_externalIssuer v) s = s\<lparr>s_externalIssuer := v\<rparr>"
| "apply_assign (Set_authorizationServerId v) s = s\<lparr>s_authorizationServerId := v\<rparr>"
| "apply_assign (Set_externalSubject v) s = s\<lparr>s_externalSubject := v\<rparr>"
| "apply_assign (Set_errorReason v) s = s\<lparr>s_errorReason := v\<rparr>"
| "apply_assign (Set_failureCode v) s = s\<lparr>s_failureCode := v\<rparr>"
| "apply_assign (Set_outcome v) s = s\<lparr>s_outcome := v\<rparr>"
| "apply_assign (Set_txCodeFailedAttempts v) s = s\<lparr>s_txCodeFailedAttempts := v\<rparr>"
| "apply_assign (Set_consumed v) s = s\<lparr>s_consumed := v\<rparr>"
| "apply_assign (Set_consumedAt v) s = s\<lparr>s_consumedAt := v\<rparr>"

definition apply_assigns :: "session_update \<Rightarrow> session \<Rightarrow> session" where
  "apply_assigns u s = foldl (\<lambda>r a. apply_assign a r) s u"

text \<open>
  The SET clause of an \<open>UPDATE\<close> statement: TypeORM also refreshes the update date column.
\<close>

definition set_clause :: "date \<Rightarrow> session_update \<Rightarrow> session \<Rightarrow> session" where
  "set_clause now u s = (apply_assigns u s)\<lparr>s_updatedAt := now\<rparr>"

text \<open>A value that may be \<open>undefined\<close>, and then is not part of the update.\<close>

definition opt_assign :: "('a option \<Rightarrow> assign) \<Rightarrow> 'a option \<Rightarrow> session_update" where
  "opt_assign f v = (case v of None \<Rightarrow> [] | Some x \<Rightarrow> [f (Some x)])"

lemma apply_assigns_simps [simp]:
  "apply_assigns [] s = s"
  "apply_assigns (a # u) s = apply_assigns u (apply_assign a s)"
  by (simp_all add: apply_assigns_def)

lemma opt_assign_simps [simp]:
  "opt_assign f None = []" "opt_assign f (Some x) = [f (Some x)]"
  by (simp_all add: opt_assign_def)

text \<open>No update moves a session to another tenant, renames it or changes its creation date.\<close>

lemma apply_assign_identity [simp, frame]:
  "s_id (apply_assign a s) = s_id s"
  "s_tenantId (apply_assign a s) = s_tenantId s"
  "s_createdAt (apply_assign a s) = s_createdAt s"
  by (cases a; simp)+

lemma apply_assigns_identity [simp, frame]:
  "s_id (apply_assigns u s) = s_id s"
  "s_tenantId (apply_assigns u s) = s_tenantId s"
  "s_createdAt (apply_assigns u s) = s_createdAt s"
  by (induction u arbitrary: s) simp_all

lemma set_clause_identity [simp, frame]:
  "s_id (set_clause now u s) = s_id s"
  "s_tenantId (set_clause now u s) = s_tenantId s"
  "s_createdAt (set_clause now u s) = s_createdAt s"
  by (simp_all add: set_clause_def)

text \<open>
  What an update does to the two columns that decide whether a session can still be used: the
  last value assigned, if any.
\<close>

fun final_status :: "session_update \<Rightarrow> status option" where
  "final_status [] = None"
| "final_status (Set_status st # u) = Some (coalesce (final_status u) st)"
| "final_status (a # u) = final_status u"

fun final_consumed :: "session_update \<Rightarrow> bool option" where
  "final_consumed [] = None"
| "final_consumed (Set_consumed b # u) = Some (coalesce (final_consumed u) b)"
| "final_consumed (a # u) = final_consumed u"

lemma apply_assigns_status:
  "s_status (apply_assigns u s) = coalesce (final_status u) (s_status s)"
  by (induction u arbitrary: s rule: final_status.induct) simp_all

lemma apply_assigns_consumed:
  "s_consumed (apply_assigns u s) = coalesce (final_consumed u) (s_consumed s)"
  by (induction u arbitrary: s rule: final_consumed.induct) simp_all

lemma set_clause_status:
  "s_status (set_clause now u s) = coalesce (final_status u) (s_status s)"
  by (simp add: set_clause_def apply_assigns_status)

lemma set_clause_consumed:
  "s_consumed (set_clause now u s) = coalesce (final_consumed u) (s_consumed s)"
  by (simp add: set_clause_def apply_assigns_consumed)

end
