(* ===== verification/Session_Rules.thy ===== *)
theory Session_Rules
  imports Session_Update
begin

text \<open>
  The session rules of \<open>session/domain\<close>: terminal and open statuses and the state update
  (\<open>session-state.ts\<close>), usability for wallet requests (\<open>session-usability.ts\<close>), retention policy
  (\<open>session-retention.ts\<close>), the reason a session cannot be cancelled
  (\<open>session/application/cancel-session.ts\<close>) and the management scope of a token
  (\<open>session/session-scope.ts\<close>).
\<close>

section \<open>Status\<close>

definition all_statuses :: "status list" where
  "all_statuses = [Active, Fetched, Completed, Expired, Failed, Cancelled]"

definition TERMINAL_STATUSES :: "status list" where
  "TERMINAL_STATUSES = [Completed, Failed, Expired, Cancelled]"

definition isTerminalStatus :: "status \<Rightarrow> bool" where
  "isTerminalStatus st = (st \<in> set TERMINAL_STATUSES)"

definition OPEN_SESSION_STATUSES :: "status list" where
  "OPEN_SESSION_STATUSES = filter (\<lambda>st. \<not> isTerminalStatus st) all_statuses"

definition stateUpdate :: "status \<Rightarrow> session_update" where
  "stateUpdate st =
     Set_status st # (if isTerminalStatus st then [Set_responseEncryptionPrivateJwk None] else [])"

lemma terminal_simps [simp]:
  "\<not> isTerminalStatus Active" "\<not> isTerminalStatus Fetched"
  "isTerminalStatus Completed" "isTerminalStatus Failed"
  "isTerminalStatus Expired" "isTerminalStatus Cancelled"
  by (simp_all add: isTerminalStatus_def TERMINAL_STATUSES_def)

lemma open_statuses [simp]: "OPEN_SESSION_STATUSES = [Active, Fetched]"
  by (simp add: OPEN_SESSION_STATUSES_def all_statuses_def)

lemma open_iff_not_terminal: "st \<in> set OPEN_SESSION_STATUSES \<longleftrightarrow> \<not> isTerminalStatus st"
  by (cases st) simp_all

lemma stateUpdate_status [simp]: "s_status (apply_assigns (stateUpdate st) s) = st"
  by (simp add: stateUpdate_def)

lemma stateUpdate_consumed [simp]: "s_consumed (apply_assigns (stateUpdate st) s) = s_consumed s"
  by (simp add: stateUpdate_def)

lemma stateUpdate_key:
  "s_responseEncryptionPrivateJwk (apply_assigns (stateUpdate st) s) =
     (if isTerminalStatus st then None else s_responseEncryptionPrivateJwk s)"
  by (simp add: stateUpdate_def)


section \<open>Usability\<close>

datatype session_not_usable = SessionNotUsable status

definition SessionNotUsable_message :: "status \<Rightarrow> string" where
  "SessionNotUsable_message reason =
     (if reason = Expired then ''The session has expired''
      else ''The session is already '' @
        (case reason of Active \<Rightarrow> ''active'' | Fetched \<Rightarrow> ''fetched'' | Completed \<Rightarrow> ''completed''
         | Expired \<Rightarrow> ''expired'' | Failed \<Rightarrow> ''failed'' | Cancelled \<Rightarrow> ''cancelled''))"

definition assertSessionUsable :: "session \<Rightarrow> date \<Rightarrow> session_not_usable + unit" where
  "assertSessionUsable s now =
     (if isTerminalStatus (s_status s) then Inl (SessionNotUsable (s_status s))
      else case s_expiresAt s of
        Some t \<Rightarrow> (if t \<le> now then Inl (SessionNotUsable Expired) else Inr ())
      | None \<Rightarrow> Inr ())"

definition session_usable :: "session \<Rightarrow> date \<Rightarrow> bool" where
  "session_usable s now \<longleftrightarrow>
     \<not> isTerminalStatus (s_status s) \<and> (\<forall>t. s_expiresAt s = Some t \<longrightarrow> now < t)"

lemma assertSessionUsable_iff:
  "assertSessionUsable s now = Inr () \<longleftrightarrow> session_usable s now"
  by (auto simp: assertSessionUsable_def session_usable_def split: option.splits)

lemma assertSessionUsable_reason:
  "assertSessionUsable s now = Inl (SessionNotUsable r) \<Longrightarrow>
     isTerminalStatus r \<and> (isTerminalStatus (s_status s) \<longrightarrow> r = s_status s)"
  by (auto simp: assertSessionUsable_def split: option.splits if_splits)


section \<open>Retention\<close>

datatype cleanup_mode = Full | Anonymize

record retention_settings =
  rs_ttlSeconds :: int
  rs_cleanupMode :: cleanup_mode

record tenant_retention =
  tr_tenantId :: string
  tr_ttlSeconds :: "int option"
  tr_cleanupMode :: "cleanup_mode option"

definition retentionForTenant ::
    "tenant_retention \<Rightarrow> retention_settings \<Rightarrow> retention_settings" where
  "retentionForTenant tenant defaults = \<lparr>
     rs_ttlSeconds = coalesce (tr_ttlSeconds tenant) (rs_ttlSeconds defaults),
     rs_cleanupMode = coalesce (tr_cleanupMode tenant) (rs_cleanupMode defaults)\<rparr>"


section \<open>Cancellation\<close>

datatype not_cancellable_reason = Reason_Status status | Reason_Redeemed

definition notCancellableReason :: "session \<Rightarrow> not_cancellable_reason" where
  "notCancellableReason s =
     (if isTerminalStatus (s_status s) then Reason_Status (s_status s)
      else if s_consumed s then Reason_Redeemed
      else Reason_Status Expired)"


section \<open>Management scope\<close>

datatype role = Role_Presentations | Role_PresentationRequest | Role_Issuances | Role_IssuanceOffer
  | Role_Clients | Role_Users | Role_Tenants | Role_TenantAdmin | Role_Registrar

text \<open>\<open>sessionScope\<close>: \<^term>\<open>Inl ()\<close> is the error thrown behind the role guards, \<open>Inr None\<close> both
  session types.\<close>

definition sessionScope :: "role list option \<Rightarrow> unit + session_type option" where
  "sessionScope token_roles =
     (let roles = coalesce token_roles [];
          issuance = Role_IssuanceOffer \<in> set roles \<or> Role_Issuances \<in> set roles;
          presentation = Role_PresentationRequest \<in> set roles \<or> Role_Presentations \<in> set roles
      in if issuance \<and> presentation then Inr None
         else if issuance then Inr (Some Issuance)
         else if presentation then Inr (Some Presentation)
         else Inl ())"

text \<open>\<open>typeWhere\<close> of the repository: presentation sessions have a \<open>requestId\<close>.\<close>

definition typeWhere :: "session_type option \<Rightarrow> session \<Rightarrow> bool" where
  "typeWhere ty s = (case ty of
       Some Issuance \<Rightarrow> s_requestId s = None
     | Some Presentation \<Rightarrow> s_requestId s \<noteq> None
     | None \<Rightarrow> True)"

definition session_type_of :: "session \<Rightarrow> session_type" where
  "session_type_of s = (if s_requestId s = None then Issuance else Presentation)"

lemma typeWhere_iff: "typeWhere ty s \<longleftrightarrow> (\<forall>t. ty = Some t \<longrightarrow> session_type_of s = t)"
  by (auto simp: typeWhere_def session_type_of_def split: option.splits session_type.splits)

end
