(* ===== verification/Session_Repository.thy ===== *)
theory Session_Repository
  imports Session_Rules
begin

text \<open>
  The TypeORM session repository (\<open>session/adapters/typeorm-session.repository.ts\<close>, the adapter of
  the port \<open>session/ports/session.repository.ts\<close>) as statements on the session table. Every
  definition is one method; \<open>now\<close> is the value of \<open>new Date()\<close> or \<open>CURRENT_TIMESTAMP\<close> the method
  reads. The listing query is in \<open>Session_Listing\<close>.
\<close>

type_synonym sessions = "session list"

section \<open>Creating and updating\<close>

text \<open>\<open>save\<close> inserts a row with a new primary key, or writes the given columns of the existing
  row.\<close>

record new_session =
  ns_id :: string
  ns_tenantId :: string
  ns_columns :: session_update

definition repo_create :: "date \<Rightarrow> new_session \<Rightarrow> sessions \<Rightarrow> session \<times> sessions" where
  "repo_create now ns db =
     (case sql_find_one (\<lambda>r. s_id r = ns_id ns) db of
        None \<Rightarrow> (let row = apply_assigns (ns_columns ns) (blank_session (ns_id ns) (ns_tenantId ns) now)
                 in (row, db @ [row]))
      | Some r \<Rightarrow>
          (let row = (set_clause now (ns_columns ns) r)\<lparr>s_tenantId := ns_tenantId ns\<rparr>
           in (row, fst (sql_update (\<lambda>x. s_id x = ns_id ns) (\<lambda>_. row) db))))"

definition updateForTenant ::
    "date \<Rightarrow> string \<Rightarrow> string \<Rightarrow> session_update \<Rightarrow> sessions \<Rightarrow> sessions \<times> nat" where
  "updateForTenant now tenantId sid u db =
     sql_update (\<lambda>r. s_tenantId r = tenantId \<and> s_id r = sid) (set_clause now u) db"

text \<open>The WHERE clause of the single-use update: the two alternatives for \<open>expiresAt\<close> are joined
  by OR.\<close>

definition unconsumed_where :: "date \<Rightarrow> string \<Rightarrow> string \<Rightarrow> session \<Rightarrow> bool" where
  "unconsumed_where now tenantId sid r =
     (let base = s_tenantId r = tenantId \<and> s_id r = sid \<and> \<not> s_consumed r
                 \<and> s_status r \<in> set OPEN_SESSION_STATUSES
      in (base \<and> s_expiresAt r = None)
         \<or> (base \<and> (case s_expiresAt r of None \<Rightarrow> False | Some t \<Rightarrow> now < t)))"

definition updateUnconsumedForTenant ::
    "date \<Rightarrow> string \<Rightarrow> string \<Rightarrow> session_update \<Rightarrow> sessions \<Rightarrow> bool \<times> sessions" where
  "updateUnconsumedForTenant now tenantId sid u db =
     (let (db', affected) = sql_update (unconsumed_where now tenantId sid) (set_clause now u) db
      in (0 < affected, db'))"

definition consumeRequestUri ::
    "date \<Rightarrow> string \<Rightarrow> string \<Rightarrow> date \<Rightarrow> date \<Rightarrow> sessions \<Rightarrow> bool \<times> sessions" where
  "consumeRequestUri stamp tenantId sid expiresAt now db =
     (if expiresAt \<le> now then (False, db)
      else let (db', affected) = sql_update
                 (\<lambda>r. s_tenantId r = tenantId \<and> s_id r = sid
                      \<and> s_request_uri_expires_at r = Some expiresAt)
                 (set_clause stamp [Set_request_uri_expires_at (Some now)]) db
           in (0 < affected, db'))"


section \<open>Finding\<close>

definition findForTenant ::
    "string \<Rightarrow> string \<Rightarrow> session_type option \<Rightarrow> sessions \<Rightarrow> session option" where
  "findForTenant tenantId sid ty db =
     sql_find_one (\<lambda>r. s_tenantId r = tenantId \<and> s_id r = sid \<and> typeWhere ty r) db"

definition findByIdForInternalFlow :: "string \<Rightarrow> sessions \<Rightarrow> session option" where
  "findByIdForInternalFlow sid db = sql_find_one (\<lambda>r. s_id r = sid) db"

definition findForWalletRequest :: "string \<Rightarrow> sessions \<Rightarrow> session option" where
  "findForWalletRequest nonce db =
     (case sql_find_one (\<lambda>r. s_walletNonce r = Some nonce) db of
        Some s \<Rightarrow> Some s
      | None \<Rightarrow> sql_find_one (\<lambda>r. s_id r = nonce) db)"

definition findIso18013Session :: "string \<Rightarrow> sessions \<Rightarrow> session option" where
  "findIso18013Session sid db =
     sql_find_one (\<lambda>r. s_id r = sid \<and> s_dcApiProtocol r = Some ''iso-18013-7'') db"

definition findByAuthorizationCode :: "string \<Rightarrow> string \<Rightarrow> sessions \<Rightarrow> session option" where
  "findByAuthorizationCode tenantId code db =
     sql_find_one (\<lambda>r. s_tenantId r = tenantId \<and> s_authorization_code r = Some code) db"

definition findByRefreshToken :: "string \<Rightarrow> string \<Rightarrow> sessions \<Rightarrow> session option" where
  "findByRefreshToken tenantId token db =
     sql_find_one (\<lambda>r. s_tenantId r = tenantId \<and> s_refresh_token r = Some token) db"

definition findByRequestUri :: "string \<Rightarrow> string \<Rightarrow> sessions \<Rightarrow> session option" where
  "findByRequestUri tenantId uri db =
     sql_find_one (\<lambda>r. s_tenantId r = tenantId \<and> s_request_uri r = Some uri) db"

record external_binding =
  eb_tenantId :: string
  eb_authorizationServerId :: string
  eb_sessionId :: string
  eb_externalIssuer :: string
  eb_externalSubject :: string

text \<open>Two statements: the lookup returns the snapshot before the update.\<close>

definition bindExternalAuthorization ::
    "date \<Rightarrow> external_binding \<Rightarrow> sessions \<Rightarrow> session option \<times> sessions" where
  "bindExternalAuthorization now b db =
     (case sql_find_one
             (\<lambda>r. s_id r = eb_sessionId b \<and> s_tenantId r = eb_tenantId b
                  \<and> s_authorizationServerId r = Some (eb_authorizationServerId b)
                  \<and> s_status r = Active) db of
        None \<Rightarrow> (None, db)
      | Some existing \<Rightarrow>
          (Some existing,
           fst (sql_update (\<lambda>r. s_id r = s_id existing \<and> s_tenantId r = eb_tenantId b)
                  (set_clause now [Set_externalIssuer (Some (eb_externalIssuer b)),
                                   Set_externalSubject (Some (eb_externalSubject b))]) db)))"

text \<open>The increment statement and the read that follows it.\<close>

definition increment_statement :: "date \<Rightarrow> string \<Rightarrow> string \<Rightarrow> sessions \<Rightarrow> sessions" where
  "increment_statement now tenantId sid db =
     fst (sql_update (\<lambda>r. s_id r = sid \<and> s_tenantId r = tenantId)
       (\<lambda>r. r\<lparr>s_txCodeFailedAttempts := s_txCodeFailedAttempts r + 1, s_updatedAt := now\<rparr>) db)"

definition read_failed_attempts :: "string \<Rightarrow> string \<Rightarrow> sessions \<Rightarrow> nat option" where
  "read_failed_attempts tenantId sid db =
     map_option s_txCodeFailedAttempts
       (sql_find_one (\<lambda>r. s_id r = sid \<and> s_tenantId r = tenantId) db)"

definition incrementFailedTxCodeAttempts ::
    "date \<Rightarrow> string \<Rightarrow> string \<Rightarrow> sessions \<Rightarrow> nat option \<times> sessions" where
  "incrementFailedTxCodeAttempts now tenantId sid db =
     (let db' = increment_statement now tenantId sid db
      in (read_failed_attempts tenantId sid db', db'))"


section \<open>Deleting and maintenance\<close>

definition deleteForTenant ::
    "string \<Rightarrow> string \<Rightarrow> session_type option \<Rightarrow> sessions \<Rightarrow> sessions" where
  "deleteForTenant tenantId sid ty db =
     fst (sql_delete (\<lambda>r. s_id r = sid \<and> s_tenantId r = tenantId \<and> typeWhere ty r) db)"

record lifecycle_context =
  lc_id :: string
  lc_tenantId :: string
  lc_requestId :: "string option"

text \<open>\<open>LessThan(before)\<close> on a nullable column: no row without a value matches.\<close>

definition overdue_where :: "date \<Rightarrow> session \<Rightarrow> bool" where
  "overdue_where before r =
     (let expired = (case s_expiresAt r of None \<Rightarrow> False | Some t \<Rightarrow> t < before)
      in (expired \<and> s_requestId r \<noteq> None \<and> s_status r \<in> set OPEN_SESSION_STATUSES)
         \<or> (expired \<and> s_requestId r = None \<and> s_status r = Active \<and> \<not> s_consumed r))"

definition findExpiredSessionsForMaintenance :: "date \<Rightarrow> sessions \<Rightarrow> lifecycle_context list" where
  "findExpiredSessionsForMaintenance before db =
     map (\<lambda>r. \<lparr>lc_id = s_id r, lc_tenantId = s_tenantId r, lc_requestId = s_requestId r\<rparr>)
       (sql_find (overdue_where before) db)"

datatype session_kind = Kind_Issuance | Kind_Verification

definition kind_of :: "session \<Rightarrow> session_kind" where
  "kind_of r = (if s_requestId r = None then Kind_Issuance else Kind_Verification)"

definition count_group :: "session \<Rightarrow> string \<times> session_kind \<times> status" where
  "count_group r = (s_tenantId r, kind_of r, s_status r)"

definition countSessionsByStatus ::
    "sessions \<Rightarrow> ((string \<times> session_kind \<times> status) \<times> nat) list" where
  "countSessionsByStatus db =
     map (\<lambda>g. (g, length (filter (\<lambda>r. count_group r = g) db))) (remdups (map count_group db))"

definition deleteSessionsCreatedBefore :: "string \<Rightarrow> date \<Rightarrow> sessions \<Rightarrow> sessions \<times> nat" where
  "deleteSessionsCreatedBefore tenantId cutoff db =
     sql_delete (\<lambda>r. s_tenantId r = tenantId \<and> s_createdAt r < cutoff) db"

definition anonymize_columns :: session_update where
  "anonymize_columns =
     [Set_credentials None, Set_credentialPayload None, Set_auth_queries None,
      Set_offer None, Set_requestObject None, Set_responseEncryptionPrivateJwk None]"

definition has_personal_data :: "session \<Rightarrow> bool" where
  "has_personal_data r \<longleftrightarrow>
     s_credentials r \<noteq> None \<or> s_credentialPayload r \<noteq> None \<or> s_auth_queries r \<noteq> None
     \<or> s_offer r \<noteq> None \<or> s_requestObject r \<noteq> None \<or> s_responseEncryptionPrivateJwk r \<noteq> None"

definition anonymizeSessionsCreatedBefore ::
    "date \<Rightarrow> string \<Rightarrow> date \<Rightarrow> sessions \<Rightarrow> sessions \<times> nat" where
  "anonymizeSessionsCreatedBefore now tenantId cutoff db =
     sql_update (\<lambda>r. s_tenantId r = tenantId \<and> s_createdAt r < cutoff \<and> has_personal_data r)
       (set_clause now anonymize_columns) db"

definition deleteOrphanedSessionsCreatedBefore ::
    "string list \<Rightarrow> date \<Rightarrow> sessions \<Rightarrow> sessions \<times> nat" where
  "deleteOrphanedSessionsCreatedBefore knownTenantIds cutoff db =
     (if knownTenantIds = [] then (db, 0)
      else sql_delete (\<lambda>r. s_tenantId r \<notin> set knownTenantIds \<and> s_createdAt r < cutoff) db)"


section \<open>Status changes and the credential offer\<close>

definition repo_changeState ::
    "date \<Rightarrow> string \<Rightarrow> string \<Rightarrow> session_update \<Rightarrow> sessions \<Rightarrow> sessions" where
  "repo_changeState now tenantId sid u db =
     fst (sql_update (\<lambda>r. s_id r = sid \<and> s_tenantId r = tenantId) (set_clause now u) db)"

definition repo_changeStateFrom ::
    "date \<Rightarrow> string \<Rightarrow> string \<Rightarrow> status list \<Rightarrow> session_update \<Rightarrow> sessions \<Rightarrow> bool \<times> sessions" where
  "repo_changeStateFrom now tenantId sid from_statuses u db =
     (if from_statuses = [] then (False, db)
      else let (db', affected) = sql_update
                 (\<lambda>r. s_id r = sid \<and> s_tenantId r = tenantId \<and> s_status r \<in> set from_statuses)
                 (set_clause now u) db
           in (0 < affected, db'))"

record credential_offer_view =
  co_offer :: "json option"
  co_status :: status
  co_expiresAt :: "date option"

definition repo_findCredentialOffer ::
    "string \<Rightarrow> string \<Rightarrow> sessions \<Rightarrow> credential_offer_view option" where
  "repo_findCredentialOffer tenantId sid db =
     map_option (\<lambda>r. \<lparr>co_offer = s_offer r, co_status = s_status r, co_expiresAt = s_expiresAt r\<rparr>)
       (sql_find_one (\<lambda>r. s_id r = sid \<and> s_tenantId r = tenantId) db)"

definition repo_consumeCredentialOffer ::
    "date \<Rightarrow> string \<Rightarrow> string \<Rightarrow> sessions \<Rightarrow> bool \<times> sessions" where
  "repo_consumeCredentialOffer now tenantId sid db =
     (let (db', affected) = sql_update
            (\<lambda>r. s_id r = sid \<and> s_tenantId r = tenantId \<and> s_offer r \<noteq> None)
            (\<lambda>r. r\<lparr>s_offer := None, s_consumedAt := Some (coalesce (s_consumedAt r) now),
                   s_updatedAt := now\<rparr>) db
      in (0 < affected, db'))"

end
