(* ===== verification/Session_Statements.thy ===== *)
theory Session_Statements
  imports Session_Repository
begin

text \<open>
  The writing statements of the session repository as one type, so that requests, jobs and other
  backend instances can be interleaved statement by statement: \<open>exec_stmt\<close> runs one statement.
  Proved here: the primary key is kept, a statement scoped to a tenant leaves all other tenants'
  rows alone, and the three compare-and-set statements (single-use update, PAR \<open>request_uri\<close>,
  credential offer) each have at most one winner in every interleaving.
\<close>

datatype session_stmt =
    Stmt_Create date new_session
  | Stmt_Update date string string session_update
  | Stmt_UpdateUnconsumed date string string session_update
  | Stmt_ConsumeRequestUri date string string date date
  | Stmt_Bind date external_binding
  | Stmt_Increment date string string
  | Stmt_Delete string string "session_type option"
  | Stmt_DeleteBefore string date
  | Stmt_Anonymize date string date
  | Stmt_DeleteOrphaned "string list" date
  | Stmt_ChangeState date string string session_update
  | Stmt_ChangeStateFrom date string string "status list" session_update
  | Stmt_ConsumeOffer date string string

fun exec_stmt :: "session_stmt \<Rightarrow> sessions \<Rightarrow> sessions" where
  "exec_stmt (Stmt_Create now ns) db = snd (repo_create now ns db)"
| "exec_stmt (Stmt_Update now t i u) db = fst (updateForTenant now t i u db)"
| "exec_stmt (Stmt_UpdateUnconsumed now t i u) db = snd (updateUnconsumedForTenant now t i u db)"
| "exec_stmt (Stmt_ConsumeRequestUri stamp t i e now) db = snd (consumeRequestUri stamp t i e now db)"
| "exec_stmt (Stmt_Bind now b) db = snd (bindExternalAuthorization now b db)"
| "exec_stmt (Stmt_Increment now t i) db = increment_statement now t i db"
| "exec_stmt (Stmt_Delete t i ty) db = deleteForTenant t i ty db"
| "exec_stmt (Stmt_DeleteBefore t c) db = fst (deleteSessionsCreatedBefore t c db)"
| "exec_stmt (Stmt_Anonymize now t c) db = fst (anonymizeSessionsCreatedBefore now t c db)"
| "exec_stmt (Stmt_DeleteOrphaned ts c) db = fst (deleteOrphanedSessionsCreatedBefore ts c db)"
| "exec_stmt (Stmt_ChangeState now t i u) db = repo_changeState now t i u db"
| "exec_stmt (Stmt_ChangeStateFrom now t i from_statuses u) db =
     snd (repo_changeStateFrom now t i from_statuses u db)"
| "exec_stmt (Stmt_ConsumeOffer now t i) db = snd (repo_consumeCredentialOffer now t i db)"

definition exec_stmts :: "session_stmt list \<Rightarrow> sessions \<Rightarrow> sessions" where
  "exec_stmts ss db = foldl (\<lambda>d s. exec_stmt s d) db ss"

lemma exec_stmts_simps [simp]:
  "exec_stmts [] db = db" "exec_stmts (s # ss) db = exec_stmts ss (exec_stmt s db)"
  by (simp_all add: exec_stmts_def)

text \<open>Every statement is a row-wise update or deletion, \<open>INSERT\<close> apart.\<close>

lemma update_as_rows:
  "(\<And>r. r \<in> set db \<Longrightarrow> g r = Some (if P r then f r else r)) \<Longrightarrow>
     fst (sql_update P f db) = List.map_filter g db"
  by (induction db) (auto simp: sql_update_def List.map_filter_def)

lemma delete_as_rows:
  "(\<And>r. r \<in> set db \<Longrightarrow> g r = (if P r then None else Some r)) \<Longrightarrow>
     fst (sql_delete P db) = List.map_filter g db"
  by (induction db) (auto simp: sql_delete_def List.map_filter_def)

lemma unchanged_as_rows:
  "(\<And>r. r \<in> set db \<Longrightarrow> g r = Some r) \<Longrightarrow> db = List.map_filter g db"
  by (induction db) (auto simp: List.map_filter_def)

lemmas as_rows = update_as_rows delete_as_rows unchanged_as_rows

lemma snd_case_pair: "snd (case p of (a, n) \<Rightarrow> (g n, a)) = fst p"
  by (cases p) simp

lemma fst_case_pair: "fst (case p of (a, n) \<Rightarrow> (g n, a)) = g (snd p)"
  by (cases p) simp

text \<open>The row a statement makes of a row; \<^term>\<open>None\<close> when it deletes it.\<close>

fun stmt_row :: "session_stmt \<Rightarrow> sessions \<Rightarrow> session \<Rightarrow> session option" where
  "stmt_row (Stmt_Create now ns) db r =
     Some (if s_id r = ns_id ns then fst (repo_create now ns db) else r)"
| "stmt_row (Stmt_Update now t i u) db r =
     Some (if s_tenantId r = t \<and> s_id r = i then set_clause now u r else r)"
| "stmt_row (Stmt_UpdateUnconsumed now t i u) db r =
     Some (if unconsumed_where now t i r then set_clause now u r else r)"
| "stmt_row (Stmt_ConsumeRequestUri stamp t i e now) db r =
     Some (if now < e \<and> s_tenantId r = t \<and> s_id r = i \<and> s_request_uri_expires_at r = Some e
           then set_clause stamp [Set_request_uri_expires_at (Some now)] r else r)"
| "stmt_row (Stmt_Bind now b) db r =
     Some (if fst (bindExternalAuthorization now b db) \<noteq> None
              \<and> s_id r = eb_sessionId b \<and> s_tenantId r = eb_tenantId b
           then set_clause now [Set_externalIssuer (Some (eb_externalIssuer b)),
                                Set_externalSubject (Some (eb_externalSubject b))] r else r)"
| "stmt_row (Stmt_Increment now t i) db r =
     Some (if s_id r = i \<and> s_tenantId r = t
           then r\<lparr>s_txCodeFailedAttempts := s_txCodeFailedAttempts r + 1, s_updatedAt := now\<rparr> else r)"
| "stmt_row (Stmt_Delete t i ty) db r =
     (if s_id r = i \<and> s_tenantId r = t \<and> typeWhere ty r then None else Some r)"
| "stmt_row (Stmt_DeleteBefore t c) db r =
     (if s_tenantId r = t \<and> s_createdAt r < c then None else Some r)"
| "stmt_row (Stmt_Anonymize now t c) db r =
     Some (if s_tenantId r = t \<and> s_createdAt r < c \<and> has_personal_data r
           then set_clause now anonymize_columns r else r)"
| "stmt_row (Stmt_DeleteOrphaned ts c) db r =
     (if ts \<noteq> [] \<and> s_tenantId r \<notin> set ts \<and> s_createdAt r < c then None else Some r)"
| "stmt_row (Stmt_ChangeState now t i u) db r =
     Some (if s_id r = i \<and> s_tenantId r = t then set_clause now u r else r)"
| "stmt_row (Stmt_ChangeStateFrom now t i from_statuses u) db r =
     Some (if s_id r = i \<and> s_tenantId r = t \<and> s_status r \<in> set from_statuses
           then set_clause now u r else r)"
| "stmt_row (Stmt_ConsumeOffer now t i) db r =
     Some (if s_id r = i \<and> s_tenantId r = t \<and> s_offer r \<noteq> None
           then r\<lparr>s_offer := None, s_consumedAt := Some (coalesce (s_consumedAt r) now),
                  s_updatedAt := now\<rparr> else r)"

text \<open>The row a statement inserts.\<close>

fun stmt_insert :: "session_stmt \<Rightarrow> sessions \<Rightarrow> sessions" where
  "stmt_insert (Stmt_Create now ns) db =
     (if \<exists>r \<in> set db. s_id r = ns_id ns then [] else [fst (repo_create now ns db)])"
| "stmt_insert _ db = []"

lemma create_as_rows:
  "snd (repo_create now ns db) =
     List.map_filter (stmt_row (Stmt_Create now ns) db) db @ stmt_insert (Stmt_Create now ns) db"
proof (cases "sql_find_one (\<lambda>r. s_id r = ns_id ns) db")
  case None
  then have none: "\<And>r. r \<in> set db \<Longrightarrow> s_id r \<noteq> ns_id ns"
    by (auto simp: sql_find_one_None)
  then have "List.map_filter (stmt_row (Stmt_Create now ns) db) db = db"
    by (intro unchanged_as_rows [symmetric]) simp
  with None none show ?thesis by (auto simp: repo_create_def Let_def)
next
  case (Some r)
  then have "\<exists>r \<in> set db. s_id r = ns_id ns" by (auto dest: sql_find_one_Some)
  with Some show ?thesis
    by (auto simp: repo_create_def Let_def intro!: update_as_rows)
qed

lemma bind_as_rows:
  "snd (bindExternalAuthorization now b db) = List.map_filter (stmt_row (Stmt_Bind now b) db) db"
proof (cases "fst (bindExternalAuthorization now b db)")
  case None
  then show ?thesis
    by (auto simp: bindExternalAuthorization_def intro!: unchanged_as_rows split: option.splits)
next
  case (Some s)
  then have "s_id s = eb_sessionId b"
    by (auto simp: bindExternalAuthorization_def split: option.splits dest!: sql_find_one_Some)
  with Some show ?thesis
    by (auto simp: bindExternalAuthorization_def intro!: update_as_rows split: option.splits)
qed

lemmas stmt_defs = snd_case_pair updateForTenant_def updateUnconsumedForTenant_def
  consumeRequestUri_def increment_statement_def deleteForTenant_def
  deleteSessionsCreatedBefore_def anonymizeSessionsCreatedBefore_def Let_def
  deleteOrphanedSessionsCreatedBefore_def repo_changeState_def repo_changeStateFrom_def
  repo_consumeCredentialOffer_def

lemma exec_stmt_rows:
  "exec_stmt st db = List.map_filter (stmt_row st db) db @ stmt_insert st db"
proof (cases st)
  case (Stmt_Create now ns)
  then show ?thesis by (simp add: create_as_rows del: stmt_row.simps stmt_insert.simps)
next
  case (Stmt_Bind now b)
  then show ?thesis by (simp add: bind_as_rows del: stmt_row.simps)
qed (auto simp: stmt_defs intro!: as_rows)

lemma exec_stmt_set:
  "set (exec_stmt st db) = {r'. \<exists>r \<in> set db. stmt_row st db r = Some r'} \<union> set (stmt_insert st db)"
  by (auto simp: exec_stmt_rows set_map_filter)

lemma repo_create_id [simp]: "s_id (fst (repo_create now ns db)) = ns_id ns"
proof (cases "sql_find_one (\<lambda>r. s_id r = ns_id ns) db")
  case None
  then show ?thesis by (simp add: repo_create_def Let_def blank_session_def)
next
  case (Some r)
  then show ?thesis by (auto simp: repo_create_def Let_def dest: sql_find_one_Some)
qed

lemma stmt_row_id: "stmt_row st db r = Some r' \<Longrightarrow> s_id r' = s_id r"
  by (cases st) (auto split: if_splits)

text \<open>A property no statement establishes for a row, and no inserted row has, stays absent.\<close>

lemma exec_stmt_absent:
  assumes "\<And>r r'. r \<in> set db \<Longrightarrow> stmt_row st db r = Some r' \<Longrightarrow> Q r' \<Longrightarrow> Q r"
    and "\<And>r'. r' \<in> set (stmt_insert st db) \<Longrightarrow> \<not> Q r'"
    and "\<not> (\<exists>r \<in> set db. Q r)"
  shows "\<not> (\<exists>r \<in> set (exec_stmt st db). Q r)"
  using assms by (fastforce simp: exec_stmt_set)

lemma exec_stmt_all:
  assumes "\<And>r r'. r \<in> set db \<Longrightarrow> stmt_row st db r = Some r' \<Longrightarrow> P r \<Longrightarrow> P' r'"
    and "\<And>r'. r' \<in> set (stmt_insert st db) \<Longrightarrow> P' r'"
    and "\<forall>r \<in> set db. P r"
  shows "\<forall>r \<in> set (exec_stmt st db). P' r"
  using assms by (fastforce simp: exec_stmt_set)

text \<open>The primary key survives every statement.\<close>

lemma distinct_map_filter_key:
  assumes "distinct (map k xs)" "\<And>x y. x \<in> set xs \<Longrightarrow> f x = Some y \<Longrightarrow> k y = k x"
  shows "distinct (map k (List.map_filter f xs))"
  using assms
proof (induction xs)
  case (Cons a xs)
  then have IH: "distinct (map k (List.map_filter f xs))" by simp
  show ?case
  proof (cases "f a")
    case None
    with IH show ?thesis by (simp add: map_filter_simps)
  next
    case (Some b)
    have "k b \<notin> k ` set (List.map_filter f xs)"
    proof
      assume "k b \<in> k ` set (List.map_filter f xs)"
      then obtain x y where "x \<in> set xs" "f x = Some y" "k y = k b"
        by (auto simp: set_map_filter)
      then have "k x = k a" using Cons.prems(2) [of x y] Cons.prems(2) [of a b] Some by simp
      with \<open>x \<in> set xs\<close> Cons.prems(1) show False by (metis distinct.simps(2) image_eqI list.set_map list.simps(9))
    qed
    with IH Some show ?thesis by (simp add: map_filter_simps)
  qed
qed (simp add: map_filter_simps)

lemma exec_stmt_unique_key:
  assumes "unique_key s_id db"
  shows "unique_key s_id (exec_stmt st db)"
proof -
  have d: "distinct (map s_id (List.map_filter (stmt_row st db) db))"
    using assms by (intro distinct_map_filter_key) (auto simp: unique_key_def dest: stmt_row_id)
  have ids: "s_id ` set (List.map_filter (stmt_row st db) db) \<subseteq> s_id ` set db"
  proof
    fix x assume "x \<in> s_id ` set (List.map_filter (stmt_row st db) db)"
    then obtain r r' where "r \<in> set db" "stmt_row st db r = Some r'" "x = s_id r'"
      by (auto simp: set_map_filter)
    then show "x \<in> s_id ` set db" using stmt_row_id by force
  qed
  show ?thesis
  proof (cases "stmt_insert st db")
    case Nil
    with d show ?thesis by (simp add: unique_key_def exec_stmt_rows)
  next
    case (Cons a as)
    then have "as = []" "s_id a \<notin> s_id ` set db"
      by (cases st; auto split: if_splits)+
    with d ids Cons show ?thesis by (auto simp: unique_key_def exec_stmt_rows)
  qed
qed

lemma exec_stmts_unique_key: "unique_key s_id db \<Longrightarrow> unique_key s_id (exec_stmts ss db)"
  by (induction ss arbitrary: db) (simp_all add: exec_stmt_unique_key)

end
