(* ===== verification/Session_Guarantees.thy ===== *)
theory Session_Guarantees
  imports Session_Statements
begin

text \<open>
  What the session repository guarantees its callers, whatever other requests, jobs and backend
  instances run in between: tenant isolation, one winner of every compare-and-set, final statuses,
  no lost \<open>tx_code\<close> attempts, and the retention operations.
\<close>

section \<open>Tenant isolation\<close>

text \<open>The tenant a statement is scoped to; creation and the cross-tenant jobs have none.\<close>

fun stmt_tenant :: "session_stmt \<Rightarrow> string option" where
  "stmt_tenant (Stmt_Create now ns) = None"
| "stmt_tenant (Stmt_Update now t i u) = Some t"
| "stmt_tenant (Stmt_UpdateUnconsumed now t i u) = Some t"
| "stmt_tenant (Stmt_ConsumeRequestUri stamp t i e now) = Some t"
| "stmt_tenant (Stmt_Bind now b) = Some (eb_tenantId b)"
| "stmt_tenant (Stmt_Increment now t i) = Some t"
| "stmt_tenant (Stmt_Delete t i ty) = Some t"
| "stmt_tenant (Stmt_DeleteBefore t c) = Some t"
| "stmt_tenant (Stmt_Anonymize now t c) = Some t"
| "stmt_tenant (Stmt_DeleteOrphaned ts c) = None"
| "stmt_tenant (Stmt_ChangeState now t i u) = Some t"
| "stmt_tenant (Stmt_ChangeStateFrom now t i from_statuses u) = Some t"
| "stmt_tenant (Stmt_ConsumeOffer now t i) = Some t"

lemma unconsumed_where_iff:
  "unconsumed_where now t i r \<longleftrightarrow>
     s_tenantId r = t \<and> s_id r = i \<and> \<not> s_consumed r \<and> session_usable r now"
  by (cases "s_status r") (auto simp: unconsumed_where_def session_usable_def Let_def split: option.splits)

lemma stmt_row_other_tenant:
  "stmt_tenant st = Some t \<Longrightarrow> s_tenantId r \<noteq> t \<Longrightarrow> stmt_row st db r = Some r"
  by (cases st) (auto simp: unconsumed_where_iff)

lemma stmt_row_tenant:
  "stmt_tenant st = Some t \<Longrightarrow> stmt_row st db r = Some r' \<Longrightarrow> s_tenantId r' = s_tenantId r"
  by (cases st) (auto split: if_splits)

lemma stmt_insert_scoped: "stmt_tenant st = Some t \<Longrightarrow> stmt_insert st db = []"
  by (cases st) auto

lemma exec_stmt_other_tenants:
  assumes "stmt_tenant st = Some t"
  shows "filter (\<lambda>r. s_tenantId r \<noteq> t) (exec_stmt st db) = filter (\<lambda>r. s_tenantId r \<noteq> t) db"
proof -
  have "filter (\<lambda>r. s_tenantId r \<noteq> t) (List.map_filter (stmt_row st db) db)
          = filter (\<lambda>r. s_tenantId r \<noteq> t) db"
    using stmt_row_other_tenant [OF assms] stmt_row_tenant [OF assms]
    by (intro filter_map_filter_frame) auto
  then show ?thesis by (simp add: exec_stmt_rows stmt_insert_scoped [OF assms])
qed

lemma exec_stmts_other_tenants:
  "list_all (\<lambda>st. stmt_tenant st = Some t) ss \<Longrightarrow>
     filter (\<lambda>r. s_tenantId r \<noteq> t) (exec_stmts ss db) = filter (\<lambda>r. s_tenantId r \<noteq> t) db"
  by (induction ss arbitrary: db) (simp_all add: exec_stmt_other_tenants)

lemma findForTenant_iff:
  assumes "unique_key s_id db"
  shows "findForTenant t i ty db = Some s \<longleftrightarrow>
    s \<in> set db \<and> s_tenantId s = t \<and> s_id s = i \<and> typeWhere ty s"
proof
  assume "findForTenant t i ty db = Some s"
  then show "s \<in> set db \<and> s_tenantId s = t \<and> s_id s = i \<and> typeWhere ty s"
    by (auto simp: findForTenant_def dest: sql_find_one_Some)
next
  assume "s \<in> set db \<and> s_tenantId s = t \<and> s_id s = i \<and> typeWhere ty s"
  then show "findForTenant t i ty db = Some s"
    unfolding findForTenant_def by (intro sql_find_one_unique [OF assms]) auto
qed


section \<open>Single use of a session\<close>

text \<open>An update that uses the session up: it consumes it or ends it.\<close>

definition spending :: "session_update \<Rightarrow> bool" where
  "spending u = (final_consumed u = Some True
     \<or> (case final_status u of None \<Rightarrow> False | Some st \<Rightarrow> isTerminalStatus st))"

text \<open>An update that cannot make a used session usable again.\<close>

definition keeps_spent :: "session_update \<Rightarrow> bool" where
  "keeps_spent u = (final_consumed u \<noteq> Some False
     \<and> (case final_status u of None \<Rightarrow> True | Some st \<Rightarrow> isTerminalStatus st))"

definition spent :: "session \<Rightarrow> bool" where
  "spent r \<longleftrightarrow> s_consumed r \<or> isTerminalStatus (s_status r)"

definition session_live :: "string \<Rightarrow> string \<Rightarrow> sessions \<Rightarrow> bool" where
  "session_live t i db \<longleftrightarrow> (\<exists>r \<in> set db. s_tenantId r = t \<and> s_id r = i \<and> \<not> spent r)"

text \<open>Statements that never reopen session \<open>i\<close> of tenant \<open>t\<close>. Every caller in the repository is
  of this form: identifiers are fresh, updates leave \<open>consumed\<close> and \<open>status\<close> alone, the
  unconditional status change sets a terminal status, and compare-and-set status changes start
  from open statuses.\<close>

fun never_reopens :: "string \<Rightarrow> string \<Rightarrow> session_stmt \<Rightarrow> bool" where
  "never_reopens t i (Stmt_Create now ns) = (ns_id ns \<noteq> i)"
| "never_reopens t i (Stmt_Update now t' i' u) = (t' = t \<and> i' = i \<longrightarrow> keeps_spent u)"
| "never_reopens t i (Stmt_ChangeState now t' i' u) = (t' = t \<and> i' = i \<longrightarrow> keeps_spent u)"
| "never_reopens t i (Stmt_ChangeStateFrom now t' i' from_statuses u) =
     (t' = t \<and> i' = i \<longrightarrow> final_consumed u \<noteq> Some False
        \<and> (keeps_spent u \<or> list_all (\<lambda>st. \<not> isTerminalStatus st) from_statuses))"
| "never_reopens t i _ = True"

lemma spending_spent: "spending u \<Longrightarrow> spent (set_clause now u r)"
  by (auto simp: spending_def spent_def set_clause_status set_clause_consumed split: option.splits)

lemma keeps_spent_spent: "keeps_spent u \<Longrightarrow> spent r \<Longrightarrow> spent (set_clause now u r)"
  by (auto simp: keeps_spent_def spent_def set_clause_status set_clause_consumed coalesce_def
      split: option.splits)

lemma keeps_spent_columns:
  "keeps_spent [Set_request_uri_expires_at v]"
  "keeps_spent [Set_externalIssuer x, Set_externalSubject y]"
  "keeps_spent anonymize_columns"
  "keeps_spent (stateUpdate st) \<longleftrightarrow> isTerminalStatus st"
  by (simp_all add: keeps_spent_def anonymize_columns_def stateUpdate_def)

lemma spent_frame [simp]:
  "spent (r\<lparr>s_txCodeFailedAttempts := n, s_updatedAt := d\<rparr>) = spent r"
  "spent (r\<lparr>s_offer := v, s_consumedAt := w, s_updatedAt := d\<rparr>) = spent r"
  by (simp_all add: spent_def)

lemma unconsumed_where_not_spent: "unconsumed_where now t i r \<Longrightarrow> \<not> spent r"
  by (auto simp: unconsumed_where_iff session_usable_def spent_def)

lemma stmt_row_spent:
  assumes "never_reopens t i st" "s_tenantId r = t" "s_id r = i" "spent r" "stmt_row st db r = Some r'"
  shows "spent r'"
proof (cases st)
  case (Stmt_ChangeStateFrom now t' i' from_statuses u)
  show ?thesis
  proof (cases "t' = t \<and> i' = i \<and> s_status r \<in> set from_statuses")
    case True
    with assms Stmt_ChangeStateFrom have "keeps_spent u \<or> s_consumed r" "final_consumed u \<noteq> Some False"
      by (auto simp: list_all_iff spent_def)
    moreover have "r' = set_clause now u r" using assms Stmt_ChangeStateFrom True by auto
    ultimately show ?thesis
      using keeps_spent_spent [OF _ assms(4), of u now]
      by (cases "final_consumed u") (auto simp: spent_def set_clause_consumed)
  next
    case False
    with assms Stmt_ChangeStateFrom show ?thesis by (auto split: if_splits)
  qed
qed (use assms in \<open>auto simp: keeps_spent_spent keeps_spent_columns
    dest: unconsumed_where_not_spent split: if_splits\<close>)

lemma exec_stmt_not_live:
  assumes "never_reopens t i st" "\<not> session_live t i db"
  shows "\<not> session_live t i (exec_stmt st db)"
proof
  assume "session_live t i (exec_stmt st db)"
  then obtain r' where r': "r' \<in> set (exec_stmt st db)" "s_tenantId r' = t" "s_id r' = i" "\<not> spent r'"
    by (auto simp: session_live_def)
  have "r' \<notin> set (stmt_insert st db)"
    using assms(1) r'(3) by (cases st) (auto split: if_splits)
  then obtain r where r: "r \<in> set db" "stmt_row st db r = Some r'"
    using r'(1) by (auto simp: exec_stmt_set)
  have "s_id r = i" using stmt_row_id [OF r(2)] r'(3) by simp
  moreover have "s_tenantId r = t"
  proof (cases "stmt_tenant st")
    case None
    then show ?thesis using r(2) r'(2) \<open>s_id r = i\<close> assms(1) by (cases st) (auto split: if_splits)
  next
    case (Some t')
    then show ?thesis using stmt_row_tenant [OF Some r(2)] r'(2) by simp
  qed
  moreover have "spent r" using assms(2) r(1) calculation by (auto simp: session_live_def)
  ultimately show False using stmt_row_spent [OF assms(1) _ _ _ r(2)] r'(4) by simp
qed

definition claim_session :: "string \<Rightarrow> string \<Rightarrow> date \<times> session_update \<Rightarrow> sessions \<Rightarrow> bool \<times> sessions" where
  "claim_session t i c db = updateUnconsumedForTenant (fst c) t i (snd c) db"

lemma claim_session_won:
  "fst (claim_session t i c db) \<longleftrightarrow> (\<exists>r \<in> set db. unconsumed_where (fst c) t i r)"
  by (simp add: claim_session_def updateUnconsumedForTenant_def fst_case_pair sql_update_affected)

lemma claim_session_exec:
  "snd (claim_session t i c db) = exec_stmt (Stmt_UpdateUnconsumed (fst c) t i (snd c)) db"
  by (simp add: claim_session_def)

interpretation session_use: single_use "claim_session t i" exec_stmt "\<lambda>c. spending (snd c)"
  "never_reopens t i" "unique_key s_id" "session_live t i" for t i
proof unfold_locales
  fix db c
  assume inv: "unique_key s_id db" and sp: "spending (snd c)" and won: "fst (claim_session t i c db)"
  from won obtain r where r: "r \<in> set db" "unconsumed_where (fst c) t i r"
    by (auto simp: claim_session_won)
  then show "session_live t i db"
    using unconsumed_where_not_spent [OF r(2)] by (auto simp: session_live_def unconsumed_where_iff)
  show "\<not> session_live t i (snd (claim_session t i c db))"
  proof
    assume "session_live t i (snd (claim_session t i c db))"
    then obtain x' x where x': "s_id x' = i" "\<not> spent x'" and x: "x \<in> set db"
        "x' = (if unconsumed_where (fst c) t i x then set_clause (fst c) (snd c) x else x)"
      unfolding session_live_def claim_session_exec exec_stmt_set by auto
    then have "\<not> unconsumed_where (fst c) t i x" using spending_spent [OF sp] by auto
    moreover have "x = r" using x x' r inv calculation
      by (auto simp: unique_key_def distinct_map unconsumed_where_iff dest: inj_onD)
    ultimately show False using r(2) by simp
  qed
next
  fix db c
  assume "\<not> session_live t i db"
  then show "\<not> session_live t i (snd (claim_session t i c db))"
    unfolding claim_session_exec by (intro exec_stmt_not_live) simp_all
qed (simp_all add: claim_session_exec exec_stmt_unique_key exec_stmt_not_live del: exec_stmt.simps)

lemma exec_stmts_not_live:
  "list_all (never_reopens t i) ss \<Longrightarrow> \<not> session_live t i db \<Longrightarrow> \<not> session_live t i (exec_stmts ss db)"
  by (induction ss arbitrary: db) (simp_all add: exec_stmt_not_live del: exec_stmt.simps)

text \<open>An update the store refuses leaves the table alone.\<close>

lemma claim_session_dead:
  "\<not> session_live t i db \<Longrightarrow> updateUnconsumedForTenant now t i u db = (False, db)"
proof -
  assume "\<not> session_live t i db"
  then have "\<forall>r \<in> set db. \<not> unconsumed_where now t i r"
    by (auto simp: session_live_def unconsumed_where_iff spent_def session_usable_def)
  then show ?thesis by (simp add: updateUnconsumedForTenant_def sql_update_none)
qed

lemma claim_session_refused:
  "\<not> fst (updateUnconsumedForTenant now t i u db) \<Longrightarrow> updateUnconsumedForTenant now t i u db = (False, db)"
proof -
  assume "\<not> fst (updateUnconsumedForTenant now t i u db)"
  then have "\<forall>r \<in> set db. \<not> unconsumed_where now t i r"
    by (simp add: updateUnconsumedForTenant_def fst_case_pair sql_update_affected del: not_gr_zero)
  then show ?thesis by (simp add: updateUnconsumedForTenant_def sql_update_none)
qed

lemma claim_session_accepted:
  "fst (updateUnconsumedForTenant now t i u db) \<Longrightarrow>
     updateUnconsumedForTenant now t i u db =
       (True, map (\<lambda>r. if unconsumed_where now t i r then set_clause now u r else r) db)"
  by (simp add: updateUnconsumedForTenant_def sql_update_def)

section \<open>Single use of a PAR request URI and of a credential offer\<close>

definition claim_request_uri :: "string \<Rightarrow> string \<Rightarrow> date \<Rightarrow> date \<times> date \<Rightarrow> sessions \<Rightarrow> bool \<times> sessions" where
  "claim_request_uri t i e c db = consumeRequestUri (fst c) t i e (snd c) db"

definition request_uri_live :: "string \<Rightarrow> string \<Rightarrow> date \<Rightarrow> sessions \<Rightarrow> bool" where
  "request_uri_live t i e db \<longleftrightarrow>
     (\<exists>r \<in> set db. s_tenantId r = t \<and> s_id r = i \<and> s_request_uri_expires_at r = Some e)"

lemma claim_request_uri_exec:
  "snd (claim_request_uri t i e c db) = exec_stmt (Stmt_ConsumeRequestUri (fst c) t i e (snd c)) db"
  by (simp add: claim_request_uri_def)

lemma claim_request_uri_won:
  "fst (claim_request_uri t i e c db) \<longleftrightarrow> snd c < e \<and> request_uri_live t i e db"
  by (auto simp: claim_request_uri_def consumeRequestUri_def request_uri_live_def Let_def
      fst_case_pair sql_update_affected)

lemma claim_request_uri_spends:
  assumes "fst (claim_request_uri t i e c db)"
  shows "\<not> request_uri_live t i e (snd (claim_request_uri t i e c db))"
  using assms by (auto simp: claim_request_uri_won claim_request_uri_exec exec_stmt_set
      request_uri_live_def set_clause_def simp del: exec_stmt.simps split: if_splits)

lemma claim_request_uri_dead:
  assumes "\<not> request_uri_live t i e db"
  shows "\<not> request_uri_live t i e (snd (claim_request_uri t i e c db))"
  using assms by (auto simp: claim_request_uri_exec exec_stmt_set
      request_uri_live_def simp del: exec_stmt.simps split: if_splits)

text \<open>Other statements of the program, restricted to those that do not store the very same expiry
  time under the same session again (a new pushed request does so only within the same
  millisecond).\<close>

fun sets_uri_expiry :: "date \<Rightarrow> assign \<Rightarrow> bool" where
  "sets_uri_expiry e (Set_request_uri_expires_at v) = (v = Some e)"
| "sets_uri_expiry e _ = False"

fun no_new_expiry :: "string \<Rightarrow> string \<Rightarrow> date \<Rightarrow> session_stmt \<Rightarrow> bool" where
  "no_new_expiry t i e (Stmt_Create now ns) = (ns_id ns \<noteq> i)"
| "no_new_expiry t i e (Stmt_Update now t' i' u) =
     (t' = t \<and> i' = i \<longrightarrow> list_all (\<lambda>a. \<not> sets_uri_expiry e a) u)"
| "no_new_expiry t i e (Stmt_UpdateUnconsumed now t' i' u) =
     (t' = t \<and> i' = i \<longrightarrow> list_all (\<lambda>a. \<not> sets_uri_expiry e a) u)"
| "no_new_expiry t i e (Stmt_ConsumeRequestUri stamp t' i' e' now) = (t' = t \<and> i' = i \<longrightarrow> now \<noteq> e)"
| "no_new_expiry t i e (Stmt_ChangeState now t' i' u) =
     (t' = t \<and> i' = i \<longrightarrow> list_all (\<lambda>a. \<not> sets_uri_expiry e a) u)"
| "no_new_expiry t i e (Stmt_ChangeStateFrom now t' i' from_statuses u) =
     (t' = t \<and> i' = i \<longrightarrow> list_all (\<lambda>a. \<not> sets_uri_expiry e a) u)"
| "no_new_expiry t i e _ = True"

lemma apply_assigns_expiry:
  "list_all (\<lambda>a. \<not> sets_uri_expiry e a) u \<Longrightarrow>
     s_request_uri_expires_at (apply_assigns u r) = Some e \<Longrightarrow> s_request_uri_expires_at r = Some e"
proof (induction u arbitrary: r)
  case (Cons a u)
  then have "s_request_uri_expires_at (apply_assign a r) = Some e" by simp
  with Cons.prems(1) show ?case by (cases a) auto
qed simp

lemma stmt_row_expiry:
  assumes "no_new_expiry t i e st" "stmt_row st db r = Some r'"
    and "s_tenantId r' = t \<and> s_id r' = i \<and> s_request_uri_expires_at r' = Some e"
  shows "s_tenantId r = t \<and> s_id r = i \<and> s_request_uri_expires_at r = Some e"
  using assms
  by (cases st) (auto simp: unconsumed_where_iff set_clause_def anonymize_columns_def
      split: if_splits dest: apply_assigns_expiry)

lemma exec_stmt_no_new_expiry:
  assumes "no_new_expiry t i e st" "\<not> request_uri_live t i e db"
  shows "\<not> request_uri_live t i e (exec_stmt st db)"
  unfolding request_uri_live_def
proof (rule exec_stmt_absent)
  show "\<not> (s_tenantId r' = t \<and> s_id r' = i \<and> s_request_uri_expires_at r' = Some e)"
    if "r' \<in> set (stmt_insert st db)" for r'
    using assms(1) that by (cases st) (auto split: if_splits)
  show "\<not> (\<exists>r \<in> set db. s_tenantId r = t \<and> s_id r = i \<and> s_request_uri_expires_at r = Some e)"
    using assms(2) by (simp add: request_uri_live_def)
qed (rule stmt_row_expiry [OF assms(1)])

interpretation request_uri_use: single_use "claim_request_uri t i e" exec_stmt "\<lambda>_. True"
  "no_new_expiry t i e" "\<lambda>_. True" "request_uri_live t i e" for t i e
  by (rule single_use.intro)
    (simp_all add: claim_request_uri_won claim_request_uri_spends claim_request_uri_dead
      exec_stmt_no_new_expiry)

text \<open>The credential offer: \<open>consumeCredentialOffer\<close> clears it.\<close>

definition claim_offer :: "string \<Rightarrow> string \<Rightarrow> date \<Rightarrow> sessions \<Rightarrow> bool \<times> sessions" where
  "claim_offer t i now db = repo_consumeCredentialOffer now t i db"

definition offer_live :: "string \<Rightarrow> string \<Rightarrow> sessions \<Rightarrow> bool" where
  "offer_live t i db \<longleftrightarrow> (\<exists>r \<in> set db. s_tenantId r = t \<and> s_id r = i \<and> s_offer r \<noteq> None)"

fun sets_offer :: "assign \<Rightarrow> bool" where
  "sets_offer (Set_offer v) = (v \<noteq> None)"
| "sets_offer _ = False"

text \<open>Only \<open>CreateCredentialOffer\<close> stores an offer, once, before it returns the link.\<close>

fun no_new_offer :: "string \<Rightarrow> string \<Rightarrow> session_stmt \<Rightarrow> bool" where
  "no_new_offer t i (Stmt_Create now ns) = (ns_id ns \<noteq> i)"
| "no_new_offer t i (Stmt_Update now t' i' u) = (t' = t \<and> i' = i \<longrightarrow> list_all (\<lambda>a. \<not> sets_offer a) u)"
| "no_new_offer t i (Stmt_UpdateUnconsumed now t' i' u) =
     (t' = t \<and> i' = i \<longrightarrow> list_all (\<lambda>a. \<not> sets_offer a) u)"
| "no_new_offer t i (Stmt_ChangeState now t' i' u) =
     (t' = t \<and> i' = i \<longrightarrow> list_all (\<lambda>a. \<not> sets_offer a) u)"
| "no_new_offer t i (Stmt_ChangeStateFrom now t' i' from_statuses u) =
     (t' = t \<and> i' = i \<longrightarrow> list_all (\<lambda>a. \<not> sets_offer a) u)"
| "no_new_offer t i _ = True"

lemma apply_assigns_offer:
  "list_all (\<lambda>a. \<not> sets_offer a) u \<Longrightarrow> s_offer (apply_assigns u r) = Some v \<Longrightarrow> \<exists>w. s_offer r = Some w"
proof (induction u arbitrary: r)
  case (Cons a u)
  then have "\<exists>w. s_offer (apply_assign a r) = Some w" by simp
  with Cons.prems(1) show ?case by (cases a) auto
qed simp

lemma stmt_row_offer:
  assumes "no_new_offer t i st" "stmt_row st db r = Some r'"
    and "s_tenantId r' = t \<and> s_id r' = i \<and> s_offer r' \<noteq> None"
  shows "s_tenantId r = t \<and> s_id r = i \<and> s_offer r \<noteq> None"
  using assms
  by (cases st) (auto simp: unconsumed_where_iff set_clause_def anonymize_columns_def
      split: if_splits dest: apply_assigns_offer)

lemma exec_stmt_no_new_offer:
  assumes "no_new_offer t i st" "\<not> offer_live t i db"
  shows "\<not> offer_live t i (exec_stmt st db)"
  unfolding offer_live_def
proof (rule exec_stmt_absent)
  show "\<not> (s_tenantId r' = t \<and> s_id r' = i \<and> s_offer r' \<noteq> None)"
    if "r' \<in> set (stmt_insert st db)" for r'
    using assms(1) that by (cases st) (auto split: if_splits)
  show "\<not> (\<exists>r \<in> set db. s_tenantId r = t \<and> s_id r = i \<and> s_offer r \<noteq> None)"
    using assms(2) by (simp add: offer_live_def)
qed (rule stmt_row_offer [OF assms(1)])

lemma exec_stmts_no_new_offer:
  "list_all (no_new_offer t i) ss \<Longrightarrow> \<not> offer_live t i db \<Longrightarrow> \<not> offer_live t i (exec_stmts ss db)"
  by (induction ss arbitrary: db) (simp_all add: exec_stmt_no_new_offer del: exec_stmt.simps)

lemma claim_offer_exec: "snd (claim_offer t i now db) = exec_stmt (Stmt_ConsumeOffer now t i) db"
  by (simp add: claim_offer_def)

lemma claim_offer_won: "fst (claim_offer t i now db) \<longleftrightarrow> offer_live t i db"
  by (auto simp: claim_offer_def repo_consumeCredentialOffer_def offer_live_def Let_def
      fst_case_pair sql_update_affected)

lemma claim_offer_spends: "\<not> offer_live t i (snd (claim_offer t i now db))"
proof
  assume "offer_live t i (snd (claim_offer t i now db))"
  then obtain r r' where r: "s_tenantId r' = t" "s_id r' = i" "s_offer r' \<noteq> None"
      "stmt_row (Stmt_ConsumeOffer now t i) db r = Some r'"
    unfolding offer_live_def claim_offer_exec exec_stmt_set by auto
  show False
  proof (cases "s_id r = i \<and> s_tenantId r = t \<and> s_offer r \<noteq> None")
    case True
    with r(4) have "s_offer r' = None" by (simp del: not_None_eq) auto
    with r(3) show False by simp
  next
    case False
    with r(4) have "r' = r" by (simp only: stmt_row.simps if_False option.inject)
    with False r(1-3) show False by simp
  qed
qed

interpretation offer_use: single_use "claim_offer t i" exec_stmt "\<lambda>_. True" "no_new_offer t i"
  "\<lambda>_. True" "offer_live t i" for t i
  by (rule single_use.intro)
    (simp_all add: claim_offer_won claim_offer_spends exec_stmt_no_new_offer)


section \<open>Final statuses and transaction code attempts\<close>

text \<open>Statements that respect the status of a finished session \<open>i\<close> of tenant \<open>t\<close>: all but an
  unconditional status change of that session.\<close>

fun respects_final :: "string \<Rightarrow> string \<Rightarrow> session_stmt \<Rightarrow> bool" where
  "respects_final t i (Stmt_Create now ns) = (ns_id ns \<noteq> i)"
| "respects_final t i (Stmt_Update now t' i' u) = (t' = t \<and> i' = i \<longrightarrow> final_status u = None)"
| "respects_final t i (Stmt_ChangeState now t' i' u) = (t' = t \<and> i' = i \<longrightarrow> final_status u = None)"
| "respects_final t i (Stmt_ChangeStateFrom now t' i' from_statuses u) =
     (t' = t \<and> i' = i \<longrightarrow> list_all (\<lambda>st. \<not> isTerminalStatus st) from_statuses)"
| "respects_final t i _ = True"

definition all_final :: "string \<Rightarrow> string \<Rightarrow> status \<Rightarrow> sessions \<Rightarrow> bool" where
  "all_final t i fin db \<longleftrightarrow> (\<forall>r \<in> set db. s_id r = i \<longrightarrow> s_tenantId r = t \<and> s_status r = fin)"

lemma stmt_row_respects_final:
  assumes "respects_final t i st" "isTerminalStatus fin" "stmt_row st db r = Some r'"
    and "s_id r = i \<longrightarrow> s_tenantId r = t \<and> s_status r = fin"
  shows "s_id r' = i \<longrightarrow> s_tenantId r' = t \<and> s_status r' = fin"
proof (cases st)
  case (Stmt_UpdateUnconsumed now t' i' u)
  then show ?thesis using assms
    by (auto simp: unconsumed_where_iff session_usable_def split: if_splits)
next
  case (Stmt_ChangeStateFrom now t' i' from_statuses u)
  then show ?thesis using assms by (auto simp: list_all_iff split: if_splits)
qed (use assms in \<open>auto simp: set_clause_status anonymize_columns_def split: if_splits\<close>)

lemma exec_stmt_all_final:
  assumes "respects_final t i st" "isTerminalStatus fin" "all_final t i fin db"
  shows "all_final t i fin (exec_stmt st db)"
  unfolding all_final_def
proof (rule exec_stmt_all)
  show "s_id r' = i \<longrightarrow> s_tenantId r' = t \<and> s_status r' = fin"
    if "r' \<in> set (stmt_insert st db)" for r'
    using assms(1) that by (cases st) (auto split: if_splits)
  show "\<forall>r \<in> set db. s_id r = i \<longrightarrow> s_tenantId r = t \<and> s_status r = fin"
    using assms(3) by (simp add: all_final_def)
qed (rule stmt_row_respects_final [OF assms(1,2)])

lemma exec_stmts_all_final:
  "list_all (respects_final t i) ss \<Longrightarrow> isTerminalStatus fin \<Longrightarrow> all_final t i fin db \<Longrightarrow>
     all_final t i fin (exec_stmts ss db)"
  by (induction ss arbitrary: db) (simp_all add: exec_stmt_all_final)

lemma unique_all_final:
  assumes "unique_key s_id db" "r \<in> set db"
  shows "all_final (s_tenantId r) (s_id r) (s_status r) db"
  using assms by (auto simp: all_final_def unique_key_def distinct_map dest: inj_onD)

text \<open>Statements that count no attempt other than by the increment statement.\<close>

fun sets_attempts :: "assign \<Rightarrow> bool" where
  "sets_attempts (Set_txCodeFailedAttempts n) = True"
| "sets_attempts _ = False"

fun counts_fairly :: "string \<Rightarrow> session_stmt \<Rightarrow> bool" where
  "counts_fairly i (Stmt_Create now ns) = (ns_id ns \<noteq> i)"
| "counts_fairly i (Stmt_Update now t i' u) = list_all (\<lambda>a. \<not> sets_attempts a) u"
| "counts_fairly i (Stmt_UpdateUnconsumed now t i' u) = list_all (\<lambda>a. \<not> sets_attempts a) u"
| "counts_fairly i (Stmt_ChangeState now t i' u) = list_all (\<lambda>a. \<not> sets_attempts a) u"
| "counts_fairly i (Stmt_ChangeStateFrom now t i' from_statuses u) = list_all (\<lambda>a. \<not> sets_attempts a) u"
| "counts_fairly i _ = True"

fun is_increment :: "string \<Rightarrow> string \<Rightarrow> session_stmt \<Rightarrow> bool" where
  "is_increment t i (Stmt_Increment now t' i') = (t' = t \<and> i' = i)"
| "is_increment t i _ = False"

lemma apply_assigns_attempts:
  "list_all (\<lambda>a. \<not> sets_attempts a) u \<Longrightarrow>
     s_txCodeFailedAttempts (apply_assigns u r) = s_txCodeFailedAttempts r"
proof (induction u arbitrary: r)
  case (Cons a u)
  then show ?case by (cases a) auto
qed simp

lemma set_clause_attempts:
  "list_all (\<lambda>a. \<not> sets_attempts a) u \<Longrightarrow>
     s_txCodeFailedAttempts (set_clause now u r) = s_txCodeFailedAttempts r"
  by (simp add: set_clause_def apply_assigns_attempts)

definition all_attempts :: "string \<Rightarrow> string \<Rightarrow> nat \<Rightarrow> sessions \<Rightarrow> bool" where
  "all_attempts t i n db \<longleftrightarrow>
     (\<forall>r \<in> set db. s_id r = i \<longrightarrow> s_tenantId r = t \<and> s_txCodeFailedAttempts r = n)"

lemma exec_stmt_all_attempts:
  assumes "counts_fairly i st" "all_attempts t i n db"
  shows "all_attempts t i (if is_increment t i st then Suc n else n) (exec_stmt st db)"
  unfolding all_attempts_def
proof (rule exec_stmt_all)
  show "s_id r' = i \<longrightarrow> s_tenantId r' = t \<and>
      s_txCodeFailedAttempts r' = (if is_increment t i st then Suc n else n)"
    if "r' \<in> set (stmt_insert st db)" for r'
    using assms(1) that by (cases st) (auto split: if_splits)
  show "\<forall>r \<in> set db. s_id r = i \<longrightarrow> s_tenantId r = t \<and> s_txCodeFailedAttempts r = n"
    using assms(2) by (simp add: all_attempts_def)
  show "s_id r' = i \<longrightarrow> s_tenantId r' = t \<and>
      s_txCodeFailedAttempts r' = (if is_increment t i st then Suc n else n)"
    if "stmt_row st db r = Some r'" "s_id r = i \<longrightarrow> s_tenantId r = t \<and> s_txCodeFailedAttempts r = n"
    for r r'
    using assms(1) that
    by (cases st) (auto simp: set_clause_attempts anonymize_columns_def split: if_splits)
qed

lemma exec_stmts_all_attempts:
  "list_all (counts_fairly i) ss \<Longrightarrow> all_attempts t i n db \<Longrightarrow>
     all_attempts t i (n + length (filter (is_increment t i) ss)) (exec_stmts ss db)"
proof (induction ss arbitrary: db n)
  case (Cons st ss)
  then have "all_attempts t i (if is_increment t i st then Suc n else n) (exec_stmt st db)"
    by (intro exec_stmt_all_attempts) simp_all
  from Cons.IH [OF _ this] Cons.prems(1) show ?case by (auto split: if_splits)
qed simp

lemma unique_all_attempts:
  assumes "unique_key s_id db" "r \<in> set db"
  shows "all_attempts (s_tenantId r) (s_id r) (s_txCodeFailedAttempts r) db"
  using assms by (auto simp: all_attempts_def unique_key_def distinct_map dest: inj_onD)


section \<open>Retention and metrics\<close>

lemma anonymize_clears [simp]: "\<not> has_personal_data (set_clause now anonymize_columns r)"
  by (simp add: has_personal_data_def set_clause_def anonymize_columns_def)

lemma anonymize_frame:
  "s_status (set_clause now anonymize_columns r) = s_status r"
  "s_consumed (set_clause now anonymize_columns r) = s_consumed r"
  "s_outcome (set_clause now anonymize_columns r) = s_outcome r"
  by (simp_all add: set_clause_def anonymize_columns_def)

lemma anonymize_rows:
  "r' \<in> set (fst (anonymizeSessionsCreatedBefore now t c db)) \<Longrightarrow> s_tenantId r' = t \<Longrightarrow>
     s_createdAt r' < c \<Longrightarrow> \<not> has_personal_data r'"
proof -
  assume "r' \<in> set (fst (anonymizeSessionsCreatedBefore now t c db))"
    and r': "s_tenantId r' = t" "s_createdAt r' < c"
  then obtain r where r: "r' = (if s_tenantId r = t \<and> s_createdAt r < c \<and> has_personal_data r
      then set_clause now anonymize_columns r else r)"
    unfolding anonymizeSessionsCreatedBefore_def sql_update_rows by blast
  show ?thesis
  proof (cases "s_tenantId r = t \<and> s_createdAt r < c \<and> has_personal_data r")
    case True
    with r show ?thesis by (simp only: if_True anonymize_clears simp_thms)
  next
    case False
    with r have "r' = r" by (simp only: if_False)
    with False r' show ?thesis by blast
  qed
qed

lemma anonymize_twice:
  "snd (anonymizeSessionsCreatedBefore now' t c (fst (anonymizeSessionsCreatedBefore now t c db))) = 0"
  unfolding anonymizeSessionsCreatedBefore_def by (rule sql_table.cas_single_winner) simp

lemma orphans_known_tenants:
  "s_tenantId r \<in> set ts \<Longrightarrow>
     r \<in> set (fst (deleteOrphanedSessionsCreatedBefore ts c db)) \<longleftrightarrow> r \<in> set db"
  by (auto simp: deleteOrphanedSessionsCreatedBefore_def sql_delete_rows)

lemma sum_list_group_counts:
  "(\<Sum>g \<leftarrow> remdups (map f xs). length (filter (\<lambda>x. f x = g) xs)) = length xs"
proof -
  have "(\<Sum>g \<leftarrow> remdups (map f xs). length (filter (\<lambda>x. f x = g) xs))
          = (\<Sum>g \<in> set (map f xs). length (filter (\<lambda>x. f x = g) xs))"
    by (simp add: sum_list_distinct_conv_sum_set)
  also have "\<dots> = length xs"
    using sum_count_set [of "map f xs" "set (map f xs)"]
    by (simp add: count_list_eq_length_filter filter_map comp_def eq_commute)
  finally show ?thesis .
qed

lemma counts_sum: "sum_list (map snd (countSessionsByStatus db)) = length db"
  by (simp add: countSessionsByStatus_def comp_def sum_list_group_counts)

lemma counts_entry:
  "(g, n) \<in> set (countSessionsByStatus db) \<longleftrightarrow>
     n = length (filter (\<lambda>r. count_group r = g) db) \<and> 0 < n"
  by (auto simp: countSessionsByStatus_def filter_empty_conv)

end
