(* ===== verification/Session_Lifecycle.thy ===== *)
theory Session_Lifecycle
  imports Session_Guarantees
begin

text \<open>
  The application layer of the session module (\<open>session/application\<close>): \<open>SessionStore\<close>,
  \<open>ChangeSessionState\<close>, \<open>CancelSession\<close>, \<open>CleanupSessions\<close>, \<open>CreateSession\<close>,
  \<open>RecordFailedTxCodeAttempt\<close> and \<open>ResolveExternalAuthorizationSession\<close>. A handler takes the
  session table and returns its result, the table and the events it publishes. A handler of several
  statements takes, for every gap between two of its statements, the statements other requests run
  there. Binding the request's logging context is not modelled.
\<close>

datatype session_error =
    SessionNotFound
  | SessionNotCancellable not_cancellable_reason
  | SessionAttemptTargetNotFound
  | ExternalSessionBindingError

datatype session_event =
    StatusChanged string status date
  | SessionCancelled_event string string "string option"
  | CancellationLogged string string "string option"


section \<open>The session store\<close>

text \<open>\<open>SessionStore.lookup\<close>: no query with an empty key.\<close>

definition store_lookup ::
    "string option \<Rightarrow> (string \<Rightarrow> session option) \<Rightarrow> session_error + session" where
  "store_lookup key look =
     (if \<not> truthy key then Inl SessionNotFound
      else case look (the key) of None \<Rightarrow> Inl SessionNotFound | Some s \<Rightarrow> Inr s)"

definition getForTenant ::
    "string \<Rightarrow> string option \<Rightarrow> session_type option \<Rightarrow> sessions \<Rightarrow> session_error + session" where
  "getForTenant tenantId sid scope db =
     store_lookup sid (\<lambda>i. findForTenant tenantId i scope db)"

definition getByAuthorizationCode ::
    "string \<Rightarrow> string option \<Rightarrow> sessions \<Rightarrow> session_error + session" where
  "getByAuthorizationCode tenantId code db =
     store_lookup code (\<lambda>v. findByAuthorizationCode tenantId v db)"

definition getByRefreshToken :: "string \<Rightarrow> string \<Rightarrow> sessions \<Rightarrow> session_error + session" where
  "getByRefreshToken tenantId token db =
     store_lookup (Some token) (\<lambda>v. findByRefreshToken tenantId v db)"

definition getByRequestUri :: "string \<Rightarrow> string \<Rightarrow> sessions \<Rightarrow> session_error + session" where
  "getByRequestUri tenantId uri db =
     store_lookup (Some uri) (\<lambda>v. findByRequestUri tenantId v db)"

definition getForWalletRequest :: "string \<Rightarrow> sessions \<Rightarrow> session_error + session" where
  "getForWalletRequest nonce db = store_lookup (Some nonce) (\<lambda>v. findForWalletRequest v db)"

definition getForInternalFlow :: "string \<Rightarrow> sessions \<Rightarrow> session_error + session" where
  "getForInternalFlow sid db = store_lookup (Some sid) (\<lambda>i. findByIdForInternalFlow i db)"

definition getIso18013 :: "string \<Rightarrow> sessions \<Rightarrow> session_error + session" where
  "getIso18013 sid db = store_lookup (Some sid) (\<lambda>i. findIso18013Session i db)"

lemma store_lookup_ok:
  "store_lookup key look = Inr s \<longleftrightarrow> (\<exists>k. key = Some k \<and> k \<noteq> [] \<and> look k = Some s)"
  by (cases key) (auto simp: store_lookup_def split: option.splits)

lemma store_lookup_error: "store_lookup key look = Inl e \<Longrightarrow> e = SessionNotFound"
  by (auto simp: store_lookup_def split: option.splits if_splits)

lemma getForTenant_ok:
  assumes "getForTenant t sid scope db = Inr s"
  shows "s \<in> set db" "s_tenantId s = t" "sid = Some (s_id s)" "typeWhere scope s"
  using assms sql_find_one_Some
  by (auto simp: getForTenant_def store_lookup_ok findForTenant_def dest!: sql_find_one_Some)

lemma getForTenant_other_tenant:
  assumes "unique_key s_id db" "s \<in> set db" "s_tenantId s \<noteq> t"
  shows "getForTenant t (Some (s_id s)) scope db = Inl SessionNotFound"
proof -
  have "findForTenant t (s_id s) scope db = None"
    using assms by (auto simp: findForTenant_def sql_find_one_None unique_key_def distinct_map
        dest: inj_onD)
  then show ?thesis by (simp add: getForTenant_def store_lookup_def)
qed


section \<open>Changing the state\<close>

definition announce :: "date \<Rightarrow> string \<Rightarrow> status \<Rightarrow> session_event list" where
  "announce now sid st = [StatusChanged sid st now]"

definition changeState_execute ::
    "date \<Rightarrow> lifecycle_context \<Rightarrow> status \<Rightarrow> sessions \<Rightarrow> sessions \<times> session_event list" where
  "changeState_execute now ctx st db =
     (repo_changeState now (lc_tenantId ctx) (lc_id ctx) (stateUpdate st) db,
      announce now (lc_id ctx) st)"

definition changeState_executeFrom ::
    "date \<Rightarrow> lifecycle_context \<Rightarrow> status list \<Rightarrow> status \<Rightarrow> sessions
       \<Rightarrow> bool \<times> sessions \<times> session_event list" where
  "changeState_executeFrom now ctx from_statuses st db =
     (let (changed, db') =
            repo_changeStateFrom now (lc_tenantId ctx) (lc_id ctx) from_statuses (stateUpdate st) db
      in (changed, db', if changed then announce now (lc_id ctx) st else []))"

definition context_of :: "session \<Rightarrow> lifecycle_context" where
  "context_of s = \<lparr>lc_id = s_id s, lc_tenantId = s_tenantId s, lc_requestId = s_requestId s\<rparr>"


section \<open>Creating, attempts, external binding\<close>

definition createSession_execute :: "date \<Rightarrow> new_session \<Rightarrow> sessions \<Rightarrow> session \<times> sessions" where
  "createSession_execute now ns db = repo_create now ns db"

record attempt_result =
  ar_failedAttempts :: nat
  ar_locked :: bool

definition default_max_attempts :: nat where
  "default_max_attempts = 5"

definition evaluate_attempts :: "nat \<Rightarrow> nat option \<Rightarrow> session_error + attempt_result" where
  "evaluate_attempts maxAttempts failedAttempts =
     (case failedAttempts of
        None \<Rightarrow> Inl SessionAttemptTargetNotFound
      | Some n \<Rightarrow> Inr \<lparr>ar_failedAttempts = n, ar_locked = (maxAttempts \<le> n)\<rparr>)"

text \<open>\<open>others\<close> run between the increment and the read.\<close>

definition recordFailedTxCodeAttempt ::
    "date \<Rightarrow> session_stmt list \<Rightarrow> string \<Rightarrow> string \<Rightarrow> nat \<Rightarrow> sessions
       \<Rightarrow> (session_error + attempt_result) \<times> sessions" where
  "recordFailedTxCodeAttempt now others tenantId sid maxAttempts db =
     (let db' = exec_stmts others (increment_statement now tenantId sid db)
      in (evaluate_attempts maxAttempts (read_failed_attempts tenantId sid db'), db'))"

lemma recordFailedTxCodeAttempt_counts:
  assumes "unique_key s_id db" "s \<in> set db" "list_all (counts_fairly (s_id s)) others"
    and "recordFailedTxCodeAttempt now others (s_tenantId s) (s_id s) limit db = (result, db')"
    and "r \<in> set db'" "s_id r = s_id s" "s_tenantId r = s_tenantId s"
    and "n = s_txCodeFailedAttempts s + 1 + length (filter (is_increment (s_tenantId s) (s_id s)) others)"
  shows "result = Inr \<lparr>ar_failedAttempts = n, ar_locked = (limit \<le> n)\<rparr>"
proof -
  let ?stmts = "Stmt_Increment now (s_tenantId s) (s_id s) # others"
  have db': "db' = exec_stmts ?stmts db"
    and res: "result = evaluate_attempts limit (read_failed_attempts (s_tenantId s) (s_id s) db')"
    using assms(4) by (auto simp: recordFailedTxCodeAttempt_def Let_def)
  have "all_attempts (s_tenantId s) (s_id s)
      (s_txCodeFailedAttempts s + length (filter (is_increment (s_tenantId s) (s_id s)) ?stmts)) db'"
    unfolding db' using assms(3)
    by (intro exec_stmts_all_attempts unique_all_attempts assms(1,2)) simp
  then have "all_attempts (s_tenantId s) (s_id s) n db'" by (simp add: assms(8))
  then have count: "s_txCodeFailedAttempts x = n" if "x \<in> set db'" "s_id x = s_id s" for x
    using that by (simp add: all_attempts_def)
  obtain x where x: "sql_find_one (\<lambda>r. s_id r = s_id s \<and> s_tenantId r = s_tenantId s) db' = Some x"
    using assms(5-7) by (cases "sql_find_one (\<lambda>r. s_id r = s_id s \<and> s_tenantId r = s_tenantId s) db'")
      (auto simp: sql_find_one_None)
  with sql_find_one_Some [OF x] count [of x]
  have "read_failed_attempts (s_tenantId s) (s_id s) db' = Some n"
    by (simp add: read_failed_attempts_def)
  then show ?thesis by (simp add: res evaluate_attempts_def)
qed

record external_token =
  et_externalIssuer :: string
  et_externalSubject :: string
  et_authorizationServerId :: "string option"
  et_bindingClaim :: "string option"
  et_bindingValue :: "string option"

definition resolveExternalAuthorizationSession ::
    "date \<Rightarrow> string \<Rightarrow> external_token \<Rightarrow> sessions \<Rightarrow> (session_error + session) \<times> sessions" where
  "resolveExternalAuthorizationSession now tenantId tok db =
     (if \<not> truthy (et_authorizationServerId tok) \<or> \<not> truthy (et_bindingClaim tok)
         \<or> \<not> truthy (et_bindingValue tok)
      then (Inl ExternalSessionBindingError, db)
      else (case bindExternalAuthorization now
                 \<lparr>eb_tenantId = tenantId, eb_authorizationServerId = the (et_authorizationServerId tok),
                  eb_sessionId = the (et_bindingValue tok),
                  eb_externalIssuer = et_externalIssuer tok,
                  eb_externalSubject = et_externalSubject tok\<rparr> db of
              (None, db') \<Rightarrow> (Inl ExternalSessionBindingError, db')
            | (Some s, db') \<Rightarrow> (Inr s, db')))"


section \<open>Cancelling\<close>

record cancel_command =
  cc_tenantId :: string
  cc_sessionId :: string
  cc_scope :: "session_type option"
  cc_reason :: "string option"

definition cancel_failed :: "cancel_command \<Rightarrow> sessions \<Rightarrow> session_error" where
  "cancel_failed cmd db =
     (case getForTenant (cc_tenantId cmd) (Some (cc_sessionId cmd)) (cc_scope cmd) db of
        Inl e \<Rightarrow> e
      | Inr current \<Rightarrow> SessionNotCancellable (notCancellableReason current))"

definition cancel_execute ::
    "date \<Rightarrow> session_stmt list \<Rightarrow> session_stmt list \<Rightarrow> cancel_command \<Rightarrow> sessions
       \<Rightarrow> (session_error + unit) \<times> sessions \<times> session_event list" where
  "cancel_execute now others1 others2 cmd db =
     (case getForTenant (cc_tenantId cmd) (Some (cc_sessionId cmd)) (cc_scope cmd) db of
        Inl e \<Rightarrow> (Inl e, db, [])
      | Inr session \<Rightarrow>
          (let (cancelled, db') =
                 updateUnconsumedForTenant now (s_tenantId session) (s_id session)
                   (stateUpdate Cancelled) (exec_stmts others1 db)
           in if cancelled
              then (Inr (), db',
                    announce now (s_id session) Cancelled
                    @ [SessionCancelled_event (s_id session) (s_tenantId session) (cc_reason cmd),
                       CancellationLogged (s_id session) (s_tenantId session) (cc_reason cmd)])
              else (let db'' = exec_stmts others2 db' in (Inl (cancel_failed cmd db''), db'', []))))"


section \<open>Cleaning up\<close>

text \<open>The loop over the expired sessions: per session the time of its update and the statements
  other requests run before it.\<close>

fun cleanup_expire ::
    "(date \<times> session_stmt list \<times> lifecycle_context) list \<Rightarrow> sessions
       \<Rightarrow> sessions \<times> session_event list" where
  "cleanup_expire [] db = (db, [])"
| "cleanup_expire ((now, others, ctx) # rest) db =
     (let (changed, db1, ev) =
            changeState_executeFrom now ctx OPEN_SESSION_STATUSES Expired (exec_stmts others db);
          (db2, evs) = cleanup_expire rest db1
      in (db2, ev @ evs))"

definition cleanup_tenant ::
    "date \<Rightarrow> retention_settings \<Rightarrow> tenant_retention \<Rightarrow> sessions \<Rightarrow> sessions" where
  "cleanup_tenant now defaults tenant db =
     (let policy = retentionForTenant tenant defaults;
          cutoff = now - rs_ttlSeconds policy * 1000
      in if rs_cleanupMode policy = Anonymize
         then fst (anonymizeSessionsCreatedBefore now (tr_tenantId tenant) cutoff db)
         else fst (deleteSessionsCreatedBefore (tr_tenantId tenant) cutoff db))"

definition cleanup_orphans ::
    "date \<Rightarrow> retention_settings \<Rightarrow> tenant_retention list \<Rightarrow> sessions \<Rightarrow> sessions" where
  "cleanup_orphans now defaults tenants db =
     (if 0 < length tenants
      then fst (deleteOrphanedSessionsCreatedBefore (map tr_tenantId tenants)
                  (now - rs_ttlSeconds defaults * 1000) db)
      else db)"

text \<open>The loop over the tenants, with the time each iteration reads.\<close>

definition cleanup_tenants ::
    "retention_settings \<Rightarrow> (date \<times> tenant_retention) list \<Rightarrow> sessions \<Rightarrow> sessions" where
  "cleanup_tenants defaults tenants db =
     foldl (\<lambda>d (now, tenant). cleanup_tenant now defaults tenant d) db tenants"

text \<open>
  \<open>CleanupSessions.execute\<close>: \<open>now\<close> is the time of the selection, \<open>gap i\<close> the time of the i-th
  update and the statements of other requests before it, \<open>clock\<close> the times read for the tenants
  and for the orphaned sessions.
\<close>

definition cleanup_execute ::
    "date \<Rightarrow> (nat \<Rightarrow> date \<times> session_stmt list) \<Rightarrow> (nat \<Rightarrow> date) \<Rightarrow> retention_settings
       \<Rightarrow> tenant_retention list \<Rightarrow> sessions \<Rightarrow> sessions \<times> session_event list" where
  "cleanup_execute now gap clock defaults tenants db =
     (let expired = findExpiredSessionsForMaintenance now db;
          (db1, evs) = cleanup_expire
            (map (\<lambda>(i, ctx). (fst (gap i), snd (gap i), ctx)) (enumerate 0 expired)) db;
          db2 = cleanup_tenants defaults
            (map (\<lambda>(i, tenant). (clock i, tenant)) (enumerate 0 tenants)) db1
      in (cleanup_orphans (clock (length tenants)) defaults tenants db2, evs))"


section \<open>Compare-and-set status changes\<close>

text \<open>Statements that do not move session \<open>i\<close> of tenant \<open>t\<close> into one of the statuses \<open>from\<close>.\<close>

definition stays_out :: "status list \<Rightarrow> session_update \<Rightarrow> bool" where
  "stays_out from_statuses u = (case final_status u of None \<Rightarrow> True | Some st \<Rightarrow> st \<notin> set from_statuses)"

fun never_returns :: "string \<Rightarrow> string \<Rightarrow> status list \<Rightarrow> session_stmt \<Rightarrow> bool" where
  "never_returns t i fs (Stmt_Create now ns) = (ns_id ns \<noteq> i)"
| "never_returns t i fs (Stmt_Update now t' i' u) = (t' = t \<and> i' = i \<longrightarrow> stays_out fs u)"
| "never_returns t i fs (Stmt_UpdateUnconsumed now t' i' u) = (t' = t \<and> i' = i \<longrightarrow> stays_out fs u)"
| "never_returns t i fs (Stmt_ChangeState now t' i' u) = (t' = t \<and> i' = i \<longrightarrow> stays_out fs u)"
| "never_returns t i fs (Stmt_ChangeStateFrom now t' i' fs' u) = (t' = t \<and> i' = i \<longrightarrow> stays_out fs u)"
| "never_returns t i fs _ = True"

definition status_in :: "string \<Rightarrow> string \<Rightarrow> status list \<Rightarrow> sessions \<Rightarrow> bool" where
  "status_in t i fs db \<longleftrightarrow> (\<exists>r \<in> set db. s_tenantId r = t \<and> s_id r = i \<and> s_status r \<in> set fs)"

definition claim_status ::
    "lifecycle_context \<Rightarrow> status list \<Rightarrow> date \<times> status \<Rightarrow> sessions \<Rightarrow> bool \<times> sessions" where
  "claim_status ctx fs c db =
     (let (changed, db', evs) = changeState_executeFrom (fst c) ctx fs (snd c) db in (evs \<noteq> [], db'))"

lemma stays_out_status:
  "stays_out fs u \<Longrightarrow> s_status (set_clause now u r) \<in> set fs \<Longrightarrow> s_status r \<in> set fs"
  by (auto simp: stays_out_def set_clause_status split: option.splits)

lemma stmt_row_never_returns:
  assumes "never_returns t i fs st" "stmt_row st db r = Some r'"
    and "s_tenantId r' = t \<and> s_id r' = i \<and> s_status r' \<in> set fs"
  shows "s_tenantId r = t \<and> s_id r = i \<and> s_status r \<in> set fs"
  using assms
  by (cases st) (auto simp: unconsumed_where_iff set_clause_status anonymize_columns_def
      split: if_splits dest: stays_out_status)

lemma exec_stmt_never_returns:
  assumes "never_returns t i fs st" "\<not> status_in t i fs db"
  shows "\<not> status_in t i fs (exec_stmt st db)"
  unfolding status_in_def
proof (rule exec_stmt_absent)
  show "\<not> (s_tenantId r' = t \<and> s_id r' = i \<and> s_status r' \<in> set fs)"
    if "r' \<in> set (stmt_insert st db)" for r'
    using assms(1) that by (cases st) (auto split: if_splits)
  show "\<not> (\<exists>r \<in> set db. s_tenantId r = t \<and> s_id r = i \<and> s_status r \<in> set fs)"
    using assms(2) by (simp add: status_in_def)
qed (rule stmt_row_never_returns [OF assms(1)])

lemma claim_status_exec:
  "snd (claim_status ctx fs c db) =
     exec_stmt (Stmt_ChangeStateFrom (fst c) (lc_tenantId ctx) (lc_id ctx) fs (stateUpdate (snd c))) db"
  by (simp add: claim_status_def changeState_executeFrom_def split_beta Let_def)

lemma claim_status_won:
  "fst (claim_status ctx fs c db) \<longleftrightarrow> status_in (lc_tenantId ctx) (lc_id ctx) fs db"
  by (auto simp: claim_status_def changeState_executeFrom_def repo_changeStateFrom_def announce_def
      status_in_def split_beta Let_def sql_update_affected)

lemma claim_status_spends:
  assumes "snd c \<notin> set fs"
  shows "\<not> status_in (lc_tenantId ctx) (lc_id ctx) fs (snd (claim_status ctx fs c db))"
proof
  let ?t = "lc_tenantId ctx" and ?i = "lc_id ctx"
  assume "status_in ?t ?i fs (snd (claim_status ctx fs c db))"
  then obtain r r' where r: "s_tenantId r' = ?t" "s_id r' = ?i" "s_status r' \<in> set fs"
      "stmt_row (Stmt_ChangeStateFrom (fst c) ?t ?i fs (stateUpdate (snd c))) db r = Some r'"
    unfolding status_in_def claim_status_exec exec_stmt_set by auto
  show False
  proof (cases "s_id r = ?i \<and> s_tenantId r = ?t \<and> s_status r \<in> set fs")
    case True
    with r(4) have "s_status r' = snd c"
      by (simp only: stmt_row.simps if_True simp_thms option.inject)
        (auto simp: set_clause_def)
    with r(3) assms show False by simp
  next
    case False
    with r(4) have "r' = r" by (simp only: stmt_row.simps if_False option.inject)
    with False r(1-3) show False by simp
  qed
qed

interpretation status_use: single_use "claim_status ctx fs" exec_stmt "\<lambda>c. snd c \<notin> set fs"
  "never_returns (lc_tenantId ctx) (lc_id ctx) fs" "\<lambda>_. True"
  "status_in (lc_tenantId ctx) (lc_id ctx) fs" for ctx fs
  by (rule single_use.intro)
    (simp_all add: claim_status_won claim_status_spends exec_stmt_never_returns)


section \<open>Cleaning up and cancelling\<close>

lemma executeFrom_db:
  "fst (snd (changeState_executeFrom now ctx fs st db)) =
     exec_stmt (Stmt_ChangeStateFrom now (lc_tenantId ctx) (lc_id ctx) fs (stateUpdate st)) db"
  by (simp add: changeState_executeFrom_def split_beta Let_def)

text \<open>The statements a clean-up run issues, with those of the other requests.\<close>

fun expire_stmts :: "(date \<times> session_stmt list \<times> lifecycle_context) list \<Rightarrow> session_stmt list" where
  "expire_stmts [] = []"
| "expire_stmts ((now, others, ctx) # rest) =
     others @ Stmt_ChangeStateFrom now (lc_tenantId ctx) (lc_id ctx) OPEN_SESSION_STATUSES
       (stateUpdate Expired) # expire_stmts rest"

definition tenant_stmt :: "retention_settings \<Rightarrow> date \<times> tenant_retention \<Rightarrow> session_stmt" where
  "tenant_stmt defaults p =
     (let policy = retentionForTenant (snd p) defaults;
          cutoff = fst p - rs_ttlSeconds policy * 1000
      in if rs_cleanupMode policy = Anonymize then Stmt_Anonymize (fst p) (tr_tenantId (snd p)) cutoff
         else Stmt_DeleteBefore (tr_tenantId (snd p)) cutoff)"

lemma exec_stmts_append [simp]: "exec_stmts (xs @ ys) db = exec_stmts ys (exec_stmts xs db)"
  by (induction xs arbitrary: db) simp_all

lemma cleanup_expire_stmts: "fst (cleanup_expire xs db) = exec_stmts (expire_stmts xs) db"
proof (induction xs arbitrary: db)
  case (Cons x xs)
  obtain now others ctx where x: "x = (now, others, ctx)" by (cases x)
  obtain c db1 ev where e: "changeState_executeFrom now ctx OPEN_SESSION_STATUSES Expired
      (exec_stmts others db) = (c, db1, ev)" by (metis prod_cases3)
  have "db1 = exec_stmt (Stmt_ChangeStateFrom now (lc_tenantId ctx) (lc_id ctx)
      OPEN_SESSION_STATUSES (stateUpdate Expired)) (exec_stmts others db)"
    using executeFrom_db [of now ctx OPEN_SESSION_STATUSES Expired "exec_stmts others db"]
    unfolding e by simp
  with e Cons.IH show ?case
    by (simp add: x split_beta Let_def del: exec_stmt.simps open_statuses)
qed simp

lemma cleanup_tenant_stmt:
  "cleanup_tenant now defaults tenant db = exec_stmt (tenant_stmt defaults (now, tenant)) db"
  by (simp add: cleanup_tenant_def tenant_stmt_def Let_def)

lemma cleanup_tenants_stmts:
  "cleanup_tenants defaults ts db = exec_stmts (map (tenant_stmt defaults) ts) db"
  unfolding cleanup_tenants_def
  by (induction ts arbitrary: db) (auto simp: cleanup_tenant_stmt simp del: exec_stmt.simps)

lemma cleanup_orphans_stmts:
  "cleanup_orphans now defaults tenants db =
     exec_stmts (if tenants = [] then [] else
       [Stmt_DeleteOrphaned (map tr_tenantId tenants) (now - rs_ttlSeconds defaults * 1000)]) db"
  by (simp add: cleanup_orphans_def)

lemma respects_final_expire:
  "list_all (\<lambda>(now, others, ctx). list_all (respects_final t i) others) xs \<Longrightarrow>
     list_all (respects_final t i) (expire_stmts xs)"
  by (induction xs rule: expire_stmts.induct) auto

lemma respects_final_tenants: "list_all (respects_final t i) (map (tenant_stmt defaults) ts)"
  by (induction ts) (simp_all add: tenant_stmt_def Let_def)

text \<open>A clean-up run never changes a final status.\<close>

lemma cleanup_execute_all_final:
  assumes "\<And>k. list_all (respects_final t i) (snd (gap k))"
    and "isTerminalStatus fin" "all_final t i fin db"
  shows "all_final t i fin (fst (cleanup_execute now gap clock defaults tenants db))"
proof -
  let ?xs = "map (\<lambda>(k, ctx). (fst (gap k), snd (gap k), ctx))
    (enumerate 0 (findExpiredSessionsForMaintenance now db))"
  have "list_all (respects_final t i) (expire_stmts ?xs)"
    using assms(1) by (intro respects_final_expire) (auto simp: list_all_iff)
  then have 1: "all_final t i fin (fst (cleanup_expire ?xs db))"
    unfolding cleanup_expire_stmts by (rule exec_stmts_all_final [OF _ assms(2,3)])
  have 2: "all_final t i fin (cleanup_tenants defaults ts (fst (cleanup_expire ?xs db)))" for ts
    unfolding cleanup_tenants_stmts
    by (rule exec_stmts_all_final [OF respects_final_tenants assms(2) 1])
  have 3: "all_final t i fin (cleanup_orphans n defaults tenants db')" if "all_final t i fin db'" for n db'
    unfolding cleanup_orphans_stmts by (rule exec_stmts_all_final [OF _ assms(2) that]) simp
  show ?thesis
    unfolding cleanup_execute_def by (simp add: split_beta Let_def 2 3)
qed

text \<open>What a successful cancellation and a refused one leave behind.\<close>

lemma cancel_execute_ok:
  assumes "cancel_execute now o1 o2 cmd db = (Inr (), db', evs)"
  shows "\<exists>s. getForTenant (cc_tenantId cmd) (Some (cc_sessionId cmd)) (cc_scope cmd) db = Inr s
      \<and> s \<in> set db \<and> s_tenantId s = cc_tenantId cmd \<and> s_id s = cc_sessionId cmd \<and> typeWhere (cc_scope cmd) s
      \<and> updateUnconsumedForTenant now (cc_tenantId cmd) (cc_sessionId cmd) (stateUpdate Cancelled)
           (exec_stmts o1 db) = (True, db')
      \<and> evs = [StatusChanged (cc_sessionId cmd) Cancelled now,
                SessionCancelled_event (cc_sessionId cmd) (cc_tenantId cmd) (cc_reason cmd),
                CancellationLogged (cc_sessionId cmd) (cc_tenantId cmd) (cc_reason cmd)]"
proof -
  let ?get = "getForTenant (cc_tenantId cmd) (Some (cc_sessionId cmd)) (cc_scope cmd) db"
  from assms obtain s where s: "?get = Inr s"
    by (auto simp: cancel_execute_def split: sum.splits)
  note props = getForTenant_ok [OF s]
  let ?u = "updateUnconsumedForTenant now (cc_tenantId cmd) (cc_sessionId cmd) (stateUpdate Cancelled)
      (exec_stmts o1 db)"
  obtain w d where u: "?u = (w, d)" by (cases ?u)
  have "w \<and> d = db' \<and> evs = announce now (cc_sessionId cmd) Cancelled
      @ [SessionCancelled_event (cc_sessionId cmd) (cc_tenantId cmd) (cc_reason cmd),
         CancellationLogged (cc_sessionId cmd) (cc_tenantId cmd) (cc_reason cmd)]"
    using assms s u props by (auto simp: cancel_execute_def Let_def split: if_splits)
  with s props u show ?thesis by (auto simp: announce_def)
qed

text \<open>The row of a known session under the primary key.\<close>

lemma unique_row:
  "unique_key s_id db \<Longrightarrow> s \<in> set db \<Longrightarrow> r \<in> set db \<Longrightarrow> s_id r = s_id s \<longleftrightarrow> r = s"
  by (auto simp: unique_key_def distinct_map dest: inj_onD)

lemma getForTenant_known:
  "unique_key s_id db \<Longrightarrow> s \<in> set db \<Longrightarrow> s_id s \<noteq> [] \<Longrightarrow> typeWhere scope s \<Longrightarrow>
     getForTenant (s_tenantId s) (Some (s_id s)) scope db = Inr s"
  by (auto simp: getForTenant_def store_lookup_ok findForTenant_iff)

lemma claim_session_row:
  assumes "unique_key s_id db" "s \<in> set db"
  shows "updateUnconsumedForTenant now (s_tenantId s) (s_id s) u db =
    (if \<not> s_consumed s \<and> session_usable s now
     then (True, map (\<lambda>r. if s_id r = s_id s then set_clause now u r else r) db) else (False, db))"
proof -
  have iff: "unconsumed_where now (s_tenantId s) (s_id s) r \<longleftrightarrow>
      s_id r = s_id s \<and> \<not> s_consumed s \<and> session_usable s now" if "r \<in> set db" for r
    using unique_row [OF assms that] by (auto simp: unconsumed_where_iff)
  show ?thesis
  proof (cases "\<not> s_consumed s \<and> session_usable s now")
    case True
    with iff assms(2) have "fst (updateUnconsumedForTenant now (s_tenantId s) (s_id s) u db)"
      by (auto simp: updateUnconsumedForTenant_def fst_case_pair sql_update_affected)
    from claim_session_accepted [OF this] True iff show ?thesis by simp
  next
    case False
    with iff have "\<forall>r \<in> set db. \<not> unconsumed_where now (s_tenantId s) (s_id s) r" by simp
    with False show ?thesis by (auto simp: updateUnconsumedForTenant_def sql_update_none)
  qed
qed

text \<open>An unconditional status change reaches the row, and no update loses it.\<close>

lemma update_ids: "(\<And>r. k (f r) = k r) \<Longrightarrow> k ` set (fst (sql_update P f db)) = k ` set db"
proof -
  assume "\<And>r. k (f r) = k r"
  then have "k (if P r then f r else r) = k r" for r by simp
  then show ?thesis by (simp only: sql_update_rows image_image)
qed

lemma repo_changeState_ids: "s_id ` set (repo_changeState now t i u db) = s_id ` set db"
  unfolding repo_changeState_def by (rule update_ids) simp

lemma updateForTenant_ids: "s_id ` set (fst (updateForTenant now t i u db)) = s_id ` set db"
  unfolding updateForTenant_def by (rule update_ids) simp

lemma repo_changeState_status:
  assumes "r \<in> set (repo_changeState now t i (stateUpdate st) db)" "s_id r = i" "s_tenantId r = t"
  shows "s_status r = st"
proof -
  obtain x where x: "r = (if s_id x = i \<and> s_tenantId x = t then set_clause now (stateUpdate st) x else x)"
    using assms(1) unfolding repo_changeState_def sql_update_rows by blast
  show ?thesis
  proof (cases "s_id x = i \<and> s_tenantId x = t")
    case True
    with x show ?thesis by (simp add: set_clause_def)
  next
    case False
    with x have "r = x" by (simp only: if_False)
    with False assms(2,3) show ?thesis by simp
  qed
qed

text \<open>Without other requests in between, the expiry loop sets exactly the given rows.\<close>

lemma executeFrom_open_row:
  assumes "unique_key s_id db" "s \<in> set db" "\<not> isTerminalStatus (s_status s)"
    and "ctx = \<lparr>lc_id = s_id s, lc_tenantId = s_tenantId s, lc_requestId = q\<rparr>"
  shows "changeState_executeFrom now ctx OPEN_SESSION_STATUSES st db =
    (True, map (\<lambda>r. if s_id r = s_id s then set_clause now (stateUpdate st) r else r) db,
     [StatusChanged (s_id s) st now])"
proof -
  let ?P = "\<lambda>r. s_id r = s_id s \<and> s_tenantId r = s_tenantId s \<and> s_status r \<in> set OPEN_SESSION_STATUSES"
  have iff: "?P r \<longleftrightarrow> s_id r = s_id s" if "r \<in> set db" for r
    using unique_row [OF assms(1,2) that] assms(3) open_iff_not_terminal by auto
  have "0 < snd (sql_update ?P (set_clause now (stateUpdate st)) db)"
    unfolding sql_update_affected using iff assms(2) by blast
  moreover have "fst (sql_update ?P (set_clause now (stateUpdate st)) db)
      = map (\<lambda>r. if s_id r = s_id s then set_clause now (stateUpdate st) r else r) db"
    using iff by (simp add: sql_update_def)
  ultimately show ?thesis
    by (simp add: changeState_executeFrom_def repo_changeStateFrom_def assms(4) announce_def
        split_beta Let_def del: open_statuses not_gr_zero) simp
qed

definition expire_row :: "date \<Rightarrow> session list \<Rightarrow> session \<Rightarrow> session" where
  "expire_row now xs r = (if s_id r \<in> s_id ` set xs then set_clause now (stateUpdate Expired) r else r)"

lemma expire_row_id [simp]: "s_id (expire_row now xs r) = s_id r"
  by (simp add: expire_row_def)

lemma expire_row_other: "s_id r \<notin> s_id ` set xs \<Longrightarrow> expire_row now xs r = r"
  by (simp add: expire_row_def)

lemma cleanup_expire_rows:
  assumes "unique_key s_id db" "distinct (map s_id xs)" "set xs \<subseteq> set db"
    and "\<forall>x \<in> set xs. \<not> isTerminalStatus (s_status x)"
  shows "cleanup_expire (map (\<lambda>x. (now, [], context_of x)) xs) db =
    (map (expire_row now xs) db, map (\<lambda>x. StatusChanged (s_id x) Expired now) xs)"
  using assms
proof (induction xs arbitrary: db)
  case Nil
  then show ?case by (simp add: expire_row_def)
next
  case (Cons x xs)
  let ?f = "\<lambda>r. if s_id r = s_id x then set_clause now (stateUpdate Expired) r else r"
  have step: "changeState_executeFrom now (context_of x) OPEN_SESSION_STATUSES Expired db =
      (True, map ?f db, [StatusChanged (s_id x) Expired now])"
    using Cons.prems by (intro executeFrom_open_row) (simp_all add: context_of_def)
  have "map s_id (map ?f db) = map s_id db" by simp
  then have key: "unique_key s_id (map ?f db)"
    using Cons.prems(1) unfolding unique_key_def by (simp only:)
  have rest: "set xs \<subseteq> set (map ?f db)"
  proof
    fix y assume y: "y \<in> set xs"
    with Cons.prems(2) have "s_id y \<noteq> s_id x" by (auto simp: image_iff)
    with y Cons.prems(3) show "y \<in> set (map ?f db)" by force
  qed
  have IH: "cleanup_expire (map (\<lambda>x. (now, [], context_of x)) xs) (map ?f db) =
    (map (expire_row now xs) (map ?f db), map (\<lambda>x. StatusChanged (s_id x) Expired now) xs)"
    using Cons.prems by (intro Cons.IH key rest) simp_all
  have "expire_row now xs (?f r) = expire_row now (x # xs) r" for r
    using Cons.prems(2) by (auto simp: expire_row_def)
  then show ?case
    using IH by (simp add: step del: open_statuses)
qed

end
