(* ===== verification/Wallet_Flows.thy ===== *)
theory Wallet_Flows
  imports Session_Lifecycle
begin

text \<open>
  The wallet-facing use cases that write sessions: presentation requests and responses
  (\<open>verifier/oid4vp/application\<close>), credential offers and notifications
  (\<open>issuer/issuance/oid4vci/application\<close>), with the choice of the authorization server an offer
  points to (\<open>oid4vci/domain/authorization-server-endpoint.ts\<close>). Webhook delivery, the offer encoder
  and the request signer are parameters.
\<close>

section \<open>Presentation responses\<close>

datatype flow_error =
    NotUsable status
  | PresentationAlreadyConsumed
  | CredentialOfferNotFound
  | CredentialNotificationNotFound string
  | AuthorizationServerNotConfigured
  | PreAuthorizedWithoutCode
  | ClaimsRejected string
  | OfferEncodingFailed

record complete_input =
  cp_tenantId :: string
  cp_sessionId :: string
  cp_credentials :: "json list"
  cp_responseCode :: string
  cp_consumedAt :: "date option"

definition opt_field :: "string \<Rightarrow> json option \<Rightarrow> (string \<times> json) list" where
  "opt_field k v = (case v of None \<Rightarrow> [] | Some j \<Rightarrow> [(k, j)])"

definition success_outcome :: "json list \<Rightarrow> json" where
  "success_outcome credentials = JObj
     [(''result'', JStr ''success''),
      (''credentials'', JArr (map (\<lambda>c. JObj
         (opt_field ''id'' (map_option JStr (jstr (jget ''id'' (Some c)))) @ [(''verified'', JBool True)]))
         credentials))]"

definition completion_update :: "date \<Rightarrow> complete_input \<Rightarrow> session_update" where
  "completion_update now input =
     [Set_credentials (Some (JArr (cp_credentials input))),
      Set_status Completed,
      Set_responseCode (Some (cp_responseCode input)),
      Set_consumed True,
      Set_consumedAt (Some (coalesce (cp_consumedAt input) now)),
      Set_responseEncryptionPrivateJwk None,
      Set_outcome (Some (success_outcome (cp_credentials input)))]"

definition completePresentationResponse ::
    "date \<Rightarrow> complete_input \<Rightarrow> sessions \<Rightarrow> (flow_error + json) \<times> sessions \<times> session_event list" where
  "completePresentationResponse now input db =
     (let (completed, db') = updateUnconsumedForTenant now (cp_tenantId input) (cp_sessionId input)
            (completion_update now input) db
      in if \<not> completed then (Inl PresentationAlreadyConsumed, db', [])
         else (Inr (success_outcome (cp_credentials input)), db',
               announce now (cp_sessionId input) Completed))"

record fail_input =
  fl_tenantId :: string
  fl_sessionId :: string
  fl_message :: string
  fl_code :: "string option"
  fl_credentials :: "json list option"
  fl_publish :: "(json \<times> session) option"

record fail_result =
  fr_failed :: bool
  fr_redirectUri :: "string option"
  fr_publicationFailed :: bool

definition truthy_field :: "string \<Rightarrow> string option \<Rightarrow> (string \<times> json) list" where
  "truthy_field k v = (if truthy v then [(k, JStr (the v))] else [])"

definition failed_outcome :: "fail_input \<Rightarrow> json" where
  "failed_outcome input = JObj
     ([(''result'', JStr ''failed'')] @ truthy_field ''error'' (fl_code input)
      @ [(''message'', JStr (fl_message input))]
      @ (case fl_credentials input of Some (c # cs) \<Rightarrow> [(''credentials'', JArr (c # cs))] | _ \<Rightarrow> []))"

definition failure_update :: "fail_input \<Rightarrow> session_update" where
  "failure_update input =
     [Set_status Failed, Set_errorReason (Some (fl_message input)),
      Set_responseEncryptionPrivateJwk None]
     @ (if truthy (fl_code input) then [Set_failureCode (fl_code input)] else [])
     @ [Set_outcome (Some (failed_outcome input))]"

text \<open>\<open>publisher\<close>: the webhook, the session, the status and the outcome; \<^term>\<open>Inl ()\<close> is a delivery
  that throws, else the redirect the webhook returned.\<close>

definition failPresentationResponse ::
    "(json \<Rightarrow> session \<Rightarrow> status \<Rightarrow> json \<Rightarrow> unit + string option) \<Rightarrow> date \<Rightarrow> fail_input \<Rightarrow> sessions
       \<Rightarrow> fail_result \<times> sessions \<times> session_event list" where
  "failPresentationResponse publisher now input db =
     (let (failed, db') = updateUnconsumedForTenant now (fl_tenantId input) (fl_sessionId input)
            (failure_update input) db
      in if \<not> failed
         then (\<lparr>fr_failed = False, fr_redirectUri = None, fr_publicationFailed = False\<rparr>, db', [])
         else (case fl_publish input of
                 None \<Rightarrow> \<lparr>fr_failed = True, fr_redirectUri = None, fr_publicationFailed = False\<rparr>
               | Some (webhook, s) \<Rightarrow>
                   (case publisher webhook s Failed (failed_outcome input) of
                      Inl _ \<Rightarrow> \<lparr>fr_failed = True, fr_redirectUri = None, fr_publicationFailed = True\<rparr>
                    | Inr redirect \<Rightarrow>
                        \<lparr>fr_failed = True,
                         fr_redirectUri = (if truthy redirect then redirect else None),
                         fr_publicationFailed = False\<rparr>),
               db', announce now (fl_sessionId input) Failed))"


section \<open>Presentation requests\<close>

text \<open>\<open>generate\<close> signs the request object; \<open>others1\<close> and \<open>others2\<close> run before the session write
  and before the status change.\<close>

definition retrievePresentationRequest ::
    "(string \<Rightarrow> string \<Rightarrow> bool \<Rightarrow> string) \<Rightarrow> date \<Rightarrow> session_stmt list \<Rightarrow> session_stmt list \<Rightarrow> session
       \<Rightarrow> string \<Rightarrow> bool \<Rightarrow> sessions \<Rightarrow> (flow_error + string) \<times> sessions \<times> session_event list" where
  "retrievePresentationRequest generate now others1 others2 session origin noRedirect db =
     (case assertSessionUsable session now of
        Inl (SessionNotUsable reason) \<Rightarrow> (Inl (NotUsable reason), db, [])
      | Inr _ \<Rightarrow>
          (let db0 = exec_stmts others1 db;
               (requestObject, db1) =
                 (if truthy (s_requestObject session)
                  then (the (s_requestObject session),
                        if noRedirect
                        then fst (updateForTenant now (s_tenantId session) (s_id session)
                                    [Set_redirectUri None] db0)
                        else db0)
                  else (let ro = generate (s_id session) origin noRedirect
                        in (ro, fst (updateForTenant now (s_tenantId session) (s_id session)
                                       [Set_requestObject (Some ro)] db0))));
               (_, db2, evs) =
                 changeState_executeFrom now (context_of session) [Active] Fetched
                   (exec_stmts others2 db1)
           in (Inr requestObject, db2, evs)))"


section \<open>Credential offers\<close>

datatype as_endpoint = External_AS string | Built_In | Oid4vp_AS string | Chained_AS

record configured_server =
  cs_type :: string
  cs_id :: "string option"
  cs_enabled :: "bool option"
  cs_issuer :: "json option"
  cs_upstream :: bool

definition toAuthorizationServerEndpoint :: "configured_server \<Rightarrow> as_endpoint option" where
  "toAuthorizationServerEndpoint server =
     (if cs_type server = ''external''
      then (case jstr (cs_issuer server) of
              Some i \<Rightarrow> if i \<noteq> [] then Some (External_AS i) else None
            | None \<Rightarrow> None)
      else if cs_type server = ''oid4vp''
      then (case cs_id server of
              Some i \<Rightarrow> if i \<noteq> [] then Some (Oid4vp_AS i) else None
            | None \<Rightarrow> None)
      else if cs_type server = ''built-in'' then Some Built_In
      else if cs_type server = ''chained''
      then (if cs_upstream server then Some Chained_AS else None)
      else None)"

definition authorizationServerIssuer :: "as_endpoint \<Rightarrow> string \<Rightarrow> string" where
  "authorizationServerIssuer endpoint credentialIssuer =
     (case endpoint of
        External_AS issuer \<Rightarrow> issuer
      | Built_In \<Rightarrow> credentialIssuer
      | Oid4vp_AS i \<Rightarrow> credentialIssuer @ ''/authorization-servers/'' @ i
      | Chained_AS \<Rightarrow> credentialIssuer @ ''/chained-as'')"

record as_selection =
  sel_issuer :: string
  sel_sessionServerId :: "string option"

text \<open>The first entry with an endpoint, as the loops of \<open>SelectAuthorizationServer\<close> find it.\<close>

fun first_endpoint ::
    "(configured_server \<Rightarrow> bool) \<Rightarrow> configured_server list \<Rightarrow> as_endpoint option" where
  "first_endpoint P [] = None"
| "first_endpoint P (server # rest) =
     (if \<not> P server then first_endpoint P rest
      else case toAuthorizationServerEndpoint server of
             Some e \<Rightarrow> Some e
           | None \<Rightarrow> first_endpoint P rest)"

lemma first_endpoint_Some:
  "first_endpoint P xs = Some e \<Longrightarrow> \<exists>before s after. xs = before @ s # after \<and> P s
     \<and> toAuthorizationServerEndpoint s = Some e
     \<and> (\<forall>x \<in> set before. P x \<longrightarrow> toAuthorizationServerEndpoint x = None)"
proof (induction xs)
  case (Cons x xs)
  show ?case
  proof (cases "P x \<and> toAuthorizationServerEndpoint x \<noteq> None")
    case True
    with Cons.prems have "x # xs = [] @ x # xs \<and> P x \<and> toAuthorizationServerEndpoint x = Some e" by auto
    then show ?thesis by (metis empty_iff list.set(1))
  next
    case False
    with Cons.prems have "first_endpoint P xs = Some e" by (auto split: if_splits)
    from Cons.IH [OF this] obtain before s after where
      "xs = before @ s # after" "P s" "toAuthorizationServerEndpoint s = Some e"
      "\<forall>x \<in> set before. P x \<longrightarrow> toAuthorizationServerEndpoint x = None" by blast
    with False have "x # xs = (x # before) @ s # after \<and> P s \<and> toAuthorizationServerEndpoint s = Some e
      \<and> (\<forall>y \<in> set (x # before). P y \<longrightarrow> toAuthorizationServerEndpoint y = None)" by auto
    then show ?thesis by blast
  qed
qed simp

definition selectAuthorizationServer ::
    "string \<Rightarrow> configured_server list option \<Rightarrow> string \<Rightarrow> string option \<Rightarrow> flow_error + as_selection" where
  "selectAuthorizationServer publicUrl servers tenantId requested =
     (let credentialIssuer = publicUrl @ ''/issuers/'' @ tenantId;
          enabled = filter (\<lambda>s. cs_enabled s \<noteq> Some False) (coalesce servers [])
      in if truthy requested
         then (case first_endpoint (\<lambda>s. cs_id s = requested) enabled of
                 Some e \<Rightarrow>
                   (let issuer = authorizationServerIssuer e credentialIssuer
                    in Inr \<lparr>sel_issuer = issuer, sel_sessionServerId = Some issuer\<rparr>)
               | None \<Rightarrow> Inl AuthorizationServerNotConfigured)
         else (case first_endpoint (\<lambda>_. True) enabled of
                 Some e \<Rightarrow>
                   Inr \<lparr>sel_issuer = authorizationServerIssuer e credentialIssuer,
                        sel_sessionServerId = (case enabled of [] \<Rightarrow> None | s # _ \<Rightarrow> cs_id s)\<rparr>
               | None \<Rightarrow> Inl AuthorizationServerNotConfigured))"

definition is_digit :: "char \<Rightarrow> bool" where
  "is_digit c = (let n = of_char c :: nat in 48 \<le> n \<and> n \<le> 57)"

definition tx_code_input_mode :: "string \<Rightarrow> string" where
  "tx_code_input_mode code = (if code \<noteq> [] \<and> list_all is_digit code then ''numeric'' else ''text'')"

definition buildCredentialOfferGrants ::
    "offer_flow \<Rightarrow> string \<Rightarrow> string option \<Rightarrow> string option \<Rightarrow> string option \<Rightarrow> string \<Rightarrow> flow_error + json" where
  "buildCredentialOfferGrants flow issuerState authorizationCode txCode txCodeDescription authorizationServer =
     (if flow = Pre_Authorized_Code_Flow
      then (if \<not> truthy authorizationCode then Inl PreAuthorizedWithoutCode
            else Inr (JObj [(''urn:ietf:params:oauth:grant-type:pre-authorized_code'', JObj
              ([(''pre-authorized_code'', JStr (the authorizationCode))]
               @ (if truthy txCode
                  then [(''tx_code'', JObj
                    ([(''input_mode'', JStr (tx_code_input_mode (the txCode))),
                      (''length'', JNum (int (length (the txCode))))]
                     @ opt_field ''description'' (map_option JStr txCodeDescription)))]
                  else [])
               @ [(''authorization_server'', JStr authorizationServer)]))]))
      else Inr (JObj [(''authorization_code'', JObj
             [(''issuer_state'', JStr issuerState), (''authorization_server'', JStr authorizationServer)])]))"

text \<open>What the use case needs beyond the session table: two fresh identifiers, the configured
  authorization servers and offer lifetime, the claim validator and the offer encoder
  (object and URI; \<^term>\<open>None\<close> is an error of the library).\<close>

record offer_environment =
  oe_newIds :: "string \<times> string"
  oe_publicUrl :: string
  oe_servers :: "configured_server list option"
  oe_offerLifetimeSeconds :: "int option"
  oe_validateClaims :: "string \<Rightarrow> string \<Rightarrow> json \<Rightarrow> bool"
  oe_encode :: "session \<Rightarrow> string list \<Rightarrow> json \<Rightarrow> (json \<times> string) option"

definition offer_expiry :: "date \<Rightarrow> int option \<Rightarrow> date option" where
  "offer_expiry now lifetime =
     (case lifetime of None \<Rightarrow> None | Some n \<Rightarrow> if n \<noteq> 0 then Some (now + n * 1000) else None)"

definition offer_session ::
    "date \<Rightarrow> offer_environment \<Rightarrow> string \<Rightarrow> session_offer_request \<Rightarrow> string option \<Rightarrow> as_selection \<Rightarrow> new_session" where
  "offer_session now env tenantId request authorizationCode selection =
     \<lparr>ns_id = fst (oe_newIds env), ns_tenantId = tenantId,
      ns_columns =
        [Set_credentialPayload (Some request),
         Set_credentialConfigurationIds (Some (or_credentialConfigurationIds request))]
        @ opt_assign Set_reference (or_reference request)
        @ opt_assign Set_authorization_code authorizationCode
        @ opt_assign Set_webhookEndpointId (or_webhookEndpointId request)
        @ opt_assign Set_authorizationServerId (sel_sessionServerId selection)
        @ opt_assign Set_expiresAt (offer_expiry now
            (coalesce_opt (or_offerLifetimeSeconds request) (oe_offerLifetimeSeconds env)))\<rparr>"

text \<open>The claims given inline, per credential configuration.\<close>

definition inline_claims :: "json option \<Rightarrow> (string \<times> json) list" where
  "inline_claims v = (case v of
       Some (JObj kvs) \<Rightarrow>
         map (\<lambda>(cid, source). (cid, coalesce (jget ''claims'' (Some source)) JNull))
           (filter (\<lambda>(cid, source). jget ''type'' (Some source) = Some (JStr ''inline'')) kvs)
     | _ \<Rightarrow> [])"

definition offer_claims_error ::
    "offer_environment \<Rightarrow> string \<Rightarrow> session_offer_request \<Rightarrow> string option" where
  "offer_claims_error env tenantId request =
     map_option fst (List.find (\<lambda>(cid, claims). \<not> oe_validateClaims env tenantId cid claims)
       (inline_claims (or_credentialClaims request)))"

definition createCredentialOffer ::
    "offer_environment \<Rightarrow> date \<Rightarrow> session_stmt list \<Rightarrow> string \<Rightarrow> session_offer_request \<Rightarrow> sessions
       \<Rightarrow> (flow_error + string \<times> string) \<times> sessions" where
  "createCredentialOffer env now others tenantId request db =
     (let sid = fst (oe_newIds env)
      in case selectAuthorizationServer (oe_publicUrl env) (oe_servers env) tenantId
                (or_authorization_server request) of
           Inl e \<Rightarrow> (Inl e, db)
         | Inr selection \<Rightarrow>
     (let authorizationCode =
            (if or_flow request = Pre_Authorized_Code_Flow then Some (snd (oe_newIds env)) else None)
      in case buildCredentialOfferGrants (or_flow request) sid authorizationCode (or_tx_code request)
                (or_tx_code_description request) (sel_issuer selection) of
           Inl e \<Rightarrow> (Inl e, db)
         | Inr grants \<Rightarrow>
     (case offer_claims_error env tenantId request of
           Some cid \<Rightarrow> (Inl (ClaimsRejected cid), db)
         | None \<Rightarrow>
     (let (session, db1) = createSession_execute now
            (offer_session now env tenantId request authorizationCode selection) db
      in case oe_encode env session (or_credentialConfigurationIds request) grants of
           None \<Rightarrow> (Inl OfferEncodingFailed, db1)
         | Some (object, uri) \<Rightarrow>
             (Inr (s_id session, uri),
              fst (updateForTenant now tenantId sid [Set_offer (Some object), Set_offerUrl (Some uri)]
                     (exec_stmts others db1)))))))"

text \<open>\<open>RetrieveCredentialOffer\<close>: \<open>others\<close> run between the read and the consuming statement. The view
  has the status and expiry \<open>assertSessionUsable\<close> reads.\<close>

definition offer_view_usable :: "credential_offer_view \<Rightarrow> date \<Rightarrow> flow_error + unit" where
  "offer_view_usable v now =
     (if isTerminalStatus (co_status v) then Inl (NotUsable (co_status v))
      else case co_expiresAt v of
             Some t \<Rightarrow> if t \<le> now then Inl (NotUsable Expired) else Inr ()
           | None \<Rightarrow> Inr ())"

definition retrieveCredentialOffer ::
    "bool \<Rightarrow> date \<Rightarrow> session_stmt list \<Rightarrow> string \<Rightarrow> string \<Rightarrow> sessions
       \<Rightarrow> (flow_error + json option) \<times> sessions" where
  "retrieveCredentialOffer allowMultipleConsumption now others tenantId sid db =
     (case repo_findCredentialOffer tenantId sid db of
        None \<Rightarrow> (Inl CredentialOfferNotFound, db)
      | Some view \<Rightarrow>
          (case offer_view_usable view now of
             Inl e \<Rightarrow> (Inl e, db)
           | Inr _ \<Rightarrow>
               (if \<not> allowMultipleConsumption
                then (if co_offer view = None then (Inl CredentialOfferNotFound, db)
                      else (let (won, db') =
                                  repo_consumeCredentialOffer now tenantId sid (exec_stmts others db)
                            in (if won then Inr (co_offer view) else Inl CredentialOfferNotFound, db')))
                else (Inr (co_offer view), db))))"


section \<open>Credential notifications\<close>

definition set_notification ::
    "string \<Rightarrow> string option \<Rightarrow> string option \<Rightarrow> notification list \<Rightarrow> notification list" where
  "set_notification nid event desc ns =
     (case List.extract (\<lambda>n. nt_id n = nid) ns of
        None \<Rightarrow> ns
      | Some (before, n, after) \<Rightarrow>
          before @ n\<lparr>nt_event := event, nt_eventDescription := desc\<rparr> # after)"

text \<open>The notification is changed in place: the caller's session object changes with it.\<close>

definition recordCredentialNotification ::
    "date \<Rightarrow> session \<Rightarrow> string \<Rightarrow> string option \<Rightarrow> string option \<Rightarrow> sessions
       \<Rightarrow> (flow_error + notification) \<times> session \<times> sessions" where
  "recordCredentialNotification now session nid event desc db =
     (case List.find (\<lambda>n. nt_id n = nid) (s_notifications session) of
        None \<Rightarrow> (Inl (CredentialNotificationNotFound nid), session, db)
      | Some n \<Rightarrow>
          (let session' = session\<lparr>s_notifications :=
                 set_notification nid event desc (s_notifications session)\<rparr>
           in (Inr (n\<lparr>nt_event := event, nt_eventDescription := desc\<rparr>), session',
               fst (updateForTenant now (s_tenantId session) (s_id session)
                      [Set_notifications (s_notifications session')] db))))"

definition notification_status :: "string option \<Rightarrow> status" where
  "notification_status event = (if event = Some ''credential_accepted'' then Completed else Failed)"

text \<open>The result is whether publishing failed. \<open>endpoints\<close> is
  the lookup of the tenant's webhook endpoint, \<open>publish\<close> whether delivery succeeds.\<close>

definition handleCredentialNotification ::
    "(string \<Rightarrow> string \<Rightarrow> json option) \<Rightarrow> (json \<Rightarrow> session \<Rightarrow> notification \<Rightarrow> bool) \<Rightarrow> date
       \<Rightarrow> session_stmt list \<Rightarrow> session \<Rightarrow> string \<Rightarrow> string option \<Rightarrow> string option \<Rightarrow> sessions
       \<Rightarrow> (flow_error + bool) \<times> sessions \<times> session_event list" where
  "handleCredentialNotification endpoints publish now others session nid event desc db =
     (case recordCredentialNotification now session nid event desc db of
        (Inl e, _, db1) \<Rightarrow> (Inl e, db1, [])
      | (Inr notification, session', db1) \<Rightarrow>
          (let endpoint = (if truthy (s_webhookEndpointId session)
                 then endpoints (s_tenantId session) (the (s_webhookEndpointId session)) else None);
               (db2, evs) = changeState_execute now (context_of session) (notification_status event)
                 (exec_stmts others db1)
           in (case endpoint of
                 None \<Rightarrow> (Inr False, db2, evs)
               | Some ep \<Rightarrow> (Inr (\<not> publish ep session' notification), db2, evs))))"

end
