(* ===== verification/Js_Values.thy ===== *)
theory Js_Values
  imports Eudiplo_Base
begin

text \<open>
  JavaScript values and strings as the modelled code uses them: properties of objects, arrays, equality,
  the text of a value, and the string methods of the runtime. Strings are compared case-insensitively on
  the Latin-1 letters.
\<close>

section \<open>JSON objects\<close>

fun jset :: "string \<Rightarrow> json \<Rightarrow> (string \<times> json) list \<Rightarrow> (string \<times> json) list" where
  "jset k v [] = [(k, v)]"
| "jset k v ((k', v') # kvs) = (if k = k' then (k, v) # kvs else (k', v') # jset k v kvs)"

definition jdel :: "string \<Rightarrow> (string \<times> json) list \<Rightarrow> (string \<times> json) list" where
  "jdel k kvs = filter (\<lambda>(k', _). k' \<noteq> k) kvs"

lemma map_of_jset [simp]: "map_of (jset k v kvs) = (map_of kvs)(k \<mapsto> v)"
  by (induction k v kvs rule: jset.induct) (auto simp: fun_eq_iff)

lemma map_of_jdel [simp]: "map_of (jdel k kvs) = (map_of kvs)(k := None)"
  by (induction kvs) (auto simp: jdel_def fun_eq_iff)

definition is_obj :: "json option \<Rightarrow> bool" where
  "is_obj v = (case v of Some (JObj _) \<Rightarrow> True | _ \<Rightarrow> False)"

definition is_arr :: "json option \<Rightarrow> bool" where
  "is_arr v = (case v of Some (JArr _) \<Rightarrow> True | _ \<Rightarrow> False)"

definition obj_of :: "json option \<Rightarrow> (string \<times> json) list" where
  "obj_of v = (case v of Some (JObj kvs) \<Rightarrow> kvs | _ \<Rightarrow> [])"

definition arr_of :: "json option \<Rightarrow> json list" where
  "arr_of v = (case v of Some (JArr xs) \<Rightarrow> xs | _ \<Rightarrow> [])"

text \<open>\<open>Set.add\<close>: primitive values are compared, objects are not.\<close>

definition is_primitive :: "json \<Rightarrow> bool" where
  "is_primitive v = (case v of JArr _ \<Rightarrow> False | JObj _ \<Rightarrow> False | _ \<Rightarrow> True)"

definition set_add :: "json list \<Rightarrow> json \<Rightarrow> json list" where
  "set_add xs v = (if is_primitive v \<and> v \<in> set xs then xs else xs @ [v])"

text \<open>The strict equality of two values: objects and arrays are equal to themselves only, and two values
  that come from different documents are never the same object.\<close>

definition strict_equal :: "json \<Rightarrow> json \<Rightarrow> bool" where
  "strict_equal a b \<longleftrightarrow> is_primitive a \<and> a = b"


section \<open>Strings\<close>

definition lower_char :: "char \<Rightarrow> char" where
  "lower_char c = (let n = of_char c :: nat
     in if (65 \<le> n \<and> n \<le> 90) \<or> (192 \<le> n \<and> n \<le> 222 \<and> n \<noteq> 215) then char_of (n + 32) else c)"

definition toLowerCase :: "string \<Rightarrow> string" where
  "toLowerCase s = map lower_char s"

lemma length_lower [simp]: "length (toLowerCase s) = length s"
  by (simp add: toLowerCase_def)

lemma lower_char_idem: "lower_char (lower_char c) = lower_char c"
  by (auto simp: lower_char_def Let_def)

lemma toLowerCase_idem: "toLowerCase (toLowerCase s) = toLowerCase s"
  by (simp add: toLowerCase_def lower_char_idem)

definition is_js_space :: "char \<Rightarrow> bool" where
  "is_js_space c = (of_char c \<in> set [9, 10, 11, 12, 13, 32, 160 :: nat])"

definition js_trim :: "string \<Rightarrow> string" where
  "js_trim s = rev (dropWhile is_js_space (rev (dropWhile is_js_space s)))"

definition quoted :: "string \<Rightarrow> string" where
  "quoted s = CHR 0x27 # s @ [CHR 0x27]"

definition starts_with :: "string \<Rightarrow> string \<Rightarrow> bool" where
  "starts_with s p \<longleftrightarrow> take (length p) s = p"

definition ends_with :: "string \<Rightarrow> string \<Rightarrow> bool" where
  "ends_with s p \<longleftrightarrow> length p \<le> length s \<and> drop (length s - length p) s = p"

definition strip_slash :: "string \<Rightarrow> string" where
  "strip_slash s = (if s \<noteq> [] \<and> last s = CHR ''/'' then butlast s else s)"

definition digits_value :: "string \<Rightarrow> nat option" where
  "digits_value s = (if list_all (\<lambda>c. 48 \<le> (of_char c :: nat) \<and> (of_char c :: nat) \<le> 57) s
     then Some (foldl (\<lambda>n c. 10 * n + (of_char c - 48)) 0 s) else None)"

text \<open>\<open>s.replaceAll(pat, rep)\<close> for a pattern that is not empty.\<close>

fun replace_from :: "nat \<Rightarrow> string \<Rightarrow> string \<Rightarrow> string \<Rightarrow> string" where
  "replace_from (Suc k) pat rep s = replace_from k pat rep (tl s)"
| "replace_from 0 pat rep [] = []"
| "replace_from 0 pat rep (c # cs) =
     (if starts_with (c # cs) pat then rep @ replace_from (length pat - 1) pat rep cs
      else c # replace_from 0 pat rep cs)"

definition replaceAll :: "string \<Rightarrow> string \<Rightarrow> string \<Rightarrow> string" where
  "replaceAll pat rep s = replace_from 0 pat rep s"

text \<open>\<open>s.split(sep)\<close> for a separator of one character.\<close>

fun split_on :: "char \<Rightarrow> string \<Rightarrow> string list" where
  "split_on sep [] = [[]]"
| "split_on sep (c # cs) =
     (if c = sep then [] # split_on sep cs
      else (case split_on sep cs of p # ps \<Rightarrow> (c # p) # ps | [] \<Rightarrow> [[c]]))"

text \<open>A value in a template literal (an object has no useful text); \<open>shown\<close> is that of \<open>v ?? "undefined"\<close>.\<close>

fun js_text :: "json \<Rightarrow> string" where
  "js_text JNull = ''null''"
| "js_text (JBool b) = (if b then ''true'' else ''false'')"
| "js_text (JNum n) = show_int n"
| "js_text (JStr s) = s"
| "js_text (JArr xs) = join '','' (map (\<lambda>x. if x = JNull then [] else js_text x) xs)"
| "js_text (JObj kvs) = ''[object Object]''"

definition shown :: "json option \<Rightarrow> string" where
  "shown v = (case v of None \<Rightarrow> ''undefined'' | Some JNull \<Rightarrow> ''undefined'' | Some x \<Rightarrow> js_text x)"


section \<open>Results\<close>

definition map_failure :: "('e \<Rightarrow> 'f) \<Rightarrow> 'e + 'a \<Rightarrow> 'f + 'a" where
  "map_failure f r = (case r of Inl e \<Rightarrow> Inl (f e) | Inr x \<Rightarrow> Inr x)"

lemma map_failure_returns [returns]: "map_failure f r = Inr x \<longleftrightarrow> r = Inr x"
  by (cases r) (simp_all add: map_failure_def)

text \<open>\<open>Promise.all\<close> over a list: the values, or the first error in the order of the list.\<close>

fun all_results :: "('e + 'a) list \<Rightarrow> 'e + 'a list" where
  "all_results [] = Inr []"
| "all_results (r # rs) = ebind r (\<lambda>x. ebind (all_results rs) (\<lambda>xs. Inr (x # xs)))"

lemma all_results_returns [returns]: "all_results rs = Inr xs \<longleftrightarrow> list_all2 (\<lambda>r x. r = Inr x) rs xs"
  by (induction rs arbitrary: xs) (auto simp: list_all2_Cons1 returns)

lemma all_results_throws: "all_results rs = Inl e \<Longrightarrow> Inl e \<in> set rs"
proof (induction rs)
  case (Cons r rs)
  then show ?case by (cases r; cases "all_results rs") auto
qed simp

end
