(* ===== verification/Session_Search.thy ===== *)
theory Session_Search
  imports Js_Values "HOL-Library.List_Lexorder" "HOL-Library.Char_ord"
begin

text \<open>
  The free-text session search of \<open>session/domain/session-search.ts\<close>: UUID prefixes, the range of
  ids a prefix stands for, and the interpretation of a pasted term or link. \<open>new URL\<close> and
  \<open>JSON.parse\<close> are parameters; characters are code points below 256. Proved here: on complete ids
  the range comparison the database runs is the prefix test, and a link never matches by prefix.
\<close>

section \<open>UUID prefixes\<close>

definition UUID_TEMPLATE :: string where
  "UUID_TEMPLATE = ''xxxxxxxx-xxxx-xxxx-xxxx-xxxxxxxxxxxx''"

definition PRE_AUTHORIZED_GRANT :: string where
  "PRE_AUTHORIZED_GRANT = ''urn:ietf:params:oauth:grant-type:pre-authorized_code''"

record session_search =
  ss_idPrefix :: "string option"
  ss_walletNonce :: "string option"
  ss_authorizationCode :: "string option"
  ss_reference :: "string option"

text \<open>\<open>/[0-9a-f]/.test(char)\<close>.\<close>

definition is_lower_hex :: "char \<Rightarrow> bool" where
  "is_lower_hex c = (let n = of_char c :: nat in (48 \<le> n \<and> n \<le> 57) \<or> (97 \<le> n \<and> n \<le> 102))"

definition uuid_char_ok :: "char \<Rightarrow> char \<Rightarrow> bool" where
  "uuid_char_ok template c = (if template = CHR ''-'' then c = CHR ''-'' else is_lower_hex c)"

definition isUuidPrefix :: "string \<Rightarrow> bool" where
  "isUuidPrefix value \<longleftrightarrow>
     \<not> (length value = 0 \<or> length value > length UUID_TEMPLATE)
     \<and> list_all2 uuid_char_ok (take (length value) UUID_TEMPLATE) (toLowerCase value)"

definition uuid_fill :: "string \<Rightarrow> char \<Rightarrow> string" where
  "uuid_fill value digit =
     value @ map (\<lambda>c. if c = CHR ''x'' then digit else c) (drop (length value) UUID_TEMPLATE)"

definition uuidPrefixRange :: "string \<Rightarrow> string \<times> string" where
  "uuidPrefixRange prefix =
     (let value = toLowerCase prefix in (uuid_fill value CHR ''0'', uuid_fill value CHR ''f''))"

text \<open>\<open>id BETWEEN lo AND hi\<close> on the canonical text of the ids.\<close>

definition id_between :: "string \<Rightarrow> string \<times> string \<Rightarrow> bool" where
  "id_between i bounds \<longleftrightarrow> fst bounds \<le> i \<and> i \<le> snd bounds"

text \<open>The canonical text of a stored id: a complete lower-case UUID.\<close>

definition canonical_uuid :: "string \<Rightarrow> bool" where
  "canonical_uuid i \<longleftrightarrow> list_all2 uuid_char_ok UUID_TEMPLATE i"


section \<open>Interpreting a search term\<close>

record url =
  url_pathname :: string
  url_searchParams :: "(string \<times> string) list"

fun alpha_char :: "char \<Rightarrow> bool" where
  "alpha_char c = (let n = of_char c :: nat in (65 \<le> n \<and> n \<le> 90) \<or> (97 \<le> n \<and> n \<le> 122))"

definition scheme_char :: "char \<Rightarrow> bool" where
  "scheme_char c = (alpha_char c \<or> (let n = of_char c :: nat in 48 \<le> n \<and> n \<le> 57)
     \<or> c \<in> set ''+.-'')"

text \<open>\<open>/^[a-z][a-z0-9+.-]*:/i\<close>.\<close>

definition has_scheme :: "string \<Rightarrow> bool" where
  "has_scheme value = (case value of [] \<Rightarrow> False
     | c # cs \<Rightarrow> alpha_char c \<and> (case dropWhile scheme_char cs of [] \<Rightarrow> False | d # _ \<Rightarrow> d = CHR '':''))"

definition parseUrl :: "(string \<Rightarrow> url option) \<Rightarrow> string \<Rightarrow> url option" where
  "parseUrl new_URL value = (if \<not> has_scheme value then None else new_URL value)"

text \<open>\<open>split('/').filter(Boolean)\<close>.\<close>

definition path_segments :: "string \<Rightarrow> string list" where
  "path_segments p = filter (\<lambda>s. s \<noteq> []) (split_on CHR ''/'' p)"

fun lastIndexOf :: "'a list \<Rightarrow> 'a \<Rightarrow> nat option" where
  "lastIndexOf [] x = None"
| "lastIndexOf (y # ys) x =
     (case lastIndexOf ys x of Some i \<Rightarrow> Some (Suc i) | None \<Rightarrow> if y = x then Some 0 else None)"

definition at_index :: "'a list \<Rightarrow> nat \<Rightarrow> 'a option" where
  "at_index xs i = (if i < length xs then Some (xs ! i) else None)"

definition exactId :: "string \<Rightarrow> string option" where
  "exactId value =
     (if length value = length UUID_TEMPLATE \<and> isUuidPrefix value
      then Some (toLowerCase value) else None)"

definition no_search :: session_search where
  "no_search = \<lparr>ss_idPrefix = None, ss_walletNonce = None, ss_authorizationCode = None,
                ss_reference = None\<rparr>"

definition fromOfferObject :: "(string \<Rightarrow> json option) \<Rightarrow> string \<Rightarrow> session_search option" where
  "fromOfferObject json_parse value =
     (case json_parse value of
        None \<Rightarrow> None
      | Some offer \<Rightarrow>
          (let grants = jget ''grants'' (Some offer);
               issuerState = jget ''issuer_state'' (jget ''authorization_code'' grants);
               code = jget ''pre-authorized_code'' (jget PRE_AUTHORIZED_GRANT grants)
           in case jstr issuerState of
                Some s \<Rightarrow> Some (no_search\<lparr>ss_idPrefix := exactId s\<rparr>)
              | None \<Rightarrow>
                  (case jstr code of
                     Some c \<Rightarrow> Some (no_search\<lparr>ss_authorizationCode := Some c\<rparr>)
                   | None \<Rightarrow> None)))"

text \<open>The search a request path carries: the segment after \<open>credential-offers\<close>, or the nonce in
  \<open>presentations/<nonce>/oid4vp\<close>.\<close>

definition from_segments :: "string list \<Rightarrow> session_search option" where
  "from_segments segments =
     (let after = (\<lambda>name k. case lastIndexOf segments name of
                      None \<Rightarrow> None | Some i \<Rightarrow> at_index segments (i + k))
      in case after ''credential-offers'' 1 of
           Some s \<Rightarrow> Some (no_search\<lparr>ss_idPrefix := exactId s\<rparr>)
         | None \<Rightarrow>
             (case (after ''presentations'' 2, after ''presentations'' 1) of
                (Some p, Some n) \<Rightarrow>
                  (if p = ''oid4vp'' then Some (no_search\<lparr>ss_walletNonce := Some n\<rparr>) else None)
              | _ \<Rightarrow> None))"

definition parseLink ::
    "(string \<Rightarrow> url option) \<Rightarrow> (string \<Rightarrow> json option) \<Rightarrow> string \<Rightarrow> session_search option" where
  "parseLink new_URL json_parse term_text =
     (case parseUrl new_URL term_text of
        None \<Rightarrow> None
      | Some u \<Rightarrow>
          (let param = map_of (url_searchParams u);
               offer = param ''credential_offer''
           in if truthy offer then fromOfferObject json_parse (the offer)
              else let target = coalesce
                         (coalesce_opt (parseUrl new_URL (coalesce (param ''credential_offer_uri'') []))
                            (parseUrl new_URL (coalesce (param ''request_uri'') []))) u
                   in from_segments (path_segments (url_pathname target))))"

definition parseSessionSearch ::
    "(string \<Rightarrow> url option) \<Rightarrow> (string \<Rightarrow> json option) \<Rightarrow> string \<Rightarrow> session_search" where
  "parseSessionSearch new_URL json_parse input =
     (let term_text = js_trim input
      in case parseLink new_URL json_parse term_text of
           Some s \<Rightarrow> s
         | None \<Rightarrow> \<lparr>ss_idPrefix = (if isUuidPrefix term_text then Some (toLowerCase term_text) else None),
                     ss_walletNonce = Some term_text,
                     ss_authorizationCode = Some term_text,
                     ss_reference = Some term_text\<rparr>)"


section \<open>The range of a prefix\<close>

lemma length_template [simp]: "length UUID_TEMPLATE = 36"
  by (simp add: UUID_TEMPLATE_def)

lemma hex_le_f: "is_lower_hex c \<Longrightarrow> c \<le> CHR ''f''"
  by (auto simp: is_lower_hex_def less_eq_char_def Let_def)

lemma zero_le_hex: "is_lower_hex c \<Longrightarrow> CHR ''0'' \<le> c"
  by (auto simp: is_lower_hex_def less_eq_char_def Let_def)

text \<open>Two lists of the same length compare by their first parts, or by the rest.\<close>

lemma append_le_append:
  fixes p q :: "'a::linorder list"
  assumes "length p = length q"
  shows "p @ xs \<le> q @ ys \<longleftrightarrow> p < q \<or> p = q \<and> xs \<le> ys"
  using assms by (induction p q rule: list_induct2) auto

lemma le_pointwise:
  fixes xs ys :: "'a::linorder list"
  shows "list_all2 (\<le>) xs ys \<Longrightarrow> xs \<le> ys"
  by (induction rule: list_all2_induct) auto

abbreviation fill_with :: "char \<Rightarrow> string \<Rightarrow> string" where
  "fill_with d \<equiv> map (\<lambda>c. if c = CHR ''x'' then d else c)"

lemma template_chars: "set UUID_TEMPLATE \<subseteq> {CHR ''x'', CHR ''-''}"
  by (simp add: UUID_TEMPLATE_def)

lemma fill_bounds:
  assumes "list_all2 uuid_char_ok t i" "set t \<subseteq> {CHR ''x'', CHR ''-''}"
  shows "list_all2 (\<le>) (fill_with CHR ''0'' t) i \<and> list_all2 (\<le>) i (fill_with CHR ''f'' t)"
  using assms
proof (induction t i rule: list_all2_induct)
  case (Cons t ts c cs)
  then have "t = CHR ''x'' \<or> t = CHR ''-''" by simp
  with Cons show ?case
    by (elim disjE) (simp_all add: uuid_char_ok_def zero_le_hex hex_le_f)
qed simp

text \<open>On complete ids, the range of a prefix is the prefix test.\<close>

lemma id_between_prefix:
  assumes "canonical_uuid i" "length p \<le> 36"
  shows "id_between i (uuidPrefixRange p) \<longleftrightarrow> take (length p) i = toLowerCase p"
proof -
  let ?n = "length p" and ?q = "toLowerCase p"
  have len: "length i = 36"
    using assms(1) by (simp add: canonical_uuid_def list_all2_lengthD [symmetric])
  have rest: "list_all2 uuid_char_ok (drop ?n UUID_TEMPLATE) (drop ?n i)"
    using assms(1) by (simp add: canonical_uuid_def list_all2_dropI)
  have chars: "set (drop ?n UUID_TEMPLATE) \<subseteq> {CHR ''x'', CHR ''-''}"
    using template_chars set_drop_subset by fast
  note bounds = fill_bounds [OF rest chars]
  then have lo: "fill_with CHR ''0'' (drop ?n UUID_TEMPLATE) \<le> drop ?n i"
    and hi: "drop ?n i \<le> fill_with CHR ''f'' (drop ?n UUID_TEMPLATE)"
    by (blast dest: le_pointwise)+
  have same: "length ?q = length (take ?n i)" using assms(2) len by simp
  have "id_between i (uuidPrefixRange p) \<longleftrightarrow>
      ?q @ fill_with CHR ''0'' (drop ?n UUID_TEMPLATE) \<le> take ?n i @ drop ?n i
      \<and> take ?n i @ drop ?n i \<le> ?q @ fill_with CHR ''f'' (drop ?n UUID_TEMPLATE)"
    by (simp add: id_between_def uuidPrefixRange_def uuid_fill_def Let_def)
  also have "\<dots> \<longleftrightarrow> take ?n i = ?q"
    unfolding append_le_append [OF same] append_le_append [OF same [symmetric]]
    using lo hi by (simp only: simp_thms) (metis less_imp_le order.antisym)
  finally show ?thesis .
qed

lemma isUuidPrefix_length: "isUuidPrefix p \<Longrightarrow> 0 < length p \<and> length p \<le> 36"
  by (auto simp: isUuidPrefix_def)

lemma exactId_full: "exactId v = Some i \<Longrightarrow> length i = 36"
  by (auto simp: exactId_def split: if_splits)

lemma canonical_toLower [simp]: "canonical_uuid i \<Longrightarrow> toLowerCase i = i"
proof -
  have hex: "uuid_char_ok t c \<Longrightarrow> t \<in> {CHR ''x'', CHR ''-''} \<Longrightarrow> lower_char c = c" for t c
    by (auto simp: uuid_char_ok_def is_lower_hex_def lower_char_def Let_def split: if_splits)
  assume "canonical_uuid i"
  then have "list_all2 uuid_char_ok UUID_TEMPLATE i" by (simp add: canonical_uuid_def)
  then have "lower_char (i ! n) = i ! n" if "n < length i" for n
    using hex [of "UUID_TEMPLATE ! n" "i ! n"] that template_chars
    by (metis list_all2_conv_all_nth nth_mem subset_iff)
  then have "map lower_char i = i" by (intro nth_equalityI) simp_all
  then show ?thesis by (simp add: toLowerCase_def)
qed

text \<open>A search taken from a link names a complete id or no id.\<close>

lemma from_segments_exact:
  "from_segments ss = Some r \<Longrightarrow> ss_idPrefix r = Some i \<Longrightarrow> length i = 36"
  by (auto simp: from_segments_def no_search_def Let_def dest: exactId_full
      split: option.splits if_splits)

lemma fromOfferObject_exact:
  "fromOfferObject jp v = Some r \<Longrightarrow> ss_idPrefix r = Some i \<Longrightarrow> length i = 36"
  by (auto simp: fromOfferObject_def no_search_def Let_def dest: exactId_full
      split: option.splits if_splits)

lemma parseLink_exact:
  "parseLink nu jp t = Some r \<Longrightarrow> ss_idPrefix r = Some i \<Longrightarrow> length i = 36"
  by (auto simp: parseLink_def Let_def dest: from_segments_exact fromOfferObject_exact
      split: option.splits if_splits)

lemma parseSessionSearch_prefix:
  "ss_idPrefix (parseSessionSearch nu jp input) = Some i \<Longrightarrow> length i \<le> 36"
  by (auto simp: parseSessionSearch_def Let_def dest: parseLink_exact isUuidPrefix_length
      split: option.splits if_splits)

end
