(* ===== verification/Session_Listing.thy ===== *)
theory Session_Listing
  imports Session_Repository Session_Search "HOL-Library.Product_Lexorder" "HOL-Library.Char_ord"
begin

text \<open>
  The session list of the management API: \<open>listForTenant\<close>, \<open>filteredSessions\<close> and \<open>matchesSearch\<close> of
  \<open>session/adapters/typeorm-session.repository.ts\<close> and \<open>SessionStore.listForTenant\<close> of
  \<open>session/application/session-store.ts\<close>. The sort order of strings and the place of \<open>NULL\<close> are
  the database's: a \<open>dialect\<close> is a parameter. \<open>page\<close> and \<open>pageSize\<close> are at least 1
  (\<open>session/dto/session-query.dto.ts\<close>). Proved here: the pages split the sorted result without
  repetition or omission, and neither tenants nor scopes leak.
\<close>

section \<open>Queries\<close>

datatype sort_field = By_id | By_status | By_createdAt | By_updatedAt | By_requestId

datatype sort_order = Asc | Desc

record session_list_query =
  q_page :: nat
  q_pageSize :: nat
  q_status :: "status list option"
  q_type :: "session_type option"
  q_createdFrom :: "date option"
  q_createdTo :: "date option"
  q_updatedFrom :: "date option"
  q_updatedTo :: "date option"
  q_requestId :: "string option"
  q_credentialConfigurationId :: "string option"
  q_failureCode :: "string option"
  q_id :: "string option"
  q_q :: "string option"
  q_sortBy :: "sort_field option"
  q_sortOrder :: "sort_order option"

record session_summary =
  su_id :: string
  su_status :: status
  su_createdAt :: date
  su_updatedAt :: date
  su_expiresAt :: "date option"
  su_requestId :: "string option"
  su_failureCode :: "string option"
  su_reference :: "string option"

record session_page =
  pg_items :: "session_summary list"
  pg_total :: nat
  pg_page :: nat
  pg_pageSize :: nat
  pg_totalPages :: nat

text \<open>What the database decides: where \<open>NULL\<close> sorts, and the collation key of a text column.\<close>

record dialect =
  di_nullsFirst :: bool
  di_collate :: "string \<Rightarrow> string"

text \<open>The parsers a search term goes through.\<close>

record parsers =
  pr_new_URL :: "string \<Rightarrow> url option"
  pr_json_parse :: "string \<Rightarrow> json option"


section \<open>Filters\<close>

definition matches_opt :: "'a option \<Rightarrow> ('a \<Rightarrow> bool) \<Rightarrow> bool" where
  "matches_opt v P = (case v of None \<Rightarrow> True | Some x \<Rightarrow> P x)"

definition matches_text :: "string option \<Rightarrow> (string \<Rightarrow> bool) \<Rightarrow> bool" where
  "matches_text v P = (if truthy v then P (the v) else True)"

definition matches_id :: "string option \<Rightarrow> (string \<Rightarrow> bool) \<Rightarrow> bool" where
  "matches_id v P = (truthy v \<and> P (the v))"

definition matchesSearch :: "session_search \<Rightarrow> session \<Rightarrow> bool" where
  "matchesSearch search r \<longleftrightarrow>
     matches_id (ss_idPrefix search) (\<lambda>p. id_between (s_id r) (uuidPrefixRange p))
     \<or> matches_id (ss_walletNonce search) (\<lambda>v. s_walletNonce r = Some v)
     \<or> matches_id (ss_authorizationCode search) (\<lambda>v. s_authorization_code r = Some v)
     \<or> matches_id (ss_reference search) (\<lambda>v. s_reference r = Some v)"

definition offersCredentialConfiguration :: "string \<Rightarrow> session \<Rightarrow> bool" where
  "offersCredentialConfiguration cid r =
     (case s_credentialConfigurationIds r of None \<Rightarrow> False | Some ids \<Rightarrow> cid \<in> set ids)"

definition session_filter ::
    "parsers \<Rightarrow> string \<Rightarrow> session_list_query \<Rightarrow> session \<Rightarrow> bool" where
  "session_filter pr tenantId query r \<longleftrightarrow>
     s_tenantId r = tenantId
     \<and> (case q_status query of None \<Rightarrow> True | Some sts \<Rightarrow> sts = [] \<or> s_status r \<in> set sts)
     \<and> typeWhere (q_type query) r
     \<and> matches_opt (q_createdFrom query) (\<lambda>t. t \<le> s_createdAt r)
     \<and> matches_opt (q_createdTo query) (\<lambda>t. s_createdAt r \<le> t)
     \<and> matches_opt (q_updatedFrom query) (\<lambda>t. t \<le> s_updatedAt r)
     \<and> matches_opt (q_updatedTo query) (\<lambda>t. s_updatedAt r \<le> t)
     \<and> matches_text (q_requestId query) (\<lambda>v. s_requestId r = Some v)
     \<and> matches_text (q_failureCode query) (\<lambda>v. s_failureCode r = Some v)
     \<and> matches_text (q_credentialConfigurationId query) (\<lambda>v. offersCredentialConfiguration v r)
     \<and> matches_text (q_id query) (\<lambda>p. id_between (s_id r) (uuidPrefixRange p))
     \<and> matches_text (q_q query)
          (\<lambda>v. matchesSearch (parseSessionSearch (pr_new_URL pr) (pr_json_parse pr) v) r)"

definition filteredSessions ::
    "parsers \<Rightarrow> string \<Rightarrow> session_list_query \<Rightarrow> sessions \<Rightarrow> sessions" where
  "filteredSessions pr tenantId query db = sql_find (session_filter pr tenantId query) db"


section \<open>Sorting and paging\<close>

definition status_text :: "status \<Rightarrow> string" where
  "status_text st = (case st of Active \<Rightarrow> ''active'' | Fetched \<Rightarrow> ''fetched''
     | Completed \<Rightarrow> ''completed'' | Expired \<Rightarrow> ''expired'' | Failed \<Rightarrow> ''failed''
     | Cancelled \<Rightarrow> ''cancelled'')"

text \<open>The sort key of a column: a number for dates and for \<open>NULL\<close>, else a collated text.\<close>

definition sort_value :: "dialect \<Rightarrow> sort_field \<Rightarrow> session \<Rightarrow> int \<times> string" where
  "sort_value d f r = (case f of
       By_id \<Rightarrow> (0, s_id r)
     | By_status \<Rightarrow> (0, di_collate d (status_text (s_status r)))
     | By_createdAt \<Rightarrow> (s_createdAt r, [])
     | By_updatedAt \<Rightarrow> (s_updatedAt r, [])
     | By_requestId \<Rightarrow> (case s_requestId r of
           None \<Rightarrow> (if di_nullsFirst d then -1 else 1, [])
         | Some v \<Rightarrow> (0, di_collate d v)))"

text \<open>\<open>ORDER BY column direction, id direction\<close>.\<close>

definition order_key :: "dialect \<Rightarrow> sort_field \<Rightarrow> session \<Rightarrow> (int \<times> string) \<times> string" where
  "order_key d f r = (sort_value d f r, s_id r)"

definition ordered :: "dialect \<Rightarrow> session_list_query \<Rightarrow> sessions \<Rightarrow> sessions" where
  "ordered d query rs =
     (let asc = sort_key (order_key d (coalesce (q_sortBy query) By_updatedAt)) rs
      in if q_sortOrder query = Some Asc then asc else rev asc)"

definition summary :: "session \<Rightarrow> session_summary" where
  "summary r = \<lparr>su_id = s_id r, su_status = s_status r, su_createdAt = s_createdAt r,
     su_updatedAt = s_updatedAt r, su_expiresAt = s_expiresAt r, su_requestId = s_requestId r,
     su_failureCode = s_failureCode r, su_reference = s_reference r\<rparr>"

definition page_slice :: "nat \<Rightarrow> nat \<Rightarrow> 'a list \<Rightarrow> 'a list" where
  "page_slice page pageSize rs = take pageSize (drop ((page - 1) * pageSize) rs)"

definition repo_listForTenant ::
    "dialect \<Rightarrow> parsers \<Rightarrow> string \<Rightarrow> session_list_query \<Rightarrow> sessions \<Rightarrow> session_summary list \<times> nat" where
  "repo_listForTenant d pr tenantId query db =
     (let filtered = filteredSessions pr tenantId query db;
          total = length filtered
      in (map summary (page_slice (q_page query) (q_pageSize query) (ordered d query filtered)), total))"

text \<open>\<open>SessionStore.listForTenant\<close>: a type filter outside the scope matches no session.\<close>

definition store_listForTenant ::
    "dialect \<Rightarrow> parsers \<Rightarrow> string \<Rightarrow> session_list_query \<Rightarrow> session_type option \<Rightarrow> sessions \<Rightarrow> session_page" where
  "store_listForTenant d pr tenantId query scope db =
     (let (items, total) =
            (if scope \<noteq> None \<and> q_type query \<noteq> None \<and> q_type query \<noteq> scope then ([], 0)
             else repo_listForTenant d pr tenantId
                    (query\<lparr>q_type := coalesce_opt (q_type query) scope\<rparr>) db)
      in \<lparr>pg_items = items, pg_total = total, pg_page = q_page query, pg_pageSize = q_pageSize query,
          pg_totalPages = (total + q_pageSize query - 1) div q_pageSize query\<rparr>)"


section \<open>Pages\<close>

lemma page_slice_concat:
  assumes "0 < k"
  shows "concat (map (\<lambda>p. page_slice p k xs) [1..<n + 1]) = take (n * k) xs"
proof (induction n)
  case (Suc n)
  have "[1..<Suc n + 1] = [1..<n + 1] @ [Suc n]" by simp
  moreover have "take (Suc n * k) xs = take (n * k) xs @ page_slice (Suc n) k xs"
    by (simp add: page_slice_def take_add add.commute [of k])
  ultimately show ?case using Suc by simp
qed simp

lemma total_pages_cover:
  assumes "0 < (k::nat)"
  shows "n \<le> (n + k - 1) div k * k"
proof -
  have "n + k - 1 = (n + k - 1) div k * k + (n + k - 1) mod k" by simp
  moreover have "(n + k - 1) mod k < k" using assms by simp
  ultimately show ?thesis by linarith
qed

lemma ordered_set [simp]: "set (ordered d query rs) = set rs"
  by (simp add: ordered_def Let_def)

lemma ordered_length [simp]: "length (ordered d query rs) = length rs"
  by (simp add: ordered_def Let_def)

lemma ordered_distinct: "distinct (map s_id rs) \<Longrightarrow> distinct (map s_id (ordered d query rs))"
  by (simp add: ordered_def Let_def distinct_map)

lemma ordered_sorted:
  "sorted_wrt (\<lambda>a b. if q_sortOrder query = Some Asc
       then order_key d (coalesce (q_sortBy query) By_updatedAt) a
              \<le> order_key d (coalesce (q_sortBy query) By_updatedAt) b
       else order_key d (coalesce (q_sortBy query) By_updatedAt) b
              \<le> order_key d (coalesce (q_sortBy query) By_updatedAt) a) (ordered d query rs)"
  using sorted_sort_key [of "order_key d (coalesce (q_sortBy query) By_updatedAt)" rs]
  by (simp add: ordered_def Let_def sorted_wrt_rev sorted_map)

lemma filteredSessions_iff:
  "r \<in> set (filteredSessions pr t query db) \<longleftrightarrow> r \<in> set db \<and> session_filter pr t query r"
  by (auto simp: filteredSessions_def sql_find_def)

text \<open>The query the store passes to the repository, and what it can return.\<close>

lemma scoped_filter:
  assumes "\<not> (scope \<noteq> None \<and> q_type query \<noteq> None \<and> q_type query \<noteq> scope)"
    "session_filter pr t (query\<lparr>q_type := coalesce_opt (q_type query) scope\<rparr>) r"
  shows "s_tenantId r = t" "typeWhere scope r"
  using assms by (auto simp: session_filter_def typeWhere_def split: option.splits session_type.splits)

text \<open>Neither the filter nor the order depends on the page number.\<close>

lemma page_irrelevant [simp]:
  "session_filter pr t (query\<lparr>q_page := p, q_type := ty\<rparr>) = session_filter pr t (query\<lparr>q_type := ty\<rparr>)"
  "ordered d (query\<lparr>q_page := p, q_type := ty\<rparr>) = ordered d (query\<lparr>q_type := ty\<rparr>)"
  by (auto simp: session_filter_def ordered_def)

lemma page_slice_subset: "set (page_slice p k xs) \<subseteq> set xs"
  unfolding page_slice_def by (meson order_trans set_drop_subset set_take_subset)

lemma repo_items:
  assumes "it \<in> set (fst (repo_listForTenant d pr t query db))"
  shows "\<exists>r \<in> set db. it = summary r \<and> session_filter pr t query r"
proof -
  let ?rs = "ordered d query (filteredSessions pr t query db)"
  from assms obtain r where r: "it = summary r" "r \<in> set (page_slice (q_page query) (q_pageSize query) ?rs)"
    unfolding repo_listForTenant_def Let_def fst_conv set_map by blast
  then have "r \<in> set ?rs" by (blast dest: subsetD [OF page_slice_subset])
  with r(1) show ?thesis unfolding ordered_set filteredSessions_iff by blast
qed

lemma store_items:
  assumes "it \<in> set (pg_items (store_listForTenant d pr t query scope db))"
  shows "\<exists>r \<in> set db. it = summary r \<and> s_tenantId r = t \<and> typeWhere scope r"
proof (cases "scope \<noteq> None \<and> q_type query \<noteq> None \<and> q_type query \<noteq> scope")
  case True
  with assms show ?thesis by (simp add: store_listForTenant_def)
next
  case False
  let ?query = "query\<lparr>q_type := coalesce_opt (q_type query) scope\<rparr>"
  from assms have "it \<in> set (fst (repo_listForTenant d pr t ?query db))"
    unfolding store_listForTenant_def if_not_P [OF False] by (simp add: split_beta)
  from repo_items [OF this] scoped_filter [OF False] show ?thesis by blast
qed

end
