(* ===== verification/Session_Properties.thy ===== *)
theory Session_Properties
  imports Wallet_Flows Session_Listing
begin

text \<open>
  The properties of the session module and of the wallet flows over it, each with a witness at
  concrete rows where it has hypotheses.
\<close>

section \<open>Concrete rows for the witnesses\<close>

definition row1 :: session where
  "row1 = (blank_session ''s1'' ''acme'' 0)\<lparr>s_expiresAt := Some 100, s_requestId := Some ''pid''\<rparr>"

definition row2 :: session where
  "row2 = (blank_session ''s2'' ''other'' 0)\<lparr>s_offer := Some JNull\<rparr>"

definition cmd1 :: cancel_command where
  "cmd1 = \<lparr>cc_tenantId = ''acme'', cc_sessionId = ''s1'', cc_scope = None, cc_reason = None\<rparr>"

definition response1 :: complete_input where
  "response1 = \<lparr>cp_tenantId = ''acme'', cp_sessionId = ''s1'', cp_credentials = [],
     cp_responseCode = ''rc'', cp_consumedAt = None\<rparr>"

definition cancelled1 :: sessions where
  "cancelled1 = [row1\<lparr>s_status := Cancelled, s_updatedAt := 1\<rparr>, row2]"

lemmas rows = row1_def row2_def blank_session_def

lemma rows_key [simp]: "unique_key s_id [row1, row2]"
  by (simp add: unique_key_def rows)

lemma cancel1:
  "cancel_execute 1 [] [] cmd1 [row1, row2] =
     (Inr (), cancelled1, [StatusChanged ''s1'' Cancelled 1, SessionCancelled_event ''s1'' ''acme'' None,
        CancellationLogged ''s1'' ''acme'' None])"
  by (simp add: cancel_execute_def getForTenant_def store_lookup_def findForTenant_def cmd1_def
      sql_find_one_def typeWhere_def updateUnconsumedForTenant_def sql_update_def unconsumed_where_def
      cancelled1_def set_clause_def stateUpdate_def announce_def rows)


section \<open>Single use\<close>

text \<open>C1: In every interleaving of single-use updates of a session (cancellation, presentation
  completion or failure, token redemption) with other statements of the backend that do not reopen
  it, at most one of these updates reports success.\<close>

theorem session_used_at_most_once:
  assumes "unique_key s_id db"
    and "list_all (case_sum (\<lambda>c. spending (snd c)) (never_reopens t i)) run"
  shows "wins (claim_session t i) exec_stmt run db \<le> 1"
  by (rule session_use.wins_at_most_once [OF assms(2,1)])

theorem session_used_at_most_once_witness:
  "wins (claim_session ''acme'' ''s1'') exec_stmt
     [Inl (1, stateUpdate Cancelled), Inr (Stmt_Increment 2 ''acme'' ''s1''),
      Inl (3, completion_update 3 response1)] [row1, row2] \<le> 1"
  by (rule session_used_at_most_once)
    (simp_all add: spending_def stateUpdate_def completion_update_def)

text \<open>C2: A successful cancellation is final for presentations: whatever statements run afterwards
  (none of which reopens the session), completing the presentation is refused as already used and
  publishes nothing.\<close>

theorem cancelled_not_completed:
  assumes "unique_key s_id db"
    and "cancel_execute now others1 others2 cmd db = (Inr (), db', evs)"
    and "list_all (never_reopens (cc_tenantId cmd) (cc_sessionId cmd)) others"
    and "cp_tenantId input = cc_tenantId cmd" "cp_sessionId input = cc_sessionId cmd"
  shows "completePresentationResponse now' input (exec_stmts others db')
           = (Inl PresentationAlreadyConsumed, exec_stmts others db', [])"
proof -
  let ?t = "cc_tenantId cmd" and ?i = "cc_sessionId cmd"
  have u: "updateUnconsumedForTenant now ?t ?i (stateUpdate Cancelled) (exec_stmts others1 db) = (True, db')"
    using cancel_execute_ok [OF assms(2)] by blast
  have "\<not> session_live ?t ?i db'"
    using session_use.claim_spends [of "exec_stmts others1 db" "(now, stateUpdate Cancelled)" ?t ?i]
      exec_stmts_unique_key [OF assms(1)] u
    by (simp add: claim_session_def spending_def stateUpdate_def)
  then have "\<not> session_live ?t ?i (exec_stmts others db')"
    by (rule exec_stmts_not_live [OF assms(3)])
  with assms(4,5) show ?thesis
    by (simp add: completePresentationResponse_def claim_session_dead)
qed

theorem cancelled_not_completed_witness:
  "completePresentationResponse 9 response1 (exec_stmts [Stmt_Increment 2 ''acme'' ''s1''] cancelled1)
     = (Inl PresentationAlreadyConsumed, exec_stmts [Stmt_Increment 2 ''acme'' ''s1''] cancelled1, [])"
  by (rule cancelled_not_completed [OF rows_key cancel1]) (simp_all add: cmd1_def response1_def)

text \<open>C@: Cancelling a session of the caller's scope succeeds exactly when it is open, not consumed and
  not expired; then its row alone changes, to \<open>Cancelled\<close> without the response key, and the status
  event, the webhook event and the audit entry follow in this order. Otherwise nothing changes and
  the error names the terminal status, the redemption or the expiry.\<close>

theorem cancel_execute_result:
  assumes "unique_key s_id db" "s \<in> set db" "s_id s \<noteq> []" "typeWhere scope s"
    and "cmd = \<lparr>cc_tenantId = s_tenantId s, cc_sessionId = s_id s, cc_scope = scope, cc_reason = why\<rparr>"
  shows "cancel_execute now [] [] cmd db =
    (if \<not> s_consumed s \<and> session_usable s now
     then (Inr (), map (\<lambda>r. if s_id r = s_id s then set_clause now (stateUpdate Cancelled) r else r) db,
           [StatusChanged (s_id s) Cancelled now, SessionCancelled_event (s_id s) (s_tenantId s) why,
            CancellationLogged (s_id s) (s_tenantId s) why])
     else (Inl (SessionNotCancellable
             (if isTerminalStatus (s_status s) then Reason_Status (s_status s)
              else if s_consumed s then Reason_Redeemed else Reason_Status Expired)), db, []))"
  using getForTenant_known [OF assms(1-4)] assms(5)
  by (simp add: cancel_execute_def cancel_failed_def claim_session_row [OF assms(1,2)] announce_def
      notCancellableReason_def Let_def)

theorem cancel_execute_result_witness:
  "cancel_execute 1 [] [] cmd1 [row1, row2] =
     (Inr (), cancelled1, [StatusChanged ''s1'' Cancelled 1, SessionCancelled_event ''s1'' ''acme'' None,
        CancellationLogged ''s1'' ''acme'' None])"
  using cancel_execute_result [of "[row1, row2]" row1 None cmd1 None 1]
  by (simp add: cmd1_def typeWhere_def cancelled1_def set_clause_def stateUpdate_def session_usable_def rows
      unique_key_def)

text \<open>Concurrent compare-and-set status changes publish a transition at most once in every
  interleaving with statements that do not bring the session back, and exactly once when the first of
  them finds the session in one of the expected statuses.\<close>

theorem status_change_published_once:
  assumes "list_all (case_sum (\<lambda>c. snd c \<notin> set fs) (never_returns (lc_tenantId ctx) (lc_id ctx) fs)) run"
  shows "wins (claim_status ctx fs) exec_stmt run db \<le> 1
    \<and> (\<forall>c rest. run = Inl c # rest \<longrightarrow> status_in (lc_tenantId ctx) (lc_id ctx) fs db \<longrightarrow>
          wins (claim_status ctx fs) exec_stmt run db = 1)"
proof (intro conjI allI impI)
  show "wins (claim_status ctx fs) exec_stmt run db \<le> 1"
    by (rule status_use.wins_at_most_once [OF assms TrueI])
  fix c rest
  assume run: "run = Inl c # rest" and "status_in (lc_tenantId ctx) (lc_id ctx) fs db"
  then have "fst (claim_status ctx fs c db)" by (simp add: claim_status_won)
  with assms show "wins (claim_status ctx fs) exec_stmt run db = 1"
    unfolding run by (rule status_use.wins_exactly_once [OF _ TrueI])
qed

theorem status_change_published_once_witness:
  "wins (claim_status (context_of row1) [Active]) exec_stmt
     [Inl (1, Fetched), Inr (Stmt_ConsumeOffer 2 ''acme'' ''s1''), Inl (3, Fetched)] [row1] = 1"
proof -
  have "status_in ''acme'' ''s1'' [Active] [row1]" by (simp add: status_in_def rows)
  then show ?thesis
    using status_change_published_once [of "[Active]" "context_of row1"
        "[Inl (1, Fetched), Inr (Stmt_ConsumeOffer 2 ''acme'' ''s1''), Inl (3, Fetched)]" "[row1]"]
    by (simp add: context_of_def rows del: wins.simps)
qed

text \<open>C@: A PAR \<open>request_uri\<close> is redeemed at most once: of all attempts that read the same expiry, in
  any interleaving with statements that do not store that expiry again, at most one reports success.\<close>

theorem request_uri_redeemed_at_most_once:
  assumes "unique_key s_id db"
    and "list_all (case_sum (\<lambda>_. True) (no_new_expiry t i e)) run"
  shows "wins (claim_request_uri t i e) exec_stmt run db \<le> 1"
  by (rule request_uri_use.wins_at_most_once) (use assms in simp_all)

theorem request_uri_redeemed_at_most_once_witness:
  "wins (claim_request_uri ''acme'' ''s1'' 50) exec_stmt
     [Inl (1, 1), Inr (Stmt_Increment 2 ''acme'' ''s1''), Inl (3, 3)]
     [row1\<lparr>s_request_uri_expires_at := Some 50\<rparr>] \<le> 1"
  by (rule request_uri_redeemed_at_most_once) (simp_all add: unique_key_def)

text \<open>With single consumption, a credential offer that was served is never served again, whatever
  statements run between (none stores a new offer for the session).\<close>

theorem offer_served_once:
  assumes "retrieveCredentialOffer False now others t i db = (Inr offer, db')"
    and "list_all (no_new_offer t i) later" "list_all (no_new_offer t i) others'"
  shows "fst (retrieveCredentialOffer False now' others' t i (exec_stmts later db')) \<noteq> Inr offer'"
proof -
  let ?db = "exec_stmts later db'"
  have "snd (claim_offer t i now (exec_stmts others db)) = db'"
    using assms(1) by (auto simp: retrieveCredentialOffer_def claim_offer_def Let_def split_beta
        split: option.splits sum.splits if_splits)
  then have "\<not> offer_live t i db'" using claim_offer_spends by metis
  then have "\<not> offer_live t i (exec_stmts others' ?db)"
    using exec_stmts_no_new_offer assms(2,3) by simp
  then have "\<not> fst (claim_offer t i now' (exec_stmts others' ?db))" by (simp add: claim_offer_won)
  then show ?thesis
    by (auto simp: retrieveCredentialOffer_def claim_offer_def Let_def split_beta
        split: option.splits sum.splits if_splits)
qed

theorem offer_served_once_witness:
  "fst (retrieveCredentialOffer False 2 [] ''other'' ''s2''
     (exec_stmts [Stmt_Increment 2 ''other'' ''s2'']
       [row2\<lparr>s_offer := None, s_consumedAt := Some 1, s_updatedAt := 1\<rparr>])) \<noteq> Inr (Some JNull)"
  by (rule offer_served_once [where now = 1 and others = "[]" and db = "[row2]" and offer = "Some JNull"])
    (simp_all add: retrieveCredentialOffer_def repo_findCredentialOffer_def sql_find_one_def
      offer_view_usable_def repo_consumeCredentialOffer_def sql_update_def rows)

section \<open>Final statuses\<close>

text \<open>The clean-up job never changes the status of a finished session, whatever requests run
  between its selection and its updates, as long as they respect final statuses themselves.\<close>

theorem cleanup_keeps_final_status:
  assumes "unique_key s_id db" "s \<in> set db" "isTerminalStatus (s_status s)"
    and "\<And>k. list_all (respects_final (s_tenantId s) (s_id s)) (snd (gap k))"
    and "r \<in> set (fst (cleanup_execute now gap clock defaults tenants db))" "s_id r = s_id s"
  shows "s_status r = s_status s \<and> s_tenantId r = s_tenantId s"
  using cleanup_execute_all_final [OF assms(4,3) unique_all_final [OF assms(1,2)]] assms(5,6)
  by (simp add: all_final_def)

theorem cleanup_keeps_final_status_witness:
  "s_status (hd (fst (cleanup_execute 500 (\<lambda>_. (500, [])) (\<lambda>_. 500) \<lparr>rs_ttlSeconds = 1, rs_cleanupMode = Full\<rparr> []
     cancelled1))) = Cancelled"
proof -
  let ?db' = "fst (cleanup_execute 500 (\<lambda>_. (500, [])) (\<lambda>_. 500) \<lparr>rs_ttlSeconds = 1, rs_cleanupMode = Full\<rparr> []
     cancelled1)"
  have db': "?db' = cancelled1"
    by (simp add: cleanup_execute_def findExpiredSessionsForMaintenance_def sql_find_def overdue_where_def
        cleanup_tenants_def cleanup_orphans_def cancelled1_def rows)
  have "s_status (hd ?db') = s_status (row1\<lparr>s_status := Cancelled, s_updatedAt := 1\<rparr>)
      \<and> s_tenantId (hd ?db') = s_tenantId (row1\<lparr>s_status := Cancelled, s_updatedAt := 1\<rparr>)"
    by (rule cleanup_keeps_final_status [of cancelled1 _ "\<lambda>_. (500, [])"
          _ 500 "\<lambda>_. 500" "\<lparr>rs_ttlSeconds = 1, rs_cleanupMode = Full\<rparr>" "[]"])
      (simp_all add: db', simp_all add: cancelled1_def rows unique_key_def)
  then show ?thesis by simp
qed

text \<open>C@: A wallet notification with a known identifier sets the status unconditionally, also of a
  session that is already completed, failed, expired or cancelled: the row ends as \<open>Completed\<close> for
  \<open>credential_accepted\<close> and as \<open>Failed\<close> for every other event, and the change is published.\<close>

theorem notification_overrides_status:
  assumes "s \<in> set db" "n \<in> set (s_notifications s)"
  shows "\<exists>failed db'. handleCredentialNotification endpoints publish now [] s (nt_id n) event desc db
             = (Inr failed, db', [StatusChanged (s_id s)
                  (if event = Some ''credential_accepted'' then Completed else Failed) now])
           \<and> (\<exists>r \<in> set db'. s_id r = s_id s)
           \<and> (\<forall>r \<in> set db'. s_id r = s_id s \<longrightarrow> s_tenantId r = s_tenantId s \<longrightarrow>
                s_status r = (if event = Some ''credential_accepted'' then Completed else Failed))"
proof -
  from assms(2) obtain m where m: "List.find (\<lambda>x. nt_id x = nt_id n) (s_notifications s) = Some m"
    by (cases "List.find (\<lambda>x. nt_id x = nt_id n) (s_notifications s)") (auto simp: find_None_iff)
  let ?st = "notification_status event"
  define db1 where "db1 = fst (updateForTenant now (s_tenantId s) (s_id s)
    [Set_notifications (set_notification (nt_id n) event desc (s_notifications s))] db)"
  define db2 where "db2 = repo_changeState now (s_tenantId s) (s_id s) (stateUpdate ?st) db1"
  have result: "\<exists>failed. handleCredentialNotification endpoints publish now [] s (nt_id n) event desc db
      = (Inr failed, db2, [StatusChanged (s_id s) ?st now])"
    by (simp add: handleCredentialNotification_def recordCredentialNotification_def m Let_def
        changeState_execute_def announce_def context_of_def db1_def db2_def split: option.splits)
      (metis (full_types))
  have "s_id s \<in> s_id ` set db2"
    using assms(1) by (simp add: db2_def db1_def repo_changeState_ids updateForTenant_ids)
  moreover have "\<forall>r \<in> set db2. s_id r = s_id s \<longrightarrow> s_tenantId r = s_tenantId s \<longrightarrow> s_status r = ?st"
    using repo_changeState_status unfolding db2_def by blast
  moreover have "\<exists>r \<in> set db2. s_id r = s_id s" using calculation(1) by auto
  moreover obtain failed where "handleCredentialNotification endpoints publish now [] s (nt_id n) event desc db
      = (Inr failed, db2, [StatusChanged (s_id s) ?st now])" using result by blast
  ultimately show ?thesis
    by (intro exI [of _ failed] exI [of _ db2] conjI) (simp_all only: notification_status_def)
qed

definition notified1 :: session where
  "notified1 = row1\<lparr>s_status := Completed, s_notifications := [\<lparr>nt_id = ''n1'', nt_event = None,
     nt_eventDescription = None, nt_credentialConfigurationId = ''pid''\<rparr>]\<rparr>"

lemma notified1_columns:
  "s_id notified1 = ''s1''" "s_tenantId notified1 = ''acme''" "s_status notified1 = Completed"
  "nt_id (hd (s_notifications notified1)) = ''n1''" "s_notifications notified1 \<noteq> []"
  by (simp_all add: notified1_def rows)

theorem notification_overrides_status_witness:
  "\<exists>failed db'. handleCredentialNotification (\<lambda>_ _. None) (\<lambda>_ _ _. True) 7 [] notified1 ''n1''
        (Some ''credential_failure'') None [notified1] = (Inr failed, db', [StatusChanged ''s1'' Failed 7])
      \<and> (\<forall>r \<in> set db'. s_id r = ''s1'' \<longrightarrow> s_tenantId r = ''acme'' \<longrightarrow> s_status r = Failed)"
proof -
  have failure: "(if Some ''credential_failure'' = Some ''credential_accepted'' then Completed else Failed) = Failed"
    by simp
  note changed = notification_overrides_status [of notified1 "[notified1]" "hd (s_notifications notified1)"
      "\<lambda>_ _. None" "\<lambda>_ _ _. True" 7 "Some ''credential_failure''" None,
      unfolded failure notified1_columns]
  show ?thesis using changed notified1_columns(5) by (auto simp only: list.set hd_in_set insert_iff simp_thms)
qed

text \<open>A presentation response completes the session exactly when it is open, not consumed and not
  expired: the row is then consumed, completed, without the response key and with one verified
  outcome entry per credential, and one event is published; otherwise the response is refused as a
  replay and nothing changes.\<close>

theorem completePresentationResponse_result:
  assumes "unique_key s_id db" "s \<in> set db"
    and "cp_tenantId input = s_tenantId s" "cp_sessionId input = s_id s"
  shows "completePresentationResponse now input db =
    (if \<not> s_consumed s \<and> session_usable s now
     then (Inr (success_outcome (cp_credentials input)),
           map (\<lambda>r. if s_id r = s_id s then set_clause now (completion_update now input) r else r) db,
           [StatusChanged (s_id s) Completed now])
     else (Inl PresentationAlreadyConsumed, db, []))
   \<and> s_status (set_clause now (completion_update now input) s) = Completed
   \<and> s_consumed (set_clause now (completion_update now input) s)
   \<and> s_responseEncryptionPrivateJwk (set_clause now (completion_update now input) s) = None"
  by (simp add: completePresentationResponse_def assms(3,4) claim_session_row [OF assms(1,2)] announce_def
      completion_update_def set_clause_def)

theorem completePresentationResponse_result_witness:
  "fst (completePresentationResponse 5 response1 [row1, row2]) = Inr (success_outcome [])"
  using completePresentationResponse_result [of "[row1, row2]" row1 response1 5]
  by (simp add: response1_def session_usable_def rows unique_key_def)


section \<open>Isolation\<close>

text \<open>Statements scoped to a tenant leave every other tenant's sessions as they are, and no
  lookup of a tenant returns another tenant's session or, under a scope, a session of the other type.\<close>

theorem tenants_isolated:
  assumes "unique_key s_id db" "list_all (\<lambda>st. stmt_tenant st = Some t) stmts"
  shows "filter (\<lambda>r. s_tenantId r \<noteq> t) (exec_stmts stmts db) = filter (\<lambda>r. s_tenantId r \<noteq> t) db
    \<and> (\<forall>s \<in> set db. s_tenantId s \<noteq> t \<longrightarrow> getForTenant t (Some (s_id s)) scope db = Inl SessionNotFound)
    \<and> (\<forall>s i. getForTenant t i scope db = Inr s \<longrightarrow> s_tenantId s = t \<and> typeWhere scope s)"
proof (intro conjI ballI allI impI)
  show "filter (\<lambda>r. s_tenantId r \<noteq> t) (exec_stmts stmts db) = filter (\<lambda>r. s_tenantId r \<noteq> t) db"
    by (rule exec_stmts_other_tenants [OF assms(2)])
qed (auto intro: getForTenant_other_tenant [OF assms(1)] dest: getForTenant_ok(2,4))

theorem tenants_isolated_witness:
  "filter (\<lambda>r. s_tenantId r \<noteq> ''acme'') (exec_stmts [Stmt_Delete ''acme'' ''s2'' None] [row1, row2])
     = filter (\<lambda>r. s_tenantId r \<noteq> ''acme'') [row1, row2]"
  using tenants_isolated [of "[row1, row2]" "''acme''" "[Stmt_Delete ''acme'' ''s2'' None]" None] by simp

text \<open>The session list a client sees holds sessions of its tenant and of its scope only.\<close>

theorem session_list_scoped:
  assumes "it \<in> set (pg_items (store_listForTenant d pr t query scope db))"
  shows "\<exists>r \<in> set db. it = summary r \<and> s_tenantId r = t \<and> typeWhere scope r"
  by (rule store_items [OF assms])

definition query1 :: session_list_query where
  "query1 = \<lparr>q_page = 1, q_pageSize = 1, q_status = None, q_type = None, q_createdFrom = None,
     q_createdTo = None, q_updatedFrom = None, q_updatedTo = None, q_requestId = None,
     q_credentialConfigurationId = None, q_failureCode = None, q_id = None, q_q = None,
     q_sortBy = None, q_sortOrder = None\<rparr>"

definition dialect1 :: dialect where
  "dialect1 = \<lparr>di_nullsFirst = True, di_collate = id\<rparr>"

definition parsers1 :: parsers where
  "parsers1 = \<lparr>pr_new_URL = \<lambda>_. None, pr_json_parse = \<lambda>_. None\<rparr>"

lemma list1: "pg_items (store_listForTenant dialect1 parsers1 ''acme'' query1 None [row1, row2]) = [summary row1]"
  by (simp add: store_listForTenant_def repo_listForTenant_def filteredSessions_def sql_find_def
      session_filter_def query1_def matches_opt_def matches_text_def typeWhere_def ordered_def
      page_slice_def rows)

theorem session_list_scoped_witness:
  "\<exists>r \<in> {row1, row2}. summary row1 = summary r \<and> s_tenantId r = ''acme'' \<and> typeWhere None r"
  using session_list_scoped [of "summary row1" dialect1 parsers1 "''acme''" query1 None "[row1, row2]"]
  by (simp add: list1)

section \<open>Listing and searching\<close>

text \<open>C@: The pages of a session list, put together from the first to the last, are the matching
  sessions in the requested order: no session is repeated or skipped, and \<open>total\<close> counts them.\<close>

theorem pages_partition_result:
  assumes "0 < q_pageSize query" "unique_key s_id db"
    and "\<not> (scope \<noteq> None \<and> q_type query \<noteq> None \<and> q_type query \<noteq> scope)"
    and "query' = query\<lparr>q_type := coalesce_opt (q_type query) scope\<rparr>"
    and "list = (\<lambda>p. store_listForTenant d pr t (query\<lparr>q_page := p\<rparr>) scope db)"
    and "result = ordered d query' (filteredSessions pr t query' db)"
  shows "concat (map (\<lambda>p. pg_items (list p)) [1..<pg_totalPages (list 1) + 1]) = map summary result
    \<and> pg_total (list 1) = length result \<and> distinct (map su_id (map summary result))
    \<and> set result = {r \<in> set db. session_filter pr t query' r}"
proof -
  let ?k = "q_pageSize query" and ?n = "length result"
  have items: "pg_items (list p) = map summary (page_slice p ?k result)"
    "pg_total (list p) = ?n" "pg_totalPages (list p) = (?n + ?k - 1) div ?k" for p
    unfolding assms(4-6) store_listForTenant_def repo_listForTenant_def
    using assms(3) by (simp_all add: filteredSessions_def Let_def if_not_P [OF assms(3)] del: not_None_eq)
  have "concat (map (\<lambda>p. pg_items (list p)) [1..<pg_totalPages (list 1) + 1])
      = map summary (concat (map (\<lambda>p. page_slice p ?k result) [1..<(?n + ?k - 1) div ?k + 1]))"
    by (simp add: items map_concat comp_def)
  also have "\<dots> = map summary (take ((?n + ?k - 1) div ?k * ?k) result)"
    by (simp only: page_slice_concat [OF assms(1)])
  also have "\<dots> = map summary result"
    using total_pages_cover [OF assms(1), of ?n] by simp
  moreover have "distinct (map s_id result)"
    unfolding assms(6) using assms(2)
    by (intro ordered_distinct) (simp add: filteredSessions_def sql_find_def unique_key_def distinct_map_filter)
  then have "distinct (map su_id (map summary result))" by (simp add: summary_def comp_def)
  moreover have "set result = {r \<in> set db. session_filter pr t query' r}"
    by (auto simp: assms(6) filteredSessions_iff)
  ultimately show ?thesis by (simp add: items)
qed

theorem pages_partition_result_witness:
  "concat (map (\<lambda>p. pg_items (store_listForTenant dialect1 parsers1 ''acme'' (query1\<lparr>q_page := p\<rparr>) None
       [row1, row2])) [1..<pg_totalPages (store_listForTenant dialect1 parsers1 ''acme''
         (query1\<lparr>q_page := 1\<rparr>) None [row1, row2]) + 1])
     = map summary (ordered dialect1 query1 (filteredSessions parsers1 ''acme'' query1 [row1, row2]))"
  using pages_partition_result [of query1 "[row1, row2]" None query1 "\<lambda>p. store_listForTenant dialect1 parsers1
      ''acme'' (query1\<lparr>q_page := p\<rparr>) None [row1, row2]"]
  by (simp add: query1_def del: upt_Suc)

text \<open>On complete ids the range comparison of the id filter and of the free-text search is the
  prefix test, ignoring case, and a term that is no link always searches the wallet nonce, the code
  and the reference.\<close>

theorem id_search_is_prefix_search:
  assumes "canonical_uuid (s_id r)" "isUuidPrefix p"
    and "parseLink new_URL json_parse (js_trim p) = None" "js_trim p = p"
  shows "(id_between (s_id r) (uuidPrefixRange p) \<longleftrightarrow> take (length p) (s_id r) = toLowerCase p)
    \<and> (matchesSearch (parseSessionSearch new_URL json_parse p) r \<longleftrightarrow>
         take (length p) (s_id r) = toLowerCase p \<or> s_walletNonce r = Some p
         \<or> s_authorization_code r = Some p \<or> s_reference r = Some p)"
proof -
  have len: "p \<noteq> []" "length p \<le> 36" using isUuidPrefix_length [OF assms(2)] by auto
  have search: "parseSessionSearch new_URL json_parse p =
      \<lparr>ss_idPrefix = Some (toLowerCase p), ss_walletNonce = Some p, ss_authorizationCode = Some p,
       ss_reference = Some p\<rparr>"
    using assms(2-4) by (simp add: parseSessionSearch_def Let_def)
  have lower: "toLowerCase p \<noteq> []" using len(1) by (simp add: toLowerCase_def)
  have range1: "id_between (s_id r) (uuidPrefixRange p) \<longleftrightarrow> take (length p) (s_id r) = toLowerCase p"
    by (rule id_between_prefix [OF assms(1) len(2)])
  have range2: "id_between (s_id r) (uuidPrefixRange (toLowerCase p)) \<longleftrightarrow> take (length p) (s_id r) = toLowerCase p"
    using id_between_prefix [OF assms(1), of "toLowerCase p"] len(2) by (simp add: toLowerCase_idem)
  show ?thesis using len(1) lower by (simp add: search matchesSearch_def matches_id_def range1 range2)
qed

definition uuid1 :: session where
  "uuid1 = (blank_session ''3f2a0000-0000-4000-8000-000000000001'' ''acme'' 0)"

theorem id_search_is_prefix_search_witness:
  "matchesSearch (parseSessionSearch (\<lambda>_. None) (\<lambda>_. None) ''3F2A'') uuid1"
proof -
  have digits: "char_of (102::nat) = CHR ''f''" "char_of (97::nat) = CHR ''a''" by code_simp+
  show ?thesis
  using id_search_is_prefix_search [of uuid1 "''3F2A''" "\<lambda>_. None" "\<lambda>_. None"]
  by (simp add: uuid1_def blank_session_def canonical_uuid_def UUID_TEMPLATE_def uuid_char_ok_def
      is_lower_hex_def isUuidPrefix_def toLowerCase_def lower_char_def parseLink_def parseUrl_def
      has_scheme_def js_trim_def is_js_space_def digits)
qed


section \<open>Transaction code attempts\<close>

text \<open>Recording a failed transaction code counts it together with every other attempt that ran
  before the read: the reported number is the earlier count plus one for each increment, and the
  session is locked exactly when that number reaches the limit.\<close>

theorem failed_attempts_all_counted:
  assumes "unique_key s_id db" "s \<in> set db" "list_all (counts_fairly (s_id s)) others"
    and "recordFailedTxCodeAttempt now others (s_tenantId s) (s_id s) limit db = (result, db')"
    and "r \<in> set db'" "s_id r = s_id s" "s_tenantId r = s_tenantId s"
    and "n = s_txCodeFailedAttempts s + 1 + length (filter (is_increment (s_tenantId s) (s_id s)) others)"
  shows "result = Inr \<lparr>ar_failedAttempts = n, ar_locked = (limit \<le> n)\<rparr>"
  by (rule recordFailedTxCodeAttempt_counts [OF assms])

theorem failed_attempts_all_counted_witness:
  "fst (recordFailedTxCodeAttempt 1 [Stmt_Increment 2 ''acme'' ''s1''] ''acme'' ''s1'' 2 [row1]) =
     Inr \<lparr>ar_failedAttempts = 2, ar_locked = True\<rparr>"
proof -
  let ?res = "recordFailedTxCodeAttempt 1 [Stmt_Increment 2 ''acme'' ''s1''] ''acme'' ''s1'' 2 [row1]"
  show ?thesis
    using failed_attempts_all_counted [of "[row1]" row1 "[Stmt_Increment 2 ''acme'' ''s1'']" 1 2 "fst ?res" "snd ?res"
        "row1\<lparr>s_txCodeFailedAttempts := 2, s_updatedAt := 2\<rparr>" 2]
    by (simp add: recordFailedTxCodeAttempt_def increment_statement_def sql_update_def Let_def rows unique_key_def)
qed

section \<open>Maintenance\<close>

text \<open>Undisturbed and without tenants to clean up, a clean-up run expires exactly the overdue
  sessions - presentations that are still open, issuance offers only while active and not redeemed -
  and publishes one event for each of them.\<close>

theorem cleanup_expires_overdue:
  assumes "unique_key s_id db"
  shows "cleanup_execute now (\<lambda>_. (now, [])) clock defaults [] db =
    (map (\<lambda>r. if overdue_where now r then set_clause now (stateUpdate Expired) r else r) db,
     map (\<lambda>r. StatusChanged (s_id r) Expired now) (filter (overdue_where now) db))"
proof -
  let ?xs = "filter (overdue_where now) db"
  have contexts: "map (\<lambda>(i, ctx). (now, [], ctx)) (enumerate 0 (findExpiredSessionsForMaintenance now db))
      = map (\<lambda>x. (now, [], context_of x)) ?xs"
    by (simp only: map_enumerate_snd) (simp add: findExpiredSessionsForMaintenance_def sql_find_def
      context_of_def comp_def)
  have "\<forall>x \<in> set ?xs. \<not> isTerminalStatus (s_status x)"
    using open_iff_not_terminal by (auto simp: overdue_where_def Let_def)
  then have "cleanup_expire (map (\<lambda>x. (now, [], context_of x)) ?xs) db =
      (map (expire_row now ?xs) db, map (\<lambda>x. StatusChanged (s_id x) Expired now) ?xs)"
    using assms by (intro cleanup_expire_rows) (simp_all add: unique_key_def distinct_map_filter)
  moreover have "expire_row now ?xs r = (if overdue_where now r then set_clause now (stateUpdate Expired) r else r)"
    if "r \<in> set db" for r
    using unique_row [OF assms _ that] that by (auto simp: expire_row_def)
  ultimately show ?thesis
    by (simp add: cleanup_execute_def contexts cleanup_tenants_def cleanup_orphans_def Let_def)
qed

theorem cleanup_expires_overdue_witness:
  "snd (cleanup_execute 500 (\<lambda>_. (500, [])) (\<lambda>_. 500) \<lparr>rs_ttlSeconds = 1, rs_cleanupMode = Full\<rparr> [] [row1, row2])
     = [StatusChanged ''s1'' Expired 500]"
  using cleanup_expires_overdue [OF rows_key, of 500 "\<lambda>_. 500" "\<lparr>rs_ttlSeconds = 1, rs_cleanupMode = Full\<rparr>"]
  by (simp add: overdue_where_def rows)

text \<open>Anonymizing clears every personal-data column of the tenant's sessions created before the
  cutoff, keeps status, consumption and outcome of all sessions, and a second run finds nothing left.\<close>

theorem anonymize_clears_personal_data:
  "(\<forall>r \<in> set (fst (anonymizeSessionsCreatedBefore now t c db)).
      s_tenantId r = t \<longrightarrow> s_createdAt r < c \<longrightarrow> \<not> has_personal_data r)
   \<and> map (\<lambda>r. (s_id r, s_status r, s_consumed r, s_outcome r)) (fst (anonymizeSessionsCreatedBefore now t c db))
       = map (\<lambda>r. (s_id r, s_status r, s_consumed r, s_outcome r)) db
   \<and> snd (anonymizeSessionsCreatedBefore now' t c (fst (anonymizeSessionsCreatedBefore now t c db))) = 0"
proof (intro conjI ballI impI)
  show "\<not> has_personal_data r"
    if "r \<in> set (fst (anonymizeSessionsCreatedBefore now t c db))" "s_tenantId r = t" "s_createdAt r < c" for r
    by (rule anonymize_rows [OF that])
  show "map (\<lambda>r. (s_id r, s_status r, s_consumed r, s_outcome r)) (fst (anonymizeSessionsCreatedBefore now t c db))
       = map (\<lambda>r. (s_id r, s_status r, s_consumed r, s_outcome r)) db"
    by (simp add: anonymizeSessionsCreatedBefore_def sql_update_def anonymize_frame)
qed (rule anonymize_twice)

theorem anonymize_clears_personal_data_witness:
  "\<not> has_personal_data (hd (fst (anonymizeSessionsCreatedBefore 9 ''other'' 5 [row2])))"
  using anonymize_clears_personal_data [of 9 "''other''" 5 "[row2]" 10]
  by (simp add: anonymizeSessionsCreatedBefore_def sql_update_def rows)


section \<open>Credential offers\<close>

text \<open>An offer that was created can be retrieved: until its lifetime (of the request, else of the
  issuance configuration) is over the wallet gets the encoded offer, afterwards the error that the
  session expired; an offer without lifetime stays available.\<close>

theorem created_offer_retrieved:
  assumes "createCredentialOffer env now [] t request db = (Inr (sid, uri), db')"
    and "sid = fst (oe_newIds env)" "\<forall>r \<in> set db. s_id r \<noteq> sid"
    and "lifetime = coalesce_opt (or_offerLifetimeSeconds request) (oe_offerLifetimeSeconds env)"
  shows "\<exists>object. fst (retrieveCredentialOffer multi now' [] t sid db') =
    (case offer_expiry now lifetime of
       Some e \<Rightarrow> if e \<le> now' then Inl (NotUsable Expired) else Inr (Some object)
     | None \<Rightarrow> Inr (Some object))"
proof -
  from assms(1) obtain sel grants object where
    sel: "selectAuthorizationServer (oe_publicUrl env) (oe_servers env) t (or_authorization_server request) = Inr sel"
    and enc: "oe_encode env (fst (createSession_execute now (offer_session now env t request
        (if or_flow request = Pre_Authorized_Code_Flow then Some (snd (oe_newIds env)) else None) sel) db))
        (or_credentialConfigurationIds request) grants = Some (object, uri)"
    and db': "db' = fst (updateForTenant now t sid [Set_offer (Some object), Set_offerUrl (Some uri)]
        (snd (createSession_execute now (offer_session now env t request
          (if or_flow request = Pre_Authorized_Code_Flow then Some (snd (oe_newIds env)) else None) sel) db)))"
    using assms(2)
    by (auto simp: createCredentialOffer_def Let_def split_beta split: sum.splits option.splits prod.splits)
  let ?ns = "offer_session now env t request
      (if or_flow request = Pre_Authorized_Code_Flow then Some (snd (oe_newIds env)) else None) sel"
  define row where "row = apply_assigns (ns_columns ?ns) (blank_session sid t now)"
  have none: "sql_find_one (\<lambda>r. s_id r = sid) db = None" using assms(3) by (simp add: sql_find_one_None)
  have "snd (createSession_execute now ?ns db) = db @ [row]"
    using none by (simp add: createSession_execute_def repo_create_def Let_def row_def offer_session_def assms(2))
  then have db'': "db' = db @ [set_clause now [Set_offer (Some object), Set_offerUrl (Some uri)] row]"
    using assms(3) by (simp add: db' updateForTenant_def sql_update_def row_def blank_session_def
        cong: map_cong)
  have cols: "s_status row = Active" "s_expiresAt row = offer_expiry now lifetime" "s_id row = sid"
      "s_tenantId row = t"
    by (simp_all add: row_def offer_session_def assms(4) blank_session_def opt_assign_def split: option.splits)
  have view: "repo_findCredentialOffer t sid db' =
      Some \<lparr>co_offer = Some object, co_status = Active, co_expiresAt = offer_expiry now lifetime\<rparr>"
  proof -
    have "sql_find_one (\<lambda>r. s_id r = sid \<and> s_tenantId r = t) db = None"
      using assms(3) by (simp add: sql_find_one_None)
    then show ?thesis
      using cols by (simp add: repo_findCredentialOffer_def db'' sql_find_one_append set_clause_def)
        (simp add: sql_find_one_def)
  qed
  have "fst (repo_consumeCredentialOffer now' t sid db')"
    using claim_offer_won [of t sid now' db'] cols
    by (simp add: claim_offer_def offer_live_def db'' set_clause_def)
  then show ?thesis
    by (intro exI [of _ object]) (auto simp: retrieveCredentialOffer_def view offer_view_usable_def Let_def
        split_beta split: option.splits)
qed

definition env1 :: offer_environment where
  "env1 = \<lparr>oe_newIds = (''s9'', ''code''), oe_publicUrl = ''https://x'',
     oe_servers = Some [\<lparr>cs_type = ''built-in'', cs_id = Some ''as'', cs_enabled = None, cs_issuer = None,
       cs_upstream = False\<rparr>],
     oe_offerLifetimeSeconds = Some 60, oe_validateClaims = \<lambda>_ _ _. True,
     oe_encode = \<lambda>_ _ grants. Some (grants, ''openid-credential-offer://'')\<rparr>"

definition offer1 :: session_offer_request where
  "offer1 = \<lparr>or_response_type = Uri_Response, or_flow = Pre_Authorized_Code_Flow, or_tx_code = None,
     or_tx_code_description = None, or_credentialConfigurationIds = [''pid''], or_authorization_server = None,
     or_credentialClaims = None, or_webhookEndpointId = None, or_offerLifetimeSeconds = None,
     or_reference = None\<rparr>"

theorem created_offer_retrieved_witness:
  "fst (retrieveCredentialOffer False 60000 [] ''acme'' ''s9''
     (snd (createCredentialOffer env1 0 [] ''acme'' offer1 [row1, row2]))) = Inl (NotUsable Expired)"
proof -
  have created: "fst (createCredentialOffer env1 0 [] ''acme'' offer1 [row1, row2])
      = Inr (''s9'', ''openid-credential-offer://'')"
    by (simp add: createCredentialOffer_def env1_def offer1_def selectAuthorizationServer_def
        toAuthorizationServerEndpoint_def buildCredentialOfferGrants_def offer_claims_error_def
        inline_claims_def createSession_execute_def repo_create_def offer_session_def rows
        sql_find_one_def Let_def offer_expiry_def)
  have lifetime: "Some 60 = coalesce_opt (or_offerLifetimeSeconds offer1) (oe_offerLifetimeSeconds env1)"
    by (simp add: offer1_def env1_def)
  have ids: "''s9'' = fst (oe_newIds env1)" "\<forall>r \<in> set [row1, row2]. s_id r \<noteq> ''s9''"
    by (simp_all add: env1_def rows)
  have expiry: "offer_expiry 0 (Some 60) = Some 60000" by (simp add: offer_expiry_def)
  show ?thesis
    using created_offer_retrieved [of env1 0 "''acme''" offer1 "[row1, row2]" "''s9''" "''openid-credential-offer://''"
        "snd (createCredentialOffer env1 0 [] ''acme'' offer1 [row1, row2])" "Some 60" False 60000,
        OF _ _ _ lifetime] created ids
    by (simp only: prod_eq_iff fst_conv snd_conv simp_thms expiry) simp
qed

text \<open>An explicitly requested authorization server is an enabled entry with that identifier whose
  issuer is stored with the session. Without a request the offer points to the first enabled entry that
  can be advertised, but the session stores the identifier of the first enabled entry, which may be
  another one.\<close>

theorem selected_authorization_server:
  assumes "selectAuthorizationServer publicUrl servers t requested = Inr sel"
    and "enabled = filter (\<lambda>s. cs_enabled s \<noteq> Some False) (coalesce servers [])"
  shows "if truthy requested
    then \<exists>s \<in> set enabled. cs_id s = requested \<and> (\<exists>e. toAuthorizationServerEndpoint s = Some e
           \<and> sel_issuer sel = authorizationServerIssuer e (publicUrl @ ''/issuers/'' @ t))
         \<and> sel_sessionServerId sel = Some (sel_issuer sel)
    else \<exists>before s after e. enabled = before @ s # after
         \<and> (\<forall>x \<in> set before. toAuthorizationServerEndpoint x = None)
         \<and> toAuthorizationServerEndpoint s = Some e
         \<and> sel_issuer sel = authorizationServerIssuer e (publicUrl @ ''/issuers/'' @ t)
         \<and> sel_sessionServerId sel = cs_id (hd enabled)"
proof (cases "truthy requested")
  case True
  with assms obtain e where e: "first_endpoint (\<lambda>s. cs_id s = requested) enabled = Some e"
      "sel_issuer sel = authorizationServerIssuer e (publicUrl @ ''/issuers/'' @ t)"
      "sel_sessionServerId sel = Some (sel_issuer sel)"
    unfolding selectAuthorizationServer_def Let_def by (auto split: option.splits)
  from first_endpoint_Some [OF e(1)] e(2,3) True show ?thesis by fastforce
next
  case False
  with assms obtain e where e: "first_endpoint (\<lambda>_. True) enabled = Some e"
      "sel_issuer sel = authorizationServerIssuer e (publicUrl @ ''/issuers/'' @ t)"
      "sel_sessionServerId sel = (case enabled of [] \<Rightarrow> None | s # _ \<Rightarrow> cs_id s)"
    unfolding selectAuthorizationServer_def Let_def by (auto split: option.splits)
  moreover from e(1) have "enabled \<noteq> []" by auto
  then have "sel_sessionServerId sel = cs_id (hd enabled)" using e(3) by (cases enabled) simp_all
  moreover note first_endpoint_Some [OF e(1)]
  ultimately show ?thesis using False by (simp only: if_False) blast
qed

theorem selected_authorization_server_witness:
  "\<exists>sel. selectAuthorizationServer ''https://x'' (Some
      [\<lparr>cs_type = ''chained'', cs_id = Some ''a'', cs_enabled = None, cs_issuer = None, cs_upstream = False\<rparr>,
       \<lparr>cs_type = ''built-in'', cs_id = Some ''b'', cs_enabled = None, cs_issuer = None, cs_upstream = False\<rparr>])
      ''acme'' None = Inr sel \<and> sel_issuer sel = ''https://x/issuers/acme'' \<and> sel_sessionServerId sel = Some ''a''"
proof -
  let ?a = "\<lparr>cs_type = ''chained'', cs_id = Some ''a'', cs_enabled = None, cs_issuer = None, cs_upstream = False\<rparr>"
  let ?b = "\<lparr>cs_type = ''built-in'', cs_id = Some ''b'', cs_enabled = None, cs_issuer = None, cs_upstream = False\<rparr>"
  let ?sel = "\<lparr>sel_issuer = ''https://x/issuers/acme'', sel_sessionServerId = Some ''a''\<rparr>"
  have sel: "selectAuthorizationServer ''https://x'' (Some [?a, ?b]) ''acme'' None = Inr ?sel"
    by (simp add: selectAuthorizationServer_def toAuthorizationServerEndpoint_def authorizationServerIssuer_def)
  have "sel_sessionServerId ?sel = cs_id (hd [?a, ?b])"
    using selected_authorization_server [OF sel refl] by simp
  with sel show ?thesis by simp
qed

end
