(* ===== verification/Status_Value.thy ===== *)
theory Status_Value
  imports Eudiplo_Base
begin

text \<open>
  The status value rules of \<open>issuer/status-list/domain/status-value.ts\<close> and the errors of the status
  list service, with their messages: the service classifies errors by message text when it decides
  whether to retry (\<open>isRetryableConcurrencyError\<close>). A stored element is \<^term>\<open>None\<close> when the JSON
  array has a hole there (\<open>null\<close>), which JavaScript creates when an index beyond the end is set.
\<close>

section \<open>Values and bits\<close>

type_synonym element = "int option"

definition STATUS_REVOKED :: int where "STATUS_REVOKED = 1"

definition BITS_PER_STATUS :: "nat list" where "BITS_PER_STATUS = [1, 2, 4, 8]"

definition MAX_LISTED_INDEXES :: nat where "MAX_LISTED_INDEXES = 20"

definition status_name :: "int \<Rightarrow> string option" where
  "status_name v = (if v = 0 then Some ''valid'' else if v = STATUS_REVOKED then Some ''revoked''
     else if v = 2 then Some ''suspended'' else None)"

definition statusValueFits :: "element \<Rightarrow> nat \<Rightarrow> bool" where
  "statusValueFits value bits = (case value of None \<Rightarrow> False | Some v \<Rightarrow> 0 \<le> v \<and> v \<le> 2 ^ bits - 1)"

definition statusTransitionAllowed :: "int \<Rightarrow> int \<Rightarrow> bool" where
  "statusTransitionAllowed current new \<longleftrightarrow> current \<noteq> STATUS_REVOKED \<or> new = STATUS_REVOKED"

text \<open>\<open>elements[index] ?? 0\<close>, and the assignment \<open>elements[index] = value\<close>, which extends the array.\<close>

definition element_at :: "element list \<Rightarrow> nat \<Rightarrow> int" where
  "element_at es i = (if i < length es then coalesce (es ! i) 0 else 0)"

definition set_element :: "element list \<Rightarrow> nat \<Rightarrow> int \<Rightarrow> element list" where
  "set_element es i v =
     (if i < length es then es[i := Some v] else es @ replicate (i - length es) None @ [Some v])"

definition findOutOfRangeStatusIndexes :: "element list \<Rightarrow> nat \<Rightarrow> nat list" where
  "findOutOfRangeStatusIndexes es bits =
     filter (\<lambda>i. \<not> statusValueFits (es ! i) bits) [0..<length es]"


section \<open>Messages\<close>

definition bitsLabel :: "nat \<Rightarrow> string" where
  "bitsLabel bits = (if bits = 1 then ''1 bit'' else show_nat bits @ '' bits'')"

definition formatIndexes :: "nat list \<Rightarrow> string" where
  "formatIndexes ixs =
     (let listed = join '', '' (map show_nat (take MAX_LISTED_INDEXES ixs));
          remaining = length ixs - MAX_LISTED_INDEXES
      in if 0 < remaining then listed @ '' and '' @ show_nat remaining @ '' more'' else listed)"

definition describeValueOutOfRange :: "int \<Rightarrow> (string \<times> nat) list \<Rightarrow> string" where
  "describeValueOutOfRange value layouts =
     (let label = (case status_name value of
            Some n \<Rightarrow> ''Status '' @ show_int value @ '' ('' @ n @ '')''
          | None \<Rightarrow> ''Status '' @ show_int value);
          requiredBits = List.find (\<lambda>bits. statusValueFits (Some value) bits) BITS_PER_STATUS
      in case requiredBits of
           None \<Rightarrow> label @ '' cannot be stored in a status list; status values are integers from 0 to 255.''
         | Some rb \<Rightarrow>
             label @ '' requires a status list with at least '' @ bitsLabel rb @ '' per entry; ''
               @ join '', '' (map (\<lambda>(i, bits). ''list '' @ i @ '' uses '' @ bitsLabel bits) layouts) @ ''.'')"

definition listValuesMessage :: "string \<Rightarrow> nat \<Rightarrow> nat list \<Rightarrow> string" where
  "listValuesMessage listId bits ixs =
     ''Status list '' @ listId @ '' stores values that do not fit its '' @ bitsLabel bits @ '' per entry at ''
       @ (if length ixs = 1 then ''index'' else ''indexes'') @ '' '' @ formatIndexes ixs
       @ ''. Encoding them would change the status of neighbouring entries, so no status list token is published until these entries are set to a value the list can hold, for example 1 (revoked).''"

definition revokedFinalMessage :: "int \<Rightarrow> string" where
  "revokedFinalMessage new =
     ''A revoked credential cannot be '' @ (if new = 0 then ''reinstated'' else ''suspended'')
       @ '': revocation is final.''"


section \<open>Errors\<close>

datatype error_class =
    Bad_Request | Conflict | Not_Found | Service_Unavailable
  | Revoked_Final | List_Values_Out_Of_Range | Other_Error

record status_error =
  er_class :: error_class
  er_code :: "string option"
  er_message :: string

definition mk_error :: "error_class \<Rightarrow> string \<Rightarrow> status_error" where
  "mk_error c m = \<lparr>er_class = c, er_code = None, er_message = m\<rparr>"

text \<open>\<open>assertStatusValueFits\<close>, mapped to a bad request by \<open>assertValueFitsLists\<close>.\<close>

definition assertValueFitsLists :: "int \<Rightarrow> (string \<times> nat) list \<Rightarrow> status_error + unit" where
  "assertValueFitsLists value layouts =
     (let tooNarrow = filter (\<lambda>(i, bits). \<not> statusValueFits (Some value) bits) layouts
      in if tooNarrow \<noteq> [] then Inl (mk_error Bad_Request (describeValueOutOfRange value tooNarrow))
         else Inr ())"

definition assertStatusTransitionAllowed :: "int \<Rightarrow> int \<Rightarrow> status_error + unit" where
  "assertStatusTransitionAllowed current new =
     (if \<not> statusTransitionAllowed current new
      then Inl (mk_error Revoked_Final (revokedFinalMessage new)) else Inr ())"

definition isRetryableConcurrencyError :: "status_error \<Rightarrow> bool" where
  "isRetryableConcurrencyError e =
     (if er_class e = Conflict then True
      else if (case er_code e of None \<Rightarrow> False | Some c \<Rightarrow>
                 c \<in> set [''23505'', ''40001'', ''40P01'', ''SQLITE_BUSY'', ''SQLITE_BUSY_SNAPSHOT'', ''SQLITE_LOCKED''])
      then True
      else (let message = map ascii_lower (er_message e)
            in contains_text message ''version'' \<or> contains_text message ''unique constraint''
               \<or> contains_text message ''database is locked''))"

lemma fits_iff: "statusValueFits (Some v) bits \<longleftrightarrow> 0 \<le> v \<and> v < 2 ^ bits"
  by (auto simp: statusValueFits_def)

lemma fits_mono: "statusValueFits x b \<Longrightarrow> b \<le> c \<Longrightarrow> statusValueFits x c"
proof (cases x)
  case (Some v)
  assume "statusValueFits x b" "b \<le> c"
  moreover from \<open>b \<le> c\<close> have "(2::int) ^ b \<le> 2 ^ c" by (simp add: power_increasing)
  ultimately show ?thesis using Some by (auto simp: fits_iff simp del: power_increasing_iff intro: less_le_trans)
qed (simp add: statusValueFits_def)

lemma outOfRange_Nil:
  "findOutOfRangeStatusIndexes es bits = [] \<longleftrightarrow> (\<forall>x \<in> set es. statusValueFits x bits)"
  by (auto simp: findOutOfRangeStatusIndexes_def filter_empty_conv all_set_conv_all_nth)

lemma assertValueFitsLists_ok:
  "assertValueFitsLists v layouts = Inr () \<longleftrightarrow> (\<forall>(i, bits) \<in> set layouts. statusValueFits (Some v) bits)"
  by (auto simp: assertValueFitsLists_def filter_empty_conv Let_def)

lemma assertTransition_ok:
  "assertStatusTransitionAllowed c v = Inr () \<longleftrightarrow> (c = STATUS_REVOKED \<longrightarrow> v = STATUS_REVOKED)"
  by (auto simp: assertStatusTransitionAllowed_def statusTransitionAllowed_def)

text \<open>A refused reinstatement is not mistaken for a concurrency conflict.\<close>

lemma revokedFinal_not_retryable:
  "assertStatusTransitionAllowed c v = Inl e \<Longrightarrow> \<not> isRetryableConcurrencyError e"
proof -
  have "\<not> isRetryableConcurrencyError (mk_error Revoked_Final (revokedFinalMessage 0))"
    "\<not> isRetryableConcurrencyError (mk_error Revoked_Final (revokedFinalMessage 2))" by code_simp+
  moreover have "revokedFinalMessage v = revokedFinalMessage (if v = 0 then 0 else 2)"
    by (simp add: revokedFinalMessage_def)
  moreover assume "assertStatusTransitionAllowed c v = Inl e"
  then have "e = mk_error Revoked_Final (revokedFinalMessage v)"
    by (auto simp: assertStatusTransitionAllowed_def split: if_splits)
  ultimately show ?thesis by (cases "v = 0") simp_all
qed

lemma set_element_length: "i < length es \<Longrightarrow> length (set_element es i v) = length es"
  by (simp add: set_element_def)

lemma set_element_set: "set (set_element es i v) \<subseteq> insert (Some v) (insert None (set es))"
  by (auto simp: set_element_def dest: set_update_subset_insert [THEN subsetD])

lemma element_at_set: "element_at (set_element es i v) j = (if j = i then v else element_at es j)"
  by (auto simp: element_at_def set_element_def nth_append nth_list_update nth_Cons')

end
