(* ===== verification/Status_Store.thy ===== *)
theory Status_Store
  imports Status_Value
begin

text \<open>
  The tables of the status lists (\<open>issuer/status-list/entities\<close>) and the atomic writes of
  \<open>issuer/status-list/status-list.service.ts\<close>: every write compares the version the service read
  before (TypeORM's version column, which every update increments) and reports a conflict when the
  row has changed since. The handlers around these writes are in \<open>Status_List\<close>.
\<close>

section \<open>Tables\<close>

record status_list =
  sl_id :: string
  sl_tenantId :: string
  sl_credentialConfigurationId :: "string option"
  sl_keyChainId :: "string option"
  sl_elements :: "element list"
  sl_stack :: "nat list"
  sl_bits :: nat
  sl_jwt :: "string option"
  sl_cwt :: "string option"
  sl_expiresAt :: "date option"
  sl_createdAt :: date
  sl_version :: nat

record status_mapping =
  sm_tenantId :: string
  sm_sessionId :: string
  sm_statusListId :: string
  sm_list :: string
  sm_index :: nat
  sm_credentialConfigurationId :: string
  sm_issuanceSetId :: "string option"

record active_slot =
  as_tenantId :: string
  as_credentialConfigurationId :: string
  as_subjectScopedKey :: string
  as_issuanceSetId :: "string option"
  as_version :: nat

record status_db =
  db_lists :: "status_list list"
  db_mappings :: "status_mapping list"
  db_slots :: "active_slot list"

definition list_key :: "status_list \<Rightarrow> string \<times> string" where
  "list_key r = (sl_tenantId r, sl_id r)"

lemma list_key_iff: "list_key r = list_key s \<longleftrightarrow> sl_tenantId r = sl_tenantId s \<and> sl_id r = sl_id s"
  by (simp add: list_key_def)

lemma list_key_updates [simp]:
  "list_key (r\<lparr>sl_version := v\<rparr>) = list_key r"
  "list_key (r\<lparr>sl_elements := es\<rparr>) = list_key r"
  "list_key (r\<lparr>sl_stack := st\<rparr>) = list_key r"
  "list_key (r\<lparr>sl_jwt := j, sl_cwt := c, sl_expiresAt := e\<rparr>) = list_key r"
  by (simp_all add: list_key_def)

definition mapping_key :: "status_mapping \<Rightarrow> string \<times> string \<times> nat" where
  "mapping_key m = (sm_tenantId m, sm_statusListId m, sm_index m)"

definition find_list :: "string \<Rightarrow> string \<Rightarrow> status_db \<Rightarrow> status_list option" where
  "find_list tenantId listId db =
     sql_find_one (\<lambda>r. sl_id r = listId \<and> sl_tenantId r = tenantId) (db_lists db)"


section \<open>Compare-and-set writes\<close>

text \<open>\<open>UPDATE ... SET f, version = version + 1 WHERE id, tenantId, version\<close>: the new table, or
  \<^term>\<open>None\<close> when no row was affected.\<close>

definition versioned_update ::
    "status_list \<Rightarrow> (status_list \<Rightarrow> status_list) \<Rightarrow> status_db \<Rightarrow> status_db option" where
  "versioned_update snapshot f db =
     (let (lists', affected) = sql_update
            (\<lambda>r. sl_id r = sl_id snapshot \<and> sl_tenantId r = sl_tenantId snapshot
                 \<and> sl_version r = sl_version snapshot)
            (\<lambda>r. (f r)\<lparr>sl_version := sl_version r + 1\<rparr>) (db_lists db)
      in if affected = 0 then None else Some (db\<lparr>db_lists := lists'\<rparr>))"

text \<open>\<open>allocateFromList\<close>: \<open>stack.pop()\<close> takes indexes from the end of the stack.\<close>

record allocation_options =
  ao_tenantId :: string
  ao_sessionId :: string
  ao_credentialConfigurationId :: string
  ao_count :: nat
  ao_issuanceSetId :: "string option"

record allocated_entry =
  ae_statusListId :: string
  ae_index :: nat
  ae_uri :: string

definition buildStatusListUri :: "string \<Rightarrow> string \<Rightarrow> string \<Rightarrow> string" where
  "buildStatusListUri publicUrl tenantId listId =
     publicUrl @ ''/issuers/'' @ tenantId @ ''/status-management/status-list/'' @ listId"

fun pop_many :: "nat \<Rightarrow> nat list \<Rightarrow> (nat list \<times> nat list) option" where
  "pop_many 0 stack = Some ([], stack)"
| "pop_many (Suc n) stack =
     (if stack = [] then None
      else case pop_many n (butlast stack) of
             None \<Rightarrow> None
           | Some (ixs, rest) \<Rightarrow> Some (last stack # ixs, rest))"

definition new_mapping :: "string \<Rightarrow> allocation_options \<Rightarrow> string \<Rightarrow> nat \<Rightarrow> status_mapping" where
  "new_mapping uri opts listId i = \<lparr>
     sm_tenantId = ao_tenantId opts, sm_sessionId = ao_sessionId opts, sm_statusListId = listId,
     sm_list = uri, sm_index = i, sm_credentialConfigurationId = ao_credentialConfigurationId opts,
     sm_issuanceSetId = ao_issuanceSetId opts\<rparr>"

text \<open>The insert fails under the unique constraint on tenant, list and index; the transaction is then
  rolled back.\<close>

definition allocateFromList ::
    "string \<Rightarrow> status_list \<Rightarrow> allocation_options \<Rightarrow> status_db
       \<Rightarrow> status_error + allocated_entry list \<times> status_db" where
  "allocateFromList publicUrl snapshot opts db =
     (case pop_many (ao_count opts) (sl_stack snapshot) of
        None \<Rightarrow> Inl (mk_error Conflict ''Stack underflow during allocation'')
      | Some (ixs, rest) \<Rightarrow>
          (case versioned_update (snapshot\<lparr>sl_tenantId := ao_tenantId opts\<rparr>)
                  (\<lambda>r. r\<lparr>sl_stack := rest\<rparr>) db of
             None \<Rightarrow> Inl (mk_error Conflict ''Status list was modified concurrently'')
           | Some db1 \<Rightarrow>
               (let uri = buildStatusListUri publicUrl (ao_tenantId opts) (sl_id snapshot);
                    ms = map (new_mapping uri opts (sl_id snapshot)) ixs
                in if distinct (map mapping_key ms)
                      \<and> set (map mapping_key ms) \<inter> mapping_key ` set (db_mappings db1) = {}
                   then Inr (map (\<lambda>i. \<lparr>ae_statusListId = sl_id snapshot, ae_index = i, ae_uri = uri\<rparr>) ixs,
                             db1\<lparr>db_mappings := db_mappings db1 @ ms\<rparr>)
                   else Inl \<lparr>er_class = Other_Error, er_code = Some ''23505'', er_message = ''duplicate key''\<rparr>)))"

text \<open>The write of \<open>setEntryTransaction\<close>, after its checks on the snapshot.\<close>

definition setEntry_commit ::
    "status_list \<Rightarrow> nat \<Rightarrow> int \<Rightarrow> status_db \<Rightarrow> status_error + status_db" where
  "setEntry_commit snapshot index value db =
     (case assertValueFitsLists value [(sl_id snapshot, sl_bits snapshot)] of
        Inl e \<Rightarrow> Inl e
      | Inr _ \<Rightarrow>
     (case assertStatusTransitionAllowed (element_at (sl_elements snapshot) index) value of
        Inl e \<Rightarrow> Inl e
      | Inr _ \<Rightarrow>
     (case versioned_update snapshot
             (\<lambda>r. r\<lparr>sl_elements := set_element (sl_elements snapshot) index value\<rparr>) db of
        None \<Rightarrow> Inl (mk_error Conflict ''Status list version changed concurrently'')
      | Some db' \<Rightarrow> Inr db')))"

text \<open>The write of \<open>createListJWT\<close>: tokens signed over a snapshot.\<close>

definition storeTokens ::
    "status_list \<Rightarrow> string \<Rightarrow> string \<Rightarrow> date \<Rightarrow> status_db \<Rightarrow> status_db option" where
  "storeTokens snapshot jwt cwt expiresAt db =
     versioned_update snapshot
       (\<lambda>r. r\<lparr>sl_jwt := Some jwt, sl_cwt := Some cwt, sl_expiresAt := Some expiresAt\<rparr>) db"

text \<open>The write of \<open>updateList\<close>; an absent field is not changed, a new key chain drops the tokens.\<close>

record list_changes =
  ch_credentialConfigurationId :: "string option option"
  ch_keyChainId :: "string option option"

definition apply_changes :: "list_changes \<Rightarrow> status_list \<Rightarrow> status_list" where
  "apply_changes ch r =
     (let r1 = (case ch_credentialConfigurationId ch of None \<Rightarrow> r
                | Some v \<Rightarrow> r\<lparr>sl_credentialConfigurationId := v\<rparr>)
      in case ch_keyChainId ch of None \<Rightarrow> r1
         | Some k \<Rightarrow> r1\<lparr>sl_keyChainId := k, sl_jwt := None, sl_cwt := None, sl_expiresAt := None\<rparr>)"

definition updateList_commit :: "status_list \<Rightarrow> list_changes \<Rightarrow> status_db \<Rightarrow> status_db option" where
  "updateList_commit snapshot ch db = versioned_update snapshot (apply_changes ch) db"

text \<open>A new list: all elements 0, the stack a permutation of the indexes.\<close>

definition new_list ::
    "string \<Rightarrow> string \<Rightarrow> string option \<Rightarrow> string option \<Rightarrow> nat \<Rightarrow> nat list \<Rightarrow> nat \<Rightarrow> date \<Rightarrow> status_list" where
  "new_list tenantId listId ccid keyChainId n stack bits now = \<lparr>
     sl_id = listId, sl_tenantId = tenantId, sl_credentialConfigurationId = ccid,
     sl_keyChainId = keyChainId, sl_elements = replicate n (Some 0), sl_stack = stack,
     sl_bits = bits, sl_jwt = None, sl_cwt = None, sl_expiresAt = None, sl_createdAt = now,
     sl_version = 1\<rparr>"

definition insert_list :: "status_list \<Rightarrow> status_db \<Rightarrow> status_db option" where
  "insert_list l db = map_option (\<lambda>ls. db\<lparr>db_lists := ls\<rparr>) (sql_insert list_key l (db_lists db))"

text \<open>Deleting a list deletes its mappings (\<open>ON DELETE CASCADE\<close>).\<close>

definition delete_list :: "string \<Rightarrow> string \<Rightarrow> status_db \<Rightarrow> status_db" where
  "delete_list tenantId listId db =
     db\<lparr>db_lists := fst (sql_delete (\<lambda>r. sl_id r = listId \<and> sl_tenantId r = tenantId) (db_lists db)),
        db_mappings := fst (sql_delete (\<lambda>m. sm_statusListId m = listId \<and> sm_tenantId m = tenantId)
                              (db_mappings db))\<rparr>"


section \<open>What a compare-and-set write does\<close>

lemma versioned_update_None:
  "versioned_update s f db = None \<longleftrightarrow>
     (\<forall>r \<in> set (db_lists db). \<not> (list_key r = list_key s \<and> sl_version r = sl_version s))"
  by (auto simp: versioned_update_def sql_update_def Let_def filter_empty_conv list_key_iff)

lemma versioned_update_Some:
  assumes "versioned_update s f db = Some db'"
  shows "db' = db\<lparr>db_lists := map (\<lambda>r. if list_key r = list_key s \<and> sl_version r = sl_version s
                     then (f r)\<lparr>sl_version := sl_version r + 1\<rparr> else r) (db_lists db)\<rparr>"
    and "\<exists>r \<in> set (db_lists db). list_key r = list_key s \<and> sl_version r = sl_version s"
proof -
  have iff: "(sl_id r = sl_id s \<and> sl_tenantId r = sl_tenantId s \<and> sl_version r = sl_version s) \<longleftrightarrow>
      (list_key r = list_key s \<and> sl_version r = sl_version s)" for r by (auto simp: list_key_iff)
  show "db' = db\<lparr>db_lists := map (\<lambda>r. if list_key r = list_key s \<and> sl_version r = sl_version s
                     then (f r)\<lparr>sl_version := sl_version r + 1\<rparr> else r) (db_lists db)\<rparr>"
    using assms unfolding versioned_update_def iff by (auto simp: sql_update_def split: if_splits)
  show "\<exists>r \<in> set (db_lists db). list_key r = list_key s \<and> sl_version r = sl_version s"
    using assms versioned_update_None [of s f db] by fastforce
qed

lemma pop_many_Some:
  "pop_many n stack = Some (ixs, rest) \<Longrightarrow> stack = rest @ rev ixs \<and> length ixs = n"
proof (induction n arbitrary: stack ixs)
  case (Suc n)
  then obtain ys where st: "stack \<noteq> []" "pop_many n (butlast stack) = Some (ys, rest)" "ixs = last stack # ys"
    by (auto split: if_splits option.splits)
  from Suc.IH [OF st(2)] st(1,3) show ?case
    by (metis append_assoc append_butlast_last_id length_Cons rev.simps(2))
qed simp

lemma pop_many_enough: "n \<le> length stack \<Longrightarrow> \<exists>ixs rest. pop_many n stack = Some (ixs, rest)"
proof (induction n arbitrary: stack)
  case (Suc n)
  then have "n \<le> length (butlast stack)" "stack \<noteq> []" by auto
  with Suc.IH [of "butlast stack"] show ?case by fastforce
qed simp

lemma find_list_Some:
  "find_list t i db = Some r \<Longrightarrow> r \<in> set (db_lists db) \<and> list_key r = (t, i)"
  by (auto simp: find_list_def list_key_def dest: sql_find_one_Some)

end
