(* ===== verification/Status_List.thy ===== *)
theory Status_List
  imports Status_Store Session_Types
begin

text \<open>
  The operations of \<open>issuer/status-list/status-list.service.ts\<close>, with the tenant configuration of
  \<open>status-list-config.service.ts\<close> and the key derivation message of \<open>subject-key.service.ts\<close>.
  Key chains, signatures and the random source are parameters (\<open>status_env\<close>). A handler takes the
  database and, for the moments it awaits, what other requests do to the database there: \<open>gap k\<close>.
  Retry loops have the fuel \<open>maxRetries\<close> of the source. Delays and log output are left out.
\<close>

section \<open>Configuration\<close>

record list_config =
  lcf_capacity :: "nat option"
  lcf_bits :: "nat option"
  lcf_ttl :: "int option"
  lcf_immediateUpdate :: "bool option"
  lcf_enableAggregation :: "bool option"

record effective_config =
  ef_capacity :: nat
  ef_bits :: nat
  ef_ttl :: int
  ef_immediateUpdate :: bool
  ef_enableAggregation :: bool

record token_payload =
  tp_iss :: string
  tp_sub :: string
  tp_iat :: int
  tp_exp :: int
  tp_ttl :: int
  tp_elements :: "element list"
  tp_bits :: nat
  tp_aggregation_uri :: "string option"
  tp_keyId :: string

text \<open>The tenants with their configuration, the deployment defaults, the key chain lookup (tenant,
  key chain) and the signers.\<close>

record status_env =
  en_publicUrl :: string
  en_defaults :: effective_config
  en_tenants :: "(string \<times> list_config option) list"
  en_cert :: "string \<Rightarrow> string option \<Rightarrow> string option"
  en_sign_jwt :: "token_payload \<Rightarrow> string"
  en_sign_cwt :: "token_payload \<Rightarrow> string"

definition maxRetries :: nat where "maxRetries = 3"

definition MAX_STATUS_LIST_CAPACITY :: nat where "MAX_STATUS_LIST_CAPACITY = 1000000"

definition getConfig :: "status_env \<Rightarrow> string \<Rightarrow> status_error + list_config option" where
  "getConfig env tenantId =
     (case map_of (en_tenants env) tenantId of
        None \<Rightarrow> Inl (mk_error Other_Error ''Could not find any entity of type TenantEntity'')
      | Some cfg \<Rightarrow> Inr cfg)"

definition config_field :: "list_config option \<Rightarrow> (list_config \<Rightarrow> 'a option) \<Rightarrow> 'a option" where
  "config_field cfg f = (case cfg of None \<Rightarrow> None | Some c \<Rightarrow> f c)"

definition getEffectiveConfig :: "status_env \<Rightarrow> string \<Rightarrow> status_error + effective_config" where
  "getEffectiveConfig env tenantId =
     (case getConfig env tenantId of
        Inl e \<Rightarrow> Inl e
      | Inr cfg \<Rightarrow> Inr \<lparr>
          ef_capacity = coalesce (config_field cfg lcf_capacity) (ef_capacity (en_defaults env)),
          ef_bits = coalesce (config_field cfg lcf_bits) (ef_bits (en_defaults env)),
          ef_ttl = coalesce (config_field cfg lcf_ttl) (ef_ttl (en_defaults env)),
          ef_immediateUpdate =
            coalesce (config_field cfg lcf_immediateUpdate) (ef_immediateUpdate (en_defaults env)),
          ef_enableAggregation =
            coalesce (config_field cfg lcf_enableAggregation) (ef_enableAggregation (en_defaults env))\<rparr>)"

definition tenant_config :: "status_env \<Rightarrow> string \<Rightarrow> list_config option" where
  "tenant_config env tenantId =
     (case map_of (en_tenants env) tenantId of None \<Rightarrow> None | Some cfg \<Rightarrow> cfg)"

definition getEffectiveCapacity :: "status_env \<Rightarrow> string \<Rightarrow> nat" where
  "getEffectiveCapacity env tenantId =
     coalesce (config_field (tenant_config env tenantId) lcf_capacity) (ef_capacity (en_defaults env))"

definition getEffectiveBits :: "status_env \<Rightarrow> string \<Rightarrow> nat" where
  "getEffectiveBits env tenantId =
     coalesce (config_field (tenant_config env tenantId) lcf_bits) (ef_bits (en_defaults env))"

definition updateConfig ::
    "string \<Rightarrow> list_config \<Rightarrow> status_env \<Rightarrow> (status_error + list_config) \<times> status_env" where
  "updateConfig tenantId config env =
     (case getConfig env tenantId of
        Inl e \<Rightarrow> (Inl e, env)
      | Inr _ \<Rightarrow> (Inr config, env\<lparr>en_tenants :=
          map (\<lambda>(t, c). if t = tenantId then (t, Some config) else (t, c)) (en_tenants env)\<rparr>))"

definition resetConfig :: "string \<Rightarrow> status_env \<Rightarrow> (status_error + unit) \<times> status_env" where
  "resetConfig tenantId env =
     (case getConfig env tenantId of
        Inl e \<Rightarrow> (Inl e, env)
      | Inr _ \<Rightarrow> (Inr (), env\<lparr>en_tenants :=
          map (\<lambda>(t, c). if t = tenantId then (t, None) else (t, c)) (en_tenants env)\<rparr>))"


section \<open>Tokens\<close>

definition buildAggregationUri :: "string \<Rightarrow> string \<Rightarrow> string" where
  "buildAggregationUri publicUrl tenantId =
     publicUrl @ ''/issuers/'' @ tenantId @ ''/status-management/status-list-aggregation''"

definition getSigningCert :: "status_env \<Rightarrow> status_list \<Rightarrow> status_error + string" where
  "getSigningCert env entry =
     (case en_cert env (sl_tenantId entry)
             (if truthy (sl_keyChainId entry) then sl_keyChainId entry else None) of
        None \<Rightarrow> Inl (mk_error Not_Found (''Key chain '' @ coalesce (sl_keyChainId entry) ''undefined''
                  @ '' not found for tenant '' @ sl_tenantId entry))
      | Some k \<Rightarrow> Inr k)"

definition list_payload :: "status_env \<Rightarrow> date \<Rightarrow> status_list \<Rightarrow> effective_config \<Rightarrow> string \<Rightarrow> token_payload" where
  "list_payload env now_ms entry cfg keyId =
     (let now = now_ms div 1000
      in \<lparr>tp_iss = en_publicUrl env,
          tp_sub = buildStatusListUri (en_publicUrl env) (sl_tenantId entry) (sl_id entry),
          tp_iat = now, tp_exp = now + ef_ttl cfg, tp_ttl = ef_ttl cfg,
          tp_elements = sl_elements entry, tp_bits = sl_bits entry,
          tp_aggregation_uri = (if ef_enableAggregation cfg
            then Some (buildAggregationUri (en_publicUrl env) (sl_tenantId entry)) else None),
          tp_keyId = keyId\<rparr>)"

definition createListJWT ::
    "status_env \<Rightarrow> date \<Rightarrow> (status_db \<Rightarrow> status_db) \<Rightarrow> status_list \<Rightarrow> status_db
       \<Rightarrow> (status_error + bool) \<times> status_db" where
  "createListJWT env now gap entry db =
     (let outOfRange = findOutOfRangeStatusIndexes (sl_elements entry) (sl_bits entry)
      in if outOfRange \<noteq> []
         then (Inl (mk_error List_Values_Out_Of_Range
                 (listValuesMessage (sl_id entry) (sl_bits entry) outOfRange)), db)
         else (case getEffectiveConfig env (sl_tenantId entry) of
           Inl e \<Rightarrow> (Inl e, db)
         | Inr cfg \<Rightarrow>
        (case getSigningCert env entry of
           Inl e \<Rightarrow> (Inl e, db)
         | Inr keyId \<Rightarrow>
        (let p = list_payload env now entry cfg keyId;
             db1 = gap db
         in case storeTokens entry (en_sign_jwt env p) (en_sign_cwt env p) (tp_exp p * 1000) db1 of
              None \<Rightarrow> (Inr False, db1)
            | Some db2 \<Rightarrow> (Inr True, db2)))))"

definition getListById :: "string \<Rightarrow> string \<Rightarrow> status_db \<Rightarrow> status_error + status_list" where
  "getListById tenantId listId db =
     (case find_list tenantId listId db of
        None \<Rightarrow> Inl (mk_error Not_Found (''Status list '' @ listId @ '' not found''))
      | Some l \<Rightarrow> Inr l)"

text \<open>Attempt \<open>k\<close> reads after \<open>gap (3 k)\<close>, writes after \<open>gap (3 k + 1)\<close> and, when it won, re-reads
  after \<open>gap (3 k + 2)\<close>.\<close>

fun regenerate_loop ::
    "status_env \<Rightarrow> (nat \<Rightarrow> date) \<Rightarrow> (nat \<Rightarrow> status_db \<Rightarrow> status_db) \<Rightarrow> string \<Rightarrow> string \<Rightarrow> nat \<Rightarrow> nat
       \<Rightarrow> status_db \<Rightarrow> (status_error + status_list) \<times> status_db" where
  "regenerate_loop env clock gap tenantId listId 0 k db =
     (Inl (mk_error Service_Unavailable
             (''Could not generate current tokens for status list '' @ listId)), db)"
| "regenerate_loop env clock gap tenantId listId (Suc fuel) k db =
     (let db1 = gap (3 * k) db
      in case getListById tenantId listId db1 of
           Inl e \<Rightarrow> (Inl e, db1)
         | Inr entry \<Rightarrow>
             (case createListJWT env (clock k) (gap (3 * k + 1)) entry db1 of
                (Inl e, db2) \<Rightarrow> (Inl e, db2)
              | (Inr True, db2) \<Rightarrow> (getListById tenantId listId (gap (3 * k + 2) db2), gap (3 * k + 2) db2)
              | (Inr False, db2) \<Rightarrow> regenerate_loop env clock gap tenantId listId fuel (k + 1) db2))"

definition regenerateListTokens ::
    "status_env \<Rightarrow> (nat \<Rightarrow> date) \<Rightarrow> (nat \<Rightarrow> status_db \<Rightarrow> status_db) \<Rightarrow> string \<Rightarrow> string \<Rightarrow> status_db
       \<Rightarrow> (status_error + status_list) \<times> status_db" where
  "regenerateListTokens env clock gap tenantId listId db =
     regenerate_loop env clock gap tenantId listId maxRetries 0 db"

definition needs_regeneration :: "date \<Rightarrow> status_list \<Rightarrow> bool" where
  "needs_regeneration now l \<longleftrightarrow> \<not> truthy (sl_jwt l)
     \<or> (case sl_expiresAt l of None \<Rightarrow> True | Some e \<Rightarrow> e \<le> now)"

definition getListJwt ::
    "status_env \<Rightarrow> (nat \<Rightarrow> date) \<Rightarrow> (nat \<Rightarrow> status_db \<Rightarrow> status_db) \<Rightarrow> date \<Rightarrow> string \<Rightarrow> string \<Rightarrow> status_db
       \<Rightarrow> (status_error + string option) \<times> status_db" where
  "getListJwt env clock gap now tenantId listId db =
     (case getListById tenantId listId db of
        Inl e \<Rightarrow> (Inl e, db)
      | Inr l \<Rightarrow>
          (if needs_regeneration now l
           then (case regenerateListTokens env clock gap tenantId listId db of
                   (Inl e, db1) \<Rightarrow> (Inl e, db1)
                 | (Inr l', db1) \<Rightarrow> (Inr (sl_jwt l'), db1))
           else (Inr (sl_jwt l), db)))"

definition getListCwt ::
    "status_env \<Rightarrow> (nat \<Rightarrow> date) \<Rightarrow> (nat \<Rightarrow> status_db \<Rightarrow> status_db) \<Rightarrow> date \<Rightarrow> string \<Rightarrow> string \<Rightarrow> status_db
       \<Rightarrow> (status_error + string option) \<times> status_db" where
  "getListCwt env clock gap now tenantId listId db =
     (case getListById tenantId listId db of
        Inl e \<Rightarrow> (Inl e, db)
      | Inr l \<Rightarrow>
          (if needs_regeneration now l \<or> \<not> truthy (sl_cwt l)
           then (case regenerateListTokens env clock gap tenantId listId db of
                   (Inl e, db1) \<Rightarrow> (Inl e, db1)
                 | (Inr l', db1) \<Rightarrow> (Inr (sl_cwt l'), db1))
           else (Inr (sl_cwt l), db)))"


section \<open>Creating lists\<close>

text \<open>The Fisher-Yates shuffle: \<open>rnd i\<close> is \<open>randomInt(0, i + 1)\<close> in the iteration for \<open>i\<close>.\<close>

definition swap_at :: "'a list \<Rightarrow> nat \<Rightarrow> nat \<Rightarrow> 'a list" where
  "swap_at xs i j = xs[i := xs ! j, j := xs ! i]"

fun shuffle_from :: "(nat \<Rightarrow> nat) \<Rightarrow> nat \<Rightarrow> 'a list \<Rightarrow> 'a list" where
  "shuffle_from rnd 0 xs = xs"
| "shuffle_from rnd (Suc i) xs = shuffle_from rnd i (swap_at xs (Suc i) (rnd (Suc i)))"

definition shuffleArray :: "(nat \<Rightarrow> nat) \<Rightarrow> 'a list \<Rightarrow> 'a list" where
  "shuffleArray rnd xs = shuffle_from rnd (length xs - 1) xs"

record new_list_options =
  no_credentialConfigurationId :: "string option"
  no_keyChainId :: "string option"
  no_bits :: "nat option"
  no_capacity :: "int option"

definition key_chain_missing :: "status_env \<Rightarrow> string \<Rightarrow> string option \<Rightarrow> bool" where
  "key_chain_missing env tenantId k \<longleftrightarrow> truthy k \<and> en_cert env tenantId k = None"

definition key_chain_error :: "error_class \<Rightarrow> string \<Rightarrow> string option \<Rightarrow> status_error" where
  "key_chain_error c tenantId k =
     mk_error c (''Key chain '' @ coalesce k [] @ '' not found for tenant '' @ tenantId)"

definition createNewList ::
    "status_env \<Rightarrow> (nat \<Rightarrow> nat) \<Rightarrow> string \<Rightarrow> date \<Rightarrow> (nat \<Rightarrow> date) \<Rightarrow> (nat \<Rightarrow> status_db \<Rightarrow> status_db)
       \<Rightarrow> string \<Rightarrow> new_list_options \<Rightarrow> status_db \<Rightarrow> (status_error + status_list) \<times> status_db" where
  "createNewList env rnd newId now clock gap tenantId opts db =
     (let n = coalesce (no_capacity opts) (int (getEffectiveCapacity env tenantId))
      in if n < 1 \<or> int MAX_STATUS_LIST_CAPACITY < n
         then (Inl (mk_error Bad_Request
                 ''Status list capacity must be an integer between 1 and 1000000''), db)
         else if key_chain_missing env tenantId (no_keyChainId opts)
         then (Inl (key_chain_error Not_Found tenantId (no_keyChainId opts)), db)
         else (let l = new_list tenantId newId (no_credentialConfigurationId opts) (no_keyChainId opts)
                         (nat n) (shuffleArray rnd [0..<nat n])
                         (coalesce (no_bits opts) (getEffectiveBits env tenantId)) now
               in case insert_list l db of
                    None \<Rightarrow> (Inl \<lparr>er_class = Other_Error, er_code = Some ''23505'',
                                 er_message = ''duplicate key''\<rparr>, db)
                  | Some db1 \<Rightarrow> regenerateListTokens env clock gap tenantId newId db1))"


section \<open>Allocating entries\<close>

definition lists_by_age :: "(status_list \<Rightarrow> bool) \<Rightarrow> status_db \<Rightarrow> status_list list" where
  "lists_by_age P db = sort_key sl_createdAt (sql_find P (db_lists db))"

definition dedicated_where :: "string \<Rightarrow> string \<Rightarrow> status_list \<Rightarrow> bool" where
  "dedicated_where tenantId ccid l \<longleftrightarrow> sl_tenantId l = tenantId \<and> sl_credentialConfigurationId l = Some ccid"

definition shared_where :: "string \<Rightarrow> status_list \<Rightarrow> bool" where
  "shared_where tenantId l \<longleftrightarrow> sl_tenantId l = tenantId \<and> sl_credentialConfigurationId l = None"

definition findAvailableList :: "string \<Rightarrow> string option \<Rightarrow> status_db \<Rightarrow> status_list option" where
  "findAvailableList tenantId ccid db =
     (let dedicated = (if truthy ccid
            then (case lists_by_age (dedicated_where tenantId (the ccid)) db of
                    [] \<Rightarrow> None | l # _ \<Rightarrow> if 0 < length (sl_stack l) then Some l else None)
            else None)
      in case dedicated of
           Some l \<Rightarrow> Some l
         | None \<Rightarrow> List.find (\<lambda>l. 0 < length (sl_stack l)) (lists_by_age (shared_where tenantId) db))"

definition hasStillFreeEntries :: "string \<Rightarrow> string option \<Rightarrow> status_db \<Rightarrow> bool" where
  "hasStillFreeEntries tenantId ccid db \<longleftrightarrow> findAvailableList tenantId ccid db \<noteq> None"

definition findAvailableListForAllocation :: "allocation_options \<Rightarrow> status_db \<Rightarrow> status_list option" where
  "findAvailableListForAllocation opts db =
     (let findFirstAvailable = List.find (\<lambda>l. ao_count opts \<le> length (sl_stack l))
      in case findFirstAvailable
               (lists_by_age (dedicated_where (ao_tenantId opts) (ao_credentialConfigurationId opts)) db) of
           Some l \<Rightarrow> Some l
         | None \<Rightarrow> findFirstAvailable (lists_by_age (shared_where (ao_tenantId opts)) db))"

text \<open>\<open>Inr None\<close> reports that a list must be created. An error of the transaction is rolled back, and
  a retryable one becomes a conflict.\<close>

definition allocateEntriesTransaction ::
    "status_env \<Rightarrow> (status_db \<Rightarrow> status_db) \<Rightarrow> allocation_options \<Rightarrow> status_db
       \<Rightarrow> (status_error + allocated_entry list option) \<times> status_db" where
  "allocateEntriesTransaction env gap opts db =
     (case findAvailableListForAllocation opts db of
        None \<Rightarrow> (Inr None, db)
      | Some l \<Rightarrow>
          (let db1 = gap db
           in case allocateFromList (en_publicUrl env) l opts db1 of
                Inl e \<Rightarrow> (Inl (if isRetryableConcurrencyError e
                               then mk_error Conflict ''Status list index allocation conflict - please retry''
                               else e), db1)
              | Inr (es, db2) \<Rightarrow> (Inr (Some es), db2)))"

record list_source =
  ls_rnd :: "nat \<Rightarrow> nat"
  ls_newId :: string
  ls_now :: date
  ls_clock :: "nat \<Rightarrow> date"

definition createListAndAllocateEntries ::
    "status_env \<Rightarrow> list_source \<Rightarrow> (nat \<Rightarrow> status_db \<Rightarrow> status_db) \<Rightarrow> allocation_options \<Rightarrow> status_db
       \<Rightarrow> (status_error + allocated_entry list) \<times> status_db" where
  "createListAndAllocateEntries env src gap opts db =
     (case createNewList env (ls_rnd src) (ls_newId src) (ls_now src) (ls_clock src) (\<lambda>k. gap (k + 2))
             (ao_tenantId opts) \<lparr>no_credentialConfigurationId = None, no_keyChainId = None,
               no_bits = None, no_capacity = None\<rparr> db of
        (Inl e, db1) \<Rightarrow> (Inl e, db1)
      | (Inr newList, db1) \<Rightarrow>
          (if length (sl_stack newList) < ao_count opts
           then (Inl (mk_error Conflict ''Status list capacity is smaller than the requested allocation''), db1)
           else (case allocateEntriesTransaction env (gap 1) opts db1 of
                   (Inl e, db2) \<Rightarrow> (Inl e, db2)
                 | (Inr None, db2) \<Rightarrow>
                     (Inl (mk_error Conflict ''No status list available after creating a new list''), db2)
                 | (Inr (Some es), db2) \<Rightarrow> (Inr es, db2))))"

definition allocateEntries ::
    "status_env \<Rightarrow> list_source \<Rightarrow> (nat \<Rightarrow> status_db \<Rightarrow> status_db) \<Rightarrow> allocation_options \<Rightarrow> status_db
       \<Rightarrow> (status_error + allocated_entry list) \<times> status_db" where
  "allocateEntries env src gap opts db =
     (case allocateEntriesTransaction env (gap 0) opts db of
        (Inl e, db1) \<Rightarrow> (Inl e, db1)
      | (Inr (Some es), db1) \<Rightarrow> (Inr es, db1)
      | (Inr None, db1) \<Rightarrow> createListAndAllocateEntries env src gap opts db1)"

fun retryOnConcurrency ::
    "(nat \<Rightarrow> status_db \<Rightarrow> (status_error + 'a) \<times> status_db) \<Rightarrow> string \<Rightarrow> nat \<Rightarrow> nat \<Rightarrow> status_db
       \<Rightarrow> (status_error + 'a) \<times> status_db" where
  "retryOnConcurrency operation msg 0 k db = (Inl (mk_error Service_Unavailable msg), db)"
| "retryOnConcurrency operation msg (Suc fuel) k db =
     (case operation k db of
        (Inr x, db1) \<Rightarrow> (Inr x, db1)
      | (Inl e, db1) \<Rightarrow>
          (if \<not> isRetryableConcurrencyError e then (Inl e, db1)
           else retryOnConcurrency operation msg fuel (k + 1) db1))"


section \<open>Setting entries\<close>

text \<open>\<open>setEntryTransaction\<close>: the checks and the write work on the row read at the start; a read of
  a missing list is an error.\<close>

definition setEntryTransaction ::
    "(status_db \<Rightarrow> status_db) \<Rightarrow> string \<Rightarrow> nat \<Rightarrow> int \<Rightarrow> string \<Rightarrow> status_db
       \<Rightarrow> (status_error + unit) \<times> status_db" where
  "setEntryTransaction gap listId index value tenantId db =
     (case find_list tenantId listId db of
        None \<Rightarrow> (Inl (mk_error Not_Found
                  (''Status list '' @ listId @ '' not found for tenant '' @ tenantId)), db)
      | Some entry \<Rightarrow>
          (let db1 = gap db
           in case setEntry_commit entry index value db1 of
                Inl e \<Rightarrow> (Inl e, db1)
              | Inr db2 \<Rightarrow> (Inr (), db2)))"

text \<open>\<open>regenerateListTokensAfterUpdate\<close>: a list that cannot be published is no error of the update.\<close>

definition regenerateListTokensAfterUpdate ::
    "status_env \<Rightarrow> (nat \<Rightarrow> date) \<Rightarrow> (nat \<Rightarrow> status_db \<Rightarrow> status_db) \<Rightarrow> string \<Rightarrow> string \<Rightarrow> status_db
       \<Rightarrow> (status_error + unit) \<times> status_db" where
  "regenerateListTokensAfterUpdate env clock gap tenantId listId db =
     (case regenerateListTokens env clock gap tenantId listId db of
        (Inr _, db1) \<Rightarrow> (Inr (), db1)
      | (Inl e, db1) \<Rightarrow>
          (if er_class e = List_Values_Out_Of_Range then (Inr (), db1) else (Inl e, db1)))"

definition setEntryWithRetry ::
    "status_env \<Rightarrow> (nat \<Rightarrow> date) \<Rightarrow> (nat \<Rightarrow> status_db \<Rightarrow> status_db) \<Rightarrow> string \<Rightarrow> nat \<Rightarrow> int \<Rightarrow> string
       \<Rightarrow> status_db \<Rightarrow> (status_error + unit) \<times> status_db" where
  "setEntryWithRetry env clock gap listId index value tenantId db =
     (case setEntryTransaction (gap 0) listId index value tenantId db of
        (Inl e, db1) \<Rightarrow> (Inl e, db1)
      | (Inr _, db1) \<Rightarrow>
          (case getEffectiveConfig env tenantId of
             Inl e \<Rightarrow> (Inl e, db1)
           | Inr cfg \<Rightarrow>
               (if ef_immediateUpdate cfg
                then regenerateListTokensAfterUpdate env clock (\<lambda>k. gap (k + 1)) tenantId listId db1
                else (Inr (), db1))))"

definition setEntry ::
    "status_env \<Rightarrow> (nat \<Rightarrow> date) \<Rightarrow> (nat \<Rightarrow> nat \<Rightarrow> status_db \<Rightarrow> status_db) \<Rightarrow> string \<Rightarrow> nat \<Rightarrow> int \<Rightarrow> string
       \<Rightarrow> status_db \<Rightarrow> (status_error + unit) \<times> status_db" where
  "setEntry env clock gap listId index value tenantId db =
     retryOnConcurrency (\<lambda>k. setEntryWithRetry env clock (gap k) listId index value tenantId)
       ''Could not update status entry after maximum retries'' maxRetries 0 db"

text \<open>An entry is named by its list and index.\<close>

definition check_transitions :: "status_list list \<Rightarrow> (string \<times> nat) list \<Rightarrow> int \<Rightarrow> status_error + unit" where
  "check_transitions ls entries value =
     foldl (\<lambda>res (listId, index). case res of Inl e \<Rightarrow> Inl e
        | Inr _ \<Rightarrow> assertStatusTransitionAllowed
            (case List.find (\<lambda>l. sl_id l = listId) ls of None \<Rightarrow> 0 | Some l \<Rightarrow> element_at (sl_elements l) index)
            value) (Inr ()) entries"

fun set_each ::
    "(nat \<Rightarrow> string \<Rightarrow> nat \<Rightarrow> status_db \<Rightarrow> (status_error + unit) \<times> status_db) \<Rightarrow> nat \<Rightarrow> (string \<times> nat) list
       \<Rightarrow> status_db \<Rightarrow> (status_error + unit) \<times> status_db" where
  "set_each op k [] db = (Inr (), db)"
| "set_each op k ((listId, index) # rest) db =
     (case op k listId index db of
        (Inl e, db1) \<Rightarrow> (Inl e, db1)
      | (Inr _, db1) \<Rightarrow> set_each op (k + 1) rest db1)"

definition revoked_to_conflict :: "status_error + unit \<Rightarrow> status_error + unit" where
  "revoked_to_conflict res = (case res of
       Inl e \<Rightarrow> (if er_class e = Revoked_Final then Inl (mk_error Conflict (er_message e)) else Inl e)
     | Inr x \<Rightarrow> Inr x)"

definition setEntries ::
    "status_env \<Rightarrow> (nat \<Rightarrow> date) \<Rightarrow> (nat \<Rightarrow> nat \<Rightarrow> nat \<Rightarrow> status_db \<Rightarrow> status_db) \<Rightarrow> string \<Rightarrow> (string \<times> nat) list
       \<Rightarrow> int \<Rightarrow> status_db \<Rightarrow> (status_error + unit) \<times> status_db" where
  "setEntries env clock gap tenantId entries value db =
     (let listIds = remdups (map fst entries)
      in if listIds = [] then (Inr (), db)
         else (let ls = sql_find (\<lambda>l. sl_tenantId l = tenantId \<and> sl_id l \<in> set listIds) (db_lists db)
               in case assertValueFitsLists value (map (\<lambda>l. (sl_id l, sl_bits l)) ls) of
                    Inl e \<Rightarrow> (Inl e, db)
                  | Inr _ \<Rightarrow>
                 (case check_transitions ls entries value of
                    Inl e \<Rightarrow> (revoked_to_conflict (Inl e), db)
                  | Inr _ \<Rightarrow>
                      (let (res, db1) = set_each
                             (\<lambda>k listId index. setEntry env clock (gap k) listId index value tenantId) 0 entries db
                       in (revoked_to_conflict res, db1)))))"

record status_update =
  up_sessionId :: string
  up_credentialConfigurationId :: "string option"
  up_status :: int

definition session_entries :: "string \<Rightarrow> status_update \<Rightarrow> status_db \<Rightarrow> status_mapping list" where
  "session_entries tenantId u db =
     sql_find (\<lambda>m. sm_tenantId m = tenantId \<and> sm_sessionId m = up_sessionId u
       \<and> (case up_credentialConfigurationId u of None \<Rightarrow> True
          | Some c \<Rightarrow> sm_credentialConfigurationId m = c)) (db_mappings db)"

definition entry_refs :: "status_mapping list \<Rightarrow> (string \<times> nat) list" where
  "entry_refs ms = map (\<lambda>m. (sm_statusListId m, sm_index m)) ms"

definition updateStatus ::
    "status_env \<Rightarrow> (nat \<Rightarrow> date) \<Rightarrow> (nat \<Rightarrow> nat \<Rightarrow> nat \<Rightarrow> status_db \<Rightarrow> status_db) \<Rightarrow> status_update \<Rightarrow> string
       \<Rightarrow> status_db \<Rightarrow> (status_error + unit) \<times> status_db" where
  "updateStatus env clock gap u tenantId db =
     (let entries = session_entries tenantId u db
      in if length entries = 0
         then (Inl (mk_error Conflict (''No status mapping found for session '' @ up_sessionId u
                 @ '' and credential configuration '' @ coalesce (up_credentialConfigurationId u) ''undefined'')), db)
         else setEntries env clock gap tenantId (entry_refs entries) (up_status u) db)"

record credential_status =
  cs_credentialConfigurationId :: string
  cs_statusListId :: string
  cs_index :: nat
  cs_status :: int
  cs_bits :: nat

text \<open>\<open>order_entries\<close> is the order the database returns the mappings in: by credential configuration,
  list and index.\<close>

definition getSessionStatus ::
    "(status_mapping list \<Rightarrow> status_mapping list) \<Rightarrow> string \<Rightarrow> string \<Rightarrow> status_db \<Rightarrow> credential_status list" where
  "getSessionStatus order_entries tenantId sessionId db =
     (let entries = order_entries
            (sql_find (\<lambda>m. sm_tenantId m = tenantId \<and> sm_sessionId m = sessionId) (db_mappings db))
      in concat (map (\<lambda>m. case find_list tenantId (sm_statusListId m) db of
           None \<Rightarrow> []
         | Some l \<Rightarrow> [\<lparr>cs_credentialConfigurationId = sm_credentialConfigurationId m,
             cs_statusListId = sm_statusListId m, cs_index = sm_index m,
             cs_status = element_at (sl_elements l) (sm_index m), cs_bits = sl_bits l\<rparr>]) entries))"


section \<open>One active credential per subject\<close>

text \<open>The HMAC input of \<open>deriveSubjectKey\<close>; the HMAC is a parameter.\<close>

definition subject_key_message :: "string \<Rightarrow> string \<Rightarrow> string \<Rightarrow> string \<Rightarrow> string" where
  "subject_key_message tenantId ccid iss sub = join ''|'' [tenantId, ccid, iss, sub]"

record entry_policy =
  ep_activeCredentials :: "bool option"
  ep_statusManagement :: "bool option"

definition resolveSubjectScopedKey ::
    "(string \<Rightarrow> string) \<Rightarrow> session \<Rightarrow> string \<Rightarrow> entry_policy option \<Rightarrow> string option" where
  "resolveSubjectScopedKey hmac sess ccid policy =
     (case policy of
        None \<Rightarrow> None
      | Some p \<Rightarrow>
          (if ep_activeCredentials p \<noteq> Some True then None
           else if ep_statusManagement p \<noteq> Some True then None
           else if \<not> truthy (s_externalIssuer sess) \<or> \<not> truthy (s_externalSubject sess) then None
           else Some (hmac (subject_key_message (s_tenantId sess) ccid
                  (the (s_externalIssuer sess)) (the (s_externalSubject sess))))))"

record slot_params =
  sp_tenantId :: string
  sp_credentialConfigurationId :: string
  sp_subjectScopedKey :: string
  sp_issuanceSetId :: string

definition slot_where :: "slot_params \<Rightarrow> active_slot \<Rightarrow> bool" where
  "slot_where p s \<longleftrightarrow> as_tenantId s = sp_tenantId p
     \<and> as_credentialConfigurationId s = sp_credentialConfigurationId p
     \<and> as_subjectScopedKey s = sp_subjectScopedKey p"

definition slot_key :: "active_slot \<Rightarrow> string \<times> string \<times> string" where
  "slot_key s = (as_tenantId s, as_credentialConfigurationId s, as_subjectScopedKey s)"

definition insert_slot :: "slot_params \<Rightarrow> status_db \<Rightarrow> status_db option" where
  "insert_slot p db = map_option (\<lambda>ss. db\<lparr>db_slots := ss\<rparr>)
     (sql_insert slot_key \<lparr>as_tenantId = sp_tenantId p,
        as_credentialConfigurationId = sp_credentialConfigurationId p,
        as_subjectScopedKey = sp_subjectScopedKey p, as_issuanceSetId = Some (sp_issuanceSetId p),
        as_version = 1\<rparr> (db_slots db))"

definition update_slot :: "active_slot \<Rightarrow> string \<Rightarrow> status_db \<Rightarrow> bool \<times> status_db" where
  "update_slot existing setId db =
     (let (ss, affected) = sql_update
            (\<lambda>s. slot_key s = slot_key existing \<and> as_version s = as_version existing)
            (\<lambda>s. s\<lparr>as_issuanceSetId := Some setId, as_version := as_version s + 1\<rparr>) (db_slots db)
      in (affected \<noteq> 0, db\<lparr>db_slots := ss\<rparr>))"

text \<open>The loop of \<open>replaceActiveIssuance\<close>: the set it displaced, or none. Attempt \<open>k\<close> reads after
  \<open>gap (2 k)\<close> and writes after \<open>gap (2 k + 1)\<close>.\<close>

fun replace_slot ::
    "(nat \<Rightarrow> status_db \<Rightarrow> status_db) \<Rightarrow> slot_params \<Rightarrow> nat \<Rightarrow> nat \<Rightarrow> status_db \<Rightarrow> string option \<times> status_db" where
  "replace_slot gap p 0 k db = (None, db)"
| "replace_slot gap p (Suc fuel) k db =
     (let db1 = gap (2 * k) db; db2 = gap (2 * k + 1) db1
      in case sql_find_one (slot_where p) (db_slots db1) of
           None \<Rightarrow>
             (case insert_slot p db2 of
                Some db3 \<Rightarrow> (None, db3)
              | None \<Rightarrow> replace_slot gap p fuel (k + 1) db2)
         | Some existing \<Rightarrow>
             (if as_issuanceSetId existing = Some (sp_issuanceSetId p) then (None, db1)
              else (case update_slot existing (sp_issuanceSetId p) db2 of
                      (False, db3) \<Rightarrow> replace_slot gap p fuel (k + 1) db3
                    | (True, db3) \<Rightarrow> (as_issuanceSetId existing, db3))))"

definition issuance_set :: "string \<Rightarrow> string \<Rightarrow> string \<Rightarrow> status_db \<Rightarrow> status_mapping list" where
  "issuance_set tenantId ccid setId db =
     sql_find (\<lambda>m. sm_tenantId m = tenantId \<and> sm_credentialConfigurationId m = ccid
       \<and> sm_issuanceSetId m = Some setId) (db_mappings db)"

definition revokeIssuanceSet ::
    "status_env \<Rightarrow> (nat \<Rightarrow> date) \<Rightarrow> (nat \<Rightarrow> nat \<Rightarrow> nat \<Rightarrow> status_db \<Rightarrow> status_db) \<Rightarrow> string \<Rightarrow> string \<Rightarrow> string
       \<Rightarrow> status_db \<Rightarrow> (status_error + unit) \<times> status_db" where
  "revokeIssuanceSet env clock gap tenantId ccid setId db =
     setEntries env clock gap tenantId (entry_refs (issuance_set tenantId ccid setId db)) STATUS_REVOKED db"

definition replaceActiveIssuance ::
    "status_env \<Rightarrow> (nat \<Rightarrow> date) \<Rightarrow> (nat \<Rightarrow> status_db \<Rightarrow> status_db)
       \<Rightarrow> (nat \<Rightarrow> nat \<Rightarrow> nat \<Rightarrow> status_db \<Rightarrow> status_db) \<Rightarrow> slot_params \<Rightarrow> status_db
       \<Rightarrow> (status_error + unit) \<times> status_db" where
  "replaceActiveIssuance env clock gap gaps p db =
     (case replace_slot gap p maxRetries 0 db of
        (previous, db1) \<Rightarrow>
          (if \<not> truthy previous then (Inr (), db1)
           else revokeIssuanceSet env clock gaps (sp_tenantId p) (sp_credentialConfigurationId p)
                  (the previous) db1))"

text \<open>\<open>createEntry\<close> with \<open>allocateAndClaimEntry\<close>: an attempt allocates one entry, then moves the
  subject's slot. Attempt \<open>k\<close> takes its list source and gaps from \<open>src k\<close>, \<open>gap k\<close> and \<open>gaps k\<close>.\<close>

definition allocateAndClaimEntry ::
    "status_env \<Rightarrow> list_source \<Rightarrow> (nat \<Rightarrow> nat \<Rightarrow> status_db \<Rightarrow> status_db)
       \<Rightarrow> (nat \<Rightarrow> nat \<Rightarrow> nat \<Rightarrow> status_db \<Rightarrow> status_db) \<Rightarrow> allocation_options \<Rightarrow> string option \<Rightarrow> status_db
       \<Rightarrow> (status_error + allocated_entry) \<times> status_db" where
  "allocateAndClaimEntry env src gap gaps opts subjectKey db =
     (case allocateEntries env src (gap 0) opts db of
        (Inl e, db1) \<Rightarrow> (Inl e, db1)
      | (Inr [], db1) \<Rightarrow> (Inl (mk_error Conflict ''Failed to allocate status entry after retries''), db1)
      | (Inr (entry # _), db1) \<Rightarrow>
          (if truthy subjectKey \<and> truthy (ao_issuanceSetId opts)
           then (case replaceActiveIssuance env (ls_clock src) (gap 1) gaps
                        \<lparr>sp_tenantId = ao_tenantId opts,
                         sp_credentialConfigurationId = ao_credentialConfigurationId opts,
                         sp_subjectScopedKey = the subjectKey,
                         sp_issuanceSetId = the (ao_issuanceSetId opts)\<rparr> db1 of
                   (Inl e, db2) \<Rightarrow> (Inl e, db2)
                 | (Inr _, db2) \<Rightarrow> (Inr entry, db2))
           else (Inr entry, db1)))"

definition createEntry ::
    "status_env \<Rightarrow> (string \<Rightarrow> string) \<Rightarrow> (nat \<Rightarrow> list_source) \<Rightarrow> (nat \<Rightarrow> nat \<Rightarrow> nat \<Rightarrow> status_db \<Rightarrow> status_db)
       \<Rightarrow> (nat \<Rightarrow> nat \<Rightarrow> nat \<Rightarrow> nat \<Rightarrow> status_db \<Rightarrow> status_db) \<Rightarrow> session \<Rightarrow> string \<Rightarrow> entry_policy option
       \<Rightarrow> string option \<Rightarrow> status_db \<Rightarrow> (status_error + allocated_entry) \<times> status_db" where
  "createEntry env hmac src gap gaps sess ccid policy issuanceSetId db =
     (let subjectKey = resolveSubjectScopedKey hmac sess ccid policy;
          activeSet = (if truthy subjectKey then issuanceSetId else None)
      in if truthy subjectKey \<and> \<not> truthy activeSet
         then (Inl (mk_error Conflict
                 ''Active credential issuance requires an access token grouping identifier''), db)
         else retryOnConcurrency
                (\<lambda>k. allocateAndClaimEntry env (src k) (gap k) (gaps k)
                   \<lparr>ao_tenantId = s_tenantId sess, ao_sessionId = s_id sess,
                    ao_credentialConfigurationId = ccid, ao_count = 1, ao_issuanceSetId = activeSet\<rparr>
                   subjectKey)
                ''Could not allocate status entry after maximum retries'' maxRetries 0 db)"


section \<open>Managing lists\<close>

text \<open>\<open>deleteList\<close>: others run between the count and the deletion.\<close>

definition deleteList ::
    "(status_db \<Rightarrow> status_db) \<Rightarrow> string \<Rightarrow> string \<Rightarrow> status_db \<Rightarrow> (status_error + unit) \<times> status_db" where
  "deleteList gap tenantId listId db =
     (case getListById tenantId listId db of
        Inl e \<Rightarrow> (Inl e, db)
      | Inr _ \<Rightarrow>
          (let mappingsCount = length (sql_find (\<lambda>m. sm_tenantId m = tenantId \<and> sm_statusListId m = listId)
                                 (db_mappings db))
           in if 0 < mappingsCount
              then (Inl (mk_error Conflict (''Cannot delete status list '' @ listId @ '': ''
                      @ show_nat mappingsCount @ '' credentials are using it'')), db)
              else (Inr (), delete_list tenantId listId (gap db))))"

definition no_changes :: "list_changes \<Rightarrow> bool" where
  "no_changes ch \<longleftrightarrow> ch_credentialConfigurationId ch = None \<and> ch_keyChainId ch = None"

definition updateList ::
    "status_env \<Rightarrow> (nat \<Rightarrow> date) \<Rightarrow> (nat \<Rightarrow> status_db \<Rightarrow> status_db) \<Rightarrow> string \<Rightarrow> string \<Rightarrow> list_changes
       \<Rightarrow> status_db \<Rightarrow> (status_error + status_list) \<times> status_db" where
  "updateList env clock gap tenantId listId updates db =
     (case getListById tenantId listId db of
        Inl e \<Rightarrow> (Inl e, db)
      | Inr l \<Rightarrow>
     (if (case ch_keyChainId updates of Some (Some k) \<Rightarrow> en_cert env tenantId (Some k) = None | _ \<Rightarrow> False)
      then (Inl (key_chain_error Not_Found tenantId (the (ch_keyChainId updates))), db)
      else (let db1 = gap 0 db
            in case (if no_changes updates then Some db1 else updateList_commit l updates db1) of
                 None \<Rightarrow> (Inl (mk_error Conflict ''Status list changed concurrently; retry the update''), db1)
               | Some db2 \<Rightarrow>
                   (if ch_keyChainId updates \<noteq> None
                    then regenerateListTokens env clock (\<lambda>k. gap (k + 1)) tenantId listId db2
                    else (getListById tenantId listId db2, db2)))))"

record list_import =
  im_id :: string
  im_credentialConfigurationId :: "string option option"
  im_keyChainId :: "string option"
  im_capacity :: "nat option"
  im_bits :: "nat option"

definition import_existing ::
    "status_env \<Rightarrow> (nat \<Rightarrow> date) \<Rightarrow> (nat \<Rightarrow> status_db \<Rightarrow> status_db) \<Rightarrow> string \<Rightarrow> list_import \<Rightarrow> status_list
       \<Rightarrow> status_db \<Rightarrow> (status_error + unit) \<times> status_db" where
  "import_existing env clock gap tenantId config existing db =
     (if (im_capacity config \<noteq> None \<and> im_capacity config \<noteq> Some (length (sl_elements existing)))
         \<or> (im_bits config \<noteq> None \<and> im_bits config \<noteq> Some (sl_bits existing))
      then (Inl (mk_error Bad_Request
              ''An existing status list cannot change capacity or bits; create a new list ID instead''), db)
      else (case updateList env clock gap tenantId (im_id config)
                   \<lparr>ch_credentialConfigurationId = im_credentialConfigurationId config,
                    ch_keyChainId = map_option Some (im_keyChainId config)\<rparr> db of
              (Inl e, db1) \<Rightarrow> (Inl e, db1)
            | (Inr _, db1) \<Rightarrow> (Inr (), db1)))"

definition processStatusListConfig ::
    "status_env \<Rightarrow> (nat \<Rightarrow> nat) \<Rightarrow> date \<Rightarrow> (nat \<Rightarrow> date) \<Rightarrow> (nat \<Rightarrow> status_db \<Rightarrow> status_db) \<Rightarrow> string
       \<Rightarrow> list_import \<Rightarrow> status_db \<Rightarrow> (status_error + unit) \<times> status_db" where
  "processStatusListConfig env rnd now clock gap tenantId config db =
     (case find_list tenantId (im_id config) db of
        Some existing \<Rightarrow> import_existing env clock gap tenantId config existing db
      | None \<Rightarrow>
     (let n = coalesce (im_capacity config) (getEffectiveCapacity env tenantId)
      in if key_chain_missing env tenantId (im_keyChainId config)
         then (Inl (key_chain_error Other_Error tenantId (im_keyChainId config)), db)
         else (case insert_list (new_list tenantId (im_id config)
                      (coalesce (im_credentialConfigurationId config) None) (im_keyChainId config) n
                      (shuffleArray rnd [0..<n]) (coalesce (im_bits config) (getEffectiveBits env tenantId)) now) db of
                 None \<Rightarrow> (Inl \<lparr>er_class = Other_Error, er_code = Some ''23505'',
                              er_message = ''duplicate key''\<rparr>, db)
               | Some db1 \<Rightarrow>
                   (case regenerateListTokens env clock gap tenantId (im_id config) db1 of
                      (Inl e, db2) \<Rightarrow> (Inl e, db2)
                    | (Inr _, db2) \<Rightarrow> (Inr (), db2)))))"

definition getStatusListUris :: "string \<Rightarrow> string \<Rightarrow> status_db \<Rightarrow> string list" where
  "getStatusListUris publicUrl tenantId db =
     map (\<lambda>l. buildStatusListUri publicUrl tenantId (sl_id l))
       (lists_by_age (\<lambda>l. sl_tenantId l = tenantId) db)"

record out_of_range_entry =
  oo_index :: nat
  oo_value :: element
  oo_mapping :: "status_mapping option"

definition findOutOfRangeEntries :: "status_db \<Rightarrow> (status_list \<times> out_of_range_entry list) list" where
  "findOutOfRangeEntries db =
     List.map_filter (\<lambda>l.
       (let ixs = findOutOfRangeStatusIndexes (sl_elements l) (sl_bits l)
        in if 0 < length ixs
           then Some (l, map (\<lambda>i. \<lparr>oo_index = i, oo_value = sl_elements l ! i,
                  oo_mapping = List.find (\<lambda>m. mapping_key m = (sl_tenantId l, sl_id l, i)) (db_mappings db)\<rparr>) ixs)
           else None))
       (lists_by_age (\<lambda>_. True) db)"

end
