(* ===== verification/Status_Runs.thy ===== *)
theory Status_Runs
  imports Status_Store
begin

text \<open>
  Runs of the status list service: any number of requests, jobs and backend instances that read list
  rows and later write on the basis of what they read. A run state is the database and the rows read
  so far. Proved here for every reachable state: no index is handed out twice, the free stack and the
  used indexes are disjoint, stored values fit the list's bits, and a revoked entry stays revoked.
\<close>

section \<open>Steps\<close>

type_synonym run_state = "status_db \<times> status_list set"

text \<open>
  An index that is set was allocated before, so it is below the number of elements
  (\<open>mapping_in_range\<close> below). List identifiers are fresh: generated, or an imported identifier that
  no list of the tenant had before.
\<close>

inductive status_step :: "string \<Rightarrow> run_state \<Rightarrow> run_state \<Rightarrow> bool" for publicUrl where
  read: "r \<in> set (db_lists db) \<Longrightarrow> status_step publicUrl (db, S) (db, insert r S)"
| allocate: "s \<in> S \<Longrightarrow> sl_tenantId s = ao_tenantId opts \<Longrightarrow>
    allocateFromList publicUrl s opts db = Inr (es, db') \<Longrightarrow> status_step publicUrl (db, S) (db', S)"
| set_entry: "s \<in> S \<Longrightarrow> i < length (sl_elements s) \<Longrightarrow> setEntry_commit s i v db = Inr db' \<Longrightarrow>
    status_step publicUrl (db, S) (db', S)"
| tokens: "s \<in> S \<Longrightarrow> storeTokens s jwt cwt e db = Some db' \<Longrightarrow> status_step publicUrl (db, S) (db', S)"
| bind: "s \<in> S \<Longrightarrow> updateList_commit s ch db = Some db' \<Longrightarrow> status_step publicUrl (db, S) (db', S)"
| create: "l = new_list t i ccid kc n stack bits now \<Longrightarrow> set stack = {..<n} \<Longrightarrow> distinct stack \<Longrightarrow>
    list_key l \<notin> list_key ` (S \<union> set (db_lists db)) \<Longrightarrow> insert_list l db = Some db' \<Longrightarrow>
    status_step publicUrl (db, S) (db', insert l S)"
| delete: "status_step publicUrl (db, S) (delete_list t i db, S)"

inductive status_reach :: "string \<Rightarrow> run_state \<Rightarrow> run_state \<Rightarrow> bool" for publicUrl where
  start: "status_reach publicUrl c c"
| step: "status_reach publicUrl a b \<Longrightarrow> status_step publicUrl b c \<Longrightarrow> status_reach publicUrl a c"

inductive_cases status_stepE: "status_step publicUrl c c'"


section \<open>The invariant\<close>

definition row_ok :: "status_list \<Rightarrow> bool" where
  "row_ok r \<longleftrightarrow> distinct (sl_stack r) \<and> (\<forall>i \<in> set (sl_stack r). i < length (sl_elements r))
     \<and> (\<forall>x \<in> set (sl_elements r). statusValueFits x (sl_bits r))"

definition mapping_ok :: "status_list list \<Rightarrow> status_mapping \<Rightarrow> bool" where
  "mapping_ok rows m \<longleftrightarrow> (\<exists>r \<in> set rows. list_key r = (sm_tenantId m, sm_statusListId m)
     \<and> sm_index m \<notin> set (sl_stack r) \<and> sm_index m < length (sl_elements r))"

definition snapshot_ok :: "status_list list \<Rightarrow> status_list \<Rightarrow> bool" where
  "snapshot_ok rows s \<longleftrightarrow> (\<forall>r \<in> set rows. list_key r = list_key s \<longrightarrow>
     sl_version s \<le> sl_version r \<and> (sl_version s = sl_version r \<longrightarrow> s = r)
     \<and> length (sl_elements s) = length (sl_elements r))"

definition status_inv :: "run_state \<Rightarrow> bool" where
  "status_inv c \<longleftrightarrow> (case c of (db, S) \<Rightarrow>
     distinct (map list_key (db_lists db))
     \<and> (\<forall>r \<in> set (db_lists db). row_ok r)
     \<and> (\<forall>m \<in> set (db_mappings db). mapping_ok (db_lists db) m)
     \<and> distinct (map mapping_key (db_mappings db))
     \<and> (\<forall>s \<in> S. snapshot_ok (db_lists db) s))"

lemma status_invD:
  assumes "status_inv (db, S)"
  shows "distinct (map list_key (db_lists db))" "\<And>r. r \<in> set (db_lists db) \<Longrightarrow> row_ok r"
    "\<And>m. m \<in> set (db_mappings db) \<Longrightarrow> mapping_ok (db_lists db) m"
    "distinct (map mapping_key (db_mappings db))" "\<And>s. s \<in> S \<Longrightarrow> snapshot_ok (db_lists db) s"
  using assms by (auto simp: status_inv_def)

lemma list_key_unique:
  "distinct (map list_key rows) \<Longrightarrow> r \<in> set rows \<Longrightarrow> s \<in> set rows \<Longrightarrow> list_key r = list_key s \<Longrightarrow> r = s"
  unfolding distinct_map by (auto dest: inj_onD)

text \<open>A successful compare-and-set found exactly the row that was read.\<close>

lemma cas_hits_snapshot:
  assumes "status_inv (db, S)" "s \<in> S" "versioned_update s f db = Some db'"
  shows "s \<in> set (db_lists db)"
    and "db' = db\<lparr>db_lists := map (\<lambda>r. if list_key r = list_key s
                     then (f s)\<lparr>sl_version := sl_version s + 1\<rparr> else r) (db_lists db)\<rparr>"
proof -
  obtain r where r: "r \<in> set (db_lists db)" "list_key r = list_key s" "sl_version r = sl_version s"
    using versioned_update_Some(2) [OF assms(3)] by blast
  moreover have "snapshot_ok (db_lists db) s" by (rule status_invD(5) [OF assms(1,2)])
  ultimately have "s = r" unfolding snapshot_ok_def by metis
  with r(1) show s: "s \<in> set (db_lists db)" by simp
  have "(if list_key x = list_key s \<and> sl_version x = sl_version s
          then (f x)\<lparr>sl_version := sl_version x + 1\<rparr> else x) =
        (if list_key x = list_key s then (f s)\<lparr>sl_version := sl_version s + 1\<rparr> else x)"
    if "x \<in> set (db_lists db)" for x
    using list_key_unique [OF status_invD(1) [OF assms(1)] that s] by (cases "list_key x = list_key s") simp_all
  then have "map (\<lambda>x. if list_key x = list_key s \<and> sl_version x = sl_version s
          then (f x)\<lparr>sl_version := sl_version x + 1\<rparr> else x) (db_lists db) =
      map (\<lambda>x. if list_key x = list_key s then (f s)\<lparr>sl_version := sl_version s + 1\<rparr> else x) (db_lists db)"
    by (intro map_cong refl) assumption
  then show "db' = db\<lparr>db_lists := map (\<lambda>r. if list_key r = list_key s
                     then (f s)\<lparr>sl_version := sl_version s + 1\<rparr> else r) (db_lists db)\<rparr>"
    unfolding versioned_update_Some(1) [OF assms(3)] by (simp only:)
qed

lemma cas_keys:
  assumes "versioned_update s f db = Some db'" "\<And>r. list_key (f r) = list_key r"
  shows "list_key ` set (db_lists db') = list_key ` set (db_lists db)"
proof -
  have "list_key (if list_key r = list_key s \<and> sl_version r = sl_version s
      then (f r)\<lparr>sl_version := sl_version r + 1\<rparr> else r) = list_key r" for r
    using assms(2) by simp
  moreover have "db_lists (db\<lparr>db_lists := rows\<rparr>) = rows" for rows by simp
  ultimately show ?thesis
    unfolding versioned_update_Some(1) [OF assms(1)] by (simp only: set_map image_image)
qed

text \<open>A compare-and-set that keeps the row well formed and takes nothing into the free stack keeps
  the invariant.\<close>

lemma cas_inv:
  assumes inv: "status_inv (db, S)" and s: "s \<in> S" and u: "versioned_update s f db = Some db'"
    and key: "list_key (f s) = list_key s" and ok: "row_ok s \<Longrightarrow> row_ok (f s)"
    and stack: "set (sl_stack (f s)) \<subseteq> set (sl_stack s)"
    and len: "length (sl_elements (f s)) = length (sl_elements s)"
  shows "status_inv (db', S)"
proof -
  let ?new = "(f s)\<lparr>sl_version := sl_version s + 1\<rparr>"
  let ?g = "\<lambda>r. if list_key r = list_key s then ?new else r"
  note hit = cas_hits_snapshot [OF inv s u]
  have gkey: "list_key (?g r) = list_key r" for r using key by auto
  have rows: "set (db_lists db') = ?g ` set (db_lists db)" by (simp add: hit(2))
  have "map list_key (db_lists db') = map list_key (db_lists db)" using gkey by (simp add: hit(2))
  then have 1: "distinct (map list_key (db_lists db'))" using status_invD(1) [OF inv] by (simp only:)
  have "row_ok (f s)" using ok status_invD(2) [OF inv hit(1)] .
  then have new: "row_ok ?new" by (simp add: row_ok_def)
  have 2: "row_ok r" if "r \<in> set (db_lists db')" for r
  proof -
    from that rows obtain x where "x \<in> set (db_lists db)" "r = ?g x" by blast
    with new status_invD(2) [OF inv] show ?thesis by (cases "list_key x = list_key s") simp_all
  qed
  have 3: "mapping_ok (db_lists db') m" if "m \<in> set (db_mappings db')" for m
  proof -
    from that have "mapping_ok (db_lists db) m" using status_invD(3) [OF inv] by (simp add: hit(2))
    then obtain r where r: "r \<in> set (db_lists db)" "list_key r = (sm_tenantId m, sm_statusListId m)"
        "sm_index m \<notin> set (sl_stack r)" "sm_index m < length (sl_elements r)"
      unfolding mapping_ok_def by blast
    have "sm_index m \<notin> set (sl_stack (?g r)) \<and> sm_index m < length (sl_elements (?g r))"
    proof (cases "list_key r = list_key s")
      case True
      with r(1) hit(1) status_invD(1) [OF inv] have "r = s" by (blast intro: list_key_unique)
      with r stack len show ?thesis by auto
    qed (use r in simp)
    moreover have "?g r \<in> set (db_lists db')" using r(1) rows by blast
    moreover have "list_key (?g r) = (sm_tenantId m, sm_statusListId m)" using r(2) gkey [of r] by (simp only:)
    ultimately show ?thesis unfolding mapping_ok_def by blast
  qed
  have 5: "snapshot_ok (db_lists db') x" if "x \<in> S" for x
    unfolding snapshot_ok_def
  proof (intro ballI impI)
    fix r assume "r \<in> set (db_lists db')" and rx: "list_key r = list_key x"
    then obtain y where y: "y \<in> set (db_lists db)" "r = ?g y" using rows by blast
    have yx: "list_key y = list_key x" using rx gkey [of y] unfolding y(2) by (simp only:)
    then have v: "sl_version x \<le> sl_version y \<and> (sl_version x = sl_version y \<longrightarrow> x = y)
        \<and> length (sl_elements x) = length (sl_elements y)"
      using status_invD(5) [OF inv that] y(1) unfolding snapshot_ok_def by blast
    show "sl_version x \<le> sl_version r \<and> (sl_version x = sl_version r \<longrightarrow> x = r)
        \<and> length (sl_elements x) = length (sl_elements r)"
    proof (cases "list_key y = list_key s")
      case True
      with y(1) hit(1) status_invD(1) [OF inv] have "y = s" by (blast intro: list_key_unique)
      with v y(2) True len show ?thesis by simp
    next
      case False
      with y(2) v show ?thesis by simp
    qed
  qed
  have "db_mappings db' = db_mappings db" by (simp add: hit(2))
  with 1 2 3 5 status_invD(4) [OF inv] show ?thesis by (simp add: status_inv_def)
qed

lemma allocateFromList_Inr:
  assumes "allocateFromList publicUrl s opts db = Inr (es, db')" "sl_tenantId s = ao_tenantId opts"
  obtains ixs rest db1 where
    "sl_stack s = rest @ rev ixs" "length ixs = ao_count opts"
    "versioned_update s (\<lambda>r. r\<lparr>sl_stack := rest\<rparr>) db = Some db1"
    "map ae_index es = ixs" "\<forall>e \<in> set es. ae_statusListId e = sl_id s"
    "db' = db1\<lparr>db_mappings := db_mappings db1 @
       map (new_mapping (buildStatusListUri publicUrl (ao_tenantId opts) (sl_id s)) opts (sl_id s)) ixs\<rparr>"
    "distinct ixs"
    "mapping_key ` set (map (new_mapping (buildStatusListUri publicUrl (ao_tenantId opts) (sl_id s)) opts (sl_id s)) ixs)
       \<inter> mapping_key ` set (db_mappings db1) = {}"
proof -
  let ?ms = "map (new_mapping (buildStatusListUri publicUrl (ao_tenantId opts) (sl_id s)) opts (sl_id s))"
  from assms obtain ixs rest db1 where
    p: "pop_many (ao_count opts) (sl_stack s) = Some (ixs, rest)"
    and u: "versioned_update (s\<lparr>sl_tenantId := ao_tenantId opts\<rparr>) (\<lambda>r. r\<lparr>sl_stack := rest\<rparr>) db = Some db1"
    and d: "distinct (map mapping_key (?ms ixs))"
      "set (map mapping_key (?ms ixs)) \<inter> mapping_key ` set (db_mappings db1) = {}"
    and es: "es = map (\<lambda>i. \<lparr>ae_statusListId = sl_id s, ae_index = i,
       ae_uri = buildStatusListUri publicUrl (ao_tenantId opts) (sl_id s)\<rparr>) ixs"
    and db': "db' = db1\<lparr>db_mappings := db_mappings db1 @ ?ms ixs\<rparr>"
    unfolding allocateFromList_def Let_def by (auto split: option.splits if_splits)
  have "s\<lparr>sl_tenantId := ao_tenantId opts\<rparr> = s" using assms(2) by simp
  with u have u': "versioned_update s (\<lambda>r. r\<lparr>sl_stack := rest\<rparr>) db = Some db1" by (simp only:)
  have "distinct ixs" using d(1) by (simp add: distinct_map)
  with pop_many_Some [OF p] u' d(2) es db' show ?thesis by (intro that [of rest ixs db1]) (auto simp: comp_def)
qed

lemma cas_mappings: "versioned_update s f db = Some db' \<Longrightarrow> db_mappings db' = db_mappings db"
  by (drule versioned_update_Some(1)) simp

lemma inv_allocate:
  assumes inv: "status_inv (db, S)" and s: "s \<in> S" and t: "sl_tenantId s = ao_tenantId opts"
    and a: "allocateFromList publicUrl s opts db = Inr (es, db')"
  shows "status_inv (db', S)"
  using a t
proof (rule allocateFromList_Inr)
  fix ixs rest db1
  let ?ms = "map (new_mapping (buildStatusListUri publicUrl (ao_tenantId opts) (sl_id s)) opts (sl_id s)) ixs"
  assume st: "sl_stack s = rest @ rev ixs" and u: "versioned_update s (\<lambda>r. r\<lparr>sl_stack := rest\<rparr>) db = Some db1"
    and db': "db' = db1\<lparr>db_mappings := db_mappings db1 @ ?ms\<rparr>" and d: "distinct ixs"
    and fresh: "mapping_key ` set ?ms \<inter> mapping_key ` set (db_mappings db1) = {}"
  note hit = cas_hits_snapshot [OF inv s u]
  have ok: "row_ok s" by (rule status_invD(2) [OF inv hit(1)])
  have inv1: "status_inv (db1, S)"
    by (rule cas_inv [OF inv s u]) (auto simp: st row_ok_def)
  have new: "s\<lparr>sl_stack := rest, sl_version := sl_version s + 1\<rparr> \<in> set (db_lists db1)"
    using hit(1) by (force simp: hit(2))
  have "mapping_ok (db_lists db1) m" if "m \<in> set ?ms" for m
  proof -
    from that obtain i where i: "i \<in> set ixs"
        "m = new_mapping (buildStatusListUri publicUrl (ao_tenantId opts) (sl_id s)) opts (sl_id s) i" by auto
    have "i \<notin> set rest" "i < length (sl_elements s)" using ok i(1) by (auto simp: row_ok_def st)
    with new i(2) t show ?thesis unfolding mapping_ok_def
      by (intro bexI [OF _ new]) (simp add: new_mapping_def list_key_def)
  qed
  moreover have "distinct (map mapping_key ?ms)"
    using d by (simp add: distinct_map inj_on_def new_mapping_def mapping_key_def)
  ultimately show ?thesis using inv1 fresh by (auto simp: status_inv_def db')
qed

lemma inv_set_entry:
  assumes inv: "status_inv (db, S)" and s: "s \<in> S" and i: "i < length (sl_elements s)"
    and c: "setEntry_commit s i v db = Inr db'"
  shows "status_inv (db', S)"
proof -
  from c have fit: "statusValueFits (Some v) (sl_bits s)"
    and u: "versioned_update s (\<lambda>r. r\<lparr>sl_elements := set_element (sl_elements s) i v\<rparr>) db = Some db'"
    using assertValueFitsLists_ok [of v "[(sl_id s, sl_bits s)]"]
    by (auto simp: setEntry_commit_def split: sum.splits option.splits)
  have elems: "set (set_element (sl_elements s) i v) \<subseteq> insert (Some v) (set (sl_elements s))"
    using i by (simp add: set_element_def set_update_subset_insert)
  show ?thesis
    using elems fit
    by (intro cas_inv [OF inv s u]) (auto simp: row_ok_def set_element_length i)
qed

lemma inv_tokens:
  "status_inv (db, S) \<Longrightarrow> s \<in> S \<Longrightarrow> storeTokens s jwt cwt e db = Some db' \<Longrightarrow> status_inv (db', S)"
  unfolding storeTokens_def by (rule cas_inv, assumption+) (auto simp: row_ok_def)

lemma apply_changes_frame [simp]:
  "list_key (apply_changes ch r) = list_key r" "sl_elements (apply_changes ch r) = sl_elements r"
  "sl_stack (apply_changes ch r) = sl_stack r" "sl_bits (apply_changes ch r) = sl_bits r"
  by (auto simp: apply_changes_def list_key_def Let_def split: option.splits)

lemma inv_bind:
  "status_inv (db, S) \<Longrightarrow> s \<in> S \<Longrightarrow> updateList_commit s ch db = Some db' \<Longrightarrow> status_inv (db', S)"
  unfolding updateList_commit_def by (rule cas_inv, assumption+) (auto simp: row_ok_def)

lemma inv_read: "status_inv (db, S) \<Longrightarrow> r \<in> set (db_lists db) \<Longrightarrow> status_inv (db, insert r S)"
  unfolding status_inv_def using list_key_unique [of "db_lists db"]
  by (auto simp: snapshot_ok_def)

lemma inv_create:
  assumes inv: "status_inv (db, S)" and l: "l = new_list t i ccid kc n stack bits now"
    and stack: "set stack = {..<n}" "distinct stack"
    and fresh: "list_key l \<notin> list_key ` (S \<union> set (db_lists db))" and ins: "insert_list l db = Some db'"
  shows "status_inv (db', insert l S)"
proof -
  have db': "db' = db\<lparr>db_lists := db_lists db @ [l]\<rparr>"
    using ins by (auto simp: insert_list_def sql_insert_def split: if_splits)
  have "row_ok l" using stack by (auto simp: l new_list_def row_ok_def fits_iff)
  moreover have "mapping_ok (db_lists db @ [l]) m" if "m \<in> set (db_mappings db)" for m
    using status_invD(3) [OF inv that] by (auto simp: mapping_ok_def)
  moreover have "snapshot_ok (db_lists db @ [l]) s" if "s \<in> insert l S" for s
  proof (cases "s = l")
    case True
    moreover have "list_key r \<noteq> list_key l" if "r \<in> set (db_lists db)" for r
      using fresh that by (metis UnCI imageI)
    ultimately show ?thesis by (auto simp: snapshot_ok_def)
  next
    case False
    with that fresh have "list_key l \<noteq> list_key s" "s \<in> S" by (auto simp: image_iff)
    with status_invD(5) [OF inv] show ?thesis by (auto simp: snapshot_ok_def)
  qed
  ultimately show ?thesis using inv fresh unfolding status_inv_def db' by (auto simp: image_iff)
qed

lemma inv_delete: "status_inv (db, S) \<Longrightarrow> status_inv (delete_list t i db, S)"
proof -
  assume inv: "status_inv (db, S)"
  have "mapping_ok (db_lists (delete_list t i db)) m" if "m \<in> set (db_mappings (delete_list t i db))" for m
  proof -
    from that have m: "m \<in> set (db_mappings db)" "\<not> (sm_statusListId m = i \<and> sm_tenantId m = t)"
      by (auto simp: delete_list_def sql_delete_def)
    from status_invD(3) [OF inv m(1)] m(2) show ?thesis
      by (auto simp: mapping_ok_def delete_list_def sql_delete_def list_key_def)
  qed
  with inv show ?thesis
    by (auto simp: status_inv_def delete_list_def sql_delete_def snapshot_ok_def distinct_map_filter)
qed

lemma status_step_inv: "status_step publicUrl c c' \<Longrightarrow> status_inv c \<Longrightarrow> status_inv c'"
  by (induction rule: status_step.induct)
    (blast intro: inv_read inv_allocate inv_set_entry inv_tokens inv_bind inv_create inv_delete)+

lemma status_reach_inv: "status_reach publicUrl c c' \<Longrightarrow> status_inv c \<Longrightarrow> status_inv c'"
  by (induction rule: status_reach.induct) (auto intro: status_step_inv)

lemma status_inv_empty: "status_inv (\<lparr>db_lists = [], db_mappings = [], db_slots = []\<rparr>, {})"
  by (simp add: status_inv_def)


section \<open>Revocation\<close>

text \<open>Every list has been read or created by somebody, or was there at the start.\<close>

lemma step_keeps_snapshots: "status_step publicUrl (db, S) (db', S') \<Longrightarrow> S \<subseteq> S'"
  by (erule status_stepE) auto

definition revoked_in :: "string \<times> string \<Rightarrow> nat \<Rightarrow> run_state \<Rightarrow> bool" where
  "revoked_in k i c \<longleftrightarrow> (case c of (db, S) \<Rightarrow> k \<in> list_key ` S
     \<and> (\<forall>r \<in> set (db_lists db). list_key r = k \<longrightarrow> element_at (sl_elements r) i = STATUS_REVOKED))"

lemma cas_keeps_revoked:
  assumes "status_inv (db, S)" "s \<in> S" "versioned_update s f db = Some db'" "revoked_in k i (db, S)"
    and "element_at (sl_elements s) i = STATUS_REVOKED \<Longrightarrow> element_at (sl_elements (f s)) i = STATUS_REVOKED"
    and "list_key (f s) = list_key s"
  shows "revoked_in k i (db', S)"
  using assms(4-6) cas_hits_snapshot [OF assms(1-3)] by (auto simp: revoked_in_def)

lemma step_keeps_revoked:
  assumes "status_step publicUrl c c'" "status_inv c" "revoked_in k i c"
  shows "revoked_in k i c'"
  using assms
proof (induction rule: status_step.induct)
  case (read r db S)
  then show ?case by (auto simp: revoked_in_def)
next
  case (allocate s S opts db es db')
  note inv = allocate.prems(1) and rev = allocate.prems(2) and s = allocate.hyps(1)
  show ?case using allocate.hyps(3,2)
  proof (rule allocateFromList_Inr)
    fix rest db1 ixs
    assume u: "versioned_update s (\<lambda>r. r\<lparr>sl_stack := rest\<rparr>) db = Some db1"
      and db': "db' = db1\<lparr>db_mappings := db_mappings db1 @
        map (new_mapping (buildStatusListUri publicUrl (ao_tenantId opts) (sl_id s)) opts (sl_id s)) ixs\<rparr>"
    have "revoked_in k i (db1, S)" by (rule cas_keeps_revoked [OF inv s u rev]) simp_all
    then show ?thesis by (simp add: revoked_in_def db')
  qed
next
  case (set_entry s S j v db db')
  from set_entry.hyps(3) have t: "element_at (sl_elements s) j = STATUS_REVOKED \<longrightarrow> v = STATUS_REVOKED"
    and u: "versioned_update s (\<lambda>r. r\<lparr>sl_elements := set_element (sl_elements s) j v\<rparr>) db = Some db'"
    using assertTransition_ok [of "element_at (sl_elements s) j" v]
    by (auto simp: setEntry_commit_def split: sum.splits option.splits)
  show ?case
    by (rule cas_keeps_revoked [OF set_entry.prems(1) set_entry.hyps(1) u set_entry.prems(2)])
      (use t in \<open>auto simp: element_at_set\<close>)
next
  case (tokens s S jwt cwt e db db')
  show ?case
    by (rule cas_keeps_revoked [OF tokens.prems(1) tokens.hyps(1) tokens.hyps(2) [unfolded storeTokens_def]
          tokens.prems(2)]) simp_all
next
  case (bind s S ch db db')
  show ?case
    by (rule cas_keeps_revoked [OF bind.prems(1) bind.hyps(1) bind.hyps(2) [unfolded updateList_commit_def]
          bind.prems(2)]) simp_all
next
  case (create l t i' ccid kc n stack bits now S db db')
  then have "list_key l \<noteq> k" by (auto simp: revoked_in_def)
  moreover have "db' = db\<lparr>db_lists := db_lists db @ [l]\<rparr>"
    using create.hyps by (auto simp: insert_list_def sql_insert_def split: if_splits)
  ultimately show ?case using create.prems(2) by (auto simp: revoked_in_def)
next
  case (delete db S t j)
  then show ?case by (auto simp: revoked_in_def delete_list_def sql_delete_def)
qed

lemma reach_keeps_revoked:
  "status_reach publicUrl c c' \<Longrightarrow> status_inv c \<Longrightarrow> revoked_in k i c \<Longrightarrow> revoked_in k i c'"
proof (induction rule: status_reach.induct)
  case (step a b c)
  have "status_inv b" by (rule status_reach_inv [OF step.hyps(1) step.prems(1)])
  then show ?case by (rule step_keeps_revoked [OF step.hyps(2) _ step.IH [OF step.prems]])
qed

text \<open>What an allocation hands out was free in the snapshot and in no mapping.\<close>

lemma mapping_in_range:
  assumes "status_inv (db, S)" "m \<in> set (db_mappings db)" "r \<in> set (db_lists db)"
    and "list_key r = (sm_tenantId m, sm_statusListId m)"
  shows "sm_index m < length (sl_elements r) \<and> sm_index m \<notin> set (sl_stack r)"
proof -
  obtain x where "x \<in> set (db_lists db)" "list_key x = (sm_tenantId m, sm_statusListId m)"
      "sm_index m \<notin> set (sl_stack x)" "sm_index m < length (sl_elements x)"
    using status_invD(3) [OF assms(1,2)] unfolding mapping_ok_def by blast
  moreover then have "x = r"
    using list_key_unique [OF status_invD(1) [OF assms(1)] _ assms(3)] assms(4) by metis
  ultimately show ?thesis by blast
qed


section \<open>Handlers are runs\<close>

text \<open>What other requests do while a handler waits is a run; so is a handler, as the lemmas of
  \<open>Status_Handlers\<close> show.\<close>

definition runs_to :: "string \<Rightarrow> run_state \<Rightarrow> status_db \<Rightarrow> bool" where
  "runs_to publicUrl c db' \<longleftrightarrow> (\<exists>S'. status_reach publicUrl c (db', S'))"

definition interference :: "string \<Rightarrow> (status_db \<Rightarrow> status_db) \<Rightarrow> bool" where
  "interference publicUrl g \<longleftrightarrow> (\<forall>db S. runs_to publicUrl (db, S) (g db))"

lemma reach_trans: "status_reach publicUrl b c \<Longrightarrow> status_reach publicUrl a b \<Longrightarrow> status_reach publicUrl a c"
  by (induction rule: status_reach.induct) (auto intro: status_reach.intros)

lemma reach_step: "status_step publicUrl a b \<Longrightarrow> status_reach publicUrl a b"
  by (blast intro: status_reach.intros)

lemma step_snapshots_mono: "status_step publicUrl c c' \<Longrightarrow> snd c \<subseteq> snd c'"
  by (induction rule: status_step.induct) auto

lemma reach_snapshots_mono: "status_reach publicUrl c c' \<Longrightarrow> snd c \<subseteq> snd c'"
  by (induction rule: status_reach.induct) (auto dest: step_snapshots_mono)

lemma interference_id: "interference publicUrl (\<lambda>db. db)"
  by (auto simp: interference_def runs_to_def intro: status_reach.start)

lemma interferenceE:
  assumes "interference publicUrl g" "status_reach publicUrl c (db, S)"
  obtains S' where "status_reach publicUrl c (g db, S')" "S \<subseteq> S'"
proof -
  obtain S' where r: "status_reach publicUrl (db, S) (g db, S')"
    using assms(1) unfolding interference_def runs_to_def by blast
  show ?thesis
    by (rule that [OF reach_trans [OF r assms(2)]]) (use reach_snapshots_mono [OF r] in simp)
qed

end
