(* ===== verification/Status_Handlers.thy ===== *)
theory Status_Handlers
  imports Status_List Status_Runs
begin

text \<open>
  The handlers of \<open>Status_List\<close> are runs of \<open>Status_Runs\<close>: whatever other requests do while a handler
  waits, its own writes are steps, so the invariant and the finality of revocations hold for it.
\<close>

lemma find_list_reach:
  assumes "find_list t i db = Some entry" "status_reach publicUrl c (db, S)"
  shows "status_reach publicUrl c (db, insert entry S)"
  by (rule status_reach.step [OF assms(2)], rule status_step.read)
    (use find_list_Some [OF assms(1)] in blast)

lemma createListJWT_reach:
  assumes "interference publicUrl gap" "status_reach publicUrl c (db, S)" "entry \<in> S"
  shows "runs_to publicUrl c (snd (createListJWT env now gap entry db))"
proof -
  obtain S' where g: "status_reach publicUrl c (gap db, S')" "S \<subseteq> S'"
    by (rule interferenceE [OF assms(1,2)])
  have stay: "runs_to publicUrl c db" "runs_to publicUrl c (gap db)"
    using assms(2) g(1) unfolding runs_to_def by blast+
  have store: "runs_to publicUrl c db2" if "storeTokens entry j w e (gap db) = Some db2" for j w e db2
    unfolding runs_to_def
    using status_reach.step [OF g(1) status_step.tokens [OF _ that]] g(2) assms(3) by blast
  show ?thesis
    unfolding createListJWT_def Let_def using stay store by (simp split: sum.splits option.splits)
qed

lemma createListJWT_snapshots:
  assumes "interference publicUrl gap" "status_reach publicUrl c (db, S)" "entry \<in> S"
  shows "\<exists>S'. status_reach publicUrl c (snd (createListJWT env now gap entry db), S')"
  using createListJWT_reach [OF assms] by (simp add: runs_to_def)

lemma regenerate_loop_reach:
  assumes "\<And>k. interference publicUrl (gap k)" "status_reach publicUrl c (db, S)"
  shows "runs_to publicUrl c (snd (regenerate_loop env clock gap t i fuel k db))"
  using assms(2)
proof (induction fuel arbitrary: k db S)
  case 0
  then show ?case by (auto simp: runs_to_def)
next
  case (Suc fuel)
  obtain S1 where g1: "status_reach publicUrl c (gap (3 * k) db, S1)"
    using interferenceE [OF assms(1) Suc.prems] by blast
  show ?case
  proof (cases "find_list t i (gap (3 * k) db)")
    case None
    then show ?thesis using g1 by (auto simp: runs_to_def getListById_def Let_def)
  next
    case (Some entry)
    let ?res = "createListJWT env (clock k) (gap (3 * k + 1)) entry (gap (3 * k) db)"
    obtain S2 where g2: "status_reach publicUrl c (snd ?res, S2)"
      using createListJWT_snapshots [OF assms(1) find_list_reach [OF Some g1]] by blast
    obtain S3 where g3: "status_reach publicUrl c (gap (3 * k + 2) (snd ?res), S3)"
      using interferenceE [OF assms(1) g2] by blast
    have "runs_to publicUrl c (snd (regenerate_loop env clock gap t i fuel (k + 1) (snd ?res)))"
      by (rule Suc.IH [OF g2])
    with g2 g3 Some show ?thesis
      by (cases ?res) (auto simp: runs_to_def getListById_def Let_def split: sum.splits bool.splits)
  qed
qed

lemma regenerate_reach:
  "(\<And>k. interference publicUrl (gap k)) \<Longrightarrow> status_reach publicUrl c (db, S) \<Longrightarrow>
     runs_to publicUrl c (snd (regenerateListTokens env clock gap t i db))"
  unfolding regenerateListTokens_def by (rule regenerate_loop_reach)

text \<open>The list an entry belongs to keeps its length, so an allocated index stays in range.\<close>

definition in_range :: "status_list set \<Rightarrow> string \<Rightarrow> string \<Rightarrow> nat \<Rightarrow> bool" where
  "in_range S t i n \<longleftrightarrow> (\<exists>s \<in> S. list_key s = (t, i) \<and> n < length (sl_elements s))"

lemma in_range_mono: "in_range S t i n \<Longrightarrow> S \<subseteq> S' \<Longrightarrow> in_range S' t i n"
  by (auto simp: in_range_def)

lemma in_range_entry:
  assumes "status_inv (db, S)" "in_range S t i n" "find_list t i db = Some entry"
  shows "n < length (sl_elements entry)"
proof -
  obtain s where s: "s \<in> S" "list_key s = (t, i)" "n < length (sl_elements s)"
    using assms(2) by (auto simp: in_range_def)
  have "snapshot_ok (db_lists db) s" by (rule status_invD(5) [OF assms(1) s(1)])
  then have "length (sl_elements s) = length (sl_elements entry)"
    using find_list_Some [OF assms(3)] s(2) unfolding snapshot_ok_def by simp
  with s(3) show ?thesis by simp
qed

lemma in_range_reach:
  "in_range (snd c) t i n \<Longrightarrow> status_reach publicUrl c (db, S) \<Longrightarrow> in_range S t i n"
  using reach_snapshots_mono [of publicUrl c "(db, S)"] in_range_mono by simp

lemma setEntryTransaction_reach:
  assumes "interference publicUrl gap" "status_reach publicUrl c (db, S)" "status_inv c"
    and "in_range (snd c) t i n"
  shows "runs_to publicUrl c (snd (setEntryTransaction gap i n v t db))"
proof (cases "find_list t i db")
  case None
  then show ?thesis using assms(2) by (auto simp: setEntryTransaction_def runs_to_def)
next
  case (Some entry)
  have len: "n < length (sl_elements entry)"
    by (rule in_range_entry [OF status_reach_inv [OF assms(2,3)] in_range_reach [OF assms(4,2)] Some])
  obtain S1 where g: "status_reach publicUrl c (gap db, S1)" "insert entry S \<subseteq> S1"
    by (rule interferenceE [OF assms(1) find_list_reach [OF Some assms(2)]])
  have "status_reach publicUrl c (db2, S1)" if "setEntry_commit entry n v (gap db) = Inr db2" for db2
    using status_reach.step [OF g(1) status_step.set_entry [OF _ len that]] g(2) by blast
  with g show ?thesis
    by (auto simp: setEntryTransaction_def Some Let_def runs_to_def split: sum.splits)
qed

lemma regenerateAfterUpdate_reach:
  assumes "\<And>k. interference publicUrl (gap k)" "status_reach publicUrl c (db, S)"
  shows "runs_to publicUrl c (snd (regenerateListTokensAfterUpdate env clock gap t i db))"
proof -
  have "runs_to publicUrl c (snd (regenerateListTokens env clock gap t i db))"
    by (rule regenerate_reach [OF assms])
  then show ?thesis
    by (cases "regenerateListTokens env clock gap t i db")
      (auto simp: regenerateListTokensAfterUpdate_def split: sum.splits)
qed

lemma setEntryWithRetry_reach:
  assumes "\<And>k. interference publicUrl (gap k)" "status_reach publicUrl c (db, S)" "status_inv c"
    and "in_range (snd c) t i n"
  shows "runs_to publicUrl c (snd (setEntryWithRetry env clock gap i n v t db))"
proof -
  let ?res = "setEntryTransaction (gap 0) i n v t db"
  have tx: "runs_to publicUrl c (snd ?res)" by (rule setEntryTransaction_reach [OF assms])
  then obtain S1 where r: "status_reach publicUrl c (snd ?res, S1)" by (auto simp: runs_to_def)
  have "runs_to publicUrl c (snd (regenerateListTokensAfterUpdate env clock (\<lambda>k. gap (k + 1)) t i (snd ?res)))"
    by (rule regenerateAfterUpdate_reach [OF assms(1) r])
  with tx show ?thesis by (cases ?res) (auto simp: setEntryWithRetry_def split: sum.splits)
qed

lemma retryOnConcurrency_reach:
  assumes "\<And>k db S. status_reach publicUrl c (db, S) \<Longrightarrow> runs_to publicUrl c (snd (op k db))"
    and "status_reach publicUrl c (db, S)"
  shows "runs_to publicUrl c (snd (retryOnConcurrency op msg fuel k db))"
  using assms(2)
proof (induction fuel arbitrary: k db S)
  case 0
  then show ?case by (auto simp: runs_to_def)
next
  case (Suc fuel)
  have run: "runs_to publicUrl c (snd (op k db))" by (rule assms(1) [OF Suc.prems])
  then obtain S1 where "status_reach publicUrl c (snd (op k db), S1)" by (auto simp: runs_to_def)
  from Suc.IH [OF this] run show ?case by (cases "op k db") (auto split: sum.splits)
qed

lemma setEntry_reach:
  assumes "\<And>j k. interference publicUrl (gap j k)" "status_reach publicUrl c (db, S)" "status_inv c"
    and "in_range (snd c) t i n"
  shows "runs_to publicUrl c (snd (setEntry env clock gap i n v t db))"
  unfolding setEntry_def
  by (rule retryOnConcurrency_reach [OF _ assms(2)]) (rule setEntryWithRetry_reach [OF assms(1) _ assms(3,4)])

lemma set_each_reach:
  assumes "\<And>k i n db S. (i, n) \<in> set entries \<Longrightarrow> status_reach publicUrl c (db, S) \<Longrightarrow> runs_to publicUrl c (snd (op k i n db))"
    and "status_reach publicUrl c (db, S)"
  shows "runs_to publicUrl c (snd (set_each op k entries db))"
  using assms
proof (induction entries arbitrary: k db S)
  case Nil
  then show ?case by (auto simp: runs_to_def)
next
  case (Cons e entries)
  obtain i n where e: "e = (i, n)" by (cases e)
  have run: "runs_to publicUrl c (snd (op k i n db))" by (rule Cons.prems(1) [OF _ Cons.prems(2)]) (simp add: e)
  then obtain S1 where r: "status_reach publicUrl c (snd (op k i n db), S1)" by (auto simp: runs_to_def)
  have "runs_to publicUrl c (snd (set_each op (k + 1) entries (snd (op k i n db))))"
    by (rule Cons.IH [OF _ r]) (rule Cons.prems(1), simp)
  with run show ?case by (cases "op k i n db") (auto simp: e split: sum.splits)
qed

lemma setEntries_reach:
  assumes "\<And>j k l. interference publicUrl (gap j k l)" "status_reach publicUrl c (db, S)" "status_inv c"
    and "\<And>i n. (i, n) \<in> set entries \<Longrightarrow> in_range (snd c) t i n"
  shows "runs_to publicUrl c (snd (setEntries env clock gap t entries v db))"
proof -
  have "runs_to publicUrl c (snd (set_each (\<lambda>k i n. setEntry env clock (gap k) i n v t) 0 entries db))"
    by (rule set_each_reach [OF _ assms(2)]) (rule setEntry_reach [OF assms(1) _ assms(3,4)])
  moreover have "runs_to publicUrl c db" using assms(2) by (auto simp: runs_to_def)
  ultimately show ?thesis by (simp add: setEntries_def Let_def split_beta split: sum.splits)
qed

text \<open>The entries of a session are in range: the mappings refer to existing lists. The rows the
  mappings refer to count as read.\<close>

lemma session_entries_in_range:
  assumes "status_inv (db, S)" "set (db_lists db) \<subseteq> S"
    and "(i, n) \<in> set (entry_refs (session_entries t u db))"
  shows "in_range S t i n"
proof -
  obtain m where m: "m \<in> set (db_mappings db)" "sm_tenantId m = t" "sm_statusListId m = i" "sm_index m = n"
    using assms(3) by (auto simp: entry_refs_def session_entries_def sql_find_def)
  obtain r where "r \<in> set (db_lists db)" "list_key r = (t, i)" "n < length (sl_elements r)"
    using status_invD(3) [OF assms(1) m(1)] m(2-4) by (auto simp: mapping_ok_def)
  with assms(2) show ?thesis by (auto simp: in_range_def)
qed

lemma updateStatus_reach:
  assumes "\<And>j k l. interference publicUrl (gap j k l)" "status_inv (db, S)" "set (db_lists db) \<subseteq> S"
  shows "runs_to publicUrl (db, S) (snd (updateStatus env clock gap u t db))"
proof -
  have "runs_to publicUrl (db, S) (snd (setEntries env clock gap t (entry_refs (session_entries t u db)) (up_status u) db))"
    by (rule setEntries_reach [OF assms(1) status_reach.start assms(2)])
      (use session_entries_in_range [OF assms(2,3)] in simp)
  moreover have "runs_to publicUrl (db, S) db" by (auto simp: runs_to_def intro: status_reach.start)
  ultimately show ?thesis by (simp add: updateStatus_def Let_def)
qed

text \<open>Allocation and the management of lists.\<close>

lemma find_Some_in: "List.find P xs = Some x \<Longrightarrow> x \<in> set xs"
  by (auto simp: find_Some_iff)

lemma first_free_Some:
  assumes "List.find P (lists_by_age Q db) = Some l"
  shows "l \<in> set (db_lists db) \<and> Q l \<and> P l"
proof -
  from assms obtain j where "j < length (lists_by_age Q db)" "P (lists_by_age Q db ! j)" "l = lists_by_age Q db ! j"
    by (auto simp: find_Some_iff)
  moreover then have "l \<in> set (lists_by_age Q db)" by simp
  ultimately show ?thesis by (auto simp: lists_by_age_def sql_find_def)
qed

lemma findAvailable_Some:
  assumes "findAvailableListForAllocation opts db = Some l"
  shows "l \<in> set (db_lists db)" "sl_tenantId l = ao_tenantId opts" "ao_count opts \<le> length (sl_stack l)"
    "sl_credentialConfigurationId l \<in> {None, Some (ao_credentialConfigurationId opts)}"
proof -
  have "l \<in> set (db_lists db) \<and> sl_tenantId l = ao_tenantId opts \<and> ao_count opts \<le> length (sl_stack l)
      \<and> sl_credentialConfigurationId l \<in> {None, Some (ao_credentialConfigurationId opts)}"
    using assms
    by (auto simp: findAvailableListForAllocation_def dedicated_where_def shared_where_def Let_def
        dest!: first_free_Some split: option.splits)
  then show "l \<in> set (db_lists db)" "sl_tenantId l = ao_tenantId opts" "ao_count opts \<le> length (sl_stack l)"
    "sl_credentialConfigurationId l \<in> {None, Some (ao_credentialConfigurationId opts)}" by auto
qed

lemma allocateTransaction_reach:
  assumes "interference (en_publicUrl env) gap" "status_reach (en_publicUrl env) c (db, S)"
  shows "runs_to (en_publicUrl env) c (snd (allocateEntriesTransaction env gap opts db))"
proof (cases "findAvailableListForAllocation opts db")
  case None
  then show ?thesis using assms(2) by (auto simp: allocateEntriesTransaction_def runs_to_def)
next
  case (Some l)
  note l = findAvailable_Some [OF Some]
  have "status_reach (en_publicUrl env) c (db, insert l S)"
    by (rule status_reach.step [OF assms(2) status_step.read [OF l(1)]])
  then obtain S1 where g: "status_reach (en_publicUrl env) c (gap db, S1)" "insert l S \<subseteq> S1"
    by (rule interferenceE [OF assms(1)])
  have "status_reach (en_publicUrl env) c (db2, S1)"
    if "allocateFromList (en_publicUrl env) l opts (gap db) = Inr (es, db2)" for es db2
    using status_reach.step [OF g(1) status_step.allocate [OF _ l(2) that]] g(2) by blast
  with g show ?thesis
    by (auto simp: allocateEntriesTransaction_def Some Let_def runs_to_def split: sum.splits)
qed

lemma deleteList_reach:
  assumes "interference publicUrl gap" "status_reach publicUrl c (db, S)"
  shows "runs_to publicUrl c (snd (deleteList gap t i db))"
proof -
  obtain S1 where "status_reach publicUrl c (gap db, S1)" using interferenceE [OF assms] by blast
  then have "status_reach publicUrl c (delete_list t i (gap db), S1)"
    by (rule status_reach.step) (rule status_step.delete)
  with assms(2) show ?thesis
    by (auto simp: deleteList_def Let_def runs_to_def split: sum.splits)
qed

lemma updateList_reach:
  assumes "\<And>k. interference publicUrl (gap k)" "status_reach publicUrl c (db, S)"
  shows "runs_to publicUrl c (snd (updateList env clock gap t i ch db))"
proof (cases "find_list t i db")
  case None
  then show ?thesis using assms(2) by (auto simp: updateList_def getListById_def runs_to_def)
next
  case (Some l)
  obtain S1 where g: "status_reach publicUrl c (gap 0 db, S1)" "insert l S \<subseteq> S1"
    by (rule interferenceE [OF assms(1) find_list_reach [OF Some assms(2)]])
  have commit: "status_reach publicUrl c (db2, S1)" if "updateList_commit l ch (gap 0 db) = Some db2" for db2
    using status_reach.step [OF g(1) status_step.bind [OF _ that]] g(2) by blast
  have regen: "runs_to publicUrl c (snd (regenerateListTokens env clock (\<lambda>k. gap (k + 1)) t i db2))"
    if "status_reach publicUrl c (db2, S1)" for db2
    by (rule regenerate_reach [OF assms(1) that])
  have stay: "runs_to publicUrl c db" "runs_to publicUrl c (gap 0 db)"
    and runs: "runs_to publicUrl c db2" if "status_reach publicUrl c (db2, S1)" for db2
    using assms(2) g(1) that unfolding runs_to_def by blast+
  show ?thesis
    unfolding updateList_def getListById_def Some Let_def
    using stay [OF g(1)] runs [OF commit] runs [OF g(1)] regen [OF commit] regen [OF g(1)]
    by (simp split: option.splits if_splits)
qed

end
