(* ===== verification/Status_Properties.thy ===== *)
theory Status_Properties
  imports Status_Handlers
begin

text \<open>
  The properties of the status lists: over all runs, over undisturbed handlers, and the places where
  the code does not keep what its comments promise.
\<close>

section \<open>A concrete world for the witnesses\<close>

definition empty_db :: status_db where
  "empty_db = \<lparr>db_lists = [], db_mappings = [], db_slots = []\<rparr>"

definition slist1 :: status_list where
  "slist1 = new_list ''acme'' ''l1'' None None 2 [1, 0] 2 0"

definition sdb1 :: status_db where
  "sdb1 = empty_db\<lparr>db_lists := [slist1]\<rparr>"

definition sopts1 :: allocation_options where
  "sopts1 = \<lparr>ao_tenantId = ''acme'', ao_sessionId = ''s1'', ao_credentialConfigurationId = ''pid'',
     ao_count = 1, ao_issuanceSetId = Some ''set1''\<rparr>"

definition slist2 :: status_list where
  "slist2 = slist1\<lparr>sl_stack := [1], sl_version := 2\<rparr>"

definition smapping1 :: status_mapping where
  "smapping1 = new_mapping (buildStatusListUri ''https://x'' ''acme'' ''l1'') sopts1 ''l1'' 0"

definition sdb2 :: status_db where
  "sdb2 = \<lparr>db_lists = [slist2], db_mappings = [smapping1], db_slots = []\<rparr>"

definition senv1 :: status_env where
  "senv1 = \<lparr>en_publicUrl = ''https://x'',
     en_defaults = \<lparr>ef_capacity = 2, ef_bits = 2, ef_ttl = 60, ef_immediateUpdate = False,
       ef_enableAggregation = True\<rparr>,
     en_tenants = [(''acme'', None)], en_cert = (\<lambda>_ _. Some ''key''),
     en_sign_jwt = (\<lambda>_. ''jwt''), en_sign_cwt = (\<lambda>_. ''cwt'')\<rparr>"

lemmas world = empty_db_def slist1_def sdb1_def sopts1_def slist2_def smapping1_def sdb2_def new_list_def

lemma allocate1: "allocateFromList ''https://x'' slist1 sopts1 sdb1 =
    Inr ([\<lparr>ae_statusListId = ''l1'', ae_index = 0, ae_uri = buildStatusListUri ''https://x'' ''acme'' ''l1''\<rparr>], sdb2)"
  by (simp add: allocateFromList_def versioned_update_def sql_update_def world numeral_2_eq_2 Let_def)

lemma reach1: "status_reach ''https://x'' (empty_db, {}) (sdb1, {slist1})"
proof (rule reach_step)
  have "list_key slist1 \<notin> list_key ` ({} \<union> set (db_lists empty_db))" by (simp add: empty_db_def)
  then show "status_step ''https://x'' (empty_db, {}) (sdb1, {slist1})"
    by (intro status_step.create [of slist1 "''acme''" "''l1''" None None 2 "[1, 0]" 2 0])
      (auto simp: slist1_def sdb1_def insert_list_def sql_insert_def empty_db_def)
qed

lemma reach2: "status_reach ''https://x'' (empty_db, {}) (sdb2, {slist1})"
  by (rule status_reach.step [OF reach1], rule status_step.allocate [OF _ _ allocate1])
    (simp_all add: world)

lemma reach_empty_inv: "status_reach publicUrl (empty_db, {}) c \<Longrightarrow> status_inv c"
  by (erule status_reach_inv) (simp add: empty_db_def status_inv_empty)

text \<open>Every list of a run from the empty database was created in it.\<close>

lemma reach_empty_known:
  "status_reach publicUrl a c \<Longrightarrow> a = (empty_db, {}) \<Longrightarrow>
     list_key ` set (db_lists (fst c)) \<subseteq> list_key ` snd c"
proof (induction rule: status_reach.induct)
  case (start c)
  then show ?case by (simp add: empty_db_def)
next
  case (step a b c)
  have inv: "status_inv b" using step.hyps(1) step.prems by (auto intro: reach_empty_inv)
  have known: "list_key ` set (db_lists (fst b)) \<subseteq> list_key ` snd b" by (rule step.IH [OF step.prems])
  from step.hyps(2) known inv show ?case
  proof (induction rule: status_step.induct)
    case (allocate s S opts db es db')
    from allocate.hyps(3,2) show ?case
    proof (rule allocateFromList_Inr)
      fix rest ixs d1
      assume u: "versioned_update s (\<lambda>r. r\<lparr>sl_stack := rest\<rparr>) db = Some d1"
        and db': "db' = d1\<lparr>db_mappings := db_mappings d1 @
          map (new_mapping (buildStatusListUri publicUrl (ao_tenantId opts) (sl_id s)) opts (sl_id s)) ixs\<rparr>"
      show ?thesis
        using cas_keys [OF u] allocate.prems(1) by (simp add: db')
    qed
  next
    case (set_entry s S i v db db')
    then have "versioned_update s (\<lambda>r. r\<lparr>sl_elements := set_element (sl_elements s) i v\<rparr>) db = Some db'"
      by (auto simp: setEntry_commit_def split: sum.splits option.splits)
    from cas_keys [OF this] set_entry.prems(1) show ?case by simp
  next
    case (tokens s S jwt cwt e db db')
    from cas_keys [OF tokens.hyps(2) [unfolded storeTokens_def]] tokens.prems(1) show ?case by simp
  next
    case (bind s S ch db db')
    from cas_keys [OF bind.hyps(2) [unfolded updateList_commit_def]] bind.prems(1) show ?case by simp
  next
    case (create l t i ccid kc n stack bits now S db db')
    from create.hyps(5) have "set (db_lists db') = insert l (set (db_lists db))"
      by (auto simp: insert_list_def sql_insert_def split: if_splits)
    with create.prems(1) show ?case by auto
  next
    case (delete db S t i)
    then show ?case by (auto simp: delete_list_def sql_delete_def)
  qed auto
qed


section \<open>All runs\<close>

text \<open>C3: In every run of the service from an empty database - requests, jobs and instances interleaved
  at each of their writes - no status list index is allocated twice, a used index is never in the free
  stack of its list, and every used index lies inside the list.\<close>

theorem status_index_used_once:
  assumes "status_reach publicUrl (empty_db, {}) (db, S)"
  shows "distinct (map mapping_key (db_mappings db))
    \<and> (\<forall>m \<in> set (db_mappings db). \<exists>r \<in> set (db_lists db). list_key r = (sm_tenantId m, sm_statusListId m)
         \<and> sm_index m \<notin> set (sl_stack r) \<and> sm_index m < length (sl_elements r))
    \<and> (\<forall>r \<in> set (db_lists db). distinct (sl_stack r))"
  using status_invD [OF reach_empty_inv [OF assms]] by (simp add: mapping_ok_def row_ok_def)

theorem status_index_used_once_witness: "distinct (map mapping_key (db_mappings sdb2)) \<and> db_mappings sdb2 \<noteq> []"
  using status_index_used_once [OF reach2] by (simp add: sdb2_def)

text \<open>C4: Revocation is final: once an entry of a list is revoked, it is revoked in every later state of
  every run, as long as the list exists, whatever status updates, allocations, token generations,
  rebindings and imports happen concurrently.\<close>

theorem revocation_final:
  assumes "status_reach publicUrl (empty_db, {}) (db, S)" "status_reach publicUrl (db, S) (db', S')"
    and "r \<in> set (db_lists db)" "element_at (sl_elements r) i = STATUS_REVOKED"
    and "r' \<in> set (db_lists db')" "list_key r' = list_key r"
  shows "element_at (sl_elements r') i = STATUS_REVOKED"
proof -
  have inv: "status_inv (db, S)" by (rule reach_empty_inv [OF assms(1)])
  have "\<forall>x \<in> set (db_lists db). list_key x = list_key r \<longrightarrow> x = r"
    using list_key_unique [OF status_invD(1) [OF inv] _ assms(3)] by blast
  then have "revoked_in (list_key r) i (db, S)"
    using reach_empty_known [OF assms(1) refl] assms(3,4) by (auto simp: revoked_in_def)
  then have "revoked_in (list_key r) i (db', S')" by (rule reach_keeps_revoked [OF assms(2) inv])
  with assms(5,6) show ?thesis by (simp add: revoked_in_def)
qed

text \<open>The next update in the concrete run revokes the allocated entry.\<close>

definition slist3 :: status_list where
  "slist3 = slist2\<lparr>sl_elements := [Some 1, Some 0], sl_version := 3\<rparr>"

lemma reach3: "status_reach ''https://x'' (empty_db, {}) (sdb2\<lparr>db_lists := [slist3]\<rparr>, {slist2, slist1})"
proof (rule status_reach.step)
  show "status_reach ''https://x'' (empty_db, {}) (sdb2, {slist2, slist1})"
    by (rule status_reach.step [OF reach2], rule status_step.read) (simp add: sdb2_def)
  have "setEntry_commit slist2 0 1 sdb2 = Inr (sdb2\<lparr>db_lists := [slist3]\<rparr>)" by code_simp
  then show "status_step ''https://x'' (sdb2, {slist2, slist1}) (sdb2\<lparr>db_lists := [slist3]\<rparr>, {slist2, slist1})"
    by (rule status_step.set_entry [rotated 2]) (simp_all add: world)
qed

definition sdb3 :: status_db where
  "sdb3 = sdb2\<lparr>db_lists := [slist3]\<rparr>"

definition slist4 :: status_list where
  "slist4 = slist3\<lparr>sl_stack := [], sl_version := 4\<rparr>"

definition sdb4 :: status_db where
  "sdb4 = sdb3\<lparr>db_lists := [slist4],
     db_mappings := [smapping1, new_mapping (buildStatusListUri ''https://x'' ''acme'' ''l1'') sopts1 ''l1'' 1]\<rparr>"

lemma reach4: "status_reach ''https://x'' (sdb3, {slist2, slist1}) (sdb4, {slist3, slist2, slist1})"
proof (rule status_reach.step)
  show "status_reach ''https://x'' (sdb3, {slist2, slist1}) (sdb3, {slist3, slist2, slist1})"
    by (rule status_reach.step [OF status_reach.start], rule status_step.read) (simp add: sdb3_def)
  have "allocateFromList ''https://x'' slist3 sopts1 sdb3 =
      Inr ([\<lparr>ae_statusListId = ''l1'', ae_index = 1, ae_uri = buildStatusListUri ''https://x'' ''acme'' ''l1''\<rparr>], sdb4)"
    by code_simp
  then show "status_step ''https://x'' (sdb3, {slist3, slist2, slist1}) (sdb4, {slist3, slist2, slist1})"
    by (rule status_step.allocate [rotated 2]) (simp_all add: world slist3_def)
qed

theorem revocation_final_witness: "element_at (sl_elements slist4) 0 = STATUS_REVOKED \<and> sl_stack slist4 = []"
proof -
  have key: "list_key slist4 = list_key slist3" by code_simp
  have revoked: "element_at (sl_elements slist3) 0 = STATUS_REVOKED" by code_simp
  have rows: "slist3 \<in> set (db_lists sdb3)" "slist4 \<in> set (db_lists sdb4)" by (simp_all add: sdb3_def sdb4_def)
  show ?thesis
    using revocation_final [OF reach3 [folded sdb3_def] reach4 rows(1) revoked rows(2) key] by (simp add: slist4_def)
qed

text \<open>Every list of every run can be published: all stored values fit its bits per entry, so token
  generation never refuses it for values out of range.\<close>

theorem reachable_list_publishable:
  assumes "status_reach publicUrl (empty_db, {}) (db, S)" "r \<in> set (db_lists db)"
  shows "findOutOfRangeStatusIndexes (sl_elements r) (sl_bits r) = []
    \<and> (\<forall>env now gap d e. fst (createListJWT env now gap r d) = Inl e \<longrightarrow> er_class e \<noteq> List_Values_Out_Of_Range)"
proof -
  have fit: "findOutOfRangeStatusIndexes (sl_elements r) (sl_bits r) = []"
    using status_invD(2) [OF reach_empty_inv [OF assms(1)] assms(2)] by (simp add: outOfRange_Nil row_ok_def)
  then show ?thesis
    by (auto simp: createListJWT_def getEffectiveConfig_def getConfig_def getSigningCert_def mk_error_def Let_def
        split: option.splits)
qed

theorem reachable_list_publishable_witness: "findOutOfRangeStatusIndexes (sl_elements slist2) (sl_bits slist2) = []"
  using reachable_list_publishable [OF reach2, of slist2] by (simp add: sdb2_def)


definition supdate1 :: status_update where
  "supdate1 = \<lparr>up_sessionId = ''s1'', up_credentialConfigurationId = None, up_status = 1\<rparr>"

lemma supdate1_result: "updateStatus senv1 (\<lambda>_. 0) (\<lambda>_ _ _ db. db) supdate1 ''acme'' sdb2
    = (Inr (), sdb2\<lparr>db_lists := [slist3]\<rparr>)"
  by code_simp


end
