(* ===== verification/Status_Quiet.thy ===== *)
theory Status_Quiet
  imports Status_Handlers
begin

text \<open>
  Status updates without interference: what a completed update leaves in the lists, and that a
  refused one leaves everything as it was. \<open>quiet\<close> is the gap in which nobody else writes.
\<close>

definition quiet :: "status_db \<Rightarrow> status_db" where
  "quiet db = db"

definition status_at :: "status_db \<Rightarrow> string \<Rightarrow> string \<Rightarrow> nat \<Rightarrow> int option" where
  "status_at db t i n = map_option (\<lambda>l. element_at (sl_elements l) n) (find_list t i db)"

definition writable :: "string \<Rightarrow> int \<Rightarrow> status_db \<Rightarrow> string \<times> nat \<Rightarrow> bool" where
  "writable t v db e \<longleftrightarrow> (\<exists>l. find_list t (fst e) db = Some l \<and> statusValueFits (Some v) (sl_bits l)
     \<and> (element_at (sl_elements l) (snd e) = STATUS_REVOKED \<longrightarrow> v = STATUS_REVOKED))"

definition written_row :: "status_list \<Rightarrow> nat \<Rightarrow> int \<Rightarrow> status_list" where
  "written_row l n v = l\<lparr>sl_elements := set_element (sl_elements l) n v, sl_version := sl_version l + 1\<rparr>"

lemma quiet_simp: "quiet db = db"
  by (simp add: quiet_def)

lemma find_map_same: "(\<And>x. P (f x) = P x) \<Longrightarrow> List.find P (map f xs) = map_option f (List.find P xs)"
  by (induction xs) auto

lemma find_filter: "List.find P (filter Q xs) = List.find (\<lambda>x. Q x \<and> P x) xs"
  by (induction xs) auto

text \<open>Without interference the compare-and-set succeeds.\<close>

lemma versioned_update_quiet:
  assumes "distinct (map list_key (db_lists db))" "s \<in> set (db_lists db)"
  shows "versioned_update s f db = Some (db\<lparr>db_lists := map (\<lambda>r. if list_key r = list_key s
           then (f s)\<lparr>sl_version := sl_version s + 1\<rparr> else r) (db_lists db)\<rparr>)"
proof -
  have "versioned_update s f db \<noteq> None" unfolding versioned_update_None using assms(2) by blast
  then obtain db' where u: "versioned_update s f db = Some db'" by blast
  have "(if list_key r = list_key s \<and> sl_version r = sl_version s
          then (f r)\<lparr>sl_version := sl_version r + 1\<rparr> else r) =
        (if list_key r = list_key s then (f s)\<lparr>sl_version := sl_version s + 1\<rparr> else r)"
    if "r \<in> set (db_lists db)" for r
    using list_key_unique [OF assms(1) that assms(2)] by (cases "list_key r = list_key s") simp_all
  then have "map (\<lambda>r. if list_key r = list_key s \<and> sl_version r = sl_version s
          then (f r)\<lparr>sl_version := sl_version r + 1\<rparr> else r) (db_lists db) =
        map (\<lambda>r. if list_key r = list_key s then (f s)\<lparr>sl_version := sl_version s + 1\<rparr> else r) (db_lists db)"
    by (intro map_cong refl) assumption
  then show ?thesis using versioned_update_Some(1) [OF u] u by (simp only:)
qed

definition write_row :: "string \<Rightarrow> status_list \<Rightarrow> nat \<Rightarrow> int \<Rightarrow> status_db \<Rightarrow> status_db" where
  "write_row t l n v db = db\<lparr>db_lists := map (\<lambda>r. if list_key r = list_key l then written_row l n v else r)
     (db_lists db)\<rparr>"

lemma setEntry_quiet:
  assumes "find_list t i db = Some l" "distinct (map list_key (db_lists db))"
    and "writable t v db (i, n)"
    and "getEffectiveConfig env t = Inr cfg" "\<not> ef_immediateUpdate cfg"
  shows "setEntry env clock (\<lambda>_ _. quiet) i n v t db = (Inr (), write_row t l n v db)"
proof -
  note l = find_list_Some [OF assms(1)]
  have fit: "assertValueFitsLists v [(sl_id l, sl_bits l)] = Inr ()"
    and ok: "assertStatusTransitionAllowed (element_at (sl_elements l) n) v = Inr ()"
    using assms(1,3) by (auto simp: writable_def assertValueFitsLists_ok assertTransition_ok)
  have "setEntry_commit l n v db = Inr (write_row t l n v db)"
    using l by (simp add: setEntry_commit_def fit ok versioned_update_quiet [OF assms(2)] write_row_def
        written_row_def)
  then show ?thesis
    using assms(1,4,5) by (simp add: quiet_simp setEntry_def maxRetries_def numeral_3_eq_3 setEntryWithRetry_def
        setEntryTransaction_def)
qed

lemma write_row_find:
  assumes "find_list t i db = Some l"
  shows "find_list t' i' (write_row t l n v db) =
    (if t' = t \<and> i' = i then Some (written_row l n v) else find_list t' i' db)"
proof -
  have k: "list_key l = (t, i)" using find_list_Some [OF assms] by simp
  have w: "list_key (written_row l n v) = list_key l" by (simp add: written_row_def list_key_def)
  let ?f = "\<lambda>r. if list_key r = list_key l then written_row l n v else r"
  have key: "list_key (?f r) = list_key r" for r using w by simp
  have "(sl_id (?f r) = i' \<and> sl_tenantId (?f r) = t') = (sl_id r = i' \<and> sl_tenantId r = t')" for r
    using key [of r] unfolding list_key_def by (simp only: prod.inject)
  then have "find_list t' i' (write_row t l n v db) = map_option ?f (find_list t' i' db)"
    unfolding find_list_def sql_find_one_def write_row_def by (simp add: find_map_same)
  also have "\<dots> = (if t' = t \<and> i' = i then Some (written_row l n v) else find_list t' i' db)"
  proof (cases "find_list t' i' db")
    case None
    with assms show ?thesis by auto
  next
    case (Some r)
    with find_list_Some [OF Some] k assms show ?thesis by auto
  qed
  finally show ?thesis .
qed

lemma write_row_status:
  assumes "find_list t i db = Some l"
  shows "status_at (write_row t l n v db) t' i' n' =
    (if t' = t \<and> i' = i \<and> n' = n then Some v else status_at db t' i' n')"
  by (auto simp: status_at_def write_row_find [OF assms] written_row_def element_at_set assms)

lemma write_row_distinct:
  "distinct (map list_key (db_lists db)) \<Longrightarrow> distinct (map list_key (db_lists (write_row t l n v db)))"
proof -
  have "list_key (if list_key r = list_key l then written_row l n v else r) = list_key r" for r
    by (simp add: written_row_def)
  then have "map list_key (db_lists (write_row t l n v db)) = map list_key (db_lists db)"
    by (simp add: write_row_def)
  then show "distinct (map list_key (db_lists db)) \<Longrightarrow> ?thesis" by (simp only:)
qed

lemma write_row_writable:
  assumes "find_list t i db = Some l" "writable t v db e"
  shows "writable t v (write_row t l n v db) e"
proof -
  obtain i' n' where e: "e = (i', n')" by (cases e)
  from assms(2) obtain r where r: "find_list t i' db = Some r" "statusValueFits (Some v) (sl_bits r)"
    "element_at (sl_elements r) n' = STATUS_REVOKED \<longrightarrow> v = STATUS_REVOKED"
    by (auto simp: writable_def e)
  show ?thesis
  proof (cases "i' = i")
    case True
    with r(1) assms(1) have "r = l" by simp
    with r True show ?thesis
      by (simp add: writable_def e write_row_find [OF assms(1)] written_row_def element_at_set)
  next
    case False
    with r show ?thesis by (simp add: writable_def e write_row_find [OF assms(1)])
  qed
qed

lemma set_each_quiet:
  assumes "getEffectiveConfig env t = Inr cfg" "\<not> ef_immediateUpdate cfg"
    and "distinct (map list_key (db_lists db))" "\<forall>e \<in> set entries. writable t v db e"
  shows "\<exists>db'. set_each (\<lambda>k i n. setEntry env clock (\<lambda>_ _. quiet) i n v t) k entries db = (Inr (), db')
    \<and> db_mappings db' = db_mappings db \<and> db_slots db' = db_slots db
    \<and> (\<forall>t' i n. status_at db' t' i n = (if t' = t \<and> (i, n) \<in> set entries then Some v else status_at db t' i n))"
  using assms(3,4)
proof (induction entries arbitrary: k db)
  case (Cons e entries)
  obtain i n where e: "e = (i, n)" by (cases e)
  from Cons.prems(2) e obtain l where l: "find_list t i db = Some l" "writable t v db (i, n)"
    by (auto simp: writable_def)
  let ?db = "write_row t l n v db"
  have step: "setEntry env clock (\<lambda>_ _. quiet) i n v t db = (Inr (), ?db)"
    by (rule setEntry_quiet [OF l(1) Cons.prems(1) l(2) assms(1,2)])
  have "\<forall>x \<in> set entries. writable t v ?db x" using Cons.prems(2) write_row_writable [OF l(1)] by auto
  from Cons.IH [OF write_row_distinct [OF Cons.prems(1)] this, of "k + 1"] obtain db' where db':
    "set_each (\<lambda>k i n. setEntry env clock (\<lambda>_ _. quiet) i n v t) (k + 1) entries ?db = (Inr (), db')"
    "db_mappings db' = db_mappings ?db" "db_slots db' = db_slots ?db"
    "\<forall>t' i n. status_at db' t' i n = (if t' = t \<and> (i, n) \<in> set entries then Some v else status_at ?db t' i n)"
    by blast
  then have "set_each (\<lambda>k i n. setEntry env clock (\<lambda>_ _. quiet) i n v t) k (e # entries) db = (Inr (), db')"
    by (simp add: e step)
  moreover have "\<forall>t' i' n'. status_at db' t' i' n' =
      (if t' = t \<and> (i', n') \<in> set (e # entries) then Some v else status_at db t' i' n')"
    using db'(4) by (auto simp: e write_row_status [OF l(1)])
  moreover have "db_mappings db' = db_mappings db" "db_slots db' = db_slots db"
    using db'(2,3) by (simp_all add: write_row_def)
  ultimately show ?case by blast
qed simp

lemma check_transitions_ok:
  "check_transitions ls entries v = Inr () \<longleftrightarrow> (\<forall>(i, n) \<in> set entries. assertStatusTransitionAllowed
     (case List.find (\<lambda>l. sl_id l = i) ls of None \<Rightarrow> 0 | Some l \<Rightarrow> element_at (sl_elements l) n) v = Inr ())"
proof -
  define f where "f = (\<lambda>res (i, n). case res of Inl e \<Rightarrow> Inl e | Inr (_ :: unit) \<Rightarrow> assertStatusTransitionAllowed
     (case List.find (\<lambda>l. sl_id l = i) ls of None \<Rightarrow> 0 | Some l \<Rightarrow> element_at (sl_elements l) n) v)"
  have stuck: "foldl f (Inl e) es = Inl e" for e es by (induction es) (auto simp: f_def)
  have "foldl f (Inr ()) es = Inr () \<longleftrightarrow> (\<forall>(i, n) \<in> set es. assertStatusTransitionAllowed
     (case List.find (\<lambda>l. sl_id l = i) ls of None \<Rightarrow> 0 | Some l \<Rightarrow> element_at (sl_elements l) n) v = Inr ())" for es
  proof (induction es)
    case (Cons x es)
    obtain i n where x: "x = (i, n)" by (cases x)
    show ?case
    proof (cases "f (Inr ()) x")
      case (Inl e)
      then show ?thesis by (auto simp: stuck) (auto simp: f_def x)
    next
      case (Inr u)
      then show ?thesis using Cons.IH by (auto simp: f_def x)
    qed
  qed simp
  then show ?thesis by (simp add: check_transitions_def f_def)
qed

text \<open>The validation before the first write accepts an update exactly when every entry is writable.\<close>

lemma setEntries_quiet:
  assumes "getEffectiveConfig env t = Inr cfg" "\<not> ef_immediateUpdate cfg"
    and "distinct (map list_key (db_lists db))" "\<forall>(i, n) \<in> set entries. find_list t i db \<noteq> None"
  shows "if \<forall>e \<in> set entries. writable t v db e
    then \<exists>db'. setEntries env clock (\<lambda>_ _ _. quiet) t entries v db = (Inr (), db')
      \<and> db_mappings db' = db_mappings db \<and> db_slots db' = db_slots db
      \<and> (\<forall>t' i n. status_at db' t' i n = (if t' = t \<and> (i, n) \<in> set entries then Some v else status_at db t' i n))
    else \<exists>e. setEntries env clock (\<lambda>_ _ _. quiet) t entries v db = (Inl e, db)"
proof (cases "entries = []")
  case True
  then show ?thesis by (simp add: setEntries_def)
next
  case False
  let ?P = "\<lambda>l. sl_tenantId l = t \<and> sl_id l \<in> set (remdups (map fst entries))"
  let ?ls = "sql_find ?P (db_lists db)"
  have found: "List.find (\<lambda>l. sl_id l = i) ?ls = find_list t i db" if "(i, n) \<in> set entries" for i n
  proof -
    have "i \<in> set (remdups (map fst entries))" using that by force
    then have "(\<lambda>x. ?P x \<and> sl_id x = i) = (\<lambda>r. sl_id r = i \<and> sl_tenantId r = t)" by (intro ext) auto
    then show ?thesis unfolding sql_find_def find_filter find_list_def sql_find_one_def
      by (rule arg_cong [where f = "\<lambda>P. List.find P (db_lists db)"])
  qed
  have fits: "assertValueFitsLists v (map (\<lambda>l. (sl_id l, sl_bits l)) ?ls) = Inr () \<longleftrightarrow>
      (\<forall>(i, n) \<in> set entries. \<forall>l. find_list t i db = Some l \<longrightarrow> statusValueFits (Some v) (sl_bits l))"
    (is "?L \<longleftrightarrow> ?R")
  proof
    assume L: ?L
    have "statusValueFits (Some v) (sl_bits l)" if "(i, n) \<in> set entries" "find_list t i db = Some l" for i n l
    proof -
      have "l \<in> set (db_lists db)" "sl_tenantId l = t" "sl_id l = i"
        using find_list_Some [OF that(2)] by (simp_all add: list_key_def)
      moreover have "i \<in> fst ` set entries" using that(1) by force
      ultimately have "l \<in> set ?ls" by (simp add: sql_find_def)
      with L show ?thesis by (auto simp: assertValueFitsLists_ok)
    qed
    then show ?R by blast
  next
    assume R: ?R
    have "statusValueFits (Some v) (sl_bits l)" if "l \<in> set ?ls" for l
    proof -
      from that have l: "l \<in> set (db_lists db)" "sl_tenantId l = t" "sl_id l \<in> fst ` set entries"
        by (auto simp: sql_find_def)
      from l(3) obtain n where n: "(sl_id l, n) \<in> set entries" by force
      with assms(4) obtain x where x: "find_list t (sl_id l) db = Some x" by fastforce
      have "x = l" using find_list_Some [OF x] l list_key_unique [OF assms(3)] by (simp add: list_key_def)
      with R n x show ?thesis by fastforce
    qed
    then show ?L by (auto simp: assertValueFitsLists_ok)
  qed
  have trans: "check_transitions ?ls entries v = Inr () \<longleftrightarrow>
      (\<forall>(i, n) \<in> set entries. \<forall>l. find_list t i db = Some l \<longrightarrow>
         (element_at (sl_elements l) n = STATUS_REVOKED \<longrightarrow> v = STATUS_REVOKED))"
    using assms(4) found by (fastforce simp: check_transitions_ok assertTransition_ok split: option.splits)
  have all: "(\<forall>e \<in> set entries. writable t v db e) \<longleftrightarrow>
      assertValueFitsLists v (map (\<lambda>l. (sl_id l, sl_bits l)) ?ls) = Inr () \<and> check_transitions ?ls entries v = Inr ()"
    unfolding fits trans writable_def using assms(4) by fastforce
  have ne: "remdups (map fst entries) \<noteq> []" using False by simp
  show ?thesis
  proof (cases "\<forall>e \<in> set entries. writable t v db e")
    case True
    from set_each_quiet [OF assms(1-3) True, of clock 0] obtain db' where
      "set_each (\<lambda>k i n. setEntry env clock (\<lambda>_ _. quiet) i n v t) 0 entries db = (Inr (), db')"
      "db_mappings db' = db_mappings db" "db_slots db' = db_slots db"
      "\<forall>t' i n. status_at db' t' i n = (if t' = t \<and> (i, n) \<in> set entries then Some v else status_at db t' i n)"
      by blast
    with True all ne show ?thesis by (simp add: setEntries_def revoked_to_conflict_def Let_def)
  next
    case no: False
    with all have "assertValueFitsLists v (map (\<lambda>l. (sl_id l, sl_bits l)) ?ls) \<noteq> Inr ()
        \<or> check_transitions ?ls entries v \<noteq> Inr ()" by blast
    with no ne show ?thesis
      by (auto simp: setEntries_def revoked_to_conflict_def Let_def split: sum.splits)
  qed
qed

end
