(* ===== verification/Status_Outcomes.thy ===== *)
theory Status_Outcomes
  imports Status_Properties Status_Quiet "HOL-Library.Multiset"
begin

text \<open>
  What the handlers of the status lists achieve when no other request interferes: a status update
  takes effect for all entries of a session or for none, tokens are signed over the current
  statuses, new lists hand out every index once, free lists can be allocated from, and a subject's
  earlier credentials are revoked. The last section shows where interference breaks these outcomes.
\<close>

section \<open>Status updates\<close>

lemma session_entries_known:
  assumes "status_inv (db, S)"
  shows "\<forall>(i, n) \<in> set (entry_refs (session_entries t u db)). find_list t i db \<noteq> None"
proof -
  have "find_list t (sm_statusListId m) db \<noteq> None" if m: "m \<in> set (db_mappings db)" "sm_tenantId m = t" for m
  proof -
    obtain r where "r \<in> set (db_lists db)" "list_key r = (sm_tenantId m, sm_statusListId m)"
      using status_invD(3) [OF assms m(1)] unfolding mapping_ok_def by blast
    with m(2) show ?thesis by (auto simp: find_list_def sql_find_one_None list_key_def)
  qed
  then show ?thesis by (auto simp: entry_refs_def session_entries_def sql_find_def)
qed

text \<open>Undisturbed, a status update of a session is applied to all of its entries or to none: it
  succeeds exactly when the session has entries and each of them may take the new value (it fits the
  bits of the list, and a revoked entry is not reinstated); then exactly these entries have the new
  value, otherwise no list changes.\<close>

theorem updateStatus_all_or_nothing:
  assumes "status_inv (db, S)" "getEffectiveConfig env t = Inr cfg" "\<not> ef_immediateUpdate cfg"
    and "entries = entry_refs (session_entries t u db)"
  shows "if entries \<noteq> [] \<and> (\<forall>e \<in> set entries. writable t (up_status u) db e)
    then \<exists>db'. updateStatus env clock (\<lambda>_ _ _. quiet) u t db = (Inr (), db')
      \<and> db_mappings db' = db_mappings db \<and> db_slots db' = db_slots db
      \<and> (\<forall>t' i n. status_at db' t' i n =
            (if t' = t \<and> (i, n) \<in> set entries then Some (up_status u) else status_at db t' i n))
    else \<exists>e. updateStatus env clock (\<lambda>_ _ _. quiet) u t db = (Inl e, db)"
proof (cases "session_entries t u db = []")
  case True
  then show ?thesis by (simp add: updateStatus_def assms(4) entry_refs_def Let_def)
next
  case False
  then have "updateStatus env clock (\<lambda>_ _ _. quiet) u t db =
      setEntries env clock (\<lambda>_ _ _. quiet) t entries (up_status u) db" "entries \<noteq> []"
    by (simp_all add: updateStatus_def assms(4) entry_refs_def Let_def)
  then show ?thesis
    using setEntries_quiet [OF assms(2,3) status_invD(1) [OF assms(1)] session_entries_known [OF assms(1), where t = t and u = u],
        where v = "up_status u" and clock = clock] by (simp only: assms(4) simp_thms)
qed

lemma senv1_config: "getEffectiveConfig senv1 ''acme'' =
    Inr \<lparr>ef_capacity = 2, ef_bits = 2, ef_ttl = 60, ef_immediateUpdate = False, ef_enableAggregation = True\<rparr>"
  by (simp add: getEffectiveConfig_def getConfig_def senv1_def config_field_def)

lemma sdb2_inv: "status_inv (sdb2, {slist1})"
  by (rule reach_empty_inv [OF reach2])

theorem updateStatus_all_or_nothing_witness:
  "\<exists>db'. updateStatus senv1 (\<lambda>_. 0) (\<lambda>_ _ _. quiet) supdate1 ''acme'' sdb2 = (Inr (), db')
     \<and> status_at db' ''acme'' ''l1'' 0 = Some 1 \<and> status_at db' ''acme'' ''l1'' 1 = Some 0"
proof -
  have cfg: "getEffectiveConfig senv1 ''acme'' = Inr \<lparr>ef_capacity = 2, ef_bits = 2, ef_ttl = 60,
      ef_immediateUpdate = False, ef_enableAggregation = True\<rparr>" (is "_ = Inr ?cfg") by (rule senv1_config)
  have refs: "entry_refs (session_entries ''acme'' supdate1 sdb2) = [(''l1'', 0)]" by code_simp
  have w: "\<forall>e \<in> set [(''l1'', 0)]. writable ''acme'' (up_status supdate1) sdb2 e"
    by (simp add: writable_def supdate1_def find_list_def world sql_find_one_def fits_iff
        STATUS_REVOKED_def)
  have old: "status_at sdb2 ''acme'' ''l1'' 1 = Some 0" by code_simp
  have new: "up_status supdate1 = 1" by (simp add: supdate1_def)
  show ?thesis
    using updateStatus_all_or_nothing [OF sdb2_inv cfg _ refs [symmetric], of "\<lambda>_. 0"] w old
    by (fastforce simp: new)
qed


section \<open>Tokens\<close>

lemma write_row_stored:
  assumes "find_list t i db = Some l" "distinct (map list_key (db_lists db))"
  shows "storeTokens l jwt cwt e db = Some (db\<lparr>db_lists := map (\<lambda>r. if list_key r = list_key l
     then l\<lparr>sl_jwt := Some jwt, sl_cwt := Some cwt, sl_expiresAt := Some e, sl_version := sl_version l + 1\<rparr> else r)
     (db_lists db)\<rparr>)"
  using find_list_Some [OF assms(1)] by (simp add: storeTokens_def versioned_update_quiet [OF assms(2)])

lemma find_list_replaced:
  assumes "find_list t i db = Some l" "list_key l' = list_key l" "distinct (map list_key (db_lists db))"
  shows "find_list t i (db\<lparr>db_lists := map (\<lambda>r. if list_key r = list_key l then l' else r) (db_lists db)\<rparr>) = Some l'"
proof -
  let ?f = "\<lambda>r. if list_key r = list_key l then l' else r"
  note l = find_list_Some [OF assms(1)]
  have "list_key (?f r) = list_key r" for r using assms(2) by simp
  then have "(sl_id (?f r) = i \<and> sl_tenantId (?f r) = t) = (sl_id r = i \<and> sl_tenantId r = t)" for r
    unfolding list_key_def by (metis prod.inject)
  then have "find_list t i (db\<lparr>db_lists := map ?f (db_lists db)\<rparr>) = map_option ?f (find_list t i db)"
    unfolding find_list_def sql_find_one_def by (simp add: find_map_same)
  with assms(1) show ?thesis by simp
qed

text \<open>A list whose values fit is signed and stored at the first attempt.\<close>

lemma regenerate_quiet:
  assumes "find_list t i db = Some l" "distinct (map list_key (db_lists db))" "row_ok l"
    and "getEffectiveConfig env t = Inr cfg" "getSigningCert env l = Inr key"
    and "p = list_payload env (clock 0) l cfg key"
    and "l' = l\<lparr>sl_jwt := Some (en_sign_jwt env p), sl_cwt := Some (en_sign_cwt env p),
           sl_expiresAt := Some (tp_exp p * 1000), sl_version := sl_version l + 1\<rparr>"
  shows "regenerateListTokens env clock (\<lambda>_. quiet) t i db =
    (Inr l', db\<lparr>db_lists := map (\<lambda>r. if list_key r = list_key l then l' else r) (db_lists db)\<rparr>)"
proof -
  have t: "sl_tenantId l = t" using find_list_Some [OF assms(1)] by (simp add: list_key_def)
  have fit: "findOutOfRangeStatusIndexes (sl_elements l) (sl_bits l) = []"
    using assms(3) by (simp add: outOfRange_Nil row_ok_def)
  have key: "list_key l' = list_key l" by (simp add: assms(7) list_key_def)
  define db2 where "db2 = db\<lparr>db_lists := map (\<lambda>r. if list_key r = list_key l then l' else r) (db_lists db)\<rparr>"
  have stored: "storeTokens l (en_sign_jwt env p) (en_sign_cwt env p) (tp_exp p * 1000) db = Some db2"
    unfolding db2_def assms(7) by (rule write_row_stored [OF assms(1,2)])
  have found: "find_list t i db2 = Some l'"
    unfolding db2_def by (rule find_list_replaced [OF assms(1) key assms(2)])
  show ?thesis
    unfolding regenerateListTokens_def maxRetries_def numeral_3_eq_3 db2_def [symmetric]
    by (simp add: quiet_simp getListById_def createListJWT_def fit t assms(1,4,5) assms(6) [symmetric]
        stored found Let_def)
qed

text \<open>Undisturbed, the published token of a list is current: when the cached token is missing or
  expired, a new one is signed over the statuses stored now, with the list URI as its subject and an
  expiry of the configured lifetime, and the stored expiry is the expiry of the token; otherwise the
  cached token is returned and nothing is written.\<close>

theorem getListJwt_current:
  assumes "status_inv (db, S)" "find_list t i db = Some l"
    and "getEffectiveConfig env t = Inr cfg" "getSigningCert env l = Inr key"
    and "p = list_payload env (clock 0) l cfg key"
  shows "getListJwt env clock (\<lambda>_. quiet) now t i db =
    (if \<not> truthy (sl_jwt l) \<or> (\<forall>e. sl_expiresAt l = Some e \<longrightarrow> e \<le> now)
     then (Inr (Some (en_sign_jwt env p)),
           db\<lparr>db_lists := map (\<lambda>r. if list_key r = list_key l
             then l\<lparr>sl_jwt := Some (en_sign_jwt env p), sl_cwt := Some (en_sign_cwt env p),
                    sl_expiresAt := Some (tp_exp p * 1000), sl_version := sl_version l + 1\<rparr>
             else r) (db_lists db)\<rparr>)
     else (Inr (sl_jwt l), db))
   \<and> tp_elements p = sl_elements l \<and> tp_bits p = sl_bits l
   \<and> tp_sub p = buildStatusListUri (en_publicUrl env) t i
   \<and> tp_iat p = clock 0 div 1000 \<and> tp_exp p = tp_iat p + ef_ttl cfg \<and> tp_ttl p = ef_ttl cfg"
proof -
  have l: "l \<in> set (db_lists db)" "sl_tenantId l = t" "sl_id l = i"
    using find_list_Some [OF assms(2)] by (simp_all add: list_key_def)
  have need: "needs_regeneration now l \<longleftrightarrow> \<not> truthy (sl_jwt l) \<or> (\<forall>e. sl_expiresAt l = Some e \<longrightarrow> e \<le> now)"
    by (auto simp: needs_regeneration_def split: option.splits)
  note reg = regenerate_quiet [where clock = clock, OF assms(2) status_invD(1) [OF assms(1)] status_invD(2) [OF assms(1) l(1)]
      assms(3,4,5) refl]
  have payload: "tp_elements p = sl_elements l" "tp_bits p = sl_bits l" "tp_iat p = clock 0 div 1000"
    "tp_sub p = buildStatusListUri (en_publicUrl env) t i" "tp_exp p = tp_iat p + ef_ttl cfg" "tp_ttl p = ef_ttl cfg"
    by (simp_all add: assms(5) list_payload_def l Let_def)
  show ?thesis
  proof (cases "needs_regeneration now l")
    case True
    then show ?thesis
      unfolding getListJwt_def getListById_def assms(2) reg payload need [symmetric] assms(5) [symmetric] by simp
  next
    case False
    then show ?thesis
      unfolding getListJwt_def getListById_def assms(2) payload need [symmetric] by simp
  qed
qed

theorem getListJwt_current_witness:
  "fst (getListJwt senv1 (\<lambda>_. 5000) (\<lambda>_. quiet) 5000 ''acme'' ''l1'' sdb2) = Inr (Some ''jwt'')"
proof -
  have l: "find_list ''acme'' ''l1'' sdb2 = Some slist2" by (simp add: find_list_def sql_find_one_def world)
  have key: "getSigningCert senv1 slist2 = Inr ''key''" by (simp add: getSigningCert_def senv1_def)
  have "en_sign_jwt senv1 p = ''jwt''" for p by (simp add: senv1_def)
  moreover have "sl_jwt slist2 = None" by (simp add: world)
  ultimately show ?thesis
    using getListJwt_current [OF sdb2_inv l senv1_config key refl, of "\<lambda>_. 5000" 5000] by simp
qed


section \<open>New lists\<close>

lemma shuffle_from_mset:
  "i < length xs \<Longrightarrow> (\<And>k. rnd k \<le> k) \<Longrightarrow> mset (shuffle_from rnd i xs) = mset xs"
proof (induction i arbitrary: xs)
  case (Suc i)
  have "rnd (Suc i) < length xs" using Suc.prems(1) Suc.prems(2) [of "Suc i"] by simp
  then have "mset (swap_at xs (Suc i) (rnd (Suc i))) = mset xs"
    using Suc.prems(1) mset_swap [of "rnd (Suc i)" xs "Suc i"] by (simp add: swap_at_def)
  then show ?case using Suc.IH [of "swap_at xs (Suc i) (rnd (Suc i))"] Suc.prems by (simp add: swap_at_def)
qed simp

lemma shuffleArray_mset: "(\<And>k. rnd k \<le> k) \<Longrightarrow> mset (shuffleArray rnd xs) = mset xs"
  by (cases xs) (simp_all add: shuffleArray_def shuffle_from_mset)

lemma shuffle_from_cong:
  "(\<And>k. 0 < k \<Longrightarrow> k \<le> i \<Longrightarrow> rnd k = rnd' k) \<Longrightarrow> shuffle_from rnd i xs = shuffle_from rnd' i xs"
  by (induction i arbitrary: xs) simp_all

text \<open>Every order of the elements is a possible result of the shuffle.\<close>

lemma shuffle_from_surj:
  "i < length xs \<Longrightarrow> mset ys = mset xs \<Longrightarrow> (\<And>k. i < k \<Longrightarrow> k < length xs \<Longrightarrow> ys ! k = xs ! k) \<Longrightarrow>
     \<exists>rnd. (\<forall>k. rnd k \<le> k) \<and> shuffle_from rnd i xs = ys"
proof (induction i arbitrary: xs)
  case 0
  have len: "length ys = length xs" using 0(2) by (metis size_mset)
  obtain x xs' where xs: "xs = x # xs'" using 0(1) by (cases xs) auto
  obtain y ys' where ys: "ys = y # ys'" using len xs by (cases ys) auto
  have "ys' = xs'"
    by (rule nth_equalityI) (use 0(3) [of "Suc _"] len xs ys in auto)
  then have "y = x" using 0(2) xs ys by simp
  with \<open>ys' = xs'\<close> xs ys show ?case by (intro exI [of _ "\<lambda>_. 0"]) simp
next
  case (Suc i)
  have len: "length ys = length xs" using Suc.prems(2) by (metis size_mset)
  have split: "mset zs = mset (take (Suc (Suc i)) zs) + mset (drop (Suc (Suc i)) zs)" for zs :: "'a list"
    by (metis append_take_drop_id mset_append)
  have "drop (Suc (Suc i)) ys = drop (Suc (Suc i)) xs"
    by (rule nth_equalityI) (use Suc.prems(3) len in auto)
  then have "mset (take (Suc (Suc i)) ys) = mset (take (Suc (Suc i)) xs)"
    using Suc.prems(2) split [of ys] split [of xs] by simp
  moreover have "ys ! Suc i \<in> set (take (Suc (Suc i)) ys)"
    using Suc.prems(1) len by (auto simp: in_set_conv_nth intro!: exI [of _ "Suc i"])
  ultimately have "ys ! Suc i \<in> set (take (Suc (Suc i)) xs)" by (metis set_mset_mset)
  then obtain j where j: "j \<le> Suc i" "xs ! j = ys ! Suc i" by (auto simp: in_set_conv_nth less_Suc_eq_le)
  let ?xs = "swap_at xs (Suc i) j"
  have m: "mset ?xs = mset xs"
    using Suc.prems(1) j(1) mset_swap [of j xs "Suc i"] by (simp add: swap_at_def)
  have "ys ! k = ?xs ! k" if "i < k" "k < length ?xs" for k
    using that Suc.prems(1,3) j by (cases "k = Suc i") (auto simp: swap_at_def nth_list_update)
  then obtain rnd where rnd: "\<forall>k. rnd k \<le> k" "shuffle_from rnd i ?xs = ys"
    using Suc.IH [of ?xs] Suc.prems(1,2) m by (auto simp: swap_at_def)
  have "shuffle_from (rnd(Suc i := j)) i ?xs = shuffle_from rnd i ?xs" by (rule shuffle_from_cong) simp
  then have "shuffle_from (rnd(Suc i := j)) (Suc i) xs = ys" using rnd(2) by (simp del: fun_upd_apply add: fun_upd_same)
  moreover have "\<forall>k. (rnd(Suc i := j)) k \<le> k" using rnd(1) j(1) by simp
  ultimately show ?case by blast
qed

lemma shuffleArray_surj: "mset ys = mset xs \<Longrightarrow> \<exists>rnd. (\<forall>k. rnd k \<le> k) \<and> shuffleArray rnd xs = ys"
proof (cases "xs = []")
  case False
  then show "mset ys = mset xs \<Longrightarrow> ?thesis"
    using shuffle_from_surj [of "length xs - 1" xs ys] by (auto simp: shuffleArray_def)
qed (auto simp: shuffleArray_def intro: exI [of _ "\<lambda>_. 0"])


lemma find_list_unaffected:
  "list_key l = (t, i) \<Longrightarrow> (t', i') \<noteq> (t, i) \<Longrightarrow>
     find_list t' i' (db\<lparr>db_lists := db_lists db @ [l]\<rparr>) = find_list t' i' db"
  by (auto simp: find_list_def sql_find_one_append list_key_def split: option.splits)
    (auto simp: sql_find_one_def)

lemma find_map_id:
  "(\<And>r. r \<in> set rows \<Longrightarrow> P (f r) = P r) \<Longrightarrow> (\<And>r. r \<in> set rows \<Longrightarrow> P r \<Longrightarrow> f r = r) \<Longrightarrow>
     List.find P (map f rows) = List.find P rows"
  by (induction rows) auto

lemma find_list_map_other:
  assumes "\<And>r. r \<in> set (db_lists db) \<Longrightarrow> list_key (f r) = list_key r"
    and "\<And>r. r \<in> set (db_lists db) \<Longrightarrow> list_key r = (t, i) \<Longrightarrow> f r = r"
  shows "find_list t i (db\<lparr>db_lists := map f (db_lists db)\<rparr>) = find_list t i db"
proof -
  have "(sl_id (f r) = i \<and> sl_tenantId (f r) = t) = (sl_id r = i \<and> sl_tenantId r = t)"
    if "r \<in> set (db_lists db)" for r
    using assms(1) [OF that] unfolding list_key_def by (metis prod.inject)
  then have "List.find (\<lambda>r. sl_id r = i \<and> sl_tenantId r = t) (map f (db_lists db)) =
      List.find (\<lambda>r. sl_id r = i \<and> sl_tenantId r = t) (db_lists db)"
    using assms(2) by (intro find_map_id) (auto simp: list_key_def)
  then show ?thesis unfolding find_list_def sql_find_one_def by simp
qed

lemma find_list_replaced_other:
  "list_key l' = list_key l \<Longrightarrow> list_key l \<noteq> (t, i) \<Longrightarrow>
     find_list t i (db\<lparr>db_lists := map (\<lambda>r. if list_key r = list_key l then l' else r) (db_lists db)\<rparr>)
       = find_list t i db"
  by (rule find_list_map_other) auto

text \<open>Creating a list checks the capacity (1 to 1000000) before anything else and, when it is out of
  bounds, changes nothing. Otherwise, undisturbed and with a known key chain, the new list has the
  requested number of entries, all valid, its free indexes are a permutation of all of them drawn by
  the random source, every permutation being possible, and it is stored signed; no other list changes.\<close>

theorem createNewList_result:
  assumes "distinct (map list_key (db_lists db))" "find_list t newId db = None"
    and "\<And>k. rnd k \<le> k" "\<not> key_chain_missing env t (no_keyChainId opts)"
    and "getEffectiveConfig env t = Inr cfg" "en_cert env t None \<noteq> None"
    and "n = coalesce (no_capacity opts) (int (getEffectiveCapacity env t))"
  shows "if 1 \<le> n \<and> n \<le> 1000000
    then \<exists>l db'. createNewList env rnd newId now clock (\<lambda>_. quiet) t opts db = (Inr l, db')
      \<and> find_list t newId db' = Some l \<and> sl_elements l = replicate (nat n) (Some 0)
      \<and> mset (sl_stack l) = mset [0..<nat n] \<and> sl_stack l = shuffleArray rnd [0..<nat n]
      \<and> sl_bits l = coalesce (no_bits opts) (getEffectiveBits env t) \<and> sl_jwt l \<noteq> None
      \<and> (\<forall>t' i'. (t', i') \<noteq> (t, newId) \<longrightarrow> find_list t' i' db' = find_list t' i' db)
    else \<exists>e. createNewList env rnd newId now clock (\<lambda>_. quiet) t opts db = (Inl e, db)"
proof (cases "1 \<le> n \<and> n \<le> 1000000")
  case False
  then show ?thesis by (auto simp: createNewList_def assms(7) [symmetric] MAX_STATUS_LIST_CAPACITY_def Let_def)
next
  case True
  let ?l = "new_list t newId (no_credentialConfigurationId opts) (no_keyChainId opts) (nat n)
    (shuffleArray rnd [0..<nat n]) (coalesce (no_bits opts) (getEffectiveBits env t)) now"
  let ?db = "db\<lparr>db_lists := db_lists db @ [?l]\<rparr>"
  have key: "list_key ?l = (t, newId)" by (simp add: new_list_def list_key_def)
  have fresh: "list_key ?l \<notin> list_key ` set (db_lists db)"
    using assms(2) unfolding key by (auto simp: find_list_def sql_find_one_None list_key_def)
  have ins: "insert_list ?l db = Some ?db" using fresh by (simp add: insert_list_def sql_insert_def)
  have dist: "distinct (map list_key (db_lists ?db))" using assms(1) fresh by simp
  have found: "find_list t newId ?db = Some ?l"
    using assms(2) by (simp add: find_list_def sql_find_one_append) (simp add: sql_find_one_def new_list_def)
  have stack: "mset (shuffleArray rnd [0..<nat n]) = mset [0..<nat n]" by (rule shuffleArray_mset [OF assms(3)])
  have ok: "row_ok ?l"
    using mset_eq_setD [OF stack] mset_eq_imp_distinct_iff [OF stack]
    by (simp add: row_ok_def new_list_def fits_iff)
  obtain k where cert: "en_cert env t (if truthy (no_keyChainId opts) then no_keyChainId opts else None) = Some k"
    using assms(4,6) by (cases "truthy (no_keyChainId opts)") (auto simp: key_chain_missing_def)
  have "sl_keyChainId ?l = no_keyChainId opts" "sl_tenantId ?l = t" by (simp_all add: new_list_def)
  then have k: "getSigningCert env ?l = Inr k" unfolding getSigningCert_def by (simp only: cert option.case)
  let ?p = "list_payload env (clock 0) ?l cfg k"
  let ?l' = "?l\<lparr>sl_jwt := Some (en_sign_jwt env ?p), sl_cwt := Some (en_sign_cwt env ?p),
    sl_expiresAt := Some (tp_exp ?p * 1000), sl_version := sl_version ?l + 1\<rparr>"
  let ?f = "\<lambda>r. if list_key r = list_key ?l then ?l' else r"
  have key': "list_key ?l' = list_key ?l" by simp
  have "createNewList env rnd newId now clock (\<lambda>_. quiet) t opts db =
      regenerateListTokens env clock (\<lambda>_. quiet) t newId ?db"
    using True assms(4) ins by (simp add: createNewList_def assms(7) [symmetric] MAX_STATUS_LIST_CAPACITY_def Let_def)
  also have "\<dots> = (Inr ?l', ?db\<lparr>db_lists := map ?f (db_lists ?db)\<rparr>)"
    by (rule regenerate_quiet [OF found dist ok assms(5) k refl refl])
  finally have res: "createNewList env rnd newId now clock (\<lambda>_. quiet) t opts db =
    (Inr ?l', ?db\<lparr>db_lists := map ?f (db_lists ?db)\<rparr>)" .
  have there: "find_list t newId (?db\<lparr>db_lists := map ?f (db_lists ?db)\<rparr>) = Some ?l'"
    by (rule find_list_replaced [OF found key' dist])
  have others: "find_list t' i' (?db\<lparr>db_lists := map ?f (db_lists ?db)\<rparr>) = find_list t' i' db"
    if "(t', i') \<noteq> (t, newId)" for t' i'
  proof -
    have "find_list t' i' (?db\<lparr>db_lists := map ?f (db_lists ?db)\<rparr>) = find_list t' i' ?db"
      by (rule find_list_replaced_other [OF key']) (use that key in auto)
    also have "\<dots> = find_list t' i' db" by (rule find_list_unaffected [OF key that])
    finally show ?thesis .
  qed
  have row: "sl_elements ?l' = replicate (nat n) (Some 0)" "sl_stack ?l' = shuffleArray rnd [0..<nat n]"
    "sl_bits ?l' = coalesce (no_bits opts) (getEffectiveBits env t)" "sl_jwt ?l' \<noteq> None"
    by (simp_all add: new_list_def)
  show ?thesis
    unfolding if_P [OF True]
    by (intro exI conjI allI impI) (rule res, rule there, rule row(1), simp only: row(2) stack, rule row(2),
        rule row(3), rule row(4), rule others)
qed

definition soptions1 :: new_list_options where
  "soptions1 = \<lparr>no_credentialConfigurationId = None, no_keyChainId = None, no_bits = None, no_capacity = Some 3\<rparr>"

theorem createNewList_result_witness:
  "\<exists>l db'. createNewList senv1 (\<lambda>_. 0) ''l9'' 0 (\<lambda>_. 0) (\<lambda>_. quiet) ''acme'' soptions1 sdb2 = (Inr l, db')
     \<and> mset (sl_stack l) = mset [0, 1, 2] \<and> find_list ''acme'' ''l1'' db' = Some slist2"
proof -
  have d: "distinct (map list_key (db_lists sdb2))" by (simp add: sdb2_def)
  have absent: "find_list ''acme'' ''l9'' sdb2 = None" by (simp add: find_list_def sql_find_one_def world)
  have there: "find_list ''acme'' ''l1'' sdb2 = Some slist2" by (simp add: find_list_def sql_find_one_def world)
  have chain: "\<not> key_chain_missing senv1 ''acme'' (no_keyChainId soptions1)"
    by (simp add: key_chain_missing_def soptions1_def)
  have cert: "en_cert senv1 ''acme'' None \<noteq> None" by (simp add: senv1_def)
  have n: "3 = coalesce (no_capacity soptions1) (int (getEffectiveCapacity senv1 ''acme''))"
    by (simp add: soptions1_def)
  have "nat 3 = 3" "[0..<3::nat] = [0, 1, 2]" by (simp_all add: upt_rec)
  then show ?thesis
    using createNewList_result [OF d absent _ chain senv1_config cert n, of "\<lambda>_. 0" 0 "\<lambda>_. 0"] there
    by fastforce
qed


section \<open>Allocation\<close>

lemma find_Some_sort:
  "List.find P (sort_key f (filter Q xs)) = Some x \<Longrightarrow> x \<in> set xs \<and> Q x \<and> P x"
proof -
  assume "List.find P (sort_key f (filter Q xs)) = Some x"
  then have "x \<in> set (sort_key f (filter Q xs)) \<and> P x" by (rule sql_find_one_Some [unfolded sql_find_one_def])
  then show ?thesis by simp
qed

lemma find_None_sort:
  "List.find P (sort_key f (filter Q xs)) = None \<longleftrightarrow> (\<forall>x \<in> set xs. Q x \<longrightarrow> \<not> P x)"
  by (auto simp: find_None_iff)

text \<open>The availability check promises no more than the allocation keeps.\<close>

lemma available_for_allocation:
  assumes "hasStillFreeEntries (ao_tenantId opts) (Some (ao_credentialConfigurationId opts)) db"
    and "ao_count opts = 1"
  shows "\<exists>l. findAvailableListForAllocation opts db = Some l \<and> l \<in> set (db_lists db)
    \<and> sl_tenantId l = ao_tenantId opts \<and> sl_stack l \<noteq> []"
proof -
  let ?t = "ao_tenantId opts" and ?c = "ao_credentialConfigurationId opts"
  have free: "\<exists>l \<in> set (db_lists db). (dedicated_where ?t ?c l \<or> shared_where ?t l) \<and> sl_stack l \<noteq> []"
  proof (cases "?c \<noteq> [] \<and> (\<exists>l rest. lists_by_age (dedicated_where ?t ?c) db = l # rest \<and> 0 < length (sl_stack l))")
    case True
    then obtain l rest where l: "lists_by_age (dedicated_where ?t ?c) db = l # rest" "sl_stack l \<noteq> []" by auto
    then have "l \<in> set (lists_by_age (dedicated_where ?t ?c) db)" by simp
    with l(2) show ?thesis by (auto simp: lists_by_age_def sql_find_def)
  next
    case False
    then have "List.find (\<lambda>l. 0 < length (sl_stack l)) (lists_by_age (shared_where ?t) db) \<noteq> None"
      using assms(1) by (auto simp: hasStillFreeEntries_def findAvailableList_def Let_def split: list.splits if_splits)
    then show ?thesis by (auto simp: lists_by_age_def sql_find_def find_None_sort)
  qed
  show ?thesis
  proof (cases "List.find (\<lambda>l. ao_count opts \<le> length (sl_stack l)) (lists_by_age (dedicated_where ?t ?c) db)")
    case (Some l)
    from find_Some_sort [OF Some [unfolded lists_by_age_def sql_find_def]] Some show ?thesis
      using assms(2) by (auto simp: findAvailableListForAllocation_def dedicated_where_def)
  next
    case None
    then have "\<forall>x \<in> set (db_lists db). dedicated_where ?t ?c x \<longrightarrow> sl_stack x = []"
      using assms(2) by (auto simp: lists_by_age_def sql_find_def find_None_sort Suc_le_eq)
    with free have "List.find (\<lambda>l. ao_count opts \<le> length (sl_stack l)) (lists_by_age (shared_where ?t) db) \<noteq> None"
      using assms(2) by (auto simp: lists_by_age_def sql_find_def find_None_sort Suc_le_eq)
    then obtain l where l: "List.find (\<lambda>l. ao_count opts \<le> length (sl_stack l)) (lists_by_age (shared_where ?t) db) = Some l"
      by blast
    from find_Some_sort [OF l [unfolded lists_by_age_def sql_find_def]] l None show ?thesis
      using assms(2) by (auto simp: findAvailableListForAllocation_def shared_where_def)
  qed
qed

text \<open>When the service reports free entries for a credential configuration, an undisturbed
  allocation succeeds: it hands out one index of an existing list of the tenant which no credential
  uses, records it for the session, and takes it out of the free stack.\<close>

theorem reported_free_entry_allocated:
  assumes "status_inv (db, S)" "hasStillFreeEntries (ao_tenantId opts) (Some (ao_credentialConfigurationId opts)) db"
    and "ao_count opts = 1"
  shows "\<exists>l i db'. allocateEntriesTransaction env quiet opts db =
      (Inr (Some [\<lparr>ae_statusListId = sl_id l, ae_index = i,
         ae_uri = buildStatusListUri (en_publicUrl env) (ao_tenantId opts) (sl_id l)\<rparr>]), db')
    \<and> l \<in> set (db_lists db) \<and> sl_tenantId l = ao_tenantId opts \<and> i < length (sl_elements l)
    \<and> (\<forall>m \<in> set (db_mappings db). mapping_key m \<noteq> (ao_tenantId opts, sl_id l, i))
    \<and> db_mappings db' = db_mappings db @ [new_mapping
         (buildStatusListUri (en_publicUrl env) (ao_tenantId opts) (sl_id l)) opts (sl_id l) i]
    \<and> (\<forall>r \<in> set (db_lists db'). list_key r = list_key l \<longrightarrow> i \<notin> set (sl_stack r))"
proof -
  obtain l where l: "findAvailableListForAllocation opts db = Some l" "l \<in> set (db_lists db)"
      "sl_tenantId l = ao_tenantId opts" "sl_stack l \<noteq> []"
    using available_for_allocation [OF assms(2,3)] by blast
  let ?i = "last (sl_stack l)" and ?rest = "butlast (sl_stack l)"
  let ?uri = "buildStatusListUri (en_publicUrl env) (ao_tenantId opts) (sl_id l)"
  have row: "row_ok l" by (rule status_invD(2) [OF assms(1) l(2)])
  have free: "?i \<in> set (sl_stack l)" using l(4) by simp
  have key: "list_key l = (ao_tenantId opts, sl_id l)" by (simp add: list_key_def l(3))
  have unused: "mapping_key m \<noteq> (ao_tenantId opts, sl_id l, ?i)" if "m \<in> set (db_mappings db)" for m
    using mapping_in_range [OF assms(1) that l(2)] free key by (auto simp: mapping_key_def)
  define db1 where "db1 = db\<lparr>db_lists := map (\<lambda>r. if list_key r = list_key l
    then l\<lparr>sl_stack := ?rest, sl_version := sl_version l + 1\<rparr> else r) (db_lists db)\<rparr>"
  have same: "l\<lparr>sl_tenantId := ao_tenantId opts\<rparr> = l" using l(3) by simp
  have pop: "pop_many (ao_count opts) (sl_stack l) = Some ([?i], ?rest)"
    using l(4) by (simp add: assms(3))
  have cas: "versioned_update (l\<lparr>sl_tenantId := ao_tenantId opts\<rparr>) (\<lambda>r. r\<lparr>sl_stack := ?rest\<rparr>) db = Some db1"
    unfolding same db1_def by (rule versioned_update_quiet [OF status_invD(1) [OF assms(1)] l(2)])
  have new: "mapping_key (new_mapping ?uri opts (sl_id l) ?i) = (ao_tenantId opts, sl_id l, ?i)"
    by (simp add: mapping_key_def new_mapping_def)
  have maps: "db_mappings db1 = db_mappings db" by (simp add: db1_def)
  have "(ao_tenantId opts, sl_id l, ?i) \<notin> mapping_key ` set (db_mappings db)"
    using unused by (metis imageE)
  then have "allocateEntriesTransaction env quiet opts db =
      (Inr (Some [\<lparr>ae_statusListId = sl_id l, ae_index = ?i, ae_uri = ?uri\<rparr>]),
       db1\<lparr>db_mappings := db_mappings db @ [new_mapping ?uri opts (sl_id l) ?i]\<rparr>)"
    by (simp add: allocateEntriesTransaction_def l(1) quiet_simp allocateFromList_def pop cas new maps Let_def)
  moreover have "?i \<notin> set (sl_stack r)" if "r \<in> set (db_lists db1)" "list_key r = list_key l" for r
  proof -
    have "?i \<notin> set ?rest"
      using row l(4) unfolding row_ok_def by (metis append_butlast_last_id distinct_append disjoint_iff list.set_intros(1))
    with that show ?thesis by (auto simp: db1_def split: if_splits)
  qed
  moreover have "?i < length (sl_elements l)" using row free by (simp add: row_ok_def)
  ultimately show ?thesis using l(2,3) unused
    by (intro exI [of _ l] exI [of _ ?i] exI [of _ "db1\<lparr>db_mappings := db_mappings db
      @ [new_mapping ?uri opts (sl_id l) ?i]\<rparr>"]) simp
qed

theorem reported_free_entry_allocated_witness:
  "\<exists>(l :: status_list) i db'. allocateEntriesTransaction senv1 quiet sopts1 sdb2 =
     (Inr (Some [\<lparr>ae_statusListId = sl_id l, ae_index = i,
        ae_uri = buildStatusListUri ''https://x'' ''acme'' (sl_id l)\<rparr>]), db') \<and> i < length (sl_elements l)"
proof -
  have free: "hasStillFreeEntries (ao_tenantId sopts1) (Some (ao_credentialConfigurationId sopts1)) sdb2" by code_simp
  have fields: "ao_count sopts1 = 1" "en_publicUrl senv1 = ''https://x''" "ao_tenantId sopts1 = ''acme''"
    by (simp_all add: sopts1_def senv1_def)
  from reported_free_entry_allocated [OF sdb2_inv free fields(1), where env = senv1] show ?thesis
    unfolding fields(2,3) by blast
qed


section \<open>Reading the status back\<close>

lemma status_at_Some:
  "status_at db t i n = Some v \<longleftrightarrow> (\<exists>l. find_list t i db = Some l \<and> element_at (sl_elements l) n = v)"
  by (auto simp: status_at_def)

text \<open>What a successful undisturbed update of a whole session wrote is what the status query reports:
  one line per entry of the session, each with the new status; the entries themselves are unchanged.\<close>

theorem updated_status_reported:
  assumes "status_inv (db, S)" "getEffectiveConfig env t = Inr cfg" "\<not> ef_immediateUpdate cfg"
    and "u = \<lparr>up_sessionId = sid, up_credentialConfigurationId = None, up_status = v\<rparr>"
    and "updateStatus env clock (\<lambda>_ _ _. quiet) u t db = (Inr (), db')"
    and "\<And>xs. mset (order_entries xs) = mset xs"
    and "entries = order_entries (filter (\<lambda>m. sm_tenantId m = t \<and> sm_sessionId m = sid) (db_mappings db))"
  shows "entries \<noteq> [] \<and> map (\<lambda>c. (cs_credentialConfigurationId c, cs_statusListId c, cs_index c, cs_status c))
      (getSessionStatus order_entries t sid db')
    = map (\<lambda>m. (sm_credentialConfigurationId m, sm_statusListId m, sm_index m, v)) entries"
proof -
  let ?es = "filter (\<lambda>m. sm_tenantId m = t \<and> sm_sessionId m = sid) (db_mappings db)"
  have u: "up_sessionId u = sid" "up_credentialConfigurationId u = None" "up_status u = v" by (simp_all add: assms(4))
  have sess: "session_entries t u db = ?es" by (simp add: session_entries_def sql_find_def u)
  have some: "?es \<noteq> []" using assms(5) by (auto simp: updateStatus_def sess Let_def)
  then have "setEntries env clock (\<lambda>_ _ _. quiet) t (entry_refs ?es) v db = (Inr (), db')"
    using assms(5) by (simp add: updateStatus_def sess u Let_def)
  with setEntries_quiet [OF assms(2,3) status_invD(1) [OF assms(1)] session_entries_known [OF assms(1), where u = u],
      where v = v and clock = clock, unfolded sess]
  have kept: "db_mappings db' = db_mappings db" and new: "\<And>i n. (i, n) \<in> set (entry_refs ?es) \<Longrightarrow> status_at db' t i n = Some v"
    by (auto split: if_splits)
  have same: "set entries = set ?es" using mset_eq_setD [OF assms(6) [of ?es]] by (simp add: assms(7))
  have line: "map (\<lambda>c. (cs_credentialConfigurationId c, cs_statusListId c, cs_index c, cs_status c))
      (case find_list t (sm_statusListId m) db' of None \<Rightarrow> []
       | Some l \<Rightarrow> [\<lparr>cs_credentialConfigurationId = sm_credentialConfigurationId m,
             cs_statusListId = sm_statusListId m, cs_index = sm_index m,
             cs_status = element_at (sl_elements l) (sm_index m), cs_bits = sl_bits l\<rparr>])
    = [(sm_credentialConfigurationId m, sm_statusListId m, sm_index m, v)]" if "m \<in> set entries" for m
  proof -
    have "(sm_statusListId m, sm_index m) \<in> set (entry_refs ?es)" using that same by (auto simp: entry_refs_def)
    from new [OF this] show ?thesis by (auto simp: status_at_Some)
  qed
  have "map g (concat (map f ms)) = map h ms" if "\<And>m. m \<in> set ms \<Longrightarrow> map g (f m) = [h m]"
    for g :: "credential_status \<Rightarrow> 'b" and f and h and ms :: "status_mapping list"
    using that by (induction ms) auto
  note this [of entries, OF line]
  moreover have "entries \<noteq> []" using some same by auto
  ultimately show ?thesis by (simp add: getSessionStatus_def sql_find_def kept assms(7) [symmetric] Let_def)
qed

theorem updated_status_reported_witness:
  "\<exists>db'. updateStatus senv1 (\<lambda>_. 0) (\<lambda>_ _ _. quiet) supdate1 ''acme'' sdb2 = (Inr (), db')
     \<and> map (\<lambda>c. (cs_credentialConfigurationId c, cs_statusListId c, cs_index c, cs_status c))
         (getSessionStatus (\<lambda>ms. ms) ''acme'' ''s1'' db') = [(''pid'', ''l1'', 0, 1)]"
proof -
  have quiet: "updateStatus senv1 (\<lambda>_. 0) (\<lambda>_ _ _. quiet) supdate1 ''acme'' sdb2 = (Inr (), sdb2\<lparr>db_lists := [slist3]\<rparr>)"
    by code_simp
  have rows: "[smapping1] = filter (\<lambda>m. sm_tenantId m = ''acme'' \<and> sm_sessionId m = ''s1'') (db_mappings sdb2)"
    by code_simp
  have fields: "sm_credentialConfigurationId smapping1 = ''pid''" "sm_statusListId smapping1 = ''l1''" "sm_index smapping1 = 0"
    by code_simp+
  have late: "\<not> ef_immediateUpdate \<lparr>ef_capacity = 2, ef_bits = 2, ef_ttl = 60, ef_immediateUpdate = False,
      ef_enableAggregation = True\<rparr>" by simp
  note res = updated_status_reported [where order_entries = "\<lambda>ms. ms", OF sdb2_inv senv1_config late supdate1_def quiet
        refl rows, THEN conjunct2]
  have line: "map (\<lambda>m. (sm_credentialConfigurationId m, sm_statusListId m, sm_index m, 1)) [smapping1] =
      [(''pid'', ''l1'', 0, 1)]" unfolding list.map fields by (rule refl)
  show ?thesis by (intro exI conjI) (rule quiet, rule trans [OF res line])
qed


section \<open>One active credential per subject\<close>

text \<open>An entry of the issuance set that the slot named before.\<close>

definition displaced_entry :: "slot_params \<Rightarrow> status_db \<Rightarrow> string \<Rightarrow> string \<Rightarrow> nat \<Rightarrow> bool" where
  "displaced_entry p db t i n \<longleftrightarrow> (case sql_find_one (slot_where p) (db_slots db) of
       None \<Rightarrow> False
     | Some s \<Rightarrow> as_issuanceSetId s \<noteq> Some (sp_issuanceSetId p) \<and> truthy (as_issuanceSetId s)
         \<and> t = sp_tenantId p
         \<and> (i, n) \<in> set (entry_refs (issuance_set t (sp_credentialConfigurationId p)
              (the (as_issuanceSetId s)) db)))"

lemma issuance_set_known:
  assumes "status_inv (db, S)"
  shows "\<forall>(i, n) \<in> set (entry_refs (issuance_set t c x db)). find_list t i db \<noteq> None"
proof -
  have "find_list t (sm_statusListId m) db \<noteq> None" if m: "m \<in> set (db_mappings db)" "sm_tenantId m = t" for m
  proof -
    obtain r where "r \<in> set (db_lists db)" "list_key r = (sm_tenantId m, sm_statusListId m)"
      using status_invD(3) [OF assms m(1)] unfolding mapping_ok_def by blast
    with m(2) show ?thesis by (auto simp: find_list_def sql_find_one_None list_key_def)
  qed
  then show ?thesis by (auto simp: entry_refs_def issuance_set_def sql_find_def)
qed

text \<open>Every entry may be revoked.\<close>

lemma revocable:
  assumes "\<forall>r \<in> set (db_lists db). 1 \<le> sl_bits r" "find_list t (fst e) db \<noteq> None"
  shows "writable t STATUS_REVOKED db e"
proof -
  obtain l where l: "find_list t (fst e) db = Some l" using assms(2) by blast
  then have "1 \<le> sl_bits l" using assms(1) find_list_Some [OF l] by blast
  then have "(1::int) < 2 ^ sl_bits l" by (simp add: one_less_power)
  with l show ?thesis by (simp add: writable_def fits_iff STATUS_REVOKED_def)
qed

lemma slot_insert_quiet:
  assumes "sql_find_one (slot_where p) (db_slots db) = None"
  shows "insert_slot p db = Some (db\<lparr>db_slots := db_slots db @ [\<lparr>as_tenantId = sp_tenantId p,
    as_credentialConfigurationId = sp_credentialConfigurationId p, as_subjectScopedKey = sp_subjectScopedKey p,
    as_issuanceSetId = Some (sp_issuanceSetId p), as_version = 1\<rparr>]\<rparr>)"
  using assms by (auto simp: insert_slot_def sql_insert_def sql_find_one_None slot_key_def slot_where_def)

lemma slot_update_quiet:
  assumes "sql_find_one (slot_where p) (db_slots db) = Some s"
  shows "fst (update_slot s x db)"
    and "sql_find_one (slot_where p) (db_slots (snd (update_slot s x db))) =
      Some (s\<lparr>as_issuanceSetId := Some x, as_version := as_version s + 1\<rparr>)"
proof -
  have s: "s \<in> set (db_slots db)" "slot_where p s" using sql_find_one_Some [OF assms] by auto
  show "fst (update_slot s x db)" using s by (auto simp: update_slot_def sql_update_def filter_empty_conv)
  let ?P = "\<lambda>r. slot_key r = slot_key s \<and> as_version r = as_version s"
  let ?f = "\<lambda>r. if ?P r then r\<lparr>as_issuanceSetId := Some x, as_version := as_version r + 1\<rparr> else r"
  have "slot_where p (?f r) = slot_where p r" for r by (simp add: slot_where_def)
  then have "sql_find_one (slot_where p) (map ?f rows) = map_option ?f (sql_find_one (slot_where p) rows)" for rows
    unfolding sql_find_one_def by (rule find_map_same)
  note find = this
  have rows: "db_slots (snd (update_slot s x db)) = map ?f (db_slots db)"
    by (simp add: update_slot_def sql_update_def)
  show "sql_find_one (slot_where p) (db_slots (snd (update_slot s x db))) =
      Some (s\<lparr>as_issuanceSetId := Some x, as_version := as_version s + 1\<rparr>)"
    unfolding rows find assms by simp
qed

lemma update_slot_frame [simp]:
  "db_lists (snd (update_slot s x db)) = db_lists db" "db_mappings (snd (update_slot s x db)) = db_mappings db"
  by (simp_all add: update_slot_def Let_def split_beta)

text \<open>The slot moves at the first attempt, and reports the set it named before.\<close>

lemma replace_slot_quiet:
  "\<exists>db1. replace_slot (\<lambda>_. quiet) p maxRetries 0 db =
      (case sql_find_one (slot_where p) (db_slots db) of
         Some s \<Rightarrow> (if as_issuanceSetId s = Some (sp_issuanceSetId p) then None else as_issuanceSetId s)
       | None \<Rightarrow> None, db1)
    \<and> db_lists db1 = db_lists db \<and> db_mappings db1 = db_mappings db
    \<and> (\<exists>s. sql_find_one (slot_where p) (db_slots db1) = Some s \<and> as_issuanceSetId s = Some (sp_issuanceSetId p))"
proof (cases "sql_find_one (slot_where p) (db_slots db)")
  case None
  then show ?thesis
    unfolding maxRetries_def numeral_3_eq_3
    by (simp add: quiet_simp slot_insert_quiet Let_def sql_find_one_append)
      (simp add: sql_find_one_def slot_where_def)
next
  case (Some s)
  show ?thesis
  proof (cases "as_issuanceSetId s = Some (sp_issuanceSetId p)")
    case True
    with Some show ?thesis
      unfolding maxRetries_def numeral_3_eq_3 by (simp add: quiet_simp Let_def)
  next
    case False
    obtain db1 where u: "update_slot s (sp_issuanceSetId p) db = (True, db1)"
      using slot_update_quiet(1) [OF Some] by (metis prod.collapse)
    have "replace_slot (\<lambda>_. quiet) p maxRetries 0 db = (as_issuanceSetId s, db1)"
      unfolding maxRetries_def numeral_3_eq_3 using Some False u by (simp add: quiet_simp Let_def)
    with False Some slot_update_quiet(2) [OF Some, of "sp_issuanceSetId p"]
      update_slot_frame [of s "sp_issuanceSetId p" db] show ?thesis by (simp add: u)
  qed
qed

text \<open>Undisturbed, issuing to a subject leaves one active credential set: the slot of the subject
  names the new set, every entry of the set it named before is revoked, and no other entry changes.\<close>

theorem replaceActiveIssuance_result:
  assumes "status_inv (db, S)" "\<forall>r \<in> set (db_lists db). 1 \<le> sl_bits r"
    and "getEffectiveConfig env (sp_tenantId p) = Inr cfg" "\<not> ef_immediateUpdate cfg"
  shows "\<exists>db'. replaceActiveIssuance env clock (\<lambda>_. quiet) (\<lambda>_ _ _. quiet) p db = (Inr (), db')
    \<and> (\<exists>s. sql_find_one (slot_where p) (db_slots db') = Some s \<and> as_issuanceSetId s = Some (sp_issuanceSetId p))
    \<and> (\<forall>t i n. status_at db' t i n =
          (if displaced_entry p db t i n then Some STATUS_REVOKED else status_at db t i n))"
proof -
  define prev where "prev = (case sql_find_one (slot_where p) (db_slots db) of
      Some s \<Rightarrow> (if as_issuanceSetId s = Some (sp_issuanceSetId p) then None else as_issuanceSetId s) | None \<Rightarrow> None)"
  obtain db1 where db1: "replace_slot (\<lambda>_. quiet) p maxRetries 0 db = (prev, db1)"
    "db_lists db1 = db_lists db" "db_mappings db1 = db_mappings db"
    "\<exists>s. sql_find_one (slot_where p) (db_slots db1) = Some s \<and> as_issuanceSetId s = Some (sp_issuanceSetId p)"
    using replace_slot_quiet unfolding prev_def by blast
  have inv: "status_inv (db1, S)" using assms(1) by (simp add: status_inv_def db1(2,3))
  have same: "find_list t i db1 = find_list t i db" "status_at db1 t i n = status_at db t i n"
    "issuance_set t c x db1 = issuance_set t c x db" for t i n c x
    by (simp_all add: find_list_def status_at_def issuance_set_def db1(2,3))
  show ?thesis
  proof (cases "truthy prev")
    case False
    then have "\<not> displaced_entry p db t i n" for t i n
      by (auto simp: displaced_entry_def prev_def split: option.splits if_splits)
    with False db1(1,4) show ?thesis by (auto simp: replaceActiveIssuance_def same)
  next
    case True
    let ?es = "entry_refs (issuance_set (sp_tenantId p) (sp_credentialConfigurationId p) (the prev) db)"
    have disp: "displaced_entry p db t i n \<longleftrightarrow> t = sp_tenantId p \<and> (i, n) \<in> set ?es" for t i n
      using True by (auto simp: displaced_entry_def prev_def split: option.splits if_splits)
    have known: "\<forall>(i, n) \<in> set ?es. find_list (sp_tenantId p) i db1 \<noteq> None"
      using issuance_set_known [OF assms(1)] unfolding same by blast
    have bits: "\<forall>r \<in> set (db_lists db1). 1 \<le> sl_bits r" using assms(2) by (simp only: db1(2))
    have "\<forall>e \<in> set ?es. writable (sp_tenantId p) STATUS_REVOKED db1 e"
      using known by (intro ballI revocable [OF bits]) auto
    with setEntries_quiet [OF assms(3,4) status_invD(1) [OF inv] known, where v = STATUS_REVOKED and clock = clock]
    obtain db2 where "setEntries env clock (\<lambda>_ _ _. quiet) (sp_tenantId p) ?es STATUS_REVOKED db1 = (Inr (), db2)"
      "db_slots db2 = db_slots db1"
      "\<forall>t' i n. status_at db2 t' i n = (if t' = sp_tenantId p \<and> (i, n) \<in> set ?es then Some STATUS_REVOKED
         else status_at db1 t' i n)" by auto
    with True db1(1,4) show ?thesis
      by (auto simp: replaceActiveIssuance_def revokeIssuanceSet_def same disp)
  qed
qed

definition sslot1 :: active_slot where
  "sslot1 = \<lparr>as_tenantId = ''acme'', as_credentialConfigurationId = ''pid'', as_subjectScopedKey = ''k'',
     as_issuanceSetId = Some ''set1'', as_version = 1\<rparr>"

definition sdb5 :: status_db where
  "sdb5 = sdb2\<lparr>db_slots := [sslot1]\<rparr>"

definition sparams1 :: slot_params where
  "sparams1 = \<lparr>sp_tenantId = ''acme'', sp_credentialConfigurationId = ''pid'', sp_subjectScopedKey = ''k'',
     sp_issuanceSetId = ''set2''\<rparr>"

theorem replaceActiveIssuance_result_witness:
  "\<exists>db'. replaceActiveIssuance senv1 (\<lambda>_. 0) (\<lambda>_. quiet) (\<lambda>_ _ _. quiet) sparams1 sdb5 = (Inr (), db')
     \<and> status_at db' ''acme'' ''l1'' 0 = Some 1 \<and> status_at db' ''acme'' ''l1'' 1 = Some 0"
proof -
  have inv: "status_inv (sdb5, {slist1})" using sdb2_inv by (simp add: status_inv_def sdb5_def)
  have bits: "\<forall>r \<in> set (db_lists sdb5). 1 \<le> sl_bits r" by (simp add: sdb5_def world)
  have t: "sp_tenantId sparams1 = ''acme''" by (simp add: sparams1_def)
  have entry: "displaced_entry sparams1 sdb5 ''acme'' ''l1'' 0" "\<not> displaced_entry sparams1 sdb5 ''acme'' ''l1'' 1"
    by code_simp+
  have old: "status_at sdb5 ''acme'' ''l1'' 1 = Some 0" by code_simp
  from replaceActiveIssuance_result [where p = sparams1 and clock = "\<lambda>_. 0", OF inv bits senv1_config [folded t]]
  obtain db' where res: "replaceActiveIssuance senv1 (\<lambda>_. 0) (\<lambda>_. quiet) (\<lambda>_ _ _. quiet) sparams1 sdb5 = (Inr (), db')"
    "\<forall>t i n. status_at db' t i n =
       (if displaced_entry sparams1 sdb5 t i n then Some STATUS_REVOKED else status_at sdb5 t i n)" by auto
  from res(2) entry(1) have "status_at db' ''acme'' ''l1'' 0 = Some 1" by (simp only: if_True STATUS_REVOKED_def)
  moreover from res(2) entry(2) have "status_at db' ''acme'' ''l1'' 1 = Some 0" by (simp only: if_False old)
  ultimately show ?thesis using res(1) by blast
qed

end
