(* ===== verification/Status_Slots.thy ===== *)
theory Status_Slots
  imports Status_Outcomes
begin

text \<open>
  The slot of a subject under concurrency (\<open>replaceActiveIssuance\<close> and \<open>ActiveCredentialSlot\<close>):
  requests read the slot, insert it when it is missing, and replace its issuance set by a
  compare-and-set on the version. A run records every success together with the set it displaced.
  The last section holds interleavings in which a handler of the status service does not do what its
  documentation says.
\<close>

section \<open>Runs on the slots\<close>

type_synonym slot_log = "((string \<times> string \<times> string) \<times> string \<times> string option) list"

type_synonym slot_state = "active_slot list \<times> active_slot set \<times> slot_log"

definition params_key :: "slot_params \<Rightarrow> string \<times> string \<times> string" where
  "params_key p = (sp_tenantId p, sp_credentialConfigurationId p, sp_subjectScopedKey p)"

text \<open>The state: the slots, the snapshots that requests hold, and the successes (slot, new set,
  displaced set) in their order.\<close>

inductive slot_step :: "slot_state \<Rightarrow> slot_state \<Rightarrow> bool" where
  read: "s \<in> set (db_slots (db :: status_db)) \<Longrightarrow> slot_step (db_slots db, S, lg) (db_slots db, insert s S, lg)"
| insert: "insert_slot p db = Some db' \<Longrightarrow>
    slot_step (db_slots db, S, lg) (db_slots db', S, lg @ [(params_key p, sp_issuanceSetId p, None)])"
| update: "s \<in> S \<Longrightarrow> update_slot s x db = (True, db') \<Longrightarrow>
    slot_step (db_slots db, S, lg) (db_slots db', S, lg @ [(slot_key s, x, as_issuanceSetId s)])"

inductive slot_reach :: "slot_state \<Rightarrow> slot_state \<Rightarrow> bool" where
  start: "slot_reach c c"
| step: "slot_reach a b \<Longrightarrow> slot_step b c \<Longrightarrow> slot_reach a c"

text \<open>The successes on one slot.\<close>

definition successes :: "string \<times> string \<times> string \<Rightarrow> slot_log \<Rightarrow> (string \<times> string option) list" where
  "successes k lg = map snd (filter (\<lambda>e. fst e = k) lg)"

lemma successes_append [simp]: "successes k (lg @ [e]) = successes k lg @ (if fst e = k then [snd e] else [])"
  by (simp add: successes_def)

text \<open>A slot names the set of its last success, and its version counts its successes; a snapshot with
  the version of the slot is the slot.\<close>

definition slot_inv :: "slot_state \<Rightarrow> bool" where
  "slot_inv c \<longleftrightarrow> (case c of (slots, S, lg) \<Rightarrow>
     distinct (map slot_key slots)
     \<and> (\<forall>s \<in> set slots. as_version s = length (successes (slot_key s) lg) \<and> successes (slot_key s) lg \<noteq> []
          \<and> as_issuanceSetId s = Some (fst (last (successes (slot_key s) lg))))
     \<and> (\<forall>k. k \<notin> slot_key ` set slots \<longrightarrow> successes k lg = [])
     \<and> (\<forall>s \<in> S. \<forall>r \<in> set slots. slot_key r = slot_key s \<longrightarrow> as_version s \<le> as_version r
          \<and> (as_version s = as_version r \<longrightarrow> s = r))
     \<and> S \<subseteq> {s. slot_key s \<in> slot_key ` set slots})"

text \<open>The displaced sets are the sets named before, in the order of the successes.\<close>

definition chained :: "(string \<times> string option) list \<Rightarrow> bool" where
  "chained es \<longleftrightarrow> map snd es = (if es = [] then [] else None # map (\<lambda>e. Some (fst e)) (butlast es))"

lemma chained_snoc: "es \<noteq> [] \<Longrightarrow> chained es \<Longrightarrow> d = Some (fst (last es)) \<Longrightarrow> chained (es @ [(x, d)])"
proof -
  assume h: "es \<noteq> []" "chained es" "d = Some (fst (last es))"
  then have "map (\<lambda>e. Some (fst e)) es = map (\<lambda>e. Some (fst e)) (butlast es) @ [d]"
    by (metis (no_types, lifting) append_butlast_last_id list.simps(8,9) map_append)
  with h show ?thesis by (simp add: chained_def)
qed

lemma slot_invD:
  assumes "slot_inv (slots, S, lg)"
  shows "distinct (map slot_key slots)"
    and "s \<in> set slots \<Longrightarrow> as_version s = length (successes (slot_key s) lg) \<and> successes (slot_key s) lg \<noteq> []
          \<and> as_issuanceSetId s = Some (fst (last (successes (slot_key s) lg)))"
    and "k \<notin> slot_key ` set slots \<Longrightarrow> successes k lg = []"
    and "s \<in> S \<Longrightarrow> r \<in> set slots \<Longrightarrow> slot_key r = slot_key s \<Longrightarrow> as_version s \<le> as_version r
          \<and> (as_version s = as_version r \<longrightarrow> s = r)"
    and "s \<in> S \<Longrightarrow> slot_key s \<in> slot_key ` set slots"
  using assms unfolding slot_inv_def prod.case by blast+

text \<open>What a successful update does: it found the snapshot, and it alone changed.\<close>

lemma update_slot_hits:
  assumes "slot_inv (db_slots db, S, lg)" "s \<in> S" "update_slot s x db = (True, db')"
  shows "s \<in> set (db_slots db)"
    and "db_slots db' = map (\<lambda>r. if slot_key r = slot_key s
      then s\<lparr>as_issuanceSetId := Some x, as_version := as_version s + 1\<rparr> else r) (db_slots db)"
proof -
  let ?P = "\<lambda>r. slot_key r = slot_key s \<and> as_version r = as_version s"
  let ?new = "s\<lparr>as_issuanceSetId := Some x, as_version := as_version s + 1\<rparr>"
  have rows: "db_slots db' = map (\<lambda>r. if ?P r then r\<lparr>as_issuanceSetId := Some x, as_version := as_version r + 1\<rparr> else r)
      (db_slots db)" and hit: "\<exists>r \<in> set (db_slots db). ?P r"
    using assms(3) by (auto simp: update_slot_def sql_update_def filter_empty_conv)
  from hit obtain r where r: "r \<in> set (db_slots db)" "?P r" by blast
  with slot_invD(4) [OF assms(1,2)] show s: "s \<in> set (db_slots db)" by metis
  have "(if ?P q then q\<lparr>as_issuanceSetId := Some x, as_version := as_version q + 1\<rparr> else q)
      = (if slot_key q = slot_key s then ?new else q)" if q: "q \<in> set (db_slots db)" for q
  proof (cases "slot_key q = slot_key s")
    case True
    then have "q = s" using slot_invD(1) [OF assms(1)] q s unfolding distinct_map by (auto dest: inj_onD)
    then show ?thesis by simp
  next
    case False
    then show ?thesis by simp
  qed
  then show "db_slots db' = map (\<lambda>r. if slot_key r = slot_key s then ?new else r) (db_slots db)"
    unfolding rows by (intro map_cong refl) assumption
qed

lemma slot_key_update [simp]: "slot_key (s\<lparr>as_issuanceSetId := x, as_version := v\<rparr>) = slot_key s"
  by (simp add: slot_key_def)

lemma slot_step_inv: "slot_step c c' \<Longrightarrow> slot_inv c \<Longrightarrow> slot_inv c'"
proof (induction rule: slot_step.induct)
  case (read s db S lg)
  have "s = r" if "r \<in> set (db_slots db)" "slot_key r = slot_key s" for r
    using slot_invD(1) [OF read.prems] read.hyps that unfolding distinct_map by (auto dest: inj_onD)
  with read show ?case by (auto simp: slot_inv_def)
next
  case (insert p db db' S lg)
  obtain n where n: "db_slots db' = db_slots db @ [n]" "slot_key n = params_key p" "as_version n = 1"
      "as_issuanceSetId n = Some (sp_issuanceSetId p)" "slot_key n \<notin> slot_key ` set (db_slots db)"
  proof
    let ?n = "\<lparr>as_tenantId = sp_tenantId p, as_credentialConfigurationId = sp_credentialConfigurationId p,
      as_subjectScopedKey = sp_subjectScopedKey p, as_issuanceSetId = Some (sp_issuanceSetId p), as_version = 1\<rparr>"
    show "db_slots db' = db_slots db @ [?n]" "slot_key ?n \<notin> slot_key ` set (db_slots db)"
      using insert.hyps by (auto simp: insert_slot_def sql_insert_def split: if_splits)
    show "slot_key ?n = params_key p" by (simp add: slot_key_def params_key_def)
  qed simp_all
  note inv = slot_invD [OF insert.prems]
  have none: "successes (slot_key n) lg = []" by (rule inv(3) [OF n(5)])
  have other: "slot_key r \<noteq> slot_key n" if "r \<in> set (db_slots db)" for r using n(5) that by (metis imageI)
  show ?case unfolding slot_inv_def prod.case
  proof (intro conjI ballI allI impI subsetI)
    fix r assume "r \<in> set (db_slots db')"
    then have r: "r = n \<or> r \<in> set (db_slots db)" by (auto simp: n(1))
    show "as_version r = length (successes (slot_key r) (lg @ [(params_key p, sp_issuanceSetId p, None)]))"
      "successes (slot_key r) (lg @ [(params_key p, sp_issuanceSetId p, None)]) \<noteq> []"
      "as_issuanceSetId r = Some (fst (last (successes (slot_key r) (lg @ [(params_key p, sp_issuanceSetId p, None)]))))"
      using r inv(2) [of r] other [of r] none by (auto simp: n(2) [symmetric] n(3,4))
  next
    fix q r assume q: "q \<in> S" "r \<in> set (db_slots db')" "slot_key r = slot_key q"
    then have "r \<in> set (db_slots db)" using inv(5) [OF q(1)] n(5) by (auto simp: n(1))
    with inv(4) [OF q(1) _ q(3)] show "as_version q \<le> as_version r" "as_version q = as_version r \<Longrightarrow> q = r" by auto
  next
    show "distinct (map slot_key (db_slots db'))" using inv(1) n(5) by (simp add: n(1))
  next
    fix k assume "k \<notin> slot_key ` set (db_slots db')"
    then have "k \<notin> slot_key ` set (db_slots db)" "k \<noteq> params_key p" by (auto simp: n(1) n(2) [symmetric])
    with inv(3) show "successes k (lg @ [(params_key p, sp_issuanceSetId p, None)]) = []" by simp
  next
    fix q assume "q \<in> S"
    with inv(5) show "q \<in> {s. slot_key s \<in> slot_key ` set (db_slots db')}" by (simp add: n(1))
  qed
next
  case (update s S x db db' lg)
  let ?n = "s\<lparr>as_issuanceSetId := Some x, as_version := as_version s + 1\<rparr>"
  note hit = update_slot_hits [OF update.prems update.hyps(1,2)]
  note inv = slot_invD [OF update.prems]
  have keys: "map slot_key (db_slots db') = map slot_key (db_slots db)" by (simp add: hit(2))
  then have keys': "slot_key ` set (db_slots db') = slot_key ` set (db_slots db)" by (metis list.set_map)
  have rows: "r \<in> set (db_slots db') \<Longrightarrow> (r = ?n \<or> (r \<in> set (db_slots db) \<and> slot_key r \<noteq> slot_key s))" for r
    by (auto simp: hit(2))
  show ?case unfolding slot_inv_def prod.case keys keys'
  proof (intro conjI ballI allI impI subsetI)
    fix r assume r: "r \<in> set (db_slots db')"
    show "as_version r = length (successes (slot_key r) (lg @ [(slot_key s, x, as_issuanceSetId s)]))"
      "successes (slot_key r) (lg @ [(slot_key s, x, as_issuanceSetId s)]) \<noteq> []"
      "as_issuanceSetId r = Some (fst (last (successes (slot_key r) (lg @ [(slot_key s, x, as_issuanceSetId s)]))))"
      using rows [OF r] inv(2) [of r] inv(2) [OF hit(1)] by auto
  next
    fix q r assume q: "q \<in> S" and r: "r \<in> set (db_slots db')" and k: "slot_key r = slot_key q"
    have "as_version q \<le> as_version r \<and> (as_version q = as_version r \<longrightarrow> q = r)"
    proof (cases "slot_key r = slot_key s")
      case True
      then have "r = ?n" using rows [OF r] by auto
      moreover have "as_version q \<le> as_version s" using inv(4) [OF q hit(1)] k True by simp
      ultimately show ?thesis by simp
    next
      case False
      then have "r \<in> set (db_slots db)" using rows [OF r] by auto
      with inv(4) [OF q _ k] show ?thesis by blast
    qed
    then show "as_version q \<le> as_version r" "as_version q = as_version r \<Longrightarrow> q = r" by auto
  qed (use inv hit(1) in \<open>auto simp: image_iff\<close>)
qed

lemma slot_reach_inv: "slot_reach c c' \<Longrightarrow> slot_inv c \<Longrightarrow> slot_inv c'"
  by (induction rule: slot_reach.induct) (auto intro: slot_step_inv)

lemma slot_step_chained:
  assumes "slot_step c c'" "slot_inv c" "chained (successes k (snd (snd c)))"
  shows "chained (successes k (snd (snd c')))"
  using assms
proof (induction rule: slot_step.induct)
  case (insert p db db' S lg)
  then have "params_key p \<notin> slot_key ` set (db_slots db)"
    by (auto simp: insert_slot_def sql_insert_def slot_key_def params_key_def split: if_splits)
  with slot_invD(3) [OF insert.prems(1)] have "successes (params_key p) lg = []" by blast
  with insert.prems(2) show ?case by (auto simp: chained_def)
next
  case (update s S x db db' lg)
  note hit = update_slot_hits(1) [OF update.prems(1) update.hyps]
  from slot_invD(2) [OF update.prems(1) hit] have last: "successes (slot_key s) lg \<noteq> []"
    "as_issuanceSetId s = Some (fst (last (successes (slot_key s) lg)))" by auto
  show ?case
  proof (cases "slot_key s = k")
    case True
    have "chained (successes k lg @ [(x, as_issuanceSetId s)])"
      by (rule chained_snoc) (use True last update.prems(2) in auto)
    with True show ?thesis by simp
  qed (use update.prems(2) in simp)
qed simp

lemma slot_reach_chained:
  "slot_reach c c' \<Longrightarrow> slot_inv c \<Longrightarrow> chained (successes k (snd (snd c))) \<Longrightarrow> chained (successes k (snd (snd c')))"
proof (induction rule: slot_reach.induct)
  case (step a b c)
  have "slot_inv b" by (rule slot_reach_inv [OF step.hyps(1) step.prems(1)])
  then show ?case by (rule slot_step_chained [OF step.hyps(2) _ step.IH [OF step.prems]])
qed


definition slogged1 :: slot_log where
  "slogged1 = [((''acme'', ''pid'', ''k''), ''set1'', None), ((''acme'', ''pid'', ''k''), ''set2'', Some ''set1'')]"

definition sslot2 :: active_slot where
  "sslot2 = sslot1\<lparr>as_issuanceSetId := Some ''set2'', as_version := 2\<rparr>"

lemma slot_run1: "slot_reach ([], {}, []) ([sslot2], {sslot1}, slogged1)"
proof -
  let ?p = "sparams1\<lparr>sp_issuanceSetId := ''set1''\<rparr>"
  have ins: "insert_slot ?p (sdb2\<lparr>db_slots := []\<rparr>) = Some (sdb2\<lparr>db_slots := [sslot1]\<rparr>)"
    "update_slot sslot1 ''set2'' (sdb2\<lparr>db_slots := [sslot1]\<rparr>) = (True, sdb2\<lparr>db_slots := [sslot2]\<rparr>)"
    by code_simp+
  have keys: "params_key ?p = (''acme'', ''pid'', ''k'')" "slot_key sslot1 = (''acme'', ''pid'', ''k'')"
    "as_issuanceSetId sslot1 = Some ''set1''" "sp_issuanceSetId ?p = ''set1''"
    by (simp_all add: params_key_def slot_key_def sparams1_def sslot1_def)
  have "slot_reach ([], {}, []) ([sslot1], {}, [((''acme'', ''pid'', ''k''), ''set1'', None)])"
    using slot_reach.step [OF slot_reach.start slot_step.insert [OF ins(1)], of "{}" "[]"] by (simp add: keys)
  then have "slot_reach ([], {}, []) ([sslot1], {sslot1}, [((''acme'', ''pid'', ''k''), ''set1'', None)])"
    by (rule slot_reach.step) (use slot_step.read [of sslot1 "sdb2\<lparr>db_slots := [sslot1]\<rparr>"] in simp)
  then show ?thesis
    by (rule slot_reach.step) (use slot_step.update [OF _ ins(2), of "{sslot1}" "[((''acme'', ''pid'', ''k''), ''set1'', None)]"] in \<open>simp add: keys slogged1_def\<close>)
qed


text \<open>What other requests do to the slots while a request waits is a run.\<close>

definition slot_interference :: "(status_db \<Rightarrow> status_db) \<Rightarrow> bool" where
  "slot_interference g \<longleftrightarrow> (\<forall>db S lg. \<exists>S' lg'. slot_reach (db_slots db, S, lg) (db_slots (g db), S', lg'))"

lemma slot_reach_trans: "slot_reach b c \<Longrightarrow> slot_reach a b \<Longrightarrow> slot_reach a c"
  by (induction rule: slot_reach.induct) (auto intro: slot_reach.intros)

lemma slot_step_mono: "slot_step c c' \<Longrightarrow> fst (snd c) \<subseteq> fst (snd c') \<and> set (snd (snd c)) \<subseteq> set (snd (snd c'))"
  by (induction rule: slot_step.induct) auto

lemma slot_reach_mono: "slot_reach c c' \<Longrightarrow> fst (snd c) \<subseteq> fst (snd c') \<and> set (snd (snd c)) \<subseteq> set (snd (snd c'))"
  by (induction rule: slot_reach.induct) (auto dest!: slot_step_mono)

lemma slot_interferenceE:
  assumes "slot_interference g" "slot_reach c (db_slots db, S, lg)"
  obtains S' lg' where "slot_reach c (db_slots (g db), S', lg')" "S \<subseteq> S'"
proof -
  obtain S' lg' where r: "slot_reach (db_slots db, S, lg) (db_slots (g db), S', lg')"
    using assms(1) unfolding slot_interference_def by blast
  show thesis by (rule that [OF slot_reach_trans [OF r assms(2)]]) (use slot_reach_mono [OF r] in simp)
qed

lemma lost_update_slot: "update_slot s x db = (ok, db') \<Longrightarrow> \<not> ok \<Longrightarrow> db_slots db' = db_slots db"
  by (auto simp: update_slot_def split_beta Let_def sql_update_not_affected)

text \<open>The replacement loop of a request is a run on the slots under every interference of other
  requests, and the set it hands to the revocation is one that its own success displaced.\<close>

theorem replace_slot_refines_run:
  assumes "\<And>j. slot_interference (gap j)" "slot_reach c (db_slots db, S, lg)"
    and "replace_slot gap p fuel k db = (previous, db')"
  shows "\<exists>S' lg'. slot_reach c (db_slots db', S', lg')
    \<and> (previous \<noteq> None \<longrightarrow> (params_key p, sp_issuanceSetId p, previous) \<in> set lg')"
  using assms(2,3)
proof (induction fuel arbitrary: k db S lg)
  case 0
  then show ?case by auto
next
  case (Suc fuel)
  let ?db1 = "gap (2 * k) db"
  let ?db2 = "gap (2 * k + 1) ?db1"
  obtain S1 lg1 where g1: "slot_reach c (db_slots ?db1, S1, lg1)"
    by (rule slot_interferenceE [OF assms(1) Suc.prems(1)])
  show ?case
  proof (cases "sql_find_one (slot_where p) (db_slots ?db1)")
    case None
    obtain S2 lg2 where g2: "slot_reach c (db_slots ?db2, S2, lg2)"
      by (rule slot_interferenceE [OF assms(1) g1])
    show ?thesis
    proof (cases "insert_slot p ?db2")
      case no: None
      with Suc.prems(2) None have "replace_slot gap p fuel (k + 1) ?db2 = (previous, db')" by (simp add: Let_def)
      then show ?thesis by (rule Suc.IH [OF g2])
    next
      case (Some db3)
      with Suc.prems(2) None have "previous = None" "db' = db3" by (auto simp: Let_def)
      with slot_reach.step [OF g2 slot_step.insert [OF Some]] show ?thesis by blast
    qed
  next
    case (Some s)
    have "s \<in> set (db_slots ?db1)" "slot_where p s" using sql_find_one_Some [OF Some] by auto
    then have key: "slot_key s = params_key p" by (simp add: slot_key_def params_key_def slot_where_def)
    have g1s: "slot_reach c (db_slots ?db1, insert s S1, lg1)"
      by (rule slot_reach.step [OF g1 slot_step.read]) fact
    obtain S2 lg2 where g2: "slot_reach c (db_slots ?db2, S2, lg2)" "insert s S1 \<subseteq> S2"
      by (rule slot_interferenceE [OF assms(1) g1s])
    show ?thesis
    proof (cases "as_issuanceSetId s = Some (sp_issuanceSetId p)")
      case True
      with Suc.prems(2) Some have "previous = None" "db' = ?db1" by (auto simp: Let_def)
      with g1 show ?thesis by blast
    next
      case False
      obtain ok db3 where u: "update_slot s (sp_issuanceSetId p) ?db2 = (ok, db3)" by (cases "update_slot s (sp_issuanceSetId p) ?db2")
      show ?thesis
      proof (cases ok)
        case True
        with Suc.prems(2) Some False u have "previous = as_issuanceSetId s" "db' = db3" by (auto simp: Let_def)
        with slot_reach.step [OF g2(1) slot_step.update [OF _ u [unfolded eqTrueI [OF True]]]] g2(2) key
        show ?thesis by fastforce
      next
        case lost: False
        then have "db_slots db3 = db_slots ?db2"
          using lost_update_slot [OF u] by simp
        with g2(1) have g3: "slot_reach c (db_slots db3, S2, lg2)" by simp
        from Suc.prems(2) Some False u lost have "replace_slot gap p fuel (k + 1) db3 = (previous, db')"
          by (simp add: Let_def)
        then show ?thesis by (rule Suc.IH [OF g3])
      qed
    qed
  qed
qed

theorem replace_slot_refines_run_witness:
  "\<exists>S' lg'. slot_reach ([sslot1], {}, []) ([sslot2], S', lg')
     \<and> ((''acme'', ''pid'', ''k''), ''set2'', Some ''set1'') \<in> set lg'"
proof -
  have id: "slot_interference (\<lambda>db. db)"
    unfolding slot_interference_def by (blast intro: slot_reach.start)
  have start: "slot_reach ([sslot1], {}, []) (db_slots sdb5, {}, [])"
    by (simp add: sdb5_def slot_reach.start)
  have res: "replace_slot (\<lambda>_ db. db) sparams1 3 0 sdb5 = (Some ''set1'', sdb5\<lparr>db_slots := [sslot2]\<rparr>)"
    by code_simp
  show ?thesis
    using replace_slot_refines_run [OF id start res] by (simp add: params_key_def sparams1_def)
qed


section \<open>Subject keys\<close>

lemma join_bar: "join ''|'' [a, b, c, d] = a @ ''|'' @ b @ ''|'' @ c @ ''|'' @ d"
  by simp

lemma split_at_bar:
  "CHR ''|'' \<notin> set a \<Longrightarrow> CHR ''|'' \<notin> set a' \<Longrightarrow> a @ ''|'' @ x = a' @ ''|'' @ x' \<Longrightarrow> a = a' \<and> x = x'"
proof (induction a arbitrary: a')
  case Nil
  then show ?case by (cases a') auto
next
  case (Cons y ys)
  then show ?case by (cases a') auto
qed

text \<open>Two subjects never share the input of their subject key when tenant, credential configuration
  and issuer contain no separator character; with an injective HMAC they never share the key.\<close>

theorem subject_keys_distinct:
  assumes "\<And>x y. hmac x = hmac y \<Longrightarrow> x = y"
    and "\<forall>w \<in> {s_tenantId s, s_tenantId s', c, c', the (s_externalIssuer s), the (s_externalIssuer s')}. CHR ''|'' \<notin> set w"
    and "resolveSubjectScopedKey hmac s c pol = Some k" "resolveSubjectScopedKey hmac s' c' pol' = Some k"
  shows "s_tenantId s = s_tenantId s' \<and> c = c' \<and> s_externalIssuer s = s_externalIssuer s'
    \<and> s_externalSubject s = s_externalSubject s'"
proof -
  let ?m = "\<lambda>s c. subject_key_message (s_tenantId s) c (the (s_externalIssuer s)) (the (s_externalSubject s))"
  have k: "k = hmac (?m s c)" "k = hmac (?m s' c')" and t: "truthy (s_externalIssuer s)" "truthy (s_externalSubject s)"
    "truthy (s_externalIssuer s')" "truthy (s_externalSubject s')"
    using assms(3,4) by (auto simp: resolveSubjectScopedKey_def split: option.splits if_splits)
  have "?m s c = ?m s' c'" using assms(1) k by metis
  then have "s_tenantId s @ ''|'' @ c @ ''|'' @ the (s_externalIssuer s) @ ''|'' @ the (s_externalSubject s) =
      s_tenantId s' @ ''|'' @ c' @ ''|'' @ the (s_externalIssuer s') @ ''|'' @ the (s_externalSubject s')"
    unfolding subject_key_message_def join_bar .
  then have "s_tenantId s = s_tenantId s' \<and> c = c' \<and> the (s_externalIssuer s) = the (s_externalIssuer s')
      \<and> the (s_externalSubject s) = the (s_externalSubject s')"
    using assms(2) split_at_bar by (metis (no_types, lifting) insertCI)
  moreover have "x = y" if "truthy x" "truthy y" "the x = the y" for x y
    using that by (cases x; cases y) auto
  ultimately show ?thesis using t by blast
qed

definition ssession1 :: session where
  "ssession1 = (blank_session ''s1'' ''acme'' 0)\<lparr>s_externalIssuer := Some ''https://idp'', s_externalSubject := Some ''alice''\<rparr>"

definition spolicy1 :: "entry_policy option" where
  "spolicy1 = Some \<lparr>ep_activeCredentials = Some True, ep_statusManagement = Some True\<rparr>"

theorem subject_keys_distinct_witness:
  "resolveSubjectScopedKey (\<lambda>m. ''h'' @ m) ssession1 ''pid'' spolicy1 \<noteq>
   resolveSubjectScopedKey (\<lambda>m. ''h'' @ m) (ssession1\<lparr>s_externalSubject := Some ''bob''\<rparr>) ''pid'' spolicy1"
proof
  let ?s' = "ssession1\<lparr>s_externalSubject := Some ''bob''\<rparr>"
  assume eq: "resolveSubjectScopedKey (\<lambda>m. ''h'' @ m) ssession1 ''pid'' spolicy1 =
    resolveSubjectScopedKey (\<lambda>m. ''h'' @ m) ?s' ''pid'' spolicy1"
  have some: "resolveSubjectScopedKey (\<lambda>m. ''h'' @ m) ssession1 ''pid'' spolicy1 = Some ''hacme|pid|https://idp|alice''"
    by code_simp
  have "\<forall>w \<in> {s_tenantId ssession1, s_tenantId ?s', ''pid'', ''pid'', the (s_externalIssuer ssession1),
      the (s_externalIssuer ?s')}. CHR ''|'' \<notin> set w" by code_simp
  from subject_keys_distinct [OF _ this some some [unfolded eq]]
  have "s_externalSubject ssession1 = s_externalSubject ?s'" by simp
  then show False by (simp add: ssession1_def)
qed


section \<open>Interleavings that break a promise\<close>

text \<open>Two issuers and subjects with one key: the separator may occur in an issuer.\<close>

lemma subject_keys_collide:
  "subject_key_message ''acme'' ''pid'' ''https://idp|a'' ''b'' = subject_key_message ''acme'' ''pid'' ''https://idp'' ''a|b''"
  by (simp add: subject_key_message_def)

text \<open>\<open>replaceActiveIssuance\<close> gives up silently: when another request moves the slot before each of its
  three attempts, it reports success although the slot names a foreign set and nothing was revoked.\<close>

definition rival :: "status_db \<Rightarrow> status_db" where
  "rival db = db\<lparr>db_slots := map (\<lambda>s. s\<lparr>as_issuanceSetId := Some ''rival'', as_version := as_version s + 1\<rparr>) (db_slots db)\<rparr>"

lemma replacement_gives_up:
  "\<exists>db'. replaceActiveIssuance senv1 (\<lambda>_. 0) (\<lambda>k. if odd k then rival else quiet) (\<lambda>_ _ _. quiet) sparams1 sdb5
      = (Inr (), db')
    \<and> map as_issuanceSetId (db_slots db') = [Some ''rival''] \<and> db_lists db' = db_lists sdb5"
proof -
  let ?r = "replaceActiveIssuance senv1 (\<lambda>_. 0) (\<lambda>k. if odd k then rival else quiet) (\<lambda>_ _ _. quiet) sparams1 sdb5"
  have "fst ?r = Inr () \<and> map as_issuanceSetId (db_slots (snd ?r)) = [Some ''rival''] \<and> db_lists (snd ?r) = db_lists sdb5"
    by code_simp
  then show ?thesis by (metis prod.collapse)
qed

text \<open>A list is deleted although it is in use: an allocation between the count and the deletion loses
  its mapping with the list.\<close>

lemma delete_loses_allocation:
  "fst (deleteList (\<lambda>db. case allocateFromList ''https://x'' slist1 sopts1 db of Inl _ \<Rightarrow> db | Inr (_, db') \<Rightarrow> db')
      ''acme'' ''l1'' sdb1) = Inr ()
   \<and> db_mappings (case allocateFromList ''https://x'' slist1 sopts1 sdb1 of Inl _ \<Rightarrow> sdb1 | Inr (_, db') \<Rightarrow> db') = [smapping1]
   \<and> db_mappings (snd (deleteList (\<lambda>db. case allocateFromList ''https://x'' slist1 sopts1 db of Inl _ \<Rightarrow> db | Inr (_, db') \<Rightarrow> db')
      ''acme'' ''l1'' sdb1)) = []"
  by code_simp

text \<open>A status update is applied in part: the second entry is revoked by another request after the
  first one was written, so the update fails with a conflict and the first entry stays suspended.\<close>

definition revoke_second :: "status_db \<Rightarrow> status_db" where
  "revoke_second db = (case find_list ''acme'' ''l1'' db of None \<Rightarrow> db | Some l \<Rightarrow> write_row ''acme'' l 1 1 db)"

lemma update_applied_in_part:
  "\<exists>e db'. setEntries senv1 (\<lambda>_. 0) (\<lambda>k j m. if (k, j, m) = (0, 0, 0) then revoke_second else quiet) ''acme''
      [(''l1'', 0), (''l1'', 1)] 2 sdb1 = (Inl e, db') \<and> er_class e = Conflict
    \<and> status_at db' ''acme'' ''l1'' 0 = Some 2 \<and> status_at db' ''acme'' ''l1'' 1 = Some 1"
proof -
  let ?r = "setEntries senv1 (\<lambda>_. 0) (\<lambda>k j m. if (k, j, m) = (0, 0, 0) then revoke_second else quiet) ''acme''
      [(''l1'', 0), (''l1'', 1)] 2 sdb1"
  have "case_sum (\<lambda>e. er_class e = Conflict) (\<lambda>_. False) (fst ?r)
      \<and> status_at (snd ?r) ''acme'' ''l1'' 0 = Some 2 \<and> status_at (snd ?r) ''acme'' ''l1'' 1 = Some 1"
    by code_simp
  then show ?thesis by (cases ?r) (auto split: sum.splits)
qed

text \<open>The availability check misses a dedicated list that is not the oldest one, although an allocation
  uses it.\<close>

lemma free_entry_not_reported:
  "\<not> hasStillFreeEntries ''acme'' (Some ''pid'') (sdb1\<lparr>db_lists :=
      [slist1\<lparr>sl_credentialConfigurationId := Some ''pid'', sl_stack := []\<rparr>,
       slist1\<lparr>sl_id := ''l2'', sl_credentialConfigurationId := Some ''pid'', sl_createdAt := 1\<rparr>]\<rparr>)
   \<and> findAvailableListForAllocation sopts1 (sdb1\<lparr>db_lists :=
      [slist1\<lparr>sl_credentialConfigurationId := Some ''pid'', sl_stack := []\<rparr>,
       slist1\<lparr>sl_id := ''l2'', sl_credentialConfigurationId := Some ''pid'', sl_createdAt := 1\<rparr>]\<rparr>) \<noteq> None"
  by code_simp

text \<open>A missing list whose identifier contains the word \<open>version\<close> is retried as if it were a version
  conflict, and reported as unavailable.\<close>

lemma missing_list_retried:
  "map_sum er_class id (fst (setEntry senv1 (\<lambda>_. 0) (\<lambda>_ _. quiet) ''version-1'' 0 1 ''acme'' sdb1)) = Inl Service_Unavailable
   \<and> map_sum er_class id (fst (setEntry senv1 (\<lambda>_. 0) (\<lambda>_ _. quiet) ''other-1'' 0 1 ''acme'' sdb1)) = Inl Not_Found"
  by code_simp

end
