(* ===== verification/OAuth_Rules.thy ===== *)
theory OAuth_Rules
  imports Session_Lifecycle Session_Search Status_Value
begin

text \<open>
  The rules of the built-in OAuth authorization server
  (\<open>issuer/issuance/oid4vci/authorization/domain\<close>): OAuth errors, redeemable offers, PKCE, pushed
  authorization requests, token errors, token settings, client and grant binding of codes. SHA-256,
  JWT decoding, key thumbprints and URL serialization are parameters. Log details of errors, which
  are never returned to a client, are left out.
\<close>

section \<open>OAuth errors\<close>

datatype oauth_code =
    Invalid_Request
  | Invalid_Client
  | Invalid_Grant
  | Unauthorized_Client
  | Unsupported_Grant_Type
  | Invalid_Scope
  | Invalid_Tx_Code
  | Invalid_Dpop_Proof
  | Unsupported_Response_Type
  | Invalid_Request_Uri

definition code_text :: "oauth_code \<Rightarrow> string" where
  "code_text c = (case c of
       Invalid_Request \<Rightarrow> ''invalid_request'' | Invalid_Client \<Rightarrow> ''invalid_client''
     | Invalid_Grant \<Rightarrow> ''invalid_grant'' | Unauthorized_Client \<Rightarrow> ''unauthorized_client''
     | Unsupported_Grant_Type \<Rightarrow> ''unsupported_grant_type'' | Invalid_Scope \<Rightarrow> ''invalid_scope''
     | Invalid_Tx_Code \<Rightarrow> ''invalid_tx_code'' | Invalid_Dpop_Proof \<Rightarrow> ''invalid_dpop_proof''
     | Unsupported_Response_Type \<Rightarrow> ''unsupported_response_type''
     | Invalid_Request_Uri \<Rightarrow> ''invalid_request_uri'')"

record oauth_error =
  oa_code :: oauth_code
  oa_description :: "string option"
  oa_clientAuthenticationFailed :: bool

definition OAuthError :: "oauth_code \<Rightarrow> string \<Rightarrow> oauth_error" where
  "OAuthError c d = \<lparr>oa_code = c, oa_description = Some d, oa_clientAuthenticationFailed = False\<rparr>"

lemma OAuthError_simps [simp]:
  "oa_code (OAuthError c d) = c" "oa_description (OAuthError c d) = Some d"
  "OAuthError c d = OAuthError c' d' \<longleftrightarrow> c = c' \<and> d = d'"
  by (auto simp: OAuthError_def)


section \<open>Redeeming an offer\<close>

definition assertOfferRedeemable :: "session \<Rightarrow> date \<Rightarrow> oauth_code \<Rightarrow> oauth_error + unit" where
  "assertOfferRedeemable s now code =
     (case assertSessionUsable s now of
        Inr _ \<Rightarrow> Inr ()
      | Inl (SessionNotUsable reason) \<Rightarrow>
          Inl (OAuthError code (if reason = Expired then ''The credential offer has expired''
                 else ''The credential offer is no longer valid'')))"

lemma assertOfferRedeemable_returns [returns]: "assertOfferRedeemable s now code = Inr u \<longleftrightarrow> session_usable s now"
  using assertSessionUsable_iff [of s now]
  by (auto simp: assertOfferRedeemable_def split: sum.splits session_not_usable.splits)


section \<open>PKCE\<close>

datatype pkce_check = Pkce_Valid | Pkce_Missing_Verifier | Pkce_Mismatch | Pkce_Missing_Challenge

definition assertS256CodeChallenge :: "string option \<Rightarrow> string option \<Rightarrow> oauth_error + unit" where
  "assertS256CodeChallenge challenge method =
     ebind (require (truthy challenge) (OAuthError Invalid_Request ''Missing required parameter: code_challenge''))
       (\<lambda>_. require (method = Some ''S256'')
          (OAuthError Invalid_Request ''Only code_challenge_method 'S256' is supported''))"

definition checkPkce ::
    "(string \<Rightarrow> string) \<Rightarrow> string option \<Rightarrow> string option \<Rightarrow> string option \<Rightarrow> pkce_check" where
  "checkPkce sha256 challenge method verifier =
     (if \<not> truthy challenge then Pkce_Valid
      else if \<not> truthy verifier then Pkce_Missing_Verifier
      else if (if method = Some ''S256'' then sha256 (the verifier) else the verifier) = the challenge
      then Pkce_Valid else Pkce_Mismatch)"

definition checkS256Pkce ::
    "(string \<Rightarrow> string) \<Rightarrow> string option \<Rightarrow> string option \<Rightarrow> string option \<Rightarrow> pkce_check" where
  "checkS256Pkce sha256 challenge method verifier =
     (if \<not> truthy challenge \<or> method \<noteq> Some ''S256'' then Pkce_Missing_Challenge
      else checkPkce sha256 challenge method verifier)"

lemma checkS256Pkce_valid:
  "checkS256Pkce sha256 challenge method verifier = Pkce_Valid \<longleftrightarrow>
     truthy challenge \<and> method = Some ''S256'' \<and> truthy verifier \<and> sha256 (the verifier) = the challenge"
  by (auto simp: checkS256Pkce_def checkPkce_def)


section \<open>Pushed authorization requests\<close>

definition PAR_REQUEST_URI_LIFETIME_SECONDS :: int where
  "PAR_REQUEST_URI_LIFETIME_SECONDS = 60"

definition AUTHORIZATION_CODE_LIFETIME_SECONDS :: int where
  "AUTHORIZATION_CODE_LIFETIME_SECONDS = 60"

definition assertValidPushedAuthorizationRequest :: "session_authorization \<Rightarrow> oauth_error + unit" where
  "assertValidPushedAuthorizationRequest body =
     ebind (require (\<not> truthy (aq_request_uri body))
       (OAuthError Invalid_Request ''The request_uri parameter must not be sent to the PAR endpoint'')) (\<lambda>_.
     ebind (require (aq_response_type body = Some ''code'')
       (OAuthError Unsupported_Response_Type ''Only response_type 'code' is supported'')) (\<lambda>_.
     ebind (require (truthy (aq_client_id body))
       (OAuthError Invalid_Request ''Missing required parameter: client_id'')) (\<lambda>_.
     ebind (require (truthy (aq_redirect_uri body))
       (OAuthError Invalid_Request ''Missing required parameter: redirect_uri'')) (\<lambda>_.
     assertS256CodeChallenge (aq_code_challenge body) (aq_code_challenge_method body)))))"

text \<open>\<open>set_params url ps\<close> sets the query parameters of a URL and serializes it; parameters that are
  \<open>undefined\<close> are left out.\<close>

definition buildAuthorizationResponseUrl ::
    "(string \<Rightarrow> (string \<times> string) list \<Rightarrow> 'u) \<Rightarrow> string \<Rightarrow> (string \<times> string option) list \<Rightarrow> 'u" where
  "buildAuthorizationResponseUrl set_params redirectUri params =
     set_params redirectUri (List.map_filter (\<lambda>(k, v). map_option (Pair k) v) params)"


section \<open>Token errors\<close>

definition authorizationCodeGrantIdentifier :: string where
  "authorizationCodeGrantIdentifier = ''authorization_code''"

definition refreshTokenGrantIdentifier :: string where
  "refreshTokenGrantIdentifier = ''refresh_token''"

definition toTokenErrorCode :: "string option \<Rightarrow> oauth_code" where
  "toTokenErrorCode errorCode =
     (if \<not> truthy errorCode then Invalid_Request
      else let c = the errorCode in
        if c = ''invalid_grant'' then Invalid_Grant
        else if c = ''invalid_client'' then Invalid_Client
        else if c = ''invalid_request'' then Invalid_Request
        else if c = ''invalid_tx_code'' then Invalid_Tx_Code
        else if c = ''invalid_dpop_proof'' then Invalid_Dpop_Proof
        else if contains_text c ''tx_code'' \<or> contains_text c ''transaction'' then Invalid_Tx_Code
        else if contains_text c ''pre-authorized'' \<or> contains_text c ''pre_authorized'' then Invalid_Grant
        else Invalid_Request)"

definition nonEmpty :: "json option \<Rightarrow> bool" where
  "nonEmpty v = (case jstr v of None \<Rightarrow> False | Some s \<Rightarrow> js_trim s \<noteq> [])"

definition first_nonEmpty :: "json option list \<Rightarrow> string option" where
  "first_nonEmpty vs = (case List.find nonEmpty vs of None \<Rightarrow> None | Some v \<Rightarrow> jstr v)"

definition describeLibraryError :: "json option \<Rightarrow> string option" where
  "describeLibraryError err = first_nonEmpty
     [err, jget ''error_description'' (jget ''errorResponse'' err), jget ''error_description'' err,
      jget ''message'' err, jget ''message'' (jget ''cause'' err)]"

definition describeMalformedTokenRequest :: "json option \<Rightarrow> string" where
  "describeMalformedTokenRequest body =
     (if \<not> (case body of Some (JObj _) \<Rightarrow> True | Some (JArr _) \<Rightarrow> True | _ \<Rightarrow> False)
      then ''Malformed token request body''
      else let grantType = jstr (jget ''grant_type'' body) in
        if \<not> truthy grantType then ''Missing required parameter: grant_type''
        else if grantType = Some authorizationCodeGrantIdentifier \<and> jstr (jget ''code'' body) = None
        then ''Missing required parameter: code''
        else if grantType = Some PRE_AUTHORIZED_GRANT \<and> jstr (jget ''pre-authorized_code'' body) = None
        then ''Missing required parameter: pre-authorized_code''
        else if grantType = Some refreshTokenGrantIdentifier \<and> jstr (jget ''refresh_token'' body) = None
        then ''Missing required parameter: refresh_token''
        else ''Invalid token request for grant_type: '' @ the grantType)"

text \<open>What a call may throw: an OAuth error of this code base, or an error of the OAuth library.\<close>

datatype thrown = Thrown_OAuth oauth_error | Thrown "json option"

definition oauthErrorFromLibrary :: "thrown \<Rightarrow> oauth_error" where
  "oauthErrorFromLibrary err =
     (case err of
        Thrown_OAuth e \<Rightarrow> e
      | Thrown v \<Rightarrow> \<lparr>oa_code = toTokenErrorCode (jstr (jget ''error'' (jget ''errorResponse'' v))),
          oa_description = describeLibraryError v, oa_clientAuthenticationFailed = False\<rparr>)"

text \<open>A library error never becomes one of the codes of the other endpoints.\<close>

lemma toTokenErrorCode_range:
  "toTokenErrorCode c \<in> {Invalid_Request, Invalid_Client, Invalid_Grant, Invalid_Tx_Code, Invalid_Dpop_Proof}"
  by (simp add: toTokenErrorCode_def Let_def)


section \<open>Token settings\<close>

definition DEFAULT_TX_CODE_MAX_ATTEMPTS :: nat where
  "DEFAULT_TX_CODE_MAX_ATTEMPTS = 5"

definition TX_CODE_LOCKED_DESCRIPTION :: string where
  "TX_CODE_LOCKED_DESCRIPTION = ''Too many failed tx_code attempts. The pre-authorized code has been invalidated.''"

definition ACCESS_TOKEN_LIFETIME_SECONDS :: int where
  "ACCESS_TOKEN_LIFETIME_SECONDS = 300"

definition DEFAULT_REFRESH_TOKEN_LIFETIME_SECONDS :: int where
  "DEFAULT_REFRESH_TOKEN_LIFETIME_SECONDS = 2592000"

record token_settings =
  ts_lifetimeSeconds :: "int option"
  ts_signingKeyId :: "string option"
  ts_refreshTokenEnabled :: "bool option"
  ts_refreshTokenExpiresInSeconds :: "int option"

record built_in_server =
  bi_type :: "string option"
  bi_enabled :: "bool option"
  bi_token :: "token_settings option"
  bi_requireDPoP :: "bool option"
  bi_walletAttestationRequired :: "bool option"
  bi_walletProviderTrustLists :: "json list option"

record issuance_settings =
  is_authorizationServers :: "built_in_server list option"
  is_signingKeyId :: "string option"
  is_dPopRequired :: "bool option"
  is_txCodeMaxAttempts :: "nat option"
  is_walletAttestationRequired :: "bool option"
  is_walletProviderTrustLists :: "json list option"

record refresh_policy =
  rp_enabled :: bool
  rp_expiresInSeconds :: int

definition refreshTokenPolicy :: "token_settings option \<Rightarrow> refresh_policy" where
  "refreshTokenPolicy token = \<lparr>
     rp_enabled = ((case token of None \<Rightarrow> None | Some t \<Rightarrow> ts_refreshTokenEnabled t) \<noteq> Some False),
     rp_expiresInSeconds = coalesce (case token of None \<Rightarrow> None | Some t \<Rightarrow> ts_refreshTokenExpiresInSeconds t)
       DEFAULT_REFRESH_TOKEN_LIFETIME_SECONDS\<rparr>"

definition refreshTokenExpiresAt :: "refresh_policy \<Rightarrow> date \<Rightarrow> date" where
  "refreshTokenExpiresAt policy issuedAt = issuedAt + rp_expiresInSeconds policy * 1000"

definition enforcedRefreshTokenExpiry :: "date option \<Rightarrow> date \<Rightarrow> refresh_policy \<Rightarrow> date" where
  "enforcedRefreshTokenExpiry storedExpiresAt sessionCreatedAt policy =
     coalesce storedExpiresAt (refreshTokenExpiresAt policy sessionCreatedAt)"

definition findBuiltInAuthorizationServer :: "issuance_settings \<Rightarrow> built_in_server option" where
  "findBuiltInAuthorizationServer cfg =
     List.find (\<lambda>c. bi_enabled c \<noteq> Some False \<and> bi_type c = Some ''built-in'')
       (coalesce (is_authorizationServers cfg) [])"

definition resolveRefreshTokenPolicy :: "issuance_settings \<Rightarrow> refresh_policy" where
  "resolveRefreshTokenPolicy cfg =
     refreshTokenPolicy (case findBuiltInAuthorizationServer cfg of None \<Rightarrow> None | Some b \<Rightarrow> bi_token b)"

record access_token_settings =
  ats_lifetimeSeconds :: int
  ats_signingKeyId :: "string option"
  ats_dpopRequired :: bool

definition token_setting :: "built_in_server option \<Rightarrow> (token_settings \<Rightarrow> 'a option) \<Rightarrow> 'a option" where
  "token_setting server f = (case server of None \<Rightarrow> None
     | Some b \<Rightarrow> (case bi_token b of None \<Rightarrow> None | Some t \<Rightarrow> f t))"

definition truthy_or :: "string option \<Rightarrow> string option \<Rightarrow> string option" where
  "truthy_or a b = (if truthy a then a else b)"

definition builtInAccessTokenSettings :: "issuance_settings \<Rightarrow> access_token_settings" where
  "builtInAccessTokenSettings cfg =
     (let server = findBuiltInAuthorizationServer cfg
      in \<lparr>ats_lifetimeSeconds = coalesce (token_setting server ts_lifetimeSeconds) ACCESS_TOKEN_LIFETIME_SECONDS,
          ats_signingKeyId = truthy_or (token_setting server ts_signingKeyId) (truthy_or (is_signingKeyId cfg) None),
          ats_dpopRequired = (is_dPopRequired cfg = Some True
            \<or> (case server of None \<Rightarrow> False | Some b \<Rightarrow> bi_requireDPoP b = Some True))\<rparr>)"

definition isTxCodeLocked :: "nat option \<Rightarrow> nat \<Rightarrow> bool" where
  "isTxCodeLocked failedAttempts maxAttempts \<longleftrightarrow> maxAttempts \<le> coalesce failedAttempts 0"

definition resolveWalletAttestationPolicy ::
    "issuance_settings \<Rightarrow> built_in_server option \<Rightarrow> bool \<times> json list" where
  "resolveWalletAttestationPolicy cfg server =
     (coalesce (coalesce_opt (case server of None \<Rightarrow> None | Some b \<Rightarrow> bi_walletAttestationRequired b)
        (is_walletAttestationRequired cfg)) False,
      coalesce (coalesce_opt (case server of None \<Rightarrow> None | Some b \<Rightarrow> bi_walletProviderTrustLists b)
        (is_walletProviderTrustLists cfg)) [])"


section \<open>Grants\<close>

text \<open>The grants the OAuth library parses from a token request.\<close>

datatype grant =
    Authorization_Code string
  | Pre_Authorized_Code string "string option"
  | Refresh_Token string

definition grantType :: "grant \<Rightarrow> string" where
  "grantType g = (case g of
       Authorization_Code _ \<Rightarrow> authorizationCodeGrantIdentifier
     | Pre_Authorized_Code _ _ \<Rightarrow> PRE_AUTHORIZED_GRANT
     | Refresh_Token _ \<Rightarrow> refreshTokenGrantIdentifier)"

lemma grantType_iff [simp]:
  "grantType g = PRE_AUTHORIZED_GRANT \<longleftrightarrow> (\<exists>c tx. g = Pre_Authorized_Code c tx)"
  "grantType g = authorizationCodeGrantIdentifier \<longleftrightarrow> (\<exists>c. g = Authorization_Code c)"
  "grantType g = refreshTokenGrantIdentifier \<longleftrightarrow> (\<exists>t. g = Refresh_Token t)"
  by (cases g; simp add: grantType_def PRE_AUTHORIZED_GRANT_def authorizationCodeGrantIdentifier_def
      refreshTokenGrantIdentifier_def)+

definition offer_flow_of :: "session \<Rightarrow> offer_flow option" where
  "offer_flow_of s = map_option or_flow (s_credentialPayload s)"

definition assertCodeIssuedForGrant :: "string \<Rightarrow> offer_flow option \<Rightarrow> oauth_error + unit" where
  "assertCodeIssuedForGrant gt offerFlow =
     require ((gt = PRE_AUTHORIZED_GRANT) = (offerFlow = Some Pre_Authorized_Code_Flow))
       (OAuthError Invalid_Grant ''The provided code was not issued for this grant_type'')"

text \<open>\<open>decodeJwt\<close> returns the claims of an already verified client attestation.\<close>

definition clientInstanceKeyThumbprint ::
    "(string \<Rightarrow> json) \<Rightarrow> (json \<Rightarrow> string) \<Rightarrow> string option \<Rightarrow> string option" where
  "clientInstanceKeyThumbprint decodeJwt jwkThumbprint attestationJwt =
     (if \<not> truthy attestationJwt then None
      else let jwk = jget ''jwk'' (jget ''cnf'' (Some (decodeJwt (the attestationJwt))))
           in if jtruthy jwk then Some (jwkThumbprint (the jwk)) else None)"

definition attested_client :: "(string \<Rightarrow> json) \<Rightarrow> string option \<Rightarrow> string option" where
  "attested_client decodeJwt attestationJwt =
     (if truthy attestationJwt then jstr (jget ''sub'' (Some (decodeJwt (the attestationJwt)))) else None)"

definition assertIssuedToClient ::
    "(string \<Rightarrow> json) \<Rightarrow> string option \<Rightarrow> string option \<Rightarrow> string option \<Rightarrow> oauth_error + unit" where
  "assertIssuedToClient decodeJwt expectedClientId requestClientId attestationJwt =
     (let attested = attested_client decodeJwt attestationJwt;
          presented = coalesce_opt attested requestClientId
      in ebind (require (\<not> (truthy requestClientId \<and> truthy attested \<and> requestClientId \<noteq> attested))
           (OAuthError Invalid_Client ''client_id does not match the client attestation''))
           (\<lambda>_. require (\<not> (truthy expectedClientId \<and> truthy presented \<and> presented \<noteq> expectedClientId))
              (OAuthError Invalid_Grant ''The authorization code was issued to another client'')))"

text \<open>The client that presents a code of another client is refused, however it names itself.\<close>

lemma assertIssuedToClient_returns:
  assumes "assertIssuedToClient decodeJwt (Some c) requestClientId attestationJwt = Inr ()" "c \<noteq> []"
  shows "truthy (attested_client decodeJwt attestationJwt) \<longrightarrow> attested_client decodeJwt attestationJwt = Some c"
    and "attested_client decodeJwt attestationJwt = None \<longrightarrow> truthy requestClientId \<longrightarrow> requestClientId = Some c"
  using assms by (auto simp: assertIssuedToClient_def returns Let_def coalesce_opt_def split: option.splits)


section \<open>Authorization details\<close>

definition credential_detail :: "string \<Rightarrow> json" where
  "credential_detail cid = JObj [(''type'', JStr ''openid_credential''),
     (''credential_configuration_id'', JStr cid), (''credential_identifiers'', JArr [JStr cid])]"

definition requested_details :: "(string \<Rightarrow> json option) \<Rightarrow> json option \<Rightarrow> json list option" where
  "requested_details json_parse raw =
     (case raw of
        Some (JStr s) \<Rightarrow> (case json_parse s of Some (JArr xs) \<Rightarrow> Some xs | _ \<Rightarrow> None)
      | Some (JArr xs) \<Rightarrow> Some xs
      | _ \<Rightarrow> None)"

definition requested_configuration :: "json \<Rightarrow> string option" where
  "requested_configuration ad =
     (if jget ''type'' (Some ad) = Some (JStr ''openid_credential'')
      then (case jget ''credential_configuration_id'' (Some ad) of
              Some (JStr cid) \<Rightarrow> if cid \<noteq> [] then Some cid else None | _ \<Rightarrow> None)
      else None)"

text \<open>\<^term>\<open>Inl ()\<close> is the \<open>TypeError\<close> of reading a property of a \<open>null\<close> entry.\<close>

definition authorizationDetailsForToken ::
    "(string \<Rightarrow> json option) \<Rightarrow> session \<Rightarrow> unit + json list option" where
  "authorizationDetailsForToken json_parse s =
     (case requested_details json_parse
             (case s_auth_queries s of None \<Rightarrow> None | Some q \<Rightarrow> aq_authorization_details q) of
        Some (ad # ads) \<Rightarrow>
          (if JNull \<in> set (ad # ads) then Inl ()
           else Inr (Some (map credential_detail (List.map_filter requested_configuration (ad # ads)))))
      | _ \<Rightarrow>
          (case s_credentialPayload s of
             None \<Rightarrow> Inr None
           | Some p \<Rightarrow> (if or_credentialConfigurationIds p \<noteq> []
                        then Inr (Some (map credential_detail (or_credentialConfigurationIds p)))
                        else Inr None)))"

definition preAuthorizedCodeExpiresAt :: "date \<Rightarrow> int \<Rightarrow> date" where
  "preAuthorizedCodeExpiresAt sessionCreatedAt sessionTtlSeconds = sessionCreatedAt + sessionTtlSeconds * 1000"

definition walletSeesAuthorizationDetails :: "string \<Rightarrow> session \<Rightarrow> bool" where
  "walletSeesAuthorizationDetails gt s \<longleftrightarrow>
     \<not> (gt = PRE_AUTHORIZED_GRANT \<or> offer_flow_of s = Some Pre_Authorized_Code_Flow)"

end
