(* ===== verification/Authorize_Request.thy ===== *)
theory Authorize_Request
  imports OAuth_Rules Session_Guarantees
begin

text \<open>
  The pushed authorization request endpoint and the authorization endpoint of the built-in
  authorization server (\<open>oid4vci/authorization/application/push-authorization-request.ts\<close> and
  \<open>authorize-pushed-request.ts\<close>). Attestation and DPoP verification of the OAuth library, the tenant
  configuration, identifiers and URLs are parameters (\<open>oauth_env\<close>). The lists of statements are what
  other requests do between two statements of a handler; \<open>clock k\<close> is the time of its \<open>k\<close>-th look at
  the clock.
\<close>

section \<open>Environment\<close>

record client_attestation =
  ca_clientAttestationJwt :: string
  ca_clientAttestationPopJwt :: "string option"

record par_check =
  pc_authorizationRequest :: session_authorization
  pc_issuer :: string
  pc_request :: json
  pc_dpopRequired :: bool
  pc_dpopJwt :: "string option"
  pc_jwkThumbprint :: "string option"

text \<open>The configuration of the tenants, the verifiers, which return a thrown error or the thumbprint of
  the DPoP key, and the URL of a redirect, which is \<^term>\<open>None\<close> when the redirect URI is no URL.\<close>

record oauth_env =
  ov_publicUrl :: string
  ov_issuanceConfiguration :: "string \<Rightarrow> issuance_settings"
  ov_sessionTtlSeconds :: "string \<Rightarrow> int"
  ov_verifyAttestation :: "string \<Rightarrow> client_attestation option \<Rightarrow> string \<Rightarrow> bool \<Rightarrow> json list \<Rightarrow> string + unit"
  ov_verifyPar :: "par_check \<Rightarrow> thrown + string option"
  ov_set_params :: "string \<Rightarrow> (string \<times> string) list \<Rightarrow> string option"

definition builtInAuthorizationServerIssuer :: "string \<Rightarrow> string \<Rightarrow> string" where
  "builtInAuthorizationServerIssuer publicUrl tenantId = publicUrl @ ''/issuers/'' @ tenantId"

text \<open>\<open>pushedAuthorizationRequestUriPrefix\<close> of the OAuth library.\<close>

definition request_uri_prefix :: string where
  "request_uri_prefix = ''urn:ietf:params:oauth:request_uri:''"


section \<open>Pushing a request\<close>

record par_request =
  pq_tenantId :: string
  pq_body :: session_authorization
  pq_request :: json
  pq_dpopJwt :: "string option"
  pq_clientAttestation :: "client_attestation option"

record par_response =
  ps_expires_in :: int
  ps_request_uri :: string

text \<open>The checks before the database is written: the thumbprint of the DPoP key.\<close>

definition verify_par :: "oauth_env \<Rightarrow> par_request \<Rightarrow> oauth_error + string option" where
  "verify_par env q =
     (let cfg = ov_issuanceConfiguration env (pq_tenantId q);
          server = findBuiltInAuthorizationServer cfg;
          (required, trustLists) = resolveWalletAttestationPolicy cfg server;
          issuer = builtInAuthorizationServerIssuer (ov_publicUrl env) (pq_tenantId q)
      in ebind (case ov_verifyAttestation env (pq_tenantId q) (pq_clientAttestation q) issuer required trustLists of
                  Inl _ \<Rightarrow> Inl (OAuthError Invalid_Client ''Client attestation validation failed'')
                | Inr _ \<Rightarrow> Inr ()) (\<lambda>_.
         ebind (assertValidPushedAuthorizationRequest (pq_body q)) (\<lambda>_.
         case ov_verifyPar env \<lparr>pc_authorizationRequest = pq_body q, pc_issuer = issuer,
                pc_request = pq_request q,
                pc_dpopRequired = (case server of None \<Rightarrow> False | Some b \<Rightarrow> bi_requireDPoP b = Some True),
                pc_dpopJwt = pq_dpopJwt q, pc_jwkThumbprint = aq_dpop_jkt (pq_body q)\<rparr> of
           Inl err \<Rightarrow> Inl (oauthErrorFromLibrary err)
         | Inr jkt \<Rightarrow> Inr jkt)))"

text \<open>The session an \<open>issuer_state\<close> names; an unknown one is no error.\<close>

definition offer_session_of :: "string \<Rightarrow> string option \<Rightarrow> sessions \<Rightarrow> session option" where
  "offer_session_of tenantId issuer_state db =
     (if truthy issuer_state
      then (case getForTenant tenantId issuer_state None db of Inl _ \<Rightarrow> None | Inr s \<Rightarrow> Some s)
      else None)"

definition par_values :: "string \<Rightarrow> date \<Rightarrow> session_authorization \<Rightarrow> string option \<Rightarrow> session_update" where
  "par_values request_uri now body jkt =
     [Set_request_uri (Some request_uri),
      Set_request_uri_expires_at (Some (now + PAR_REQUEST_URI_LIFETIME_SECONDS * 1000)),
      Set_auth_queries (Some body)] @ opt_assign Set_dpop_jkt jkt"

text \<open>\<open>uuid\<close> becomes the request URI, \<open>newId\<close> the identifier of a wallet-initiated session.\<close>

definition pushAuthorizationRequest ::
    "oauth_env \<Rightarrow> (nat \<Rightarrow> date) \<Rightarrow> session_stmt list \<Rightarrow> string \<Rightarrow> string \<Rightarrow> par_request \<Rightarrow> sessions
       \<Rightarrow> (oauth_error + par_response) \<times> sessions" where
  "pushAuthorizationRequest env clock others uuid newId q db =
     (case verify_par env q of
        Inl e \<Rightarrow> (Inl e, db)
      | Inr jkt \<Rightarrow>
     (let t = pq_tenantId q; issuer_state = aq_issuer_state (pq_body q)
      in case (case offer_session_of t issuer_state db of None \<Rightarrow> Inr ()
               | Some s \<Rightarrow> assertOfferRedeemable s (clock 0) Invalid_Request) of
           Inl e \<Rightarrow> (Inl e, db)
         | Inr _ \<Rightarrow>
        (let uri = request_uri_prefix @ uuid;
             values = par_values uri (clock 1) (pq_body q) jkt;
             db1 = exec_stmts others db;
             (db2, affected) = (if truthy issuer_state
                then updateForTenant (clock 1) t (the issuer_state) values db1 else (db1, 0));
             db3 = (if affected = 0
                then snd (createSession_execute (clock 1) \<lparr>ns_id = newId, ns_tenantId = t, ns_columns = values\<rparr> db2)
                else db2)
         in (Inr \<lparr>ps_expires_in = PAR_REQUEST_URI_LIFETIME_SECONDS, ps_request_uri = uri\<rparr>, db3))))"


section \<open>Authorizing a pushed request\<close>

datatype authorize_error =
    RequestUriMissing
  | Authorize_Rejected oauth_error
  | Redirect_Not_A_Url

definition redirect_url ::
    "oauth_env \<Rightarrow> string \<Rightarrow> (string \<times> string option) list \<Rightarrow> authorize_error + string" where
  "redirect_url env redirectUri params =
     (case buildAuthorizationResponseUrl (ov_set_params env) redirectUri params of
        None \<Rightarrow> Inl Redirect_Not_A_Url | Some u \<Rightarrow> Inr u)"

definition redirect_error ::
    "oauth_env \<Rightarrow> string \<Rightarrow> session_authorization \<Rightarrow> string \<Rightarrow> string \<Rightarrow> string \<Rightarrow> authorize_error + string" where
  "redirect_error env tenantId q redirectUri err description =
     redirect_url env redirectUri [(''error'', Some err), (''error_description'', Some description),
       (''state'', aq_state q), (''iss'', Some (builtInAuthorizationServerIssuer (ov_publicUrl env) tenantId))]"

text \<open>Redeeming the URI: \<open>others1\<close> run between the lookup and the compare-and-set, \<open>others2\<close> between it
  and the statement that stores the code.\<close>

definition redeem_request_uri ::
    "oauth_env \<Rightarrow> (nat \<Rightarrow> date) \<Rightarrow> session_stmt list \<Rightarrow> session_stmt list \<Rightarrow> string \<Rightarrow> string \<Rightarrow> session
       \<Rightarrow> session_authorization \<Rightarrow> string \<Rightarrow> sessions \<Rightarrow> (authorize_error + string) \<times> sessions" where
  "redeem_request_uri env clock others1 others2 code tenantId s q redirectUri db =
     (let db1 = exec_stmts others1 db;
          (redeemed, db2) = (case s_request_uri_expires_at s of
             None \<Rightarrow> (False, db1)
           | Some e \<Rightarrow> consumeRequestUri (clock 1) tenantId (s_id s) e (clock 1) db1)
      in if \<not> redeemed
         then (redirect_error env tenantId q redirectUri ''invalid_request_uri''
                 ''request_uri is expired or was already used'', db2)
         else (let db3 = fst (updateForTenant (clock 2) tenantId (s_id s)
                 [Set_authorization_code (Some code),
                  Set_authorization_code_expires_at (Some (clock 2 + AUTHORIZATION_CODE_LIFETIME_SECONDS * 1000))]
                 (exec_stmts others2 db2))
               in (redirect_url env redirectUri [(''code'', Some code), (''state'', aq_state q),
                     (''iss'', Some (builtInAuthorizationServerIssuer (ov_publicUrl env) tenantId))], db3)))"

definition authorizePushedRequest ::
    "oauth_env \<Rightarrow> (nat \<Rightarrow> date) \<Rightarrow> session_stmt list \<Rightarrow> session_stmt list \<Rightarrow> string \<Rightarrow> string
       \<Rightarrow> string option \<Rightarrow> string option \<Rightarrow> sessions \<Rightarrow> (authorize_error + string) \<times> sessions" where
  "authorizePushedRequest env clock others1 others2 code tenantId request_uri client_id db =
     (if \<not> truthy request_uri then (Inl RequestUriMissing, db)
      else case getByRequestUri tenantId (the request_uri) db of
        Inl _ \<Rightarrow> (Inl (Authorize_Rejected (OAuthError Invalid_Request_Uri ''Unknown request_uri'')), db)
      | Inr s \<Rightarrow>
     (case s_auth_queries s of
        None \<Rightarrow> (Inl (Authorize_Rejected (OAuthError Invalid_Request_Uri ''request_uri has no redirect_uri bound'')), db)
      | Some q \<Rightarrow>
     (if \<not> truthy (aq_redirect_uri q)
      then (Inl (Authorize_Rejected (OAuthError Invalid_Request_Uri ''request_uri has no redirect_uri bound'')), db)
      else (let redirectUri = the (aq_redirect_uri q)
            in if client_id \<noteq> aq_client_id q
               then (redirect_error env tenantId q redirectUri ''invalid_request''
                       ''client_id does not match the pushed authorization request'', db)
               else (case assertOfferRedeemable s (clock 0) Invalid_Request of
                       Inl e \<Rightarrow> (redirect_error env tenantId q redirectUri (code_text (oa_code e))
                                  (coalesce (oa_description e) []), db)
                     | Inr _ \<Rightarrow> redeem_request_uri env clock others1 others2 code tenantId s q redirectUri db)))))"

end
