(* ===== verification/Token_Exchange.thy ===== *)
theory Token_Exchange
  imports Authorize_Request
begin

text \<open>
  The token endpoint of the built-in authorization server
  (\<open>oid4vci/authorization/application/exchange-access-token.ts\<close>): the grants \<open>authorization_code\<close>,
  \<open>pre-authorized_code\<close> and \<open>refresh_token\<close>. A request first reads its session, checks and verifies
  the grant and creates the response (\<open>prepare_token\<close>), then marks the session consumed by the
  single-use update (\<open>commit_token\<close>); other requests run in between. The OAuth library (parsing,
  verification of codes, transaction codes and DPoP proofs, token signing) is a parameter. The body is
  a form, its fields are strings; the tenant's signing key exists.
\<close>

section \<open>Environment\<close>

record parsed_request =
  pr_grant :: grant
  pr_accessTokenRequest :: json
  pr_clientAttestation :: "client_attestation option"
  pr_dpopJwt :: "string option"
  pr_pkceCodeVerifier :: "string option"

text \<open>What the library verifies a grant against: the expected code or refresh token with its expiry,
  the transaction code, the PKCE challenge and the DPoP key.\<close>

record grant_check =
  gc_grant :: grant
  gc_accessTokenRequest :: json
  gc_request :: json
  gc_expectedCode :: "string option"
  gc_expectedTxCode :: "string option"
  gc_expiresAt :: "date option"
  gc_codeChallenge :: "string option"
  gc_codeVerifier :: "string option"
  gc_dpopRequired :: bool
  gc_dpopJwt :: "string option"
  gc_expectedJwkThumbprint :: "string option"

record response_input =
  ri_audience :: string
  ri_kid :: string
  ri_subject :: string
  ri_expiresInSeconds :: int
  ri_authorizationServer :: string
  ri_clientId :: "string option"
  ri_dpop :: "string option"
  ri_refreshToken :: bool
  ri_tokenDetails :: "json list option"
  ri_responseDetails :: "json list option"

record token_response =
  tr_access_token :: string
  tr_refresh_token :: "string option"
  tr_authorization_details :: "json list option"

record token_env = oauth_env +
  tv_parse :: "json option \<Rightarrow> json \<Rightarrow> thrown + parsed_request"
  tv_decodeJwt :: "string \<Rightarrow> json"
  tv_jwkThumbprint :: "json \<Rightarrow> string"
  tv_sha256 :: "string \<Rightarrow> string"
  tv_json_parse :: "string \<Rightarrow> json option"
  tv_verifyGrant :: "grant_check \<Rightarrow> thrown + string option"
  tv_defaultKeyId :: "string \<Rightarrow> string"
  tv_createResponse :: "response_input \<Rightarrow> unit + token_response"

record token_request =
  tq_tenantId :: string
  tq_body :: "json option"
  tq_request :: json

datatype exchange_error = Token_Error oauth_error | Internal_Error

definition form :: "string \<Rightarrow> json option \<Rightarrow> string option" where
  "form k body = jstr (jget k body)"

definition is_refresh :: "grant \<Rightarrow> bool" where
  "is_refresh g = (case g of Refresh_Token _ \<Rightarrow> True | _ \<Rightarrow> False)"

definition is_code :: "grant \<Rightarrow> bool" where
  "is_code g = (case g of Authorization_Code _ \<Rightarrow> True | _ \<Rightarrow> False)"


section \<open>Reading and checking\<close>

definition presented_code :: "parsed_request \<Rightarrow> string option" where
  "presented_code p = coalesce_opt (form ''pre-authorized_code'' (Some (pr_accessTokenRequest p)))
     (form ''code'' (Some (pr_accessTokenRequest p)))"

definition find_grant_session :: "string \<Rightarrow> parsed_request \<Rightarrow> sessions \<Rightarrow> oauth_error + session" where
  "find_grant_session tenantId p db =
     (case pr_grant p of
        Refresh_Token token \<Rightarrow>
          (case getByRefreshToken tenantId token db of
             Inl _ \<Rightarrow> Inl (OAuthError Invalid_Grant ''The provided refresh_token is invalid or expired'')
           | Inr s \<Rightarrow> Inr s)
      | _ \<Rightarrow>
          (case getByAuthorizationCode tenantId (presented_code p) db of
             Inl _ \<Rightarrow> Inl (OAuthError Invalid_Grant ''The provided authorization code is invalid or expired'')
           | Inr s \<Rightarrow> Inr s))"

text \<open>Single use, lifetime of the offer, and the grant the code was issued for; refresh tokens have
  none of these limits.\<close>

definition check_redeemable :: "session \<Rightarrow> grant \<Rightarrow> date \<Rightarrow> oauth_error + unit" where
  "check_redeemable s g now =
     (if is_refresh g then Inr ()
      else ebind (require (\<not> s_consumed s)
             (OAuthError Invalid_Grant ''The credential offer has already been used'')) (\<lambda>_.
           ebind (assertOfferRedeemable s now Invalid_Grant) (\<lambda>_.
           assertCodeIssuedForGrant (grantType g) (offer_flow_of s))))"

definition attestation_jwt :: "parsed_request \<Rightarrow> string option" where
  "attestation_jwt p = map_option ca_clientAttestationJwt (pr_clientAttestation p)"

definition auth_query :: "session \<Rightarrow> (session_authorization \<Rightarrow> 'a option) \<Rightarrow> 'a option" where
  "auth_query s f = (case s_auth_queries s of None \<Rightarrow> None | Some q \<Rightarrow> f q)"

text \<open>The client: attestation, key binding of refresh tokens, client identifier, redirect URI and
  PKCE. The result is the thumbprint of the client instance key.\<close>

definition check_client ::
    "token_env \<Rightarrow> string \<Rightarrow> session \<Rightarrow> parsed_request \<Rightarrow> json option \<Rightarrow> oauth_error + string option" where
  "check_client env tenantId s p body =
     (let cfg = ov_issuanceConfiguration env tenantId;
          (required, trustLists) = resolveWalletAttestationPolicy cfg (findBuiltInAuthorizationServer cfg);
          g = pr_grant p;
          jkt = clientInstanceKeyThumbprint (tv_decodeJwt env) (tv_jwkThumbprint env) (attestation_jwt p);
          boundRedirectUri = auth_query s aq_redirect_uri
      in ebind (require (\<not> (is_refresh g \<and> \<not> rp_enabled (resolveRefreshTokenPolicy cfg)))
             (OAuthError Unsupported_Grant_Type ''Refresh tokens are disabled for this authorization server'')) (\<lambda>_.
         ebind (case ov_verifyAttestation env tenantId (pr_clientAttestation p)
                       (builtInAuthorizationServerIssuer (ov_publicUrl env) tenantId) required trustLists of
                  Inl msg \<Rightarrow> Inl \<lparr>oa_code = Invalid_Client, oa_description = Some msg,
                               oa_clientAuthenticationFailed = True\<rparr>
                | Inr _ \<Rightarrow> Inr ()) (\<lambda>_.
         ebind (require (\<not> (is_refresh g \<and> truthy (s_client_key_jkt s) \<and> s_client_key_jkt s \<noteq> jkt))
             (OAuthError Invalid_Grant ''The refresh_token is bound to a different client instance'')) (\<lambda>_.
         ebind (if is_code g \<or> is_refresh g
                then assertIssuedToClient (tv_decodeJwt env) (auth_query s aq_client_id)
                       (form ''client_id'' body) (attestation_jwt p)
                else Inr ()) (\<lambda>_.
         ebind (require (\<not> (is_code g \<and> form ''redirect_uri'' body \<noteq> None \<and> boundRedirectUri \<noteq> None
                             \<and> form ''redirect_uri'' body \<noteq> boundRedirectUri))
             (OAuthError Invalid_Grant ''redirect_uri does not match the authorization request'')) (\<lambda>_.
         ebind (require (\<not> (is_code g \<and> checkS256Pkce (tv_sha256 env) (auth_query s aq_code_challenge)
                             (auth_query s aq_code_challenge_method) (form ''code_verifier'' body) \<noteq> Pkce_Valid))
             (OAuthError Invalid_Grant ''PKCE verification failed'')) (\<lambda>_. Inr jkt)))))))"

definition tx_code_of :: "session \<Rightarrow> string option" where
  "tx_code_of s = (case s_credentialPayload s of None \<Rightarrow> None | Some c \<Rightarrow> or_tx_code c)"

definition max_attempts :: "token_env \<Rightarrow> string \<Rightarrow> nat" where
  "max_attempts env tenantId =
     coalesce (is_txCodeMaxAttempts (ov_issuanceConfiguration env tenantId)) DEFAULT_TX_CODE_MAX_ATTEMPTS"

definition check_lock :: "token_env \<Rightarrow> string \<Rightarrow> session \<Rightarrow> grant \<Rightarrow> oauth_error + unit" where
  "check_lock env tenantId s g =
     (case g of
        Pre_Authorized_Code _ _ \<Rightarrow>
          require (\<not> (truthy (tx_code_of s)
                      \<and> isTxCodeLocked (Some (s_txCodeFailedAttempts s)) (max_attempts env tenantId)))
            (OAuthError Invalid_Grant TX_CODE_LOCKED_DESCRIPTION)
      | _ \<Rightarrow> Inr ())"

text \<open>The arguments of the library's verification for each grant.\<close>

definition grant_check_of :: "token_env \<Rightarrow> string \<Rightarrow> session \<Rightarrow> parsed_request \<Rightarrow> json \<Rightarrow> grant_check" where
  "grant_check_of env tenantId s p request =
     (let cfg = ov_issuanceConfiguration env tenantId;
          dpopRequired = ats_dpopRequired (builtInAccessTokenSettings cfg);
          c = \<lparr>gc_grant = pr_grant p, gc_accessTokenRequest = pr_accessTokenRequest p, gc_request = request,
               gc_expectedCode = s_authorization_code s, gc_expectedTxCode = None, gc_expiresAt = None,
               gc_codeChallenge = None, gc_codeVerifier = None, gc_dpopRequired = dpopRequired,
               gc_dpopJwt = pr_dpopJwt p, gc_expectedJwkThumbprint = None\<rparr>
      in case pr_grant p of
           Pre_Authorized_Code _ _ \<Rightarrow>
             c\<lparr>gc_expectedTxCode := tx_code_of s,
               gc_expiresAt := Some (preAuthorizedCodeExpiresAt (s_createdAt s) (ov_sessionTtlSeconds env tenantId))\<rparr>
         | Authorization_Code _ \<Rightarrow>
             c\<lparr>gc_expiresAt := s_authorization_code_expires_at s,
               gc_codeChallenge := auth_query s aq_code_challenge, gc_codeVerifier := pr_pkceCodeVerifier p,
               gc_expectedJwkThumbprint := s_dpop_jkt s\<rparr>
         | Refresh_Token _ \<Rightarrow>
             c\<lparr>gc_expectedCode := s_refresh_token s,
               gc_dpopRequired := dpopRequired \<or> truthy (s_dpop_jkt s),
               gc_expectedJwkThumbprint := (if truthy (attestation_jwt p) then None else s_dpop_jkt s),
               gc_expiresAt := Some (enforcedRefreshTokenExpiry (s_refresh_token_expires_at s) (s_createdAt s)
                 (resolveRefreshTokenPolicy cfg))\<rparr>)"


section \<open>A failed pre-authorized code\<close>

text \<open>A thrown error as the handler inspects it: an OAuth error of this code base has a message only.\<close>

definition thrown_json :: "thrown \<Rightarrow> json option" where
  "thrown_json err = (case err of
       Thrown v \<Rightarrow> v
     | Thrown_OAuth e \<Rightarrow> Some (JObj [(''message'', JStr (coalesce (oa_description e) (code_text (oa_code e))))]))"

definition not_null :: "json option \<Rightarrow> json option" where
  "not_null v = (if v = Some JNull then None else v)"

definition thrown_code :: "thrown \<Rightarrow> oauth_code" where
  "thrown_code err = toTokenErrorCode (jstr (coalesce_opt
     (not_null (jget ''error'' (jget ''errorResponse'' (thrown_json err)))) (jget ''error'' (thrown_json err))))"

text \<open>A wrong transaction code is recognized by the error code, or by comparing it when the library
  reports an invalid grant.\<close>

definition wrong_tx_code :: "session \<Rightarrow> string option \<Rightarrow> thrown \<Rightarrow> bool" where
  "wrong_tx_code s provided err \<longleftrightarrow> thrown_code err = Invalid_Tx_Code
     \<or> (thrown_code err = Invalid_Grant \<and> truthy (tx_code_of s) \<and> truthy provided \<and> provided \<noteq> tx_code_of s)"

definition preAuthorizedCodeError ::
    "date \<Rightarrow> session_stmt list \<Rightarrow> string \<Rightarrow> session \<Rightarrow> nat \<Rightarrow> string option \<Rightarrow> thrown \<Rightarrow> sessions
       \<Rightarrow> exchange_error \<times> sessions" where
  "preAuthorizedCodeError now others tenantId s maxAttempts provided err db =
     (let failure = Token_Error \<lparr>oa_code = thrown_code err, oa_description = describeLibraryError (thrown_json err),
            oa_clientAuthenticationFailed = False\<rparr>
      in if \<not> wrong_tx_code s provided err then (failure, db)
         else (case recordFailedTxCodeAttempt now others tenantId (s_id s) maxAttempts db of
                 (Inl _, db') \<Rightarrow> (Internal_Error, db')
               | (Inr r, db') \<Rightarrow>
                   (if ar_locked r then (Token_Error (OAuthError Invalid_Grant TX_CODE_LOCKED_DESCRIPTION), db')
                    else (failure, db'))))"


section \<open>Issuing a token\<close>

record prepared_token =
  pp_session :: session
  pp_grant :: grant
  pp_clientKeyJkt :: "string option"
  pp_dpop :: "string option"
  pp_policy :: refresh_policy
  pp_response :: token_response

definition create_response ::
    "token_env \<Rightarrow> string \<Rightarrow> session \<Rightarrow> parsed_request \<Rightarrow> json option \<Rightarrow> string option
       \<Rightarrow> exchange_error + token_response" where
  "create_response env tenantId s p body dpop =
     (let cfg = ov_issuanceConfiguration env tenantId;
          settings = builtInAccessTokenSettings cfg
      in case authorizationDetailsForToken (tv_json_parse env) s of
           Inl _ \<Rightarrow> Inl Internal_Error
         | Inr details \<Rightarrow>
             (case tv_createResponse env
                \<lparr>ri_audience = ov_publicUrl env @ ''/issuers/'' @ tenantId,
                 ri_kid = coalesce (ats_signingKeyId settings) (tv_defaultKeyId env tenantId),
                 ri_subject = s_id s, ri_expiresInSeconds = ats_lifetimeSeconds settings,
                 ri_authorizationServer = builtInAuthorizationServerIssuer (ov_publicUrl env) tenantId,
                 ri_clientId = form ''client_id'' body, ri_dpop = dpop,
                 ri_refreshToken = (rp_enabled (resolveRefreshTokenPolicy cfg) \<and> \<not> is_refresh (pr_grant p)),
                 ri_tokenDetails = details,
                 ri_responseDetails = (if walletSeesAuthorizationDetails (grantType (pr_grant p)) s
                                       then details else None)\<rparr> of
                Inl _ \<Rightarrow> Inl (Token_Error (OAuthError Invalid_Request ''Failed to create access token response''))
              | Inr r \<Rightarrow> Inr r))"

text \<open>All checks up to the verification of the grant: the session and the client key.\<close>

definition check_request ::
    "token_env \<Rightarrow> date \<Rightarrow> token_request \<Rightarrow> sessions \<Rightarrow> oauth_error + parsed_request \<times> session \<times> string option" where
  "check_request env now q db =
     (case tv_parse env (tq_body q) (tq_request q) of
        Inl err \<Rightarrow> Inl (OAuthError Invalid_Request
          (coalesce (describeLibraryError (thrown_json err)) (describeMalformedTokenRequest (tq_body q))))
      | Inr p \<Rightarrow>
          ebind (find_grant_session (tq_tenantId q) p db) (\<lambda>s.
          ebind (check_redeemable s (pr_grant p) now) (\<lambda>_.
          ebind (check_client env (tq_tenantId q) s p (tq_body q)) (\<lambda>jkt.
          ebind (check_lock env (tq_tenantId q) s (pr_grant p)) (\<lambda>_. Inr (p, s, jkt))))))"

definition prepare_token ::
    "token_env \<Rightarrow> (nat \<Rightarrow> date) \<Rightarrow> session_stmt list \<Rightarrow> token_request \<Rightarrow> sessions
       \<Rightarrow> (exchange_error + prepared_token) \<times> sessions" where
  "prepare_token env clock others q db =
     (case check_request env (clock 0) q db of
        Inl e \<Rightarrow> (Inl (Token_Error e), db)
      | Inr (p, s, jkt) \<Rightarrow>
     (case tv_verifyGrant env (grant_check_of env (tq_tenantId q) s p (tq_request q)) of
        Inl err \<Rightarrow>
          (case pr_grant p of
             Pre_Authorized_Code _ provided \<Rightarrow>
               (case preAuthorizedCodeError (clock 1) others (tq_tenantId q) s (max_attempts env (tq_tenantId q))
                       provided err db of (e, db') \<Rightarrow> (Inl e, db'))
           | _ \<Rightarrow> (Inl (Token_Error (oauthErrorFromLibrary err)), db))
      | Inr dpop \<Rightarrow>
     (case create_response env (tq_tenantId q) s p (tq_body q) dpop of
        Inl e \<Rightarrow> (Inl e, db)
      | Inr r \<Rightarrow> (Inr \<lparr>pp_session = s, pp_grant = pr_grant p, pp_clientKeyJkt = jkt, pp_dpop = dpop,
           pp_policy = resolveRefreshTokenPolicy (ov_issuanceConfiguration env (tq_tenantId q)),
           pp_response = r\<rparr>, db))))"

definition redemption_update :: "date \<Rightarrow> prepared_token \<Rightarrow> session_update" where
  "redemption_update now pp =
     [Set_consumed True]
     @ opt_assign Set_dpop_jkt (coalesce_opt (pp_dpop pp) (s_dpop_jkt (pp_session pp)))
     @ opt_assign Set_client_key_jkt (pp_clientKeyJkt pp)
     @ (if truthy (tr_refresh_token (pp_response pp))
        then [Set_refresh_token (tr_refresh_token (pp_response pp)),
              Set_refresh_token_expires_at (Some (refreshTokenExpiresAt (pp_policy pp) now))]
        else [])"

definition commit_token ::
    "date \<Rightarrow> prepared_token \<Rightarrow> sessions \<Rightarrow> (exchange_error + token_response) \<times> sessions" where
  "commit_token now pp db =
     (if is_refresh (pp_grant pp) then (Inr (pp_response pp), db)
      else (case updateUnconsumedForTenant now (s_tenantId (pp_session pp)) (s_id (pp_session pp))
                   (redemption_update now pp) db of
              (redeemed, db') \<Rightarrow>
                (if redeemed then (Inr (pp_response pp), db')
                 else (Inl (Token_Error (OAuthError Invalid_Grant ''The credential offer has already been used'')), db'))))"

definition exchangeAccessToken ::
    "token_env \<Rightarrow> (nat \<Rightarrow> date) \<Rightarrow> session_stmt list \<Rightarrow> session_stmt list \<Rightarrow> token_request \<Rightarrow> sessions
       \<Rightarrow> (exchange_error + token_response) \<times> sessions" where
  "exchangeAccessToken env clock others1 others2 q db =
     (case prepare_token env clock others1 q db of
        (Inl e, db1) \<Rightarrow> (Inl e, db1)
      | (Inr pp, db1) \<Rightarrow> commit_token (clock 2) pp (exec_stmts others2 db1))"

end
