(* ===== verification/OAuth_Properties.thy ===== *)
theory OAuth_Properties
  imports Token_Exchange
begin

text \<open>
  The properties of the built-in authorization server: what a token response proves about the
  session, the client and the code; single use of codes; the \<open>tx_code\<close> lockout; and the way from a
  pushed request over the authorization code to the token.
\<close>

section \<open>What the handlers did when they succeeded\<close>

lemma check_request_returns:
  "check_request env now q db = Inr (p, s, jkt) \<longleftrightarrow>
     tv_parse env (tq_body q) (tq_request q) = Inr p \<and> find_grant_session (tq_tenantId q) p db = Inr s
     \<and> check_redeemable s (pr_grant p) now = Inr () \<and> check_client env (tq_tenantId q) s p (tq_body q) = Inr jkt
     \<and> check_lock env (tq_tenantId q) s (pr_grant p) = Inr ()"
  by (auto simp: check_request_def returns split: sum.splits)

lemma prepare_token_returns:
  "prepare_token env clock others q db = (Inr pp, db1) \<longleftrightarrow> db1 = db \<and>
     (\<exists>p s jkt dpop r. check_request env (clock 0) q db = Inr (p, s, jkt)
        \<and> tv_verifyGrant env (grant_check_of env (tq_tenantId q) s p (tq_request q)) = Inr dpop
        \<and> create_response env (tq_tenantId q) s p (tq_body q) dpop = Inr r
        \<and> pp = \<lparr>pp_session = s, pp_grant = pr_grant p, pp_clientKeyJkt = jkt, pp_dpop = dpop,
             pp_policy = resolveRefreshTokenPolicy (ov_issuanceConfiguration env (tq_tenantId q)), pp_response = r\<rparr>)"
  by (auto simp: prepare_token_def split: sum.splits prod.splits grant.splits)

lemma find_grant_session_returns:
  assumes "find_grant_session t p db = Inr s"
  shows "s \<in> set db" "s_tenantId s = t"
    and "case pr_grant p of Refresh_Token token \<Rightarrow> s_refresh_token s = Some token \<and> token \<noteq> []
      | _ \<Rightarrow> s_authorization_code s = presented_code p \<and> truthy (s_authorization_code s)"
  using assms
  by (auto simp: find_grant_session_def getByRefreshToken_def getByAuthorizationCode_def store_lookup_ok
      findByRefreshToken_def findByAuthorizationCode_def split: grant.splits sum.splits dest!: sql_find_one_Some)

lemma redemption_spends: "spending (redemption_update now pp)"
  by (simp add: spending_def redemption_update_def opt_assign_def split: option.splits)

lemma redemption_consumes:
  "s_consumed (set_clause now (redemption_update now pp) r)"
  "s_id (set_clause now (redemption_update now pp) r) = s_id r"
  "s_tenantId (set_clause now (redemption_update now pp) r) = s_tenantId r"
  by (simp_all add: set_clause_consumed redemption_update_def opt_assign_def split: option.splits)

lemma commit_token_returns:
  assumes "commit_token now pp db = (Inr r, db')" "\<not> is_refresh (pp_grant pp)"
  shows "r = pp_response pp"
    and "updateUnconsumedForTenant now (s_tenantId (pp_session pp)) (s_id (pp_session pp)) (redemption_update now pp) db
      = (True, db')"
  using assms by (auto simp: commit_token_def split: if_splits prod.splits)


section \<open>Single use of codes\<close>

text \<open>The single-use update of a request, with whether it returned a token.\<close>

definition token_claim :: "date \<times> prepared_token \<Rightarrow> sessions \<Rightarrow> bool \<times> sessions" where
  "token_claim c db = (case commit_token (fst c) (snd c) db of (Inl _, db') \<Rightarrow> (False, db') | (Inr _, db') \<Rightarrow> (True, db'))"

definition redeems :: "string \<Rightarrow> string \<Rightarrow> date \<times> prepared_token \<Rightarrow> bool" where
  "redeems t i c \<longleftrightarrow> s_tenantId (pp_session (snd c)) = t \<and> s_id (pp_session (snd c)) = i \<and> \<not> is_refresh (pp_grant (snd c))"

lemma token_claim_session:
  "redeems t i c \<Longrightarrow> token_claim c db = claim_session t i (fst c, redemption_update (fst c) (snd c)) db"
  by (auto simp: token_claim_def redeems_def commit_token_def claim_session_def split: prod.splits)

lemma wins_token_claim:
  "list_all (case_sum (redeems t i) ok) run \<Longrightarrow> wins token_claim other run db =
     wins (claim_session t i) other (map (map_sum (\<lambda>c. (fst c, redemption_update (fst c) (snd c))) id) run) db"
proof (induction run arbitrary: db)
  case (Cons a run)
  then show ?case by (cases a) (auto simp: token_claim_session split: prod.splits)
qed simp

lemma redeems_spending:
  assumes "list_all (case_sum (redeems t i) ok) run"
  shows "list_all (case_sum (\<lambda>c. spending (snd c)) ok)
    (map (map_sum (\<lambda>c. (fst c, redemption_update (fst c) (snd c))) id) run)"
  using assms
proof (induction run)
  case (Cons a run)
  then show ?case by (cases a) (simp_all add: redemption_spends)
qed simp

text \<open>C7: A code is redeemed at most once: of all token requests for a session - authorization codes and
  pre-authorized codes, prepared from any earlier reads of the database, on any instance - at most one
  gets a token, in every interleaving with statements that do not reopen the session.\<close>

theorem code_redeemed_at_most_once:
  assumes "unique_key s_id db" "list_all (case_sum (redeems t i) (never_reopens t i)) run"
  shows "wins token_claim exec_stmt run db \<le> 1"
  unfolding wins_token_claim [OF assms(2)]
  by (rule session_use.wins_at_most_once [OF redeems_spending [OF assms(2)] assms(1)])

definition trow1 :: session where
  "trow1 = (blank_session ''s1'' ''acme'' 0)\<lparr>s_expiresAt := Some 900000, s_authorization_code := Some ''c1'',
     s_authorization_code_expires_at := Some 60000,
     s_auth_queries := Some \<lparr>aq_issuer_state = None, aq_response_type = Some ''code'', aq_client_id = Some ''w1'',
       aq_redirect_uri = Some ''app:cb'', aq_resource = None, aq_scope = None, aq_code_challenge = Some ''h:v1'',
       aq_code_challenge_method = Some ''S256'', aq_dpop_jkt = None, aq_request_uri = None, aq_auth_session = None,
       aq_state = Some ''st'', aq_authorization_details = None\<rparr>\<rparr>"

definition token1 :: token_response where
  "token1 = \<lparr>tr_access_token = ''at'', tr_refresh_token = Some ''rt'', tr_authorization_details = None\<rparr>"

definition prepared1 :: prepared_token where
  "prepared1 = \<lparr>pp_session = trow1, pp_grant = Authorization_Code ''c1'', pp_clientKeyJkt = None, pp_dpop = None,
     pp_policy = \<lparr>rp_enabled = True, rp_expiresInSeconds = 60\<rparr>, pp_response = token1\<rparr>"

theorem code_redeemed_at_most_once_witness:
  "wins token_claim exec_stmt
     [Inl (1, prepared1), Inr (Stmt_Increment 2 ''acme'' ''s1''), Inl (3, prepared1)] [trow1] \<le> 1"
  by (rule code_redeemed_at_most_once [where t = "''acme''" and i = "''s1''"])
    (simp_all add: unique_key_def redeems_def prepared1_def trow1_def blank_session_def is_refresh_def)

section \<open>What a token proves\<close>

lemma exchange_returns:
  assumes "exchangeAccessToken env clock others1 others2 q db = (Inr r, db')"
  obtains p s jkt dpop pp where
    "check_request env (clock 0) q db = Inr (p, s, jkt)"
    "tv_verifyGrant env (grant_check_of env (tq_tenantId q) s p (tq_request q)) = Inr dpop"
    "create_response env (tq_tenantId q) s p (tq_body q) dpop = Inr (pp_response pp)"
    "pp_session pp = s" "pp_grant pp = pr_grant p"
    "commit_token (clock 2) pp (exec_stmts others2 db) = (Inr r, db')"
  using assms
proof -
  obtain pp db1 where prep: "prepare_token env clock others1 q db = (Inr pp, db1)"
      and commit: "commit_token (clock 2) pp (exec_stmts others2 db1) = (Inr r, db')"
    using assms by (auto simp: exchangeAccessToken_def split: prod.splits sum.splits)
  show ?thesis
    using conjunct2 [OF prep [unfolded prepare_token_returns]] commit conjunct1 [OF prep [unfolded prepare_token_returns]]
    by (elim exE conjE) (rule that, auto)
qed

lemma commit_token_consumes:
  assumes "commit_token now pp db = (Inr r, db')" "\<not> is_refresh (pp_grant pp)"
  shows "\<exists>s' \<in> set db'. s_id s' = s_id (pp_session pp) \<and> s_tenantId s' = s_tenantId (pp_session pp) \<and> s_consumed s'"
proof -
  let ?here = "unconsumed_where now (s_tenantId (pp_session pp)) (s_id (pp_session pp))"
  note upd = commit_token_returns(2) [OF assms]
  then obtain x where x: "x \<in> set db" "?here x"
    using claim_session_won [of "s_tenantId (pp_session pp)" "s_id (pp_session pp)" "(now, redemption_update now pp)" db]
    by (auto simp: claim_session_def)
  from upd have "db' = map (\<lambda>r. if ?here r then set_clause now (redemption_update now pp) r else r) db"
    using claim_session_accepted [of now "s_tenantId (pp_session pp)" "s_id (pp_session pp)" "redemption_update now pp" db]
    by simp
  with x have "set_clause now (redemption_update now pp) x \<in> set db'" by auto
  with x(2) show ?thesis
    by (intro bexI [of _ "set_clause now (redemption_update now pp) x"])
      (simp_all add: unconsumed_where_iff redemption_consumes)
qed

lemma check_redeemable_returns:
  "check_redeemable s g now = Inr () \<longleftrightarrow> is_refresh g \<or>
     (\<not> s_consumed s \<and> session_usable s now
        \<and> (grantType g = PRE_AUTHORIZED_GRANT \<longleftrightarrow> offer_flow_of s = Some Pre_Authorized_Code_Flow))"
  unfolding check_redeemable_def assertCodeIssuedForGrant_def by (simp only: returns split: if_split) simp

lemma check_client_returns:
  assumes "check_client env t s p body = Inr jkt"
  shows "is_refresh (pr_grant p) \<longrightarrow> rp_enabled (resolveRefreshTokenPolicy (ov_issuanceConfiguration env t))
          \<and> (truthy (s_client_key_jkt s) \<longrightarrow> s_client_key_jkt s = jkt)"
    and "is_code (pr_grant p) \<or> is_refresh (pr_grant p) \<longrightarrow>
          assertIssuedToClient (tv_decodeJwt env) (auth_query s aq_client_id) (form ''client_id'' body)
            (attestation_jwt p) = Inr ()"
    and "is_code (pr_grant p) \<longrightarrow> form ''redirect_uri'' body = None \<or> auth_query s aq_redirect_uri = None
          \<or> form ''redirect_uri'' body = auth_query s aq_redirect_uri"
    and "is_code (pr_grant p) \<longrightarrow> checkS256Pkce (tv_sha256 env) (auth_query s aq_code_challenge)
          (auth_query s aq_code_challenge_method) (form ''code_verifier'' body) = Pkce_Valid"
    and "jkt = clientInstanceKeyThumbprint (tv_decodeJwt env) (tv_jwkThumbprint env) (attestation_jwt p)"
  using assms unfolding check_client_def Let_def
  by (auto simp: returns split: prod.splits if_splits)

lemma valid_pkce:
  assumes "checkS256Pkce sha256 (auth_query s aq_code_challenge) (auth_query s aq_code_challenge_method) verifier = Pkce_Valid"
  obtains a v where "s_auth_queries s = Some a" "verifier = Some v" "v \<noteq> []" "aq_code_challenge a = Some (sha256 v)"
    "aq_code_challenge_method a = Some ''S256''"
  using assms by (auto simp: checkS256Pkce_valid auth_query_def truthy_def split: option.splits)

text \<open>A redeemed code: the session it was found in, and what was checked.\<close>

lemma code_exchange_returns:
  assumes "exchangeAccessToken env clock others1 others2 q db = (Inr r, db')"
    and "tv_parse env (tq_body q) (tq_request q) = Inr p" "\<not> is_refresh (pr_grant p)"
  obtains s jkt dpop where
    "s \<in> set db \<and> s_tenantId s = tq_tenantId q \<and> s_authorization_code s = presented_code p
      \<and> truthy (s_authorization_code s) \<and> \<not> s_consumed s \<and> session_usable s (clock 0)"
    "grantType (pr_grant p) = PRE_AUTHORIZED_GRANT \<longleftrightarrow> offer_flow_of s = Some Pre_Authorized_Code_Flow"
    "check_client env (tq_tenantId q) s p (tq_body q) = Inr jkt"
    "check_lock env (tq_tenantId q) s (pr_grant p) = Inr ()"
    "tv_verifyGrant env (grant_check_of env (tq_tenantId q) s p (tq_request q)) = Inr dpop"
    "\<exists>s' \<in> set db'. s_id s' = s_id s \<and> s_tenantId s' = tq_tenantId q \<and> s_consumed s'"
proof -
  obtain p' s jkt dpop pp where ex: "check_request env (clock 0) q db = Inr (p', s, jkt)"
      "tv_verifyGrant env (grant_check_of env (tq_tenantId q) s p' (tq_request q)) = Inr dpop"
      "pp_session pp = s" "pp_grant pp = pr_grant p'"
      "commit_token (clock 2) pp (exec_stmts others2 db) = (Inr r, db')"
    by (rule exchange_returns [OF assms(1)])
  have p': "p' = p" using ex(1) assms(2) by (simp add: check_request_returns)
  note chk = ex(1) [unfolded check_request_returns p']
  have found: "s \<in> set db" "s_tenantId s = tq_tenantId q" "s_authorization_code s = presented_code p"
      "truthy (s_authorization_code s)"
    using find_grant_session_returns [of "tq_tenantId q" p db s] chk assms(3)
    by (auto simp: is_refresh_def split: grant.splits)
  have used: "\<exists>s' \<in> set db'. s_id s' = s_id s \<and> s_tenantId s' = tq_tenantId q \<and> s_consumed s'"
    using commit_token_consumes [OF ex(5)] assms(3) by (simp add: ex(3,4) p' found(2))
  show ?thesis
    by (rule that [OF _ _ _ _ ex(2) [unfolded p'] used])
      (use found chk assms(3) in \<open>simp_all add: check_redeemable_returns\<close>)
qed

lemma code_grant_returns:
  assumes "exchangeAccessToken env clock others1 others2 q db = (Inr r, db')"
    and "tv_parse env (tq_body q) (tq_request q) = Inr p" "pr_grant p = Authorization_Code code"
  shows "\<exists>s a v. s \<in> set db \<and> s_tenantId s = tq_tenantId q \<and> s_authorization_code s = presented_code p
    \<and> truthy (s_authorization_code s) \<and> \<not> s_consumed s \<and> session_usable s (clock 0)
    \<and> offer_flow_of s \<noteq> Some Pre_Authorized_Code_Flow \<and> s_auth_queries s = Some a
    \<and> form ''code_verifier'' (tq_body q) = Some v \<and> v \<noteq> [] \<and> aq_code_challenge a = Some (tv_sha256 env v)
    \<and> (form ''redirect_uri'' (tq_body q) = None \<or> aq_redirect_uri a = None
       \<or> form ''redirect_uri'' (tq_body q) = aq_redirect_uri a)
    \<and> assertIssuedToClient (tv_decodeJwt env) (aq_client_id a) (form ''client_id'' (tq_body q)) (attestation_jwt p) = Inr ()
    \<and> (\<exists>c dpop. tv_verifyGrant env c = Inr dpop \<and> gc_grant c = Authorization_Code code
        \<and> gc_expectedCode c = s_authorization_code s \<and> gc_expiresAt c = s_authorization_code_expires_at s
        \<and> gc_codeChallenge c = aq_code_challenge a)
    \<and> (\<exists>s' \<in> set db'. s_id s' = s_id s \<and> s_tenantId s' = tq_tenantId q \<and> s_consumed s')"
proof -
  have grant: "is_refresh (pr_grant p) = False" "is_code (pr_grant p) = True"
    using assms(3) by (simp_all add: is_refresh_def is_code_def)
  obtain s jkt dpop where ex: "s \<in> set db \<and> s_tenantId s = tq_tenantId q \<and> s_authorization_code s = presented_code p
      \<and> truthy (s_authorization_code s) \<and> \<not> s_consumed s \<and> session_usable s (clock 0)"
      "grantType (pr_grant p) = PRE_AUTHORIZED_GRANT \<longleftrightarrow> offer_flow_of s = Some Pre_Authorized_Code_Flow"
      "check_client env (tq_tenantId q) s p (tq_body q) = Inr jkt"
      "tv_verifyGrant env (grant_check_of env (tq_tenantId q) s p (tq_request q)) = Inr dpop"
      "\<exists>s' \<in> set db'. s_id s' = s_id s \<and> s_tenantId s' = tq_tenantId q \<and> s_consumed s'"
    by (rule code_exchange_returns [OF assms(1,2)]) (simp_all add: grant)
  note client = check_client_returns(2-4) [OF ex(3), unfolded grant, simplified]
  have flow: "offer_flow_of s \<noteq> Some Pre_Authorized_Code_Flow" using ex(2) assms(3) by simp
  obtain a v where a: "s_auth_queries s = Some a" "form ''code_verifier'' (tq_body q) = Some v" "v \<noteq> []"
      "aq_code_challenge a = Some (tv_sha256 env v)"
    by (rule valid_pkce [OF client(3)])
  let ?c = "grant_check_of env (tq_tenantId q) s p (tq_request q)"
  have lib: "gc_grant ?c = Authorization_Code code" "gc_expectedCode ?c = s_authorization_code s"
      "gc_expiresAt ?c = s_authorization_code_expires_at s" "gc_codeChallenge ?c = aq_code_challenge a"
    by (simp_all add: grant_check_of_def Let_def assms(3) auth_query_def a(1))
  show ?thesis
    using ex(1) flow client(1,2) [unfolded auth_query_def a(1), simplified] a lib ex(4,5)
    by (elim conjE, intro exI [of _ s] exI [of _ a] exI [of _ v] conjI) (assumption | blast)+
qed


text \<open>C9: Soundness of the pre-authorized code grant: a token is issued only for an unconsumed and usable
  session of the tenant that holds the presented code and was opened for the pre-authorized flow, whose
  transaction code is not locked; the library verified the transaction code of the offer and a lifetime
  counted from the creation of the session, and afterwards the session is consumed.\<close>

theorem pre_authorized_grant_sound:
  assumes "exchangeAccessToken env clock others1 others2 q db = (Inr r, db')"
    and "tv_parse env (tq_body q) (tq_request q) = Inr p" "pr_grant p = Pre_Authorized_Code code tx"
  shows "\<exists>s. s \<in> set db \<and> s_tenantId s = tq_tenantId q \<and> s_authorization_code s = presented_code p
    \<and> truthy (s_authorization_code s) \<and> \<not> s_consumed s \<and> session_usable s (clock 0)
    \<and> offer_flow_of s = Some Pre_Authorized_Code_Flow
    \<and> (truthy (tx_code_of s) \<longrightarrow> s_txCodeFailedAttempts s < max_attempts env (tq_tenantId q))
    \<and> (\<exists>c dpop. tv_verifyGrant env c = Inr dpop \<and> gc_grant c = Pre_Authorized_Code code tx
        \<and> gc_expectedCode c = s_authorization_code s \<and> gc_expectedTxCode c = tx_code_of s
        \<and> gc_expiresAt c = Some (s_createdAt s + ov_sessionTtlSeconds env (tq_tenantId q) * 1000))
    \<and> (\<exists>s' \<in> set db'. s_id s' = s_id s \<and> s_tenantId s' = tq_tenantId q \<and> s_consumed s')"
proof -
  have grant: "is_refresh (pr_grant p) = False" using assms(3) by (simp add: is_refresh_def)
  obtain s dpop where ex: "s \<in> set db \<and> s_tenantId s = tq_tenantId q \<and> s_authorization_code s = presented_code p
      \<and> truthy (s_authorization_code s) \<and> \<not> s_consumed s \<and> session_usable s (clock 0)"
      "grantType (pr_grant p) = PRE_AUTHORIZED_GRANT \<longleftrightarrow> offer_flow_of s = Some Pre_Authorized_Code_Flow"
      "check_lock env (tq_tenantId q) s (pr_grant p) = Inr ()"
      "tv_verifyGrant env (grant_check_of env (tq_tenantId q) s p (tq_request q)) = Inr dpop"
      "\<exists>s' \<in> set db'. s_id s' = s_id s \<and> s_tenantId s' = tq_tenantId q \<and> s_consumed s'"
    by (rule code_exchange_returns [OF assms(1,2)]) (simp_all add: grant)
  have flow: "offer_flow_of s = Some Pre_Authorized_Code_Flow" using ex(2) assms(3) by simp
  have unlocked: "truthy (tx_code_of s) \<longrightarrow> s_txCodeFailedAttempts s < max_attempts env (tq_tenantId q)"
    using ex(3) assms(3) by (auto simp: check_lock_def returns isTxCodeLocked_def coalesce_def)
  let ?c = "grant_check_of env (tq_tenantId q) s p (tq_request q)"
  have lib: "gc_grant ?c = Pre_Authorized_Code code tx" "gc_expectedCode ?c = s_authorization_code s"
      "gc_expectedTxCode ?c = tx_code_of s"
      "gc_expiresAt ?c = Some (s_createdAt s + ov_sessionTtlSeconds env (tq_tenantId q) * 1000)"
    by (simp_all add: grant_check_of_def Let_def assms(3) preAuthorizedCodeExpiresAt_def)
  show ?thesis
    using ex(1) flow unlocked lib ex(4,5)
    by (elim conjE, intro exI [of _ s] conjI) (assumption | blast)+
qed


section \<open>A concrete authorization server\<close>

definition config1 :: issuance_settings where
  "config1 = \<lparr>is_authorizationServers = None, is_signingKeyId = None, is_dPopRequired = None,
     is_txCodeMaxAttempts = Some 3, is_walletAttestationRequired = None, is_walletProviderTrustLists = None\<rparr>"

definition parse1 :: "json option \<Rightarrow> json \<Rightarrow> thrown + parsed_request" where
  "parse1 body request =
     (let result = (\<lambda>g. Inr \<lparr>pr_grant = g, pr_accessTokenRequest = the body, pr_clientAttestation = None,
            pr_dpopJwt = None, pr_pkceCodeVerifier = form ''code_verifier'' body\<rparr>)
      in case (form ''code'' body, form ''pre-authorized_code'' body, form ''refresh_token'' body) of
           (Some c, _) \<Rightarrow> result (Authorization_Code c)
         | (None, Some c, _) \<Rightarrow> result (Pre_Authorized_Code c (form ''tx_code'' body))
         | (None, None, Some t) \<Rightarrow> result (Refresh_Token t)
         | _ \<Rightarrow> Inl (Thrown None))"

definition verify1 :: "grant_check \<Rightarrow> thrown + string option" where
  "verify1 c =
     (case gc_grant c of
        Pre_Authorized_Code _ tx \<Rightarrow>
          (if tx = gc_expectedTxCode c then Inr None
           else Inl (Thrown (Some (JObj [(''errorResponse'', JObj [(''error'', JStr ''invalid_grant'')])]))))
      | _ \<Rightarrow> Inr None)"

definition tenv1 :: token_env where
  "tenv1 = \<lparr>ov_publicUrl = ''h'', ov_issuanceConfiguration = (\<lambda>_. config1), ov_sessionTtlSeconds = (\<lambda>_. 900),
     ov_verifyAttestation = (\<lambda>_ _ _ _ _. Inr ()), ov_verifyPar = (\<lambda>_. Inr None),
     ov_set_params = (\<lambda>u ps. Some (u @ concat (map (\<lambda>(k, v). ''&'' @ k @ ''='' @ v) ps))),
     tv_parse = parse1, tv_decodeJwt = JStr, tv_jwkThumbprint = (\<lambda>_. []), tv_sha256 = (\<lambda>v. ''h:'' @ v),
     tv_json_parse = (\<lambda>_. None), tv_verifyGrant = verify1, tv_defaultKeyId = (\<lambda>_. ''k1''),
     tv_createResponse = (\<lambda>ri. Inr \<lparr>tr_access_token = ri_subject ri,
       tr_refresh_token = (if ri_refreshToken ri then Some ''rt'' else None), tr_authorization_details = None\<rparr>)\<rparr>"

definition form_request :: "(string \<times> string) list \<Rightarrow> token_request" where
  "form_request ps = \<lparr>tq_tenantId = ''acme'', tq_body = Some (JObj (map (\<lambda>(k, v). (k, JStr v)) ps)), tq_request = JNull\<rparr>"

definition offer_row :: "string option \<Rightarrow> nat \<Rightarrow> session" where
  "offer_row tx n = (blank_session ''s2'' ''acme'' 0)\<lparr>s_expiresAt := Some 900000, s_authorization_code := Some ''p1'',
     s_txCodeFailedAttempts := n,
     s_credentialPayload := Some \<lparr>or_response_type = Uri_Response, or_flow = Pre_Authorized_Code_Flow, or_tx_code = tx,
       or_tx_code_description = None, or_credentialConfigurationIds = [], or_authorization_server = None,
       or_credentialClaims = None, or_webhookEndpointId = None, or_offerLifetimeSeconds = None, or_reference = None\<rparr>\<rparr>"

lemmas token_run = jget_def jstr_def exchangeAccessToken_def prepare_token_def check_request_def find_grant_session_def
  getByAuthorizationCode_def getByRefreshToken_def store_lookup_def findByAuthorizationCode_def findByRefreshToken_def
  presented_code_def form_def sql_find_one_def check_redeemable_def is_refresh_def is_code_def
  assertCodeIssuedForGrant_def offer_flow_of_def check_client_def Let_def
  resolveWalletAttestationPolicy_def findBuiltInAuthorizationServer_def resolveRefreshTokenPolicy_def
  refreshTokenPolicy_def assertIssuedToClient_def attested_client_def attestation_jwt_def auth_query_def
  checkS256Pkce_def checkPkce_def clientInstanceKeyThumbprint_def check_lock_def tx_code_of_def max_attempts_def
  isTxCodeLocked_def grant_check_of_def create_response_def authorizationDetailsForToken_def requested_details_def
  builtInAccessTokenSettings_def token_setting_def truthy_or_def walletSeesAuthorizationDetails_def
  commit_token_def redemption_update_def refreshTokenExpiresAt_def coalesce_def coalesce_opt_def opt_assign_def
  enforcedRefreshTokenExpiry_def preAuthorizedCodeExpiresAt_def updateUnconsumedForTenant_def sql_update_def
  unconsumed_where_iff session_usable_def set_clause_def ebind_def require_def assertOfferRedeemable_def
  assertSessionUsable_def DEFAULT_REFRESH_TOKEN_LIFETIME_SECONDS_def ACCESS_TOKEN_LIFETIME_SECONDS_def
  tenv1_def parse1_def verify1_def config1_def form_request_def trow1_def offer_row_def blank_session_def

lemma token_run_code:
  "exchangeAccessToken tenv1 (\<lambda>_. 5) [] []
     (form_request [(''code'', ''c1''), (''code_verifier'', ''v1''), (''client_id'', ''w1'')]) [trow1] =
   (Inr \<lparr>tr_access_token = ''s1'', tr_refresh_token = Some ''rt'', tr_authorization_details = None\<rparr>,
    [trow1\<lparr>s_updatedAt := 5, s_consumed := True, s_refresh_token := Some ''rt'',
       s_refresh_token_expires_at := Some 2592000005\<rparr>])"
  by (simp add: token_run)

lemma token_run_pre_authorized:
  "exchangeAccessToken tenv1 (\<lambda>_. 5) [] []
     (form_request [(''pre-authorized_code'', ''p1''), (''tx_code'', ''42'')]) [offer_row (Some ''42'') 2] =
   (Inr \<lparr>tr_access_token = ''s2'', tr_refresh_token = Some ''rt'', tr_authorization_details = None\<rparr>,
    [(offer_row (Some ''42'') 2)\<lparr>s_updatedAt := 5, s_consumed := True, s_refresh_token := Some ''rt'',
       s_refresh_token_expires_at := Some 2592000005\<rparr>])"
  by (simp add: token_run PRE_AUTHORIZED_GRANT_def grantType_def)

lemma token_run_refresh:
  "exchangeAccessToken tenv1 (\<lambda>_. 5) [] [] (form_request [(''refresh_token'', ''rt''), (''client_id'', ''w1'')])
     [trow1\<lparr>s_consumed := True, s_refresh_token := Some ''rt''\<rparr>] =
   (Inr \<lparr>tr_access_token = ''s1'', tr_refresh_token = None, tr_authorization_details = None\<rparr>,
    [trow1\<lparr>s_consumed := True, s_refresh_token := Some ''rt''\<rparr>])"
  by (simp add: token_run)

lemma parse_code:
  "tv_parse tenv1 (tq_body (form_request [(''code'', c), (''code_verifier'', v), (''client_id'', i)])) request =
     Inr \<lparr>pr_grant = Authorization_Code c,
       pr_accessTokenRequest = the (tq_body (form_request [(''code'', c), (''code_verifier'', v), (''client_id'', i)])),
       pr_clientAttestation = None, pr_dpopJwt = None, pr_pkceCodeVerifier = Some v\<rparr>"
  by (simp add: tenv1_def parse1_def form_request_def form_def jget_def jstr_def)

lemma parse_pre_authorized:
  "tv_parse tenv1 (tq_body (form_request [(''pre-authorized_code'', c), (''tx_code'', tx)])) request =
     Inr \<lparr>pr_grant = Pre_Authorized_Code c (Some tx),
       pr_accessTokenRequest = the (tq_body (form_request [(''pre-authorized_code'', c), (''tx_code'', tx)])),
       pr_clientAttestation = None, pr_dpopJwt = None, pr_pkceCodeVerifier = None\<rparr>"
  by (simp add: tenv1_def parse1_def form_request_def form_def jget_def jstr_def)

lemma parse_refresh:
  "tv_parse tenv1 (tq_body (form_request [(''refresh_token'', t), (''client_id'', i)])) request =
     Inr \<lparr>pr_grant = Refresh_Token t,
       pr_accessTokenRequest = the (tq_body (form_request [(''refresh_token'', t), (''client_id'', i)])),
       pr_clientAttestation = None, pr_dpopJwt = None, pr_pkceCodeVerifier = None\<rparr>"
  by (simp add: tenv1_def parse1_def form_request_def form_def jget_def jstr_def)


theorem pre_authorized_grant_sound_witness:
  "\<exists>s. s \<in> set [offer_row (Some ''42'') 2] \<and> offer_flow_of s = Some Pre_Authorized_Code_Flow \<and>
     (truthy (tx_code_of s) \<longrightarrow> s_txCodeFailedAttempts s < max_attempts tenv1 ''acme'')"
  using pre_authorized_grant_sound [OF token_run_pre_authorized parse_pre_authorized parsed_request.select_convs(1)]
  unfolding form_request_def token_request.select_convs by blast



section \<open>Transaction codes\<close>

lemma attempts_of_row:
  assumes "unique_key s_id db" "s \<in> set db" "list_all (counts_fairly (s_id s)) ss"
    and "r \<in> set (exec_stmts ss db)" "s_id r = s_id s"
  shows "s_tenantId r = s_tenantId s"
    and "s_txCodeFailedAttempts r =
      s_txCodeFailedAttempts s + length (filter (is_increment (s_tenantId s) (s_id s)) ss)"
  using exec_stmts_all_attempts [OF assms(3) unique_all_attempts [OF assms(1,2)]] assms(4,5)
  by (simp_all add: all_attempts_def)

text \<open>A wrong transaction code yields no token and is counted, together with every other attempt of
  that moment, and the answer is the lock message exactly when the count has reached the limit.\<close>

theorem wrong_tx_code_counted:
  assumes "unique_key s_id db" "check_request env (clock 0) q db = Inr (p, s, jkt)"
    and "pr_grant p = Pre_Authorized_Code code (Some tx)" "tx_code_of s = Some expected"
    and "tx \<noteq> expected" "tx \<noteq> []" "expected \<noteq> []"
    and "tv_verifyGrant env (grant_check_of env (tq_tenantId q) s p (tq_request q)) = Inl err"
    and "thrown_code err = Invalid_Grant" "list_all (counts_fairly (s_id s)) others"
    and "exchangeAccessToken env clock others others2 q db = (result, db')"
    and "r \<in> set db'" "s_id r = s_id s"
    and "n = s_txCodeFailedAttempts s + 1 + length (filter (is_increment (s_tenantId s) (s_id s)) others)"
  shows "s_txCodeFailedAttempts r = n \<and> result = Inl (Token_Error
    (if max_attempts env (tq_tenantId q) \<le> n then OAuthError Invalid_Grant TX_CODE_LOCKED_DESCRIPTION
     else \<lparr>oa_code = Invalid_Grant, oa_description = describeLibraryError (thrown_json err),
       oa_clientAuthenticationFailed = False\<rparr>))"
proof -
  let ?t = "tq_tenantId q" let ?m = "max_attempts env (tq_tenantId q)"
  have s: "s \<in> set db" "s_tenantId s = ?t"
    using find_grant_session_returns [of ?t p db s] assms(2) by (simp_all add: check_request_returns)
  have wrong: "wrong_tx_code s (Some tx) err" using assms(4-7,9) by (simp add: wrong_tx_code_def truthy_def)
  obtain res where rec: "recordFailedTxCodeAttempt (clock 1) others (s_tenantId s) (s_id s) ?m db = (res, db')"
      and result: "result = Inl (case res of Inl _ \<Rightarrow> Internal_Error | Inr a \<Rightarrow> Token_Error
        (if ar_locked a then OAuthError Invalid_Grant TX_CODE_LOCKED_DESCRIPTION
         else \<lparr>oa_code = Invalid_Grant, oa_description = describeLibraryError (thrown_json err),
           oa_clientAuthenticationFailed = False\<rparr>))"
    using assms(11)
    by (auto simp: exchangeAccessToken_def prepare_token_def assms(2,3,8,9) preAuthorizedCodeError_def wrong s(2)
        split: prod.splits sum.splits if_splits)
  have db': "db' = exec_stmts (Stmt_Increment (clock 1) (s_tenantId s) (s_id s) # others) db"
    using rec by (simp add: recordFailedTxCodeAttempt_def Let_def)
  have row: "s_tenantId r = s_tenantId s" "s_txCodeFailedAttempts r = n"
    using attempts_of_row [OF assms(1) s(1) _ assms(12) [unfolded db'] assms(13)] assms(10,14) by simp_all
  have "res = Inr \<lparr>ar_failedAttempts = n, ar_locked = (?m \<le> n)\<rparr>"
    by (rule recordFailedTxCodeAttempt_counts [OF assms(1) s(1) assms(10) rec assms(12,13) row(1) assms(14)])
  with row show ?thesis by (simp add: result)
qed

text \<open>The lockout holds: after as many counted attempts as the limit allows, whatever else ran in
  between, no request that presents the code of the session gets a token, not even with the right
  transaction code, and nothing is written.\<close>

theorem locked_code_refused:
  assumes "unique_key s_id db" "s \<in> set db" "list_all (counts_fairly (s_id s)) ss"
    and "max_attempts env (tq_tenantId q) \<le>
      s_txCodeFailedAttempts s + length (filter (is_increment (s_tenantId s) (s_id s)) ss)"
    and "tv_parse env (tq_body q) (tq_request q) = Inr p" "pr_grant p = Pre_Authorized_Code code tx"
    and "find_grant_session (tq_tenantId q) p (exec_stmts ss db) = Inr r" "s_id r = s_id s" "truthy (tx_code_of r)"
  shows "\<exists>e. exchangeAccessToken env clock others1 others2 q (exec_stmts ss db) = (Inl (Token_Error e), exec_stmts ss db)"
proof -
  have "r \<in> set (exec_stmts ss db)" by (rule find_grant_session_returns(1) [OF assms(7)])
  then have "max_attempts env (tq_tenantId q) \<le> s_txCodeFailedAttempts r"
    using attempts_of_row(2) [OF assms(1-3) _ assms(8)] assms(4) by simp
  then have "check_lock env (tq_tenantId q) r (pr_grant p) \<noteq> Inr ()"
    by (simp add: check_lock_def assms(6,9) returns isTxCodeLocked_def coalesce_def)
  then obtain e where "check_request env (clock 0) q (exec_stmts ss db) = Inl e"
    using assms(5,7) by (cases "check_request env (clock 0) q (exec_stmts ss db)") (auto simp: check_request_returns)
  then show ?thesis by (simp add: exchangeAccessToken_def prepare_token_def)
qed

definition guess :: "string \<Rightarrow> token_request" where
  "guess tx = form_request [(''pre-authorized_code'', ''p1''), (''tx_code'', tx)]"

lemma guess_checked:
  "check_request tenv1 5 (guess tx) [offer_row (Some ''42'') 2] =
     Inr (\<lparr>pr_grant = Pre_Authorized_Code ''p1'' (Some tx), pr_accessTokenRequest = the (tq_body (guess tx)),
       pr_clientAttestation = None, pr_dpopJwt = None, pr_pkceCodeVerifier = None\<rparr>, offer_row (Some ''42'') 2, None)"
  by (simp add: guess_def token_run PRE_AUTHORIZED_GRANT_def grantType_def)

lemma wrong_guess_run:
  "exchangeAccessToken tenv1 (\<lambda>_. 5) [] [] (guess ''41'') [offer_row (Some ''42'') 2] =
     (Inl (Token_Error (OAuthError Invalid_Grant TX_CODE_LOCKED_DESCRIPTION)),
      [(offer_row (Some ''42'') 2)\<lparr>s_updatedAt := 5, s_txCodeFailedAttempts := 3\<rparr>])"
  by (simp add: token_run guess_def PRE_AUTHORIZED_GRANT_def grantType_def preAuthorizedCodeError_def
      wrong_tx_code_def thrown_code_def thrown_json_def not_null_def toTokenErrorCode_def recordFailedTxCodeAttempt_def
      increment_statement_def read_failed_attempts_def evaluate_attempts_def)

theorem wrong_tx_code_counted_witness:
  "s_txCodeFailedAttempts ((offer_row (Some ''42'') 2)\<lparr>s_updatedAt := 5, s_txCodeFailedAttempts := 3\<rparr>) = 3"
proof -
  have err: "tv_verifyGrant tenv1 (grant_check_of tenv1 (tq_tenantId (guess ''41'')) (offer_row (Some ''42'') 2)
      \<lparr>pr_grant = Pre_Authorized_Code ''p1'' (Some ''41''), pr_accessTokenRequest = the (tq_body (guess ''41'')),
       pr_clientAttestation = None, pr_dpopJwt = None, pr_pkceCodeVerifier = None\<rparr> (tq_request (guess ''41''))) =
    Inl (Thrown (Some (JObj [(''errorResponse'', JObj [(''error'', JStr ''invalid_grant'')])])))"
    by (simp add: token_run guess_def)
  have code: "thrown_code (Thrown (Some (JObj [(''errorResponse'', JObj [(''error'', JStr ''invalid_grant'')])]))) = Invalid_Grant"
    by (simp add: thrown_code_def thrown_json_def not_null_def jget_def jstr_def coalesce_opt_def toTokenErrorCode_def Let_def)
  have row: "tx_code_of (offer_row (Some ''42'') 2) = Some ''42''" "s_tenantId (offer_row (Some ''42'') 2) = ''acme''"
    by (simp_all add: tx_code_of_def offer_row_def blank_session_def)
  have counted: "list_all (counts_fairly (s_id (offer_row (Some ''42'') 2))) []" by simp
  show ?thesis
    by (rule conjunct1 [OF wrong_tx_code_counted [where clock = "\<lambda>_. 5" and env = tenv1 and ?others2.0 = "[]",
          OF _ guess_checked parsed_request.select_convs(1) row(1) _ _ _ err code counted wrong_guess_run]])
      (simp_all add: unique_key_def offer_row_def)
qed

theorem locked_code_refused_witness:
  "\<exists>e db. exchangeAccessToken tenv1 (\<lambda>_. 5) [] [] (guess ''42'')
     (exec_stmts [Stmt_Increment 4 ''acme'' ''s2''] [offer_row (Some ''42'') 2]) = (Inl (Token_Error e), db)"
proof -
  let ?r = "(offer_row (Some ''42'') 2)\<lparr>s_updatedAt := 4, s_txCodeFailedAttempts := 3\<rparr>"
  have run: "exec_stmts [Stmt_Increment 4 ''acme'' ''s2''] [offer_row (Some ''42'') 2] = [?r]"
    by (simp add: offer_row_def increment_statement_def sql_update_def blank_session_def)
  have parse: "tv_parse tenv1 (tq_body (guess ''42'')) (tq_request (guess ''42'')) =
     Inr \<lparr>pr_grant = Pre_Authorized_Code ''p1'' (Some ''42''), pr_accessTokenRequest = the (tq_body (guess ''42'')),
       pr_clientAttestation = None, pr_dpopJwt = None, pr_pkceCodeVerifier = None\<rparr>"
    unfolding guess_def by (rule parse_pre_authorized)
  have found: "find_grant_session (tq_tenantId (guess ''42'')) \<lparr>pr_grant = Pre_Authorized_Code ''p1'' (Some ''42''),
      pr_accessTokenRequest = the (tq_body (guess ''42'')), pr_clientAttestation = None, pr_dpopJwt = None,
      pr_pkceCodeVerifier = None\<rparr> (exec_stmts [Stmt_Increment 4 ''acme'' ''s2''] [offer_row (Some ''42'') 2]) = Inr ?r"
    unfolding run by (simp add: guess_def token_run)
  have limit: "max_attempts tenv1 (tq_tenantId (guess ''42'')) \<le> s_txCodeFailedAttempts (offer_row (Some ''42'') 2)
      + length (filter (is_increment (s_tenantId (offer_row (Some ''42'') 2)) (s_id (offer_row (Some ''42'') 2)))
          [Stmt_Increment 4 ''acme'' ''s2''])"
    by (simp add: max_attempts_def tenv1_def config1_def coalesce_def offer_row_def blank_session_def)
  have "\<exists>e. exchangeAccessToken tenv1 (\<lambda>_. 5) [] [] (guess ''42'')
      (exec_stmts [Stmt_Increment 4 ''acme'' ''s2''] [offer_row (Some ''42'') 2])
      = (Inl (Token_Error e), exec_stmts [Stmt_Increment 4 ''acme'' ''s2''] [offer_row (Some ''42'') 2])"
    by (rule locked_code_refused [OF _ _ _ limit parse parsed_request.select_convs(1) found])
      (simp_all add: unique_key_def tx_code_of_def offer_row_def)
  then show ?thesis by blast
qed

text \<open>The check of the lock and the redemption are two steps: a request that passed the check gets its
  token although the limit is reached before it redeems the code.\<close>

lemma locked_code_still_redeemed:
  "fst (exchangeAccessToken tenv1 (\<lambda>_. 5) [] [Stmt_Increment 4 ''acme'' ''s2''] (guess ''42'')
     [offer_row (Some ''42'') 2]) = Inr \<lparr>tr_access_token = ''s2'', tr_refresh_token = Some ''rt'', tr_authorization_details = None\<rparr>"
  by (simp add: token_run guess_def PRE_AUTHORIZED_GRANT_def grantType_def increment_statement_def)

end
