(* ===== verification/Authorization_Flow.thy ===== *)
theory Authorization_Flow
  imports OAuth_Properties
begin

text \<open>
  The way from a pushed authorization request over the authorization code to the token: what an
  accepted push proves and stores, the redirect with the code and its single use, and PKCE from the
  push to the token.
\<close>

section \<open>A pushed request\<close>

lemma par_row:
  "s_request_uri (apply_assigns (par_values uri now body jkt) r) = Some uri"
  "s_request_uri_expires_at (apply_assigns (par_values uri now body jkt) r) = Some (now + 60000)"
  "s_auth_queries (apply_assigns (par_values uri now body jkt) r) = Some body"
  "s_status (apply_assigns (par_values uri now body jkt) r) = s_status r"
  "s_expiresAt (apply_assigns (par_values uri now body jkt) r) = s_expiresAt r"
  by (simp_all add: par_values_def opt_assign_def PAR_REQUEST_URI_LIFETIME_SECONDS_def split: option.splits)

lemma par_row_set:
  "s_request_uri (set_clause now' (par_values uri now body jkt) r) = Some uri"
  "s_request_uri_expires_at (set_clause now' (par_values uri now body jkt) r) = Some (now + 60000)"
  "s_auth_queries (set_clause now' (par_values uri now body jkt) r) = Some body"
  by (simp_all add: set_clause_def par_row)

lemma assertValidPushedAuthorizationRequest_returns [returns]:
  "assertValidPushedAuthorizationRequest body = Inr u \<longleftrightarrow>
     \<not> truthy (aq_request_uri body) \<and> aq_response_type body = Some ''code'' \<and> truthy (aq_client_id body)
     \<and> truthy (aq_redirect_uri body) \<and> truthy (aq_code_challenge body) \<and> aq_code_challenge_method body = Some ''S256''"
  by (auto simp: assertValidPushedAuthorizationRequest_def assertS256CodeChallenge_def returns)

lemma verify_par_returns:
  assumes "verify_par env q = Inr jkt"
  shows "assertValidPushedAuthorizationRequest (pq_body q) = Inr ()"
  using assms by (auto simp: verify_par_def Let_def returns split: prod.splits)

text \<open>The two statements of an accepted push.\<close>

definition stores_push :: "string \<Rightarrow> string \<Rightarrow> date \<Rightarrow> session_authorization \<Rightarrow> session \<Rightarrow> bool" where
  "stores_push t uri now body r \<longleftrightarrow> s_tenantId r = t \<and> s_request_uri r = Some uri
     \<and> s_request_uri_expires_at r = Some (now + 60000) \<and> s_auth_queries r = Some body"

lemma push_returns:
  assumes "pushAuthorizationRequest env clock others uuid newId q db = (Inr resp, db')"
  obtains u i where "resp = \<lparr>ps_expires_in = 60, ps_request_uri = request_uri_prefix @ uuid\<rparr>"
    "assertValidPushedAuthorizationRequest (pq_body q) = Inr ()"
    "\<exists>jkt. u = par_values (request_uri_prefix @ uuid) (clock 1) (pq_body q) jkt"
    "(\<exists>r \<in> set (exec_stmts others db). s_tenantId r = pq_tenantId q \<and> s_id r = i)
        \<and> db' = exec_stmt (Stmt_Update (clock 1) (pq_tenantId q) i u) (exec_stmts others db)
      \<or> db' = exec_stmt (Stmt_Create (clock 1) \<lparr>ns_id = i, ns_tenantId = pq_tenantId q, ns_columns = u\<rparr>)
          (exec_stmts others db)"
proof -
  let ?t = "pq_tenantId q" and ?state = "aq_issuer_state (pq_body q)"
  let ?u = "\<lambda>jkt. par_values (request_uri_prefix @ uuid) (clock 1) (pq_body q) jkt"
  obtain jkt where jkt: "verify_par env q = Inr jkt"
      and resp: "resp = \<lparr>ps_expires_in = 60, ps_request_uri = request_uri_prefix @ uuid\<rparr>"
      and db': "db' = (case (if truthy ?state then updateForTenant (clock 1) ?t (the ?state) (?u jkt) (exec_stmts others db)
            else (exec_stmts others db, 0)) of
          (db2, affected) \<Rightarrow> if affected = 0
            then snd (createSession_execute (clock 1) \<lparr>ns_id = newId, ns_tenantId = ?t, ns_columns = ?u jkt\<rparr> db2) else db2)"
    using assms by (auto simp: pushAuthorizationRequest_def PAR_REQUEST_URI_LIFETIME_SECONDS_def Let_def
        simp del: One_nat_def split: sum.splits prod.splits)
  obtain db2 n where upd: "updateForTenant (clock 1) ?t (the ?state) (?u jkt) (exec_stmts others db) = (db2, n)" by fastforce
  show ?thesis
  proof (cases "truthy ?state \<and> 0 < n")
    case True
    then have "\<exists>r \<in> set (exec_stmts others db). s_tenantId r = ?t \<and> s_id r = the ?state"
      using upd sql_update_affected [of "\<lambda>r. s_tenantId r = ?t \<and> s_id r = the ?state" "set_clause (clock 1) (?u jkt)" "exec_stmts others db"]
      by (simp add: updateForTenant_def)
    moreover have "db' = exec_stmt (Stmt_Update (clock 1) ?t (the ?state) (?u jkt)) (exec_stmts others db)"
      using True db' upd by simp
    ultimately show ?thesis
      using that [OF resp verify_par_returns [OF jkt], of "?u jkt" "the ?state"] by blast
  next
    case False
    then have "n = 0 \<Longrightarrow> db2 = exec_stmts others db"
      using upd sql_update_not_affected [of "\<lambda>r. s_tenantId r = ?t \<and> s_id r = the ?state" "set_clause (clock 1) (?u jkt)" "exec_stmts others db"]
      by (simp add: updateForTenant_def)
    then have "db' = exec_stmt (Stmt_Create (clock 1) \<lparr>ns_id = newId, ns_tenantId = ?t, ns_columns = ?u jkt\<rparr>) (exec_stmts others db)"
      using False db' upd by (simp add: createSession_execute_def split: if_splits)
    then show ?thesis
      using that [OF resp verify_par_returns [OF jkt], of "?u jkt" newId] by blast
  qed
qed

lemma push_stored:
  assumes "pushAuthorizationRequest env clock others uuid newId q db = (Inr resp, db')"
  shows "\<exists>r \<in> set db'. stores_push (pq_tenantId q) (request_uri_prefix @ uuid) (clock 1) (pq_body q) r"
proof -
  let ?db = "exec_stmts others db"
  obtain u i where u: "\<exists>jkt. u = par_values (request_uri_prefix @ uuid) (clock 1) (pq_body q) jkt"
    and db': "(\<exists>r \<in> set ?db. s_tenantId r = pq_tenantId q \<and> s_id r = i)
        \<and> db' = exec_stmt (Stmt_Update (clock 1) (pq_tenantId q) i u) ?db
      \<or> db' = exec_stmt (Stmt_Create (clock 1) \<lparr>ns_id = i, ns_tenantId = pq_tenantId q, ns_columns = u\<rparr>) ?db"
    by (rule push_returns [OF assms])
  from u obtain jkt where u: "u = par_values (request_uri_prefix @ uuid) (clock 1) (pq_body q) jkt" by blast
  from db' show ?thesis
  proof (elim disjE conjE bexE)
    fix r assume "r \<in> set ?db" "s_tenantId r = pq_tenantId q" "s_id r = i"
      and "db' = exec_stmt (Stmt_Update (clock 1) (pq_tenantId q) i u) ?db"
    then show ?thesis
      by (intro bexI [of _ "set_clause (clock 1) u r"])
        (auto simp: updateForTenant_def sql_update_rows stores_push_def u par_row_set)
  next
    assume create: "db' = exec_stmt (Stmt_Create (clock 1) \<lparr>ns_id = i, ns_tenantId = pq_tenantId q, ns_columns = u\<rparr>) ?db"
    show ?thesis
    proof (cases "sql_find_one (\<lambda>r. s_id r = i) ?db")
      case None
      then show ?thesis by (simp add: create repo_create_def Let_def stores_push_def u par_row blank_session_def)
    next
      case (Some r)
      with sql_find_one_Some [OF Some] show ?thesis
        by (intro bexI [of _ "(set_clause (clock 1) u r)\<lparr>s_tenantId := pq_tenantId q\<rparr>"])
          (auto simp: create repo_create_def Let_def sql_update_rows stores_push_def u par_row_set)
    qed
  qed
qed

text \<open>With a fresh URI it names one session.\<close>

lemma push_unique:
  assumes "pushAuthorizationRequest env clock others uuid newId q db = (Inr resp, db')" "unique_key s_id db"
    and "\<forall>r \<in> set (exec_stmts others db). s_request_uri r \<noteq> Some (request_uri_prefix @ uuid)"
    and "r \<in> set db'" "s_request_uri r = Some (request_uri_prefix @ uuid)"
    and "r' \<in> set db'" "s_request_uri r' = Some (request_uri_prefix @ uuid)"
  shows "r' = r"
proof -
  let ?db = "exec_stmts others db"
  obtain u i where db': "(\<exists>r \<in> set ?db. s_tenantId r = pq_tenantId q \<and> s_id r = i)
        \<and> db' = exec_stmt (Stmt_Update (clock 1) (pq_tenantId q) i u) ?db
      \<or> db' = exec_stmt (Stmt_Create (clock 1) \<lparr>ns_id = i, ns_tenantId = pq_tenantId q, ns_columns = u\<rparr>) ?db"
    by (rule push_returns [OF assms(1)])
  have key: "unique_key s_id db'"
    using db' exec_stmt_unique_key [OF exec_stmts_unique_key [OF assms(2)]] by blast
  have "s_id x = i" if "x \<in> set db'" "s_request_uri x = Some (request_uri_prefix @ uuid)" for x
    using db'
  proof (elim disjE conjE)
    assume "db' = exec_stmt (Stmt_Update (clock 1) (pq_tenantId q) i u) ?db"
    then show ?thesis using that assms(3) by (auto simp: updateForTenant_def sql_update_rows split: if_splits)
  next
    assume "db' = exec_stmt (Stmt_Create (clock 1) \<lparr>ns_id = i, ns_tenantId = pq_tenantId q, ns_columns = u\<rparr>) ?db"
    then have "x \<in> set ?db \<or> s_id x = i" using that(1)
      by (cases "sql_find_one (\<lambda>r. s_id r = i) ?db")
        (auto simp: repo_create_def Let_def blank_session_def sql_update_rows dest!: sql_find_one_Some split: if_splits)
    then show ?thesis using that(2) assms(3) by blast
  qed
  then show ?thesis using key assms(4-7) 
    by (simp add: unique_key_def distinct_map inj_on_def)
qed

text \<open>C@: A pushed request is answered with an error and nothing is written, or it carries everything the
  authorization endpoint and PKCE need - a client, a redirect URI, an S256 challenge, response type
  \<open>code\<close>, no \<open>request_uri\<close> - and is stored under the returned URI, which is valid for 60 seconds.\<close>

theorem pushed_request_checked:
  assumes "pushAuthorizationRequest env clock others uuid newId q db = (result, db')"
  shows "case result of
      Inl e \<Rightarrow> db' = db
    | Inr resp \<Rightarrow> ps_expires_in resp = 60 \<and> aq_response_type (pq_body q) = Some ''code''
        \<and> truthy (aq_client_id (pq_body q)) \<and> truthy (aq_redirect_uri (pq_body q))
        \<and> truthy (aq_code_challenge (pq_body q)) \<and> aq_code_challenge_method (pq_body q) = Some ''S256''
        \<and> \<not> truthy (aq_request_uri (pq_body q))
        \<and> (\<exists>r \<in> set db'. s_tenantId r = pq_tenantId q \<and> s_request_uri r = Some (ps_request_uri resp)
            \<and> s_request_uri_expires_at r = Some (clock 1 + 60000) \<and> s_auth_queries r = Some (pq_body q))"
proof (cases result)
  case (Inl e)
  with assms show ?thesis
    by (auto simp: pushAuthorizationRequest_def Let_def split: sum.splits prod.splits)
next
  case (Inr resp)
  with assms have push: "pushAuthorizationRequest env clock others uuid newId q db = (Inr resp, db')" by simp
  have "resp = \<lparr>ps_expires_in = 60, ps_request_uri = request_uri_prefix @ uuid\<rparr>"
      "assertValidPushedAuthorizationRequest (pq_body q) = Inr ()"
    by (rule push_returns [OF push], assumption)+
  with push_stored [OF push] show ?thesis by (simp add: Inr returns stores_push_def)
qed


section \<open>The authorization endpoint\<close>

lemma map_unique_row:
  assumes "unique_key k db" "s \<in> set db" "P s" "\<And>r. P r \<Longrightarrow> k r = k s"
  shows "map (\<lambda>r. if P r then f r else r) db = map (\<lambda>r. if r = s then f r else r) db"
proof -
  have "P r \<longleftrightarrow> r = s" if "r \<in> set db" for r
    using assms that by (auto simp: unique_key_def distinct_map dest: inj_onD)
  then show ?thesis by (intro map_cong) auto
qed

definition grants_code :: "string \<Rightarrow> (nat \<Rightarrow> date) \<Rightarrow> session \<Rightarrow> session" where
  "grants_code code clock r = r\<lparr>s_request_uri_expires_at := Some (clock 1), s_authorization_code := Some code,
     s_authorization_code_expires_at := Some (clock 2 + 60000), s_updatedAt := clock 2\<rparr>"

lemma find_pushed:
  assumes "s \<in> set db" "s_tenantId s = t" "s_request_uri s = Some uri" "uri \<noteq> []"
    and "\<And>r. r \<in> set db \<Longrightarrow> s_request_uri r = Some uri \<Longrightarrow> r = s"
  shows "getByRequestUri t uri db = Inr s"
proof -
  obtain r where "findByRequestUri t uri db = Some r"
    using assms(1-3) by (cases "findByRequestUri t uri db") (auto simp: findByRequestUri_def sql_find_one_None)
  moreover from this have "r = s"
    using assms(5) by (auto simp: findByRequestUri_def dest!: sql_find_one_Some)
  ultimately show ?thesis using assms(4) by (simp add: getByRequestUri_def store_lookup_def truthy_def)
qed

lemma authorize_redeems:
  assumes "unique_key s_id db" "s \<in> set db" "s_tenantId s = t" "getByRequestUri t uri db = Inr s" "uri \<noteq> []"
    and "s_auth_queries s = Some a" "truthy (aq_redirect_uri a)" "session_usable s (clock 0)"
    and "s_request_uri_expires_at s = Some e"
  shows "authorizePushedRequest env clock [] [] code t (Some uri) (aq_client_id a) db =
    (if clock 1 < e
     then (redirect_url env (the (aq_redirect_uri a)) [(''code'', Some code), (''state'', aq_state a),
             (''iss'', Some (builtInAuthorizationServerIssuer (ov_publicUrl env) t))],
           map (\<lambda>r. if r = s then grants_code code clock r else r) db)
     else (redirect_error env t a (the (aq_redirect_uri a)) ''invalid_request_uri''
             ''request_uri is expired or was already used'', db))"
proof -
  let ?exp = "\<lambda>r. set_clause (clock 1) [Set_request_uri_expires_at (Some (clock 1))] r"
  have redeemed: "consumeRequestUri (clock 1) t (s_id s) e (clock 1) db =
      (True, map (\<lambda>r. if r = s then ?exp r else r) db)" if "clock 1 < e"
  proof -
    have "consumeRequestUri (clock 1) t (s_id s) e (clock 1) db =
        (True, map (\<lambda>r. if s_tenantId r = t \<and> s_id r = s_id s \<and> s_request_uri_expires_at r = Some e
          then ?exp r else r) db)"
      using that assms(2,3,9) by (auto simp: consumeRequestUri_def sql_update_def filter_empty_conv)
    also have "map (\<lambda>r. if s_tenantId r = t \<and> s_id r = s_id s \<and> s_request_uri_expires_at r = Some e
          then ?exp r else r) db = map (\<lambda>r. if r = s then ?exp r else r) db"
      by (rule map_unique_row [OF assms(1,2)]) (use assms(3,9) in simp_all)
    finally show ?thesis .
  qed
  have stored: "fst (updateForTenant (clock 2) t (s_id s) [Set_authorization_code (Some code),
        Set_authorization_code_expires_at (Some (clock 2 + AUTHORIZATION_CODE_LIFETIME_SECONDS * 1000))]
        (map (\<lambda>r. if r = s then ?exp r else r) db)) =
      map (\<lambda>r. if r = s then grants_code code clock r else r) db"
  proof -
    have "r = s" if "r \<in> set db" "s_id r = s_id s" for r
      using that assms(1,2) by (auto simp: unique_key_def distinct_map dest: inj_onD)
    then show ?thesis
      using assms(3) by (auto simp: updateForTenant_def sql_update_def grants_code_def set_clause_def
          AUTHORIZATION_CODE_LIFETIME_SECONDS_def)
  qed
  have usable: "assertOfferRedeemable s (clock 0) Invalid_Request = Inr ()"
    using assms(8) by (simp add: returns)
  show ?thesis
  proof (cases "clock 1 < e")
    case True
    then show ?thesis
      using assms(4-7,9) usable redeemed stored
      by (simp add: authorizePushedRequest_def redeem_request_uri_def truthy_def)
  next
    case False
    then have "consumeRequestUri (clock 1) t (s_id s) e (clock 1) db = (False, db)"
      by (simp add: consumeRequestUri_def)
    with False show ?thesis
      using assms(4-7,9) usable
      by (simp add: authorizePushedRequest_def redeem_request_uri_def truthy_def)
  qed
qed

lemma grants_code_frame [simp]:
  "s_id (grants_code code clock r) = s_id r" "s_tenantId (grants_code code clock r) = s_tenantId r"
  "s_request_uri (grants_code code clock r) = s_request_uri r" "s_auth_queries (grants_code code clock r) = s_auth_queries r"
  "s_request_uri_expires_at (grants_code code clock r) = Some (clock 1)"
  "s_authorization_code (grants_code code clock r) = Some code"
  "session_usable (grants_code code clock r) now = session_usable r now"
  by (simp_all add: grants_code_def session_usable_def)

text \<open>After a push with a fresh URI: the session it is stored in, and that the URI finds it.\<close>

lemma push_found:
  assumes "pushAuthorizationRequest env clock others uuid newId q db = (Inr resp, db')" "unique_key s_id db"
    and "\<forall>r \<in> set (exec_stmts others db). s_request_uri r \<noteq> Some (request_uri_prefix @ uuid)"
  obtains s where "s \<in> set db'" "unique_key s_id db'"
    "stores_push (pq_tenantId q) (ps_request_uri resp) (clock 1) (pq_body q) s"
    "\<forall>r \<in> set db'. s_request_uri r = Some (ps_request_uri resp) \<longrightarrow> r = s"
    "ps_request_uri resp \<noteq> []" "truthy (aq_redirect_uri (pq_body q))"
proof -
  have resp: "resp = \<lparr>ps_expires_in = 60, ps_request_uri = request_uri_prefix @ uuid\<rparr>"
    and valid: "assertValidPushedAuthorizationRequest (pq_body q) = Inr ()"
    by (rule push_returns [OF assms(1)], assumption)+
  obtain s where s: "s \<in> set db'" "stores_push (pq_tenantId q) (request_uri_prefix @ uuid) (clock 1) (pq_body q) s"
    using push_stored [OF assms(1)] by blast
  obtain u i where "(\<exists>r \<in> set (exec_stmts others db). s_tenantId r = pq_tenantId q \<and> s_id r = i)
        \<and> db' = exec_stmt (Stmt_Update (clock 1) (pq_tenantId q) i u) (exec_stmts others db)
      \<or> db' = exec_stmt (Stmt_Create (clock 1) \<lparr>ns_id = i, ns_tenantId = pq_tenantId q, ns_columns = u\<rparr>)
          (exec_stmts others db)"
    by (rule push_returns [OF assms(1)])
  then have key: "unique_key s_id db'"
    using exec_stmt_unique_key [OF exec_stmts_unique_key [OF assms(2)]] by blast
  show ?thesis
  proof (rule that [OF s(1) key])
    show "\<forall>r \<in> set db'. s_request_uri r = Some (ps_request_uri resp) \<longrightarrow> r = s"
      using push_unique [OF assms s(1)] s(2) by (simp add: resp stores_push_def)
  qed (use s(2) valid in \<open>simp_all add: resp returns request_uri_prefix_def\<close>)
qed

text \<open>A pushed request is authorized once: within 60 seconds, with the same client identifier and
  while the offer can be redeemed, its URI is answered with the redirect that carries the code and the
  state of the pushed request, and the code is stored in the session of the push; a second request with
  the URI gets the redirect that reports a used URI and writes nothing.\<close>

theorem pushed_request_authorized:
  assumes "pushAuthorizationRequest env clock others uuid newId q db = (Inr resp, db1)" "unique_key s_id db"
    and "\<forall>r \<in> set (exec_stmts others db). s_request_uri r \<noteq> Some (request_uri_prefix @ uuid)"
    and "\<forall>r \<in> set db1. s_request_uri r = Some (ps_request_uri resp) \<longrightarrow>
        session_usable r (clock1 0) \<and> session_usable r (clock2 0)"
    and "clock1 1 < clock 1 + 60000" "clock1 1 \<le> clock2 1"
    and "t = pq_tenantId q" "uri = ps_request_uri resp" "a = pq_body q"
  shows "\<exists>s \<in> set db1. s_tenantId s = t \<and> s_auth_queries s = Some a \<and>
    (let db2 = map (\<lambda>r. if r = s then grants_code code clock1 r else r) db1
     in authorizePushedRequest env clock1 [] [] code t (Some uri) (aq_client_id a) db1 =
          (redirect_url env (the (aq_redirect_uri a)) [(''code'', Some code), (''state'', aq_state a),
             (''iss'', Some (builtInAuthorizationServerIssuer (ov_publicUrl env) t))], db2)
      \<and> authorizePushedRequest env clock2 [] [] code2 t (Some uri) (aq_client_id a) db2 =
          (redirect_error env t a (the (aq_redirect_uri a)) ''invalid_request_uri''
             ''request_uri is expired or was already used'', db2))"
proof -
  obtain s where s: "s \<in> set db1" "unique_key s_id db1" "stores_push t uri (clock 1) a s"
      and only: "\<forall>r \<in> set db1. s_request_uri r = Some uri \<longrightarrow> r = s"
      and uri: "uri \<noteq> []" and redirect: "truthy (aq_redirect_uri a)"
    unfolding assms(7-9) by (rule push_found [OF assms(1-3)])
  note st = s(3) [unfolded stores_push_def]
  let ?s' = "grants_code code clock1 s"
  let ?db2 = "map (\<lambda>r. if r = s then grants_code code clock1 r else r) db1"
  have found: "getByRequestUri t uri db1 = Inr s"
    by (rule find_pushed [OF s(1) _ _ uri]) (use st only in simp_all)
  have in2: "?s' \<in> set ?db2" using s(1) by auto
  have "map s_id ?db2 = map s_id db1" by simp
  then have key2: "unique_key s_id ?db2" using s(2) by (simp add: unique_key_def del: map_map)
  have found2: "getByRequestUri t uri ?db2 = Inr ?s'"
  proof (rule find_pushed [OF in2 _ _ uri])
    fix r assume "r \<in> set ?db2" "s_request_uri r = Some uri"
    then show "r = ?s'" using only by (auto split: if_splits)
  qed (use st in simp_all)
  have usable: "session_usable s (clock1 0)" "session_usable ?s' (clock2 0)"
    using assms(4) s(1) st assms(8) by simp_all
  have first: "authorizePushedRequest env clock1 [] [] code t (Some uri) (aq_client_id a) db1 =
          (redirect_url env (the (aq_redirect_uri a)) [(''code'', Some code), (''state'', aq_state a),
             (''iss'', Some (builtInAuthorizationServerIssuer (ov_publicUrl env) t))], ?db2)"
    using authorize_redeems [where clock = clock1, OF s(2,1) _ found uri _ redirect usable(1)] st assms(5) by simp
  have second: "authorizePushedRequest env clock2 [] [] code2 t (Some uri) (aq_client_id a) ?db2 =
          (redirect_error env t a (the (aq_redirect_uri a)) ''invalid_request_uri''
             ''request_uri is expired or was already used'', ?db2)"
    using authorize_redeems [where clock = clock2, OF key2 in2 _ found2 uri _ redirect usable(2)] st assms(6) by simp
  show ?thesis
    using s(1) st first second by (intro bexI [of _ s]) (simp_all only: Let_def simp_thms)
qed


section \<open>A concrete flow\<close>

definition oenv1 :: oauth_env where
  "oenv1 = \<lparr>ov_publicUrl = ''h'', ov_issuanceConfiguration = (\<lambda>_. config1), ov_sessionTtlSeconds = (\<lambda>_. 900),
     ov_verifyAttestation = (\<lambda>_ _ _ _ _. Inr ()), ov_verifyPar = (\<lambda>_. Inr None),
     ov_set_params = (\<lambda>u ps. Some (u @ concat (map snd ps)))\<rparr>"

definition body1 :: session_authorization where
  "body1 = \<lparr>aq_issuer_state = None, aq_response_type = Some ''code'', aq_client_id = Some ''w1'',
     aq_redirect_uri = Some ''app:cb'', aq_resource = None, aq_scope = None, aq_code_challenge = Some ''h:v1'',
     aq_code_challenge_method = Some ''S256'', aq_dpop_jkt = None, aq_request_uri = None, aq_auth_session = None,
     aq_state = Some ''st'', aq_authorization_details = None\<rparr>"

definition par1 :: par_request where
  "par1 = \<lparr>pq_tenantId = ''acme'', pq_body = body1, pq_request = JNull, pq_dpopJwt = None, pq_clientAttestation = None\<rparr>"

definition pushed1 :: session where
  "pushed1 = (blank_session ''n1'' ''acme'' 0)\<lparr>s_request_uri := Some (request_uri_prefix @ ''u1''),
     s_request_uri_expires_at := Some 60000, s_auth_queries := Some body1\<rparr>"

definition resp1 :: par_response where
  "resp1 = \<lparr>ps_expires_in = 60, ps_request_uri = request_uri_prefix @ ''u1''\<rparr>"

lemma push_run: "pushAuthorizationRequest oenv1 (\<lambda>_. 0) [] ''u1'' ''n1'' par1 [] = (Inr resp1, [pushed1])"
  by (simp add: pushAuthorizationRequest_def verify_par_def Let_def oenv1_def config1_def par1_def body1_def
      findBuiltInAuthorizationServer_def coalesce_def coalesce_opt_def resolveWalletAttestationPolicy_def ebind_def
      assertValidPushedAuthorizationRequest_def assertS256CodeChallenge_def require_def offer_session_of_def
      createSession_execute_def repo_create_def sql_find_one_def par_values_def opt_assign_def
      PAR_REQUEST_URI_LIFETIME_SECONDS_def pushed1_def resp1_def blank_session_def)

lemma authorize_run:
  "authorizePushedRequest oenv1 (\<lambda>_. 5) [] [] ''c1'' (pq_tenantId par1) (Some (ps_request_uri resp1))
     (aq_client_id (pq_body par1)) [pushed1] = (Inr ''app:cbc1sth/issuers/acme'', [grants_code ''c1'' (\<lambda>_. 5) pushed1])"
  by (simp add: authorizePushedRequest_def redeem_request_uri_def par1_def resp1_def body1_def pushed1_def oenv1_def
      request_uri_prefix_def getByRequestUri_def store_lookup_def findByRequestUri_def sql_find_one_def Let_def
      assertOfferRedeemable_def assertSessionUsable_def consumeRequestUri_def sql_update_def set_clause_def
      updateForTenant_def redirect_url_def buildAuthorizationResponseUrl_def builtInAuthorizationServerIssuer_def
      grants_code_def AUTHORIZATION_CODE_LIFETIME_SECONDS_def blank_session_def List.map_filter_def)

lemma exchange_run:
  "exchangeAccessToken tenv1 (\<lambda>_. 9) [] []
     (form_request [(''code'', ''c1''), (''code_verifier'', ''v1''), (''client_id'', ''w1'')])
     [grants_code ''c1'' (\<lambda>_. 5) pushed1] =
   (Inr \<lparr>tr_access_token = ''n1'', tr_refresh_token = Some ''rt'', tr_authorization_details = None\<rparr>,
    [(grants_code ''c1'' (\<lambda>_. 5) pushed1)\<lparr>s_updatedAt := 9, s_consumed := True, s_refresh_token := Some ''rt'',
       s_refresh_token_expires_at := Some 2592000009\<rparr>])"
  by (simp add: token_run grants_code_def pushed1_def body1_def)

lemma pushed1_usable: "\<forall>r \<in> set [pushed1]. s_request_uri r = Some (ps_request_uri resp1) \<longrightarrow> session_usable r now"
  by (simp add: pushed1_def session_usable_def blank_session_def)

theorem pushed_request_checked_witness:
  "case Inr resp1 :: oauth_error + par_response of Inl e \<Rightarrow> False | Inr resp \<Rightarrow> ps_expires_in resp = 60
     \<and> (\<exists>r \<in> set [pushed1]. s_request_uri r = Some (ps_request_uri resp))"
  using pushed_request_checked [OF push_run] unfolding sum.case by blast

theorem pushed_request_authorized_witness:
  "\<exists>s \<in> set [pushed1]. s_tenantId s = ''acme'' \<and> s_auth_queries s = Some body1"
proof -
  have terms: "''acme'' = pq_tenantId par1" "body1 = pq_body par1" by (simp_all add: par1_def)
  have usable: "\<forall>r \<in> set [pushed1]. s_request_uri r = Some (ps_request_uri resp1) \<longrightarrow>
      session_usable r ((\<lambda>_. 5) (0::nat)) \<and> session_usable r ((\<lambda>_. 7) (0::nat))"
    using pushed1_usable by simp
  have "\<exists>s \<in> set [pushed1]. s_tenantId s = ''acme'' \<and> s_auth_queries s = Some body1 \<and>
      (let db2 = map (\<lambda>r. if r = s then grants_code ''c1'' (\<lambda>_. 5) r else r) [pushed1]
       in authorizePushedRequest oenv1 (\<lambda>_. 5) [] [] ''c1'' ''acme'' (Some (ps_request_uri resp1)) (aq_client_id body1) [pushed1] =
          (redirect_url oenv1 (the (aq_redirect_uri body1)) [(''code'', Some ''c1''), (''state'', aq_state body1),
             (''iss'', Some (builtInAuthorizationServerIssuer (ov_publicUrl oenv1) ''acme''))], db2)
      \<and> authorizePushedRequest oenv1 (\<lambda>_. 7) [] [] ''c2'' ''acme'' (Some (ps_request_uri resp1)) (aq_client_id body1) db2 =
          (redirect_error oenv1 ''acme'' body1 (the (aq_redirect_uri body1)) ''invalid_request_uri''
             ''request_uri is expired or was already used'', db2))"
    by (rule pushed_request_authorized [OF push_run _ _ usable _ _ terms(1) refl terms(2)])
      (simp_all add: unique_key_def)
  then show ?thesis by blast
qed


end
