(* ===== verification/Claims_Derivation.thy ===== *)
theory Claims_Derivation
  imports Js_Values
begin

text \<open>
  What the claim fields of a credential configuration mean
  (\<open>issuer/configuration/credentials/utils/derive.ts\<close>): the default claims, the claims per mdoc
  namespace, the disclosure frame of an SD-JWT, the claims metadata and the JSON schema. JavaScript
  updates objects in place; here an update returns the new value. A hole of an array is \<open>null\<close>, as in
  its JSON text. A string step into an array is read as a decimal number; the other numerals
  \<open>Number()\<close> accepts are left out.
\<close>

section \<open>Fields\<close>

datatype segment = Seg_Str string | Seg_Num int | Seg_Null

datatype field_type = Type_String | Type_Number | Type_Integer | Type_Boolean | Type_Object | Type_Array

definition type_text :: "field_type \<Rightarrow> string" where
  "type_text t = (case t of Type_String \<Rightarrow> ''string'' | Type_Number \<Rightarrow> ''number'' | Type_Integer \<Rightarrow> ''integer''
     | Type_Boolean \<Rightarrow> ''boolean'' | Type_Object \<Rightarrow> ''object'' | Type_Array \<Rightarrow> ''array'')"

record field_display =
  fd_locale :: string
  fd_name :: string
  fd_description :: "string option"

text \<open>A field without its children, and the tree of fields.\<close>

record claim_field =
  cf_path :: "segment list"
  cf_type :: field_type
  cf_defaultValue :: "json option"
  cf_mandatory :: "bool option"
  cf_disclosable :: "bool option"
  cf_namespace :: "string option"
  cf_display :: "field_display list"
  cf_constraints :: "(string \<times> json) list"

datatype claim_tree = Claim_Tree claim_field "claim_tree list"

record claim_metadata =
  cm_path :: "string list"
  cm_mandatory :: "bool option"
  cm_display :: "field_display list option"

definition is_prefix_of :: "segment list \<Rightarrow> segment list \<Rightarrow> bool" where
  "is_prefix_of p q \<longleftrightarrow> length p \<le> length q \<and> take (length p) q = p"

definition resolveChildPath :: "segment list \<Rightarrow> field_type \<Rightarrow> segment list \<Rightarrow> segment list" where
  "resolveChildPath parentPath parentType childPath =
     (if is_prefix_of parentPath childPath then childPath
      else if parentType = Type_Array \<and> (case childPath of Seg_Str _ # _ \<Rightarrow> True | _ \<Rightarrow> False)
      then parentPath @ [Seg_Null] @ childPath
      else parentPath @ childPath)"

fun with_path :: "claim_field \<Rightarrow> claim_tree \<Rightarrow> claim_tree" where
  "with_path parent (Claim_Tree f children) =
     Claim_Tree (f\<lparr>cf_path := resolveChildPath (cf_path parent) (cf_type parent) (cf_path f)\<rparr>) children"

text \<open>The number of fields of a tree, which bounds the recursion.\<close>

fun tree_size :: "claim_tree \<Rightarrow> nat" where
  "tree_size (Claim_Tree f children) = Suc (sum_list (map tree_size children))"

lemma tree_size_with_path [simp]: "tree_size (with_path parent t) = tree_size t"
  by (cases t) simp

lemma trees_size_with_path [simp]:
  "sum_list (map (tree_size \<circ> with_path parent) ts) = sum_list (map tree_size ts)"
  by (induction ts) simp_all

function flattenFields :: "claim_tree list \<Rightarrow> claim_field list" where
  "flattenFields [] = []"
| "flattenFields (Claim_Tree f children # ts) =
     f # flattenFields (map (with_path f) children) @ flattenFields ts"
  by pat_completeness auto

termination
  by (relation "measure (\<lambda>ts. sum_list (map tree_size ts))")
    (simp_all add: less_Suc_eq_le)

definition segmentToKey :: "segment \<Rightarrow> string" where
  "segmentToKey s = (case s of Seg_Str k \<Rightarrow> k | Seg_Num n \<Rightarrow> show_int n | Seg_Null \<Rightarrow> ''*'')"

text \<open>\<open>segmentToKey(segment ?? "")\<close>.\<close>

definition leafKey :: "segment \<Rightarrow> string" where
  "leafKey s = (if s = Seg_Null then [] else segmentToKey s)"

definition getFieldNamespace :: "claim_field \<Rightarrow> string option" where
  "getFieldNamespace f =
     (if truthy (cf_namespace f) then cf_namespace f
      else (case cf_path f of Seg_Str k # _ # _ \<Rightarrow> Some k | _ \<Rightarrow> None))"


section \<open>Default claims\<close>

definition getArrayIndex :: "segment \<Rightarrow> nat option" where
  "getArrayIndex s = (case s of
       Seg_Num n \<Rightarrow> if 0 \<le> n then Some (nat n) else None
     | Seg_Str k \<Rightarrow> digits_value k
     | Seg_Null \<Rightarrow> None)"

definition arr_set :: "json list \<Rightarrow> nat \<Rightarrow> json \<Rightarrow> json list" where
  "arr_set xs i v = (if i < length xs then xs[i := v] else xs @ replicate (i - length xs) JNull @ [v])"

text \<open>The container the rest of a path is set in: the one that is there, or a new one.\<close>

definition child_container :: "json option \<Rightarrow> segment list \<Rightarrow> json" where
  "child_container current rest =
     (if is_obj current \<or> is_arr current then the current
      else (case rest of Seg_Num _ # _ \<Rightarrow> JArr [] | _ \<Rightarrow> JObj []))"

fun setValueAtPath :: "json \<Rightarrow> segment list \<Rightarrow> json \<Rightarrow> json" where
  "setValueAtPath c [] v = c"
| "setValueAtPath (JArr xs) (s # p) v =
     (case getArrayIndex s of
        None \<Rightarrow> JArr xs
      | Some i \<Rightarrow> JArr (arr_set xs i (if p = [] then v
          else setValueAtPath (child_container (if i < length xs then Some (xs ! i) else None) p) p v)))"
| "setValueAtPath (JObj kvs) (s # p) v =
     JObj (jset (segmentToKey s) (if p = [] then v
       else setValueAtPath (child_container (map_of kvs (segmentToKey s)) p) p v) kvs)"
| "setValueAtPath c (s # p) v = c"

definition apply_default :: "json \<Rightarrow> claim_field \<Rightarrow> json" where
  "apply_default claims f =
     (case cf_defaultValue f of None \<Rightarrow> claims | Some v \<Rightarrow> setValueAtPath claims (cf_path f) v)"

definition buildClaims :: "claim_tree list \<Rightarrow> json" where
  "buildClaims trees = foldl apply_default (JObj []) (flattenFields trees)"

definition namespace_path :: "string \<Rightarrow> segment list \<Rightarrow> segment list" where
  "namespace_path ns path =
     (case path of s # p \<Rightarrow> if leafKey s = ns then p else path | [] \<Rightarrow> [])"

definition apply_namespace :: "(string \<times> json) list \<Rightarrow> claim_field \<Rightarrow> (string \<times> json) list" where
  "apply_namespace byNs f =
     (case (getFieldNamespace f, cf_defaultValue f) of
        (Some ns, Some v) \<Rightarrow>
          if ns = [] then byNs
          else (let target = (case map_of byNs ns of None \<Rightarrow> JObj [] | Some t \<Rightarrow> t)
                in jset ns (setValueAtPath target (namespace_path ns (cf_path f)) v) byNs)
      | _ \<Rightarrow> byNs)"

definition buildClaimsByNamespace :: "claim_tree list \<Rightarrow> (string \<times> json) list" where
  "buildClaimsByNamespace trees = foldl apply_namespace [] (flattenFields trees)"


section \<open>Disclosure frame and metadata\<close>

fun frame_update ::
    "(string \<times> json) list \<Rightarrow> segment list \<Rightarrow> ((string \<times> json) list \<Rightarrow> (string \<times> json) list)
       \<Rightarrow> (string \<times> json) list" where
  "frame_update kvs [] g = g kvs"
| "frame_update kvs (s # p) g =
     jset (segmentToKey s) (JObj (frame_update (obj_of (map_of kvs (segmentToKey s))) p g)) kvs"

definition add_sd :: "string \<Rightarrow> (string \<times> json) list \<Rightarrow> (string \<times> json) list" where
  "add_sd leaf node =
     (let existing = arr_of (map_of node ''_sd'')
      in if JStr leaf \<in> set existing then node else jset ''_sd'' (JArr (existing @ [JStr leaf])) node)"

definition is_disclosable :: "claim_field \<Rightarrow> bool" where
  "is_disclosable f \<longleftrightarrow> cf_disclosable f = Some True \<and> cf_path f \<noteq> []"

definition add_disclosure :: "(string \<times> json) list \<Rightarrow> claim_field \<Rightarrow> (string \<times> json) list" where
  "add_disclosure frame f = frame_update frame (butlast (cf_path f)) (add_sd (leafKey (last (cf_path f))))"

definition buildDisclosureFrame :: "claim_tree list \<Rightarrow> (string \<times> json) list option" where
  "buildDisclosureFrame trees =
     (let fs = filter is_disclosable (flattenFields trees)
      in if fs = [] then None else Some (foldl add_disclosure [] fs))"

definition normalizeDisplayInfo :: "field_display list \<Rightarrow> field_display list option" where
  "normalizeDisplayInfo display = (if display = [] then None else Some display)"

definition buildClaimsMetadata :: "claim_tree list \<Rightarrow> claim_metadata list" where
  "buildClaimsMetadata trees =
     map (\<lambda>f. \<lparr>cm_path = (if truthy (cf_namespace f) then [the (cf_namespace f)] else [])
                 @ map segmentToKey (cf_path f),
               cm_mandatory = cf_mandatory f, cm_display = normalizeDisplayInfo (cf_display f)\<rparr>)
       (filter (\<lambda>f. cf_path f \<noteq> []) (flattenFields trees))"


section \<open>JSON schema\<close>

definition getDisplayTitle :: "field_display list \<Rightarrow> string option" where
  "getDisplayTitle display =
     (case List.find (\<lambda>d. map ascii_lower (take 2 (fd_locale d)) = ''en'') display of
        Some d \<Rightarrow> Some (fd_name d)
      | None \<Rightarrow> (case display of [] \<Rightarrow> None | d # _ \<Rightarrow> Some (fd_name d)))"

definition object_node :: "(string \<times> json) list" where
  "object_node = [(''type'', JStr ''object''), (''properties'', JObj []), (''additionalProperties'', JBool False)]"

definition drop_object_keywords :: "(string \<times> json) list \<Rightarrow> (string \<times> json) list" where
  "drop_object_keywords node = jdel ''required'' (jdel ''additionalProperties'' (jdel ''properties'' node))"

definition stripNonObjectKeywords :: "(string \<times> json) list \<Rightarrow> (string \<times> json) list" where
  "stripNonObjectKeywords schema =
     (case jstr (map_of schema ''type'') of
        Some t \<Rightarrow> if t \<noteq> [] \<and> t \<noteq> ''object'' then drop_object_keywords schema else schema
      | None \<Rightarrow> schema)"

definition mergeLeafSchema :: "(string \<times> json) list \<Rightarrow> (string \<times> json) list \<Rightarrow> (string \<times> json) list" where
  "mergeLeafSchema existing next =
     (let m1 = (if obj_of (map_of existing ''properties'') \<noteq> []
                then jset ''properties'' (the (map_of existing ''properties'')) next else next);
          m2 = (if map_of next ''additionalProperties'' = None \<and> map_of existing ''additionalProperties'' \<noteq> None
                then jset ''additionalProperties'' (the (map_of existing ''additionalProperties'')) m1 else m1);
          m3 = (if arr_of (map_of existing ''required'') \<noteq> []
                then jset ''required'' (the (map_of existing ''required'')) m2 else m2)
      in stripNonObjectKeywords m3)"

definition buildLeafSchema :: "claim_field \<Rightarrow> (string \<times> json) list" where
  "buildLeafSchema f =
     (let schema = jset ''type'' (JStr (type_text (cf_type f))) (cf_constraints f);
          title = getDisplayTitle (cf_display f)
      in if truthy title then jset ''title'' (JStr (the title)) schema else schema)"

definition addRequired :: "string \<Rightarrow> (string \<times> json) list \<Rightarrow> (string \<times> json) list" where
  "addRequired key parent =
     (let required = arr_of (map_of parent ''required'')
      in if is_arr (map_of parent ''required'') \<and> JStr key \<in> set required then parent
         else jset ''required'' (JArr (required @ [JStr key])) parent)"

definition isArrayPathSegment :: "segment \<Rightarrow> bool" where
  "isArrayPathSegment s = (case s of Seg_Str _ \<Rightarrow> False | _ \<Rightarrow> True)"

definition markObjectStrict :: "(string \<times> json) list \<Rightarrow> (string \<times> json) list" where
  "markObjectStrict node =
     (if map_of node ''type'' = Some (JStr ''object'') \<and> map_of node ''additionalProperties'' = None
      then jset ''additionalProperties'' (JBool False) node else node)"

definition as_array_node :: "(string \<times> json) list \<Rightarrow> (string \<times> json) list" where
  "as_array_node node =
     (if map_of node ''type'' = Some (JStr ''array'') then node
      else jset ''type'' (JStr ''array'') (drop_object_keywords node))"

definition node_or_new :: "json option \<Rightarrow> (string \<times> json) list" where
  "node_or_new v = (case v of Some (JObj kvs) \<Rightarrow> kvs | _ \<Rightarrow> object_node)"

text \<open>\<open>ensureSchemaNode\<close> creates the nodes of a path; \<open>g\<close> is what happens to the last one.\<close>

fun ensureSchemaNode ::
    "(string \<times> json) list \<Rightarrow> segment list \<Rightarrow> ((string \<times> json) list \<Rightarrow> (string \<times> json) list)
       \<Rightarrow> (string \<times> json) list" where
  "ensureSchemaNode node [] g = g node"
| "ensureSchemaNode node (s # p) g =
     (if isArrayPathSegment s
      then let array = as_array_node node
           in jset ''items'' (JObj (ensureSchemaNode (markObjectStrict (node_or_new (map_of array ''items''))) p g)) array
      else let properties = obj_of (map_of node ''properties''); key = segmentToKey s
           in jset ''properties'' (JObj (jset key
                (JObj (ensureSchemaNode (markObjectStrict (node_or_new (map_of properties key))) p g)) properties)) node)"

definition mergeArrayLeafSchema :: "(string \<times> json) list \<Rightarrow> (string \<times> json) list \<Rightarrow> (string \<times> json) list" where
  "mergeArrayLeafSchema leafSchema parent =
     (let array = drop_object_keywords (jset ''type'' (JStr ''array'') parent)
      in jset ''items'' (JObj (case map_of array ''items'' of
           Some (JObj existing) \<Rightarrow> mergeLeafSchema existing leafSchema | _ \<Rightarrow> leafSchema)) array)"

definition mergeObjectLeafSchema ::
    "segment \<Rightarrow> (string \<times> json) list \<Rightarrow> bool option \<Rightarrow> (string \<times> json) list \<Rightarrow> (string \<times> json) list" where
  "mergeObjectLeafSchema leafSegment leafSchema mandatory parent =
     (let key = segmentToKey leafSegment;
          properties = obj_of (map_of parent ''properties'');
          node = jset ''properties'' (JObj (jset key (JObj (case map_of properties key of
            Some (JObj existing) \<Rightarrow> mergeLeafSchema existing leafSchema | _ \<Rightarrow> leafSchema)) properties)) parent
      in if mandatory = Some True then addRequired key node else node)"

definition applyLeafSchema :: "(string \<times> json) list \<Rightarrow> claim_field \<Rightarrow> (string \<times> json) list" where
  "applyLeafSchema root f =
     ensureSchemaNode root (butlast (cf_path f))
       (if isArrayPathSegment (last (cf_path f)) then mergeArrayLeafSchema (buildLeafSchema f)
        else mergeObjectLeafSchema (last (cf_path f)) (buildLeafSchema f) (cf_mandatory f))"

definition JSON_SCHEMA_DRAFT_2020_12 :: string where
  "JSON_SCHEMA_DRAFT_2020_12 = ''https://json-schema.org/draft/2020-12/schema''"

definition buildJsonSchema :: "claim_tree list \<Rightarrow> (string \<times> json) list" where
  "buildJsonSchema trees =
     foldl applyLeafSchema ((''$schema'', JStr JSON_SCHEMA_DRAFT_2020_12) # object_node)
       (filter (\<lambda>f. cf_path f \<noteq> []) (flattenFields trees))"

end
