(* ===== verification/Credential_Claims.thy ===== *)
theory Credential_Claims
  imports Claims_Derivation Session_Lifecycle
begin

text \<open>
  Where the claims of a credential come from and how one credential is issued
  (\<open>issuer/configuration/credentials\<close>): the claim source of the session or of the configuration
  (\<open>application/configured-credential-claims.provider.ts\<close>), the proof requirements of a configuration
  (\<open>credentials.service.ts\<close>) and \<open>application/issue-credential.ts\<close>. The tables of the tenant, the
  remote claim source, JSON schema validation and the signers of the credential formats are parameters.
\<close>

section \<open>Configuration\<close>

record key_attestation_requirements =
  ka_key_storage :: "string list option"
  ka_user_authentication :: "string list option"

record credential_config =
  cg_id :: string
  cg_format :: string
  cg_fields :: "claim_tree list"
  cg_attributeProviderId :: "string option"
  cg_proofTypesSupported :: "string list option"
  cg_keyAttestationsRequired :: "key_attestation_requirements option"

definition DEFAULT_PROOF_TYPES :: "string list" where
  "DEFAULT_PROOF_TYPES = [''attestation'', ''jwt'']"

definition resolveConfiguredProofTypes :: "credential_config \<Rightarrow> string list" where
  "resolveConfiguredProofTypes c =
     (case cg_proofTypesSupported c of
        None \<Rightarrow> DEFAULT_PROOF_TYPES
      | Some configured \<Rightarrow>
          (if configured = [] then DEFAULT_PROOF_TYPES
           else filter (\<lambda>t. t \<in> set configured) DEFAULT_PROOF_TYPES))"

text \<open>What may be thrown on the way to a credential; the credential endpoint maps it to an OID4VCI error.\<close>

datatype request_failure =
    Request_Exception string string
  | Invalid_Claims string
  | Invalid_Proof string
  | Conflict_Exception string
  | Bad_Request_Exception string
  | Not_Found_Exception string
  | Deferred_Exception string string "int option"
  | Authorization_Server_Error string
  | Session_Failure session_error string
  | Plain_Error string
  | Not_An_Error

record claims_request =
  cq_credentialConfigurationId :: string
  cq_session :: session
  cq_identity :: json
  cq_requireProvider :: bool

record claims_result =
  cl_claims :: "json option"
  cl_deferred :: bool
  cl_interval :: "int option"

datatype claims_error_code =
    Credential_Configuration_Not_Found
  | Attribute_Provider_Not_Found
  | Provider_Required
  | Claims_Missing

datatype claims_error = Claims_Resolution_Error claims_error_code string | Remote_Error request_failure

record remote_request =
  rr_webhook :: json
  rr_session :: string
  rr_reference :: "string option"
  rr_credentialConfigurationId :: string
  rr_identity :: json
  rr_credentials :: "json option"

record issue_input =
  ii_configuration :: credential_config
  ii_holderKey :: json
  ii_session :: session
  ii_claims :: json
  ii_federationEntityId :: "string option"
  ii_issuanceSetId :: "string option"

text \<open>A violation the schema validator reports.\<close>

record claim_violation =
  vi_keyword :: string
  vi_instancePath :: string
  vi_property :: string
  vi_message :: string

text \<open>\<open>ce_validate schema claims\<close> is the claims with the defaults of the schema, or the violations; \<open>ce_formats\<close> the signer of a format.\<close>

record claims_env =
  ce_configuration :: "string \<Rightarrow> string \<Rightarrow> credential_config option"
  ce_attributeProvider :: "string \<Rightarrow> string \<Rightarrow> json option"
  ce_fetchClaims :: "remote_request \<Rightarrow> request_failure + claims_result"
  ce_validate :: "(string \<times> json) list \<Rightarrow> json \<Rightarrow> claim_violation list + json"
  ce_entityId :: "string \<Rightarrow> string option"
  ce_formats :: "string \<Rightarrow> (issue_input \<Rightarrow> request_failure + string) option"

definition getProofRequirements ::
    "claims_env \<Rightarrow> string \<Rightarrow> string \<Rightarrow> request_failure + string list \<times> key_attestation_requirements option" where
  "getProofRequirements env tenantId cid =
     (case ce_configuration env tenantId cid of
        None \<Rightarrow> Inl (Conflict_Exception (''Credential configuration '' @ quoted (cid) @ '' not found''))
      | Some c \<Rightarrow> Inr (resolveConfiguredProofTypes c, cg_keyAttestationsRequired c))"


section \<open>Claim sources\<close>

definition is_claims_object :: "json option \<Rightarrow> bool" where
  "is_claims_object v = is_obj v"

definition resolveAttributeProvider :: "claims_env \<Rightarrow> string \<Rightarrow> string \<Rightarrow> claims_error + json" where
  "resolveAttributeProvider env i tenantId =
     (case ce_attributeProvider env tenantId i of
        None \<Rightarrow> Inl (Claims_Resolution_Error Attribute_Provider_Not_Found
                 (''Attribute provider '' @ quoted (i) @ '' not found''))
      | Some webhook \<Rightarrow> Inr webhook)"

text \<open>The source the offer names for a configuration.\<close>

definition offered_source :: "session \<Rightarrow> string \<Rightarrow> json option" where
  "offered_source s cid = (case s_credentialPayload s of None \<Rightarrow> None | Some p \<Rightarrow> jget cid (or_credentialClaims p))"

definition claims_webhook :: "claims_env \<Rightarrow> claims_request \<Rightarrow> claims_error + json option" where
  "claims_webhook env q =
     (let source = offered_source (cq_session q) (cq_credentialConfigurationId q); t = s_tenantId (cq_session q)
      in if jstr (jget ''type'' source) = Some ''webhook'' then Inr (if jtruthy (jget ''webhook'' source) then jget ''webhook'' source else None)
         else if jstr (jget ''type'' source) = Some ''attributeProvider''
         then ebind (resolveAttributeProvider env (coalesce (jstr (jget ''attributeProviderId'' source)) []) t)
                (\<lambda>w. Inr (Some w))
         else (case ce_configuration env t (cq_credentialConfigurationId q) of
                 None \<Rightarrow> Inl (Claims_Resolution_Error Credential_Configuration_Not_Found
                   (''Credential configuration '' @ quoted (cq_credentialConfigurationId q) @ '' not found''))
               | Some c \<Rightarrow>
                   (if truthy (cg_attributeProviderId c)
                    then ebind (resolveAttributeProvider env (the (cg_attributeProviderId c)) t) (\<lambda>w. Inr (Some w))
                    else Inr None)))"

definition resolveClaims :: "claims_env \<Rightarrow> claims_request \<Rightarrow> claims_error + claims_result option" where
  "resolveClaims env q =
     (let cid = cq_credentialConfigurationId q; s = cq_session q; source = offered_source s cid
      in if jstr (jget ''type'' source) = Some ''inline''
         then Inr (Some \<lparr>cl_claims = jget ''claims'' source, cl_deferred = False, cl_interval = None\<rparr>)
         else ebind (claims_webhook env q) (\<lambda>webhook.
           case webhook of
             None \<Rightarrow>
               (if cq_requireProvider q
                then Inl (Claims_Resolution_Error Provider_Required
                  (''Authorization code flow requires an attribute provider to be configured on credential '' @ quoted (cid) @ '' or provided at offer time.''))
                else Inr None)
           | Some w \<Rightarrow>
               (case ce_fetchClaims env \<lparr>rr_webhook = w, rr_session = s_id s,
                       rr_reference = (if truthy (s_reference s) then s_reference s else None),
                       rr_credentialConfigurationId = cid, rr_identity = cq_identity q,
                       rr_credentials = s_credentials s\<rparr> of
                  Inl e \<Rightarrow> Inl (Remote_Error e)
                | Inr result \<Rightarrow>
                    (if \<not> cl_deferred result \<and> \<not> is_claims_object (cl_claims result)
                     then Inl (Claims_Resolution_Error Claims_Missing
                       (''The claim source returned no claims for credential configuration '' @ quoted (cid)))
                     else Inr (Some result)))))"


section \<open>Issuing one credential\<close>

definition violation_text :: "claim_violation \<Rightarrow> string" where
  "violation_text e =
     (if vi_keyword e = ''required'' then vi_instancePath e @ ''/'' @ vi_property e @ '': missing required claim''
      else if vi_keyword e = ''additionalProperties''
      then vi_instancePath e @ ''/'' @ vi_property e @ '': unexpected claim''
      else (if vi_instancePath e = [] then ''/'' else vi_instancePath e) @ '': '' @ vi_message e)"

definition formatClaimErrors :: "claim_violation list \<Rightarrow> string" where
  "formatClaimErrors errors = join ''; '' (map violation_text errors)"

definition assertClaimsMatchConfiguration :: "claims_env \<Rightarrow> credential_config \<Rightarrow> json \<Rightarrow> request_failure + json" where
  "assertClaimsMatchConfiguration env c claims =
     (let schema = buildJsonSchema (cg_fields c)
      in if obj_of (map_of schema ''properties'') = [] then Inr claims
         else (case ce_validate env schema claims of
                 Inl errors \<Rightarrow> Inl (Invalid_Claims (''Claims do not conform to the schema for credential configuration with id ''
                   @ cg_id c @ '': '' @ formatClaimErrors errors))
               | Inr claims' \<Rightarrow> Inr claims'))"

definition issueCredential ::
    "claims_env \<Rightarrow> string \<Rightarrow> json \<Rightarrow> session \<Rightarrow> json option \<Rightarrow> string option \<Rightarrow> request_failure + string" where
  "issueCredential env cid holderKey s preloadedClaims issuanceSetId =
     (case ce_configuration env (s_tenantId s) cid of
        None \<Rightarrow> Inl (Plain_Error (''Credential configuration '' @ quoted (cid) @ '' not found''))
      | Some c \<Rightarrow>
          ebind (assertClaimsMatchConfiguration env c (coalesce preloadedClaims (buildClaims (cg_fields c)))) (\<lambda>claims.
          case ce_formats env (cg_format c) of
            None \<Rightarrow> Inl (Plain_Error (''Unsupported credential format '' @ quoted (cg_format c)))
          | Some issue \<Rightarrow> issue \<lparr>ii_configuration = c, ii_holderKey = holderKey, ii_session = s, ii_claims = claims,
              ii_federationEntityId = ce_entityId env (s_tenantId s), ii_issuanceSetId = issuanceSetId\<rparr>))"

end
