(* ===== verification/Issuance_Store.thy ===== *)
theory Issuance_Store
  imports Session_Lifecycle
begin

text \<open>
  The tables the credential endpoints write besides the sessions: proof nonces
  (\<open>oid4vci/adapters/typeorm-credential-nonce.repository.ts\<close>), DPoP proof identifiers
  (\<open>typeorm-dpop-proof-replay-registry.ts\<close>, with the proof lifetime of
  \<open>authorization/shared/dpop.util.ts\<close>) and deferred transactions
  (\<open>typeorm-deferred-transaction.repository.ts\<close>). The writing statements of each table are one type, so
  that other requests and the cleanup jobs can run between any two statements; each of the three
  compare-and-set statements interprets the single-use contract.
\<close>

section \<open>Proof nonces\<close>

record credential_nonce =
  cn_tenantId :: string
  cn_nonce :: string
  cn_expiresAt :: date

type_synonym nonces = "credential_nonce list"

definition nonce_where :: "string \<Rightarrow> string \<Rightarrow> credential_nonce \<Rightarrow> bool" where
  "nonce_where tenantId nonce r \<longleftrightarrow> cn_tenantId r = tenantId \<and> cn_nonce r = nonce"

definition nonce_save :: "credential_nonce \<Rightarrow> nonces \<Rightarrow> nonces" where
  "nonce_save n db =
     (if \<exists>r \<in> set db. nonce_where (cn_tenantId n) (cn_nonce n) r
      then fst (sql_update (nonce_where (cn_tenantId n) (cn_nonce n)) (\<lambda>_. n) db) else db @ [n])"

definition nonce_find :: "string \<Rightarrow> string \<Rightarrow> nonces \<Rightarrow> credential_nonce option" where
  "nonce_find tenantId nonce db = sql_find_one (nonce_where tenantId nonce) db"

definition nonce_delete :: "string \<Rightarrow> string \<Rightarrow> nonces \<Rightarrow> bool \<times> nonces" where
  "nonce_delete tenantId nonce db =
     (let (db', affected) = sql_delete (nonce_where tenantId nonce) db in (0 < affected, db'))"

definition nonce_deleteExpired :: "date \<Rightarrow> nonces \<Rightarrow> nonces" where
  "nonce_deleteExpired before db = fst (sql_delete (\<lambda>r. cn_expiresAt r < before) db)"

datatype nonce_stmt =
    Nonce_Save credential_nonce
  | Nonce_Delete string string
  | Nonce_DeleteExpired date

fun exec_nonce :: "nonce_stmt \<Rightarrow> nonces \<Rightarrow> nonces" where
  "exec_nonce (Nonce_Save n) db = nonce_save n db"
| "exec_nonce (Nonce_Delete t n) db = snd (nonce_delete t n db)"
| "exec_nonce (Nonce_DeleteExpired d) db = nonce_deleteExpired d db"

text \<open>\<open>NonceService.issue\<close>: valid for ten minutes.\<close>

definition nonce_issue :: "date \<Rightarrow> string \<Rightarrow> string \<Rightarrow> nonces \<Rightarrow> string \<times> nonces" where
  "nonce_issue now uuid tenantId db =
     (uuid, nonce_save \<lparr>cn_tenantId = tenantId, cn_nonce = uuid, cn_expiresAt = now + 10 * 60 * 1000\<rparr> db)"

definition nonce_stored :: "string \<Rightarrow> string \<Rightarrow> nonces \<Rightarrow> bool" where
  "nonce_stored tenantId nonce db \<longleftrightarrow> (\<exists>r \<in> set db. nonce_where tenantId nonce r)"

fun not_saved :: "string \<Rightarrow> string \<Rightarrow> nonce_stmt \<Rightarrow> bool" where
  "not_saved t n (Nonce_Save r) \<longleftrightarrow> \<not> nonce_where t n r"
| "not_saved t n _ \<longleftrightarrow> True"

lemma nonce_delete_wins: "fst (nonce_delete t n db) \<longleftrightarrow> nonce_stored t n db"
  by (simp add: nonce_delete_def nonce_stored_def split_beta sql_delete_affected)

lemma nonce_delete_rows: "set (snd (nonce_delete t n db)) = {r \<in> set db. \<not> nonce_where t n r}"
  by (simp add: nonce_delete_def split_beta sql_delete_rows)

lemma nonce_delete_spends: "\<not> nonce_stored t n (snd (nonce_delete t n db))"
  by (simp add: nonce_stored_def nonce_delete_rows)

lemma exec_nonce_absent:
  assumes "not_saved t n st" "\<not> nonce_stored t n db"
  shows "\<not> nonce_stored t n (exec_nonce st db)"
proof (cases st)
  case (Nonce_Save r)
  with assms show ?thesis
    by (auto simp: nonce_stored_def nonce_save_def sql_update_rows nonce_where_def)
next
  case (Nonce_Delete t' n')
  with assms show ?thesis by (simp add: nonce_stored_def nonce_delete_rows)
next
  case (Nonce_DeleteExpired d)
  with assms show ?thesis by (simp add: nonce_stored_def nonce_deleteExpired_def sql_delete_rows)
qed

definition claim_nonce :: "string \<Rightarrow> string \<Rightarrow> unit \<Rightarrow> nonces \<Rightarrow> bool \<times> nonces" where
  "claim_nonce t n c db = nonce_delete t n db"

interpretation nonce_use: single_use "claim_nonce t n" exec_nonce "\<lambda>_. True" "not_saved t n" "\<lambda>_. True"
    "nonce_stored t n"
  by unfold_locales
    (simp_all add: claim_nonce_def nonce_delete_wins nonce_delete_spends exec_nonce_absent)


section \<open>DPoP proofs\<close>

record dpop_proof =
  dj_jkt :: string
  dj_jti :: string
  dj_expiresAt :: date

type_synonym dpop_proofs = "dpop_proof list"

definition dpopProofExpiresAt :: "int option \<Rightarrow> date \<Rightarrow> date" where
  "dpopProofExpiresAt iat now = coalesce (map_option (\<lambda>s. s * 1000) iat) now + (300 + 60) * 1000"

text \<open>The two statements of \<open>register\<close>; a unique violation of the \<open>INSERT\<close> is \<^term>\<open>False\<close>.\<close>

definition jti_delete :: "string \<Rightarrow> string \<Rightarrow> date \<Rightarrow> dpop_proofs \<Rightarrow> dpop_proofs" where
  "jti_delete jkt jti now db =
     fst (sql_delete (\<lambda>r. dj_jkt r = jkt \<and> dj_jti r = jti \<and> dj_expiresAt r \<le> now) db)"

definition jti_insert :: "string \<Rightarrow> string \<Rightarrow> date \<Rightarrow> dpop_proofs \<Rightarrow> bool \<times> dpop_proofs" where
  "jti_insert jkt jti expiresAt db =
     (case sql_insert (\<lambda>r. (dj_jkt r, dj_jti r)) \<lparr>dj_jkt = jkt, dj_jti = jti, dj_expiresAt = expiresAt\<rparr> db of
        None \<Rightarrow> (False, db)
      | Some db' \<Rightarrow> (True, db'))"

definition jti_deleteExpired :: "date \<Rightarrow> dpop_proofs \<Rightarrow> dpop_proofs" where
  "jti_deleteExpired before db = fst (sql_delete (\<lambda>r. dj_expiresAt r < before) db)"

datatype jti_stmt =
    Jti_Delete string string date
  | Jti_Insert string string date
  | Jti_DeleteExpired date

fun exec_jti :: "jti_stmt \<Rightarrow> dpop_proofs \<Rightarrow> dpop_proofs" where
  "exec_jti (Jti_Delete jkt jti now) db = jti_delete jkt jti now db"
| "exec_jti (Jti_Insert jkt jti e) db = snd (jti_insert jkt jti e db)"
| "exec_jti (Jti_DeleteExpired d) db = jti_deleteExpired d db"

definition register :: "date \<Rightarrow> jti_stmt list \<Rightarrow> string \<Rightarrow> string \<Rightarrow> date \<Rightarrow> dpop_proofs \<Rightarrow> bool \<times> dpop_proofs" where
  "register now others jkt jti expiresAt db =
     jti_insert jkt jti expiresAt (foldl (\<lambda>d s. exec_jti s d) (jti_delete jkt jti now db) others)"

text \<open>No entry of the proof outlives \<open>e\<close>.\<close>

definition jti_free :: "string \<Rightarrow> string \<Rightarrow> date \<Rightarrow> dpop_proofs \<Rightarrow> bool" where
  "jti_free jkt jti e db \<longleftrightarrow> (\<forall>r \<in> set db. dj_jkt r = jkt \<and> dj_jti r = jti \<longrightarrow> dj_expiresAt r < e)"

text \<open>The deletions of other requests and of the cleanup job happen before the proof expires.\<close>

fun before_expiry :: "date \<Rightarrow> jti_stmt \<Rightarrow> bool" where
  "before_expiry e (Jti_Delete _ _ now) \<longleftrightarrow> now < e"
| "before_expiry e (Jti_DeleteExpired now) \<longleftrightarrow> now \<le> e"
| "before_expiry e (Jti_Insert _ _ _) \<longleftrightarrow> True"

lemma jti_insert_cases:
  "jti_insert jkt jti e db =
     (if \<exists>r \<in> set db. dj_jkt r = jkt \<and> dj_jti r = jti then (False, db)
      else (True, db @ [\<lparr>dj_jkt = jkt, dj_jti = jti, dj_expiresAt = e\<rparr>]))"
  by (force simp: jti_insert_def sql_insert_def)

lemma exec_jti_taken:
  assumes "before_expiry e st" "\<not> jti_free jkt jti e db"
  shows "\<not> jti_free jkt jti e (exec_jti st db)"
proof -
  obtain r where r: "r \<in> set db" "dj_jkt r = jkt" "dj_jti r = jti" "e \<le> dj_expiresAt r"
    using assms(2) by (auto simp: jti_free_def not_less)
  have "r \<in> set (exec_jti st db)"
    using assms(1) r
    by (cases st) (auto simp: jti_delete_def jti_deleteExpired_def sql_delete_rows jti_insert_cases)
  with r show ?thesis by (auto simp: jti_free_def not_less)
qed

definition claim_jti :: "string \<Rightarrow> string \<Rightarrow> date \<Rightarrow> dpop_proofs \<Rightarrow> bool \<times> dpop_proofs" where
  "claim_jti jkt jti e db = jti_insert jkt jti e db"

interpretation jti_use: single_use "claim_jti jkt jti" exec_jti "\<lambda>c. e \<le> c" "before_expiry e" "\<lambda>_. True"
    "jti_free jkt jti e"
proof unfold_locales
  fix t st assume "before_expiry e st" "\<not> jti_free jkt jti e t"
  then show "\<not> jti_free jkt jti e (exec_jti st t)" by (rule exec_jti_taken)
qed (auto simp: claim_jti_def jti_insert_cases jti_free_def split: if_splits)


section \<open>Deferred transactions\<close>

datatype deferred_status = DT_Pending | DT_Ready | DT_Retrieved | DT_Expired | DT_Failed

text \<open>The create and update timestamps are left out: no code reads them.\<close>

record deferred_transaction =
  dt_transactionId :: string
  dt_tenantId :: string
  dt_sessionId :: string
  dt_credentialConfigurationId :: string
  dt_issuanceSetId :: "string option"
  dt_holderCnf :: json
  dt_status :: deferred_status
  dt_credential :: "string option"
  dt_errorMessage :: "string option"
  dt_interval :: int
  dt_expiresAt :: date

type_synonym transactions = "deferred_transaction list"

definition dt_where :: "string \<Rightarrow> string \<Rightarrow> deferred_transaction \<Rightarrow> bool" where
  "dt_where t i r \<longleftrightarrow> dt_tenantId r = t \<and> dt_transactionId r = i"

definition dt_create :: "deferred_transaction \<Rightarrow> transactions \<Rightarrow> transactions" where
  "dt_create tr db =
     (if \<exists>r \<in> set db. dt_transactionId r = dt_transactionId tr
      then fst (sql_update (\<lambda>r. dt_transactionId r = dt_transactionId tr) (\<lambda>_. tr) db) else db @ [tr])"

definition dt_find :: "string \<Rightarrow> string \<Rightarrow> transactions \<Rightarrow> deferred_transaction option" where
  "dt_find t i db = sql_find_one (dt_where t i) db"

definition findPending :: "string \<Rightarrow> string \<Rightarrow> transactions \<Rightarrow> deferred_transaction option" where
  "findPending t i db = sql_find_one (\<lambda>r. dt_where t i r \<and> dt_status r = DT_Pending) db"

definition markReady_update :: "string \<Rightarrow> string \<Rightarrow> string \<Rightarrow> transactions \<Rightarrow> transactions" where
  "markReady_update t i credential db =
     fst (sql_update (dt_where t i) (\<lambda>r. r\<lparr>dt_status := DT_Ready, dt_credential := Some credential\<rparr>) db)"

definition markFailed_update :: "string \<Rightarrow> string \<Rightarrow> string \<Rightarrow> transactions \<Rightarrow> transactions" where
  "markFailed_update t i errorMessage db =
     fst (sql_update (dt_where t i) (\<lambda>r. r\<lparr>dt_status := DT_Failed, dt_errorMessage := Some errorMessage\<rparr>) db)"

definition markRetrieved :: "string \<Rightarrow> string \<Rightarrow> transactions \<Rightarrow> bool \<times> transactions" where
  "markRetrieved t i db =
     (let (db', affected) = sql_update (\<lambda>r. dt_where t i r \<and> dt_status r = DT_Ready)
            (\<lambda>r. r\<lparr>dt_status := DT_Retrieved\<rparr>) db
      in (0 < affected, db'))"

definition markExpired :: "string \<Rightarrow> string \<Rightarrow> transactions \<Rightarrow> transactions" where
  "markExpired t i db = fst (sql_update (dt_where t i) (\<lambda>r. r\<lparr>dt_status := DT_Expired\<rparr>) db)"

definition dt_deleteExpired :: "date \<Rightarrow> transactions \<Rightarrow> transactions" where
  "dt_deleteExpired now db = fst (sql_delete (\<lambda>r. dt_expiresAt r < now) db)"

datatype deferred_stmt =
    Dt_Create deferred_transaction
  | Dt_Ready string string string
  | Dt_Failed string string string
  | Dt_Retrieved string string
  | Dt_Expired string string
  | Dt_DeleteExpired date

fun exec_deferred :: "deferred_stmt \<Rightarrow> transactions \<Rightarrow> transactions" where
  "exec_deferred (Dt_Create tr) db = dt_create tr db"
| "exec_deferred (Dt_Ready t i c) db = markReady_update t i c db"
| "exec_deferred (Dt_Failed t i m) db = markFailed_update t i m db"
| "exec_deferred (Dt_Retrieved t i) db = snd (markRetrieved t i db)"
| "exec_deferred (Dt_Expired t i) db = markExpired t i db"
| "exec_deferred (Dt_DeleteExpired now) db = dt_deleteExpired now db"

definition dt_ready :: "string \<Rightarrow> string \<Rightarrow> transactions \<Rightarrow> bool" where
  "dt_ready t i db \<longleftrightarrow> (\<exists>r \<in> set db. dt_where t i r \<and> dt_status r = DT_Ready)"

text \<open>Statements that do not make the transaction ready.\<close>

fun not_completed :: "string \<Rightarrow> string \<Rightarrow> deferred_stmt \<Rightarrow> bool" where
  "not_completed t i (Dt_Ready t' i' _) \<longleftrightarrow> (t', i') \<noteq> (t, i)"
| "not_completed t i (Dt_Create tr) \<longleftrightarrow> \<not> (dt_where t i tr \<and> dt_status tr = DT_Ready)"
| "not_completed t i _ \<longleftrightarrow> True"

lemma markRetrieved_wins: "fst (markRetrieved t i db) \<longleftrightarrow> dt_ready t i db"
  by (simp add: markRetrieved_def dt_ready_def split_beta sql_update_affected)

lemma markRetrieved_rows:
  "set (snd (markRetrieved t i db)) =
     (\<lambda>r. if dt_where t i r \<and> dt_status r = DT_Ready then r\<lparr>dt_status := DT_Retrieved\<rparr> else r) ` set db"
  by (simp add: markRetrieved_def split_beta sql_update_rows)

lemma dt_where_update [simp]:
  "dt_where t i (r\<lparr>dt_status := st\<rparr>) = dt_where t i r"
  "dt_where t i (r\<lparr>dt_status := st, dt_credential := c\<rparr>) = dt_where t i r"
  "dt_where t i (r\<lparr>dt_status := st, dt_errorMessage := c\<rparr>) = dt_where t i r"
  by (simp_all add: dt_where_def)

lemma markRetrieved_spends: "\<not> dt_ready t i (snd (markRetrieved t i db))"
  by (auto simp: dt_ready_def markRetrieved_rows)

lemma exec_deferred_not_ready:
  assumes "not_completed t i st" "\<not> dt_ready t i db"
  shows "\<not> dt_ready t i (exec_deferred st db)"
proof (cases st)
  case (Dt_Create tr)
  with assms show ?thesis by (auto simp: dt_ready_def dt_create_def sql_update_rows)
next
  case (Dt_Ready t' i' c)
  with assms show ?thesis by (auto simp: dt_ready_def markReady_update_def sql_update_rows dt_where_def)
next
  case (Dt_Failed t' i' m)
  with assms show ?thesis by (auto simp: dt_ready_def markFailed_update_def sql_update_rows)
next
  case (Dt_Retrieved t' i')
  with assms show ?thesis by (auto simp: dt_ready_def markRetrieved_rows)
next
  case (Dt_Expired t' i')
  with assms show ?thesis by (auto simp: dt_ready_def markExpired_def sql_update_rows)
next
  case (Dt_DeleteExpired now)
  with assms show ?thesis by (auto simp: dt_ready_def dt_deleteExpired_def sql_delete_rows)
qed

definition claim_transaction :: "string \<Rightarrow> string \<Rightarrow> unit \<Rightarrow> transactions \<Rightarrow> bool \<times> transactions" where
  "claim_transaction t i c db = markRetrieved t i db"

interpretation transaction_use: single_use "claim_transaction t i" exec_deferred "\<lambda>_. True" "not_completed t i"
    "\<lambda>_. True" "dt_ready t i"
  by unfold_locales
    (simp_all add: claim_transaction_def markRetrieved_wins markRetrieved_spends exec_deferred_not_ready)


section \<open>The tables together\<close>

record issuance_db =
  db_sessions :: sessions
  db_nonces :: nonces
  db_deferred :: transactions

datatype issuance_stmt =
    On_Sessions session_stmt
  | On_Nonces nonce_stmt
  | On_Deferred deferred_stmt

fun exec_issuance :: "issuance_stmt \<Rightarrow> issuance_db \<Rightarrow> issuance_db" where
  "exec_issuance (On_Sessions st) db = db\<lparr>db_sessions := exec_stmt st (db_sessions db)\<rparr>"
| "exec_issuance (On_Nonces st) db = db\<lparr>db_nonces := exec_nonce st (db_nonces db)\<rparr>"
| "exec_issuance (On_Deferred st) db = db\<lparr>db_deferred := exec_deferred st (db_deferred db)\<rparr>"

definition run_others :: "issuance_stmt list \<Rightarrow> issuance_db \<Rightarrow> issuance_db" where
  "run_others ss db = foldl (\<lambda>d s. exec_issuance s d) db ss"

lemma run_others_simps [simp]:
  "run_others [] db = db" "run_others (s # ss) db = run_others ss (exec_issuance s db)"
  by (simp_all add: run_others_def)

end
