(* ===== verification/Credential_Requests.thy ===== *)
theory Credential_Requests
  imports Credential_Claims Issuance_Store Wallet_Flows OAuth_Rules
begin

text \<open>
  What the credential endpoint checks before it issues (\<open>oid4vci/application\<close>, \<open>oid4vci/domain\<close>):
  which session and which credential configuration an access token is good for, which key proofs a
  request holds, that their nonces are fresh, and what a key attestation must state. Tokens are the
  verified payloads the OAuth library returns. The configured authorization servers, \<open>decodeJwt\<close> and
  the proof verifier are parameters.
\<close>

section \<open>The session of an access token\<close>

datatype token_kind = Local_Token | Chained_Token | External_Token

record token_issuers =
  ti_localIssuer :: string
  ti_chainedIssuer :: string
  ti_hasChainedAuthorizationServer :: bool
  ti_managedAuthorizationServerIssuers :: "string list"

definition classifyToken :: "token_issuers \<Rightarrow> string \<Rightarrow> token_kind" where
  "classifyToken issuers tokenIssuer =
     (if tokenIssuer = ti_localIssuer issuers then Local_Token
      else if (ti_hasChainedAuthorizationServer issuers \<and> tokenIssuer = ti_chainedIssuer issuers)
        \<or> tokenIssuer \<in> set (ti_managedAuthorizationServerIssuers issuers)
      then Chained_Token
      else External_Token)"

record external_server =
  xs_advertised :: bool
  xs_configuration :: "(string \<times> string option) option"

record credential_sources =
  so_tokenIssuers :: "string \<Rightarrow> token_issuers"
  so_externalServer :: "string \<Rightarrow> string \<Rightarrow> external_server"
  so_upstreamIdentity :: "string \<Rightarrow> string \<Rightarrow> json option"

text \<open>A claim of the token the code reads as a string; \<open>iss\<close> and \<open>sub\<close> are strings in every token the
  library verifies.\<close>

definition token_text :: "string \<Rightarrow> json \<Rightarrow> string option" where
  "token_text k token = jstr (jget k (Some token))"

definition token_iss :: "json \<Rightarrow> string" where
  "token_iss token = coalesce (token_text ''iss'' token) []"

definition token_sub :: "json \<Rightarrow> string" where
  "token_sub token = coalesce (token_text ''sub'' token) []"

datatype token_session =
    Local_Session string
  | Chained_Session string bool
  | External_Session string string string

primrec session_of :: "token_session \<Rightarrow> string" where
  "session_of (Local_Session i) = i"
| "session_of (Chained_Session i v) = i"
| "session_of (External_Session i asid claim) = i"

text \<open>\<open>Inl\<close> is the message of \<open>CredentialSessionAuthorizationDenied\<close>.\<close>

definition correlate :: "credential_sources \<Rightarrow> string \<Rightarrow> json \<Rightarrow> string + token_session" where
  "correlate src tenantId token =
     (let issuers = so_tokenIssuers src tenantId; iss = token_iss token
      in case classifyToken issuers iss of
           Chained_Token \<Rightarrow>
             (if \<not> truthy (token_text ''issuer_state'' token)
              then Inl ''Chained AS token is missing issuer_state claim''
              else Inr (Chained_Session (the (token_text ''issuer_state'' token)) (iss = ti_chainedIssuer issuers)))
         | External_Token \<Rightarrow>
             (let server = so_externalServer src tenantId iss
              in if \<not> xs_advertised server
                 then Inl (''Token issuer '' @ quoted iss @ '' is not a configured authorization server'')
                 else (case xs_configuration server of
                         None \<Rightarrow> Inl (''Token issuer '' @ quoted iss @ '' is not a configured external authorization server'')
                       | Some (asid, bindingClaim) \<Rightarrow>
                           (let bindingValue = token_text (coalesce bindingClaim []) token
                            in if \<not> truthy bindingClaim \<or> \<not> truthy bindingValue
                               then Inl (''External authorization server '' @ quoted iss
                                 @ '' is missing the configured session-binding claim ''
                                 @ quoted (coalesce bindingClaim ''<unset>''))
                               else Inr (External_Session (the bindingValue) asid (the bindingClaim)))))
         | Local_Token \<Rightarrow> Inr (Local_Session (token_sub token)))"

definition isBoundTo :: "token_session \<Rightarrow> json \<Rightarrow> session \<Rightarrow> bool" where
  "isBoundTo ref token s \<longleftrightarrow> s_id s = session_of ref
     \<and> (case ref of
          External_Session i asid claim \<Rightarrow>
            s_authorizationServerId s = Some asid \<and> s_externalIssuer s = Some (token_iss token)
            \<and> s_externalSubject s = Some (token_sub token)
        | _ \<Rightarrow> True)"

datatype resolve_error = Session_Denied string | Session_Missing session_error

definition NOT_ASSOCIATED :: string where
  "NOT_ASSOCIATED = ''The access token is not associated with a valid session''"

definition resolveSession :: "credential_sources \<Rightarrow> string \<Rightarrow> json \<Rightarrow> sessions \<Rightarrow> resolve_error + session" where
  "resolveSession src tenantId token db =
     (case correlate src tenantId token of
        Inl m \<Rightarrow> Inl (Session_Denied m)
      | Inr ref \<Rightarrow>
          (case getForTenant tenantId (Some (session_of ref)) None db of
             Inl e \<Rightarrow> Inl (Session_Missing e)
           | Inr s \<Rightarrow> (if isBoundTo ref token s then Inr s else Inl (Session_Denied NOT_ASSOCIATED))))"

definition belongsToSession :: "credential_sources \<Rightarrow> string \<Rightarrow> json \<Rightarrow> string \<Rightarrow> sessions \<Rightarrow> bool" where
  "belongsToSession src tenantId token sessionId db =
     (case correlate src tenantId token of
        Inl _ \<Rightarrow> False
      | Inr ref \<Rightarrow>
          (if session_of ref \<noteq> sessionId then False
           else (case ref of
                   External_Session _ _ _ \<Rightarrow>
                     (case getForTenant tenantId (Some sessionId) None db of
                        Inl _ \<Rightarrow> False
                      | Inr s \<Rightarrow> isBoundTo ref token s)
                 | _ \<Rightarrow> True)))"


section \<open>The session and its claims\<close>

record resolved_session =
  rs_session :: session
  rs_claimsResult :: "claims_result option"
  rs_isExternalAsToken :: bool
  rs_isChainedAsToken :: bool

definition token_identity :: "json \<Rightarrow> json \<Rightarrow> json" where
  "token_identity sub token = JObj [(''iss'', JStr (token_iss token)), (''sub'', sub), (''token_claims'', token)]"

definition is_external :: "token_session \<Rightarrow> bool" where
  "is_external ref = (case ref of External_Session _ _ _ \<Rightarrow> True | _ \<Rightarrow> False)"

definition is_chained :: "token_session \<Rightarrow> bool" where
  "is_chained ref = (case ref of Chained_Session _ _ \<Rightarrow> True | _ \<Rightarrow> False)"

definition credential_identity :: "credential_sources \<Rightarrow> string \<Rightarrow> json \<Rightarrow> token_session \<Rightarrow> json" where
  "credential_identity src tenantId token ref =
     (case ref of
        Chained_Session sid viaChained \<Rightarrow>
          coalesce (if viaChained then so_upstreamIdentity src tenantId sid else None)
            (token_identity (case jget ''upstream_sub'' (Some token) of
                 None \<Rightarrow> JStr (token_sub token) | Some JNull \<Rightarrow> JStr (token_sub token) | Some v \<Rightarrow> v) token)
      | _ \<Rightarrow> token_identity (JStr (token_sub token)) token)"

definition token_session_row ::
    "date \<Rightarrow> string \<Rightarrow> json \<Rightarrow> token_session \<Rightarrow> sessions \<Rightarrow> (resolve_error + session) \<times> sessions" where
  "token_session_row now tenantId token ref db =
     (case ref of
        External_Session sid asid claim \<Rightarrow>
          (case resolveExternalAuthorizationSession now tenantId
                  \<lparr>et_externalIssuer = token_iss token, et_externalSubject = token_sub token,
                   et_authorizationServerId = Some asid, et_bindingClaim = Some claim,
                   et_bindingValue = Some sid\<rparr> db of
             (Inl e, db') \<Rightarrow> (Inl (Session_Missing e), db')
           | (Inr s, db') \<Rightarrow> (Inr s, db'))
      | Chained_Session sid _ \<Rightarrow>
          (case getForTenant tenantId (Some sid) None db of
             Inl e \<Rightarrow> (Inl (Session_Missing e), db) | Inr s \<Rightarrow> (Inr s, db))
      | Local_Session sid \<Rightarrow>
          (case getForTenant tenantId (Some sid) None db of
             Inl e \<Rightarrow> (Inl (Session_Missing e), db)
           | Inr s \<Rightarrow> (if token_sub token \<noteq> s_id s then (Inl (Session_Denied NOT_ASSOCIATED), db) else (Inr s, db))))"

text \<open>The request is denied or refused as \<open>Oid4vciService.resolveSessionAndClaims\<close> maps the errors.\<close>

definition denied :: "string \<Rightarrow> request_failure" where
  "denied m = Request_Exception ''credential_request_denied'' m"

definition binding_error_message :: "string \<Rightarrow> token_session \<Rightarrow> string" where
  "binding_error_message tenantId ref = (case ref of
       External_Session sid asid claim \<Rightarrow>
         (if asid = [] \<or> claim = [] \<or> sid = []
          then ''External authorization-server session resolution requires the authorization server id, the configured claim name, and the session-correlation value''
          else ''No existing issuance session found for external AS token for tenant '' @ tenantId @ '', auth server ''
            @ asid @ '', claim '' @ claim @ '', value '' @ sid)
     | _ \<Rightarrow> [])"

definition map_resolve_error :: "string \<Rightarrow> token_session \<Rightarrow> resolve_error \<Rightarrow> request_failure" where
  "map_resolve_error tenantId ref e = (case e of
       Session_Denied m \<Rightarrow> denied m
     | Session_Missing SessionNotFound \<Rightarrow> Session_Failure SessionNotFound ''Session not found''
     | Session_Missing err \<Rightarrow> Session_Failure err (binding_error_message tenantId ref))"

definition map_claims_error :: "claims_error \<Rightarrow> request_failure" where
  "map_claims_error e = (case e of
       Claims_Resolution_Error Claims_Missing m \<Rightarrow> denied m
     | Claims_Resolution_Error _ m \<Rightarrow> Conflict_Exception m
     | Remote_Error f \<Rightarrow> f)"

definition resolveCredentialSession ::
    "credential_sources \<Rightarrow> claims_env \<Rightarrow> date \<Rightarrow> string \<Rightarrow> string \<Rightarrow> json \<Rightarrow> sessions
       \<Rightarrow> (request_failure + resolved_session) \<times> sessions" where
  "resolveCredentialSession src env now tenantId cid token db =
     (case correlate src tenantId token of
        Inl m \<Rightarrow> (Inl (denied m), db)
      | Inr ref \<Rightarrow>
          (case token_session_row now tenantId token ref db of
             (Inl e, db') \<Rightarrow> (Inl (map_resolve_error tenantId ref e), db')
           | (Inr s, db') \<Rightarrow>
               (case resolveClaims env \<lparr>cq_credentialConfigurationId = cid, cq_session = s,
                        cq_identity = credential_identity src tenantId token ref,
                        cq_requireProvider = is_external ref\<rparr> of
                  Inl e \<Rightarrow> (Inl (map_claims_error e), db')
                | Inr result \<Rightarrow>
                    (Inr \<lparr>rs_session = s, rs_claimsResult = result, rs_isExternalAsToken = is_external ref,
                          rs_isChainedAsToken = is_chained ref\<rparr>, db'))))"


section \<open>The credential configuration a token is good for\<close>

definition resolveIdentifier :: "string \<Rightarrow> json option \<Rightarrow> (string \<times> string) + string" where
  "resolveIdentifier i details =
     (case List.find (\<lambda>d. JStr i \<in> set (arr_of (jget ''credential_identifiers'' (Some d)))) (arr_of details) of
        None \<Rightarrow> Inl (''unknown_credential_identifier'', ''Credential identifier '' @ quoted i @ '' is unknown'')
      | Some d \<Rightarrow>
          (case jget ''credential_configuration_id'' (Some d) of
             Some (JStr cid) \<Rightarrow> Inr cid
           | _ \<Rightarrow> Inl (''unknown_credential_identifier'', ''Credential identifier '' @ quoted i @ '' is unknown'')))"

definition authorized_configurations :: "json list \<Rightarrow> string list" where
  "authorized_configurations details =
     List.map_filter (\<lambda>d. if jget ''type'' (Some d) = Some (JStr ''openid_credential'')
       then jstr (jget ''credential_configuration_id'' (Some d)) else None) details"

definition enforceAuthorizationDetails :: "json option \<Rightarrow> string \<Rightarrow> (string \<times> string) + unit" where
  "enforceAuthorizationDetails details cid =
     (if arr_of details = [] then Inr ()
      else let authorized = authorized_configurations (arr_of details)
           in if authorized = []
              then Inl (''invalid_credential_request'', ''Access token is not authorized for any credential configuration'')
              else require (cid \<in> set authorized) (''invalid_credential_request'',
                ''Access token is not authorized for credential_configuration_id '' @ quoted cid))"

definition resolveAuthorizedCredentialConfiguration ::
    "string option \<Rightarrow> string option \<Rightarrow> json option \<Rightarrow> (string \<times> string) + string" where
  "resolveAuthorizedCredentialConfiguration identifier configurationId details =
     ebind (if truthy identifier
            then (case resolveIdentifier (the identifier) details of Inl e \<Rightarrow> Inl e | Inr c \<Rightarrow> Inr (Some c))
            else Inr configurationId) (\<lambda>cid.
     if \<not> truthy cid
     then Inl (''invalid_credential_request'', ''Credential configuration identifier is missing'')
     else ebind (enforceAuthorizationDetails details (the cid)) (\<lambda>_. Inr (the cid)))"


section \<open>Key proofs\<close>

datatype proof_type = Jwt_Proof | Attestation_Proof

definition proof_type_text :: "proof_type \<Rightarrow> string" where
  "proof_type_text t = (case t of Jwt_Proof \<Rightarrow> ''jwt'' | Attestation_Proof \<Rightarrow> ''attestation'')"

definition proof_strings :: "string \<Rightarrow> json option \<Rightarrow> string list" where
  "proof_strings k proofs = List.map_filter (\<lambda>v. jstr (Some v)) (arr_of (jget k proofs))"

definition resolveCredentialProofs :: "json option \<Rightarrow> string + proof_type \<times> string list" where
  "resolveCredentialProofs proofs =
     (let jwts = proof_strings ''jwt'' proofs; attestations = proof_strings ''attestation'' proofs
      in if jwts \<noteq> [] \<and> attestations \<noteq> []
         then Inl ''Credential request must include exactly one supported proof type (jwt or attestation)''
         else if jwts \<noteq> [] then Inr (Jwt_Proof, jwts)
         else if attestations \<noteq> []
         then (if length attestations \<noteq> 1
               then Inl ''Attestation proof type requires exactly one key attestation JWT''
               else Inr (Attestation_Proof, attestations))
         else Inl ''The proofs parameter is missing or does not contain supported proof types (jwt, attestation)'')"


section \<open>Proof nonces\<close>

text \<open>\<open>ne_decode\<close> is the payload of a JWT, or the error of a malformed one; \<open>ne_text\<close> what the driver
  compares the column with when a nonce claim is no string.\<close>

record nonce_env =
  ne_decode :: "string \<Rightarrow> request_failure + json"
  ne_text :: "json \<Rightarrow> string"

datatype nonce_failure = Nonce_Error string string bool | Nonce_Thrown request_failure

fun collect_nonces :: "nonce_env \<Rightarrow> proof_type \<Rightarrow> string list \<Rightarrow> json list \<Rightarrow> nonce_failure + json list" where
  "collect_nonces ne ty [] acc = Inr acc"
| "collect_nonces ne ty (p # ps) acc =
     (case ne_decode ne p of
        Inl e \<Rightarrow> Inl (Nonce_Thrown e)
      | Inr payload \<Rightarrow>
          (if \<not> jtruthy (jget ''nonce'' (Some payload))
           then Inl (Nonce_Error ''invalid_proof'' (''All '' @ proof_type_text ty
             @ '' key proofs must contain a nonce when the nonce endpoint is offered'') False)
           else collect_nonces ne ty ps (set_add acc (the (jget ''nonce'' (Some payload))))))"

definition nonce_text :: "nonce_env \<Rightarrow> json \<Rightarrow> string" where
  "nonce_text ne v = (case v of JStr s \<Rightarrow> s | _ \<Rightarrow> ne_text ne v)"

definition NONCE_USED :: string where
  "NONCE_USED = ''The nonce in the key proof is invalid or has already been used''"

text \<open>The second loop: \<open>gaps\<close> holds, statement by statement, what other requests run before it.\<close>

fun consume_nonces ::
    "nonce_env \<Rightarrow> date \<Rightarrow> string \<Rightarrow> (nat \<Rightarrow> issuance_stmt list) \<Rightarrow> json list \<Rightarrow> issuance_db
       \<Rightarrow> (nonce_failure + unit) \<times> issuance_db" where
  "consume_nonces ne now tenantId gaps [] db = (Inr (), db)"
| "consume_nonces ne now tenantId gaps (v # vs) db =
     (let db1 = run_others (gaps 0) db; n = nonce_text ne v
      in case nonce_find tenantId n (db_nonces db1) of
           None \<Rightarrow> (Inl (Nonce_Error ''invalid_nonce'' NONCE_USED True), db1)
         | Some stored \<Rightarrow>
             (let db2 = run_others (gaps 1) db1;
                  (consumed, nonces') = nonce_delete tenantId n (db_nonces db2);
                  db3 = db2\<lparr>db_nonces := nonces'\<rparr>
              in if cn_expiresAt stored < now
                 then (Inl (Nonce_Error ''invalid_nonce'' ''The nonce in the key proof has expired'' True), db3)
                 else if \<not> consumed then (Inl (Nonce_Error ''invalid_nonce'' NONCE_USED True), db3)
                 else consume_nonces ne now tenantId (\<lambda>k. gaps (k + 2)) vs db3))"

definition validateAndConsumeCredentialNonces ::
    "nonce_env \<Rightarrow> date \<Rightarrow> string \<Rightarrow> (nat \<Rightarrow> issuance_stmt list) \<Rightarrow> string list \<Rightarrow> proof_type \<Rightarrow> issuance_db
       \<Rightarrow> (nonce_failure + unit) \<times> issuance_db" where
  "validateAndConsumeCredentialNonces ne now tenantId gaps proofs ty db =
     (case collect_nonces ne ty proofs [] of
        Inl e \<Rightarrow> (Inl e, db)
      | Inr nonces \<Rightarrow> consume_nonces ne now tenantId gaps nonces db)"

text \<open>\<open>NonceService.validateAndConsume\<close>, without the audit log.\<close>

definition map_nonce_failure :: "nonce_failure \<Rightarrow> request_failure" where
  "map_nonce_failure e = (case e of Nonce_Error code m audit \<Rightarrow> Request_Exception code m | Nonce_Thrown f \<Rightarrow> f)"

definition nonce_validateAndConsume ::
    "nonce_env \<Rightarrow> date \<Rightarrow> string \<Rightarrow> (nat \<Rightarrow> issuance_stmt list) \<Rightarrow> string list \<Rightarrow> proof_type \<Rightarrow> issuance_db
       \<Rightarrow> (request_failure + unit) \<times> issuance_db" where
  "nonce_validateAndConsume ne now tenantId gaps proofs ty db =
     (case validateAndConsumeCredentialNonces ne now tenantId gaps proofs ty db of
        (Inl e, db') \<Rightarrow> (Inl (map_nonce_failure e), db')
      | (Inr u, db') \<Rightarrow> (Inr u, db'))"


section \<open>Key attestation requirements\<close>

record key_attestation =
  at_attestedKeys :: "json list"
  at_keyStorage :: "string list option"
  at_userAuthentication :: "string list option"

record verified_proof =
  vp_holderKeys :: "json list"
  vp_keyAttestation :: "key_attestation option"

definition key_members :: "string \<Rightarrow> string list option" where
  "key_members kty =
     (if kty = ''EC'' then Some [''crv'', ''x'', ''y'']
      else if kty = ''OKP'' then Some [''crv'', ''x'']
      else if kty = ''RSA'' then Some [''e'', ''n'']
      else None)"

definition isSameKey :: "json \<Rightarrow> json \<Rightarrow> bool" where
  "isSameKey a b =
     (case jget ''kty'' (Some a) of
        Some (JStr kty) \<Rightarrow>
          (case key_members kty of
             None \<Rightarrow> False
           | Some members \<Rightarrow> jget ''kty'' (Some b) = Some (JStr kty)
               \<and> list_all (\<lambda>m. jstr (jget m (Some a)) \<noteq> None \<and> jget m (Some a) = jget m (Some b)) members)
      | _ \<Rightarrow> False)"

definition assertAcceptedValue :: "string \<Rightarrow> string list option \<Rightarrow> string list option \<Rightarrow> request_failure + unit" where
  "assertAcceptedValue claim accepted attested =
     (if coalesce accepted [] = [] then Inr ()
      else require (list_ex (\<lambda>v. v \<in> set (the accepted)) (coalesce attested []))
        (Invalid_Proof (''The key attestation does not state an accepted '' @ claim @ '' value (accepted: ''
           @ join '', '' (the accepted) @ '')'')))"

definition assertKeyAttestationRequirements ::
    "key_attestation_requirements option \<Rightarrow> verified_proof \<Rightarrow> request_failure + unit" where
  "assertKeyAttestationRequirements requirements p =
     (case requirements of
        None \<Rightarrow> Inr ()
      | Some rq \<Rightarrow>
          (case vp_keyAttestation p of
             None \<Rightarrow> Inl (Invalid_Proof ''The credential configuration requires a key attestation: use the attestation proof type or add a key_attestation header to the jwt proof'')
           | Some att \<Rightarrow>
               ebind (require (vp_holderKeys p \<noteq> []
                   \<and> list_all (\<lambda>key. list_ex (isSameKey key) (at_attestedKeys att)) (vp_holderKeys p))
                 (Invalid_Proof ''The proof contains a key that is not listed in attested_keys of the key attestation''))
                 (\<lambda>_. ebind (assertAcceptedValue ''key_storage'' (ka_key_storage rq) (at_keyStorage att))
                 (\<lambda>_. assertAcceptedValue ''user_authentication'' (ka_user_authentication rq) (at_userAuthentication att)))))"

end
