(* ===== verification/Credential_Access.thy ===== *)
theory Credential_Access
  imports Credential_Requests
begin

text \<open>
  The access token of a credential request (\<open>oid4vci/util.ts\<close>, \<open>credential-access-token.verifier.ts\<close>,
  \<open>Oid4vciService.deriveIssuanceSetId\<close>) and what the credential endpoints use from outside: the
  configuration of the tenant, the issuer metadata and the OAuth and OID4VCI libraries.
\<close>

section \<open>Requests\<close>

datatype request_body = Body_Text string | Body_Object json | No_Body

datatype header = Header_Text string | Header_List "string list"

record request_context =
  rx_body :: request_body
  rx_contentType :: string
  rx_headers :: "(string \<times> header) list"
  rx_method :: string
  rx_url :: string

definition normalizeAuthorizationHeader :: "string \<Rightarrow> string" where
  "normalizeAuthorizationHeader value =
     (let trimmed = js_trim value
      in if CHR '' '' \<notin> set trimmed then trimmed
         else let scheme = takeWhile (\<lambda>c. c \<noteq> CHR '' '') trimmed;
                  credentials = js_trim (drop (length scheme + 1) trimmed)
              in if credentials = [] then trimmed
                 else (if toLowerCase scheme = ''dpop'' then ''DPoP''
                       else if toLowerCase scheme = ''bearer'' then ''Bearer'' else scheme) @ '' '' @ credentials)"

text \<open>The entries of the \<open>Headers\<close> object; \<open>set\<close> replaces the entries of the name, \<open>append\<close> adds one.\<close>

definition headers_set :: "string \<Rightarrow> string \<Rightarrow> (string \<times> string) list \<Rightarrow> (string \<times> string) list" where
  "headers_set k v hs = filter (\<lambda>h. toLowerCase (fst h) \<noteq> toLowerCase k) hs @ [(k, v)]"

definition normalized_value :: "string \<Rightarrow> string \<Rightarrow> string" where
  "normalized_value k v = (if toLowerCase k = ''authorization'' then normalizeAuthorizationHeader v else v)"

definition normalizeRequestHeaders :: "(string \<times> header) list \<Rightarrow> (string \<times> string) list" where
  "normalizeRequestHeaders hs =
     foldl (\<lambda>acc (k, h). case h of
         Header_Text v \<Rightarrow> headers_set k (normalized_value k v) acc
       | Header_List vs \<Rightarrow> acc @ map (\<lambda>v. (k, normalized_value k v)) vs) [] hs"


section \<open>Outside world\<close>

record issuer_metadata =
  im_credentialIssuer :: json
  im_authorizationServers :: "json list"

record credential_issuance = issuance_settings +
  ci_batchSize :: "nat option"
  ci_notificationEndpointEnabled :: "bool option"

record credential_request =
  cr_credentialIdentifier :: "string option"
  cr_credentialConfigurationId :: "string option"
  cr_proofs :: "json option"
  cr_credentialResponseEncryption :: "json option"

record resource_check =
  rk_authorizationServers :: "json list"
  rk_url :: string
  rk_method :: string
  rk_headers :: "(string \<times> string) list"
  rk_resourceServer :: "json option"
  rk_schemes :: "string list"

record credential_response =
  cx_credentials :: "string list"
  cx_request :: credential_request
  cx_nonce :: "json option"
  cx_notificationId :: string

text \<open>\<open>ve_known\<close> is whether the issuer metadata has a configuration of that key; \<open>ve_verifyResourceRequest\<close> is the library's check of the access token, with its DPoP proof;
  \<open>ve_plusHours\<close> the local time arithmetic of \<open>Date.setHours\<close>.\<close>

record credential_env =
  ve_sources :: credential_sources
  ve_claims :: claims_env
  ve_nonces :: nonce_env
  ve_publicUrl :: string
  ve_internalUrl :: "string option"
  ve_metadata :: "string \<Rightarrow> request_failure + issuer_metadata"
  ve_known :: "json \<Rightarrow> json \<Rightarrow> bool"
  ve_issuance :: "string \<Rightarrow> credential_issuance"
  ve_decrypt :: "string \<Rightarrow> string \<Rightarrow> json option"
  ve_parse :: "issuer_metadata \<Rightarrow> json \<Rightarrow> request_failure + credential_request"
  ve_verifyResourceRequest :: "resource_check \<Rightarrow> request_failure + json"
  ve_hmac :: "string \<Rightarrow> string"
  ve_prepareVerifier :: "string \<Rightarrow> json list \<Rightarrow> request_failure + unit"
  ve_verifyProof :: "string \<Rightarrow> json list \<Rightarrow> string \<Rightarrow> proof_type \<Rightarrow> request_failure + verified_proof"
  ve_createResponse :: "credential_response \<Rightarrow> request_failure + json"
  ve_plusHours :: "date \<Rightarrow> int \<Rightarrow> date"


section \<open>The access token\<close>

definition withInternalJwksUri :: "credential_env \<Rightarrow> string \<Rightarrow> json list \<Rightarrow> json list" where
  "withInternalJwksUri env tenantId servers =
     (if \<not> truthy (ve_internalUrl env) then servers
      else let builtInIssuer = ve_publicUrl env @ ''/issuers/'' @ tenantId;
               jwksUri = strip_slash (the (ve_internalUrl env)) @ ''/.well-known/jwks.json/issuers/'' @ tenantId
           in map (\<lambda>server. if jget ''issuer'' (Some server) = Some (JStr builtInIssuer)
                then JObj (jset ''jwks_uri'' (JStr jwksUri) (obj_of (Some server))) else server) servers)"

definition verifyAccessToken ::
    "credential_env \<Rightarrow> request_context \<Rightarrow> string \<Rightarrow> issuer_metadata \<Rightarrow> bool option \<Rightarrow> request_failure + json" where
  "verifyAccessToken env req tenantId md dPopRequired =
     ve_verifyResourceRequest env
       \<lparr>rk_authorizationServers = withInternalJwksUri env tenantId (im_authorizationServers md),
        rk_url = ve_publicUrl env @ rx_url req, rk_method = rx_method req,
        rk_headers = normalizeRequestHeaders (rx_headers req),
        rk_resourceServer = jget ''credential_issuer'' (Some (im_credentialIssuer md)),
        rk_schemes = ''DPoP'' # (if dPopRequired = Some True then [] else [''Bearer''])\<rparr>"

definition second_word :: "string \<Rightarrow> string" where
  "second_word s = takeWhile (\<lambda>c. \<not> is_js_space c) (dropWhile is_js_space (dropWhile (\<lambda>c. \<not> is_js_space c) (js_trim s)))"

definition deriveIssuanceSetId :: "credential_env \<Rightarrow> request_context \<Rightarrow> request_failure + string" where
  "deriveIssuanceSetId env req =
     (let header = (case map_of (rx_headers req) ''authorization'' of
              None \<Rightarrow> None
            | Some (Header_Text v) \<Rightarrow> Some v
            | Some (Header_List vs) \<Rightarrow> (case vs of [] \<Rightarrow> None | v # _ \<Rightarrow> Some v));
          accessToken = map_option second_word header
      in if \<not> truthy accessToken
         then Inl (Request_Exception ''invalid_credential_request'' ''Credential request is missing an access token'')
         else Inr (ve_hmac env (the accessToken)))"

text \<open>\<open>toHttpError\<close> of \<open>oid4vci.service.ts\<close>.\<close>

definition toHttpError :: "request_failure \<Rightarrow> request_failure" where
  "toHttpError e = (case e of Authorization_Server_Error m \<Rightarrow> Bad_Request_Exception m | _ \<Rightarrow> e)"

definition issuerMetadata :: "credential_env \<Rightarrow> string \<Rightarrow> request_failure + issuer_metadata" where
  "issuerMetadata env tenantId = map_failure toHttpError (ve_metadata env tenantId)"

end
