(* ===== verification/Deferred_Credentials.thy ===== *)
theory Deferred_Credentials
  imports Credential_Access
begin

text \<open>
  Deferred issuance: \<open>oid4vci/deferred-credential.service.ts\<close> (creating a transaction, polling it),
  \<open>deferred.controller.ts\<close> with the use cases \<open>CompleteDeferredCredential\<close> and
  \<open>FailDeferredCredential\<close>, and \<open>ResolveDeferredCredentialRetrieval\<close>. A handler takes, for every gap
  between two of its statements, the statements other requests run there.
\<close>

section \<open>Creating a transaction\<close>

record deferred_params =
  dp_proofType :: proof_type
  dp_proofs :: "string list"
  dp_credentialConfigurationId :: string
  dp_session :: session
  dp_tenantId :: string
  dp_interval :: "int option"
  dp_issuanceSetId :: "string option"
  dp_keyAttestationsRequired :: "key_attestation_requirements option"

definition DEFERRED_TRANSACTION_TTL_HOURS :: int where
  "DEFERRED_TRANSACTION_TTL_HOURS = 24"

definition invalid_proof :: "string \<Rightarrow> request_failure" where
  "invalid_proof m = Request_Exception ''invalid_proof'' m"

text \<open>The proof and its nonce.\<close>

definition deferred_proof :: "nonce_env \<Rightarrow> string list \<Rightarrow> request_failure + string \<times> string" where
  "deferred_proof ne proofs =
     (case proofs of
        [p] \<Rightarrow>
          (if p = [] then Inl (invalid_proof ''No key proof was provided for deferred issuance'')
           else ebind (ne_decode ne p) (\<lambda>payload.
             if \<not> truthy (jstr (jget ''nonce'' (Some payload)))
             then Inl (invalid_proof ''Key proof must contain a nonce when deferred issuance is requested'')
             else Inr (p, the (jstr (jget ''nonce'' (Some payload))))))
      | _ \<Rightarrow> Inl (invalid_proof ''Deferred issuance requires exactly one key proof''))"

text \<open>The key the deferred credential will be bound to.\<close>

definition deferred_holder_key :: "credential_env \<Rightarrow> deferred_params \<Rightarrow> string \<Rightarrow> request_failure + json" where
  "deferred_holder_key env p proof =
     (let trustLists = coalesce (is_walletProviderTrustLists (ve_issuance env (dp_tenantId p))) []
      in ebind (ve_prepareVerifier env (dp_tenantId p) trustLists) (\<lambda>_.
         ebind (ve_verifyProof env (dp_tenantId p) trustLists proof (dp_proofType p)) (\<lambda>verified.
         ebind (if dp_proofType p = Attestation_Proof
                then (if vp_holderKeys verified = []
                      then Inl (invalid_proof ''Attestation proof does not contain any attested keys'')
                      else require (length (vp_holderKeys verified) = 1)
                        (invalid_proof ''Deferred issuance supports exactly one attested key''))
                else Inr ()) (\<lambda>_.
         ebind (map_failure (\<lambda>e. case e of Invalid_Proof m \<Rightarrow> invalid_proof m | _ \<Rightarrow> e)
                (assertKeyAttestationRequirements (dp_keyAttestationsRequired p) verified)) (\<lambda>_.
         Inr (case vp_holderKeys verified of k # _ \<Rightarrow> k | [] \<Rightarrow> JNull))))))"

text \<open>The result is the transaction id and the polling interval.\<close>

definition createDeferredTransaction ::
    "credential_env \<Rightarrow> date \<Rightarrow> string \<Rightarrow> (nat \<Rightarrow> issuance_stmt list) \<Rightarrow> deferred_params \<Rightarrow> issuance_db
       \<Rightarrow> (request_failure + string \<times> int) \<times> issuance_db" where
  "createDeferredTransaction env now uuid gaps p db =
     (case deferred_proof (ve_nonces env) (dp_proofs p) of
        Inl e \<Rightarrow> (Inl e, db)
      | Inr (proof, nonce) \<Rightarrow>
          (let db0 = run_others (gaps 0) db;
               (deleted, nonces') = nonce_delete (dp_tenantId p) nonce (db_nonces db0);
               db1 = db0\<lparr>db_nonces := nonces'\<rparr>
           in if \<not> deleted then (Inl (Request_Exception ''invalid_nonce'' NONCE_USED), db1)
              else (case deferred_holder_key env p proof of
                      Inl e \<Rightarrow> (Inl e, db1)
                    | Inr holderCnf \<Rightarrow>
                        (let interval = coalesce (dp_interval p) 5; db2 = run_others (gaps 1) db1
                         in (Inr (uuid, interval),
                             db2\<lparr>db_deferred := dt_create
                               \<lparr>dt_transactionId = uuid, dt_tenantId = dp_tenantId p,
                                dt_sessionId = s_id (dp_session p),
                                dt_credentialConfigurationId = dp_credentialConfigurationId p,
                                dt_issuanceSetId = dp_issuanceSetId p, dt_holderCnf = holderCnf,
                                dt_status = DT_Pending, dt_credential = None, dt_errorMessage = None,
                                dt_interval = interval,
                                dt_expiresAt = ve_plusHours env now DEFERRED_TRANSACTION_TTL_HOURS\<rparr>
                               (db_deferred db2)\<rparr>)))))"


section \<open>Polling\<close>

datatype retrieval =
    Retrieval_Expire
  | Retrieval_Pending int
  | Retrieval_Failed string
  | Retrieval_Expired string
  | Retrieval_Retrieved string
  | Retrieval_Unavailable string
  | Retrieval_Ready string

definition resolveRetrieval :: "date \<Rightarrow> deferred_transaction \<Rightarrow> retrieval" where
  "resolveRetrieval now tr =
     (if dt_expiresAt tr < now then Retrieval_Expire
      else (case dt_status tr of
              DT_Pending \<Rightarrow> Retrieval_Pending (dt_interval tr)
            | DT_Failed \<Rightarrow> Retrieval_Failed
                (if truthy (dt_errorMessage tr) then the (dt_errorMessage tr) else ''The credential issuance has failed'')
            | DT_Expired \<Rightarrow> Retrieval_Expired ''The transaction has expired''
            | DT_Retrieved \<Rightarrow> Retrieval_Retrieved ''The credential has already been retrieved''
            | DT_Ready \<Rightarrow>
                (if \<not> truthy (dt_credential tr)
                 then Retrieval_Unavailable ''Credential is marked as ready but not available''
                 else Retrieval_Ready (the (dt_credential tr)))))"

definition invalid_transaction :: "string \<Rightarrow> request_failure" where
  "invalid_transaction m = Deferred_Exception ''invalid_transaction_id'' m None"

definition getDeferredCredential ::
    "credential_env \<Rightarrow> date \<Rightarrow> (nat \<Rightarrow> issuance_stmt list) \<Rightarrow> request_context \<Rightarrow> string \<Rightarrow> string \<Rightarrow> issuance_db
       \<Rightarrow> (request_failure + string) \<times> issuance_db" where
  "getDeferredCredential env now gaps req transactionId tenantId db =
     (case ebind (issuerMetadata env tenantId) (\<lambda>md.
             verifyAccessToken env req tenantId md (is_dPopRequired (ve_issuance env tenantId))) of
        Inl e \<Rightarrow> (Inl e, db)
      | Inr token \<Rightarrow>
          (let db1 = run_others (gaps 0) db
           in case dt_find tenantId transactionId (db_deferred db) of
                None \<Rightarrow> (Inl (invalid_transaction ''The transaction_id is invalid or has expired''), db)
              | Some tr \<Rightarrow>
                  (if \<not> belongsToSession (ve_sources env) tenantId token (dt_sessionId tr) (db_sessions db1)
                   then (Inl (invalid_transaction ''The transaction_id is invalid or has expired''), db1)
                   else (case resolveAuthorizedCredentialConfiguration None (Some (dt_credentialConfigurationId tr))
                                (jget ''authorization_details'' (Some token)) of
                           Inl (code, m) \<Rightarrow> (Inl (Request_Exception code m), db1)
                         | Inr _ \<Rightarrow>
                             (let db2 = run_others (gaps 1) db1
                              in case resolveRetrieval now tr of
                                   Retrieval_Expire \<Rightarrow>
                                     (Inl (invalid_transaction ''The transaction has expired''),
                                      db2\<lparr>db_deferred := markExpired tenantId transactionId (db_deferred db2)\<rparr>)
                                 | Retrieval_Pending interval \<Rightarrow>
                                     (Inl (Deferred_Exception ''issuance_pending''
                                       ''The credential issuance is still pending'' (Some interval)), db1)
                                 | Retrieval_Failed m \<Rightarrow> (Inl (invalid_transaction m), db1)
                                 | Retrieval_Expired m \<Rightarrow> (Inl (invalid_transaction m), db1)
                                 | Retrieval_Retrieved m \<Rightarrow> (Inl (invalid_transaction m), db1)
                                 | Retrieval_Unavailable m \<Rightarrow> (Inl (invalid_transaction m), db1)
                                 | Retrieval_Ready credential \<Rightarrow>
                                     (let (won, deferred') = markRetrieved tenantId transactionId (db_deferred db2);
                                          db3 = db2\<lparr>db_deferred := deferred'\<rparr>
                                      in if won then (Inr credential, db3)
                                         else (Inl (invalid_transaction ''The credential has already been retrieved''),
                                               db3)))))))"


section \<open>Completing and failing a transaction\<close>

definition completeDeferredCredential ::
    "claims_env \<Rightarrow> (nat \<Rightarrow> issuance_stmt list) \<Rightarrow> string \<Rightarrow> string \<Rightarrow> json \<Rightarrow> issuance_db
       \<Rightarrow> (request_failure + deferred_transaction option) \<times> issuance_db" where
  "completeDeferredCredential env gaps tenantId transactionId claims db =
     (case findPending tenantId transactionId (db_deferred db) of
        None \<Rightarrow> (Inr None, db)
      | Some tr \<Rightarrow>
          (let db1 = run_others (gaps 0) db
           in case getForTenant (dt_tenantId tr) (Some (dt_sessionId tr)) None (db_sessions db1) of
                Inl e \<Rightarrow> (Inl (Session_Failure e ''Session not found''), db1)
              | Inr s \<Rightarrow>
                  (case issueCredential env (dt_credentialConfigurationId tr) (dt_holderCnf tr) s (Some claims)
                          (dt_issuanceSetId tr) of
                     Inl e \<Rightarrow> (Inl e, db1)
                   | Inr credential \<Rightarrow>
                       (let db2 = run_others (gaps 1) db1;
                            db3 = db2\<lparr>db_deferred := markReady_update tenantId transactionId credential (db_deferred db2)\<rparr>;
                            db4 = run_others (gaps 2) db3
                        in (case dt_find tenantId transactionId (db_deferred db4) of
                              None \<Rightarrow> Inl (Plain_Error ''Deferred transaction disappeared'')
                            | Some tr' \<Rightarrow> Inr (Some tr'), db4)))))"

definition failDeferredCredential ::
    "(nat \<Rightarrow> issuance_stmt list) \<Rightarrow> string \<Rightarrow> string \<Rightarrow> string option \<Rightarrow> issuance_db
       \<Rightarrow> (request_failure + deferred_transaction option) \<times> issuance_db" where
  "failDeferredCredential gaps tenantId transactionId errorMessage db =
     (case dt_find tenantId transactionId (db_deferred db) of
        None \<Rightarrow> (Inr None, db)
      | Some tr \<Rightarrow>
          (let db1 = run_others (gaps 0) db;
               db2 = db1\<lparr>db_deferred := markFailed_update tenantId transactionId
                 (coalesce errorMessage ''Transaction marked as failed'') (db_deferred db1)\<rparr>;
               db3 = run_others (gaps 1) db2
           in (case dt_find tenantId transactionId (db_deferred db3) of
                 None \<Rightarrow> Inl (Plain_Error ''Deferred transaction disappeared'')
               | Some tr' \<Rightarrow> Inr (Some tr'), db3)))"

record deferred_operation =
  dop_transactionId :: string
  dop_status :: deferred_status
  dop_message :: string

definition operation_result ::
    "string \<Rightarrow> string \<Rightarrow> request_failure + deferred_transaction option \<Rightarrow> request_failure + deferred_operation" where
  "operation_result transactionId message r = ebind r (\<lambda>found. case found of
       None \<Rightarrow> Inl (Not_Found_Exception (''Deferred transaction not found: '' @ transactionId))
     | Some tr \<Rightarrow> Inr \<lparr>dop_transactionId = dt_transactionId tr, dop_status = dt_status tr, dop_message = message\<rparr>)"

definition completeDeferred ::
    "claims_env \<Rightarrow> (nat \<Rightarrow> issuance_stmt list) \<Rightarrow> string \<Rightarrow> string \<Rightarrow> json \<Rightarrow> issuance_db
       \<Rightarrow> (request_failure + deferred_operation) \<times> issuance_db" where
  "completeDeferred env gaps tenantId transactionId claims db =
     (let (r, db') = completeDeferredCredential env gaps tenantId transactionId claims db
      in (operation_result transactionId ''Credential generated and ready for retrieval'' r, db'))"

definition failDeferred ::
    "(nat \<Rightarrow> issuance_stmt list) \<Rightarrow> string \<Rightarrow> string \<Rightarrow> string option \<Rightarrow> issuance_db
       \<Rightarrow> (request_failure + deferred_operation) \<times> issuance_db" where
  "failDeferred gaps tenantId transactionId err db =
     (let (r, db') = failDeferredCredential gaps tenantId transactionId err db
      in (operation_result transactionId
            (if truthy err then the err else ''Transaction marked as failed'') r, db'))"

text \<open>\<open>DeferredTransactionCleanupJob\<close>.\<close>

definition deferred_cleanup :: "date \<Rightarrow> issuance_db \<Rightarrow> issuance_db" where
  "deferred_cleanup now db = exec_issuance (On_Deferred (Dt_DeleteExpired now)) db"

end
