(* ===== verification/Credential_Endpoint.thy ===== *)
theory Credential_Endpoint
  imports Deferred_Credentials
begin

text \<open>
  The credential and notification endpoints: \<open>Oid4vciService.getCredential\<close>, \<open>handleNotification\<close>,
  \<open>getDeferredCredential\<close> and the error mapping of \<open>oid4vci/oid4vci.service.ts\<close>, with
  \<open>IssueCredentialsFromProofs\<close> and \<open>IssueCredentialsForKeys\<close>. \<open>check_credential_request\<close> is the part
  before the first write. Logs and traces are not modelled.
\<close>

section \<open>Issuing for verified proofs\<close>

text \<open>The second component is every credential issued so far, those of a failed run included.\<close>

fun issueCredentialsForKeys ::
    "claims_env \<Rightarrow> string \<Rightarrow> session \<Rightarrow> json option \<Rightarrow> string \<Rightarrow> json list
       \<Rightarrow> (request_failure + string list) \<times> string list" where
  "issueCredentialsForKeys env cid s claims setId [] = (Inr [], [])"
| "issueCredentialsForKeys env cid s claims setId (key # keys) =
     (case issueCredential env cid key s claims (Some setId) of
        Inl e \<Rightarrow> (Inl e, [])
      | Inr credential \<Rightarrow>
          (let (r, issued) = issueCredentialsForKeys env cid s claims setId keys
           in (ebind r (\<lambda>cs. Inr (credential # cs)), credential # issued)))"

fun issue_for_proofs ::
    "claims_env \<Rightarrow> string \<Rightarrow> session \<Rightarrow> json option \<Rightarrow> string \<Rightarrow> json list list
       \<Rightarrow> (request_failure + string list) \<times> string list" where
  "issue_for_proofs env cid s claims setId [] = (Inr [], [])"
| "issue_for_proofs env cid s claims setId (keys # rest) =
     (case issueCredentialsForKeys env cid s claims setId keys of
        (Inl e, issued) \<Rightarrow> (Inl e, issued)
      | (Inr cs, issued) \<Rightarrow>
          (let (r, issued') = issue_for_proofs env cid s claims setId rest
           in (ebind r (\<lambda>cs'. Inr (cs @ cs')), issued @ issued')))"

record issue_command =
  ic_proofs :: "string list"
  ic_proofType :: proof_type
  ic_session :: session
  ic_credentialConfigurationId :: string
  ic_claims :: "json option"
  ic_issuanceSetId :: string
  ic_batchSize :: "nat option"
  ic_trustLists :: "json list"
  ic_keyAttestationsRequired :: "key_attestation_requirements option"

definition verify_proof :: "credential_env \<Rightarrow> issue_command \<Rightarrow> string \<Rightarrow> request_failure + json list" where
  "verify_proof env c proof =
     ebind (ve_verifyProof env (s_tenantId (ic_session c)) (ic_trustLists c) proof (ic_proofType c)) (\<lambda>verified.
     ebind (if ic_proofType c = Attestation_Proof
            then (if vp_holderKeys verified = []
                  then Inl (Invalid_Proof ''Attestation proof does not contain any attested keys'')
                  else require (length (vp_holderKeys verified) \<le> max (coalesce (ic_batchSize c) 1) 1)
                    (Invalid_Proof ''Attestation proof contains more attested keys than the supported batch size''))
            else Inr ()) (\<lambda>_.
     ebind (assertKeyAttestationRequirements (ic_keyAttestationsRequired c) verified) (\<lambda>_.
     Inr (vp_holderKeys verified))))"

fun verify_proofs :: "credential_env \<Rightarrow> issue_command \<Rightarrow> string list \<Rightarrow> request_failure + json list list" where
  "verify_proofs env c [] = Inr []"
| "verify_proofs env c (p # ps) =
     ebind (verify_proof env c p) (\<lambda>keys. ebind (verify_proofs env c ps) (\<lambda>rest. Inr (keys # rest)))"

definition issueCredentialsFromProofs ::
    "credential_env \<Rightarrow> issue_command \<Rightarrow> (request_failure + string list) \<times> string list" where
  "issueCredentialsFromProofs env c =
     (case ebind (ve_prepareVerifier env (s_tenantId (ic_session c)) (ic_trustLists c))
             (\<lambda>_. verify_proofs env c (ic_proofs c)) of
        Inl e \<Rightarrow> (Inl e, [])
      | Inr keys \<Rightarrow> issue_for_proofs (ve_claims env) (ic_credentialConfigurationId c) (ic_session c) (ic_claims c)
          (ic_issuanceSetId c) keys)"


section \<open>Errors\<close>

definition failure_message :: "request_failure \<Rightarrow> string option" where
  "failure_message e = (case e of
       Request_Exception c m \<Rightarrow> Some m | Invalid_Claims m \<Rightarrow> Some m | Invalid_Proof m \<Rightarrow> Some m
     | Conflict_Exception m \<Rightarrow> Some m | Bad_Request_Exception m \<Rightarrow> Some m | Not_Found_Exception m \<Rightarrow> Some m
     | Deferred_Exception c m i \<Rightarrow> Some m | Authorization_Server_Error m \<Rightarrow> Some m
     | Session_Failure s m \<Rightarrow> Some m | Plain_Error m \<Rightarrow> Some m | Not_An_Error \<Rightarrow> None)"

definition is_conflict :: "request_failure \<Rightarrow> bool" where
  "is_conflict e = (case e of Conflict_Exception _ \<Rightarrow> True | _ \<Rightarrow> False)"

definition mapToCredentialRequestException :: "request_failure \<Rightarrow> request_failure" where
  "mapToCredentialRequestException e =
     (case e of
        Request_Exception c m \<Rightarrow> e
      | Invalid_Claims m \<Rightarrow> denied m
      | Invalid_Proof m \<Rightarrow> invalid_proof m
      | _ \<Rightarrow>
          (case failure_message e of
             None \<Rightarrow> denied ''An unexpected error occurred''
           | Some m \<Rightarrow>
               (if is_conflict e \<and> (contains_text m ''not found'' \<or> contains_text m ''Credential configuration'')
                then Request_Exception ''unknown_credential_configuration'' m
                else if contains_text (toLowerCase m) ''proof'' \<or> contains_text (toLowerCase m) ''signature''
                  \<or> contains_text (toLowerCase m) ''jwt''
                then invalid_proof m
                else denied m)))"


section \<open>The checks of a credential request\<close>

definition invalid_encryption :: "string \<Rightarrow> request_failure" where
  "invalid_encryption m = Request_Exception ''invalid_encryption_parameters'' m"

definition request_body :: "credential_env \<Rightarrow> request_context \<Rightarrow> string \<Rightarrow> request_failure + json" where
  "request_body env req tenantId =
     (let isJwt = starts_with (rx_contentType req) ''application/jwt''
            \<or> starts_with (rx_contentType req) ''application/openid4vci-credential-request+jwt''
      in case rx_body req of
           Body_Text jwe \<Rightarrow>
             (case ve_decrypt env jwe tenantId of
                None \<Rightarrow> Inl (invalid_encryption ''Failed to decrypt encrypted credential request'')
              | Some b \<Rightarrow> Inr b)
         | Body_Object b \<Rightarrow>
             (if isJwt then Inl (invalid_encryption ''Encrypted credential request body is empty'') else Inr b)
         | No_Body \<Rightarrow>
             (if isJwt then Inl (invalid_encryption ''Encrypted credential request body is empty'')
              else Inl (Request_Exception ''invalid_credential_request'' ''Credential request body is missing or malformed'')))"

definition supported_texts :: "string \<Rightarrow> json \<Rightarrow> string list" where
  "supported_texts k credentialIssuer =
     List.map_filter (\<lambda>v. jstr (Some v))
       (arr_of (jget k (jget ''credential_response_encryption'' (Some credentialIssuer))))"

definition check_encryption :: "json \<Rightarrow> json option \<Rightarrow> request_failure + unit" where
  "check_encryption credentialIssuer params =
     (if \<not> jtruthy params then Inr ()
      else let jwk = jget ''jwk'' params; alg = jget ''alg'' jwk; enc = jget ''enc'' params;
               algs = supported_texts ''alg_values_supported'' credentialIssuer;
               encs = supported_texts ''enc_values_supported'' credentialIssuer
           in if jwk = None \<or> jwk = Some JNull
              then Inl (Plain_Error (''Cannot read properties of '' @ (if jwk = None then ''undefined'' else ''null'')
                @ '' (reading '' @ quoted ''alg'' @ '')''))
              else ebind (require (case jstr alg of None \<Rightarrow> False | Some a \<Rightarrow> a \<in> set algs)
                     (invalid_encryption (''Unsupported credential response encryption algorithm '' @ quoted (shown alg)
                        @ ''. Supported: '' @ join '', '' algs))) (\<lambda>_.
                   require (case jstr enc of None \<Rightarrow> False | Some a \<Rightarrow> a \<in> set encs)
                     (invalid_encryption (''Unsupported credential response encryption encoding '' @ quoted (shown enc)
                        @ ''. Supported: '' @ join '', '' encs))))"

definition addLegacyCredentialResponseEncryptionAlg :: "json \<Rightarrow> json" where
  "addLegacyCredentialResponseEncryptionAlg request =
     (let encryption = jget ''credential_response_encryption'' (Some request); alg = jget ''alg'' (jget ''jwk'' encryption)
      in if \<not> jtruthy encryption \<or> jtruthy (jget ''alg'' encryption) \<or> \<not> jtruthy alg then request
         else JObj (jset ''credential_response_encryption'' (JObj (jset ''alg'' (the alg) (obj_of encryption)))
                (obj_of (Some request))))"

record checked_request =
  ck_parsed :: credential_request
  ck_proofType :: proof_type
  ck_proofs :: "string list"
  ck_token :: json
  ck_issuanceSetId :: string
  ck_credentialConfigurationId :: string
  ck_keyAttestationsRequired :: "key_attestation_requirements option"

definition enforceProofTypePolicy ::
    "claims_env \<Rightarrow> string \<Rightarrow> string \<Rightarrow> proof_type \<Rightarrow> request_failure + key_attestation_requirements option" where
  "enforceProofTypePolicy env tenantId cid ty =
     ebind (getProofRequirements env tenantId cid) (\<lambda>(proofTypes, required).
     ebind (require (proof_type_text ty \<in> set proofTypes)
       (invalid_proof (''Proof type '' @ quoted (proof_type_text ty)
          @ '' is not supported for credential_configuration_id '' @ quoted cid))) (\<lambda>_.
     Inr required))"

definition parse_credential_request ::
    "credential_env \<Rightarrow> issuer_metadata \<Rightarrow> json \<Rightarrow> request_failure + credential_request \<times> proof_type \<times> string list" where
  "parse_credential_request env md body =
     ebind (require (\<not> jtruthy (jget ''credential_configuration_id'' (Some body))
         \<or> ve_known env (im_credentialIssuer md) (the (jget ''credential_configuration_id'' (Some body))))
       (Request_Exception ''unknown_credential_configuration'' (''Credential configuration ''
          @ quoted (shown (jget ''credential_configuration_id'' (Some body))) @ '' is not supported''))) (\<lambda>_.
     ebind (check_encryption (im_credentialIssuer md) (jget ''credential_response_encryption'' (Some body))) (\<lambda>_.
     ebind (map_failure (\<lambda>e. Request_Exception ''invalid_credential_request'' (coalesce (failure_message e)
              ''The Credential Request is malformed or missing required parameters''))
            (ve_parse env md (addLegacyCredentialResponseEncryptionAlg body))) (\<lambda>parsed.
     ebind (map_failure invalid_proof (resolveCredentialProofs (cr_proofs parsed))) (\<lambda>(ty, values).
     Inr (parsed, ty, values)))))"

definition check_credential_request ::
    "credential_env \<Rightarrow> request_context \<Rightarrow> string \<Rightarrow> request_failure + checked_request" where
  "check_credential_request env req tenantId =
     ebind (issuerMetadata env tenantId) (\<lambda>md.
     ebind (request_body env req tenantId) (\<lambda>body.
     ebind (parse_credential_request env md body) (\<lambda>(parsed, ty, values).
     ebind (verifyAccessToken env req tenantId md (is_dPopRequired (ve_issuance env tenantId))) (\<lambda>token.
     ebind (deriveIssuanceSetId env req) (\<lambda>setId.
     ebind (map_failure (\<lambda>(code, m). Request_Exception code m)
            (resolveAuthorizedCredentialConfiguration (cr_credentialIdentifier parsed)
              (cr_credentialConfigurationId parsed) (jget ''authorization_details'' (Some token)))) (\<lambda>cid.
     ebind (map_failure mapToCredentialRequestException
            (enforceProofTypePolicy (ve_claims env) tenantId cid ty)) (\<lambda>required.
     Inr \<lparr>ck_parsed = parsed, ck_proofType = ty, ck_proofs = values, ck_token = token, ck_issuanceSetId = setId,
          ck_credentialConfigurationId = cid, ck_keyAttestationsRequired = required\<rparr>)))))))"


section \<open>The credential endpoint\<close>

datatype credential_result =
    Issued json "string list"
  | Deferred string int

record credential_reply =
  cy_result :: "request_failure + credential_result"
  cy_issued :: "string list"
  cy_events :: "session_event list"

definition reply :: "request_failure + credential_result \<Rightarrow> string list \<Rightarrow> session_event list \<Rightarrow> credential_reply" where
  "reply r issued evs = \<lparr>cy_result = r, cy_issued = issued, cy_events = evs\<rparr>"

definition issue_command_of ::
    "credential_env \<Rightarrow> string \<Rightarrow> checked_request \<Rightarrow> resolved_session \<Rightarrow> issue_command" where
  "issue_command_of env tenantId ck rs =
     \<lparr>ic_proofs = ck_proofs ck, ic_proofType = ck_proofType ck, ic_session = rs_session rs,
      ic_credentialConfigurationId = ck_credentialConfigurationId ck,
      ic_claims = (case rs_claimsResult rs of None \<Rightarrow> None | Some r \<Rightarrow> cl_claims r),
      ic_issuanceSetId = ck_issuanceSetId ck, ic_batchSize = ci_batchSize (ve_issuance env tenantId),
      ic_trustLists = coalesce (is_walletProviderTrustLists (ve_issuance env tenantId)) [],
      ic_keyAttestationsRequired = ck_keyAttestationsRequired ck\<rparr>"

definition deferred_params_of :: "string \<Rightarrow> checked_request \<Rightarrow> resolved_session \<Rightarrow> claims_result \<Rightarrow> deferred_params" where
  "deferred_params_of tenantId ck rs result =
     \<lparr>dp_proofType = ck_proofType ck, dp_proofs = ck_proofs ck,
      dp_credentialConfigurationId = ck_credentialConfigurationId ck, dp_session = rs_session rs,
      dp_tenantId = tenantId, dp_interval = cl_interval result, dp_issuanceSetId = Some (ck_issuanceSetId ck),
      dp_keyAttestationsRequired = ck_keyAttestationsRequired ck\<rparr>"

text \<open>The immediate issuance: nonces, credentials, the notification of the session, its status. \<open>gaps\<close>:
  \<open>0\<close> before the session is updated, \<open>1\<close> before its status changes, from \<open>2\<close> between the nonce statements.\<close>

definition issue_now ::
    "credential_env \<Rightarrow> date \<Rightarrow> string \<Rightarrow> (nat \<Rightarrow> issuance_stmt list) \<Rightarrow> string \<Rightarrow> checked_request \<Rightarrow> resolved_session
       \<Rightarrow> issuance_db \<Rightarrow> credential_reply \<times> issuance_db" where
  "issue_now env now notificationId gaps tenantId ck rs db =
     (case nonce_validateAndConsume (ve_nonces env) now tenantId (\<lambda>k. gaps (k + 2)) (ck_proofs ck) (ck_proofType ck) db of
        (Inl e, db1) \<Rightarrow> (reply (Inl (mapToCredentialRequestException e)) [] [], db1)
      | (Inr _, db1) \<Rightarrow>
          (case issueCredentialsFromProofs env (issue_command_of env tenantId ck rs) of
             (Inl e, issued) \<Rightarrow> (reply (Inl (mapToCredentialRequestException e)) issued [], db1)
           | (Inr credentials, issued) \<Rightarrow>
               (let s = rs_session rs;
                    notifications = s_notifications s
                      @ [\<lparr>nt_id = notificationId, nt_event = None, nt_eventDescription = None,
                          nt_credentialConfigurationId = ck_credentialConfigurationId ck\<rparr>];
                    db2 = run_others (gaps 0) db1;
                    db3 = db2\<lparr>db_sessions := fst (updateForTenant now (s_tenantId s) (s_id s)
                      [Set_notifications notifications] (db_sessions db2))\<rparr>;
                    db4 = run_others (gaps 1) db3;
                    (changed, sessions', evs) =
                      changeState_executeFrom now (context_of s) [Active] Fetched (db_sessions db4);
                    db5 = db4\<lparr>db_sessions := sessions'\<rparr>
                in (case ve_createResponse env \<lparr>cx_credentials = credentials, cx_request = ck_parsed ck,
                           cx_nonce = jget ''nonce'' (Some (ck_token ck)), cx_notificationId = notificationId\<rparr> of
                      Inl e \<Rightarrow> reply (Inl (mapToCredentialRequestException e)) issued evs
                    | Inr response \<Rightarrow> reply (Inr (Issued response credentials)) issued evs, db5))))"

definition is_deferred :: "resolved_session \<Rightarrow> claims_result option" where
  "is_deferred rs = (case rs_claimsResult rs of
       None \<Rightarrow> None | Some r \<Rightarrow> if cl_deferred r then Some r else None)"

text \<open>\<open>gaps\<close>: \<open>0\<close> after the session is read, from \<open>1\<close> those of the branch taken. \<open>uuid\<close> is the fresh
  notification or transaction id.\<close>

definition getCredential ::
    "credential_env \<Rightarrow> date \<Rightarrow> string \<Rightarrow> (nat \<Rightarrow> issuance_stmt list) \<Rightarrow> request_context \<Rightarrow> string \<Rightarrow> issuance_db
       \<Rightarrow> credential_reply \<times> issuance_db" where
  "getCredential env now uuid gaps req tenantId db =
     (case check_credential_request env req tenantId of
        Inl e \<Rightarrow> (reply (Inl e) [] [], db)
      | Inr ck \<Rightarrow>
          (case resolveCredentialSession (ve_sources env) (ve_claims env) now tenantId
                  (ck_credentialConfigurationId ck) (ck_token ck) (db_sessions db) of
             (Inl e, sessions') \<Rightarrow> (reply (Inl e) [] [], db\<lparr>db_sessions := sessions'\<rparr>)
           | (Inr rs, sessions') \<Rightarrow>
               (let db1 = run_others (gaps 0) (db\<lparr>db_sessions := sessions'\<rparr>)
                in case is_deferred rs of
                     Some result \<Rightarrow>
                       (let (r, db2) = createDeferredTransaction env now uuid (\<lambda>k. gaps (k + 1))
                              (deferred_params_of tenantId ck rs result) db1
                        in (reply (case r of Inl e \<Rightarrow> Inl (toHttpError e) | Inr (i, interval) \<Rightarrow> Inr (Deferred i interval))
                              [] [], db2))
                   | None \<Rightarrow> issue_now env now uuid (\<lambda>k. gaps (k + 1)) tenantId ck rs db1)))"


section \<open>The notification endpoint\<close>

datatype notification_error = Notification_Request_Failed request_failure | Notification_Flow flow_error

record notification_request =
  nr_notification_id :: string
  nr_event :: "string option"
  nr_event_description :: "string option"

definition handleNotification ::
    "credential_env \<Rightarrow> (string \<Rightarrow> string \<Rightarrow> json option) \<Rightarrow> (json \<Rightarrow> session \<Rightarrow> notification \<Rightarrow> bool) \<Rightarrow> date
       \<Rightarrow> session_stmt list \<Rightarrow> session_stmt list \<Rightarrow> request_context \<Rightarrow> notification_request \<Rightarrow> string \<Rightarrow> sessions
       \<Rightarrow> (notification_error + bool) \<times> sessions \<times> session_event list" where
  "handleNotification env endpoints publish now others1 others2 req body tenantId db =
     (if ci_notificationEndpointEnabled (ve_issuance env tenantId) = Some False
      then (Inl (Notification_Request_Failed
              (Not_Found_Exception ''Notification endpoint is disabled for this issuance config'')), db, [])
      else (case ebind (issuerMetadata env tenantId) (\<lambda>md.
                   verifyAccessToken env req tenantId md (is_dPopRequired (ve_issuance env tenantId))) of
              Inl e \<Rightarrow> (Inl (Notification_Request_Failed e), db, [])
            | Inr token \<Rightarrow>
                (case resolveSession (ve_sources env) tenantId token db of
                   Inl _ \<Rightarrow> (Inl (Notification_Flow (CredentialNotificationNotFound (nr_notification_id body))), db, [])
                 | Inr s \<Rightarrow>
                     (case handleCredentialNotification endpoints publish now others2 s (nr_notification_id body)
                             (nr_event body) (nr_event_description body) (exec_stmts others1 db) of
                        (Inl e, db', evs) \<Rightarrow> (Inl (Notification_Flow e), db', evs)
                      | (Inr failed, db', evs) \<Rightarrow> (Inr failed, db', evs)))))"

end
