(* ===== verification/Credential_Rules.thy ===== *)
theory Credential_Rules
  imports Credential_Endpoint
begin

text \<open>
  Facts about the credential endpoints the properties rest on: what a run of other requests keeps of
  the nonce table, what a successful consumption of nonces used up, what the checks of a credential
  request establish, and which key each issued credential is bound to.
\<close>

section \<open>Other requests\<close>

fun quiet_on_nonce :: "string \<Rightarrow> string \<Rightarrow> issuance_stmt \<Rightarrow> bool" where
  "quiet_on_nonce t n (On_Nonces st) \<longleftrightarrow> not_saved t n st"
| "quiet_on_nonce t n _ \<longleftrightarrow> True"

definition nonce_rows :: "string \<Rightarrow> string \<Rightarrow> nonces \<Rightarrow> credential_nonce set" where
  "nonce_rows t n db = {r \<in> set db. nonce_where t n r}"

lemma nonce_stored_rows: "nonce_stored t n db \<longleftrightarrow> nonce_rows t n db \<noteq> {}"
  by (auto simp: nonce_stored_def nonce_rows_def)

lemma exec_nonce_rows:
  "not_saved t n st \<Longrightarrow> nonce_rows t n (exec_nonce st db) \<subseteq> nonce_rows t n db"
  by (cases st)
    (auto simp: nonce_rows_def nonce_save_def sql_update_rows nonce_delete_rows nonce_deleteExpired_def
      sql_delete_rows nonce_where_def)

lemma exec_issuance_rows:
  "quiet_on_nonce t n st \<Longrightarrow> nonce_rows t n (db_nonces (exec_issuance st db)) \<subseteq> nonce_rows t n (db_nonces db)"
  by (cases st) (simp_all add: exec_nonce_rows)

lemma run_others_rows:
  "list_all (quiet_on_nonce t n) ss \<Longrightarrow> nonce_rows t n (db_nonces (run_others ss db)) \<subseteq> nonce_rows t n (db_nonces db)"
proof (induction ss arbitrary: db)
  case (Cons s ss)
  then have "nonce_rows t n (db_nonces (run_others ss (exec_issuance s db)))
      \<subseteq> nonce_rows t n (db_nonces (exec_issuance s db))" by simp
  with exec_issuance_rows [of t n s db] Cons.prems show ?case by simp
qed simp

lemma nonce_delete_shrinks: "nonce_rows t n (snd (nonce_delete t' n' db)) \<subseteq> nonce_rows t n db"
  by (auto simp: nonce_rows_def nonce_delete_rows)

lemma nonce_find_row: "nonce_find t n db = Some r \<Longrightarrow> r \<in> nonce_rows t n db"
  by (auto simp: nonce_find_def nonce_rows_def dest: sql_find_one_Some)


section \<open>Consuming nonces\<close>

text \<open>One step of the consuming loop that goes on.\<close>

lemma consume_step:
  assumes "consume_nonces ne now t gaps (v # vs) db = (Inr u, db')"
  obtains stored db2 where
    "nonce_find t (nonce_text ne v) (db_nonces (run_others (gaps 0) db)) = Some stored"
    "now \<le> cn_expiresAt stored"
    "db2 = run_others (gaps 1) (run_others (gaps 0) db)"
    "fst (nonce_delete t (nonce_text ne v) (db_nonces db2))"
    "consume_nonces ne now t (\<lambda>k. gaps (k + 2)) vs
       (db2\<lparr>db_nonces := snd (nonce_delete t (nonce_text ne v) (db_nonces db2))\<rparr>) = (Inr u, db')"
  using assms by (auto simp: Let_def split_beta not_less split: option.splits if_splits)

lemma consume_shrinks:
  assumes "consume_nonces ne now t gaps vs db = (r, db')" "\<And>k. list_all (quiet_on_nonce t' n) (gaps k)"
  shows "nonce_rows t' n (db_nonces db') \<subseteq> nonce_rows t' n (db_nonces db)"
  using assms
proof (induction vs arbitrary: gaps db)
  case (Cons v vs)
  define db1 where "db1 = run_others (gaps 0) db"
  define db2 where "db2 = run_others (gaps 1) db1"
  define db3 where "db3 = db2\<lparr>db_nonces := snd (nonce_delete t (nonce_text ne v) (db_nonces db2))\<rparr>"
  have s1: "nonce_rows t' n (db_nonces db1) \<subseteq> nonce_rows t' n (db_nonces db)"
    and s2: "nonce_rows t' n (db_nonces db2) \<subseteq> nonce_rows t' n (db_nonces db1)"
    unfolding db1_def db2_def by (rule run_others_rows, rule Cons.prems)+
  have s3: "nonce_rows t' n (db_nonces db3) \<subseteq> nonce_rows t' n (db_nonces db2)"
    using nonce_delete_shrinks by (simp add: db3_def)
  have "db' = db1 \<or> db' = db3 \<or> consume_nonces ne now t (\<lambda>k. gaps (k + 2)) vs db3 = (r, db')"
    using Cons.prems(1) unfolding db1_def db2_def db3_def
    by (auto simp: Let_def split_beta split: option.splits if_splits)
  moreover have "nonce_rows t' n (db_nonces db') \<subseteq> nonce_rows t' n (db_nonces db3)"
    if "consume_nonces ne now t (\<lambda>k. gaps (k + 2)) vs db3 = (r, db')"
    by (rule Cons.IH [OF that Cons.prems(2)])
  ultimately show ?case using s1 s2 s3 by blast
qed simp

lemma consume_uses:
  assumes "consume_nonces ne now t gaps vs db = (Inr u, db')" "v \<in> set vs" "n = nonce_text ne v"
    and "\<And>k. list_all (quiet_on_nonce t n) (gaps k)"
  shows "\<exists>r \<in> nonce_rows t n (db_nonces db). now \<le> cn_expiresAt r"
    and "\<not> nonce_stored t n (db_nonces db')"
proof -
  have "(\<exists>r \<in> nonce_rows t n (db_nonces db). now \<le> cn_expiresAt r) \<and> \<not> nonce_stored t n (db_nonces db')"
    using assms
  proof (induction vs arbitrary: gaps db)
    case (Cons w vs)
    obtain stored db2 where st: "nonce_find t (nonce_text ne w) (db_nonces (run_others (gaps 0) db)) = Some stored"
      "now \<le> cn_expiresAt stored" "db2 = run_others (gaps 1) (run_others (gaps 0) db)"
      "consume_nonces ne now t (\<lambda>k. gaps (k + 2)) vs
         (db2\<lparr>db_nonces := snd (nonce_delete t (nonce_text ne w) (db_nonces db2))\<rparr>) = (Inr u, db')"
      using consume_step [OF Cons.prems(1)] by blast
    let ?db3 = "db2\<lparr>db_nonces := snd (nonce_delete t (nonce_text ne w) (db_nonces db2))\<rparr>"
    have s1: "nonce_rows t n (db_nonces (run_others (gaps 0) db)) \<subseteq> nonce_rows t n (db_nonces db)"
      by (rule run_others_rows, rule Cons.prems)
    have s2: "nonce_rows t n (db_nonces db2) \<subseteq> nonce_rows t n (db_nonces (run_others (gaps 0) db))"
      unfolding st(3) by (rule run_others_rows, rule Cons.prems)
    have s3: "nonce_rows t n (db_nonces ?db3) \<subseteq> nonce_rows t n (db_nonces db2)"
      using nonce_delete_shrinks by simp
    show ?case
    proof (cases "v = w")
      case True
      have "stored \<in> nonce_rows t n (db_nonces db)"
        using nonce_find_row [OF st(1)] s1 True Cons.prems(3) by blast
      moreover have "\<not> nonce_stored t n (db_nonces db')"
        using consume_shrinks [OF st(4) Cons.prems(4)] nonce_delete_spends [of t n "db_nonces db2"] True Cons.prems(3)
        by (auto simp: nonce_stored_rows)
      ultimately show ?thesis using st(2) by blast
    next
      case False
      then have "v \<in> set vs" using Cons.prems(2) by simp
      from Cons.IH [OF st(4) this Cons.prems(3,4)] s1 s2 s3 show ?thesis by blast
    qed
  qed simp
  then show "\<exists>r \<in> nonce_rows t n (db_nonces db). now \<le> cn_expiresAt r" "\<not> nonce_stored t n (db_nonces db')"
    by auto
qed

lemma set_add_keeps: "w \<in> set acc \<Longrightarrow> w \<in> set (set_add acc v)" and set_add_in: "v \<in> set (set_add acc v)"
  by (auto simp: set_add_def)

lemma collect_nonces_keeps: "collect_nonces ne ty ps acc = Inr vs \<Longrightarrow> w \<in> set acc \<Longrightarrow> w \<in> set vs"
  by (induction ne ty ps acc rule: collect_nonces.induct)
    (auto simp: set_add_keeps split: sum.splits if_splits)

lemma collect_step:
  assumes "collect_nonces ne ty (p # ps) acc = Inr vs"
  obtains payload v where "ne_decode ne p = Inr payload" "jget ''nonce'' (Some payload) = Some v"
    "jtruthy (Some v)" "collect_nonces ne ty ps (set_add acc v) = Inr vs"
proof -
  obtain payload where payload: "ne_decode ne p = Inr payload" "jtruthy (jget ''nonce'' (Some payload))"
    "collect_nonces ne ty ps (set_add acc (the (jget ''nonce'' (Some payload)))) = Inr vs"
    using assms by (auto split: sum.splits if_splits)
  then obtain v where "jget ''nonce'' (Some payload) = Some v" by (cases "jget ''nonce'' (Some payload)") (auto simp: jtruthy_def)
  with payload that show thesis by simp
qed

lemma collect_nonces_all:
  assumes "collect_nonces ne ty ps acc = Inr vs" "p \<in> set ps"
  shows "\<exists>payload v. ne_decode ne p = Inr payload \<and> jget ''nonce'' (Some payload) = Some v \<and> jtruthy (Some v)
    \<and> v \<in> set vs"
  using assms
proof (induction ne ty ps acc rule: collect_nonces.induct)
  case (2 ne ty q ps acc)
  then obtain payload v where d: "ne_decode ne q = Inr payload" "jget ''nonce'' (Some payload) = Some v"
    "jtruthy (Some v)" "collect_nonces ne ty ps (set_add acc v) = Inr vs"
    using collect_step by blast
  show ?case
  proof (cases "p = q")
    case True
    then show ?thesis using d collect_nonces_keeps [OF d(4)] set_add_in by blast
  next
    case False
    then have "p \<in> set ps" using "2.prems"(2) by simp
    moreover have "jtruthy (jget ''nonce'' (Some payload))" using d by simp
    ultimately show ?thesis using "2.IH" [OF d(1)] d by simp
  qed
qed simp

lemma validated_nonces:
  assumes "nonce_validateAndConsume ne now t gaps ps ty db = (Inr u, db')" "p \<in> set ps"
  shows "\<exists>payload v. ne_decode ne p = Inr payload \<and> jget ''nonce'' (Some payload) = Some v \<and> jtruthy (Some v)
    \<and> ((\<forall>k. list_all (quiet_on_nonce t (nonce_text ne v)) (gaps k)) \<longrightarrow>
        (\<exists>r \<in> nonce_rows t (nonce_text ne v) (db_nonces db). now \<le> cn_expiresAt r)
        \<and> \<not> nonce_stored t (nonce_text ne v) (db_nonces db'))"
proof -
  obtain vs where vs: "collect_nonces ne ty ps [] = Inr vs" "consume_nonces ne now t gaps vs db = (Inr u, db')"
    using assms(1)
    by (auto simp: nonce_validateAndConsume_def validateAndConsumeCredentialNonces_def split: sum.splits prod.splits)
  obtain payload v where pv: "ne_decode ne p = Inr payload" "jget ''nonce'' (Some payload) = Some v"
      "jtruthy (Some v)" "v \<in> set vs"
    using collect_nonces_all [OF vs(1) assms(2)] by blast
  have "(\<exists>r \<in> nonce_rows t (nonce_text ne v) (db_nonces db). now \<le> cn_expiresAt r)
      \<and> \<not> nonce_stored t (nonce_text ne v) (db_nonces db')"
    if "\<forall>k. list_all (quiet_on_nonce t (nonce_text ne v)) (gaps k)"
    using consume_uses [OF vs(2) pv(4) refl] that by simp
  with pv show ?thesis by blast
qed


section \<open>Tokens, sessions and configurations\<close>

lemma resolved_session_of_token:
  assumes "resolveCredentialSession src env now t cid token db = (Inr rs, db')"
  shows "\<exists>ref. correlate src t token = Inr ref \<and> s_id (rs_session rs) = session_of ref
    \<and> rs_session rs \<in> set db \<and> s_tenantId (rs_session rs) = t
    \<and> rs_isExternalAsToken rs = is_external ref"
proof -
  obtain ref db1 where ref: "correlate src t token = Inr ref"
    and row: "token_session_row now t token ref db = (Inr (rs_session rs), db1)"
    and ext: "rs_isExternalAsToken rs = is_external ref"
    using assms by (auto simp: resolveCredentialSession_def split: sum.splits prod.splits)
  have "s_id (rs_session rs) = session_of ref \<and> rs_session rs \<in> set db \<and> s_tenantId (rs_session rs) = t"
  proof (cases ref)
    case (Local_Session i)
    then have "getForTenant t (Some i) None db = Inr (rs_session rs)"
      using row by (auto simp: token_session_row_def split: sum.splits if_splits)
    from getForTenant_ok [OF this] Local_Session show ?thesis by simp
  next
    case (Chained_Session i v)
    then have "getForTenant t (Some i) None db = Inr (rs_session rs)"
      using row by (auto simp: token_session_row_def split: sum.splits)
    from getForTenant_ok [OF this] Chained_Session show ?thesis by simp
  next
    case (External_Session i asid claim)
    then show ?thesis
      using row by (auto simp: token_session_row_def resolveExternalAuthorizationSession_def
          bindExternalAuthorization_def split: sum.splits if_splits option.splits dest!: sql_find_one_Some)
  qed
  with ref ext show ?thesis by blast
qed

lemma authorized_configuration:
  "resolveAuthorizedCredentialConfiguration i c details = Inr cid
     \<Longrightarrow> cid \<noteq> [] \<and> enforceAuthorizationDetails details cid = Inr ()"
  by (auto simp: resolveAuthorizedCredentialConfiguration_def returns split: if_splits sum.splits dest!: truthyE)

lemma enforced_details:
  "enforceAuthorizationDetails details cid = Inr () \<longleftrightarrow>
     arr_of details = [] \<or> cid \<in> set (authorized_configurations (arr_of details))"
  by (auto simp: enforceAuthorizationDetails_def Let_def returns)

lemma checked_request_facts:
  assumes "check_credential_request env req t = Inr ck"
  obtains md where
    "verifyAccessToken env req t md (is_dPopRequired (ve_issuance env t)) = Inr (ck_token ck)"
    "enforceAuthorizationDetails (jget ''authorization_details'' (Some (ck_token ck)))
       (ck_credentialConfigurationId ck) = Inr ()"
    "resolveCredentialProofs (cr_proofs (ck_parsed ck)) = Inr (ck_proofType ck, ck_proofs ck)"
    "\<exists>types. getProofRequirements (ve_claims env) t (ck_credentialConfigurationId ck)
       = Inr (types, ck_keyAttestationsRequired ck) \<and> proof_type_text (ck_proofType ck) \<in> set types"
  using assms
  by (auto simp: check_credential_request_def parse_credential_request_def enforceProofTypePolicy_def returns
      map_failure_returns split: prod.splits dest!: authorized_configuration)


section \<open>Issued credentials\<close>

lemma verify_proofs_returns:
  "verify_proofs env c ps = Inr keyss \<longleftrightarrow> list_all2 (\<lambda>p keys. verify_proof env c p = Inr keys) ps keyss"
  by (induction ps arbitrary: keyss) (auto simp: returns list_all2_Cons1)

lemma verify_proofs_rejects:
  "p \<in> set ps \<Longrightarrow> verify_proof env c p = Inl e \<Longrightarrow> \<exists>e'. verify_proofs env c ps = Inl e'"
proof (induction ps)
  case (Cons q ps)
  then show ?case
    by (cases "verify_proof env c q"; cases "verify_proofs env c ps") auto
qed simp

lemma issued_for_keys:
  "issueCredentialsForKeys env cid s claims setId keys = (Inr cs, issued) \<Longrightarrow>
     issued = cs \<and> list_all2 (\<lambda>k c. issueCredential env cid k s claims (Some setId) = Inr c) keys cs"
  by (induction keys arbitrary: cs issued)
    (auto simp: returns split: sum.splits prod.splits)

lemma issued_for_proofs:
  "issue_for_proofs env cid s claims setId keyss = (Inr cs, issued) \<Longrightarrow>
     issued = cs \<and> list_all2 (\<lambda>k c. issueCredential env cid k s claims (Some setId) = Inr c) (concat keyss) cs"
proof (induction keyss arbitrary: cs issued)
  case (Cons keys rest)
  obtain cs1 where first: "issueCredentialsForKeys env cid s claims setId keys = (Inr cs1, cs1)"
    using Cons.prems issued_for_keys [of env cid s claims setId keys] by (fastforce split: prod.splits sum.splits)
  obtain cs2 issued2 where more: "issue_for_proofs env cid s claims setId rest = (Inr cs2, issued2)"
    and "cs = cs1 @ cs2" "issued = cs1 @ issued2"
    using Cons.prems first by (auto simp: returns split: prod.splits)
  with Cons.IH [OF more] issued_for_keys [OF first] show ?case
    by (auto intro: list_all2_appendI)
qed simp

lemma issued_from_proofs:
  assumes "issueCredentialsFromProofs env c = (Inr cs, issued)"
  obtains keyss where
    "list_all2 (\<lambda>p keys. verify_proof env c p = Inr keys) (ic_proofs c) keyss"
    "issued = cs"
    "list_all2 (\<lambda>k x. issueCredential (ve_claims env) (ic_credentialConfigurationId c) k (ic_session c) (ic_claims c)
       (Some (ic_issuanceSetId c)) = Inr x) (concat keyss) cs"
  using assms issued_for_proofs
  by (auto simp: issueCredentialsFromProofs_def returns verify_proofs_returns split: sum.splits)

lemma issued_reply:
  assumes "issue_now env now nid gaps t ck rs db = (rep, db')" "cy_result rep = Inr (Issued response cs)"
  obtains db1 where
    "nonce_validateAndConsume (ve_nonces env) now t (\<lambda>k. gaps (k + 2)) (ck_proofs ck) (ck_proofType ck) db = (Inr (), db1)"
    "issueCredentialsFromProofs env (issue_command_of env t ck rs) = (Inr cs, cy_issued rep)"
proof -
  obtain r1 db1 where n: "nonce_validateAndConsume (ve_nonces env) now t (\<lambda>k. gaps (k + 2)) (ck_proofs ck)
      (ck_proofType ck) db = (r1, db1)" by fastforce
  obtain r2 issued where i: "issueCredentialsFromProofs env (issue_command_of env t ck rs) = (r2, issued)" by fastforce
  from assms have "r1 = Inr () \<and> r2 = Inr cs \<and> issued = cy_issued rep"
    unfolding issue_now_def n i by (auto simp: reply_def Let_def split_beta split: sum.splits)
  with n i that show thesis by simp
qed

lemma issued_credential_reply:
  assumes "getCredential env now uuid gaps req t db = (rep, db')" "cy_result rep = Inr (Issued response cs)"
  obtains ck rs sessions' where
    "check_credential_request env req t = Inr ck"
    "resolveCredentialSession (ve_sources env) (ve_claims env) now t (ck_credentialConfigurationId ck) (ck_token ck)
       (db_sessions db) = (Inr rs, sessions')"
    "is_deferred rs = None"
    "issue_now env now uuid (\<lambda>k. gaps (k + 1)) t ck rs (run_others (gaps 0) (db\<lparr>db_sessions := sessions'\<rparr>)) = (rep, db')"
proof -
  obtain ck where ck: "check_credential_request env req t = Inr ck"
    using assms by (cases "check_credential_request env req t") (auto simp: getCredential_def reply_def)
  obtain r sessions' where r: "resolveCredentialSession (ve_sources env) (ve_claims env) now t
      (ck_credentialConfigurationId ck) (ck_token ck) (db_sessions db) = (r, sessions')" by fastforce
  from assms obtain rs where "r = Inr rs" "is_deferred rs = None"
      "issue_now env now uuid (\<lambda>k. gaps (k + 1)) t ck rs (run_others (gaps 0) (db\<lparr>db_sessions := sessions'\<rparr>)) = (rep, db')"
    unfolding getCredential_def ck sum.case r
    by (auto simp: reply_def Let_def split_beta split: sum.splits option.splits prod.splits)
  with ck r that show thesis by simp
qed


lemma issued_key:
  assumes "issueCredentialsFromProofs env c = (Inr cs, issued)" "x \<in> set cs"
  shows "\<exists>p \<in> set (ic_proofs c). \<exists>keys. \<exists>key \<in> set keys. verify_proof env c p = Inr keys
    \<and> issueCredential (ve_claims env) (ic_credentialConfigurationId c) key (ic_session c) (ic_claims c)
        (Some (ic_issuanceSetId c)) = Inr x"
proof -
  obtain keyss where v: "list_all2 (\<lambda>p keys. verify_proof env c p = Inr keys) (ic_proofs c) keyss"
    and i: "list_all2 (\<lambda>k x. issueCredential (ve_claims env) (ic_credentialConfigurationId c) k (ic_session c)
       (ic_claims c) (Some (ic_issuanceSetId c)) = Inr x) (concat keyss) cs"
    by (rule issued_from_proofs [OF assms(1)])
  obtain key keys where "key \<in> set keys" "keys \<in> set keyss"
    "issueCredential (ve_claims env) (ic_credentialConfigurationId c) key (ic_session c) (ic_claims c)
       (Some (ic_issuanceSetId c)) = Inr x"
    using list_all2_right [OF i assms(2)] by auto
  then show ?thesis using list_all2_right [OF v] by blast
qed

text \<open>After the nonces nothing of the request writes the nonce table.\<close>

lemma issue_now_nonces:
  assumes "issue_now env now nid gaps t ck rs db = (rep, db')"
    and "nonce_validateAndConsume (ve_nonces env) now t (\<lambda>k. gaps (k + 2)) (ck_proofs ck) (ck_proofType ck) db = (Inr (), db1)"
    and "list_all (quiet_on_nonce t' n) (gaps 0)" "list_all (quiet_on_nonce t' n) (gaps 1)"
  shows "nonce_rows t' n (db_nonces db') \<subseteq> nonce_rows t' n (db_nonces db1)"
proof -
  obtain r2 issued where i: "issueCredentialsFromProofs env (issue_command_of env t ck rs) = (r2, issued)" by fastforce
  let ?db2 = "run_others (gaps 0) db1"
  have s: "nonce_rows t' n (db_nonces ?db2) \<subseteq> nonce_rows t' n (db_nonces db1)"
    by (rule run_others_rows [OF assms(3)])
  have s': "nonce_rows t' n (db_nonces (run_others (gaps 1) (?db2\<lparr>db_sessions := x\<rparr>))) \<subseteq> nonce_rows t' n (db_nonces db1)" for x
    using run_others_rows [OF assms(4), of "?db2\<lparr>db_sessions := x\<rparr>"] s by simp
  have "db' = db1 \<or> (\<exists>x y. db' = run_others (gaps 1) (?db2\<lparr>db_sessions := x\<rparr>)\<lparr>db_sessions := y\<rparr>)"
    using assms(1) unfolding issue_now_def assms(2) i
    by (auto simp: Let_def split_beta split: sum.splits)
  then show ?thesis
  proof (elim disjE exE)
    fix x y assume "db' = run_others (gaps 1) (?db2\<lparr>db_sessions := x\<rparr>)\<lparr>db_sessions := y\<rparr>"
    then show ?thesis using s' [of x] by (simp del: One_nat_def)
  qed simp
qed

end
