(* ===== verification/Credential_Examples.thy ===== *)
theory Credential_Examples
  imports Credential_Rules
begin

text \<open>A tenant, a wallet's request and the tables the witnesses of \<open>Credential_Properties\<close> run on.\<close>

definition cconfig1 :: credential_config where
  "cconfig1 = \<lparr>cg_id = ''pid'', cg_format = ''jwt'', cg_fields = [], cg_attributeProviderId = None,
     cg_proofTypesSupported = None, cg_keyAttestationsRequired = None\<rparr>"

definition cclaims1 :: claims_env where
  "cclaims1 = \<lparr>ce_configuration = (\<lambda>t c. if t = ''acme'' \<and> c = ''pid'' then Some cconfig1 else None),
     ce_attributeProvider = (\<lambda>t i. None), ce_fetchClaims = (\<lambda>q. Inl Not_An_Error), ce_validate = (\<lambda>s c. Inr c),
     ce_entityId = (\<lambda>t. None), ce_formats = (\<lambda>f. if f = ''jwt'' then Some (\<lambda>i. Inr ''cred'') else None)\<rparr>"

definition ctoken1 :: json where
  "ctoken1 = JObj [(''iss'', JStr ''iss''), (''sub'', JStr ''s1''),
     (''authorization_details'', JArr [credential_detail ''pid''])]"

definition cissuance1 :: credential_issuance where
  "cissuance1 = \<lparr>is_authorizationServers = None, is_signingKeyId = None, is_dPopRequired = None,
     is_txCodeMaxAttempts = None, is_walletAttestationRequired = None, is_walletProviderTrustLists = None,
     ci_batchSize = None, ci_notificationEndpointEnabled = None\<rparr>"

definition cparsed1 :: credential_request where
  "cparsed1 = \<lparr>cr_credentialIdentifier = None, cr_credentialConfigurationId = Some ''pid'',
     cr_proofs = Some (JObj [(''jwt'', JArr [JStr ''p1''])]), cr_credentialResponseEncryption = None\<rparr>"

definition cenv1 :: credential_env where
  "cenv1 = \<lparr>ve_sources = \<lparr>so_tokenIssuers = (\<lambda>t. \<lparr>ti_localIssuer = ''iss'', ti_chainedIssuer = ''chained'',
       ti_hasChainedAuthorizationServer = False, ti_managedAuthorizationServerIssuers = []\<rparr>),
       so_externalServer = (\<lambda>t i. \<lparr>xs_advertised = False, xs_configuration = None\<rparr>),
       so_upstreamIdentity = (\<lambda>t i. None)\<rparr>,
     ve_claims = cclaims1,
     ve_nonces = \<lparr>ne_decode = (\<lambda>p. Inr (JObj [(''nonce'', JStr ''n1'')])), ne_text = (\<lambda>v. [])\<rparr>,
     ve_publicUrl = ''https://e'', ve_internalUrl = None,
     ve_metadata = (\<lambda>t. Inr \<lparr>im_credentialIssuer = JObj [], im_authorizationServers = []\<rparr>),
     ve_known = (\<lambda>m k. True), ve_issuance = (\<lambda>t. cissuance1), ve_decrypt = (\<lambda>j t. None),
     ve_parse = (\<lambda>m b. Inr cparsed1), ve_verifyResourceRequest = (\<lambda>c. Inr ctoken1), ve_hmac = (\<lambda>s. s),
     ve_prepareVerifier = (\<lambda>t l. Inr ()),
     ve_verifyProof = (\<lambda>t l p ty. if p = ''p1'' then Inr \<lparr>vp_holderKeys = [JObj []], vp_keyAttestation = None\<rparr>
       else Inl (Invalid_Proof ''invalid'')),
     ve_createResponse = (\<lambda>r. Inr JNull), ve_plusHours = (\<lambda>d h. d + h * 3600000)\<rparr>"

definition creq1 :: request_context where
  "creq1 = \<lparr>rx_body = Body_Object (JObj []), rx_contentType = ''application/json'',
     rx_headers = [(''authorization'', Header_Text ''DPoP t'')], rx_method = ''POST'', rx_url = ''/credential''\<rparr>"

definition crow1 :: session where
  "crow1 = blank_session ''s1'' ''acme'' 0"

definition ctrans1 :: deferred_transaction where
  "ctrans1 = \<lparr>dt_transactionId = ''tx'', dt_tenantId = ''acme'', dt_sessionId = ''s1'',
     dt_credentialConfigurationId = ''pid'', dt_issuanceSetId = None, dt_holderCnf = JObj [], dt_status = DT_Pending,
     dt_credential = None, dt_errorMessage = None, dt_interval = 5, dt_expiresAt = 100\<rparr>"

definition cdb1 :: issuance_db where
  "cdb1 = \<lparr>db_sessions = [crow1], db_nonces = [\<lparr>cn_tenantId = ''acme'', cn_nonce = ''n1'', cn_expiresAt = 50\<rparr>],
     db_deferred = [ctrans1]\<rparr>"

definition cchecked1 :: checked_request where
  "cchecked1 = \<lparr>ck_parsed = cparsed1, ck_proofType = Jwt_Proof, ck_proofs = [''p1''], ck_token = ctoken1,
     ck_issuanceSetId = ''t'', ck_credentialConfigurationId = ''pid'', ck_keyAttestationsRequired = None\<rparr>"

lemmas credential_check_run = cenv1_def cclaims1_def ctoken1_def cissuance1_def cparsed1_def creq1_def crow1_def
  cconfig1_def cchecked1_def
  check_credential_request_def issuerMetadata_def map_failure_def request_body_def starts_with_def
  parse_credential_request_def jtruthy_def check_encryption_def resolveCredentialProofs_def proof_strings_def
  arr_of_def jget_def jstr_def map_filter_simps verifyAccessToken_def deriveIssuanceSetId_def second_word_def
  js_trim_def is_js_space_def resolveAuthorizedCredentialConfiguration_def enforceAuthorizationDetails_def
  authorized_configurations_def credential_detail_def enforceProofTypePolicy_def getProofRequirements_def
  resolveConfiguredProofTypes_def DEFAULT_PROOF_TYPES_def proof_type_text_def

lemma checked1: "check_credential_request cenv1 creq1 ''acme'' = Inr cchecked1"
  by (simp add: credential_check_run Let_def of_char_def [symmetric])


definition cresolved1 :: resolved_session where
  "cresolved1 = \<lparr>rs_session = crow1, rs_claimsResult = None, rs_isExternalAsToken = False,
     rs_isChainedAsToken = False\<rparr>"

lemma cenv1_facts:
  "ve_claims cenv1 = cclaims1" "ve_issuance cenv1 t = cissuance1" "ve_createResponse cenv1 r = Inr JNull"
  "ne_decode (ve_nonces cenv1) p = Inr (JObj [(''nonce'', JStr ''n1'')])"
  "ve_prepareVerifier cenv1 t l = Inr ()"
  "ve_verifyProof cenv1 t l p ty = (if p = ''p1'' then Inr \<lparr>vp_holderKeys = [JObj []], vp_keyAttestation = None\<rparr>
     else Inl (Invalid_Proof ''invalid''))"
  by (simp_all add: cenv1_def)

lemma crow1_facts: "s_id crow1 = ''s1''" "s_tenantId crow1 = ''acme''" "s_credentialPayload crow1 = None"
  "s_notifications crow1 = []" "s_status crow1 = Active"
  by (simp_all add: crow1_def blank_session_def)

lemma correlated1: "correlate (ve_sources cenv1) ''acme'' ctoken1 = Inr (Local_Session ''s1'')"
  by (simp add: correlate_def cenv1_def classifyToken_def token_iss_def token_sub_def token_text_def ctoken1_def
      jget_def jstr_def)

lemma getForTenant1: "getForTenant ''acme'' (Some ''s1'') None [crow1] = Inr crow1"
  by (simp add: getForTenant_def store_lookup_def findForTenant_def sql_find_one_def crow1_facts typeWhere_def)

lemma ctoken1_sub: "token_sub ctoken1 = ''s1''"
  by (simp add: token_sub_def token_text_def ctoken1_def jget_def jstr_def)

lemma cclaims1_config: "ce_configuration cclaims1 ''acme'' ''pid'' = Some cconfig1"
  by (simp add: cclaims1_def)

lemma resolved1:
  "resolveCredentialSession (ve_sources cenv1) cclaims1 now ''acme'' ''pid'' ctoken1 [crow1] = (Inr cresolved1, [crow1])"
  by (simp add: resolveCredentialSession_def correlated1 token_session_row_def getForTenant1 ctoken1_sub crow1_facts
      resolveClaims_def claims_webhook_def offered_source_def cclaims1_config cresolved1_def is_external_def
      is_chained_def jget_def jstr_def cconfig1_def Let_def)

lemma consumed1:
  "nonce_validateAndConsume (ve_nonces cenv1) 10 ''acme'' (\<lambda>k. []) [''p1''] Jwt_Proof cdb1
     = (Inr (), cdb1\<lparr>db_nonces := []\<rparr>)"
  by (simp add: nonce_validateAndConsume_def validateAndConsumeCredentialNonces_def cenv1_facts jget_def jtruthy_def
      set_add_def nonce_text_def cdb1_def Let_def nonce_find_def nonce_delete_def sql_find_one_def sql_delete_def
      nonce_where_def)

lemma issued1:
  "issueCredential cclaims1 ''pid'' (JObj []) crow1 claims setId = Inr ''cred''"
  by (simp add: issueCredential_def cclaims1_def cconfig1_def crow1_facts assertClaimsMatchConfiguration_def
      buildJsonSchema_def Let_def obj_of_def jget_def)

lemma proven1:
  "verify_proof cenv1 (issue_command_of cenv1 ''acme'' cchecked1 cresolved1) ''p1'' = Inr [JObj []]"
  by (simp add: verify_proof_def issue_command_of_def cenv1_facts cchecked1_def assertKeyAttestationRequirements_def)

lemma from_proofs1:
  "issueCredentialsFromProofs cenv1 (issue_command_of cenv1 ''acme'' cchecked1 cresolved1) = (Inr [''cred''], [''cred''])"
proof -
  have "ic_proofs (issue_command_of cenv1 ''acme'' cchecked1 cresolved1) = [''p1'']"
    "ic_session (issue_command_of cenv1 ''acme'' cchecked1 cresolved1) = crow1"
    "ic_credentialConfigurationId (issue_command_of cenv1 ''acme'' cchecked1 cresolved1) = ''pid''"
    by (simp_all add: issue_command_of_def cchecked1_def cresolved1_def)
  then show ?thesis by (simp add: issueCredentialsFromProofs_def cenv1_facts proven1 issued1)
qed

lemma replied1:
  "cy_result (fst (getCredential cenv1 10 ''nid'' (\<lambda>k. []) creq1 ''acme'' cdb1)) = Inr (Issued JNull [''cred''])"
proof -
  have ck: "ck_credentialConfigurationId cchecked1 = ''pid''" "ck_token cchecked1 = ctoken1"
    "ck_proofs cchecked1 = [''p1'']" "ck_proofType cchecked1 = Jwt_Proof"
    by (simp_all add: cchecked1_def)
  have db: "db_sessions cdb1 = [crow1]" "cdb1\<lparr>db_sessions := [crow1]\<rparr> = cdb1" by (simp_all add: cdb1_def)
  have rs: "is_deferred cresolved1 = None" "rs_session cresolved1 = crow1" by (simp_all add: is_deferred_def cresolved1_def)
  show ?thesis
    unfolding getCredential_def checked1 sum.case ck db cenv1_facts resolved1 prod.case Let_def run_others_simps rs
      option.case issue_now_def consumed1 from_proofs1
    by (simp add: reply_def split_beta)
qed


definition cready1 :: deferred_transaction where
  "cready1 = ctrans1\<lparr>dt_status := DT_Ready, dt_credential := Some ''cred''\<rparr>"

definition cdb2 :: issuance_db where
  "cdb2 = cdb1\<lparr>db_deferred := [cready1]\<rparr>"

lemma completed1:
  "completeDeferredCredential cclaims1 (\<lambda>k. []) ''acme'' ''tx'' (JObj []) cdb1 = (Inr (Some cready1), cdb2)"
proof -
  have "db_deferred cdb1 = [ctrans1]" "db_sessions cdb1 = [crow1]" by (simp_all add: cdb1_def)
  moreover have "findPending ''acme'' ''tx'' [ctrans1] = Some ctrans1"
    by (simp add: findPending_def sql_find_one_def dt_where_def ctrans1_def)
  moreover have "markReady_update ''acme'' ''tx'' ''cred'' [ctrans1] = [cready1]"
    by (simp add: markReady_update_def sql_update_def dt_where_def ctrans1_def cready1_def)
  moreover have "dt_find ''acme'' ''tx'' [cready1] = Some cready1"
    by (simp add: dt_find_def sql_find_one_def dt_where_def ctrans1_def cready1_def)
  moreover have "dt_tenantId ctrans1 = ''acme''" "dt_sessionId ctrans1 = ''s1''" "dt_holderCnf ctrans1 = JObj []"
    "dt_credentialConfigurationId ctrans1 = ''pid''" by (simp_all add: ctrans1_def)
  ultimately show ?thesis
    by (simp add: completeDeferredCredential_def getForTenant1 issued1 Let_def cdb2_def)
qed

lemma cready1_facts: "dt_sessionId cready1 = ''s1''" "dt_credentialConfigurationId cready1 = ''pid''"
  "dt_expiresAt cready1 = 100" "dt_credential cready1 = Some ''cred''" "dt_status cready1 = DT_Ready"
  by (simp_all add: cready1_def ctrans1_def)

lemma token1_verified:
  "ebind (issuerMetadata cenv1 ''acme'') (\<lambda>md. verifyAccessToken cenv1 creq1 ''acme'' md
     (is_dPopRequired (ve_issuance cenv1 ''acme''))) = Inr ctoken1"
  by (simp add: issuerMetadata_def map_failure_def verifyAccessToken_def cenv1_def)

lemma belongs1: "belongsToSession (ve_sources cenv1) ''acme'' ctoken1 ''s1'' db"
  by (simp add: belongsToSession_def correlated1)

lemma authorized1:
  "resolveAuthorizedCredentialConfiguration None (Some ''pid'') (jget ''authorization_details'' (Some ctoken1)) = Inr ''pid''"
  by (simp add: credential_check_run Let_def)

lemma polled1: "fst (getDeferredCredential cenv1 10 (\<lambda>k. []) creq1 ''tx'' ''acme'' cdb2) = Inr ''cred''"
proof -
  have db: "db_deferred cdb2 = [cready1]" by (simp add: cdb2_def)
  have row: "dt_find ''acme'' ''tx'' [cready1] = Some cready1"
    by (simp add: dt_find_def sql_find_one_def dt_where_def ctrans1_def cready1_def)
  have ready: "resolveRetrieval 10 cready1 = Retrieval_Ready ''cred''"
    by (simp add: resolveRetrieval_def cready1_facts)
  have won: "fst (markRetrieved ''acme'' ''tx'' [cready1])"
    by (simp add: markRetrieved_wins dt_ready_def dt_where_def cready1_def ctrans1_def)
  show ?thesis
    unfolding getDeferredCredential_def token1_verified sum.case db row option.case Let_def run_others_simps
      cready1_facts authorized1 ready
    by (simp add: belongs1 db won split_beta)
qed


definition coffer1 :: session_offer_request where
  "coffer1 = \<lparr>or_response_type = Uri_Response, or_flow = Pre_Authorized_Code_Flow, or_tx_code = None,
     or_tx_code_description = None, or_credentialConfigurationIds = [''pid''], or_authorization_server = None,
     or_credentialClaims = None, or_webhookEndpointId = None, or_offerLifetimeSeconds = None, or_reference = None\<rparr>"

end
