(* ===== verification/Credential_Properties.thy ===== *)
theory Credential_Properties
  imports Credential_Examples
begin

text \<open>
  What the credential endpoints guarantee: an issued credential belongs to the session and to a
  configuration of the presented access token and to a key proven with a fresh nonce; nothing is
  issued for a batch with an invalid proof; a nonce, a DPoP proof and a ready deferred credential are
  each used at most once in every interleaving; a deferred credential only goes to its own session.
\<close>

section \<open>Authorization\<close>

text \<open>C12: An issued credential is authorized. The access token passed the resource check, it names a session
  of the tenant by its issuer's rule, the credential configuration is one of the token's
  authorization details (when it has any), and every returned credential was issued for that
  configuration and that session.\<close>

theorem issued_credential_authorized:
  assumes "getCredential env now uuid gaps req t db = (rep, db')" "cy_result rep = Inr (Issued response cs)"
  shows "\<exists>md token ref s cid. verifyAccessToken env req t md (is_dPopRequired (ve_issuance env t)) = Inr token
    \<and> correlate (ve_sources env) t token = Inr ref
    \<and> s \<in> set (db_sessions db) \<and> s_tenantId s = t \<and> s_id s = session_of ref
    \<and> (arr_of (jget ''authorization_details'' (Some token)) = []
       \<or> cid \<in> set (authorized_configurations (arr_of (jget ''authorization_details'' (Some token)))))
    \<and> cs = cy_issued rep
    \<and> (\<forall>c \<in> set cs. \<exists>key claims setId. issueCredential (ve_claims env) cid key s claims setId = Inr c)"
proof -
  obtain ck rs sessions' where ck: "check_credential_request env req t = Inr ck"
    and rs: "resolveCredentialSession (ve_sources env) (ve_claims env) now t (ck_credentialConfigurationId ck)
       (ck_token ck) (db_sessions db) = (Inr rs, sessions')"
    and run: "issue_now env now uuid (\<lambda>k. gaps (k + 1)) t ck rs (run_others (gaps 0) (db\<lparr>db_sessions := sessions'\<rparr>))
       = (rep, db')"
    by (rule issued_credential_reply [OF assms])
  obtain md where md: "verifyAccessToken env req t md (is_dPopRequired (ve_issuance env t)) = Inr (ck_token ck)"
    "enforceAuthorizationDetails (jget ''authorization_details'' (Some (ck_token ck))) (ck_credentialConfigurationId ck) = Inr ()"
    by (rule checked_request_facts [OF ck])
  obtain ref where ref: "correlate (ve_sources env) t (ck_token ck) = Inr ref" "s_id (rs_session rs) = session_of ref"
    "rs_session rs \<in> set (db_sessions db)" "s_tenantId (rs_session rs) = t"
    using resolved_session_of_token [OF rs] by blast
  have iss: "issueCredentialsFromProofs env (issue_command_of env t ck rs) = (Inr cs, cy_issued rep)"
    by (rule issued_reply [OF run assms(2)])
  obtain keyss where keys: "cy_issued rep = cs" "list_all2 (\<lambda>k x. issueCredential (ve_claims env)
        (ck_credentialConfigurationId ck) k (rs_session rs) (ic_claims (issue_command_of env t ck rs))
        (Some (ck_issuanceSetId ck)) = Inr x) (concat keyss) cs"
    using issued_from_proofs [OF iss] by (auto simp: issue_command_of_def)
  have "\<exists>key claims setId. issueCredential (ve_claims env) (ck_credentialConfigurationId ck) key (rs_session rs) claims setId = Inr c"
    if "c \<in> set cs" for c
    using list_all2_right [OF keys(2) that] by blast
  with md ref keys(1) show ?thesis using enforced_details by metis
qed

theorem issued_credential_authorized_witness:
  "\<exists>s cid. s \<in> set (db_sessions cdb1) \<and> s_id s = ''s1''
     \<and> cid \<in> set (authorized_configurations (arr_of (jget ''authorization_details'' (Some ctoken1))))
     \<and> (\<exists>key claims setId. issueCredential cclaims1 cid key s claims setId = Inr ''cred'')"
proof -
  have token: "verifyAccessToken cenv1 creq1 ''acme'' md d = Inr ctoken1" for md d
    by (simp add: verifyAccessToken_def cenv1_def)
  have details: "arr_of (jget ''authorization_details'' (Some ctoken1)) \<noteq> []"
    by (simp add: ctoken1_def jget_def arr_of_def)
  show ?thesis
    using issued_credential_authorized [where rep = "fst (getCredential cenv1 10 ''nid'' (\<lambda>k. []) creq1 ''acme'' cdb1)" and db' = "snd (getCredential cenv1 10 ''nid'' (\<lambda>k. []) creq1 ''acme'' cdb1)",
        OF prod.collapse [symmetric] replied1] details
    by (auto simp: token correlated1 cenv1_facts) blast
qed





text \<open>Nothing is issued for a batch with an invalid proof: when one proof of the request is rejected, the
  request fails and no credential was issued for the others.\<close>

theorem rejected_proof_issues_nothing:
  assumes "p \<in> set (ic_proofs c)" "verify_proof env c p = Inl e"
  shows "\<exists>e'. issueCredentialsFromProofs env c = (Inl e', [])"
proof -
  obtain e' where e': "verify_proofs env c (ic_proofs c) = Inl e'"
    using verify_proofs_rejects [OF assms] by blast
  show ?thesis
    by (cases "ve_prepareVerifier env (s_tenantId (ic_session c)) (ic_trustLists c)")
      (simp_all add: issueCredentialsFromProofs_def e')
qed

theorem rejected_proof_issues_nothing_witness:
  "\<exists>e. issueCredentialsFromProofs cenv1 ((issue_command_of cenv1 ''acme'' cchecked1 cresolved1)
     \<lparr>ic_proofs := [''p1'', ''p2'']\<rparr>) = (Inl e, [])"
  by (rule rejected_proof_issues_nothing [where p = "''p2''" and e = "Invalid_Proof ''invalid''"])
    (simp_all add: verify_proof_def issue_command_of_def cenv1_facts)

text \<open>A wallet only ever sees protocol errors of the issuing step: whatever the nonce check, the proof
  verifier, the claims or the signer throw is reported as an OID4VCI credential request error.\<close>

theorem issue_errors_mapped:
  assumes "issue_now env now nid gaps t ck rs db = (rep, db')" "cy_result rep = Inl e"
  shows "\<exists>code m. e = Request_Exception code m"
proof -
  have mapped: "\<exists>code m. mapToCredentialRequestException f = Request_Exception code m" for f
    by (cases f) (simp_all add: mapToCredentialRequestException_def denied_def invalid_proof_def failure_message_def
        is_conflict_def)
  obtain r1 db1 where n: "nonce_validateAndConsume (ve_nonces env) now t (\<lambda>k. gaps (k + 2)) (ck_proofs ck)
      (ck_proofType ck) db = (r1, db1)" by fastforce
  obtain r2 issued where i: "issueCredentialsFromProofs env (issue_command_of env t ck rs) = (r2, issued)" by fastforce
  from assms have "\<exists>f. e = mapToCredentialRequestException f"
    unfolding issue_now_def n i by (auto simp: reply_def Let_def split_beta split: sum.splits)
  with mapped show ?thesis by blast
qed

theorem issue_errors_mapped_witness:
  "\<exists>code m. mapToCredentialRequestException (Invalid_Proof ''invalid'') = Request_Exception code m"
proof -
  let ?ck = "cchecked1\<lparr>ck_proofs := [''p2'']\<rparr>"
  let ?run = "issue_now cenv1 10 ''nid'' (\<lambda>k. []) ''acme'' ?ck cresolved1 cdb1"
  have "nonce_validateAndConsume (ve_nonces cenv1) 10 ''acme'' (\<lambda>k. []) (ck_proofs ?ck) (ck_proofType ?ck) cdb1
      = (Inr (), cdb1\<lparr>db_nonces := []\<rparr>)"
    using consumed1
    by (simp add: nonce_validateAndConsume_def validateAndConsumeCredentialNonces_def cenv1_facts cchecked1_def)
  moreover have "issueCredentialsFromProofs cenv1 (issue_command_of cenv1 ''acme'' ?ck cresolved1)
      = (Inl (Invalid_Proof ''invalid''), [])"
    by (simp add: issueCredentialsFromProofs_def issue_command_of_def verify_proof_def cenv1_facts)
  ultimately have "cy_result (fst ?run) = Inl (mapToCredentialRequestException (Invalid_Proof ''invalid''))"
    unfolding issue_now_def by (simp add: reply_def)
  from issue_errors_mapped [OF prod.collapse [symmetric] this] show ?thesis .
qed


section \<open>Single use\<close>

text \<open>A proof nonce is accepted at most once. Of all the requests that compete for it, in any interleaving
  with other statements on the nonces that do not save it again, at most one deletes it; and one does
  if the first to try finds it stored.\<close>

theorem nonce_accepted_once:
  assumes "list_all (case_sum (\<lambda>_. True) (not_saved t n)) as"
  shows "wins (claim_nonce t n) exec_nonce as db \<le> 1
    \<and> (nonce_stored t n db \<longrightarrow> wins (claim_nonce t n) exec_nonce (Inl () # as) db = 1)"
  using assms nonce_use.wins_at_most_once [of t n as db] nonce_use.wins_exactly_once [of t n "()" as db]
  by (simp add: claim_nonce_def nonce_delete_wins)

theorem nonce_accepted_once_witness:
  "wins (claim_nonce ''acme'' ''n1'') exec_nonce [Inl (), Inr (Nonce_DeleteExpired 60), Inl ()] (db_nonces cdb1) = 1"
proof -
  have "list_all (case_sum (\<lambda>_. True) (not_saved ''acme'' ''n1'')) [Inr (Nonce_DeleteExpired 60), Inl ()]" by simp
  moreover have "nonce_stored ''acme'' ''n1'' (db_nonces cdb1)"
    by (simp add: nonce_stored_def nonce_where_def cdb1_def)
  ultimately show ?thesis using nonce_accepted_once by blast
qed

text \<open>C@: A DPoP proof is registered at most once while it is valid. The same proof (key thumbprint, \<open>jti\<close> and
  \<open>iat\<close>) presented any number of times registers at most once among requests and cleanup jobs that run
  before the proof expires.\<close>

theorem dpop_proof_registered_once:
  assumes "list_all (case_sum (\<lambda>e. dpopProofExpiresAt (Some iat) now \<le> e)
      (before_expiry (dpopProofExpiresAt (Some iat) now))) as"
  shows "wins (claim_jti jkt jti) exec_jti as db \<le> 1"
  by (rule jti_use.wins_at_most_once [OF assms]) simp

theorem dpop_proof_registered_once_witness:
  "wins (claim_jti ''k'' ''j'') exec_jti [Inl 370000, Inr (Jti_Delete ''k'' ''j'' 20000), Inl 370000] [] \<le> 1"
  by (rule dpop_proof_registered_once [where iat = 10 and now = 0]) (simp add: dpopProofExpiresAt_def)




section \<open>Deferred credentials\<close>

lemma deferred_poll:
  assumes "getDeferredCredential env now gaps req i t db = (Inr credential, db')"
  shows "\<exists>md token tr. verifyAccessToken env req t md (is_dPopRequired (ve_issuance env t)) = Inr token
    \<and> tr \<in> set (db_deferred db) \<and> dt_where t i tr \<and> dt_status tr = DT_Ready
    \<and> dt_credential tr = Some credential \<and> now \<le> dt_expiresAt tr
    \<and> belongsToSession (ve_sources env) t token (dt_sessionId tr) (db_sessions (run_others (gaps 0) db))
    \<and> enforceAuthorizationDetails (jget ''authorization_details'' (Some token)) (dt_credentialConfigurationId tr) = Inr ()
    \<and> \<not> dt_ready t i (db_deferred db')"
proof -
  obtain token where token: "ebind (issuerMetadata env t) (\<lambda>md.
      verifyAccessToken env req t md (is_dPopRequired (ve_issuance env t))) = Inr token"
    using assms by (auto simp: getDeferredCredential_def split: sum.splits)
  obtain tr where tr: "dt_find t i (db_deferred db) = Some tr"
    using assms unfolding getDeferredCredential_def token sum.case
    by (auto simp: Let_def split: option.splits)
  let ?db2 = "run_others (gaps 1) (run_others (gaps 0) db)"
  have facts: "belongsToSession (ve_sources env) t token (dt_sessionId tr) (db_sessions (run_others (gaps 0) db))
    \<and> (\<exists>cid. resolveAuthorizedCredentialConfiguration None (Some (dt_credentialConfigurationId tr))
        (jget ''authorization_details'' (Some token)) = Inr cid)
    \<and> resolveRetrieval now tr = Retrieval_Ready credential
    \<and> db_deferred db' = snd (markRetrieved t i (db_deferred ?db2))"
    using assms unfolding getDeferredCredential_def token sum.case tr
    by (auto simp: Let_def split_beta split: if_splits sum.splits retrieval.splits)
  then have "enforceAuthorizationDetails (jget ''authorization_details'' (Some token)) (dt_credentialConfigurationId tr) = Inr ()"
    by (auto simp: resolveAuthorizedCredentialConfiguration_def returns split: if_splits)
  moreover
have "dt_status tr = DT_Ready \<and> dt_credential tr = Some credential \<and> now \<le> dt_expiresAt tr"
    using facts by (auto simp: resolveRetrieval_def not_less split: if_splits deferred_status.splits dest: truthyE)
  moreover have "\<not> dt_ready t i (db_deferred db')"
    using markRetrieved_spends [of t i "db_deferred ?db2"] facts by simp
  moreover have "tr \<in> set (db_deferred db) \<and> dt_where t i tr"
    using tr by (auto simp: dt_find_def dest: sql_find_one_Some)
  ultimately show ?thesis
    using token facts unfolding returns by blast
qed

lemma deferred_poll_needs_ready:
  assumes "\<not> dt_ready t i (db_deferred db)"
  shows "\<exists>e. fst (getDeferredCredential env now gaps req i t db) = Inl e"
proof (cases "getDeferredCredential env now gaps req i t db")
  case (Pair r db')
  with deferred_poll [of env now gaps req i t db] assms show ?thesis
    by (cases r) (auto simp: dt_ready_def)
qed

text \<open>A poll returns a credential only to the session it was deferred for: the token belongs to the session
  of the transaction, its authorization details (if any) name the configuration, the transaction was
  ready and not expired, and afterwards it is not ready any more.\<close>

theorem deferred_retrieval_sound:
  assumes "getDeferredCredential env now gaps req i t db = (Inr credential, db')"
  shows "\<exists>md token tr. verifyAccessToken env req t md (is_dPopRequired (ve_issuance env t)) = Inr token
    \<and> tr \<in> set (db_deferred db) \<and> dt_where t i tr \<and> dt_status tr = DT_Ready
    \<and> dt_credential tr = Some credential \<and> now \<le> dt_expiresAt tr
    \<and> belongsToSession (ve_sources env) t token (dt_sessionId tr) (db_sessions (run_others (gaps 0) db))
    \<and> enforceAuthorizationDetails (jget ''authorization_details'' (Some token)) (dt_credentialConfigurationId tr) = Inr ()
    \<and> \<not> dt_ready t i (db_deferred db')"
  by (rule deferred_poll [OF assms])

theorem deferred_retrieval_sound_witness:
  "\<exists>tr \<in> set (db_deferred cdb2). dt_status tr = DT_Ready \<and> dt_credential tr = Some ''cred'' \<and> 10 \<le> dt_expiresAt tr"
proof -
  let ?run = "getDeferredCredential cenv1 10 (\<lambda>k. []) creq1 ''tx'' ''acme'' cdb2"
  have "?run = (Inr ''cred'', snd ?run)" by (rule prod_eqI) (simp_all add: polled1)
  from deferred_retrieval_sound [OF this] show ?thesis by blast
qed


lemma completed_row:
  "dt_find t i (markReady_update t i c db) = Some tr \<Longrightarrow> dt_status tr = DT_Ready \<and> dt_credential tr = Some c"
  by (auto simp: dt_find_def markReady_update_def sql_update_rows dest!: sql_find_one_Some)

lemma completed_transaction:
  assumes "completeDeferredCredential env (\<lambda>_. []) t i claims db = (Inr (Some tr), db')"
  shows "dt_find t i (db_deferred db') = Some tr" "dt_status tr = DT_Ready"
    and "\<exists>credential key s cid setId. dt_credential tr = Some credential
      \<and> issueCredential env cid key s (Some claims) setId = Inr credential"
proof -
  obtain p where p: "findPending t i (db_deferred db) = Some p"
    using assms by (cases "findPending t i (db_deferred db)") (auto simp: completeDeferredCredential_def)
  obtain s where s: "getForTenant (dt_tenantId p) (Some (dt_sessionId p)) None (db_sessions db) = Inr s"
    using assms p by (cases "getForTenant (dt_tenantId p) (Some (dt_sessionId p)) None (db_sessions db)")
      (auto simp: completeDeferredCredential_def)
  obtain c where c:
    "issueCredential env (dt_credentialConfigurationId p) (dt_holderCnf p) s (Some claims) (dt_issuanceSetId p) = Inr c"
    using assms p s by (cases "issueCredential env (dt_credentialConfigurationId p) (dt_holderCnf p) s (Some claims)
      (dt_issuanceSetId p)") (auto simp: completeDeferredCredential_def)
  then have "dt_find t i (markReady_update t i c (db_deferred db)) = Some tr"
    "db_deferred db' = markReady_update t i c (db_deferred db)"
    using assms p s by (auto simp: completeDeferredCredential_def Let_def split: option.splits)
  with c completed_row [of t i c "db_deferred db" tr] show "dt_find t i (db_deferred db') = Some tr"
    "dt_status tr = DT_Ready" "\<exists>credential key s cid setId. dt_credential tr = Some credential
      \<and> issueCredential env cid key s (Some claims) setId = Inr credential" by auto
qed

text \<open>A completed transaction is served. Once the tenant completed it with the claims, the next poll of the
  wallet (a token of the session, authorized for the configuration, before the expiry) gets exactly the
  credential issued from these claims, and a poll after that gets none.\<close>

theorem completed_then_polled:
  assumes "completeDeferredCredential cenv (\<lambda>_. []) t i claims db = (Inr (Some tr), db1)"
    and "ebind (issuerMetadata env t) (\<lambda>md. verifyAccessToken env req t md (is_dPopRequired (ve_issuance env t))) = Inr token"
    and "belongsToSession (ve_sources env) t token (dt_sessionId tr) (db_sessions db1)"
    and "resolveAuthorizedCredentialConfiguration None (Some (dt_credentialConfigurationId tr))
      (jget ''authorization_details'' (Some token)) = Inr cid"
    and "now \<le> dt_expiresAt tr" "truthy (dt_credential tr)"
    and "getDeferredCredential env now (\<lambda>_. []) req i t db1 = (r, db2)"
  shows "(\<exists>credential key s cid setId. issueCredential cenv cid key s (Some claims) setId = Inr credential
      \<and> r = Inr credential)
    \<and> (\<exists>e. fst (getDeferredCredential env now' gaps req i t db2) = Inl e)"
proof -
  note tr = completed_transaction [OF assms(1)]
  then obtain credential where c: "dt_credential tr = Some credential"
    "\<exists>key s cid setId. issueCredential cenv cid key s (Some claims) setId = Inr credential" by blast
  have ready: "resolveRetrieval now tr = Retrieval_Ready credential"
    using assms(5,6) tr(2) c(1) by (simp add: resolveRetrieval_def)
  have "dt_ready t i (db_deferred db1)"
    using tr(1,2) by (auto simp: dt_ready_def dt_find_def dest!: sql_find_one_Some)
  then have won: "fst (markRetrieved t i (db_deferred db1))" by (simp add: markRetrieved_wins)
  then have poll: "r = Inr credential" "db_deferred db2 = snd (markRetrieved t i (db_deferred db1))"
    using assms(7) unfolding getDeferredCredential_def assms(2) sum.case tr(1)
    by (auto simp: Let_def split_beta assms(3,4) tr(1) ready)
  have "\<not> dt_ready t i (db_deferred db2)" unfolding poll(2) by (rule markRetrieved_spends)
  from deferred_poll_needs_ready [OF this, of env now' gaps req] poll(1) c(2) show ?thesis by blast
qed

theorem completed_then_polled_witness:
  "fst (getDeferredCredential cenv1 10 (\<lambda>k. []) creq1 ''tx'' ''acme'' cdb2) = Inr ''cred''
   \<and> (\<exists>e. fst (getDeferredCredential cenv1 11 (\<lambda>k. []) creq1 ''tx'' ''acme''
          (snd (getDeferredCredential cenv1 10 (\<lambda>k. []) creq1 ''tx'' ''acme'' cdb2))) = Inl e)"
proof -
  let ?run = "getDeferredCredential cenv1 10 (\<lambda>k. []) creq1 ''tx'' ''acme'' cdb2"
  have run: "?run = (Inr ''cred'', snd ?run)" by (rule prod_eqI) (simp_all add: polled1)
  have belongs: "belongsToSession (ve_sources cenv1) ''acme'' ctoken1 (dt_sessionId cready1) (db_sessions cdb2)"
    by (simp add: cready1_facts belongs1)
  have authorized: "resolveAuthorizedCredentialConfiguration None (Some (dt_credentialConfigurationId cready1))
      (jget ''authorization_details'' (Some ctoken1)) = Inr ''pid''"
    by (simp add: cready1_facts authorized1)
  have fresh: "10 \<le> dt_expiresAt cready1" "truthy (dt_credential cready1)" by (simp_all add: cready1_facts)
  show ?thesis
    using completed_then_polled [where gaps = "\<lambda>k. []" and now' = 11,
        OF completed1 token1_verified belongs authorized fresh run] polled1 by blast
qed



section \<open>Authorization details\<close>

lemma authorized_credential_details [simp]: "authorized_configurations (map credential_detail cids) = cids"
  by (induction cids)
    (simp_all add: authorized_configurations_def credential_detail_def map_filter_simps jget_def jstr_def)

lemma identifier_of_detail:
  "cid \<in> set cids \<Longrightarrow> resolveIdentifier cid (Some (JArr (map credential_detail cids))) = Inr cid"
proof -
  assume "cid \<in> set cids"
  then have "List.find (\<lambda>d. JStr cid \<in> set (arr_of (jget ''credential_identifiers'' (Some d))))
      (map credential_detail cids) = Some (credential_detail cid)"
    by (induction cids) (auto simp: credential_detail_def jget_def arr_of_def)
  then show ?thesis
    by (simp add: resolveIdentifier_def arr_of_def) (simp add: credential_detail_def jget_def)
qed

text \<open>The offer bounds the token. When the wallet's authorization request named no details, the details the
  token endpoint puts into the access token let the credential endpoint accept exactly the
  configurations of the offer, by configuration id and by credential identifier alike.\<close>

theorem offer_bounds_token:
  assumes "requested_details json_parse (case s_auth_queries s of None \<Rightarrow> None | Some q \<Rightarrow> aq_authorization_details q)
      \<in> {None, Some []}"
    and "s_credentialPayload s = Some p" "or_credentialConfigurationIds p \<noteq> []"
  shows "\<exists>ds. authorizationDetailsForToken json_parse s = Inr (Some ds)
    \<and> (\<forall>cid. enforceAuthorizationDetails (Some (JArr ds)) cid = Inr () \<longleftrightarrow> cid \<in> set (or_credentialConfigurationIds p))
    \<and> (\<forall>cid \<in> set (or_credentialConfigurationIds p). cid \<noteq> [] \<longrightarrow>
         resolveAuthorizedCredentialConfiguration (Some cid) None (Some (JArr ds)) = Inr cid)"
proof -
  let ?ds = "map credential_detail (or_credentialConfigurationIds p)"
  have ds: "authorizationDetailsForToken json_parse s = Inr (Some ?ds)"
    using assms by (auto simp: authorizationDetailsForToken_def)
  have enforce: "enforceAuthorizationDetails (Some (JArr ?ds)) cid = Inr () \<longleftrightarrow> cid \<in> set (or_credentialConfigurationIds p)" for cid
    unfolding enforced_details using assms(3) by (simp add: arr_of_def)
  have "resolveAuthorizedCredentialConfiguration (Some cid) None (Some (JArr ?ds)) = Inr cid"
    if "cid \<in> set (or_credentialConfigurationIds p)" "cid \<noteq> []" for cid
    using that identifier_of_detail [OF that(1)] enforce [of cid]
    by (simp add: resolveAuthorizedCredentialConfiguration_def returns)
  with ds enforce show ?thesis by blast
qed

theorem offer_bounds_token_witness:
  "\<exists>ds. authorizationDetailsForToken (\<lambda>j. None) (crow1\<lparr>s_credentialPayload := Some coffer1\<rparr>) = Inr (Some ds)
     \<and> resolveAuthorizedCredentialConfiguration (Some ''pid'') None (Some (JArr ds)) = Inr ''pid''
     \<and> enforceAuthorizationDetails (Some (JArr ds)) ''mdl'' \<noteq> Inr ()"
proof -
  let ?s = "crow1\<lparr>s_credentialPayload := Some coffer1\<rparr>"
  have "requested_details (\<lambda>j. None) (case s_auth_queries ?s of None \<Rightarrow> None | Some q \<Rightarrow> aq_authorization_details q)
      \<in> {None, Some []}" by (simp add: crow1_def blank_session_def requested_details_def)
  moreover have "s_credentialPayload ?s = Some coffer1" by simp
  moreover have "or_credentialConfigurationIds coffer1 \<noteq> []" by (simp add: coffer1_def)
  ultimately obtain ds where "authorizationDetailsForToken (\<lambda>j. None) ?s = Inr (Some ds)"
    "\<forall>cid. enforceAuthorizationDetails (Some (JArr ds)) cid = Inr () \<longleftrightarrow> cid \<in> set (or_credentialConfigurationIds coffer1)"
    "\<forall>cid \<in> set (or_credentialConfigurationIds coffer1). cid \<noteq> [] \<longrightarrow>
         resolveAuthorizedCredentialConfiguration (Some cid) None (Some (JArr ds)) = Inr cid"
    using offer_bounds_token [of "\<lambda>j. None" ?s coffer1] by blast
  then show ?thesis by (intro exI [of _ ds]) (simp add: coffer1_def)
qed

text \<open>A request whose authorization details hold no usable entry leaves the token with an empty list of
  details, and the credential endpoint takes an empty list for no restriction.\<close>

lemma unusable_details_unrestricted:
  assumes "requested_details json_parse (case s_auth_queries s of None \<Rightarrow> None | Some q \<Rightarrow> aq_authorization_details q)
      = Some (ad # ads)"
    and "JNull \<notin> set (ad # ads)" "\<forall>d \<in> set (ad # ads). requested_configuration d = None" "cid \<noteq> []"
  shows "authorizationDetailsForToken json_parse s = Inr (Some [])"
    and "resolveAuthorizedCredentialConfiguration None (Some cid) (Some (JArr [])) = Inr cid"
proof -
  have "List.map_filter requested_configuration xs = []"
    if "\<forall>d \<in> set xs. requested_configuration d = None" for xs
    using that by (induction xs) (simp_all add: map_filter_simps)
  with assms(1-3) show "authorizationDetailsForToken json_parse s = Inr (Some [])"
    by (simp add: authorizationDetailsForToken_def)
  show "resolveAuthorizedCredentialConfiguration None (Some cid) (Some (JArr [])) = Inr cid"
    using assms(4) by (simp add: resolveAuthorizedCredentialConfiguration_def enforceAuthorizationDetails_def arr_of_def)
qed


section \<open>Races\<close>

text \<open>Deferred issuance only deletes the nonce: one that has expired is accepted as long as the cleanup job
  has not removed it.\<close>

lemma deferred_accepts_expired_nonce:
  assumes "deferred_proof (ve_nonces env) (dp_proofs p) = Inr (proof, n)"
    and "r \<in> set (db_nonces db)" "nonce_where (dp_tenantId p) n r" "cn_expiresAt r < now"
    and "deferred_holder_key env p proof = Inr key"
  shows "fst (createDeferredTransaction env now uuid (\<lambda>_. []) p db) = Inr (uuid, coalesce (dp_interval p) 5)"
proof -
  have "fst (nonce_delete (dp_tenantId p) n (db_nonces db))"
    using assms(2,3) by (auto simp: nonce_delete_wins nonce_stored_def)
  then show ?thesis using assms(1,5) by (simp add: createDeferredTransaction_def Let_def split_beta)
qed

lemma markReady_rows:
  "set (markReady_update t i c db) =
     (\<lambda>r. if dt_where t i r then r\<lparr>dt_status := DT_Ready, dt_credential := Some c\<rparr> else r) ` set db"
  by (simp add: markReady_update_def sql_update_rows)

lemma markReady_ready: "x \<in> set db \<Longrightarrow> dt_where t i x \<Longrightarrow> dt_ready t i (markReady_update t i c db)"
  unfolding dt_ready_def markReady_rows
  by (rule bexI [of _ "x\<lparr>dt_status := DT_Ready, dt_credential := Some c\<rparr>"]) (simp, rule image_eqI [of _ _ x], simp_all)

lemma markReady_where: "x \<in> set db \<Longrightarrow> dt_where t i x \<Longrightarrow> \<exists>y \<in> set (markReady_update t i c db). dt_where t i y"
  using markReady_ready [of x db t i c] by (auto simp: dt_ready_def)

lemma markRetrieved_where: "x \<in> set db \<Longrightarrow> dt_where t i x \<Longrightarrow> \<exists>y \<in> set (snd (markRetrieved t i db)). dt_where t i y"
  unfolding markRetrieved_rows
  by (rule bexI [OF _ imageI [of x]]) simp_all

text \<open>\<open>markReady\<close> has no condition on the status: of two concurrent completions the slower one makes the
  transaction ready again after the wallet retrieved the credential of the faster one.\<close>

lemma second_completion_reopens:
  assumes "findPending t i (db_deferred db) = Some p"
    and "getForTenant (dt_tenantId p) (Some (dt_sessionId p)) None (db_sessions db) = Inr s"
    and "issueCredential env (dt_credentialConfigurationId p) (dt_holderCnf p) s (Some claims) (dt_issuanceSetId p) = Inr c"
    and "gaps 0 = []" "gaps 1 = [On_Deferred (Dt_Ready t i c'), On_Deferred (Dt_Retrieved t i)]" "gaps 2 = []"
  shows "dt_ready t i (db_deferred (snd (completeDeferredCredential env gaps t i claims db)))"
proof -
  obtain r where r: "r \<in> set (db_deferred db)" "dt_where t i r"
    using assms(1) by (auto simp: findPending_def dest!: sql_find_one_Some)
  let ?ready = "markReady_update t i c' (db_deferred db)"
  have "\<exists>x \<in> set ?ready. dt_where t i x" using r by (rule markReady_where)
  then have "\<exists>x \<in> set (snd (markRetrieved t i ?ready)). dt_where t i x" by (blast intro: markRetrieved_where)
  then have "dt_ready t i (markReady_update t i c (snd (markRetrieved t i ?ready)))" by (blast intro: markReady_ready)
  then show ?thesis
    unfolding completeDeferredCredential_def assms(1) option.case Let_def assms(4) run_others_simps assms(2) sum.case
      assms(3) assms(5) assms(6) by simp
qed

text \<open>The notification ids of the session are read before the credentials are issued and written as a whole
  afterwards: what another request stored meanwhile is overwritten.\<close>

lemma notifications_overwritten:
  assumes "issue_now env now nid gaps t ck rs db = (rep, db')" "cy_result rep = Inr (Issued response cs)" "gaps 1 = []"
    and "r \<in> set (db_sessions db')" "s_id r = s_id (rs_session rs)" "s_tenantId r = s_tenantId (rs_session rs)"
  shows "map nt_id (s_notifications r) = map nt_id (s_notifications (rs_session rs)) @ [nid]"
proof -
  obtain r1 db1 where n: "nonce_validateAndConsume (ve_nonces env) now t (\<lambda>k. gaps (k + 2)) (ck_proofs ck)
      (ck_proofType ck) db = (r1, db1)" by fastforce
  obtain r2 issued where i: "issueCredentialsFromProofs env (issue_command_of env t ck rs) = (r2, issued)" by fastforce
  let ?s = "rs_session rs"
  let ?ns = "s_notifications ?s @ [\<lparr>nt_id = nid, nt_event = None, nt_eventDescription = None,
      nt_credentialConfigurationId = ck_credentialConfigurationId ck\<rparr>]"
  let ?db3 = "fst (updateForTenant now (s_tenantId ?s) (s_id ?s) [Set_notifications ?ns] (db_sessions (run_others (gaps 0) db1)))"
  have db': "db_sessions db' = fst (snd (changeState_executeFrom now (context_of ?s) [Active] Fetched ?db3))"
    using assms(1,2) unfolding issue_now_def n i assms(3)
    by (auto simp: reply_def Let_def split_beta split: sum.splits)
  have all: "s_notifications x = ?ns" if "x \<in> set ?db3" "s_id x = s_id ?s" "s_tenantId x = s_tenantId ?s" for x
    using that by (auto simp: updateForTenant_def sql_update_rows set_clause_def split: if_splits)
  have "\<exists>x \<in> set ?db3. s_notifications r = s_notifications x \<and> s_id x = s_id r \<and> s_tenantId x = s_tenantId r"
    using assms(4) unfolding db'
    by (auto simp: changeState_executeFrom_def repo_changeStateFrom_def Let_def split_beta sql_update_rows
        set_clause_def stateUpdate_def)
  with all assms(5,6) have "s_notifications r = ?ns" by force
  then show ?thesis by simp
qed

end
