(* ===== verification/Claims_Properties.thy ===== *)
theory Claims_Properties
  imports Claims_Derivation
begin

text \<open>
  The claim fields of a configuration against what they are for: each default is found under its path in
  the default claims, whatever other fields set, and the disclosure frame lists exactly the fields marked
  as selectively disclosable, each at the object that holds it.
\<close>

section \<open>Reading a claim\<close>

fun get_path :: "json \<Rightarrow> segment list \<Rightarrow> json option" where
  "get_path v [] = Some v"
| "get_path (JObj kvs) (s # p) = (case map_of kvs (segmentToKey s) of None \<Rightarrow> None | Some x \<Rightarrow> get_path x p)"
| "get_path v (s # p) = None"

definition string_path :: "segment list \<Rightarrow> bool" where
  "string_path p \<longleftrightarrow> p \<noteq> [] \<and> list_all (\<lambda>s. case s of Seg_Str _ \<Rightarrow> True | _ \<Rightarrow> False) p"

definition incomparable :: "segment list \<Rightarrow> segment list \<Rightarrow> bool" where
  "incomparable p q \<longleftrightarrow> \<not> is_prefix_of p q \<and> \<not> is_prefix_of q p"

text \<open>No value on the way to the last step of the path, an object at every step.\<close>

fun open_path :: "json \<Rightarrow> segment list \<Rightarrow> bool" where
  "open_path c [] \<longleftrightarrow> True"
| "open_path (JObj kvs) (s # p) \<longleftrightarrow>
     p = [] \<or> (case map_of kvs (segmentToKey s) of None \<Rightarrow> True | Some x \<Rightarrow> open_path x p)"
| "open_path c (s # p) \<longleftrightarrow> False"

lemma string_pathE:
  assumes "string_path p"
  obtains k q where "p = Seg_Str k # q" "q = [] \<or> string_path q"
  using assms by (cases p) (auto simp: string_path_def split: segment.splits)

lemma incomparable_Cons:
  "incomparable (Seg_Str k # p) (Seg_Str k' # q) \<longleftrightarrow> k \<noteq> k' \<or> incomparable p q"
  by (auto simp: incomparable_def is_prefix_of_def)

lemma incomparable_Nil [simp]: "\<not> incomparable [] q" "\<not> incomparable p []"
  by (simp_all add: incomparable_def is_prefix_of_def)

lemma incomparable_sym: "incomparable p q \<Longrightarrow> incomparable q p"
  by (simp add: incomparable_def)

lemma child_container_string:
  "string_path p \<Longrightarrow> child_container v p = (if is_obj v \<or> is_arr v then the v else JObj [])"
  by (auto simp: child_container_def string_path_def split: list.splits segment.splits)

lemma open_path_obj: "open_path c p \<Longrightarrow> p \<noteq> [] \<Longrightarrow> is_obj (Some c)"
  by (cases c; cases p) (simp_all add: is_obj_def)

lemma open_empty [simp]: "open_path (JObj []) p"
  by (cases p) simp_all

lemma get_set_same:
  "string_path p \<Longrightarrow> open_path c p \<Longrightarrow> get_path (setValueAtPath c p v) p = Some v"
proof (induction p arbitrary: c)
  case Nil
  then show ?case by (simp add: string_path_def)
next
  case (Cons s p)
  obtain kvs where c: "c = JObj kvs" using Cons.prems(2) by (cases c) auto
  show ?case
  proof (cases "p = []")
    case True
    with c show ?thesis by simp
  next
    case False
    with Cons.prems(1) have sp: "string_path p" by (simp add: string_path_def)
    have "open_path (child_container (map_of kvs (segmentToKey s)) p) p"
      using Cons.prems(2) False c open_path_obj [of _ p]
      by (auto simp: child_container_string [OF sp] is_obj_def is_arr_def split: option.splits)
    from Cons.IH [OF sp this] False c show ?thesis by simp
  qed
qed

lemma get_set_other:
  "string_path p \<Longrightarrow> string_path q \<Longrightarrow> incomparable p q \<Longrightarrow> get_path (setValueAtPath (JObj kvs) p v) q = get_path (JObj kvs) q"
proof (induction p arbitrary: kvs q)
  case Nil
  then show ?case by (simp add: string_path_def)
next
  case (Cons s p)
  obtain k where s: "s = Seg_Str k" using Cons.prems(1) by (rule string_pathE) simp
  obtain k' q' where q: "q = Seg_Str k' # q'" "q' = [] \<or> string_path q'"
    using Cons.prems(2) by (rule string_pathE)
  show ?case
  proof (cases "k = k'")
    case False
    with s q show ?thesis by (simp add: segmentToKey_def)
  next
    case True
    with Cons.prems(3) s q have inc: "incomparable p q'" by (simp add: incomparable_Cons)
    then have ne: "p \<noteq> []" "q' \<noteq> []" by auto
    with Cons.prems(1) q have sp: "string_path p" "string_path q'" by (auto simp: string_path_def)
    let ?child = "map_of kvs k"
    have "get_path (setValueAtPath (child_container ?child p) p v) q' =
        (case ?child of None \<Rightarrow> None | Some x \<Rightarrow> get_path x q')"
    proof (cases ?child)
      case None
      have "get_path (JObj []) q' = None" using ne(2) by (cases q') simp_all
      with None Cons.IH [OF sp inc, of "[]"] show ?thesis
        by (simp add: child_container_string [OF sp(1)] is_obj_def is_arr_def)
    next
      case (Some x)
      show ?thesis
      proof (cases x)
        case (JObj kvs')
        with Some Cons.IH [OF sp inc, of kvs'] show ?thesis
          by (simp add: child_container_string [OF sp(1)] is_obj_def)
      next
        case (JArr xs)
        have "\<exists>ys. setValueAtPath (JArr xs) p v = JArr ys" using ne(1) by (cases p) (auto split: option.splits)
        with Some JArr ne(2) show ?thesis
          by (cases q') (auto simp: child_container_string [OF sp(1)] is_arr_def)
      qed (use ne(2) Some Cons.IH [OF sp inc, of "[]"] in
          \<open>cases q'; simp add: child_container_string [OF sp(1)] is_obj_def is_arr_def\<close>)+
    qed
    with s q True ne show ?thesis by (simp add: segmentToKey_def)
  qed
qed

lemma open_set_other:
  "string_path p \<Longrightarrow> string_path q \<Longrightarrow> incomparable p q \<Longrightarrow> open_path c q \<Longrightarrow> open_path (setValueAtPath c p v) q"
proof (induction p arbitrary: c q)
  case Nil
  then show ?case by (simp add: string_path_def)
next
  case (Cons s p)
  obtain k where s: "s = Seg_Str k" using Cons.prems(1) by (rule string_pathE) simp
  obtain k' q' where q: "q = Seg_Str k' # q'" "q' = [] \<or> string_path q'"
    using Cons.prems(2) by (rule string_pathE)
  obtain kvs where c: "c = JObj kvs" using Cons.prems(4) q by (cases c) auto
  show ?case
  proof (cases "k = k'")
    case False
    with s q c Cons.prems(4) show ?thesis by (simp add: segmentToKey_def)
  next
    case True
    with Cons.prems(3) s q have inc: "incomparable p q'" by (simp add: incomparable_Cons)
    then have ne: "p \<noteq> []" "q' \<noteq> []" by auto
    with Cons.prems(1) q have sp: "string_path p" "string_path q'" by (auto simp: string_path_def)
    have "open_path (child_container (map_of kvs k) p) q'"
      using Cons.prems(4) q c True ne open_path_obj [of _ q']
      by (auto simp: child_container_string [OF sp(1)] segmentToKey_def is_obj_def is_arr_def split: option.splits)
    from Cons.IH [OF sp inc this] s q c True ne show ?thesis by (simp add: segmentToKey_def)
  qed
qed



section \<open>Default claims\<close>

lemma set_keeps_object: "p \<noteq> [] \<Longrightarrow> \<exists>kvs'. setValueAtPath (JObj kvs) p v = JObj kvs'"
  by (cases p) auto

definition has_default :: "claim_field \<Rightarrow> bool" where
  "has_default f \<longleftrightarrow> cf_defaultValue f \<noteq> None"

lemma apply_default_skips: "foldl apply_default c fs = foldl apply_default c (filter has_default fs)"
  by (induction fs arbitrary: c) (auto simp: apply_default_def has_default_def)

lemma defaults_read_back:
  assumes "sorted_wrt incomparable (map cf_path fs)" "list_all (string_path \<circ> cf_path) fs" "list_all has_default fs"
    and "list_all (open_path (JObj kvs) \<circ> cf_path) fs"
  shows "\<exists>kvs'. foldl apply_default (JObj kvs) fs = JObj kvs'
    \<and> (\<forall>q. string_path q \<longrightarrow> list_all (\<lambda>f. incomparable (cf_path f) q) fs \<longrightarrow>
         get_path (JObj kvs') q = get_path (JObj kvs) q)
    \<and> (\<forall>f \<in> set fs. get_path (JObj kvs') (cf_path f) = cf_defaultValue f)"
  using assms
proof (induction fs arbitrary: kvs)
  case (Cons f fs)
  obtain v where v: "cf_defaultValue f = Some v" using Cons.prems(3) by (auto simp: has_default_def)
  have f: "string_path (cf_path f)" "open_path (JObj kvs) (cf_path f)" using Cons.prems(2,4) by simp_all
  obtain kvs1 where step: "setValueAtPath (JObj kvs) (cf_path f) v = JObj kvs1"
    using set_keeps_object [of "cf_path f" kvs v] f(1) by (auto simp: string_path_def)
  have others: "incomparable (cf_path f) (cf_path g)" "string_path (cf_path g)" "open_path (JObj kvs) (cf_path g)"
    if "g \<in> set fs" for g using that Cons.prems(1,2,4) by (auto simp: list_all_iff)
  have "list_all (open_path (JObj kvs1) \<circ> cf_path) fs"
    using open_set_other [OF f(1)] others step by (auto simp: list_all_iff simp flip: step)
  moreover have "sorted_wrt incomparable (map cf_path fs)" "list_all (string_path \<circ> cf_path) fs" "list_all has_default fs"
    using Cons.prems(1-3) by (simp_all add: comp_def)
  ultimately obtain kvs' where rest: "foldl apply_default (JObj kvs1) fs = JObj kvs'"
    "\<And>q. string_path q \<Longrightarrow> list_all (\<lambda>f. incomparable (cf_path f) q) fs \<Longrightarrow> get_path (JObj kvs') q = get_path (JObj kvs1) q"
    "\<And>g. g \<in> set fs \<Longrightarrow> get_path (JObj kvs') (cf_path g) = cf_defaultValue g"
    using Cons.IH [of kvs1] by blast
  have here: "get_path (JObj kvs') (cf_path f) = cf_defaultValue f"
  proof -
    have "list_all (\<lambda>g. incomparable (cf_path g) (cf_path f)) fs"
      using others(1) incomparable_sym by (auto simp: list_all_iff)
    then have "get_path (JObj kvs') (cf_path f) = get_path (JObj kvs1) (cf_path f)" by (rule rest(2) [OF f(1)])
    with get_set_same [OF f, of v] step v show ?thesis by simp
  qed
  have frame: "get_path (JObj kvs') q = get_path (JObj kvs) q"
    if "string_path q" "list_all (\<lambda>f. incomparable (cf_path f) q) (f # fs)" for q
    using rest(2) [OF that(1)] get_set_other [OF f(1) that(1), of kvs v] that(2) step by simp
  have "foldl apply_default (JObj kvs) (f # fs) = JObj kvs'"
    using rest(1) step v by (simp add: apply_default_def)
  with here frame rest(3) show ?case by auto
qed simp

text \<open>The default claims hold every default at its path. When the paths of the fields with a default are
  string paths and none is a prefix of another, reading the default claims at the path of such a field
  (nested fields included, with the path their parent gives them) returns its default value.\<close>

theorem default_claims_read_back:
  assumes "fs = filter has_default (flattenFields trees)" "sorted_wrt incomparable (map cf_path fs)"
    and "list_all (string_path \<circ> cf_path) fs" "f \<in> set fs"
  shows "get_path (buildClaims trees) (cf_path f) = cf_defaultValue f"
proof -
  have "list_all has_default fs" using assms(1) by (simp add: list_all_iff)
  moreover have "list_all (open_path (JObj []) \<circ> cf_path) fs" by (simp add: list_all_iff)
  ultimately obtain kvs' where "foldl apply_default (JObj []) fs = JObj kvs'"
    "\<forall>f \<in> set fs. get_path (JObj kvs') (cf_path f) = cf_defaultValue f"
    using defaults_read_back [OF assms(2,3), of "[]"] by blast
  with assms(1,4) apply_default_skips [of "JObj []" "flattenFields trees"] show ?thesis
    by (simp add: buildClaims_def)
qed

definition cfield1 :: "segment list \<Rightarrow> json option \<Rightarrow> bool \<Rightarrow> claim_field" where
  "cfield1 p v d = \<lparr>cf_path = p, cf_type = Type_Object, cf_defaultValue = v, cf_mandatory = None,
     cf_disclosable = Some d, cf_namespace = None, cf_display = [], cf_constraints = []\<rparr>"

definition ctrees1 :: "claim_tree list" where
  "ctrees1 = [Claim_Tree (cfield1 [Seg_Str ''address''] None True)
       [Claim_Tree (cfield1 [Seg_Str ''city''] (Some (JStr ''Bern'')) True) [],
        Claim_Tree (cfield1 [Seg_Str ''zip''] (Some (JNum 3000)) False) []],
     Claim_Tree (cfield1 [Seg_Str ''name''] (Some (JStr ''Ada'')) False) []]"

lemma flattened1:
  "flattenFields ctrees1 = [cfield1 [Seg_Str ''address''] None True,
     cfield1 [Seg_Str ''address'', Seg_Str ''city''] (Some (JStr ''Bern'')) True,
     cfield1 [Seg_Str ''address'', Seg_Str ''zip''] (Some (JNum 3000)) False,
     cfield1 [Seg_Str ''name''] (Some (JStr ''Ada'')) False]"
  by (simp add: ctrees1_def cfield1_def resolveChildPath_def is_prefix_of_def)

theorem default_claims_read_back_witness:
  "get_path (buildClaims ctrees1) [Seg_Str ''address'', Seg_Str ''city''] = Some (JStr ''Bern'')"
proof -
  let ?f = "cfield1 [Seg_Str ''address'', Seg_Str ''city''] (Some (JStr ''Bern'')) True"
  have fs: "filter has_default (flattenFields ctrees1) = [?f,
      cfield1 [Seg_Str ''address'', Seg_Str ''zip''] (Some (JNum 3000)) False,
      cfield1 [Seg_Str ''name''] (Some (JStr ''Ada'')) False]"
    by (simp add: flattened1 has_default_def cfield1_def)
  have "get_path (buildClaims ctrees1) (cf_path ?f) = cf_defaultValue ?f"
    by (rule default_claims_read_back [OF refl]; unfold fs)
      (simp_all add: cfield1_def incomparable_def is_prefix_of_def string_path_def)
  then show ?thesis by (simp add: cfield1_def)
qed


section \<open>Disclosure frame\<close>

text \<open>The names in the \<open>_sd\<close> list of the frame node at a path.\<close>

fun sd_at :: "(string \<times> json) list \<Rightarrow> string list \<Rightarrow> string set" where
  "sd_at kvs [] = {k. JStr k \<in> set (arr_of (map_of kvs ''_sd''))}"
| "sd_at kvs (k # p) = sd_at (obj_of (map_of kvs k)) p"

lemma sd_at_add:
  "sd_at (add_sd leaf kvs) [] = insert leaf (sd_at kvs [])"
  "''_sd'' \<noteq> k \<Longrightarrow> sd_at (add_sd leaf kvs) (k # p) = sd_at kvs (k # p)"
  by (auto simp: add_sd_def Let_def arr_of_def)

lemma sd_at_frame_update:
  "''_sd'' \<notin> set (map segmentToKey p) \<Longrightarrow> ''_sd'' \<notin> set q \<Longrightarrow>
     sd_at (frame_update kvs p (add_sd leaf)) q = sd_at kvs q \<union> (if map segmentToKey p = q then {leaf} else {})"
proof (induction p arbitrary: kvs q)
  case Nil
  then show ?case
    by (cases q) (simp_all add: sd_at_add del: sd_at.simps)
next
  case (Cons s p)
  then show ?case by (cases q) (auto simp: obj_of_def)
qed

definition discloses :: "claim_field \<Rightarrow> string list \<Rightarrow> string \<Rightarrow> bool" where
  "discloses f q k \<longleftrightarrow> is_disclosable f \<and> map segmentToKey (butlast (cf_path f)) = q \<and> leafKey (last (cf_path f)) = k"

lemma sd_at_foldl:
  assumes "\<And>f. f \<in> set fs \<Longrightarrow> is_disclosable f \<and> ''_sd'' \<notin> set (map segmentToKey (butlast (cf_path f)))"
    and "''_sd'' \<notin> set q"
  shows "sd_at (foldl add_disclosure frame fs) q = sd_at frame q \<union> {k. \<exists>f \<in> set fs. discloses f q k}"
  using assms(1)
proof (induction fs arbitrary: frame)
  case (Cons f fs)
  have "sd_at (add_disclosure frame f) q = sd_at frame q \<union> {k. discloses f q k}"
    using Cons.prems [of f] assms(2) by (auto simp: add_disclosure_def sd_at_frame_update discloses_def)
  with Cons show ?case by auto
qed simp

text \<open>C@: The disclosure frame is exact. It exists when some field is selectively disclosable, and the names it
  lists for an object are the last steps of exactly the disclosable fields directly below that object
  (no claim being named \<open>_sd\<close>).\<close>

theorem disclosure_frame_exact:
  assumes "\<forall>f \<in> set (flattenFields trees). ''_sd'' \<notin> set (map segmentToKey (butlast (cf_path f)))" "''_sd'' \<notin> set q"
  shows "(buildDisclosureFrame trees = None \<longleftrightarrow> (\<forall>f \<in> set (flattenFields trees). \<not> is_disclosable f))
    \<and> sd_at (coalesce (buildDisclosureFrame trees) []) q = {k. \<exists>f \<in> set (flattenFields trees). discloses f q k}"
proof -
  let ?fs = "filter is_disclosable (flattenFields trees)"
  have none: "buildDisclosureFrame trees = None \<longleftrightarrow> (\<forall>f \<in> set (flattenFields trees). \<not> is_disclosable f)"
    by (simp add: buildDisclosureFrame_def Let_def filter_empty_conv)
  have empty: "sd_at [] q = {}" for q by (induction q) (simp_all add: arr_of_def obj_of_def)
  have frame: "coalesce (buildDisclosureFrame trees) [] = foldl add_disclosure [] ?fs"
    by (simp add: buildDisclosureFrame_def Let_def)
  have "sd_at (foldl add_disclosure [] ?fs) q = sd_at [] q \<union> {k. \<exists>f \<in> set ?fs. discloses f q k}"
    using assms by (intro sd_at_foldl) auto
  then show ?thesis using none frame empty by (auto simp: discloses_def)
qed

theorem disclosure_frame_exact_witness:
  "sd_at (coalesce (buildDisclosureFrame ctrees1) []) [''address''] = {''city''}"
proof -
  have "sd_at (coalesce (buildDisclosureFrame ctrees1) []) [''address'']
      = {k. \<exists>f \<in> set (flattenFields ctrees1). discloses f [''address''] k}"
    by (rule conjunct2 [OF disclosure_frame_exact]) (simp_all add: flattened1 cfield1_def segmentToKey_def)
  then show ?thesis
    by (auto simp: flattened1 cfield1_def discloses_def is_disclosable_def segmentToKey_def leafKey_def)
qed

end
