(* ===== verification/Dpop_Proofs.thy ===== *)
theory Dpop_Proofs
  imports Issuance_Store OAuth_Rules
begin

text \<open>
  The DPoP proof of a request (\<open>oid4vci/authorization/shared/dpop.util.ts\<close>). The OAuth library verifies
  the proof; it registers the proof's identifier through the callback it is given, so its verification
  is a parameter that takes this callback and the table.
\<close>

record dpop_proof_input =
  dq_jwt :: "string option"
  dq_method :: string
  dq_url :: string
  dq_authorizationServerMetadata :: json
  dq_expectedJwkThumbprint :: "string option"
  dq_required :: bool

record dpop_check =
  dc_jwt :: string
  dc_method :: string
  dc_url :: string
  dc_authorizationServerMetadata :: json
  dc_allowedSigningAlgs :: "json list"
  dc_maxProofAgeSeconds :: int
  dc_allowedClockSkewSeconds :: int

text \<open>\<open>assertJtiUniqueness\<close>: key thumbprint, \<open>jti\<close>, \<open>iat\<close> and the time of the check.\<close>

type_synonym jti_callback = "string \<Rightarrow> string \<Rightarrow> int option \<Rightarrow> date \<Rightarrow> dpop_proofs \<Rightarrow> bool \<times> dpop_proofs"

type_synonym dpop_library = "dpop_check \<Rightarrow> jti_callback \<Rightarrow> dpop_proofs \<Rightarrow> (thrown + string option) \<times> dpop_proofs"

definition PRIVATE_JWK_MEMBERS :: "string list" where
  "PRIVATE_JWK_MEMBERS = [''d'', ''p'', ''q'', ''dp'', ''dq'', ''qi'', ''oth'', ''k'']"

definition assertJtiUniqueness :: "jti_stmt list \<Rightarrow> jti_callback" where
  "assertJtiUniqueness others jkt jti iat now db = register now others jkt jti (dpopProofExpiresAt iat now) db"

definition dpop_check_of :: "dpop_proof_input \<Rightarrow> string \<Rightarrow> dpop_check" where
  "dpop_check_of q jwt =
     \<lparr>dc_jwt = jwt, dc_method = dq_method q, dc_url = dq_url q,
      dc_authorizationServerMetadata = dq_authorizationServerMetadata q,
      dc_allowedSigningAlgs = (case jget ''dpop_signing_alg_values_supported'' (Some (dq_authorizationServerMetadata q)) of
         Some (JArr xs) \<Rightarrow> xs | _ \<Rightarrow> []),
      dc_maxProofAgeSeconds = 300, dc_allowedClockSkewSeconds = 60\<rparr>"

definition dpop_failure :: "thrown \<Rightarrow> oauth_error" where
  "dpop_failure err = (case err of
       Thrown_OAuth e \<Rightarrow> e
     | Thrown v \<Rightarrow> OAuthError Invalid_Dpop_Proof
         (coalesce (if jtruthy (jget ''errorResponse'' v) then describeLibraryError v else None) ''Invalid DPoP proof''))"

definition verifyDpopProof ::
    "(string \<Rightarrow> thrown + json) \<Rightarrow> dpop_library \<Rightarrow> jti_stmt list \<Rightarrow> dpop_proof_input \<Rightarrow> dpop_proofs
       \<Rightarrow> (oauth_error + string option) \<times> dpop_proofs" where
  "verifyDpopProof decodeHeader library others q db =
     (if \<not> truthy (dq_jwt q)
      then (if dq_required q then Inl (OAuthError Invalid_Dpop_Proof ''Missing required DPoP proof'') else Inr None, db)
      else (case decodeHeader (the (dq_jwt q)) of
              Inl err \<Rightarrow> (Inl (dpop_failure err), db)
            | Inr header \<Rightarrow>
                (let jwk = jget ''jwk'' (Some header)
                 in if jtruthy jwk \<and> list_ex (\<lambda>m. jget m jwk \<noteq> None) PRIVATE_JWK_MEMBERS
                    then (Inl (OAuthError Invalid_Dpop_Proof ''The DPoP proof jwk must not contain a private key''), db)
                    else (case library (dpop_check_of q (the (dq_jwt q))) (assertJtiUniqueness others) db of
                            (Inl err, db') \<Rightarrow> (Inl (dpop_failure err), db')
                          | (Inr thumbprint, db') \<Rightarrow>
                              (if \<not> truthy thumbprint
                                  \<or> (truthy (dq_expectedJwkThumbprint q) \<and> dq_expectedJwkThumbprint q \<noteq> thumbprint)
                               then Inl (OAuthError Invalid_Dpop_Proof
                                 ''The DPoP proof is not signed with the key bound to this authorization'')
                               else Inr thumbprint, db')))))"

text \<open>A request that must prove a key, and one that sends a proof, has one on success, the bound one if
  there is a bound key.\<close>

lemma verifyDpopProof_binds:
  assumes "verifyDpopProof decodeHeader library others q db = (Inr jkt, db')"
  shows "dq_required q \<or> truthy (dq_jwt q) \<Longrightarrow> truthy jkt"
    and "truthy jkt \<Longrightarrow> truthy (dq_expectedJwkThumbprint q) \<Longrightarrow> jkt = dq_expectedJwkThumbprint q"
  using assms by (auto simp: verifyDpopProof_def Let_def split: if_splits sum.splits prod.splits)

end
