(* ===== verification/Dcql_Policy.thy ===== *)
theory Dcql_Policy
  imports Claims_Derivation
begin

text \<open>
  The DCQL presentation policy (\<open>verifier/presentations/domain/dcql-claim-policy.ts\<close>): which credentials
  and claims, with which values, a presentation has to contain. A disclosed claim is \<open>undefined\<close> only
  where a path selects nothing.
\<close>

section \<open>Queries\<close>

record dcql_claim =
  dqc_id :: "string option"
  dqc_path :: "segment list"
  dqc_values :: "json list option"

record dcql_credential =
  dqq_id :: string
  dqq_multiple :: "bool option"
  dqq_claims :: "dcql_claim list option"
  dqq_claim_sets :: "string list list option"

record dcql_set =
  dqs_options :: "string list list"
  dqs_required :: "bool option"

definition CLAIM_VALUE_MISMATCH :: string where
  "CLAIM_VALUE_MISMATCH = ''claim_value_mismatch''"

text \<open>The details of a violation: at most one of them is set.\<close>

datatype incomplete_details =
    Missing_Credentials "string list"
  | Missing_Claims string "string list"
  | Mismatched_Claims string "string list"
  | Unsatisfied_Sets "nat list"

record incomplete_presentation =
  ipr_code :: "string option"
  ipr_message :: string
  ipr_details :: incomplete_details

record claim_selection =
  csr_missing :: "string list"
  csr_mismatched :: "string list"

datatype claim_set_error = UnknownClaimSetReferenceError string string

fun claim_set_error_message :: "claim_set_error \<Rightarrow> string" where
  "claim_set_error_message (UnknownClaimSetReferenceError claimId credentialId) =
     ''claim_sets references unknown claim id '' @ quoted claimId @ '' for credential '' @ quoted credentialId"


section \<open>Required credentials\<close>

definition set_satisfied :: "string list \<Rightarrow> dcql_set \<Rightarrow> bool" where
  "set_satisfied received s \<longleftrightarrow>
     dqs_required s = Some False \<or> list_ex (list_all (\<lambda>i. i \<in> set received)) (dqs_options s)"

definition unsatisfied_sets :: "string list \<Rightarrow> dcql_set list \<Rightarrow> nat list" where
  "unsatisfied_sets received ss = map fst (filter (\<lambda>(i, s). \<not> set_satisfied received s) (enumerate 0 ss))"

definition findMissingCredentials ::
    "string list \<Rightarrow> 'a dcql_credential_scheme list \<Rightarrow> dcql_set list option \<Rightarrow> incomplete_presentation option" where
  "findMissingCredentials received credentials credentialSets =
     (case credentialSets of
        Some (s # ss) \<Rightarrow>
          (let unsatisfied = unsatisfied_sets received (s # ss)
           in if unsatisfied = [] then None
              else Some \<lparr>ipr_code = None,
                ipr_message = ''Credential sets not satisfied: ''
                  @ join '', '' (map (\<lambda>i. ''set['' @ show_nat i @ '']'') unsatisfied),
                ipr_details = Unsatisfied_Sets unsatisfied\<rparr>)
      | _ \<Rightarrow>
          (let missing = filter (\<lambda>i. i \<notin> set received) (map dqq_id credentials)
           in if missing = [] then None
              else Some \<lparr>ipr_code = None, ipr_message = ''Missing required credentials: '' @ join '', '' missing,
                ipr_details = Missing_Credentials missing\<rparr>))"


section \<open>Claim names\<close>

text \<open>A path segment in \<open>Array.join\<close>, and as a property key; a missing key is the text \<open>undefined\<close>.\<close>

definition joined_segment :: "segment \<Rightarrow> string" where
  "joined_segment s = (case s of Seg_Str k \<Rightarrow> k | Seg_Num n \<Rightarrow> show_int n | Seg_Null \<Rightarrow> [])"

definition path_text :: "segment list \<Rightarrow> string" where
  "path_text p = join ''.'' (map joined_segment p)"

definition property_key :: "segment \<Rightarrow> string" where
  "property_key s = (case s of Seg_Str k \<Rightarrow> k | Seg_Num n \<Rightarrow> show_int n | Seg_Null \<Rightarrow> ''null'')"

definition sdJwtRequiredClaimKeys :: "dcql_claim list option \<Rightarrow> string list" where
  "sdJwtRequiredClaimKeys claims = map (\<lambda>c. path_text (dqc_path c)) (coalesce claims [])"

definition mdocClaimName :: "segment list \<Rightarrow> string" where
  "mdocClaimName path = (case path of _ # e # _ \<Rightarrow> property_key e | [e] \<Rightarrow> property_key e | [] \<Rightarrow> ''undefined'')"

definition missingClaimsViolation :: "string \<Rightarrow> string list \<Rightarrow> incomplete_presentation" where
  "missingClaimsViolation credentialId missing =
     \<lparr>ipr_code = None,
      ipr_message = ''Missing required claims for credential '' @ quoted credentialId @ '': '' @ join '', '' missing,
      ipr_details = Missing_Claims credentialId missing\<rparr>"

definition claimValueMismatchViolation :: "string \<Rightarrow> string list \<Rightarrow> incomplete_presentation" where
  "claimValueMismatchViolation credentialId mismatched =
     \<lparr>ipr_code = Some CLAIM_VALUE_MISMATCH,
      ipr_message = ''Disclosed claim values do not match the requested values for credential ''
        @ quoted credentialId @ '': '' @ join '', '' mismatched,
      ipr_details = Mismatched_Claims credentialId mismatched\<rparr>"

definition claimSetNotSatisfied :: "'a dcql_credential_scheme \<Rightarrow> incomplete_presentation" where
  "claimSetNotSatisfied credential =
     \<lparr>ipr_code = None,
      ipr_message = ''Credential \"'' @ dqq_id credential @ ''\" does not satisfy any claim_set'',
      ipr_details = Missing_Claims (dqq_id credential)
        (map (\<lambda>c. path_text (dqc_path c)) (coalesce (dqq_claims credential) []))\<rparr>"


section \<open>Claim sets\<close>

text \<open>The claims with a usable id; a later claim replaces an earlier one with the same id.\<close>

definition claims_by_id :: "dcql_claim list \<Rightarrow> string \<Rightarrow> dcql_claim option" where
  "claims_by_id claims = map_of (rev (List.map_filter (\<lambda>c. case dqc_id c of
       Some i \<Rightarrow> if js_trim i \<noteq> [] then Some (i, c) else None | None \<Rightarrow> None) claims))"

definition claimSelections :: "'a dcql_credential_scheme \<Rightarrow> claim_set_error + dcql_claim list list" where
  "claimSelections credential =
     (let claims = coalesce (dqq_claims credential) []
      in case dqq_claim_sets credential of
           Some (cs # css) \<Rightarrow>
             all_results (map (\<lambda>claimSet. all_results (map (\<lambda>i.
               (case claims_by_id claims i of
                  None \<Rightarrow> Inl (UnknownClaimSetReferenceError i (dqq_id credential))
                | Some c \<Rightarrow> Inr c)) claimSet)) (cs # css))
         | _ \<Rightarrow> Inr [claims])"


section \<open>Selecting and comparing values\<close>

definition MAX_SAFE_INTEGER :: int where
  "MAX_SAFE_INTEGER = 2 ^ 53 - 1"

text \<open>A numeral beyond the safe integers is rounded to a number that is not safe either.\<close>

definition arrayIndex :: "segment \<Rightarrow> nat option" where
  "arrayIndex s =
     (let index = (case s of Seg_Num n \<Rightarrow> Some n
            | Seg_Str k \<Rightarrow> (if k = [] then None else map_option int (digits_value k))
            | Seg_Null \<Rightarrow> None)
      in case index of
           None \<Rightarrow> None
         | Some n \<Rightarrow> if 0 \<le> n \<and> n \<le> MAX_SAFE_INTEGER then Some (nat n) else None)"

definition selectPathSegment :: "json \<Rightarrow> segment \<Rightarrow> json list" where
  "selectPathSegment current s =
     (case current of
        JArr xs \<Rightarrow>
          (if s = Seg_Null then xs
           else (case arrayIndex s of
                   Some i \<Rightarrow> if i < length xs then [xs ! i] else []
                 | None \<Rightarrow> []))
      | JObj kvs \<Rightarrow>
          (if s = Seg_Null then []
           else (case map_of kvs (property_key s) of Some v \<Rightarrow> [v] | None \<Rightarrow> []))
      | _ \<Rightarrow> [])"

definition selectClaimValues :: "json \<Rightarrow> segment list \<Rightarrow> json list" where
  "selectClaimValues v path =
     foldl (\<lambda>selected s. concat (map (\<lambda>current. selectPathSegment current s) selected)) [v] path"

definition isRequestedValue :: "json \<Rightarrow> json list \<Rightarrow> bool" where
  "isRequestedValue disclosed values \<longleftrightarrow> list_ex (\<lambda>v. strict_equal v disclosed) values"

definition value_accepted :: "dcql_claim \<Rightarrow> json list \<Rightarrow> bool" where
  "value_accepted c disclosed \<longleftrightarrow>
     (case dqc_values c of None \<Rightarrow> True | Some requested \<Rightarrow> list_ex (\<lambda>v. isRequestedValue v requested) disclosed)"

definition evaluate_claims :: "dcql_claim list \<Rightarrow> (dcql_claim \<Rightarrow> json list) \<Rightarrow> claim_selection" where
  "evaluate_claims selected disclosedValues =
     \<lparr>csr_missing = map (\<lambda>c. path_text (dqc_path c)) (filter (\<lambda>c. disclosedValues c = []) selected),
      csr_mismatched = map (\<lambda>c. path_text (dqc_path c))
        (filter (\<lambda>c. disclosedValues c \<noteq> [] \<and> \<not> value_accepted c (disclosedValues c)) selected)\<rparr>"

definition evaluateClaimSelection :: "json \<Rightarrow> dcql_claim list \<Rightarrow> claim_selection" where
  "evaluateClaimSelection payload selected =
     evaluate_claims selected (\<lambda>c. selectClaimValues payload (dqc_path c))"

definition mdoc_values :: "(string \<times> json) list \<Rightarrow> dcql_claim \<Rightarrow> json list" where
  "mdoc_values claims c = (case map_of claims (mdocClaimName (dqc_path c)) of Some v \<Rightarrow> [v] | None \<Rightarrow> [])"

definition evaluateMdocClaimSelection :: "(string \<times> json) list \<Rightarrow> dcql_claim list \<Rightarrow> claim_selection" where
  "evaluateMdocClaimSelection claims selected = evaluate_claims selected (mdoc_values claims)"

definition isClaimSelectionSatisfied :: "claim_selection \<Rightarrow> bool" where
  "isClaimSelectionSatisfied r \<longleftrightarrow> csr_missing r = [] \<and> csr_mismatched r = []"

end
