(* ===== verification/Trust_Lists.thy ===== *)
theory Trust_Lists
  imports Js_Values
begin

text \<open>
  Trust lists and verification options (\<open>trust/types.ts\<close>, \<open>trust/revocation-policy.util.ts\<close>,
  \<open>trust/lote-parser.service.ts\<close>, \<open>trust/application/collect-trusted-entities.ts\<close>,
  \<open>trust/trust-store.service.ts\<close>), the failure codes of a verification
  (\<open>verifier/presentations/credential/verification-failure.ts\<close>) and the trust options of a presentation
  (\<open>verifier/presentations/domain/verifier-trust-options.ts\<close>). Fetching and verifying one list, and the
  certificate of a managed list, are parameters.
\<close>

section \<open>References and entities\<close>

record trust_list_ref =
  tlr_trustListId :: "string option"
  tlr_url :: "string option"
  tlr_verifierKey :: "json option"
  tlr_verifierKeyPem :: "string option"
  tlr_verifierX509Der :: "string option"
  tlr_format :: "string option"
  tlr_serviceTypeMap :: "json option"
  tlr_acceptedServiceStatus :: "string list option"

definition external_ref :: "string \<Rightarrow> json option \<Rightarrow> string option \<Rightarrow> string option \<Rightarrow> trust_list_ref" where
  "external_ref url key pem der =
     \<lparr>tlr_trustListId = None, tlr_url = Some url, tlr_verifierKey = key, tlr_verifierKeyPem = pem,
      tlr_verifierX509Der = der, tlr_format = None, tlr_serviceTypeMap = None, tlr_acceptedServiceStatus = None\<rparr>"

definition filled :: "string option \<Rightarrow> bool" where
  "filled v = (case v of None \<Rightarrow> False | Some s \<Rightarrow> js_trim s \<noteq> [])"

definition normalizeTrustListRef :: "trust_list_ref \<Rightarrow> string + trust_list_ref list" where
  "normalizeTrustListRef ref =
     (case tlr_trustListId ref of
        Some i \<Rightarrow>
          (if js_trim i = [] then Inl ''Managed trust-list ID must not be empty''
           else Inr [(external_ref [] None None None)\<lparr>tlr_trustListId := Some (js_trim i)\<rparr>])
      | None \<Rightarrow>
          (let url = js_trim (coalesce (tlr_url ref) [])
           in if url = [] then Inr []
              else if (case tlr_verifierKey ref of Some (JObj _) \<Rightarrow> False | Some (JArr _) \<Rightarrow> False | _ \<Rightarrow> True)
                \<and> \<not> filled (tlr_verifierKeyPem ref) \<and> \<not> filled (tlr_verifierX509Der ref)
              then Inl (''Trust list reference '' @ quoted url
                @ '' must define verifierKey, verifierKeyPem or verifierX509Der'')
              else Inr [external_ref url (tlr_verifierKey ref) (map_option js_trim (tlr_verifierKeyPem ref))
                (map_option js_trim (tlr_verifierX509Der ref))]))"

definition normalizeTrustListRefs :: "trust_list_ref list option \<Rightarrow> string + trust_list_ref list" where
  "normalizeTrustListRefs refs =
     ebind (all_results (map normalizeTrustListRef (coalesce refs []))) (\<lambda>rss. Inr (concat rss))"

definition serviceTypeMatches :: "string \<Rightarrow> string \<Rightarrow> bool" where
  "serviceTypeMatches serviceType acceptedType =
     (if serviceType = acceptedType then True
      else if starts_with acceptedType ''/'' then ends_with serviceType acceptedType
      else if ends_with acceptedType ''/Issuance'' \<or> ends_with acceptedType ''/Revocation'' then False
      else starts_with serviceType (acceptedType @ ''/''))"

definition EaaIssuance :: string where
  "EaaIssuance = ''http://uri.etsi.org/19602/SvcType/EAA/Issuance''"

definition EaaRevocation :: string where
  "EaaRevocation = ''http://uri.etsi.org/19602/SvcType/EAA/Revocation''"

definition PIDIssuance :: string where
  "PIDIssuance = ''http://uri.etsi.org/19602/SvcType/PID/Issuance''"

definition PubEAAIssuance :: string where
  "PubEAAIssuance = ''http://uri.etsi.org/19602/SvcType/PubEAA/Issuance''"

definition WalletSolution :: string where
  "WalletSolution = ''http://uri.etsi.org/19602/SvcType/WalletSolution''"

definition walletSolutionServiceTypes :: "string list" where
  "walletSolutionServiceTypes = [WalletSolution, WalletSolution @ ''/Issuance'', WalletSolution @ ''/Revocation'']"

record trusted_service =
  tsv_type :: string
  tsv_certValue :: string

record trusted_entity =
  ten_entityId :: "string option"
  ten_services :: "trusted_service list"

definition getRevocationCert :: "trusted_entity \<Rightarrow> trusted_service option" where
  "getRevocationCert e = List.find (\<lambda>s. tsv_type s = EaaRevocation) (ten_services e)"


section \<open>Verification options\<close>

datatype federation_mode = Federation_Only | Lote_Only | Hybrid

record federation_anchor =
  fan_entityId :: string
  fan_configurationUri :: string

record federation_source =
  fsr_mode :: "federation_mode option"
  fsr_trustAnchors :: "federation_anchor list"
  fsr_cacheTtlSeconds :: "int option"
  fsr_enforceSigningPolicy :: "bool option"

record trust_list_source =
  tsr_tenantId :: "string option"
  tsr_lotes :: "trust_list_ref list"
  tsr_acceptedServiceTypes :: "string list option"

datatype revocation_mode = Strict_Check | Best_Effort | No_Check

record revocation_policy =
  rvp_enabled :: bool
  rvp_failClosed :: bool

datatype pinned_mode = Pinned_Leaf | Pinned_Path_End

text \<open>\<open>policy.revocation.failClosed\<close> is always set by \<open>revocationModeToPolicy\<close>.\<close>

record verifier_options =
  vop_trustListSource :: "trust_list_source option"
  vop_federationTrustSource :: "federation_source option"
  vop_requireX5c :: bool
  vop_revocation :: "revocation_policy option"
  vop_pinnedCertMode :: "pinned_mode option"
  vop_skewSeconds :: int
  vop_transactionData :: "string list option"
  vop_ts12TransactionData :: "bool option"

definition DEFAULT_REVOCATION_POLICY :: revocation_policy where
  "DEFAULT_REVOCATION_POLICY = \<lparr>rvp_enabled = True, rvp_failClosed = True\<rparr>"

definition revocationModeToPolicy :: "revocation_mode option \<Rightarrow> revocation_policy" where
  "revocationModeToPolicy mode = (case mode of
       Some No_Check \<Rightarrow> \<lparr>rvp_enabled = False, rvp_failClosed = False\<rparr>
     | Some Best_Effort \<Rightarrow> \<lparr>rvp_enabled = True, rvp_failClosed = False\<rparr>
     | _ \<Rightarrow> DEFAULT_REVOCATION_POLICY)"

definition resolveRevocationPolicy :: "verifier_options \<Rightarrow> revocation_policy" where
  "resolveRevocationPolicy o' = coalesce (vop_revocation o') DEFAULT_REVOCATION_POLICY"

definition isStatusListUnavailableError :: "string \<Rightarrow> bool" where
  "isStatusListUnavailableError message =
     (let m = toLowerCase message
      in list_ex (contains_text m) [''status list'', ''statuslist'', ''revocation'']
       \<and> list_ex (contains_text m) [''timed out'', ''timeout'', ''failed to fetch'', ''unavailable'', ''network'',
           ''econn'', ''enotfound'', ''eai_again'', ''canceled'', ''cancelled''])"

definition DEFAULT_VERIFIER_SKEW_SECONDS :: int where
  "DEFAULT_VERIFIER_SKEW_SECONDS = 60"


section \<open>Trust options of a presentation\<close>

datatype trusted_authority =
    Etsi_Tl "trust_list_ref list"
  | Openid_Federation "string list"

fun etsi_values :: "trusted_authority \<Rightarrow> trust_list_ref list option" where
  "etsi_values (Etsi_Tl refs) = Some refs"
| "etsi_values (Openid_Federation _) = None"

fun federation_values :: "trusted_authority \<Rightarrow> string list option" where
  "federation_values (Etsi_Tl _) = None"
| "federation_values (Openid_Federation anchors) = Some anchors"

text \<open>The values of the first authority of a type.\<close>

fun first_of :: "('a \<Rightarrow> 'b option) \<Rightarrow> 'a list \<Rightarrow> 'b option" where
  "first_of f [] = None"
| "first_of f (x # xs) = (case f x of Some y \<Rightarrow> Some y | None \<Rightarrow> first_of f xs)"

definition trustListAuthorities :: "trusted_authority list option \<Rightarrow> trust_list_ref list option" where
  "trustListAuthorities authorities = first_of etsi_values (coalesce authorities [])"

definition federation_anchor_of :: "string \<Rightarrow> federation_anchor" where
  "federation_anchor_of v =
     \<lparr>fan_entityId = v, fan_configurationUri = strip_slash v @ ''/.well-known/openid-federation''\<rparr>"

definition verifierTrustOptions ::
    "trust_list_ref list \<Rightarrow> string option \<Rightarrow> trusted_authority list option \<Rightarrow> revocation_mode option
       \<Rightarrow> int option \<Rightarrow> verifier_options" where
  "verifierTrustOptions trustLists tenantId authorities statusCheckMode skewSeconds =
     (let anchors = coalesce (first_of federation_values (coalesce authorities [])) [];
          federationDecides = anchors \<noteq> [] \<and> trustLists = []
      in \<lparr>vop_trustListSource = Some \<lparr>tsr_tenantId = tenantId, tsr_lotes = trustLists,
            tsr_acceptedServiceTypes = Some [EaaIssuance, PIDIssuance, PubEAAIssuance]\<rparr>,
          vop_federationTrustSource = (if federationDecides
            then Some \<lparr>fsr_mode = Some Federation_Only, fsr_trustAnchors = map federation_anchor_of anchors,
              fsr_cacheTtlSeconds = None, fsr_enforceSigningPolicy = None\<rparr>
            else None),
          vop_requireX5c = True,
          vop_revocation = Some (revocationModeToPolicy statusCheckMode),
          vop_pinnedCertMode = None,
          vop_skewSeconds = coalesce skewSeconds DEFAULT_VERIFIER_SKEW_SECONDS,
          vop_transactionData = None, vop_ts12TransactionData = None\<rparr>)"


section \<open>Failures\<close>

datatype failure_type =
    Signature_Invalid
  | No_Trust_Chain_To_Root
  | Trust_Chain_Not_Trusted
  | Trust_List_Unavailable
  | Certificate_Expired
  | X5c_Missing
  | Verification_Error

definition failure_code :: "failure_type \<Rightarrow> string" where
  "failure_code f = (case f of
       Signature_Invalid \<Rightarrow> ''signature_invalid'' | No_Trust_Chain_To_Root \<Rightarrow> ''no_trust_chain_to_root''
     | Trust_Chain_Not_Trusted \<Rightarrow> ''trust_chain_not_trusted'' | Trust_List_Unavailable \<Rightarrow> ''trust_list_unavailable''
     | Certificate_Expired \<Rightarrow> ''certificate_expired'' | X5c_Missing \<Rightarrow> ''x5c_missing''
     | Verification_Error \<Rightarrow> ''verification_error'')"

datatype chain_error =
    X5c_Required
  | Invalid_X5c
  | Federation_Trust_Failed
  | Chain_Trust_List_Unavailable
  | Chain_Build_Failed
  | Chain_Certificate_Expired
  | No_Trusted_Entity_Match

definition mapChainErrorToFailureType :: "chain_error option \<Rightarrow> failure_type" where
  "mapChainErrorToFailureType e = (case e of
       Some X5c_Required \<Rightarrow> X5c_Missing
     | Some Chain_Build_Failed \<Rightarrow> No_Trust_Chain_To_Root
     | Some No_Trusted_Entity_Match \<Rightarrow> Trust_Chain_Not_Trusted
     | Some Chain_Trust_List_Unavailable \<Rightarrow> Trust_List_Unavailable
     | Some Chain_Certificate_Expired \<Rightarrow> Certificate_Expired
     | _ \<Rightarrow> Verification_Error)"

definition shortVerificationMessage :: "failure_type option \<Rightarrow> string" where
  "shortVerificationMessage f = (case f of
       Some Signature_Invalid \<Rightarrow> ''The credential signature is invalid.''
     | Some No_Trust_Chain_To_Root \<Rightarrow> ''The credential issuer does not chain to a trusted root.''
     | Some Trust_Chain_Not_Trusted \<Rightarrow> ''The credential issuer is not in the trusted list.''
     | Some Trust_List_Unavailable \<Rightarrow>
         ''The trusted list could not be loaded, so the credential could not be validated.''
     | Some Certificate_Expired \<Rightarrow> ''The credential issuer certificate is expired or not yet valid.''
     | Some X5c_Missing \<Rightarrow> ''The credential is missing its issuer certificate chain.''
     | _ \<Rightarrow> ''The credential could not be verified.'')"

text \<open>The code and message; the verbose reason goes to logs only.\<close>

definition verificationFailureDetails :: "failure_type option \<Rightarrow> string \<times> string" where
  "verificationFailureDetails f = (failure_code (coalesce f Verification_Error), shortVerificationMessage f)"


section \<open>Parsing a list of trusted entities\<close>

text \<open>A LoTE document with the members the parser reads.\<close>

record lote_service =
  lsv_type :: "string option"
  lsv_certificates :: "string option list"

record lote_entity =
  len_name :: "string option"
  len_services :: "lote_service list"

record lote_document =
  ldc_nextUpdate :: "string option"
  ldc_entities :: "lote_entity list option"

definition lote_service_certs :: "lote_service \<Rightarrow> trusted_service list" where
  "lote_service_certs s =
     (if \<not> truthy (lsv_type s) then []
      else List.map_filter (\<lambda>c. if truthy c
        then Some \<lparr>tsv_type = the (lsv_type s), tsv_certValue = the c\<rparr> else None) (lsv_certificates s))"

definition parse_lote :: "lote_document \<Rightarrow> string option \<times> trusted_entity list" where
  "parse_lote doc =
     (ldc_nextUpdate doc,
      List.map_filter (\<lambda>e. let services = concat (map lote_service_certs (len_services e))
        in if services \<noteq> [] then Some \<lparr>ten_entityId = len_name e, ten_services = services\<rparr> else None)
        (coalesce (ldc_entities doc) []))"

definition entity_accepted :: "string list option \<Rightarrow> trusted_entity \<Rightarrow> bool" where
  "entity_accepted accepted e =
     (case accepted of None \<Rightarrow> True
      | Some types \<Rightarrow> list_ex (\<lambda>s. list_ex (serviceTypeMatches (tsv_type s)) types) (ten_services e))"

definition filterByServiceTypes :: "trusted_entity list \<Rightarrow> string list \<Rightarrow> trusted_entity list" where
  "filterByServiceTypes entities accepted = filter (entity_accepted (Some accepted)) entities"


section \<open>The trust store\<close>

text \<open>\<open>loadVerified\<close>: the next update and entities of a verified list, or an error.\<close>

type_synonym list_loader = "trust_list_ref \<Rightarrow> string + string option \<times> trusted_entity list"

fun collect_lists ::
    "list_loader \<Rightarrow> string list option \<Rightarrow> trust_list_ref list \<Rightarrow> string option \<Rightarrow> trusted_entity list
       \<Rightarrow> string + string option \<times> trusted_entity list" where
  "collect_lists load accepted [] nextUpdate entities = Inr (nextUpdate, entities)"
| "collect_lists load accepted (ref # refs) nextUpdate entities =
     (case load ref of
        Inl e \<Rightarrow> Inl e
      | Inr (nu, es) \<Rightarrow> collect_lists load accepted refs (coalesce_opt nextUpdate nu)
          (entities @ filter (entity_accepted accepted) es))"

definition collectTrustedEntities :: "list_loader \<Rightarrow> trust_list_source \<Rightarrow> string + string option \<times> trusted_entity list" where
  "collectTrustedEntities load source = collect_lists load (tsr_acceptedServiceTypes source) (tsr_lotes source) None []"

record built_store =
  bst_fetchedAt :: date
  bst_nextUpdate :: "string option"
  bst_entities :: "trusted_entity list"

record trust_settings =
  tst_publicUrl :: string
  tst_internalUrl :: "string option"
  tst_load :: list_loader
  tst_verifierX509Der :: "string \<Rightarrow> string \<Rightarrow> string + string"
  tst_uri :: "string \<Rightarrow> string"

text \<open>A managed list is read under the tenant's own URL with the certificate that signs it now.\<close>

definition resolve_managed :: "trust_settings \<Rightarrow> string option \<Rightarrow> trust_list_ref \<Rightarrow> string + trust_list_ref" where
  "resolve_managed ts tenantId ref =
     (case tlr_trustListId ref of
        None \<Rightarrow> Inr ref
      | Some trustListId \<Rightarrow>
          (let i = js_trim trustListId
           in if \<not> truthy tenantId \<or> i = []
              then Inl ''Managed trust lists require a tenant and a non-empty trustListId''
              else ebind (tst_verifierX509Der ts (the tenantId) i) (\<lambda>der.
                Inr (external_ref (strip_slash (if truthy (tst_internalUrl ts) then the (tst_internalUrl ts)
                       else tst_publicUrl ts) @ ''/issuers/'' @ tst_uri ts (the tenantId) @ ''/trust-list/''
                     @ tst_uri ts i) None None (Some der)))))"

text \<open>The cache key names the tenant, the lists and the accepted types, where no filter and an empty filter
  are the same.\<close>

type_synonym store_key = "string option \<times> (string option \<times> json \<times> string option \<times> string option
  \<times> string option \<times> json \<times> string list option) list \<times> string list"

definition buildCacheKey :: "trust_list_source \<Rightarrow> store_key" where
  "buildCacheKey source =
     (tsr_tenantId source,
      map (\<lambda>r. (tlr_url r, coalesce (tlr_verifierKey r) JNull, tlr_verifierKeyPem r, tlr_verifierX509Der r,
        tlr_format r, coalesce (tlr_serviceTypeMap r) JNull, tlr_acceptedServiceStatus r)) (tsr_lotes source),
      coalesce (tsr_acceptedServiceTypes source) [])"

type_synonym store_cache = "store_key \<Rightarrow> built_store option"

definition getTrustStore ::
    "trust_settings \<Rightarrow> date \<Rightarrow> int \<Rightarrow> trust_list_source \<Rightarrow> store_cache \<Rightarrow> (string + built_store) \<times> store_cache" where
  "getTrustStore ts now cacheTtlMs source0 cache =
     (case all_results (map (resolve_managed ts (tsr_tenantId source0)) (tsr_lotes source0)) of
        Inl e \<Rightarrow> (Inl e, cache)
      | Inr refs \<Rightarrow>
          (let source = source0\<lparr>tsr_lotes := refs\<rparr>; key = buildCacheKey source
           in if (case cache key of None \<Rightarrow> False | Some c \<Rightarrow> now - bst_fetchedAt c < cacheTtlMs)
              then (Inr (the (cache key)), cache)
              else (case collectTrustedEntities (tst_load ts) source of
                      Inl e \<Rightarrow> (Inl e, cache)
                    | Inr (nu, es) \<Rightarrow>
                        (let store = \<lparr>bst_fetchedAt = now, bst_nextUpdate = nu, bst_entities = es\<rparr>
                         in (Inr store, cache(key \<mapsto> store))))))"

text \<open>\<open>getListedEntities\<close>: \<open>stored\<close> is the stored content of a managed list of the tenant.\<close>

definition getListedEntities ::
    "trust_settings \<Rightarrow> (string \<Rightarrow> string \<Rightarrow> string + lote_document option) \<Rightarrow> date \<Rightarrow> trust_list_ref \<Rightarrow> string
       \<Rightarrow> store_cache \<Rightarrow> (string + trusted_entity list) \<times> store_cache" where
  "getListedEntities ts stored now ref tenantId cache =
     (case tlr_trustListId ref of
        None \<Rightarrow>
          (let (r, cache') = getTrustStore ts now (5 * 60 * 1000)
                 \<lparr>tsr_tenantId = Some tenantId, tsr_lotes = [ref], tsr_acceptedServiceTypes = None\<rparr> cache
           in (ebind r (\<lambda>store. Inr (bst_entities store)), cache'))
      | Some i \<Rightarrow>
          (ebind (stored tenantId (js_trim i)) (\<lambda>d. Inr (case d of None \<Rightarrow> [] | Some doc \<Rightarrow> snd (parse_lote doc))), cache))"

end
