(* ===== verification/Federation_Trust.thy ===== *)
theory Federation_Trust
  imports Trust_Lists
begin

text \<open>
  OpenID Federation trust: the bounded search for a chain of \<open>authority_hints\<close> to a trust anchor
  (\<open>trust/application/evaluate-federation-trust-chain.ts\<close>) and its cache
  (\<open>trust/federation-trust.service.ts\<close>). Resolving an entity configuration is a parameter that may give
  another answer each time it is asked: its first argument counts the resolutions. The leaf certificate's
  entity id is a parameter; requests that share one evaluation in flight are not modelled.
\<close>

section \<open>The search\<close>

record entity_configuration =
  ecf_sub :: "string option"
  ecf_authority_hints :: "string list option"

record traversal_limits =
  tlm_maxDepth :: nat
  tlm_maxHintsPerEntity :: nat
  tlm_maxResolutions :: nat

definition DEFAULT_FEDERATION_TRAVERSAL_LIMITS :: traversal_limits where
  "DEFAULT_FEDERATION_TRAVERSAL_LIMITS =
     \<lparr>tlm_maxDepth = 8, tlm_maxHintsPerEntity = 10, tlm_maxResolutions = 32\<rparr>"

datatype chain_reason =
    Chains_To_Anchor
  | Not_Chained
  | Depth_Exceeded
  | Hint_Cycle
  | Resolution_Limit
  | Subject_Mismatch
  | Is_Anchor
  | Disabled_By_Mode
  | No_Anchors
  | No_X5c
  | No_Entity_Id
  | Not_Fetched

type_synonym trust_result = "bool \<times> chain_reason"

definition rejected :: "chain_reason \<Rightarrow> trust_result" where
  "rejected r = (False, r)"

type_synonym resolver = "nat \<Rightarrow> string \<Rightarrow> string + entity_configuration"

text \<open>What the nested function shares: the least depth each entity was explored at, and the number of
  resolutions.\<close>

record search_state =
  sst_explored :: "string \<Rightarrow> nat option"
  sst_resolutions :: nat

definition hints_of :: "traversal_limits \<Rightarrow> entity_configuration \<Rightarrow> string list" where
  "hints_of lim conf = map strip_slash (take (tlm_maxHintsPerEntity lim) (coalesce (ecf_authority_hints conf) []))"

definition subject_matches :: "string \<Rightarrow> entity_configuration \<Rightarrow> bool" where
  "subject_matches current conf \<longleftrightarrow> \<not> truthy (ecf_sub conf) \<or> strip_slash (the (ecf_sub conf)) = current"

text \<open>The loop over the hints: the first trusted one, else the last error, else the last failure.\<close>

fun visit_hints ::
    "(string \<Rightarrow> search_state \<Rightarrow> (string + trust_result) \<times> search_state) \<Rightarrow> string list \<Rightarrow> trust_result
       \<Rightarrow> string option \<Rightarrow> search_state \<Rightarrow> (string + trust_result) \<times> search_state" where
  "visit_hints v [] failure err st = (case err of Some e \<Rightarrow> Inl e | None \<Rightarrow> Inr failure, st)"
| "visit_hints v (hint # hints) failure err st =
     (case v hint st of
        (Inr result, st') \<Rightarrow>
          (if fst result then (Inr result, st') else visit_hints v hints result err st')
      | (Inl e, st') \<Rightarrow> visit_hints v hints failure (Some e) st')"

text \<open>\<open>visit\<close> at the depth \<open>maxDepth + 1 - n\<close>: the recursion ends because \<open>n\<close> hops are left.\<close>

primrec visit ::
    "nat \<Rightarrow> traversal_limits \<Rightarrow> resolver \<Rightarrow> string list \<Rightarrow> string list \<Rightarrow> string \<Rightarrow> search_state
       \<Rightarrow> (string + trust_result) \<times> search_state" where
  "visit 0 lim resolve anchors path current st = (Inr (rejected Depth_Exceeded), st)"
| "visit (Suc n) lim resolve anchors path current st =
     (let depth = tlm_maxDepth lim - n
      in if current \<in> set anchors then (Inr (True, Chains_To_Anchor), st)
         else if current \<in> set path then (Inr (rejected Hint_Cycle), st)
         else if (case sst_explored st current of None \<Rightarrow> False | Some d \<Rightarrow> d \<le> depth)
         then (Inr (rejected Not_Chained), st)
         else let st1 = st\<lparr>sst_explored := (sst_explored st)(current \<mapsto> depth)\<rparr>
              in if tlm_maxResolutions lim \<le> sst_resolutions st1 then (Inr (rejected Resolution_Limit), st1)
                 else let st2 = st1\<lparr>sst_resolutions := Suc (sst_resolutions st1)\<rparr>
                      in (case resolve (sst_resolutions st1) current of
                            Inl e \<Rightarrow> (Inl e, st2)
                          | Inr conf \<Rightarrow>
                              (if \<not> subject_matches current conf then (Inr (rejected Subject_Mismatch), st2)
                               else let hints = hints_of lim conf
                                    in if depth < tlm_maxDepth lim \<and> list_ex (\<lambda>h. h \<in> set anchors) hints
                                       then (Inr (True, Chains_To_Anchor), st2)
                                       else visit_hints
                                              (\<lambda>h. visit n lim resolve anchors (current # path) h)
                                              hints (rejected Not_Chained) None st2)))"

definition evaluateFederationTrustChain ::
    "traversal_limits \<Rightarrow> resolver \<Rightarrow> string \<Rightarrow> string list \<Rightarrow> (string + trust_result) \<times> search_state" where
  "evaluateFederationTrustChain lim resolve entityId trustAnchors =
     visit (Suc (tlm_maxDepth lim)) lim resolve (map strip_slash trustAnchors) [] (strip_slash entityId)
       \<lparr>sst_explored = (\<lambda>_. None), sst_resolutions = 0\<rparr>"


section \<open>The cached evaluation\<close>

definition FEDERATION_TRUST_STALE_TTL_MS :: int where
  "FEDERATION_TRUST_STALE_TTL_MS = 60 * 60 * 1000"

definition FEDERATION_TRUST_NEGATIVE_TTL_MS :: int where
  "FEDERATION_TRUST_NEGATIVE_TTL_MS = 10 * 1000"

definition getMode :: "federation_source option \<Rightarrow> federation_mode" where
  "getMode source = coalesce (case source of None \<Rightarrow> None | Some s \<Rightarrow> fsr_mode s) Hybrid"

definition isEnabled :: "federation_source option \<Rightarrow> bool" where
  "isEnabled source = (case source of None \<Rightarrow> False | Some s \<Rightarrow> fsr_trustAnchors s \<noteq> [])"

definition shouldUseLote :: "federation_source option \<Rightarrow> bool" where
  "shouldUseLote source \<longleftrightarrow> getMode source = Lote_Only \<or> getMode source = Hybrid"

definition shouldUseFederation :: "federation_source option \<Rightarrow> bool" where
  "shouldUseFederation source \<longleftrightarrow> getMode source = Federation_Only \<or> getMode source = Hybrid"

record cached_evaluation =
  cev_value :: trust_result
  cev_fetchedAt :: date
  cev_expiresAt :: date

type_synonym evaluation_key = "string \<times> federation_anchor list"

type_synonym evaluation_cache = "evaluation_key \<Rightarrow> cached_evaluation option"

definition setCache ::
    "date \<Rightarrow> evaluation_key \<Rightarrow> int option \<Rightarrow> trust_result \<Rightarrow> evaluation_cache \<Rightarrow> evaluation_cache" where
  "setCache now key cacheTtlSeconds r cache =
     cache(key \<mapsto> \<lparr>cev_value = r, cev_fetchedAt = now,
       cev_expiresAt = now + max 5 (coalesce cacheTtlSeconds 300) * 1000\<rparr>)"

definition setNegativeCache :: "date \<Rightarrow> evaluation_key \<Rightarrow> trust_result \<Rightarrow> evaluation_cache \<Rightarrow> evaluation_cache" where
  "setNegativeCache now key r cache =
     cache(key \<mapsto> \<lparr>cev_value = r, cev_fetchedAt = now,
       cev_expiresAt = now + FEDERATION_TRUST_NEGATIVE_TTL_MS\<rparr>)"

text \<open>\<open>now\<close> is the time of the request, \<open>later\<close> the time when the search has ended.\<close>

definition evaluateEntityTrust ::
    "traversal_limits \<Rightarrow> resolver \<Rightarrow> date \<Rightarrow> date \<Rightarrow> string \<Rightarrow> federation_source option \<Rightarrow> evaluation_cache
       \<Rightarrow> trust_result \<times> evaluation_cache" where
  "evaluateEntityTrust lim resolve now later entityId source cache =
     (if \<not> shouldUseFederation source then ((True, Disabled_By_Mode), cache)
      else case source of
        None \<Rightarrow> (rejected No_Anchors, cache)
      | Some src \<Rightarrow>
          (if fsr_trustAnchors src = [] then (rejected No_Anchors, cache)
           else let entity = strip_slash entityId; key = (entity, fsr_trustAnchors src);
                    anchorIds = remdups (map (\<lambda>a. strip_slash (fan_entityId a)) (fsr_trustAnchors src))
                in if (case cache key of None \<Rightarrow> False | Some c \<Rightarrow> now < cev_expiresAt c)
                   then (cev_value (the (cache key)), cache)
                   else if entity \<in> set anchorIds
                   then ((True, Is_Anchor), setCache now key (fsr_cacheTtlSeconds src) (True, Is_Anchor) cache)
                   else (case fst (evaluateFederationTrustChain lim resolve entity anchorIds) of
                           Inr r \<Rightarrow> (r, setCache later key (fsr_cacheTtlSeconds src) r cache)
                         | Inl e \<Rightarrow>
                             (if (case cache key of None \<Rightarrow> False
                                  | Some c \<Rightarrow> now - cev_fetchedAt c \<le> FEDERATION_TRUST_STALE_TTL_MS)
                              then (cev_value (the (cache key)), cache)
                              else (rejected Not_Fetched, setNegativeCache later key (rejected Not_Fetched) cache)))))"

definition evaluateCertificateEntityTrust ::
    "(string \<Rightarrow> string option) \<Rightarrow> traversal_limits \<Rightarrow> resolver \<Rightarrow> date \<Rightarrow> date \<Rightarrow> string list
       \<Rightarrow> federation_source option \<Rightarrow> evaluation_cache \<Rightarrow> trust_result \<times> evaluation_cache" where
  "evaluateCertificateEntityTrust leafEntityId lim resolve now later x5c source cache =
     (if \<not> shouldUseFederation source then ((True, Disabled_By_Mode), cache)
      else if \<not> isEnabled source then (rejected No_Anchors, cache)
      else (case x5c of
              [] \<Rightarrow> (rejected No_X5c, cache)
            | leaf # _ \<Rightarrow>
                (if \<not> truthy (leafEntityId leaf) then (rejected No_Entity_Id, cache)
                 else evaluateEntityTrust lim resolve now later (the (leafEntityId leaf)) source cache)))"

definition evaluateAuthorizationServerTrust ::
    "traversal_limits \<Rightarrow> resolver \<Rightarrow> date \<Rightarrow> date \<Rightarrow> string \<Rightarrow> federation_source option \<Rightarrow> evaluation_cache
       \<Rightarrow> trust_result \<times> evaluation_cache" where
  "evaluateAuthorizationServerTrust lim resolve now later issuer source cache =
     (if \<not> shouldUseFederation source then ((True, Disabled_By_Mode), cache)
      else if \<not> isEnabled source then (rejected No_Anchors, cache)
      else evaluateEntityTrust lim resolve now later issuer source cache)"


section \<open>What the search guarantees\<close>

text \<open>A chain of at most \<open>n\<close> hints from an entity to an anchor; every hint was read from a configuration
  that the resolver gave for the entity, and whose subject is the entity.\<close>

inductive chains :: "traversal_limits \<Rightarrow> resolver \<Rightarrow> string list \<Rightarrow> nat \<Rightarrow> string \<Rightarrow> bool"
  for lim resolve anchors where
  anchor: "e \<in> set anchors \<Longrightarrow> chains lim resolve anchors n e"
| hint: "resolve k e = Inr conf \<Longrightarrow> k < tlm_maxResolutions lim \<Longrightarrow> subject_matches e conf
    \<Longrightarrow> h \<in> set (hints_of lim conf) \<Longrightarrow> chains lim resolve anchors n h \<Longrightarrow> chains lim resolve anchors (Suc n) e"

lemma chains_mono: "chains lim resolve anchors n e \<Longrightarrow> n \<le> m \<Longrightarrow> chains lim resolve anchors m e"
proof (induction arbitrary: m rule: chains.induct)
  case (hint k e conf h n)
  then obtain m' where "m = Suc m'" "n \<le> m'" by (cases m) auto
  with hint show ?case by (blast intro: chains.hint)
qed (rule chains.anchor)

lemma visit_hints_trusted:
  assumes "visit_hints v hints failure err st = (Inr (True, r), st')" "\<not> fst failure"
    and "\<And>h st r st'. h \<in> set hints \<Longrightarrow> v h st = (Inr (True, r), st') \<Longrightarrow> P h"
  shows "\<exists>h \<in> set hints. P h"
  using assms
proof (induction v hints failure err st rule: visit_hints.induct)
  case (1 v failure err st)
  then show ?case by (auto split: option.splits)
next
  case (2 v hint hints failure err st)
  obtain x s where v: "v hint st = (x, s)" by fastforce
  show ?case
  proof (cases x)
    case (Inl e)
    have "\<exists>h \<in> set hints. P h"
      by (rule "2.IH"(1) [OF v [symmetric] Inl]) (use "2.prems" v Inl in auto)
    then show ?thesis by simp
  next
    case (Inr result)
    show ?thesis
    proof (cases "fst result")
      case True
      then have "v hint st = (Inr (True, snd result), s)" using v Inr by (cases result) simp
      with "2.prems"(3) show ?thesis by (meson list.set_intros(1))
    next
      case False
      have "\<exists>h \<in> set hints. P h"
        by (rule "2.IH"(2) [OF v [symmetric] Inr False]) (use "2.prems" v Inr False in auto)
      then show ?thesis by simp
    qed
  qed
qed

lemma visit_sound:
  "visit n lim resolve anchors path e st = (Inr (True, r), st') \<Longrightarrow> n \<le> Suc (tlm_maxDepth lim)
     \<Longrightarrow> chains lim resolve anchors (n - 1) e"
proof (induction n arbitrary: path e st r st')
  case 0
  then show ?case by (simp add: rejected_def)
next
  case (Suc n)
  show ?case
  proof (cases "e \<in> set anchors")
    case True
    then show ?thesis by (rule chains.anchor)
  next
    case False
    from Suc.prems False obtain conf where
      conf: "resolve (sst_resolutions st) e = Inr conf" "sst_resolutions st < tlm_maxResolutions lim"
        "subject_matches e conf"
      and run: "tlm_maxDepth lim - n < tlm_maxDepth lim \<and> list_ex (\<lambda>h. h \<in> set anchors) (hints_of lim conf)
        \<or> (\<exists>st2. visit_hints (visit n lim resolve anchors (e # path)) (hints_of lim conf)
              (rejected Not_Chained) None st2 = (Inr (True, r), st'))"
      by (auto simp: Let_def rejected_def split: if_splits sum.splits option.splits)
    have "0 < n \<and> (\<exists>h \<in> set (hints_of lim conf). chains lim resolve anchors (n - 1) h)"
      using run
    proof
      assume "tlm_maxDepth lim - n < tlm_maxDepth lim \<and> list_ex (\<lambda>h. h \<in> set anchors) (hints_of lim conf)"
      then show ?thesis by (auto simp: list_ex_iff intro: chains.anchor)
    next
      assume "\<exists>st2. visit_hints (visit n lim resolve anchors (e # path)) (hints_of lim conf)
              (rejected Not_Chained) None st2 = (Inr (True, r), st')"
      then obtain st2 where v: "visit_hints (visit n lim resolve anchors (e # path)) (hints_of lim conf)
              (rejected Not_Chained) None st2 = (Inr (True, r), st')" by blast
      have "\<exists>h \<in> set (hints_of lim conf). 0 < n \<and> chains lim resolve anchors (n - 1) h"
      proof (rule visit_hints_trusted [OF v])
        fix h s r' s' assume h: "visit n lim resolve anchors (e # path) h s = (Inr (True, r'), s')"
        then have "n \<noteq> 0" by (cases n) (auto simp: rejected_def)
        with Suc.IH [OF h] Suc.prems(2) show "0 < n \<and> chains lim resolve anchors (n - 1) h" by simp
      qed (simp add: rejected_def)
      then show ?thesis by blast
    qed
    then obtain m h where "n = Suc m" "h \<in> set (hints_of lim conf)" "chains lim resolve anchors m h"
      by (auto simp: gr0_conv_Suc)
    with conf show ?thesis by (auto intro: chains.hint)
  qed
qed

text \<open>The number of resolutions only grows, and never beyond the limit.\<close>

lemma visit_hints_resolutions:
  assumes "\<And>h st. h \<in> set hints \<Longrightarrow> sst_resolutions st \<le> k \<Longrightarrow> sst_resolutions (snd (v h st)) \<le> k"
    and "sst_resolutions st \<le> k"
  shows "sst_resolutions (snd (visit_hints v hints failure err st)) \<le> k"
  using assms
proof (induction v hints failure err st rule: visit_hints.induct)
  case (2 v hint hints failure err st)
  obtain x s where v: "v hint st = (x, s)" by fastforce
  have s: "sst_resolutions s \<le> k" using "2.prems"(1) [of hint st] "2.prems"(2) v by simp
  show ?case
  proof (cases x)
    case (Inl e)
    have "sst_resolutions (snd (visit_hints v hints failure (Some e) s)) \<le> k"
      by (rule "2.IH"(1) [OF v [symmetric] Inl]) (use "2.prems" s in auto)
    with v Inl show ?thesis by simp
  next
    case (Inr result)
    have "\<not> fst result \<Longrightarrow> sst_resolutions (snd (visit_hints v hints result err s)) \<le> k"
      by (rule "2.IH"(2) [OF v [symmetric] Inr]) (use "2.prems" s in auto)
    with v Inr s show ?thesis by simp
  qed
qed simp

lemma visit_resolutions:
  "sst_resolutions st \<le> tlm_maxResolutions lim
     \<Longrightarrow> sst_resolutions (snd (visit n lim resolve anchors path e st)) \<le> tlm_maxResolutions lim"
proof (induction n arbitrary: path e st)
  case (Suc n)
  have loop: "sst_resolutions (snd (visit_hints (visit n lim resolve anchors p) hs f er s)) \<le> tlm_maxResolutions lim"
    if "sst_resolutions s \<le> tlm_maxResolutions lim" for p hs f er s
    by (rule visit_hints_resolutions [OF Suc.IH that])
  show ?case using Suc.prems by (auto simp: Let_def split: sum.splits intro!: loop)
qed simp

end
