(* ===== verification/Chain_Validation.thy ===== *)
theory Chain_Validation
  imports Federation_Trust
begin

text \<open>
  Certificate chains of presented credentials: \<open>trust/x509-validation.service.ts\<close> and
  \<open>verifier/presentations/credential/credential-chain-validation.service.ts\<close>, with the provenance of
  \<open>verification-provenance.ts\<close>. Parsing a certificate, building a path, the trust store and the
  federation service are parameters; a certificate is what the code reads of it. The verbose error
  details, which only go to logs, are left out.
\<close>

section \<open>Certificates\<close>

record certificate =
  crt_thumbprint :: string
  crt_subject :: string
  crt_ca :: "bool option"
  crt_notBefore :: date
  crt_notAfter :: date

text \<open>\<open>parseX5c\<close> reads an entry of the presented chain, \<open>parseDer\<close> a value of a trust list. \<open>build\<close>
  gives the path from a leaf through a pool of certificates; \<open>nextUpdate\<close> is \<open>Date.parse\<close>.\<close>

record trust_env =
  tve_parseX5c :: "string \<Rightarrow> string + certificate"
  tve_parseDer :: "string \<Rightarrow> string + certificate"
  tve_build :: "certificate \<Rightarrow> certificate list \<Rightarrow> string + certificate list"
  tve_store :: "trust_list_source \<Rightarrow> string + built_store"
  tve_federation :: "string list \<Rightarrow> federation_source option \<Rightarrow> trust_result"
  tve_nextUpdate :: "string \<Rightarrow> date option"

definition parseX5c :: "trust_env \<Rightarrow> string list \<Rightarrow> string + certificate list" where
  "parseX5c env x5c = all_results (map (tve_parseX5c env) x5c)"

definition parseTrustAnchors :: "trust_env \<Rightarrow> string list \<Rightarrow> certificate list" where
  "parseTrustAnchors env values =
     List.map_filter (\<lambda>v. case tve_parseDer env v of Inl _ \<Rightarrow> None | Inr c \<Rightarrow> Some c) values"

definition buildPath :: "trust_env \<Rightarrow> certificate \<Rightarrow> certificate list \<Rightarrow> certificate list \<Rightarrow> string + certificate list" where
  "buildPath env leaf presented anchors = tve_build env leaf (presented @ anchors)"

definition isCaCert :: "certificate \<Rightarrow> bool" where
  "isCaCert c \<longleftrightarrow> crt_ca c = Some True"

definition isTimeValid :: "certificate \<Rightarrow> date \<Rightarrow> bool" where
  "isTimeValid c now \<longleftrightarrow> crt_notBefore c \<le> now \<and> now \<le> crt_notAfter c"


section \<open>Matching a trusted entity\<close>

datatype match_mode = Match_Ca | Match_Leaf_Pinned | Match_Path_End_Pinned

record matched_entity =
  mte_entity :: trusted_entity
  mte_issuanceCert :: certificate
  mte_matchMode :: match_mode
  mte_revocationCert :: "certificate option"

definition service_type_filter :: "string \<Rightarrow> trusted_service \<Rightarrow> bool" where
  "service_type_filter f s =
     (if starts_with f ''/'' then ends_with (tsv_type s) f else serviceTypeMatches (tsv_type s) f)"

definition match_mode_of :: "certificate \<Rightarrow> certificate \<Rightarrow> pinned_mode \<Rightarrow> certificate \<Rightarrow> match_mode option" where
  "match_mode_of leaf end pinned c =
     (if isCaCert c then (if crt_thumbprint c = crt_thumbprint end then Some Match_Ca else None)
      else if pinned = Pinned_Leaf \<and> crt_thumbprint c = crt_thumbprint leaf then Some Match_Leaf_Pinned
      else if pinned = Pinned_Path_End \<and> crt_thumbprint c = crt_thumbprint end then Some Match_Path_End_Pinned
      else None)"

text \<open>A listed certificate that cannot be parsed makes the search throw.\<close>

fun match_services ::
    "trust_env \<Rightarrow> certificate \<Rightarrow> certificate \<Rightarrow> pinned_mode \<Rightarrow> trusted_entity \<Rightarrow> trusted_service list
       \<Rightarrow> string + matched_entity option" where
  "match_services env leaf end pinned entity [] = Inr None"
| "match_services env leaf end pinned entity (s # ss) =
     ebind (tve_parseDer env (tsv_certValue s)) (\<lambda>c.
     case match_mode_of leaf end pinned c of
       None \<Rightarrow> match_services env leaf end pinned entity ss
     | Some mode \<Rightarrow>
         ebind (case getRevocationCert entity of
                  None \<Rightarrow> Inr None
                | Some r \<Rightarrow> ebind (tve_parseDer env (tsv_certValue r)) (\<lambda>rc. Inr (Some rc))) (\<lambda>rc.
         Inr (Some \<lparr>mte_entity = entity, mte_issuanceCert = c, mte_matchMode = mode, mte_revocationCert = rc\<rparr>)))"

fun match_entities ::
    "trust_env \<Rightarrow> certificate \<Rightarrow> certificate \<Rightarrow> pinned_mode \<Rightarrow> string \<Rightarrow> trusted_entity list
       \<Rightarrow> string + matched_entity option" where
  "match_entities env leaf end pinned f [] = Inr None"
| "match_entities env leaf end pinned f (e # es) =
     ebind (match_services env leaf end pinned e (filter (service_type_filter f) (ten_services e)))
       (\<lambda>m. case m of None \<Rightarrow> match_entities env leaf end pinned f es | Some x \<Rightarrow> Inr (Some x))"

definition pathMatchesTrustedEntities ::
    "trust_env \<Rightarrow> certificate list \<Rightarrow> trusted_entity list \<Rightarrow> pinned_mode \<Rightarrow> string \<Rightarrow> string + matched_entity option" where
  "pathMatchesTrustedEntities env path entities pinned f =
     (case path of
        [] \<Rightarrow> Inl ''Cannot read properties of undefined''
      | leaf # _ \<Rightarrow> match_entities env leaf (last path) pinned f entities)"


section \<open>Validating a chain\<close>

record chain_policy =
  cpo_requireX5c :: bool
  cpo_pinnedCertMode :: pinned_mode
  cpo_serviceTypeFilter :: string
  cpo_federationTrustSource :: "federation_source option"

record chain_result =
  chr_verified :: bool
  chr_matchedEntity :: "matched_entity option"
  chr_error :: "chain_error option"

definition chain_ok :: "matched_entity option \<Rightarrow> chain_result" where
  "chain_ok m = \<lparr>chr_verified = True, chr_matchedEntity = m, chr_error = None\<rparr>"

definition chain_failed :: "chain_error \<Rightarrow> chain_result" where
  "chain_failed e = \<lparr>chr_verified = False, chr_matchedEntity = None, chr_error = Some e\<rparr>"

definition federation_decides :: "bool \<Rightarrow> chain_error \<Rightarrow> chain_result" where
  "federation_decides trusted e = (if trusted then chain_ok None else chain_failed e)"

text \<open>\<^term>\<open>None\<close>: no list is configured; an error: the configured lists are unavailable or stale.\<close>

definition getTrustStoreIfConfigured :: "trust_env \<Rightarrow> date \<Rightarrow> trust_list_source option \<Rightarrow> string + built_store option" where
  "getTrustStoreIfConfigured env now source =
     (case source of
        None \<Rightarrow> Inr None
      | Some src \<Rightarrow>
          (if tsr_lotes src = [] then Inr None
           else (case tve_store env src of
                   Inl e \<Rightarrow> Inl (''Failed to load configured trust store: '' @ e)
                 | Inr store \<Rightarrow>
                     (let nu = (if truthy (bst_nextUpdate store) then tve_nextUpdate env (the (bst_nextUpdate store))
                                else None)
                      in if (case nu of None \<Rightarrow> False | Some t \<Rightarrow> t < now)
                         then Inl (''Configured trust list is stale (NextUpdate in the past: ''
                           @ the (bst_nextUpdate store) @ '')'')
                         else Inr (Some store)))))"

text \<open>Matching the path against a loaded store, steps 5 to 8. \<open>enforced\<close> and \<open>trusted\<close> are the
  federation policy and its result.\<close>

definition validate_against_store ::
    "trust_env \<Rightarrow> date \<Rightarrow> chain_policy \<Rightarrow> bool \<Rightarrow> bool \<Rightarrow> certificate list \<Rightarrow> built_store \<Rightarrow> string + chain_result" where
  "validate_against_store env now policy enforced trusted presented store =
     (let anchors = parseTrustAnchors env (map tsv_certValue (concat (map ten_services (bst_entities store))))
      in case buildPath env (hd presented) presented anchors of
           Inl _ \<Rightarrow> Inr (if enforced \<and> trusted then chain_ok None else chain_failed Chain_Build_Failed)
         | Inr path \<Rightarrow>
             (if \<not> list_all (\<lambda>c. isTimeValid c now) path then Inr (chain_failed Chain_Certificate_Expired)
              else ebind (pathMatchesTrustedEntities env path (bst_entities store) (cpo_pinnedCertMode policy)
                            (cpo_serviceTypeFilter policy)) (\<lambda>m.
                Inr (case m of
                       None \<Rightarrow> if enforced \<and> trusted then chain_ok None else chain_failed No_Trusted_Entity_Match
                     | Some _ \<Rightarrow> if enforced \<and> \<not> trusted then chain_failed Federation_Trust_Failed else chain_ok m))))"

definition validateChain ::
    "trust_env \<Rightarrow> date \<Rightarrow> string list \<Rightarrow> trust_list_source option \<Rightarrow> chain_policy \<Rightarrow> string + chain_result" where
  "validateChain env now x5c source policy =
     (if x5c = [] then Inr (if cpo_requireX5c policy then chain_failed X5c_Required else chain_ok None)
      else
        let fsource = cpo_federationTrustSource policy;
            enforced = (getMode fsource = Federation_Only
              \<or> (getMode fsource = Hybrid \<and> (case fsource of None \<Rightarrow> False
                   | Some s \<Rightarrow> fsr_enforceSigningPolicy s = Some True)))
        in case parseX5c env x5c of
             Inl _ \<Rightarrow> Inr (chain_failed Invalid_X5c)
           | Inr presented \<Rightarrow>
               (let trusted = (shouldUseFederation fsource \<and> fst (tve_federation env x5c fsource))
                in if \<not> shouldUseLote fsource then Inr (federation_decides trusted Federation_Trust_Failed)
                   else (case getTrustStoreIfConfigured env now source of
                           Inl _ \<Rightarrow> Inr (if enforced then federation_decides trusted Chain_Trust_List_Unavailable
                                         else chain_failed Chain_Trust_List_Unavailable)
                         | Inr None \<Rightarrow>
                             Inr (if enforced \<or> (shouldUseFederation fsource \<and> isEnabled fsource)
                                  then federation_decides trusted Federation_Trust_Failed else chain_ok None)
                         | Inr (Some store) \<Rightarrow>
                             validate_against_store env now policy enforced trusted presented store)))"


section \<open>The signer of a status list\<close>

definition verifyStatusListSignature ::
    "trust_env \<Rightarrow> date \<Rightarrow> string list option \<Rightarrow> matched_entity option \<Rightarrow> trust_list_source option \<Rightarrow> chain_policy
       \<Rightarrow> string + bool" where
  "verifyStatusListSignature env now x5c matched source policy =
     (case matched of
        None \<Rightarrow> Inr True
      | Some m \<Rightarrow>
          (if mte_revocationCert m = None then Inr True
           else (case x5c of
                   None \<Rightarrow> Inr False
                 | Some [] \<Rightarrow> Inr False
                 | Some (c # cs) \<Rightarrow>
                     ebind (validateChain env now (c # cs) source (policy\<lparr>cpo_serviceTypeFilter := ''/Revocation''\<rparr>)) (\<lambda>r.
                     Inr (chr_verified r \<and>
                       (case chr_matchedEntity r of None \<Rightarrow> True
                        | Some s \<Rightarrow> ten_entityId (mte_entity s) = ten_entityId (mte_entity m)))))))"


section \<open>Certificates for the mdoc library\<close>

definition trusted_certificates :: "trust_env \<Rightarrow> date \<Rightarrow> string \<Rightarrow> trust_list_source option \<Rightarrow> certificate list" where
  "trusted_certificates env now f source =
     (case getTrustStoreIfConfigured env now source of
        Inr (Some store) \<Rightarrow>
          List.map_filter (\<lambda>s. case tve_parseX5c env (tsv_certValue s) of Inl _ \<Rightarrow> None | Inr c \<Rightarrow> Some c)
            (filter (\<lambda>s. ends_with (tsv_type s) f) (concat (map ten_services (bst_entities store))))
      | _ \<Rightarrow> [])"

definition getTrustedCertificateBuffers :: "trust_env \<Rightarrow> date \<Rightarrow> trust_list_source option \<Rightarrow> certificate list" where
  "getTrustedCertificateBuffers env now source = trusted_certificates env now ''/Issuance'' source"

definition getTrustedStatusCertificateBuffers :: "trust_env \<Rightarrow> date \<Rightarrow> trust_list_source option \<Rightarrow> certificate list" where
  "getTrustedStatusCertificateBuffers env now source = trusted_certificates env now ''/Revocation'' source"

record provenance =
  prv_matchedIssuer :: string
  prv_issuanceThumbprint :: string
  prv_matchMode :: match_mode
  prv_revocationThumbprint :: "string option"

definition toProvenance :: "matched_entity option \<Rightarrow> provenance option" where
  "toProvenance matched = map_option (\<lambda>m.
     \<lparr>prv_matchedIssuer = coalesce (ten_entityId (mte_entity m)) (crt_subject (mte_issuanceCert m)),
      prv_issuanceThumbprint = crt_thumbprint (mte_issuanceCert m), prv_matchMode = mte_matchMode m,
      prv_revocationThumbprint = map_option crt_thumbprint (mte_revocationCert m)\<rparr>) matched"


section \<open>Lemmas\<close>

lemma match_services_found:
  "match_services env leaf end pinned e ss = Inr (Some m) \<Longrightarrow> mte_entity m = e
     \<and> (\<exists>s \<in> set ss. tve_parseDer env (tsv_certValue s) = Inr (mte_issuanceCert m))
     \<and> match_mode_of leaf end pinned (mte_issuanceCert m) = Some (mte_matchMode m)"
  by (induction ss) (auto simp: returns split: option.splits)

lemma match_entities_found:
  "match_entities env leaf end pinned f es = Inr (Some m) \<Longrightarrow>
     mte_entity m \<in> set es
     \<and> (\<exists>s \<in> set (ten_services (mte_entity m)). service_type_filter f s
          \<and> tve_parseDer env (tsv_certValue s) = Inr (mte_issuanceCert m))
     \<and> match_mode_of leaf end pinned (mte_issuanceCert m) = Some (mte_matchMode m)"
  by (induction es) (auto simp: returns dest!: match_services_found split: option.splits, blast)

lemma match_mode_thumbprint:
  "match_mode_of leaf end pinned c = Some mode \<Longrightarrow>
     crt_thumbprint c = (if mode = Match_Leaf_Pinned then crt_thumbprint leaf else crt_thumbprint end)
     \<and> (mode = Match_Ca \<longleftrightarrow> isCaCert c)"
  by (auto simp: match_mode_of_def split: if_splits)

lemma store_if_configured:
  "getTrustStoreIfConfigured env now source = Inr (Some store) \<Longrightarrow>
     \<exists>src. source = Some src \<and> tsr_lotes src \<noteq> [] \<and> tve_store env src = Inr store"
  by (auto simp: getTrustStoreIfConfigured_def Let_def split: option.splits sum.splits if_splits)

text \<open>A verified chain that federation did not decide ends in, or is signed by, a listed certificate.\<close>

lemma validated_against_store:
  assumes "validate_against_store env now policy enforced trusted presented store = Inr r" "chr_verified r"
    and "\<not> (enforced \<and> trusted)"
  shows "\<exists>path m. buildPath env (hd presented) presented (parseTrustAnchors env
        (map tsv_certValue (concat (map ten_services (bst_entities store))))) = Inr path
    \<and> path \<noteq> [] \<and> list_all (\<lambda>c. isTimeValid c now) path
    \<and> chr_matchedEntity r = Some m
    \<and> match_entities env (hd path) (last path) (cpo_pinnedCertMode policy) (cpo_serviceTypeFilter policy)
        (bst_entities store) = Inr (Some m)"
  using assms
  by (auto simp: validate_against_store_def Let_def chain_failed_def chain_ok_def pathMatchesTrustedEntities_def returns
      split: sum.splits if_splits option.splits list.splits)

end
