(* ===== verification/Verifier_Types.thy ===== *)
theory Verifier_Types
  imports Dcql_Policy Chain_Validation
begin

text \<open>
  What the credential verifiers share (\<open>verifier/presentations/domain/credential-verifier-format.ts\<close>):
  the values of the request that bind a response, the context of one verification, its result, and the
  errors the verification of a response throws (\<open>application/verify-presentation-response.ts\<close>,
  \<open>sdjwtvcverifier.service.ts\<close>). The verbose reason of a failure, which goes to logs and audit entries
  only, is left out.
\<close>

section \<open>The binding of a response to its request\<close>

record signed_request =
  srq_nonce :: "string option"
  srq_client_id :: "string option"
  srq_response_uri :: "string option"
  srq_response_mode :: "string option"
  srq_expected_origins :: "string list option"
  srq_client_metadata :: "json option"

record oid4vp_binding =
  vbd_sessionId :: string
  vbd_useDcApi :: bool
  vbd_sessionNonce :: "string option"
  vbd_sessionClientId :: "string option"
  vbd_sessionResponseUri :: "string option"
  vbd_request :: "signed_request option"

text \<open>A session transcript of the mdoc library is kept as its bytes.\<close>

datatype presentation_binding = Openid4vp oid4vp_binding | Iso_18013_7 string


section \<open>Contexts and results\<close>

record verification_context =
  vcx_credentialId :: string
  vcx_binding :: presentation_binding
  vcx_options :: verifier_options
  vcx_claims :: "dcql_claim list option"
  vcx_claimSets :: "dcql_claim list list option"

record credential_failure =
  vfl_type :: "failure_type option"
  vfl_message :: string

record verified_credential =
  vcr_claims :: "(string \<times> json) list"
  vcr_docType :: "string option"
  vcr_provenance :: "provenance option"
  vcr_missingClaims :: "string list"
  vcr_mismatchedClaims :: "string list"
  vcr_claimSetSatisfied :: "bool option"

datatype credential_verification =
    Verified verified_credential
  | Not_Verified credential_failure "string option"

text \<open>\<open>[...new Set(xs)]\<close>: the first occurrence of every value.\<close>

fun distinct_first :: "'a list \<Rightarrow> 'a list" where
  "distinct_first [] = []"
| "distinct_first (x # xs) = x # filter (\<lambda>y. y \<noteq> x) (distinct_first xs)"

lemma set_distinct_first [simp]: "set (distinct_first xs) = set xs"
  by (induction xs) auto

lemma distinct_first_empty [simp]: "distinct_first xs = [] \<longleftrightarrow> xs = []"
  by (cases xs) simp_all


section \<open>Errors\<close>

text \<open>\<^term>\<open>Plain\<close> is an error of the runtime or of a library.\<close>

datatype verification_error =
    Plain string
  | Client_Error string
  | Conflict_Error string
  | Sd_Jwt_Failure failure_type
  | Incomplete_Presentation incomplete_presentation
  | Unknown_Credential string
  | Multiple_Presentations string nat
  | Credential_Failed string credential_failure "string option" "string option"
  | Unknown_Claim_Set claim_set_error
  | Unsupported_Format string
  | Invalid_Authorities string

fun error_message :: "verification_error \<Rightarrow> string" where
  "error_message (Plain m) = m"
| "error_message (Client_Error m) = m"
| "error_message (Conflict_Error m) = m"
| "error_message (Sd_Jwt_Failure f) = shortVerificationMessage (Some f)"
| "error_message (Incomplete_Presentation v) = ipr_message v"
| "error_message (Unknown_Credential i) = i @ '' not found in the presentation config''"
| "error_message (Multiple_Presentations i n) =
     i @ '' allows a single presentation, but '' @ show_nat n @ '' were presented''"
| "error_message (Credential_Failed i f format docType) = vfl_message f"
| "error_message (Unknown_Claim_Set e) = claim_set_error_message e"
| "error_message (Unsupported_Format f) = ''Unsupported credential verifier format '' @ quoted f"
| "error_message (Invalid_Authorities m) = m"

end
