(* ===== verification/Sdjwt_Verifier.thy ===== *)
theory Sdjwt_Verifier
  imports Verifier_Types
begin

text \<open>
  SD-JWT VC credentials: \<open>verifier/presentations/credential/sdjwtvcverifier/sdjwtvcverifier.service.ts\<close>,
  \<open>verifier/resolver/resolver.service.ts\<close> and the format
  \<open>verifier/presentations/adapters/sd-jwt-credential-verifier-format.ts\<close>. The library \<open>@sd-jwt/sd-jwt-vc\<close>
  is a parameter that is given the callbacks of the service; \<^term>\<open>library_checks\<close> states what its
  documentation promises of a result. Decoding a part of a JWT, reading the key of a certificate, the
  verifier of a key, hashing and the URL parser are parameters too.
\<close>

section \<open>Keys and signatures\<close>

text \<open>\<open>json64\<close> decodes base64url and parses the JSON text; \<open>certKey\<close> parses a certificate and, apart,
  exports its key; \<open>getVerifier\<close> is the ES256 verifier of a key.\<close>

record crypto_env =
  sve_json64 :: "string \<Rightarrow> string + json"
  sve_certKey :: "string \<Rightarrow> string + (string + json)"
  sve_getVerifier :: "json option \<Rightarrow> string + (string \<Rightarrow> string \<Rightarrow> string + bool)"
  sve_hash :: "string \<Rightarrow> string \<Rightarrow> string"
  sve_fetchStatusListJwt :: "string \<Rightarrow> string + string"
  sve_parseUrl :: "string \<Rightarrow> (string \<times> string) option"
  sve_trust :: trust_env

text \<open>An entry of \<open>x5c\<close> that is not a string is refused (byte arrays are left out).\<close>

definition x5c_entry :: "json \<Rightarrow> string + string" where
  "x5c_entry v = (case v of JStr s \<Rightarrow> Inr s | _ \<Rightarrow> Inl ''The first argument must be of type string'')"

definition resolvePublicKey :: "crypto_env \<Rightarrow> json \<Rightarrow> string + json" where
  "resolvePublicKey env header =
     (let x5c = jget ''x5c'' (Some header)
      in if \<not> jtruthy x5c then Inl ''No x5c header found in the JWT''
         else (case x5c of
                 Some (JArr certs) \<Rightarrow>
                   ebind (all_results (map (\<lambda>c. ebind (x5c_entry c) (sve_certKey env)) certs)) (\<lambda>keys.
                   case keys of [] \<Rightarrow> Inl ''Cannot read properties of undefined'' | key # _ \<Rightarrow> key)
               | _ \<Rightarrow> Inl ''header.x5c.map is not a function''))"

text \<open>\<open>getCryptoFromJwk\<close>: the only supported keys are those of the curve P-256.\<close>

definition getCryptoFromJwk :: "json option \<Rightarrow> string + unit" where
  "getCryptoFromJwk jwk =
     (if jget ''kty'' jwk = Some (JStr ''EC'') \<and> jget ''crv'' jwk = Some (JStr ''P-256'') then Inr ()
      else if (case jwk of Some (JObj _) \<Rightarrow> True | Some (JArr _) \<Rightarrow> True | _ \<Rightarrow> False)
      then Inl ''Unable to determine crypto implementation from JWK: unsupported key type or curve''
      else Inl ''Invalid JWK provided'')"

definition key_verifier :: "crypto_env \<Rightarrow> json option \<Rightarrow> string + (string \<Rightarrow> string \<Rightarrow> string + bool)" where
  "key_verifier env jwk = ebind (getCryptoFromJwk jwk) (\<lambda>_. sve_getVerifier env jwk)"

definition jwt_header :: "crypto_env \<Rightarrow> string \<Rightarrow> string + json" where
  "jwt_header env data = sve_json64 env (hd (split_on CHR ''.'' data))"

definition header_x5c :: "json \<Rightarrow> string list" where
  "header_x5c header = List.map_filter (\<lambda>c. case c of JStr s \<Rightarrow> Some s | _ \<Rightarrow> None)
     (arr_of (jget ''x5c'' (Some header)))"


section \<open>The checks of the service\<close>

definition issuance_policy :: "verifier_options \<Rightarrow> chain_policy" where
  "issuance_policy options =
     \<lparr>cpo_requireX5c = vop_requireX5c options, cpo_pinnedCertMode = coalesce (vop_pinnedCertMode options) Pinned_Leaf,
      cpo_serviceTypeFilter = ''/Issuance'', cpo_federationTrustSource = vop_federationTrustSource options\<rparr>"

text \<open>\<open>verifyCredential\<close>: why the credential is refused, or the trusted entity that matched.\<close>

definition verifyCredential ::
    "crypto_env \<Rightarrow> date \<Rightarrow> string \<Rightarrow> string \<Rightarrow> verifier_options \<Rightarrow> failure_type + matched_entity option" where
  "verifyCredential env now data signature options =
     (case ebind (jwt_header env data) (\<lambda>header. ebind (resolvePublicKey env header) (\<lambda>key.
             ebind (key_verifier env (Some key)) (\<lambda>check. Inr (header, check)))) of
        Inl _ \<Rightarrow> Inl Verification_Error
      | Inr (header, check) \<Rightarrow>
          (if check data signature \<noteq> Inr True then Inl Signature_Invalid
           else (case validateChain (sve_trust env) now (header_x5c header) (vop_trustListSource options)
                        (issuance_policy options) of
                   Inl _ \<Rightarrow> Inl Verification_Error
                 | Inr r \<Rightarrow> if chr_verified r then Inr (chr_matchedEntity r)
                           else Inl (mapChainErrorToFailureType (chr_error r)))))"

text \<open>\<open>verifyStatusList\<close>: only a verifier that throws refuses the signature, a result of false does not.\<close>

definition verifyStatusList ::
    "crypto_env \<Rightarrow> date \<Rightarrow> string \<Rightarrow> string \<Rightarrow> verifier_options \<Rightarrow> matched_entity option \<Rightarrow> bool" where
  "verifyStatusList env now data signature options matched =
     (case ebind (jwt_header env data) (\<lambda>header. ebind (resolvePublicKey env header) (\<lambda>key.
             ebind (key_verifier env (Some key)) (\<lambda>check. Inr (header, check)))) of
        Inl _ \<Rightarrow> False
      | Inr (header, check) \<Rightarrow>
          (case check data signature of
             Inl _ \<Rightarrow> False
           | Inr _ \<Rightarrow>
               (case verifyStatusListSignature (sve_trust env) now (Some (header_x5c header)) matched
                       (vop_trustListSource options) ((issuance_policy options)\<lparr>cpo_requireX5c := False\<rparr>) of
                  Inl _ \<Rightarrow> False
                | Inr ok \<Rightarrow> ok)))"

definition MAX_FUTURE_IAT_SKEW_SECONDS :: int where
  "MAX_FUTURE_IAT_SKEW_SECONDS = 60"

definition MAX_PAST_IAT_AGE_SECONDS :: int where
  "MAX_PAST_IAT_AGE_SECONDS = 300"

definition second_part :: "string \<Rightarrow> verification_error + string" where
  "second_part data = (case split_on CHR ''.'' data of
     _ # p # _ \<Rightarrow> if p = [] then Inl (Plain ''Invalid key binding JWT payload'') else Inr p
   | _ \<Rightarrow> Inl (Plain ''Invalid key binding JWT payload''))"

definition issued_at :: "json \<Rightarrow> verification_error + int" where
  "issued_at kb = (case jget ''iat'' (Some kb) of Some (JNum n) \<Rightarrow> Inr n
     | _ \<Rightarrow> Inl (Client_Error ''Invalid key binding JWT iat''))"

definition verifyKeyBindingJwt ::
    "crypto_env \<Rightarrow> date \<Rightarrow> string \<Rightarrow> string \<Rightarrow> json \<Rightarrow> string option \<Rightarrow> verification_error + bool" where
  "verifyKeyBindingJwt env now data signature payload expectedAudience =
     ebind (require (jtruthy (jget ''cnf'' (Some payload))) (Plain ''No cnf found in the payload'')) (\<lambda>_.
     ebind (second_part data) (\<lambda>part.
     ebind (map_failure Plain (sve_json64 env part)) (\<lambda>kb.
     ebind (require (kb \<noteq> JNull) (Plain ''Cannot read properties of null'')) (\<lambda>_.
     ebind (issued_at kb) (\<lambda>iat.
     let nowInSeconds = now div 1000
     in ebind (require (iat \<le> nowInSeconds + MAX_FUTURE_IAT_SKEW_SECONDS
                \<and> nowInSeconds - iat \<le> MAX_PAST_IAT_AGE_SECONDS) (Client_Error ''Invalid key binding JWT iat'')) (\<lambda>_.
        ebind (require (\<not> truthy expectedAudience \<or> jget ''aud'' (Some kb) = map_option JStr expectedAudience)
                (Client_Error ''Invalid key binding JWT audience'')) (\<lambda>_.
        ebind (map_failure Plain (key_verifier env (jget ''jwk'' (jget ''cnf'' (Some payload))))) (\<lambda>check.
        map_failure Plain (check data signature)))))))))"


section \<open>The library\<close>

text \<open>The state of the closures: the entity of the verified credential and the captured failure. A
  status callback pair fetches and verifies the status list.\<close>

record sdjwt_state =
  dst_matchedEntity :: "matched_entity option"
  dst_failure :: "failure_type option"

record sdjwt_callbacks =
  cbk_verifier :: "string \<Rightarrow> string \<Rightarrow> sdjwt_state \<Rightarrow> bool \<times> sdjwt_state"
  cbk_kbVerifier :: "string \<Rightarrow> string \<Rightarrow> json \<Rightarrow> verification_error + bool"
  cbk_status :: "((string \<Rightarrow> string + string) \<times> (string \<Rightarrow> string \<Rightarrow> sdjwt_state \<Rightarrow> bool)) option"

record library_options =
  lop_requiredClaimKeys :: "string list"
  lop_keyBindingNonce :: "string option"
  lop_skewSeconds :: int

record verification_result =
  vrs_payload :: json
  vrs_kb :: "json option"

type_synonym sdjwt_library =
  "sdjwt_callbacks \<Rightarrow> string \<Rightarrow> library_options \<Rightarrow> sdjwt_state \<Rightarrow> (verification_error + verification_result) \<times> sdjwt_state"

definition service_callbacks ::
    "crypto_env \<Rightarrow> date \<Rightarrow> verifier_options \<Rightarrow> string option \<Rightarrow> bool \<Rightarrow> sdjwt_callbacks" where
  "service_callbacks env now options audience enableStatusCheck =
     \<lparr>cbk_verifier = (\<lambda>data signature st.
        (case verifyCredential env now data signature options of
           Inl f \<Rightarrow> (False, \<lparr>dst_matchedEntity = None, dst_failure = Some f\<rparr>)
         | Inr m \<Rightarrow> (True, st\<lparr>dst_matchedEntity := m\<rparr>))),
      cbk_kbVerifier = (\<lambda>data signature payload. verifyKeyBindingJwt env now data signature payload audience),
      cbk_status = (if enableStatusCheck
        then Some (sve_fetchStatusListJwt env,
          \<lambda>data signature st. verifyStatusList env now data signature options (dst_matchedEntity st))
        else None)\<rparr>"


section \<open>Status, transaction data and TS12\<close>

definition checkStatusMechanism :: "json \<Rightarrow> bool \<Rightarrow> verification_error + unit" where
  "checkStatusMechanism payload failClosed =
     (let status = jget ''status'' (Some payload)
      in if status = None \<or> jget ''status_list'' status \<noteq> None then Inr ()
         else require (\<not> failClosed) (Client_Error (''The credential'' @ [CHR 0x27] @ ''s status claim contains no ''
           @ ''supported status mechanism, so its status could not be checked'')))"

definition node_algorithm :: "string \<Rightarrow> string option" where
  "node_algorithm a = map_of [(''sha-256'', ''sha256''), (''sha-384'', ''sha384''), (''sha-512'', ''sha512'')] a"

fun check_hashes :: "(string \<Rightarrow> string) \<Rightarrow> nat \<Rightarrow> string list \<Rightarrow> json list \<Rightarrow> verification_error + unit" where
  "check_hashes h i (t # ts) (r # rs) =
     (if r \<noteq> JStr (h t) then Inl (Client_Error (''Transaction data hash mismatch at index '' @ show_nat i))
      else check_hashes h (Suc i) ts rs)"
| "check_hashes h i ts rs = Inr ()"

definition validateTransactionDataHashes ::
    "crypto_env \<Rightarrow> json option \<Rightarrow> string list \<Rightarrow> verification_error + unit" where
  "validateTransactionDataHashes env kb transactionData =
     (if \<not> jtruthy kb then Inl (Client_Error ''Transaction data was provided but KB-JWT is missing'')
      else (case jget ''transaction_data_hashes'' kb of
              Some (JArr received) \<Rightarrow>
                (if length received \<noteq> length transactionData
                 then Inl (Client_Error (''Transaction data hash count mismatch: expected ''
                   @ show_nat (length transactionData) @ '', received '' @ show_nat (length received)))
                 else let hashAlg = (case jget ''transaction_data_hashes_alg'' kb of
                          None \<Rightarrow> ''sha-256'' | Some JNull \<Rightarrow> ''sha-256'' | Some v \<Rightarrow> js_text v)
                      in (case node_algorithm hashAlg of
                            None \<Rightarrow> Inl (Client_Error (''Unsupported transaction_data_hashes_alg: '' @ hashAlg))
                          | Some a \<Rightarrow> check_hashes (sve_hash env a) 0 transactionData received))
            | _ \<Rightarrow> Inl (Client_Error
                ''Transaction data was provided but KB-JWT does not contain transaction_data_hashes'')))"

definition sca_categories :: "json list \<Rightarrow> string list" where
  "sca_categories amr = distinct_first (filter (\<lambda>k. k \<in> set [''knowledge'', ''possession'', ''inherence''])
     (concat (map (\<lambda>e. map fst (obj_of (Some e))) amr)))"

definition validateTs12KeyBinding :: "json option \<Rightarrow> string option \<Rightarrow> verification_error + unit" where
  "validateTs12KeyBinding kb expectedResponseMode =
     ebind (require (truthy (jstr (jget ''jti'' kb))) (Client_Error ''TS12 KB-JWT requires a non-empty jti'')) (\<lambda>_.
     ebind (require (jget ''response_mode'' kb = map_option JStr expectedResponseMode)
             (Client_Error ''TS12 KB-JWT response_mode does not match the request'')) (\<lambda>_.
     ebind (require (jget ''transaction_data_hashes_alg'' kb = Some (JStr ''sha-256''))
             (Client_Error ''TS12 KB-JWT requires transaction_data_hashes_alg sha-256'')) (\<lambda>_.
     ebind (require (is_arr (jget ''amr'' kb)) (Client_Error ''TS12 KB-JWT requires an amr array'')) (\<lambda>_.
     require (2 \<le> length (sca_categories (arr_of (jget ''amr'' kb))))
       (Client_Error ''TS12 KB-JWT amr requires at least two distinct SCA factor categories'')))))"

section \<open>Verifying a credential\<close>

definition verifyWithStatusMode ::
    "crypto_env \<Rightarrow> sdjwt_library \<Rightarrow> date \<Rightarrow> string \<Rightarrow> verifier_options \<Rightarrow> library_options \<Rightarrow> string option
       \<Rightarrow> bool \<Rightarrow> failure_type option \<Rightarrow> (verification_error + verification_result) \<times> failure_type option" where
  "verifyWithStatusMode env lib now cred options lopts audience enableStatusCheck failure =
     (let (r, st) = lib (service_callbacks env now options audience enableStatusCheck) cred lopts
            \<lparr>dst_matchedEntity = None, dst_failure = failure\<rparr>
      in (r, dst_failure st))"

definition library_result ::
    "crypto_env \<Rightarrow> sdjwt_library \<Rightarrow> date \<Rightarrow> string \<Rightarrow> verifier_options \<Rightarrow> library_options \<Rightarrow> string option
       \<Rightarrow> verification_error + verification_result" where
  "library_result env lib now cred options lopts audience =
     (let policy = resolveRevocationPolicy options;
          run = verifyWithStatusMode env lib now cred options lopts audience;
          (r, failure) =
            (if \<not> rvp_enabled policy then run False None
             else if rvp_failClosed policy then run True None
             else (case run True None of
                     (Inl e, f) \<Rightarrow> if isStatusListUnavailableError (error_message e) then run False f else (Inl e, f)
                   | ok \<Rightarrow> ok))
      in map_failure (\<lambda>e. case failure of Some f \<Rightarrow> Sd_Jwt_Failure f | None \<Rightarrow> e) r)"

definition sdjwt_verify ::
    "crypto_env \<Rightarrow> sdjwt_library \<Rightarrow> date \<Rightarrow> string \<Rightarrow> verifier_options \<Rightarrow> library_options \<Rightarrow> string option
       \<Rightarrow> string option \<Rightarrow> verification_error + verification_result" where
  "sdjwt_verify env lib now cred options lopts audience responseMode =
     (let policy = resolveRevocationPolicy options
      in ebind (library_result env lib now cred options lopts audience) (\<lambda>result.
         ebind (if rvp_enabled policy then checkStatusMechanism (vrs_payload result) (rvp_failClosed policy)
                else Inr ()) (\<lambda>_.
         ebind (case vop_transactionData options of
                  Some (t # ts) \<Rightarrow> validateTransactionDataHashes env (vrs_kb result) (t # ts)
                | _ \<Rightarrow> Inr ()) (\<lambda>_.
         ebind (if vop_ts12TransactionData options = Some True
                then validateTs12KeyBinding (vrs_kb result) responseMode else Inr ()) (\<lambda>_.
         Inr result)))))"


section \<open>The format adapter\<close>

definition normalizeDcApiOrigin :: "crypto_env \<Rightarrow> string option \<Rightarrow> string option" where
  "normalizeDcApiOrigin env origin =
     (let trimmed = js_trim (coalesce origin [])
      in if trimmed = [] then None
         else let withoutPrefix = (if starts_with trimmed ''origin:'' then drop (length ''origin:'') trimmed else trimmed);
                  withProtocol = (if starts_with (toLowerCase withoutPrefix) ''http://''
                      \<or> starts_with (toLowerCase withoutPrefix) ''https://''
                    then withoutPrefix else ''http://'' @ withoutPrefix)
              in (case sve_parseUrl env withProtocol of
                    None \<Rightarrow> None
                  | Some (protocol, parsed) \<Rightarrow>
                      if protocol \<noteq> ''https:'' \<and> protocol \<noteq> ''http:'' then None else Some parsed))"

definition keyBindingAudience :: "crypto_env \<Rightarrow> oid4vp_binding \<Rightarrow> string option" where
  "keyBindingAudience env binding =
     (let defaultAudience = coalesce_opt (case vbd_request binding of None \<Rightarrow> None | Some r \<Rightarrow> srq_client_id r)
            (vbd_sessionClientId binding)
      in if \<not> vbd_useDcApi binding then defaultAudience
         else let expectedOrigin = (case vbd_request binding of None \<Rightarrow> None
                  | Some r \<Rightarrow> (case srq_expected_origins r of Some (x # _) \<Rightarrow> Some x | _ \<Rightarrow> None));
                  normalizedOrigin = normalizeDcApiOrigin env expectedOrigin
              in if truthy normalizedOrigin then Some (''origin:'' @ the normalizedOrigin) else defaultAudience)"

definition sdjwt_context_options :: "verification_context \<Rightarrow> oid4vp_binding \<Rightarrow> library_options" where
  "sdjwt_context_options context binding =
     \<lparr>lop_requiredClaimKeys = (if vcx_claimSets context \<noteq> None then []
        else sdJwtRequiredClaimKeys (vcx_claims context)),
      lop_keyBindingNonce = vbd_sessionNonce binding,
      lop_skewSeconds = vop_skewSeconds (vcx_options context)\<rparr>"

definition sdjwt_claim_result :: "json \<Rightarrow> verification_context \<Rightarrow> verified_credential" where
  "sdjwt_claim_result payload context =
     (let selections = coalesce (vcx_claimSets context) [coalesce (vcx_claims context) []];
          results = map (evaluateClaimSelection payload) selections;
          satisfied = list_ex isClaimSelectionSatisfied results
      in \<lparr>vcr_claims = jdel ''status'' (jdel ''cnf'' (obj_of (Some payload))),
          vcr_docType = None, vcr_provenance = None,
          vcr_missingClaims = (if vcx_claimSets context \<noteq> None then [] else csr_missing (hd results)),
          vcr_mismatchedClaims = (if satisfied then [] else distinct_first (concat (map csr_mismatched results))),
          vcr_claimSetSatisfied = (if vcx_claimSets context \<noteq> None then Some satisfied else None)\<rparr>)"

definition sdjwt_format_verify ::
    "crypto_env \<Rightarrow> sdjwt_library \<Rightarrow> date \<Rightarrow> string \<Rightarrow> verification_context
       \<Rightarrow> verification_error + credential_verification" where
  "sdjwt_format_verify env lib now credential context =
     (case vcx_binding context of
        Iso_18013_7 _ \<Rightarrow> Inl (Plain (''SD-JWT VC cannot be verified for protocol '' @ quoted ''iso-18013-7''))
      | Openid4vp binding \<Rightarrow>
          (case sdjwt_verify env lib now credential (vcx_options context) (sdjwt_context_options context binding)
                  (keyBindingAudience env binding)
                  (case vbd_request binding of None \<Rightarrow> None | Some r \<Rightarrow> srq_response_mode r) of
             Inl (Sd_Jwt_Failure f) \<Rightarrow>
               Inr (Not_Verified \<lparr>vfl_type = Some f,
                 vfl_message = ''SD-JWT VC verification failed for credential \"'' @ vcx_credentialId context
                   @ ''\": '' @ shortVerificationMessage (Some f)\<rparr> None)
           | Inl e \<Rightarrow> Inl e
           | Inr result \<Rightarrow> Inr (Verified (sdjwt_claim_result (vrs_payload result) context))))"


section \<open>What the library promises\<close>

text \<open>A credential the library accepts has a signature the verifier accepted and discloses the required
  keys. With a nonce it carries a key binding JWT over that nonce, which the key binding verifier accepted
  for the payload. With status callbacks and a status list reference in the payload, the fetched list was
  verified after the credential. \<open>disclosed\<close> are the claim keys of a credential.\<close>

definition library_checks :: "(string \<Rightarrow> string list) \<Rightarrow> crypto_env \<Rightarrow> sdjwt_library \<Rightarrow> bool" where
  "library_checks disclosed env lib \<longleftrightarrow>
     (\<forall>cbs cred o' st result st'. lib cbs cred o' st = (Inr result, st') \<longrightarrow>
        (\<exists>data signature st1. cbk_verifier cbs data signature st = (True, st1)
           \<and> (\<forall>fetch check. cbk_status cbs = Some (fetch, check)
                \<and> jget ''status_list'' (jget ''status'' (Some (vrs_payload result))) \<noteq> None \<longrightarrow>
                (\<exists>sdata ssignature. check sdata ssignature st1)))
        \<and> set (lop_requiredClaimKeys o') \<subseteq> set (disclosed cred)
        \<and> (\<forall>nonce. lop_keyBindingNonce o' = Some nonce \<and> nonce \<noteq> [] \<longrightarrow>
             (\<exists>data signature kb. cbk_kbVerifier cbs data signature (vrs_payload result) = Inr True
                \<and> sve_json64 env (split_on CHR ''.'' data ! 1) = Inr kb
                \<and> vrs_kb result = Some kb \<and> jget ''nonce'' (Some kb) = Some (JStr nonce))))"


section \<open>Lemmas\<close>

lemma verifyCredential_accepts:
  assumes "verifyCredential env now data signature options = Inr m"
  shows "\<exists>header key check r. jwt_header env data = Inr header \<and> resolvePublicKey env header = Inr key
    \<and> key_verifier env (Some key) = Inr check \<and> check data signature = Inr True
    \<and> validateChain (sve_trust env) now (header_x5c header) (vop_trustListSource options)
        (issuance_policy options) = Inr r \<and> chr_verified r \<and> m = chr_matchedEntity r"
  using assms
  by (auto simp: verifyCredential_def ebind_def split: sum.splits if_splits)

lemma second_part_returns [returns]:
  "second_part data = Inr p \<longleftrightarrow> p \<noteq> [] \<and> (\<exists>h ps. split_on CHR ''.'' data = h # p # ps)"
  by (auto simp: second_part_def split: list.splits)

lemma issued_at_returns [returns]: "issued_at kb = Inr n \<longleftrightarrow> jget ''iat'' (Some kb) = Some (JNum n)"
  by (auto simp: issued_at_def split: option.splits json.splits)

lemma verifyKeyBindingJwt_accepts:
  assumes "verifyKeyBindingJwt env now data signature payload audience = Inr True"
  shows "\<exists>kb iat check. sve_json64 env (split_on CHR ''.'' data ! 1) = Inr kb
    \<and> jget ''iat'' (Some kb) = Some (JNum iat)
    \<and> iat \<le> now div 1000 + 60 \<and> now div 1000 - iat \<le> 300
    \<and> (truthy audience \<longrightarrow> jget ''aud'' (Some kb) = map_option JStr audience)
    \<and> key_verifier env (jget ''jwk'' (jget ''cnf'' (Some payload))) = Inr check \<and> check data signature = Inr True"
  using assms unfolding verifyKeyBindingJwt_def Let_def returns MAX_FUTURE_IAT_SKEW_SECONDS_def MAX_PAST_IAT_AGE_SECONDS_def
  by fastforce

lemma check_hashes_returns:
  "length ts = length rs \<Longrightarrow> check_hashes h i ts rs = Inr u \<longleftrightarrow> rs = map (\<lambda>t. JStr (h t)) ts"
  by (induction h i ts rs rule: check_hashes.induct) auto

end
