(* ===== verification/Mdoc_Verifier.thy ===== *)
theory Mdoc_Verifier
  imports Verifier_Types
begin

text \<open>
  mdoc credentials: \<open>verifier/presentations/credential/mdocverifier/mdocverifier.service.ts\<close> and the format
  \<open>verifier/presentations/adapters/mdoc-credential-verifier-format.ts\<close>. The library \<open>@owf/mdoc\<close> (decoding
  and verifying a device response) and hashing are parameters. Certificates of an \<open>x5chain\<close> are base64
  texts. Logged details are left out.
\<close>

section \<open>Documents, requests and transcripts\<close>

record mdoc_document =
  mdd_docType :: string
  mdd_namespaces :: "(string \<times> (string \<times> json) list option) list"
  mdd_x5chain :: "string list option"

text \<open>The transcript values of classic OID4VP, OID4VP over the DC API, and ISO 18013-7.\<close>

record oid4vp_handover =
  ohv_nonce :: "string option"
  ohv_clientId :: "string option"
  ohv_responseUri :: "string option"
  ohv_responseMode :: string
  ohv_jwkThumbprint :: "string option"

record dc_api_handover =
  dhv_nonce :: "string option"
  dhv_origin :: string
  dhv_jwkThumbprint :: "string option"

datatype mdoc_session_data =
    Session_Oid4vp oid4vp_handover
  | Session_Dc_Api dc_api_handover
  | Session_Iso_18013 string

text \<open>A device request: the document type and the requested elements of each namespace.\<close>

record device_request =
  drq_docType :: string
  drq_namespaces :: "(string \<times> string list) list"

text \<open>A certificate of a trust list, or one of the presented chain.\<close>

datatype mdoc_anchor = Listed_Anchor certificate | Presented_Anchor string

record mdoc_trusted =
  mtr_issuance :: "mdoc_anchor list"
  mtr_status :: "mdoc_anchor list option"

text \<open>\<open>verifyDeviceResponse\<close> takes the request, the response, the transcript, the trusted certificates and
  whether status validation is disabled; with its result it reports whether a revocation list could not
  be fetched.\<close>

record mdoc_env =
  mde_decode :: "string \<Rightarrow> string + mdoc_document list option"
  mde_transcript :: "mdoc_session_data \<Rightarrow> string + string"
  mde_verifyDeviceResponse :: "device_request \<Rightarrow> string \<Rightarrow> string \<Rightarrow> mdoc_trusted list \<Rightarrow> bool \<Rightarrow> (string + unit) \<times> bool"
  mde_sha256Json :: "json \<Rightarrow> string"
  mde_trust :: trust_env

record mdoc_result =
  mdr_verified :: bool
  mdr_claims :: "(string \<times> json) list"
  mdr_docType :: "string option"
  mdr_failureType :: "failure_type option"
  mdr_provenance :: "provenance option"


section \<open>Claims and the device request\<close>

definition assign_all :: "(string \<times> json) list \<Rightarrow> (string \<times> json) list \<Rightarrow> (string \<times> json) list" where
  "assign_all target source = foldl (\<lambda>t (k, v). jset k v t) target source"

definition claims_by_namespace :: "mdoc_document \<Rightarrow> (string \<times> (string \<times> json) list) list" where
  "claims_by_namespace d = List.map_filter (\<lambda>(ns, cs). map_option (Pair ns) cs) (mdd_namespaces d)"

text \<open>All namespaces share one object of claims.\<close>

definition mdoc_claims :: "mdoc_document \<Rightarrow> (string \<times> json) list" where
  "mdoc_claims d = foldl (\<lambda>claims (ns, cs). assign_all claims cs) [] (claims_by_namespace d)"

definition add_element :: "string \<Rightarrow> string \<Rightarrow> (string \<times> string list) list \<Rightarrow> (string \<times> string list) list" where
  "add_element ns c nss =
     (case map_of nss ns of
        None \<Rightarrow> nss @ [(ns, [c])]
      | Some cs \<Rightarrow> map (\<lambda>(n, ds). (n, if n = ns \<and> c \<notin> set ds then ds @ [c] else ds)) nss)"

definition requested_namespaces :: "string \<Rightarrow> segment list list \<Rightarrow> (string \<times> string list) list" where
  "requested_namespaces docType paths =
     foldl (\<lambda>nss path. (case path of
         [] \<Rightarrow> nss
       | [c] \<Rightarrow> add_element docType (property_key c) nss
       | ns # c # rest \<Rightarrow> add_element (property_key ns) (path_text (c # rest)) nss)) [] paths"

definition buildDeviceRequest ::
    "string \<Rightarrow> segment list list option \<Rightarrow> (string \<times> (string \<times> json) list) list \<Rightarrow> device_request" where
  "buildDeviceRequest docType requestedClaimPaths claimsByNamespace =
     (let requested = requested_namespaces docType (coalesce requestedClaimPaths [])
      in \<lparr>drq_docType = docType,
          drq_namespaces = (if requested \<noteq> [] then requested
            else List.map_filter (\<lambda>(ns, cs). if cs = [] then None else Some (ns, map fst cs)) claimsByNamespace)\<rparr>)"


section \<open>Trust\<close>

text \<open>Without listed certificates the presented chain itself is handed to the library; its trust is decided
  by the chain validation that follows.\<close>

definition buildTrustedCertificates ::
    "certificate list \<Rightarrow> certificate list \<Rightarrow> string list option \<Rightarrow> bool \<Rightarrow> mdoc_trusted list" where
  "buildTrustedCertificates anchors statusAnchors issuerX5Chain attachStatus =
     (let issuance = (if anchors \<noteq> [] then map Listed_Anchor anchors
            else map Presented_Anchor (coalesce issuerX5Chain []));
          status = (if statusAnchors \<noteq> [] then map Listed_Anchor statusAnchors else issuance)
      in if issuance = [] then []
         else [\<lparr>mtr_issuance = issuance,
               mtr_status = (if attachStatus \<and> status \<noteq> [] then Some status else None)\<rparr>])"

definition mdoc_chain_policy :: "verifier_options \<Rightarrow> chain_policy" where
  "mdoc_chain_policy options =
     \<lparr>cpo_requireX5c = vop_requireX5c options, cpo_pinnedCertMode = coalesce (vop_pinnedCertMode options) Pinned_Leaf,
      cpo_serviceTypeFilter = ''/Issuance'', cpo_federationTrustSource = vop_federationTrustSource options\<rparr>"

definition validateIssuerCertificateChain ::
    "mdoc_env \<Rightarrow> date \<Rightarrow> mdoc_document \<Rightarrow> verifier_options \<Rightarrow> string + chain_result" where
  "validateIssuerCertificateChain env now d options =
     (case mdd_x5chain d of
        Some (c # cs) \<Rightarrow>
          validateChain (mde_trust env) now (c # cs) (vop_trustListSource options) (mdoc_chain_policy options)
      | _ \<Rightarrow> Inr (if vop_requireX5c options then chain_failed X5c_Required else chain_ok None))"


section \<open>Failures\<close>

text \<open>The pattern \<open>first\s*second\<close>, for a second word that does not start with a space.\<close>

definition words_in :: "string \<Rightarrow> string \<Rightarrow> string \<Rightarrow> bool" where
  "words_in first second s \<longleftrightarrow>
     list_ex (\<lambda>i. starts_with (drop i s) first
       \<and> starts_with (dropWhile is_js_space (drop (i + length first) s)) second) [0..<length s]"

definition classifyVerificationError :: "string \<Rightarrow> failure_type" where
  "classifyVerificationError e =
     (let message = toLowerCase e
      in if contains_text message ''signature'' then Signature_Invalid
         else if contains_text message ''no trusted certificate'' \<or> words_in ''trust'' ''chain'' message
           \<or> words_in ''trusted'' ''root'' message \<or> words_in ''trusted'' ''entity'' message
         then Trust_Chain_Not_Trusted
         else if contains_text message ''status list'' \<or> contains_text message ''trust list''
         then Trust_List_Unavailable
         else Verification_Error)"

definition first_document :: "mdoc_env \<Rightarrow> string \<Rightarrow> mdoc_document option" where
  "first_document env vp = (case mde_decode env vp of Inr (Some (d # _)) \<Rightarrow> Some d | _ \<Rightarrow> None)"

definition handleVerificationError :: "mdoc_env \<Rightarrow> date \<Rightarrow> string \<Rightarrow> string \<Rightarrow> verifier_options \<Rightarrow> mdoc_result" where
  "handleVerificationError env now vp e options =
     (let docType = (case first_document env vp of None \<Rightarrow> None
            | Some d \<Rightarrow> if mdd_docType d = [] \<or> mdd_docType d = ''unknown'' then None else Some (mdd_docType d));
          failure = classifyVerificationError e;
          probed = (if failure \<noteq> Signature_Invalid then failure
            else (case first_document env vp of
                    None \<Rightarrow> failure
                  | Some d \<Rightarrow> (case validateIssuerCertificateChain env now d options of
                      Inl _ \<Rightarrow> failure
                    | Inr r \<Rightarrow> if chr_verified r then failure else mapChainErrorToFailureType (chr_error r))))
      in \<lparr>mdr_verified = False, mdr_claims = [], mdr_docType = docType, mdr_failureType = Some probed,
          mdr_provenance = None\<rparr>)"


section \<open>Verifying a device response\<close>

definition device_response_accepted ::
    "mdoc_env \<Rightarrow> date \<Rightarrow> string \<Rightarrow> mdoc_document \<Rightarrow> mdoc_session_data \<Rightarrow> verifier_options \<Rightarrow> segment list list option
       \<Rightarrow> string + unit" where
  "device_response_accepted env now vp d sessionData options requestedClaimPaths =
     (let policy = resolveRevocationPolicy options;
          request = buildDeviceRequest (mdd_docType d) requestedClaimPaths (claims_by_namespace d);
          anchors = getTrustedCertificateBuffers (mde_trust env) now (vop_trustListSource options);
          statusAnchors = getTrustedStatusCertificateBuffers (mde_trust env) now (vop_trustListSource options);
          certs = buildTrustedCertificates anchors statusAnchors (mdd_x5chain d)
      in ebind (case sessionData of Session_Iso_18013 t \<Rightarrow> Inr t | _ \<Rightarrow> mde_transcript env sessionData) (\<lambda>transcript.
         (case mde_verifyDeviceResponse env request vp transcript (certs True) (\<not> rvp_enabled policy) of
            (Inr _, _) \<Rightarrow> Inr ()
          | (Inl e, unavailable) \<Rightarrow>
              (if \<not> rvp_enabled policy \<or> rvp_failClosed policy \<or> \<not> unavailable then Inl e
               else fst (mde_verifyDeviceResponse env request vp transcript (certs False) True)))))"

definition mdoc_verify ::
    "mdoc_env \<Rightarrow> date \<Rightarrow> string \<Rightarrow> mdoc_session_data \<Rightarrow> verifier_options \<Rightarrow> segment list list option \<Rightarrow> mdoc_result" where
  "mdoc_verify env now vp sessionData options requestedClaimPaths =
     (case ebind (mde_decode env vp) (\<lambda>documents. case documents of
               Some (d # _) \<Rightarrow> Inr d | _ \<Rightarrow> Inl ''mDOC document not found in device response'') of
        Inl e \<Rightarrow> handleVerificationError env now vp e options
      | Inr d \<Rightarrow>
          (case ebind (device_response_accepted env now vp d sessionData options requestedClaimPaths)
                  (\<lambda>_. validateIssuerCertificateChain env now d options) of
             Inl e \<Rightarrow> handleVerificationError env now vp e options
           | Inr r \<Rightarrow>
               (if chr_verified r
                then \<lparr>mdr_verified = True, mdr_claims = mdoc_claims d, mdr_docType = Some (mdd_docType d),
                      mdr_failureType = None, mdr_provenance = toProvenance (chr_matchedEntity r)\<rparr>
                else \<lparr>mdr_verified = False, mdr_claims = mdoc_claims d, mdr_docType = Some (mdd_docType d),
                      mdr_failureType = Some (mapChainErrorToFailureType (chr_error r)),
                      mdr_provenance = None\<rparr>)))"


section \<open>The format adapter\<close>

definition REASON_BY_FAILURE_TYPE :: "failure_type \<Rightarrow> string" where
  "REASON_BY_FAILURE_TYPE f = (case f of
       Signature_Invalid \<Rightarrow> ''mDOC signature is invalid''
     | No_Trust_Chain_To_Root \<Rightarrow> ''no trust chain to a trusted root could be built''
     | Trust_Chain_Not_Trusted \<Rightarrow> ''certificate chain does not match any trusted entity''
     | Trust_List_Unavailable \<Rightarrow> ''the configured trust list could not be loaded''
     | Certificate_Expired \<Rightarrow> ''the issuer certificate is expired or not yet valid''
     | X5c_Missing \<Rightarrow> ''credential does not include an x5c chain but it is required''
     | Verification_Error \<Rightarrow> ''mDOC verification failed'')"

definition mdoc_failed :: "string \<Rightarrow> failure_type option \<Rightarrow> string option \<Rightarrow> credential_verification" where
  "mdoc_failed credentialId failureType docType =
     Not_Verified \<lparr>vfl_type = failureType,
       vfl_message = ''mDOC verification failed for credential \"'' @ credentialId @ ''\": ''
         @ REASON_BY_FAILURE_TYPE (coalesce failureType Verification_Error)\<rparr> docType"

text \<open>The first key for encryption, else the first; \<^term>\<open>Inl ()\<close> when the search meets \<open>null\<close>.\<close>

fun first_enc :: "json list \<Rightarrow> unit + json option" where
  "first_enc [] = Inr None"
| "first_enc (k # ks) = (if k = JNull then Inl ()
     else if jget ''use'' (Some k) = Some (JStr ''enc'') then Inr (Some k) else first_enc ks)"

definition canonical_jwk :: "json \<Rightarrow> json option" where
  "canonical_jwk k =
     (let part = (\<lambda>n. case jget n (Some k) of None \<Rightarrow> [] | Some v \<Rightarrow> [(n, v)])
      in if jget ''kty'' (Some k) = Some (JStr ''EC'')
         then Some (JObj (part ''crv'' @ part ''kty'' @ part ''x'' @ part ''y''))
         else if jget ''kty'' (Some k) = Some (JStr ''OKP'') then Some (JObj (part ''crv'' @ part ''kty'' @ part ''x''))
         else if jget ''kty'' (Some k) = Some (JStr ''RSA'') then Some (JObj (part ''e'' @ part ''kty'' @ part ''n''))
         else None)"

definition responseEncryptionJwkThumbprint :: "mdoc_env \<Rightarrow> signed_request \<Rightarrow> string option" where
  "responseEncryptionJwkThumbprint env request =
     (case arr_of (jget ''keys'' (jget ''jwks'' (srq_client_metadata request))) of
        [] \<Rightarrow> None
      | k # ks \<Rightarrow>
          (case first_enc (k # ks) of
             Inl _ \<Rightarrow> None
           | Inr e \<Rightarrow> map_option (mde_sha256Json env) (canonical_jwk (coalesce e k))))"

definition mdoc_session_data_of :: "mdoc_env \<Rightarrow> presentation_binding \<Rightarrow> mdoc_session_data" where
  "mdoc_session_data_of env b =
     (case b of
        Iso_18013_7 transcript \<Rightarrow> Session_Iso_18013 transcript
      | Openid4vp binding \<Rightarrow>
          (let request = vbd_request binding;
               field = (\<lambda>f. case request of None \<Rightarrow> None | Some r \<Rightarrow> f r);
               nonce = coalesce_opt (field srq_nonce) (vbd_sessionNonce binding);
               thumbprint = (case request of None \<Rightarrow> None | Some r \<Rightarrow> responseEncryptionJwkThumbprint env r)
           in if vbd_useDcApi binding
              then Session_Dc_Api \<lparr>dhv_nonce = nonce,
                dhv_origin = (case request of None \<Rightarrow> []
                  | Some r \<Rightarrow> (case srq_expected_origins r of Some (x # _) \<Rightarrow> x | _ \<Rightarrow> [])),
                dhv_jwkThumbprint = thumbprint\<rparr>
              else Session_Oid4vp \<lparr>ohv_nonce = nonce,
                ohv_clientId = coalesce_opt (field srq_client_id) (vbd_sessionClientId binding),
                ohv_responseUri = coalesce_opt (field srq_response_uri) (vbd_sessionResponseUri binding),
                ohv_responseMode = coalesce (field srq_response_mode) ''direct_post.jwt'',
                ohv_jwkThumbprint = thumbprint\<rparr>))"

record claim_set_search =
  css_lastFailure :: "(failure_type option \<times> string option) option"
  css_lastVerified :: "mdoc_result option"
  css_mismatched :: "string list"

text \<open>\<open>verifyClaimSets\<close>: \<open>run\<close> verifies the response against the elements of one option. The service
  catches its own errors, so the handler around the call has nothing to catch.\<close>

fun try_claim_sets ::
    "(dcql_claim list \<Rightarrow> mdoc_result) \<Rightarrow> dcql_claim list list \<Rightarrow> claim_set_search \<Rightarrow> mdoc_result + claim_set_search" where
  "try_claim_sets run [] st = Inr st"
| "try_claim_sets run (cs # css) st =
     (let r = run cs; check = evaluateMdocClaimSelection (mdr_claims r) cs
      in if \<not> mdr_verified r
         then try_claim_sets run css (st\<lparr>css_lastFailure := Some (mdr_failureType r, mdr_docType r)\<rparr>)
         else if isClaimSelectionSatisfied check then Inl r
         else try_claim_sets run css (st\<lparr>css_lastVerified := Some r,
                css_mismatched := distinct_first (css_mismatched st @ csr_mismatched check)\<rparr>))"

definition verifyClaimSets ::
    "mdoc_env \<Rightarrow> date \<Rightarrow> string \<Rightarrow> verification_context \<Rightarrow> mdoc_session_data \<Rightarrow> dcql_claim list list
       \<Rightarrow> credential_verification" where
  "verifyClaimSets env now credential context sessionData claimSets =
     (case try_claim_sets (\<lambda>cs. mdoc_verify env now credential sessionData (vcx_options context)
              (Some (map dqc_path cs))) claimSets
             \<lparr>css_lastFailure = None, css_lastVerified = None, css_mismatched = []\<rparr> of
        Inl r \<Rightarrow> Verified \<lparr>vcr_claims = mdr_claims r, vcr_docType = mdr_docType r, vcr_provenance = mdr_provenance r,
          vcr_missingClaims = [], vcr_mismatchedClaims = [], vcr_claimSetSatisfied = Some True\<rparr>
      | Inr st \<Rightarrow>
          (case css_lastFailure st of
             Some (f, docType) \<Rightarrow> mdoc_failed (vcx_credentialId context) f docType
           | None \<Rightarrow> Verified \<lparr>
               vcr_claims = (case css_lastVerified st of None \<Rightarrow> [] | Some r \<Rightarrow> mdr_claims r),
               vcr_docType = (case css_lastVerified st of None \<Rightarrow> None | Some r \<Rightarrow> mdr_docType r),
               vcr_provenance = (case css_lastVerified st of None \<Rightarrow> None | Some r \<Rightarrow> mdr_provenance r),
               vcr_missingClaims = [], vcr_mismatchedClaims = css_mismatched st,
               vcr_claimSetSatisfied = Some False\<rparr>))"

definition mdoc_format_verify ::
    "mdoc_env \<Rightarrow> date \<Rightarrow> string \<Rightarrow> verification_context \<Rightarrow> credential_verification" where
  "mdoc_format_verify env now credential context =
     (let sessionData = mdoc_session_data_of env (vcx_binding context)
      in case vcx_claimSets context of
           Some css \<Rightarrow> verifyClaimSets env now credential context sessionData css
         | None \<Rightarrow>
             (let r = mdoc_verify env now credential sessionData (vcx_options context)
                    (map_option (map dqc_path) (vcx_claims context));
                  check = evaluateMdocClaimSelection (mdr_claims r) (coalesce (vcx_claims context) [])
              in if \<not> mdr_verified r
                 then mdoc_failed (vcx_credentialId context) (mdr_failureType r) (mdr_docType r)
                 else Verified \<lparr>vcr_claims = mdr_claims r, vcr_docType = mdr_docType r,
                   vcr_provenance = mdr_provenance r, vcr_missingClaims = csr_missing check,
                   vcr_mismatchedClaims = csr_mismatched check, vcr_claimSetSatisfied = None\<rparr>))"

end
