(* ===== verification/Presentation_Verification.thy ===== *)
theory Presentation_Verification
  imports Sdjwt_Verifier Mdoc_Verifier Wallet_Flows
begin

text \<open>
  Verifying the response of a wallet: parsing (\<open>presentations/domain/auth-response.ts\<close>,
  \<open>oid4vp/application/parse-authorization-response.ts\<close>), the format registry
  (\<open>application/credential-verifier-format-registry.ts\<close>), the trust lists of a credential query
  (\<open>presentations/trusted-authorities.service.ts\<close>) and the verification of every presented credential
  (\<open>application/verify-presentation-response.ts\<close>), all under \<open>verifier/\<close>.
\<close>

section \<open>The authorization response\<close>

record auth_response =
  arp_vp_token :: "(string \<times> string list) list"
  arp_state :: "string option"
  arp_iat :: "int option"
  arp_exp :: "int option"

definition is_presentation_list :: "json \<Rightarrow> bool" where
  "is_presentation_list v = (case v of
     JArr xs \<Rightarrow> xs \<noteq> [] \<and> list_all (\<lambda>x. case x of JStr _ \<Rightarrow> True | _ \<Rightarrow> False) xs | _ \<Rightarrow> False)"

definition strings_of :: "json \<Rightarrow> string list" where
  "strings_of v = List.map_filter (\<lambda>x. case x of JStr s \<Rightarrow> Some s | _ \<Rightarrow> None) (arr_of (Some v))"

definition is_string :: "json \<Rightarrow> bool" where
  "is_string v = (case v of JStr _ \<Rightarrow> True | _ \<Rightarrow> False)"

definition is_number :: "json \<Rightarrow> bool" where
  "is_number v = (case v of JNum _ \<Rightarrow> True | _ \<Rightarrow> False)"

definition optional_member :: "(json \<Rightarrow> bool) \<Rightarrow> json option \<Rightarrow> bool" where
  "optional_member P v = (case v of None \<Rightarrow> True | Some x \<Rightarrow> P x)"

text \<open>\<open>AuthResponseSchema\<close>: a strict object.\<close>

definition AuthResponseSchema :: "json \<Rightarrow> bool" where
  "AuthResponseSchema v =
     (case v of
        JObj kvs \<Rightarrow>
          list_all (\<lambda>(k, _). k \<in> set [''vp_token'', ''state'', ''iat'', ''exp'']) kvs
          \<and> (case map_of kvs ''vp_token'' of
               Some (JObj ps) \<Rightarrow> list_all (\<lambda>(_, p). is_presentation_list p) ps | _ \<Rightarrow> False)
          \<and> optional_member is_string (map_of kvs ''state'')
          \<and> optional_member is_number (map_of kvs ''iat'')
          \<and> optional_member is_number (map_of kvs ''exp'')
      | _ \<Rightarrow> False)"

definition number_of :: "json option \<Rightarrow> int option" where
  "number_of v = (case v of Some (JNum n) \<Rightarrow> Some n | _ \<Rightarrow> None)"

text \<open>\<open>ParseAuthorizationResponse.execute\<close>; the issues of the schema library are not modelled.\<close>

definition parse_authorization_response :: "json \<Rightarrow> string + auth_response" where
  "parse_authorization_response decrypted =
     (if AuthResponseSchema decrypted
      then Inr \<lparr>arp_vp_token = map (\<lambda>(k, p). (k, strings_of p)) (obj_of (jget ''vp_token'' (Some decrypted))),
        arp_state = jstr (jget ''state'' (Some decrypted)),
        arp_iat = number_of (jget ''iat'' (Some decrypted)),
        arp_exp = number_of (jget ''exp'' (Some decrypted))\<rparr>
      else Inl ''Invalid authorization response'')"

definition validateState :: "auth_response \<Rightarrow> string \<Rightarrow> string + unit" where
  "validateState response expectedState =
     require (\<not> truthy (arp_state response) \<or> arp_state response = Some expectedState)
       ''State mismatch: response state does not match expected value''"


section \<open>The presentation query\<close>

record query_credential = dcql_credential +
  qcr_trusted_authorities :: "trusted_authority list option"
  qcr_format :: "string option"

record presentation_query =
  pqy_tenantId :: string
  pqy_statusCheckMode :: "revocation_mode option"
  pqy_skewSeconds :: "int option"
  pqy_credentials :: "query_credential list"
  pqy_credential_sets :: "dcql_set list option"


section \<open>Trust lists of a query\<close>

text \<open>\<open>verifierX509Der\<close> gives the certificate of a managed list of the tenant, \<open>uri\<close> is
  \<open>encodeURIComponent\<close>.\<close>

record verification_env =
  vne_publicUrl :: string
  vne_verifierX509Der :: "string \<Rightarrow> string \<Rightarrow> string + string"
  vne_uri :: "string \<Rightarrow> string"
  vne_decodeJwt :: "string \<Rightarrow> string + json"
  vne_json64 :: "string \<Rightarrow> json option"
  vne_crypto :: crypto_env
  vne_sdjwt :: sdjwt_library
  vne_mdoc :: mdoc_env

definition managedTrustListUrl :: "verification_env \<Rightarrow> string \<Rightarrow> string \<Rightarrow> string" where
  "managedTrustListUrl env tenantHost trustListId = tenantHost @ ''/trust-list/'' @ vne_uri env trustListId"

definition resolve_trust_list_ref ::
    "verification_env \<Rightarrow> string \<Rightarrow> string \<Rightarrow> trust_list_ref \<Rightarrow> verification_error + trust_list_ref" where
  "resolve_trust_list_ref env tenantId tenantHost ref =
     (if truthy (tlr_trustListId ref)
      then let i = js_trim (the (tlr_trustListId ref))
           in if i = [] then Inl (Invalid_Authorities ''trusted_authorities values trustListId must not be empty'')
              else ebind (map_failure Plain (vne_verifierX509Der env tenantId i)) (\<lambda>der.
                Inr ((external_ref (managedTrustListUrl env tenantHost i) None None (Some der))
                       \<lparr>tlr_trustListId := Some i\<rparr>))
      else let url = replaceAll ''<TENANT_URL>'' tenantHost (coalesce (tlr_url ref) [])
           in if url = []
              then Inl (Invalid_Authorities ''trusted_authorities values url is required when trustListId is not set'')
              else Inr (ref\<lparr>tlr_url := Some url, tlr_trustListId := None\<rparr>))"

definition resolveTrustListRefsForTenant ::
    "verification_env \<Rightarrow> trust_list_ref list option \<Rightarrow> string \<Rightarrow> string \<Rightarrow> verification_error + trust_list_ref list" where
  "resolveTrustListRefsForTenant env refs tenantId tenantHost =
     all_results (map (resolve_trust_list_ref env tenantId tenantHost) (coalesce refs []))"


section \<open>Transaction data of a credential\<close>

text \<open>\<open>value?.includes(text)\<close> on a decoded member.\<close>

definition includes_text :: "json option \<Rightarrow> string \<Rightarrow> verification_error + bool" where
  "includes_text v t =
     (case v of
        None \<Rightarrow> Inr False
      | Some JNull \<Rightarrow> Inr False
      | Some (JArr xs) \<Rightarrow> Inr (JStr t \<in> set xs)
      | Some (JStr s) \<Rightarrow> Inr (contains_text s t)
      | _ \<Rightarrow> Inl (Plain ''includes is not a function''))"

fun filter_results :: "('a \<Rightarrow> 'e + bool) \<Rightarrow> 'a list \<Rightarrow> 'e + 'a list" where
  "filter_results f [] = Inr []"
| "filter_results f (x # xs) =
     ebind (f x) (\<lambda>b. ebind (filter_results f xs) (\<lambda>ys. Inr (if b then x # ys else ys)))"

fun some_result :: "('a \<Rightarrow> 'e + bool) \<Rightarrow> 'a list \<Rightarrow> 'e + bool" where
  "some_result f [] = Inr False"
| "some_result f (x # xs) = ebind (f x) (\<lambda>b. if b then Inr True else some_result f xs)"

definition transactionDataFor ::
    "verification_env \<Rightarrow> string list option \<Rightarrow> string \<Rightarrow> verification_error + string list option" where
  "transactionDataFor env transactionData credentialId =
     (case transactionData of
        None \<Rightarrow> Inr None
      | Some ts \<Rightarrow> ebind (filter_results (\<lambda>t. includes_text (jget ''credential_ids'' (vne_json64 env t)) credentialId) ts)
          (\<lambda>ys. Inr (Some ys)))"

definition isTs12 :: "verification_env \<Rightarrow> string \<Rightarrow> verification_error + bool" where
  "isTs12 env encoded =
     (case jget ''type'' (vne_json64 env encoded) of
        None \<Rightarrow> Inr False
      | Some JNull \<Rightarrow> Inr False
      | Some (JStr s) \<Rightarrow> Inr (starts_with s ''urn:eudi:sca:'')
      | _ \<Rightarrow> Inl (Plain ''startsWith is not a function''))"


section \<open>The request the wallet received\<close>

definition string_list :: "json option \<Rightarrow> string list option" where
  "string_list v = (case v of Some (JArr xs) \<Rightarrow> Some (strings_of (JArr xs)) | _ \<Rightarrow> None)"

definition signed_request_of :: "json \<Rightarrow> signed_request" where
  "signed_request_of payload =
     \<lparr>srq_nonce = jstr (jget ''nonce'' (Some payload)), srq_client_id = jstr (jget ''client_id'' (Some payload)),
      srq_response_uri = jstr (jget ''response_uri'' (Some payload)),
      srq_response_mode = jstr (jget ''response_mode'' (Some payload)),
      srq_expected_origins = string_list (jget ''expected_origins'' (Some payload)),
      srq_client_metadata = jget ''client_metadata'' (Some payload)\<rparr>"

definition find_credential :: "json \<Rightarrow> string \<Rightarrow> json option" where
  "find_credential payload credentialId =
     List.find (\<lambda>c. jget ''id'' (Some c) = Some (JStr credentialId))
       (arr_of (jget ''credentials'' (jget ''dcql_query'' (Some payload))))"

definition requestedFormat :: "json \<Rightarrow> string \<Rightarrow> verification_error + string option" where
  "requestedFormat payload credentialId =
     (case find_credential payload credentialId of
        None \<Rightarrow> Inl (Plain ''Cannot read properties of undefined'')
      | Some c \<Rightarrow> Inr (jstr (jget ''format'' (Some c))))"

definition binding_of :: "session \<Rightarrow> signed_request option \<Rightarrow> oid4vp_binding" where
  "binding_of s request =
     \<lparr>vbd_sessionId = s_id s, vbd_useDcApi = s_useDcApi s, vbd_sessionNonce = s_vp_nonce s,
      vbd_sessionClientId = s_clientId s, vbd_sessionResponseUri = s_responseUri s, vbd_request = request\<rparr>"

section \<open>Verifying the presented credentials\<close>

text \<open>The registry of formats.\<close>

definition resolve_format ::
    "verification_env \<Rightarrow> date \<Rightarrow> string option
       \<Rightarrow> verification_error + (string \<Rightarrow> verification_context \<Rightarrow> verification_error + credential_verification)" where
  "resolve_format env now format =
     (if format = Some ''dc+sd-jwt'' then Inr (sdjwt_format_verify (vne_crypto env) (vne_sdjwt env) now)
      else if format = Some ''mso_mdoc'' then Inr (\<lambda>c ctx. Inr (mdoc_format_verify (vne_mdoc env) now c ctx))
      else Inl (Unsupported_Format (coalesce format ''undefined'')))"

definition enforce_claims ::
    "query_credential \<Rightarrow> string option \<Rightarrow> credential_verification \<Rightarrow> verification_error + (string \<times> json) list" where
  "enforce_claims q format result =
     (case result of
        Not_Verified f docType \<Rightarrow> Inl (Credential_Failed (dqq_id q) f format docType)
      | Verified r \<Rightarrow>
          (if vcr_mismatchedClaims r \<noteq> []
           then Inl (Incomplete_Presentation (claimValueMismatchViolation (dqq_id q) (vcr_mismatchedClaims r)))
           else if vcr_claimSetSatisfied r = Some False then Inl (Incomplete_Presentation (claimSetNotSatisfied q))
           else if vcr_missingClaims r \<noteq> []
           then Inl (Incomplete_Presentation (missingClaimsViolation (dqq_id q) (vcr_missingClaims r)))
           else Inr (vcr_claims r)))"

definition presentation_options ::
    "presentation_query \<Rightarrow> session \<Rightarrow> query_credential \<Rightarrow> trust_list_ref list \<Rightarrow> string list option \<Rightarrow> bool option
       \<Rightarrow> verifier_options" where
  "presentation_options query s q trustLists transactionData ts12 =
     (verifierTrustOptions trustLists (Some (s_tenantId s)) (qcr_trusted_authorities q)
        (pqy_statusCheckMode query) (coalesce_opt (s_skewSeconds s) (pqy_skewSeconds query)))
       \<lparr>vop_transactionData := transactionData, vop_ts12TransactionData := ts12\<rparr>"

definition has_claim_sets :: "query_credential \<Rightarrow> bool" where
  "has_claim_sets q \<longleftrightarrow> (case dqq_claim_sets q of Some (_ # _) \<Rightarrow> True | _ \<Rightarrow> False)"

definition verify_presented ::
    "verification_env \<Rightarrow> date \<Rightarrow> presentation_query \<Rightarrow> session \<Rightarrow> json option \<Rightarrow> query_credential \<Rightarrow> string list
       \<Rightarrow> verification_error + (string \<times> json) list list" where
  "verify_presented env now query s payload q presented =
     ebind (require (dqq_multiple q = Some True \<or> length presented \<le> 1)
             (Multiple_Presentations (dqq_id q) (length presented))) (\<lambda>_.
     ebind (transactionDataFor env (case payload of None \<Rightarrow> None | Some p \<Rightarrow> string_list (jget ''transaction_data'' (Some p)))
             (dqq_id q)) (\<lambda>transactionData.
     ebind (resolveTrustListRefsForTenant env (trustListAuthorities (qcr_trusted_authorities q)) (s_tenantId s)
             (vne_publicUrl env @ ''/issuers/'' @ pqy_tenantId query)) (\<lambda>trustLists.
     ebind (case transactionData of None \<Rightarrow> Inr None
            | Some ts \<Rightarrow> ebind (some_result (isTs12 env) ts) (\<lambda>b. Inr (Some b))) (\<lambda>ts12.
     ebind (case payload of None \<Rightarrow> Inr (qcr_format q) | Some p \<Rightarrow> requestedFormat p (dqq_id q)) (\<lambda>format.
     ebind (map_failure Unknown_Claim_Set (claimSelections q)) (\<lambda>selections.
     all_results (map (\<lambda>credential.
       ebind (resolve_format env now format) (\<lambda>verify.
       ebind (verify credential
         \<lparr>vcx_credentialId = dqq_id q, vcx_binding = Openid4vp (binding_of s (map_option signed_request_of payload)),
          vcx_options = presentation_options query s q trustLists transactionData ts12,
          vcx_claims = dqq_claims q, vcx_claimSets = (if has_claim_sets q then Some selections else None)\<rparr>)
         (enforce_claims q format))) presented)))))))"

definition verify_credential_id ::
    "verification_env \<Rightarrow> date \<Rightarrow> presentation_query \<Rightarrow> session \<Rightarrow> json option \<Rightarrow> string \<Rightarrow> string list
       \<Rightarrow> verification_error + (string \<times> (string \<times> json) list list)" where
  "verify_credential_id env now query s payload credentialId presented =
     (case List.find (\<lambda>q. dqq_id q = credentialId) (pqy_credentials query) of
        None \<Rightarrow> Inl (Unknown_Credential credentialId)
      | Some q \<Rightarrow> ebind (verify_presented env now query s payload q presented) (\<lambda>vs. Inr (credentialId, vs)))"

type_synonym verified_presentation = "(string \<times> (string \<times> json) list list) list"

definition verifyPresentationResponse ::
    "verification_env \<Rightarrow> date \<Rightarrow> auth_response \<Rightarrow> presentation_query \<Rightarrow> session
       \<Rightarrow> verification_error + verified_presentation" where
  "verifyPresentationResponse env now response query s =
     (let received = filter (\<lambda>(_, ps). ps \<noteq> []) (arp_vp_token response)
      in case findMissingCredentials (map fst received) (pqy_credentials query) (pqy_credential_sets query) of
           Some v \<Rightarrow> Inl (Incomplete_Presentation v)
         | None \<Rightarrow>
             ebind (if truthy (s_requestObject s)
                    then ebind (map_failure Plain (vne_decodeJwt env (the (s_requestObject s)))) (\<lambda>p. Inr (Some p))
                    else Inr None) (\<lambda>payload.
             all_results (map (\<lambda>(i, ps). verify_credential_id env now query s payload i ps) received)))"

end
