(* ===== verification/Wallet_Query.thy ===== *)
theory Wallet_Query
  imports Presentation_Verification
begin

text \<open>
  The DCQL query a wallet receives: the trusted authorities as key identifiers
  (\<open>verifier/presentations/trusted-authorities.service.ts\<close>, \<open>trust/domain/authority-key-identifiers.ts\<close>), the
  policy of \<open>verifier/oid4vp/dcql-trusted-authorities.util.ts\<close>, and the presentation configuration as the
  verifier reads it. The query is the JSON document of the configuration, whose credentials are objects
  (its schema is checked when the configuration is stored). Loading a listed entity and reading the key
  identifiers of a certificate are parameters.
\<close>

section \<open>Key identifiers of listed issuers\<close>

record issuer_certificate =
  icr_ski :: "string option"
  icr_ca :: bool
  icr_aki :: "string option"

record key_identifiers =
  kid_values :: "string list"
  kid_complete :: bool

definition credentialIssuanceServiceTypes :: "string list" where
  "credentialIssuanceServiceTypes = [PIDIssuance, EaaIssuance, PubEAAIssuance]"

definition is_issuance :: "trusted_service \<Rightarrow> bool" where
  "is_issuance s \<longleftrightarrow> list_ex (serviceTypeMatches (tsv_type s)) credentialIssuanceServiceTypes"

definition add_value :: "string option \<Rightarrow> string list \<Rightarrow> string list" where
  "add_value v xs = (case v of None \<Rightarrow> xs | Some x \<Rightarrow> if x \<in> set xs then xs else xs @ [x])"

definition add_service ::
    "(string \<Rightarrow> issuer_certificate option) \<Rightarrow> key_identifiers \<Rightarrow> trusted_service \<Rightarrow> key_identifiers" where
  "add_service parse k s =
     (if \<not> is_issuance s then k
      else (case parse (tsv_certValue s) of
              None \<Rightarrow> k\<lparr>kid_complete := False\<rparr>
            | Some c \<Rightarrow>
                (let withSki = add_value (icr_ski c) (kid_values k)
                 in if icr_ca c
                    then \<lparr>kid_values = withSki, kid_complete = (kid_complete k \<and> icr_ski c \<noteq> None)\<rparr>
                    else \<lparr>kid_values = add_value (icr_aki c) withSki,
                          kid_complete = (kid_complete k \<and> icr_aki c \<noteq> None)\<rparr>)))"

definition credentialIssuerAuthorityKeyIdentifiers ::
    "(string \<Rightarrow> issuer_certificate option) \<Rightarrow> trusted_entity list \<Rightarrow> key_identifiers" where
  "credentialIssuerAuthorityKeyIdentifiers parse entities =
     foldl (add_service parse) \<lparr>kid_values = [], kid_complete = True\<rparr> (concat (map ten_services entities))"


section \<open>Trusted authorities for the wallet\<close>

record wallet_query_env =
  wqe_listed :: "trust_list_ref \<Rightarrow> string \<Rightarrow> string + trusted_entity list"
  wqe_parse :: "string \<Rightarrow> issuer_certificate option"
  wqe_verification :: verification_env

definition trust_list_ref_of :: "json \<Rightarrow> trust_list_ref" where
  "trust_list_ref_of v =
     \<lparr>tlr_trustListId = jstr (jget ''trustListId'' (Some v)), tlr_url = jstr (jget ''url'' (Some v)),
      tlr_verifierKey = jget ''verifierKey'' (Some v), tlr_verifierKeyPem = jstr (jget ''verifierKeyPem'' (Some v)),
      tlr_verifierX509Der = jstr (jget ''verifierX509Der'' (Some v)), tlr_format = jstr (jget ''format'' (Some v)),
      tlr_serviceTypeMap = jget ''serviceTypeMap'' (Some v),
      tlr_acceptedServiceStatus = string_list (jget ''acceptedServiceStatus'' (Some v))\<rparr>"

definition authorityKeyIdentifiers :: "wallet_query_env \<Rightarrow> trust_list_ref \<Rightarrow> string \<Rightarrow> key_identifiers" where
  "authorityKeyIdentifiers env ref tenantId =
     (case wqe_listed env ref tenantId of
        Inl _ \<Rightarrow> \<lparr>kid_values = [], kid_complete = False\<rparr>
      | Inr es \<Rightarrow> credentialIssuerAuthorityKeyIdentifiers (wqe_parse env) es)"

definition covered :: "key_identifiers \<Rightarrow> bool" where
  "covered k \<longleftrightarrow> kid_complete k \<and> kid_values k \<noteq> []"

definition list_url :: "wallet_query_env \<Rightarrow> string \<Rightarrow> trust_list_ref \<Rightarrow> string option" where
  "list_url env tenantHost ref =
     (let i = map_option js_trim (tlr_trustListId ref)
      in if truthy i then Some (managedTrustListUrl (wqe_verification env) tenantHost (the i)) else tlr_url ref)"

definition wallet_entry :: "string \<Rightarrow> string list \<Rightarrow> json" where
  "wallet_entry t vs = JObj [(''type'', JStr t), (''values'', JArr (map JStr vs))]"

definition toWalletAuthorities :: "wallet_query_env \<Rightarrow> trust_list_ref list \<Rightarrow> string \<Rightarrow> string \<Rightarrow> json list" where
  "toWalletAuthorities env refs tenantId tenantHost =
     (let kids = (\<lambda>ref. authorityKeyIdentifiers env ref tenantId);
          akiValues = distinct_first (concat (map (\<lambda>ref. kid_values (kids ref)) refs));
          unresolvedUrls = List.map_filter (\<lambda>ref. if covered (kids ref) then None
            else if truthy (list_url env tenantHost ref) then list_url env tenantHost ref else None) refs
      in (if akiValues \<noteq> [] then [wallet_entry ''aki'' akiValues] else [])
         @ (if unresolvedUrls \<noteq> [] then [wallet_entry ''etsi_tl'' unresolvedUrls] else []))"

definition wallet_authorities :: "wallet_query_env \<Rightarrow> string \<Rightarrow> string \<Rightarrow> json \<Rightarrow> json list" where
  "wallet_authorities env tenantId tenantHost ta =
     (if jget ''type'' (Some ta) = Some (JStr ''etsi_tl'')
      then toWalletAuthorities env (map trust_list_ref_of (arr_of (jget ''values'' (Some ta)))) tenantId tenantHost
      else [ta])"

definition transform_credential :: "wallet_query_env \<Rightarrow> string \<Rightarrow> string \<Rightarrow> json \<Rightarrow> json" where
  "transform_credential env tenantId tenantHost cred =
     (case (cred, jget ''trusted_authorities'' (Some cred)) of
        (JObj kvs, Some (JArr tas)) \<Rightarrow>
          (let transformed = concat (map (wallet_authorities env tenantId tenantHost) tas)
           in if transformed = [] then JObj (jdel ''trusted_authorities'' kvs)
              else JObj (jset ''trusted_authorities'' (JArr transformed) kvs))
      | _ \<Rightarrow> cred)"

definition transformDcqlTrustedAuthoritiesToAki :: "wallet_query_env \<Rightarrow> json \<Rightarrow> string \<Rightarrow> string \<Rightarrow> json" where
  "transformDcqlTrustedAuthoritiesToAki env dcqlQuery tenantId tenantHost =
     (case (dcqlQuery, jget ''credentials'' (Some dcqlQuery)) of
        (JObj kvs, Some (JArr cs)) \<Rightarrow>
          JObj (jset ''credentials'' (JArr (map (transform_credential env tenantId tenantHost) cs)) kvs)
      | _ \<Rightarrow> dcqlQuery)"

definition strip_authorities :: "json \<Rightarrow> json" where
  "strip_authorities cred = (case cred of JObj kvs \<Rightarrow> JObj (jdel ''trusted_authorities'' kvs) | _ \<Rightarrow> cred)"

definition applyTrustedAuthoritiesPolicy :: "json \<Rightarrow> bool \<Rightarrow> json" where
  "applyTrustedAuthoritiesPolicy dcqlQuery removeTrustedAuthorities =
     (if \<not> removeTrustedAuthorities then dcqlQuery
      else (case (dcqlQuery, jget ''credentials'' (Some dcqlQuery)) of
              (JObj kvs, Some (JArr cs)) \<Rightarrow> JObj (jset ''credentials'' (JArr (map strip_authorities cs)) kvs)
            | _ \<Rightarrow> dcqlQuery))"

text \<open>Replacing a text in the serialized document: in every string and property name. The host has no
  character that JSON escapes.\<close>

fun replace_strings :: "(string \<Rightarrow> string) \<Rightarrow> json \<Rightarrow> json" where
  "replace_strings f (JStr s) = JStr (f s)"
| "replace_strings f (JArr xs) = JArr (map (replace_strings f) xs)"
| "replace_strings f (JObj kvs) = JObj (map (\<lambda>(k, v). (f k, replace_strings f v)) kvs)"
| "replace_strings f v = v"

definition buildDcqlQuery :: "wallet_query_env \<Rightarrow> bool \<Rightarrow> json \<Rightarrow> string \<Rightarrow> json" where
  "buildDcqlQuery env removeTrustedAuthorities dcqlQuery tenantId =
     (let tenantHost = vne_publicUrl (wqe_verification env) @ ''/issuers/'' @ tenantId
      in applyTrustedAuthoritiesPolicy
           (transformDcqlTrustedAuthoritiesToAki env
              (replace_strings (replaceAll ''<TENANT_URL>'' tenantHost) dcqlQuery) tenantId tenantHost)
           removeTrustedAuthorities)"


section \<open>The configuration as the verifier reads it\<close>

record presentation_config =
  pcf_tenantId :: string
  pcf_lifeTime :: "int option"
  pcf_skewSeconds :: "int option"
  pcf_statusCheckMode :: "revocation_mode option"
  pcf_dcql_query :: json
  pcf_transaction_data :: "json list option"
  pcf_registration_cert :: "json option"
  pcf_webhookEndpointId :: "string option"
  pcf_clientIdScheme :: "string option"
  pcf_redirectUri :: "string option"
  pcf_accessKeyChainId :: "string option"

definition array_member :: "json option \<Rightarrow> json list option" where
  "array_member v = (case v of Some (JArr xs) \<Rightarrow> Some xs | _ \<Rightarrow> None)"

definition boolean_member :: "json option \<Rightarrow> bool option" where
  "boolean_member v = (case v of Some (JBool b) \<Rightarrow> Some b | _ \<Rightarrow> None)"

definition segment_of :: "json \<Rightarrow> segment" where
  "segment_of v = (case v of JStr k \<Rightarrow> Seg_Str k | JNum n \<Rightarrow> Seg_Num n | _ \<Rightarrow> Seg_Null)"

definition dcql_claim_of :: "json \<Rightarrow> dcql_claim" where
  "dcql_claim_of v =
     \<lparr>dqc_id = jstr (jget ''id'' (Some v)), dqc_path = map segment_of (arr_of (jget ''path'' (Some v))),
      dqc_values = array_member (jget ''values'' (Some v))\<rparr>"

definition dcql_set_of :: "json \<Rightarrow> dcql_set" where
  "dcql_set_of v =
     \<lparr>dqs_options = map strings_of (arr_of (jget ''options'' (Some v))),
      dqs_required = boolean_member (jget ''required'' (Some v))\<rparr>"

definition authority_of :: "json \<Rightarrow> trusted_authority option" where
  "authority_of v =
     (if jget ''type'' (Some v) = Some (JStr ''etsi_tl'')
      then Some (Etsi_Tl (map trust_list_ref_of (arr_of (jget ''values'' (Some v)))))
      else if jget ''type'' (Some v) = Some (JStr ''openid_federation'')
      then Some (Openid_Federation (strings_of (coalesce (jget ''values'' (Some v)) JNull)))
      else None)"

definition query_credential_of :: "json \<Rightarrow> query_credential" where
  "query_credential_of v =
     \<lparr>dqq_id = coalesce (jstr (jget ''id'' (Some v))) [], dqq_multiple = boolean_member (jget ''multiple'' (Some v)),
      dqq_claims = map_option (map dcql_claim_of) (array_member (jget ''claims'' (Some v))),
      dqq_claim_sets = map_option (map strings_of) (array_member (jget ''claim_sets'' (Some v))),
      qcr_trusted_authorities = map_option (List.map_filter authority_of)
        (array_member (jget ''trusted_authorities'' (Some v))),
      qcr_format = jstr (jget ''format'' (Some v))\<rparr>"

definition presentation_query_of :: "presentation_config \<Rightarrow> presentation_query" where
  "presentation_query_of c =
     \<lparr>pqy_tenantId = pcf_tenantId c, pqy_statusCheckMode = pcf_statusCheckMode c,
      pqy_skewSeconds = pcf_skewSeconds c,
      pqy_credentials = map query_credential_of (arr_of (jget ''credentials'' (Some (pcf_dcql_query c)))),
      pqy_credential_sets = map_option (map dcql_set_of)
        (array_member (jget ''credential_sets'' (Some (pcf_dcql_query c))))\<rparr>"


section \<open>Lemmas\<close>

lemma jdel_jset: "jdel k (jset k v kvs) = jdel k kvs"
  by (induction k v kvs rule: jset.induct) (auto simp: jdel_def)

lemma jset_jset [simp]: "jset k v (jset k w kvs) = jset k v kvs"
  by (induction k w kvs rule: jset.induct) auto

lemma jdel_jdel [simp]: "jdel k (jdel k kvs) = jdel k kvs"
  by (induction kvs) (auto simp: jdel_def)

lemma strip_transform: "strip_authorities (transform_credential env t h c) = strip_authorities c"
  by (auto simp: strip_authorities_def transform_credential_def Let_def jdel_jset split: json.splits option.splits)

lemma strip_idempotent [simp]: "strip_authorities (strip_authorities c) = strip_authorities c"
  by (auto simp: strip_authorities_def split: json.splits)

lemma policy_strips:
  "applyTrustedAuthoritiesPolicy (applyTrustedAuthoritiesPolicy q b) True = applyTrustedAuthoritiesPolicy q True"
  by (auto simp: applyTrustedAuthoritiesPolicy_def jget_def o_def split: json.splits option.splits)

lemma policy_transform:
  "applyTrustedAuthoritiesPolicy (transformDcqlTrustedAuthoritiesToAki env q t h) True
     = applyTrustedAuthoritiesPolicy q True"
  by (auto simp: applyTrustedAuthoritiesPolicy_def transformDcqlTrustedAuthoritiesToAki_def jget_def o_def strip_transform
      split: json.splits option.splits)

end
