(* ===== verification/Presentation_Endpoint.thy ===== *)
theory Presentation_Endpoint
  imports Wallet_Query
begin

text \<open>
  The OpenID4VP endpoint of the verifier (\<open>verifier/oid4vp/oid4vp.service.ts\<close>, \<open>client-id.util.ts\<close>,
  \<open>application/process-verified-presentation.ts\<close>): creating a presentation request, signing its request
  object, and handling the response of the wallet. Looking up configurations, webhooks and certificates,
  signing, decryption, random values and URL encoding are parameters; logs, traces and audit entries are
  left out. \<open>others\<close> are statements of other requests that run in between.
\<close>

section \<open>Client identifiers\<close>

record access_certificate =
  acc_keyId :: string
  acc_dnsName :: string
  acc_hash :: string
  acc_chain :: "string list"

definition X509_HASH :: string where "X509_HASH = ''x509_hash''"

definition X509_SAN_DNS :: string where "X509_SAN_DNS = ''x509_san_dns''"

definition REDIRECT_URI :: string where "REDIRECT_URI = ''redirect_uri''"

definition createClientId :: "access_certificate \<Rightarrow> string \<Rightarrow> string" where
  "createClientId cert scheme =
     (if scheme = X509_SAN_DNS then scheme @ '':'' @ acc_dnsName cert else X509_HASH @ '':'' @ acc_hash cert)"

definition resolveClientIdScheme :: "string option \<Rightarrow> string option \<Rightarrow> string" where
  "resolveClientIdScheme requested configured = coalesce requested (coalesce configured X509_HASH)"


section \<open>The request object\<close>

record request_env =
  rqe_removeTrustedAuthorities :: bool
  rqe_config :: "string option \<Rightarrow> string \<Rightarrow> string + presentation_config"
  rqe_registrarEnabled :: "string \<Rightarrow> string + bool"
  rqe_registrationCertificate :: "presentation_config \<Rightarrow> json \<Rightarrow> string option \<Rightarrow> string + string"
  rqe_accessCertificate :: "string \<Rightarrow> string option \<Rightarrow> string + access_certificate"
  rqe_encodeTransactionData :: "json \<Rightarrow> string"
  rqe_sign :: "json \<Rightarrow> json \<Rightarrow> string \<Rightarrow> string \<Rightarrow> string + string"
  rqe_origin :: "string \<Rightarrow> string option"
  rqe_mdocAlgorithms :: json
  rqe_webhook :: "string \<Rightarrow> string \<Rightarrow> string + json option"
  rqe_uri :: "string \<Rightarrow> string"
  rqe_jsonText :: "json \<Rightarrow> string"
  rqe_query :: wallet_query_env

definition public_url :: "request_env \<Rightarrow> string" where
  "public_url env = vne_publicUrl (wqe_verification (rqe_query env))"

definition normalizeExpectedOrigin :: "request_env \<Rightarrow> string \<Rightarrow> string option" where
  "normalizeExpectedOrigin env origin =
     (let trimmed = js_trim origin
      in if trimmed = [] then None
         else rqe_origin env (if starts_with (toLowerCase trimmed) ''http://''
             \<or> starts_with (toLowerCase trimmed) ''https://'' then trimmed else ''http://'' @ trimmed))"

definition json_member :: "string \<Rightarrow> json option \<Rightarrow> (string \<times> json) list" where
  "json_member k v = (case v of None \<Rightarrow> [] | Some x \<Rightarrow> [(k, x)])"

definition client_metadata :: "request_env \<Rightarrow> json \<Rightarrow> json" where
  "client_metadata env publicJwk = JObj
     [(''jwks'', JObj [(''keys'', JArr [publicJwk])]),
      (''vp_formats_supported'', JObj
        [(''mso_mdoc'', JObj [(''alg'', rqe_mdocAlgorithms env)]),
         (''dc+sd-jwt'', JObj [(''kb-jwt_alg_values'', JArr [JStr ''ES256'']),
                              (''sd-jwt_alg_values'', JArr [JStr ''ES256''])])]),
      (''encrypted_response_enc_values_supported'', JArr [JStr ''A128GCM'', JStr ''A256GCM''])]"

definition response_uri :: "request_env \<Rightarrow> string \<Rightarrow> string" where
  "response_uri env walletFacingId = public_url env @ ''/presentations/'' @ walletFacingId @ ''/oid4vp''"

definition walletFacingId :: "session \<Rightarrow> string" where
  "walletFacingId s = coalesce (s_walletNonce s) (s_id s)"

definition requested_transaction_data :: "request_env \<Rightarrow> session \<Rightarrow> presentation_config \<Rightarrow> json option" where
  "requested_transaction_data env s config =
     map_option (\<lambda>tds. JArr (map (\<lambda>td. JStr (rqe_encodeTransactionData env td)) tds))
       (coalesce_opt (map_option (\<lambda>v. arr_of (Some v)) (s_transaction_data s)) (pcf_transaction_data config))"

definition request_payload ::
    "request_env \<Rightarrow> date \<Rightarrow> session \<Rightarrow> presentation_config \<Rightarrow> string \<Rightarrow> string \<Rightarrow> json \<Rightarrow> json \<Rightarrow> string option
       \<Rightarrow> string option \<Rightarrow> json" where
  "request_payload env now s config clientId nonce publicJwk dcql regCert expectedOrigin = JObj (
     [(''response_type'', JStr ''vp_token''), (''client_id'', JStr clientId),
      (''response_uri'', JStr (response_uri env (walletFacingId s))),
      (''response_mode'', JStr (if s_useDcApi s then ''dc_api.jwt'' else ''direct_post.jwt'')),
      (''nonce'', JStr nonce)]
     @ json_member ''expected_origins'' (map_option (\<lambda>o'. JArr [JStr o']) expectedOrigin)
     @ [(''dcql_query'', dcql), (''client_metadata'', client_metadata env publicJwk)]
     @ (if s_useDcApi s then [] else [(''state'', JStr (walletFacingId s))])
     @ json_member ''transaction_data'' (requested_transaction_data env s config)
     @ [(''aud'', JStr (if starts_with clientId (X509_SAN_DNS @ '':'') then public_url env
          else ''https://self-issued.me/v2'')),
        (''exp'', JNum (now div 1000 + 60 * 60)), (''iat'', JNum (now div 1000))]
     @ json_member ''verifier_info'' (map_option (\<lambda>c. JArr [JObj [(''format'', JStr ''registration_cert''),
          (''data'', JStr c)]]) (if truthy regCert then regCert else None)))"

text \<open>\<open>createAuthorizationRequest\<close>, with the fresh nonce and key pair as arguments; \<open>others1\<close> run before
  the nonce is stored and \<open>others2\<close> before the key.\<close>

definition createAuthorizationRequest ::
    "request_env \<Rightarrow> date \<Rightarrow> session_stmt list \<Rightarrow> session_stmt list \<Rightarrow> string \<Rightarrow> json \<times> json \<Rightarrow> string \<Rightarrow> string
       \<Rightarrow> bool \<Rightarrow> sessions \<Rightarrow> (string + string) \<times> sessions" where
  "createAuthorizationRequest env now others1 others2 nonce keys sessionId origin noRedirect db =
     (case getForInternalFlow sessionId db of
        Inl _ \<Rightarrow> (Inl ''Session not found'', db)
      | Inr s \<Rightarrow>
          (let db1 = (if noRedirect
                 then fst (updateForTenant now (s_tenantId s) (s_id s) [Set_redirectUri None] db) else db)
           in case ebind (rqe_config env (s_requestId s) (s_tenantId s)) (\<lambda>config.
                     let dcql = buildDcqlQuery (rqe_query env) (rqe_removeTrustedAuthorities env)
                           (pcf_dcql_query config) (s_tenantId s)
                     in ebind (if pcf_registration_cert config = None then Inr None
                          else ebind (rqe_registrarEnabled env (s_tenantId s)) (\<lambda>enabled.
                            if enabled then ebind (rqe_registrationCertificate env config dcql (s_requestId s))
                              (\<lambda>c. Inr (Some c)) else Inr None)) (\<lambda>regCert.
                     Inr (config, dcql, regCert))) of
                Inl e \<Rightarrow> (Inl e, db1)
              | Inr (config, dcql, regCert) \<Rightarrow>
                  (let db2 = fst (updateForTenant now (s_tenantId s) (s_id s) [Set_vp_nonce (Some nonce)]
                               (exec_stmts others1 db1))
                   in case rqe_accessCertificate env (s_tenantId s) (pcf_accessKeyChainId config) of
                        Inl e \<Rightarrow> (Inl e, db2)
                      | Inr cert \<Rightarrow>
                          (let clientId = coalesce (s_clientId s) (createClientId cert X509_HASH);
                               db3 = fst (updateForTenant now (s_tenantId s) (s_id s)
                                 [Set_responseEncryptionPrivateJwk (Some (snd keys))] (exec_stmts others2 db2));
                               expectedOrigin = (if s_useDcApi s then normalizeExpectedOrigin env origin else None);
                               payload = request_payload env now s config clientId nonce (fst keys) dcql regCert
                                 expectedOrigin;
                               header = JObj [(''typ'', JStr ''oauth-authz-req+jwt''), (''alg'', JStr ''ES256''),
                                 (''x5c'', JArr (map JStr (acc_chain cert)))]
                           in (rqe_sign env payload header (s_tenantId s) (acc_keyId cert), db3)))))"

section \<open>Presentation requests\<close>

record request_options =
  rqo_session :: "string option"
  rqo_webhook :: "json option"
  rqo_redirectUri :: "string option"
  rqo_transaction_data :: "json list option"
  rqo_skewSeconds :: "int option"
  rqo_clientIdScheme :: "string option"
  rqo_reference :: "string option"

text \<open>The random values of a request: session, wallet nonce, nonce and the encryption key pair.\<close>

record fresh_values =
  frv_session :: string
  frv_walletNonce :: string
  frv_nonce :: string
  frv_keys :: "json \<times> json"

record offer_response =
  ofr_uri :: string
  ofr_crossDeviceUri :: string
  ofr_session :: string

datatype request_error = Request_Client_Error string | Request_Failed string

definition query_string :: "(string \<Rightarrow> string) \<Rightarrow> (string \<times> string) list \<Rightarrow> string" where
  "query_string uri params = join ''&'' (map (\<lambda>(k, v). uri k @ ''='' @ uri v) params)"

definition resolveWebhookFromEndpoint :: "request_env \<Rightarrow> string option \<Rightarrow> string \<Rightarrow> string + json option" where
  "resolveWebhookFromEndpoint env webhookEndpointId tenantId =
     (if \<not> truthy webhookEndpointId then Inr None else rqe_webhook env (the webhookEndpointId) tenantId)"

definition expiry_of :: "date \<Rightarrow> presentation_config \<Rightarrow> date" where
  "expiry_of now config = now + coalesce (pcf_lifeTime config) 300 * 1000"

text \<open>The columns both kinds of request store for a new session.\<close>

definition request_columns ::
    "date \<Rightarrow> presentation_config \<Rightarrow> request_options \<Rightarrow> string \<Rightarrow> string \<Rightarrow> string \<Rightarrow> string \<Rightarrow> json option
       \<Rightarrow> session_update" where
  "request_columns now config values walletNonce requestId clientId queryString webhook =
     [Set_walletNonce (Some walletNonce)]
     @ opt_assign Set_webhookEndpointId (pcf_webhookEndpointId config)
     @ opt_assign Set_parsedWebhook (coalesce_opt (rqo_webhook values) webhook)
     @ opt_assign Set_redirectUri (coalesce_opt (rqo_redirectUri values) (pcf_redirectUri config))
     @ [Set_requestId (Some requestId)]
     @ opt_assign Set_reference (rqo_reference values)
     @ [Set_requestUrl (Some (''openid4vp://?'' @ queryString)), Set_expiresAt (Some (expiry_of now config)),
        Set_clientId (Some clientId)]
     @ opt_assign Set_transaction_data (map_option JArr
         (coalesce_opt (rqo_transaction_data values) (pcf_transaction_data config)))
     @ [Set_skewSeconds (Some (coalesce (rqo_skewSeconds values)
          (coalesce (pcf_skewSeconds config) DEFAULT_VERIFIER_SKEW_SECONDS)))]"

definition createRedirectUriRequest ::
    "request_env \<Rightarrow> date \<Rightarrow> fresh_values \<Rightarrow> presentation_config \<Rightarrow> request_options \<Rightarrow> string \<Rightarrow> string
       \<Rightarrow> bool \<Rightarrow> string \<Rightarrow> sessions \<Rightarrow> (request_error + offer_response) \<times> sessions" where
  "createRedirectUriRequest env now fv config values tenantId requestId fresh sid db =
     (let walletNonce = frv_walletNonce fv;
          nonce = frv_nonce fv;
          responseUri = response_uri env walletNonce;
          clientId = REDIRECT_URI @ '':'' @ responseUri;
          dcql = buildDcqlQuery (rqe_query env) (rqe_removeTrustedAuthorities env) (pcf_dcql_query config) tenantId;
          queryString = query_string (rqe_uri env)
            [(''response_type'', ''vp_token''), (''response_mode'', ''direct_post''), (''client_id'', clientId),
             (''response_uri'', responseUri), (''nonce'', nonce), (''state'', walletNonce),
             (''dcql_query'', rqe_jsonText env dcql)];
          reply = \<lparr>ofr_uri = queryString, ofr_crossDeviceUri = queryString, ofr_session = sid\<rparr>
      in if fresh
         then (case resolveWebhookFromEndpoint env (pcf_webhookEndpointId config) tenantId of
                 Inl e \<Rightarrow> (Inl (Request_Failed e), db)
               | Inr webhook \<Rightarrow>
                   (Inr reply, snd (createSession_execute now \<lparr>ns_id = sid, ns_tenantId = tenantId,
                      ns_columns = request_columns now config values walletNonce requestId clientId queryString webhook
                        @ [Set_useDcApi False, Set_responseUri (Some responseUri), Set_vp_nonce (Some nonce)]\<rparr> db)))
         else (Inr reply, fst (updateForTenant now tenantId sid
                [Set_walletNonce (Some walletNonce), Set_requestUrl (Some (''openid4vp://?'' @ queryString)),
                 Set_expiresAt (Some (expiry_of now config)), Set_useDcApi False, Set_clientId (Some clientId),
                 Set_responseUri (Some responseUri), Set_vp_nonce (Some nonce)] db)))"

text \<open>A request by reference: the request object is signed and stored before the reply.\<close>

definition createSignedRequest ::
    "request_env \<Rightarrow> date \<Rightarrow> session_stmt list \<Rightarrow> session_stmt list \<Rightarrow> fresh_values \<Rightarrow> presentation_config
       \<Rightarrow> request_options \<Rightarrow> string \<Rightarrow> string \<Rightarrow> string \<Rightarrow> bool \<Rightarrow> string \<Rightarrow> bool \<Rightarrow> string \<Rightarrow> sessions
       \<Rightarrow> (request_error + offer_response) \<times> sessions" where
  "createSignedRequest env now others1 others2 fv config values tenantId requestId scheme useDcApi origin fresh sid db =
     (case rqe_accessCertificate env tenantId (pcf_accessKeyChainId config) of
        Inl e \<Rightarrow> (Inl (Request_Failed e), db)
      | Inr cert \<Rightarrow>
          (let walletNonce = frv_walletNonce fv;
               clientId = createClientId cert scheme;
               base = public_url env @ ''/presentations/'' @ walletNonce @ ''/oid4vp/request'';
               params = (\<lambda>u. query_string (rqe_uri env)
                 [(''client_id'', clientId), (''request_uri'', u), (''request_uri_method'', ''get'')]);
               queryString = params base;
               reply = \<lparr>ofr_uri = queryString, ofr_crossDeviceUri = params (base @ ''/no-redirect''),
                 ofr_session = sid\<rparr>
           in if fresh
              then (case resolveWebhookFromEndpoint env (pcf_webhookEndpointId config) tenantId of
                      Inl e \<Rightarrow> (Inl (Request_Failed e), db)
                    | Inr webhook \<Rightarrow>
                        (let (s, db1) = createSession_execute now \<lparr>ns_id = sid, ns_tenantId = tenantId,
                               ns_columns = request_columns now config values walletNonce requestId clientId queryString
                                 webhook @ [Set_useDcApi useDcApi]
                                 @ (if useDcApi then [] else [Set_responseUri (Some (response_uri env walletNonce))])\<rparr> db
                         in case createAuthorizationRequest env now others1 others2 (frv_nonce fv) (frv_keys fv)
                                   (s_id s) origin False db1 of
                              (Inl e, db2) \<Rightarrow> (Inl (Request_Failed e), db2)
                            | (Inr jwt, db2) \<Rightarrow>
                                (Inr reply, fst (updateForTenant now tenantId sid [Set_requestObject (Some jwt)] db2))))
              else (Inr reply, fst (updateForTenant now tenantId sid
                     [Set_walletNonce (Some walletNonce), Set_requestUrl (Some (''openid4vp://?'' @ queryString)),
                      Set_expiresAt (Some (expiry_of now config)), Set_useDcApi useDcApi,
                      Set_clientId (Some clientId)] db))))"

definition createRequest ::
    "request_env \<Rightarrow> date \<Rightarrow> session_stmt list \<Rightarrow> session_stmt list \<Rightarrow> fresh_values \<Rightarrow> string \<Rightarrow> request_options
       \<Rightarrow> string \<Rightarrow> bool \<Rightarrow> string \<Rightarrow> sessions \<Rightarrow> (request_error + offer_response) \<times> sessions" where
  "createRequest env now others1 others2 fv requestId values tenantId useDcApi origin db =
     (case rqe_config env (Some requestId) tenantId of
        Inl e \<Rightarrow> (Inl (Request_Failed e), db)
      | Inr config \<Rightarrow>
          (let fresh = (rqo_session values = None);
               sid = (if truthy (rqo_session values) then the (rqo_session values) else frv_session fv);
               scheme = resolveClientIdScheme (rqo_clientIdScheme values) (pcf_clientIdScheme config)
           in if scheme = REDIRECT_URI
              then (if useDcApi
                    then (Inl (Request_Client_Error (''The redirect_uri client identifier scheme cannot be used with ''
                            @ ''the Digital Credentials API'')), db)
                    else createRedirectUriRequest env now fv config values tenantId requestId fresh sid db)
              else createSignedRequest env now others1 others2 fv config values tenantId requestId scheme useDcApi
                     origin fresh sid db))"


section \<open>The response of the wallet\<close>

record response_env =
  rse_decrypt :: "string \<Rightarrow> string \<Rightarrow> json option \<Rightarrow> string + json"
  rse_parseJson :: "string \<Rightarrow> json option"
  rse_decodeUri :: "string \<Rightarrow> string option"
  rse_publishResult :: "json \<Rightarrow> session \<Rightarrow> json \<Rightarrow> json list \<Rightarrow> json \<Rightarrow> unit + string option"
  rse_publishFailure :: "json \<Rightarrow> session \<Rightarrow> status \<Rightarrow> json \<Rightarrow> unit + string option"
  rse_request :: request_env

record authorization_response =
  arb_response :: "string option"
  arb_sendResponse :: bool
  arb_vp_token :: "json option"
  arb_error :: "string option"
  arb_error_description :: "string option"
  arb_state :: "string option"

datatype response_reply =
    Reply_Empty
  | Reply_Redirect string
  | Reply_Credentials verified_presentation

text \<open>HTTP 400 with a message, HTTP 400 that reports a recorded failure with an optional redirect, HTTP 404,
  and any other error that is thrown.\<close>

datatype response_error =
    Response_Client_Error string
  | Response_Failure_Recorded "string option"
  | Response_Not_Found
  | Response_Thrown string

definition already_used :: string where
  "already_used = ''The presentation offer has already been used''"

text \<open>\<open>isWalletErrorResponse\<close>: the error code and description.\<close>

definition wallet_error_of :: "json \<Rightarrow> (string \<times> string option) option" where
  "wallet_error_of v =
     (case jget ''error'' (Some v) of
        Some (JStr e) \<Rightarrow>
          (case jget ''error_description'' (Some v) of
             None \<Rightarrow> Some (e, None) | Some (JStr d) \<Rightarrow> Some (e, Some d) | _ \<Rightarrow> None)
      | _ \<Rightarrow> None)"

definition body_error_of :: "authorization_response \<Rightarrow> (string \<times> string option) option" where
  "body_error_of body = map_option (\<lambda>e. (e, arb_error_description body)) (arb_error body)"

definition processed_redirect :: "response_env \<Rightarrow> string \<Rightarrow> string \<Rightarrow> string option" where
  "processed_redirect env redirectUri sid =
     map_option (\<lambda>u. let p = replaceAll ''{sessionId}'' sid u
       in p @ (if contains_text p ''?'' then ''&'' else ''?'')) (rse_decodeUri env redirectUri)"

definition resolveFailureWebhook :: "request_env \<Rightarrow> session \<Rightarrow> json option" where
  "resolveFailureWebhook env s =
     (if s_parsedWebhook s \<noteq> None then s_parsedWebhook s
      else (case (case s_webhookEndpointId s of
                    Some i \<Rightarrow> Inr (Some i)
                  | None \<Rightarrow> if truthy (s_requestId s)
                            then ebind (rqe_config env (s_requestId s) (s_tenantId s)) (\<lambda>c. Inr (pcf_webhookEndpointId c))
                            else Inr None) of
              Inl _ \<Rightarrow> None
            | Inr i \<Rightarrow> (case resolveWebhookFromEndpoint env i (s_tenantId s) of Inl _ \<Rightarrow> None | Inr w \<Rightarrow> w)))"

definition redirect_choice :: "string option \<Rightarrow> string option \<Rightarrow> string option" where
  "redirect_choice first second =
     (if truthy first then first else if truthy second then second else None)"

definition handleWalletError ::
    "response_env \<Rightarrow> date \<Rightarrow> session \<Rightarrow> string \<times> string option \<Rightarrow> sessions
       \<Rightarrow> (response_error + response_reply) \<times> sessions \<times> session_event list" where
  "handleWalletError env now s walletError db =
     (let (error, description) = walletError;
          errorMessage = (if truthy description then error @ '': '' @ the description else error);
          webhook = resolveFailureWebhook (rse_request env) s;
          (failure, db', events) = failPresentationResponse (rse_publishFailure env) now
            \<lparr>fl_tenantId = s_tenantId s, fl_sessionId = s_id s, fl_message = ''Wallet error: '' @ errorMessage,
             fl_code = Some error, fl_credentials = None, fl_publish = map_option (\<lambda>w. (w, s)) webhook\<rparr> db
      in if \<not> fr_failed failure then (Inl (Response_Client_Error already_used), db', events)
         else (case redirect_choice (fr_redirectUri failure) (s_redirectUri s) of
                 None \<Rightarrow> (Inr Reply_Empty, db', events)
               | Some redirectUri \<Rightarrow>
                   (case processed_redirect env redirectUri (s_id s) of
                      None \<Rightarrow> (Inl (Response_Thrown ''URI malformed''), db', events)
                    | Some p \<Rightarrow>
                        (Inr (Reply_Redirect (p @ ''error='' @ rqe_uri (rse_request env) error
                           @ (if truthy description
                              then ''&error_description='' @ rqe_uri (rse_request env) (the description) else []))),
                         db', events))))"

end
