(* ===== verification/Presentation_Response.thy ===== *)
theory Presentation_Response
  imports Presentation_Endpoint
begin

text \<open>
  The handler of the wallet's response, \<open>getResponse\<close> of \<open>verifier/oid4vp/oid4vp.service.ts\<close>, with
  \<open>application/process-verified-presentation.ts\<close>. The session is read when the request arrives;
  \<open>others\<close> are the statements of other requests between that read and the statement that completes or
  fails the session.
\<close>

section \<open>Errors of a verification\<close>

text \<open>\<open>presentationVerificationException\<close>, as far as the handler uses it: the message of the exception.\<close>

definition exception_message :: "verification_error \<Rightarrow> string" where
  "exception_message e = (case e of
       Unsupported_Format f \<Rightarrow> ''Unsupported credential type: '' @ f | _ \<Rightarrow> error_message e)"

definition failed_credential :: "verification_error \<Rightarrow> (string \<times> credential_failure \<times> string option \<times> string option) option" where
  "failed_credential e = (case e of Credential_Failed i f format docType \<Rightarrow> Some (i, f, format, docType) | _ \<Rightarrow> None)"

definition classifyVerificationFailure :: "verification_error \<Rightarrow> (string \<times> string \<times> json) option" where
  "classifyVerificationFailure e =
     map_option (\<lambda>(i, f, format, docType). let (code, message) = verificationFailureDetails (vfl_type f)
       in (code, message, JObj ([(''id'', JStr i)] @ json_member ''format'' (map_option JStr format)
            @ json_member ''docType'' (map_option JStr docType)
            @ [(''verified'', JBool False), (''error'', JStr code), (''message'', JStr message)])))
       (failed_credential e)"

definition failure_report :: "verification_error \<Rightarrow> string \<times> string option \<times> json list option" where
  "failure_report e =
     (case classifyVerificationFailure e of
        Some (code, message, credential) \<Rightarrow> (message, Some code, Some [credential])
      | None \<Rightarrow>
          (case e of
             Incomplete_Presentation v \<Rightarrow> (ipr_message v, ipr_code v, None)
           | _ \<Rightarrow> (''Presentation validation failed: '' @ exception_message e, None, None)))"


section \<open>The body of the response\<close>

definition unencryptedDirectPostResponse :: "response_env \<Rightarrow> authorization_response \<Rightarrow> response_error + json" where
  "unencryptedDirectPostResponse env body =
     (if \<not> jtruthy (arb_vp_token body) then Inl (Response_Client_Error ''Missing vp_token in authorization response'')
      else (case arb_vp_token body of
              Some (JStr t) \<Rightarrow>
                (case rse_parseJson env t of
                   None \<Rightarrow> Inl (Response_Client_Error ''Invalid vp_token in authorization response: not valid JSON'')
                 | Some v \<Rightarrow> Inr (JObj ([(''vp_token'', v)] @ json_member ''state'' (map_option JStr (arb_state body)))))
            | v \<Rightarrow> Inr (JObj ([(''vp_token'', the v)] @ json_member ''state'' (map_option JStr (arb_state body))))))"

definition isRedirectUriScheme :: "session \<Rightarrow> bool" where
  "isRedirectUriScheme s \<longleftrightarrow> starts_with (coalesce (s_clientId s) []) (REDIRECT_URI @ '':'')"

definition decrypted_response :: "response_env \<Rightarrow> session \<Rightarrow> authorization_response \<Rightarrow> response_error + json" where
  "decrypted_response env s body =
     (if isRedirectUriScheme s then unencryptedDirectPostResponse env body
      else if \<not> truthy (arb_response body)
      then Inl (Response_Client_Error ''Missing response field in authorization response'')
      else map_failure Response_Thrown
        (rse_decrypt env (the (arb_response body)) (s_tenantId s) (s_responseEncryptionPrivateJwk s)))"


section \<open>Completing a verified presentation\<close>

definition credentials_json :: "verified_presentation \<Rightarrow> json list" where
  "credentials_json vs = map (\<lambda>(i, cs). JObj [(''id'', JStr i), (''values'', JArr (map JObj cs))]) vs"

datatype process_error = Invalid_State string | Already_Consumed

definition processVerifiedPresentation ::
    "response_env \<Rightarrow> date \<Rightarrow> auth_response \<Rightarrow> session \<Rightarrow> verified_presentation \<Rightarrow> string \<Rightarrow> json option \<Rightarrow> json
       \<Rightarrow> sessions \<Rightarrow> (process_error + string option) \<times> sessions \<times> session_event list" where
  "processVerifiedPresentation env now response s credentials responseCode webhook raw db =
     (case validateState response (walletFacingId s) of
        Inl e \<Rightarrow> (Inl (Invalid_State e), db, [])
      | Inr _ \<Rightarrow>
          (case completePresentationResponse now
                  \<lparr>cp_tenantId = s_tenantId s, cp_sessionId = s_id s, cp_credentials = credentials_json credentials,
                   cp_responseCode = responseCode, cp_consumedAt = None\<rparr> db of
             (Inl _, db', events) \<Rightarrow> (Inl Already_Consumed, db', events)
           | (Inr outcome, db', events) \<Rightarrow>
               (Inr (case webhook of
                       None \<Rightarrow> s_redirectUri s
                     | Some w \<Rightarrow>
                         (case rse_publishResult env w s outcome (credentials_json credentials) raw of
                            Inl _ \<Rightarrow> s_redirectUri s
                          | Inr r \<Rightarrow> if truthy r then r else s_redirectUri s)),
                db', events)))"


section \<open>Recording a failure\<close>

definition recordFailure ::
    "response_env \<Rightarrow> date \<Rightarrow> session \<Rightarrow> string option \<Rightarrow> string \<times> string option \<times> json list option \<Rightarrow> json option
       \<Rightarrow> sessions \<Rightarrow> (response_error + response_reply) \<times> sessions \<times> session_event list" where
  "recordFailure env now s redirect report webhook db =
     (let (message, code, credentials) = report;
          (failure, db', events) = failPresentationResponse (rse_publishFailure env) now
            \<lparr>fl_tenantId = s_tenantId s, fl_sessionId = s_id s, fl_message = message, fl_code = code,
             fl_credentials = credentials, fl_publish = map_option (\<lambda>w. (w, s)) webhook\<rparr> db
      in case redirect_choice (fr_redirectUri failure) redirect of
           None \<Rightarrow> (Inl (Response_Failure_Recorded None), db', events)
         | Some redirectUri \<Rightarrow>
             (case processed_redirect env redirectUri (s_id s) of
                None \<Rightarrow> (Inl (Response_Thrown ''URI malformed''), db', events)
              | Some p \<Rightarrow> (Inl (Response_Failure_Recorded (Some (p @ ''error=invalid_request&error_description=''
                            @ rqe_uri (rse_request env) message))), db', events)))"


section \<open>The handler\<close>

definition verification_of :: "response_env \<Rightarrow> verification_env" where
  "verification_of env = wqe_verification (rqe_query (rse_request env))"

text \<open>The part of the handler that runs once the response is parsed.\<close>

definition process_response ::
    "response_env \<Rightarrow> date \<Rightarrow> string \<Rightarrow> session_stmt list \<Rightarrow> session \<Rightarrow> authorization_response \<Rightarrow> json \<Rightarrow> auth_response
       \<Rightarrow> presentation_config \<Rightarrow> json option \<Rightarrow> sessions
       \<Rightarrow> (response_error + response_reply) \<times> sessions \<times> session_event list" where
  "process_response env now responseCode others s body raw response config webhook db =
     (let db1 = exec_stmts others db
      in case verifyPresentationResponse (verification_of env) now response (presentation_query_of config) s of
           Inl e \<Rightarrow> recordFailure env now s (s_redirectUri s) (failure_report e) webhook db1
         | Inr credentials \<Rightarrow>
             (case processVerifiedPresentation env now response s credentials responseCode webhook raw db1 of
                (Inl Already_Consumed, db2, events) \<Rightarrow> (Inl (Response_Client_Error already_used), db2, events)
              | (Inl (Invalid_State e), db2, events) \<Rightarrow>
                  recordFailure env now s (s_redirectUri s)
                    (''Presentation validation failed: '' @ e, None, None) webhook db2
              | (Inr redirect, db2, events) \<Rightarrow>
                  (if truthy redirect
                   then (case processed_redirect env (the redirect) (s_id s) of
                           Some p \<Rightarrow> (Inr (Reply_Redirect (p @ ''response_code='' @ responseCode)), db2, events)
                         | None \<Rightarrow>
                             (let (r, db3, events') = recordFailure env now s redirect
                                    (''Presentation validation failed: URI malformed'', None, None) webhook db2
                              in (r, db3, events @ events')))
                   else if arb_sendResponse body then (Inr (Reply_Credentials credentials), db2, events)
                   else (Inr Reply_Empty, db2, events))))"

definition getResponse ::
    "response_env \<Rightarrow> date \<Rightarrow> string \<Rightarrow> session_stmt list \<Rightarrow> authorization_response \<Rightarrow> string \<Rightarrow> sessions
       \<Rightarrow> (response_error + response_reply) \<times> sessions \<times> session_event list" where
  "getResponse env now responseCode others body nonce db =
     (case getForWalletRequest nonce db of
        Inl _ \<Rightarrow> (Inl Response_Not_Found, db, [])
      | Inr s \<Rightarrow>
          (if s_consumed s then (Inl (Response_Client_Error already_used), db, [])
           else (case assertSessionUsable s now of
             Inl (SessionNotUsable e) \<Rightarrow> (Inl (Response_Client_Error (SessionNotUsable_message e)), db, [])
           | Inr _ \<Rightarrow>
               (case body_error_of body of
                  Some werr \<Rightarrow> handleWalletError env now s werr (exec_stmts others db)
                | None \<Rightarrow>
                    (case decrypted_response env s body of
                       Inl e \<Rightarrow> (Inl e, db, [])
                     | Inr decrypted \<Rightarrow>
                         (case wallet_error_of decrypted of
                            Some werr \<Rightarrow> handleWalletError env now s werr (exec_stmts others db)
                          | None \<Rightarrow>
                              (case parse_authorization_response decrypted of
                                 Inl e \<Rightarrow> (Inl (Response_Client_Error e), db, [])
                               | Inr response \<Rightarrow>
                                   (case rqe_config (rse_request env) (s_requestId s) (s_tenantId s) of
                                      Inl e \<Rightarrow> (Inl (Response_Thrown e), db, [])
                                    | Inr config \<Rightarrow>
                                        (case (if s_parsedWebhook s \<noteq> None then Inr (s_parsedWebhook s)
                                               else resolveWebhookFromEndpoint (rse_request env)
                                                 (coalesce_opt (s_webhookEndpointId s) (pcf_webhookEndpointId config))
                                                 (s_tenantId s)) of
                                           Inl e \<Rightarrow> (Inl (Response_Thrown e), db, [])
                                         | Inr webhook \<Rightarrow>
                                             process_response env now responseCode others s body decrypted response
                                               config webhook db)))))))))"

end
