(* ===== verification/Trust_Properties.thy ===== *)
theory Trust_Properties
  imports Wallet_Query
begin

text \<open>
  Which issuers a verifier accepts: chains validated against a trust list, trust lists that cannot be
  evaluated, the search for a federation trust anchor and its cache, and the authorities named to the
  wallet.
\<close>

section \<open>Chains against a trust list\<close>

text \<open>The trust options of a credential query whose trust lists resolved to \<open>refs\<close>.\<close>

lemma trust_options:
  assumes "refs \<noteq> []"
  shows "vop_federationTrustSource (verifierTrustOptions refs t authorities mode skew) = None"
    and "\<exists>src. vop_trustListSource (verifierTrustOptions refs t authorities mode skew) = Some src \<and> tsr_lotes src = refs"
    and "vop_requireX5c (verifierTrustOptions refs t authorities mode skew)"
  using assms by (auto simp: verifierTrustOptions_def Let_def)

lemma no_federation [simp]:
  "getMode None = Hybrid" "shouldUseLote None" "shouldUseFederation None" "\<not> isEnabled None"
  by (auto simp: getMode_def shouldUseLote_def shouldUseFederation_def isEnabled_def)

lemma validateChain_no_federation:
  assumes "cpo_federationTrustSource policy = None" "x5c \<noteq> []" "parseX5c env x5c = Inr presented"
  shows "validateChain env now x5c source policy =
    (case getTrustStoreIfConfigured env now source of
       Inl _ \<Rightarrow> Inr (chain_failed Chain_Trust_List_Unavailable)
     | Inr None \<Rightarrow> Inr (chain_ok None)
     | Inr (Some store) \<Rightarrow>
         validate_against_store env now policy False (fst (tve_federation env x5c None)) presented store)"
  using assms by (simp add: validateChain_def Let_def split: sum.splits option.splits)

lemma validateChain_verified:
  assumes "validateChain env now x5c source policy = Inr r" "chr_verified r" "cpo_requireX5c policy"
    and "cpo_federationTrustSource policy = None"
  shows "x5c \<noteq> [] \<and> (\<exists>presented. parseX5c env x5c = Inr presented)"
  using assms by (auto simp: validateChain_def Let_def chain_failed_def split: sum.splits if_splits)

lemma store_not_none:
  assumes "getTrustStoreIfConfigured env now (Some src) = Inr st" "tsr_lotes src \<noteq> []"
  shows "\<exists>store. st = Some store \<and> tve_store env src = Inr store"
  using assms by (auto simp: getTrustStoreIfConfigured_def Let_def split: sum.splits if_splits)

text \<open>C19: A trust list decides. When the credential query names a trust list, whatever other trusted
  authorities it names, a certificate chain is accepted only if its path was built from the presented and
  the listed certificates, every certificate of the path is valid now, and the loaded list has an entity
  with a service of the issuance kind whose certificate is the presented leaf, or the authority the path
  ends in.\<close>

theorem validated_chain_is_listed:
  assumes "refs \<noteq> []" "options = verifierTrustOptions refs t authorities mode skew"
    and "validateChain env now x5c (vop_trustListSource options) (issuance_policy options) = Inr r" "chr_verified r"
  shows "\<exists>src store presented path m s.
      vop_trustListSource options = Some src \<and> tsr_lotes src = refs \<and> tve_store env src = Inr store
    \<and> parseX5c env x5c = Inr presented
    \<and> buildPath env (hd presented) presented
        (parseTrustAnchors env (map tsv_certValue (concat (map ten_services (bst_entities store))))) = Inr path
    \<and> path \<noteq> [] \<and> list_all (\<lambda>c. isTimeValid c now) path
    \<and> chr_matchedEntity r = Some m \<and> mte_entity m \<in> set (bst_entities store) \<and> s \<in> set (ten_services (mte_entity m))
    \<and> ends_with (tsv_type s) ''/Issuance'' \<and> tve_parseDer env (tsv_certValue s) = Inr (mte_issuanceCert m)
    \<and> (if isCaCert (mte_issuanceCert m) then crt_thumbprint (mte_issuanceCert m) = crt_thumbprint (last path)
       else crt_thumbprint (mte_issuanceCert m) = crt_thumbprint (hd path))"
proof -
  let ?p = "issuance_policy options"
  have fed: "cpo_federationTrustSource ?p = None" and x5c: "cpo_requireX5c ?p" and pinned: "cpo_pinnedCertMode ?p = Pinned_Leaf"
    and filt: "cpo_serviceTypeFilter ?p = ''/Issuance''"
    using assms(1,2) by (auto simp: issuance_policy_def verifierTrustOptions_def Let_def)
  obtain src where src: "vop_trustListSource options = Some src" "tsr_lotes src = refs"
    using trust_options(2) [OF assms(1)] assms(2) by blast
  obtain presented where pr: "x5c \<noteq> []" "parseX5c env x5c = Inr presented"
    using validateChain_verified [OF assms(3,4) x5c fed] by blast
  obtain store where st: "getTrustStoreIfConfigured env now (Some src) = Inr (Some store)" "tve_store env src = Inr store"
    and v: "validate_against_store env now ?p False (fst (tve_federation env x5c None)) presented store = Inr r"
    using assms(1,3,4) src store_not_none [of env now src]
    unfolding validateChain_no_federation [OF fed pr]
    by (fastforce simp: chain_failed_def split: sum.splits option.splits)
  obtain path m where pm: "buildPath env (hd presented) presented
      (parseTrustAnchors env (map tsv_certValue (concat (map ten_services (bst_entities store))))) = Inr path"
    "path \<noteq> []" "list_all (\<lambda>c. isTimeValid c now) path" "chr_matchedEntity r = Some m"
    "match_entities env (hd path) (last path) (cpo_pinnedCertMode ?p) (cpo_serviceTypeFilter ?p) (bst_entities store)
       = Inr (Some m)"
    using validated_against_store [OF v assms(4)] by auto
  from match_entities_found [OF pm(5)] obtain s where s: "mte_entity m \<in> set (bst_entities store)"
    "s \<in> set (ten_services (mte_entity m))" "service_type_filter ''/Issuance'' s"
    "tve_parseDer env (tsv_certValue s) = Inr (mte_issuanceCert m)"
    "match_mode_of (hd path) (last path) Pinned_Leaf (mte_issuanceCert m) = Some (mte_matchMode m)"
    using pinned filt by auto
  from s(5) have "if isCaCert (mte_issuanceCert m) then crt_thumbprint (mte_issuanceCert m) = crt_thumbprint (last path)
       else crt_thumbprint (mte_issuanceCert m) = crt_thumbprint (hd path)"
    by (auto simp: match_mode_of_def split: if_splits)
  moreover have "ends_with (tsv_type s) ''/Issuance''" using s(3) by (simp add: service_type_filter_def starts_with_def)
  ultimately show ?thesis using src st pr pm s by blast
qed

text \<open>C20: A trust list that cannot be evaluated accepts nobody. When the query names a trust list and the
  list cannot be loaded or its next update lies in the past, every parsable chain is refused with that
  reason, whatever other trusted authorities the query names.\<close>

theorem trust_list_fails_closed:
  assumes "refs \<noteq> []" "options = verifierTrustOptions refs t authorities mode skew"
    and "vop_trustListSource options = Some src" "x5c \<noteq> []" "parseX5c env x5c = Inr presented"
    and "case tve_store env src of Inl e \<Rightarrow> True
      | Inr store \<Rightarrow> (\<exists>text u. bst_nextUpdate store = Some text \<and> text \<noteq> []
          \<and> tve_nextUpdate env text = Some u \<and> u < now)"
  shows "validateChain env now x5c (vop_trustListSource options) (issuance_policy options)
    = Inr (chain_failed Chain_Trust_List_Unavailable)"
proof -
  have fed: "cpo_federationTrustSource (issuance_policy options) = None" and refs: "tsr_lotes src \<noteq> []"
    using assms(1-3) by (auto simp: issuance_policy_def verifierTrustOptions_def Let_def)
  have "\<exists>e. getTrustStoreIfConfigured env now (Some src) = Inl e"
    using assms(6) refs by (auto simp: getTrustStoreIfConfigured_def Let_def split: sum.splits)
  with assms(3) show ?thesis by (auto simp: validateChain_no_federation [OF fed assms(4,5)])
qed


definition tcert1 :: certificate where
  "tcert1 = \<lparr>crt_thumbprint = ''aa'', crt_subject = ''CN=Issuer'', crt_ca = None, crt_notBefore = 0, crt_notAfter = 100\<rparr>"

definition tref1 :: trust_list_ref where
  "tref1 = external_ref ''https://list'' None None (Some ''der'')"

definition tstore1 :: built_store where
  "tstore1 = \<lparr>bst_fetchedAt = 0, bst_nextUpdate = Some ''100'',
     bst_entities = [\<lparr>ten_entityId = Some ''issuer'', ten_services = [\<lparr>tsv_type = EaaIssuance, tsv_certValue = ''cert''\<rparr>]\<rparr>]\<rparr>"

definition trustenv1 :: trust_env where
  "trustenv1 = \<lparr>tve_parseX5c = (\<lambda>_. Inr tcert1), tve_parseDer = (\<lambda>_. Inr tcert1), tve_build = (\<lambda>leaf pool. Inr [leaf]),
     tve_store = (\<lambda>_. Inr tstore1), tve_federation = (\<lambda>_ _. rejected No_Anchors), tve_nextUpdate = (\<lambda>_. Some 100)\<rparr>"

definition voptions1 :: verifier_options where
  "voptions1 = verifierTrustOptions [tref1] (Some ''t'') (Some [Openid_Federation [''https://ta'']]) None None"

lemmas trust_example = tcert1_def tref1_def tstore1_def trustenv1_def voptions1_def external_ref_def

lemma validated1:
  "\<exists>r. validateChain trustenv1 50 [''x''] (vop_trustListSource voptions1) (issuance_policy voptions1) = Inr r \<and> chr_verified r"
proof -
  have "chr_verified (case validateChain trustenv1 50 [''x''] (vop_trustListSource voptions1) (issuance_policy voptions1) of
      Inr r \<Rightarrow> r | Inl e \<Rightarrow> chain_failed Invalid_X5c)"
    by code_simp
  then show ?thesis by (auto simp: chain_failed_def split: sum.splits)
qed

theorem validated_chain_is_listed_witness:
  "\<exists>r m. validateChain trustenv1 50 [''x''] (vop_trustListSource voptions1) (issuance_policy voptions1) = Inr r
    \<and> chr_matchedEntity r = Some m \<and> mte_entity m \<in> set (bst_entities tstore1)"
proof -
  obtain r where r: "validateChain trustenv1 50 [''x''] (vop_trustListSource voptions1) (issuance_policy voptions1) = Inr r"
    "chr_verified r"
    using validated1 by blast
  have "[tref1] \<noteq> []" by simp
  from validated_chain_is_listed [OF this voptions1_def r]
  obtain src store m where "tve_store trustenv1 src = Inr store" "chr_matchedEntity r = Some m"
    "mte_entity m \<in> set (bst_entities store)"
    by blast
  moreover from this have "store = tstore1" by (simp add: trustenv1_def)
  ultimately show ?thesis using r by blast
qed

theorem trust_list_fails_closed_witness:
  "validateChain trustenv1 101 [''x''] (vop_trustListSource voptions1) (issuance_policy voptions1)
     = Inr (chain_failed Chain_Trust_List_Unavailable)"
proof -
  have src: "vop_trustListSource voptions1 = Some (the (vop_trustListSource voptions1))"
    by (simp add: voptions1_def verifierTrustOptions_def Let_def)
  show ?thesis
    by (rule trust_list_fails_closed [OF _ voptions1_def src, where presented = "[tcert1]"])
      (simp_all add: trustenv1_def tstore1_def parseX5c_def)
qed


section \<open>Federation\<close>

text \<open>A chain of at most \<open>n\<close> hints to an anchor over the configurations that were served.\<close>

inductive served_chain :: "traversal_limits \<Rightarrow> (string \<Rightarrow> entity_configuration \<Rightarrow> bool) \<Rightarrow> string set \<Rightarrow> nat \<Rightarrow> string \<Rightarrow> bool"
  for lim served anchors where
  anchor: "e \<in> anchors \<Longrightarrow> served_chain lim served anchors n e"
| hint: "served e conf \<Longrightarrow> subject_matches e conf \<Longrightarrow> h \<in> set (hints_of lim conf)
    \<Longrightarrow> served_chain lim served anchors n h \<Longrightarrow> served_chain lim served anchors (Suc n) e"

lemma chains_served:
  assumes "chains lim resolve anchors n e" "\<And>k e conf. resolve k e = Inr conf \<Longrightarrow> served e conf"
  shows "served_chain lim served (set anchors) n e"
  using assms by (induction rule: chains.induct) (blast intro: served_chain.intros)+

definition anchor_ids :: "federation_anchor list \<Rightarrow> string set" where
  "anchor_ids as = (\<lambda>a. strip_slash (fan_entityId a)) ` set as"

text \<open>Every positive entry of the cache was a chain to an anchor of its key when it was stored.\<close>

definition evaluations_sound ::
    "traversal_limits \<Rightarrow> (string \<Rightarrow> entity_configuration \<Rightarrow> bool) \<Rightarrow> evaluation_cache \<Rightarrow> bool" where
  "evaluations_sound lim served cache \<longleftrightarrow>
     (\<forall>e as c. cache (e, as) = Some c \<and> fst (cev_value c) \<longrightarrow>
        served_chain lim served (anchor_ids as) (tlm_maxDepth lim) e)"

lemma sound_store:
  assumes "evaluations_sound lim served cache"
    and "fst (cev_value c) \<Longrightarrow> served_chain lim served (anchor_ids as) (tlm_maxDepth lim) e"
  shows "evaluations_sound lim served (cache((e, as) \<mapsto> c))"
  using assms by (auto simp: evaluations_sound_def)

lemma sound_lookup:
  "evaluations_sound lim served cache \<Longrightarrow> cache (e, as) = Some c \<Longrightarrow> fst (cev_value c)
     \<Longrightarrow> served_chain lim served (anchor_ids as) (tlm_maxDepth lim) e"
  by (auto simp: evaluations_sound_def)

lemma strip_slash_anchors:
  "list_all (\<lambda>a. strip_slash (strip_slash (fan_entityId a)) = strip_slash (fan_entityId a)) as
     \<Longrightarrow> set (map strip_slash (remdups (map (\<lambda>a. strip_slash (fan_entityId a)) as))) = anchor_ids as"
  by (auto simp: anchor_ids_def list_all_iff image_image intro!: image_eqI)

lemma evaluateEntityTrust_outcome:
  assumes "shouldUseFederation (Some src)"
    and "evaluateEntityTrust lim resolve now later entityId (Some src) cache = (r, cache')"
  defines "e \<equiv> strip_slash entityId" and "ids \<equiv> remdups (map (\<lambda>a. strip_slash (fan_entityId a)) (fsr_trustAnchors src))"
  shows "(cache' = cache \<and> (\<not> fst r \<or> (\<exists>c. cache (e, fsr_trustAnchors src) = Some c \<and> r = cev_value c)))
    \<or> (\<exists>c. cache' = cache((e, fsr_trustAnchors src) \<mapsto> c) \<and> cev_value c = r
        \<and> (\<not> fst r \<or> e \<in> set ids \<or> fst (evaluateFederationTrustChain lim resolve e ids) = Inr r))"
proof -
  let ?key = "(e, fsr_trustAnchors src)"
  let ?hit = "case cache ?key of None \<Rightarrow> False | Some c \<Rightarrow> now < cev_expiresAt c"
  let ?stale = "case cache ?key of None \<Rightarrow> False | Some c \<Rightarrow> now - cev_fetchedAt c \<le> FEDERATION_TRUST_STALE_TTL_MS"
  note run = assms(2) [unfolded evaluateEntityTrust_def e_def [symmetric] Let_def option.case ids_def [symmetric]]
  consider "fsr_trustAnchors src = []" | "fsr_trustAnchors src \<noteq> []" "?hit" | "fsr_trustAnchors src \<noteq> []" "\<not> ?hit" "e \<in> set ids"
    | v where "fsr_trustAnchors src \<noteq> []" "\<not> ?hit" "e \<notin> set ids" "fst (evaluateFederationTrustChain lim resolve e ids) = Inr v"
    | m where "fsr_trustAnchors src \<noteq> []" "\<not> ?hit" "e \<notin> set ids" "fst (evaluateFederationTrustChain lim resolve e ids) = Inl m" "?stale"
    | m where "fsr_trustAnchors src \<noteq> []" "\<not> ?hit" "e \<notin> set ids" "fst (evaluateFederationTrustChain lim resolve e ids) = Inl m" "\<not> ?stale"
    by (cases "fst (evaluateFederationTrustChain lim resolve e ids)") blast+
  then show ?thesis
  proof cases
    case 1 with run assms(1) show ?thesis by (auto simp: rejected_def)
  next
    case 2 with run assms(1) show ?thesis by (auto split: option.splits)
  next
    case 3 with run assms(1) show ?thesis by (auto simp: setCache_def)
  next
    case 4 with run assms(1) show ?thesis by (auto simp: setCache_def)
  next
    case 5 with run assms(1) show ?thesis by (auto split: option.splits)
  next
    case 6 with run assms(1) show ?thesis by (auto simp: setNegativeCache_def rejected_def)
  qed
qed


definition fsource1 :: federation_source where
  "fsource1 = \<lparr>fsr_mode = Some Federation_Only,
     fsr_trustAnchors = [\<lparr>fan_entityId = ''https://ta/'', fan_configurationUri = ''''\<rparr>],
     fsr_cacheTtlSeconds = None, fsr_enforceSigningPolicy = None\<rparr>"

definition fconf1 :: entity_configuration where
  "fconf1 = \<lparr>ecf_sub = Some ''https://rp'', ecf_authority_hints = Some [''https://ta'']\<rparr>"

definition fserved1 :: "string \<Rightarrow> entity_configuration \<Rightarrow> bool" where
  "fserved1 e c \<longleftrightarrow> e = ''https://rp'' \<and> c = fconf1"

definition fresolve1 :: resolver where
  "fresolve1 k e = (if e = ''https://rp'' then Inr fconf1 else Inl ''not found'')"

definition frun1 :: "trust_result \<times> evaluation_cache" where
  "frun1 = evaluateEntityTrust DEFAULT_FEDERATION_TRAVERSAL_LIMITS fresolve1 0 0 ''https://rp'' (Some fsource1) (\<lambda>_. None)"

lemmas federation_example = fsource1_def fconf1_def fserved1_def fresolve1_def frun1_def
  DEFAULT_FEDERATION_TRAVERSAL_LIMITS_def

lemma frun1_trusted: "fst frun1 = (True, Chains_To_Anchor)"
  by code_simp




section \<open>Authorities named to the wallet\<close>

definition wallet_key :: "issuer_certificate \<Rightarrow> string option" where
  "wallet_key c = (if icr_ca c then icr_ski c else icr_aki c)"

lemma set_add_value: "set (add_value v xs) = set xs \<union> set_option v"
  by (auto simp: add_value_def split: option.splits)

lemma add_service_facts:
  assumes "kid_complete (add_service parse k s)"
  shows "kid_complete k" and "set (kid_values k) \<subseteq> set (kid_values (add_service parse k s))"
    and "is_issuance s \<Longrightarrow> \<exists>c i. parse (tsv_certValue s) = Some c \<and> wallet_key c = Some i
      \<and> i \<in> set (kid_values (add_service parse k s))"
  using assms by (auto simp: add_service_def Let_def set_add_value wallet_key_def split: if_splits option.splits)

lemma add_services_facts:
  assumes "kid_complete (foldl (add_service parse) k ss)"
  shows "set (kid_values k) \<subseteq> set (kid_values (foldl (add_service parse) k ss)) \<and> kid_complete k
    \<and> (\<forall>s \<in> set ss. is_issuance s \<longrightarrow> (\<exists>c i. parse (tsv_certValue s) = Some c \<and> wallet_key c = Some i
        \<and> i \<in> set (kid_values (foldl (add_service parse) k ss))))"
  using assms
proof (induction ss arbitrary: k)
  case (Cons s ss)
  note rest = Cons.IH [of "add_service parse k s"]
  from Cons.prems rest have c: "kid_complete (add_service parse k s)" by simp
  from add_service_facts [OF c] rest Cons.prems show ?case by simp blast
qed simp

text \<open>C27: The wallet can find every listed issuer. For a trust list of the query that could be loaded, every
  listed issuance service is covered: the authorities sent to the wallet contain the key identifier that
  credentials of this issuer carry in their chain, or they still contain the address of the list.\<close>

theorem wallet_reaches_listed_issuers:
  assumes "ref \<in> set refs" "wqe_listed env ref tenantId = Inr entities" "e \<in> set entities"
    and "s \<in> set (ten_services e)" "is_issuance s" "list_url env tenantHost ref = Some url" "url \<noteq> []"
  shows "(\<exists>urls. wallet_entry ''etsi_tl'' urls \<in> set (toWalletAuthorities env refs tenantId tenantHost) \<and> url \<in> set urls)
    \<or> (\<exists>values c i. wallet_entry ''aki'' values \<in> set (toWalletAuthorities env refs tenantId tenantHost)
        \<and> wqe_parse env (tsv_certValue s) = Some c \<and> wallet_key c = Some i \<and> i \<in> set values)"
proof -
  let ?k = "authorityKeyIdentifiers env ref tenantId"
  show ?thesis
  proof (cases "covered ?k")
    case False
    let ?urls = "List.map_filter (\<lambda>ref. if covered (authorityKeyIdentifiers env ref tenantId) then None
      else if truthy (list_url env tenantHost ref) then list_url env tenantHost ref else None) refs"
    have url: "url \<in> set ?urls" using False assms(1,6,7) by (auto simp: set_map_filter intro!: bexI [of _ ref])
    then have "?urls \<noteq> []" by (metis empty_iff empty_set)
    then have "wallet_entry ''etsi_tl'' ?urls \<in> set (toWalletAuthorities env refs tenantId tenantHost)"
      by (simp add: toWalletAuthorities_def Let_def)
    with url show ?thesis by blast
  next
    case True
    have k: "?k = foldl (add_service (wqe_parse env)) \<lparr>kid_values = [], kid_complete = True\<rparr> (concat (map ten_services entities))"
      using assms(2) by (simp add: authorityKeyIdentifiers_def credentialIssuerAuthorityKeyIdentifiers_def)
    have "\<exists>c i. wqe_parse env (tsv_certValue s) = Some c \<and> wallet_key c = Some i \<and> i \<in> set (kid_values ?k)"
      using add_services_facts [of "wqe_parse env" "\<lparr>kid_values = [], kid_complete = True\<rparr>" "concat (map ten_services entities)"]
        True assms(3-5) unfolding k covered_def by auto
    then obtain c i where ci: "wqe_parse env (tsv_certValue s) = Some c" "wallet_key c = Some i" "i \<in> set (kid_values ?k)"
      by blast
    let ?aki = "distinct_first (concat (map (\<lambda>ref. kid_values (authorityKeyIdentifiers env ref tenantId)) refs))"
    have i: "i \<in> set ?aki" using ci(3) assms(1) by auto
    then have "?aki \<noteq> []" by (metis empty_iff empty_set)
    then have "wallet_entry ''aki'' ?aki \<in> set (toWalletAuthorities env refs tenantId tenantHost)"
      by (simp add: toWalletAuthorities_def Let_def)
    with ci i show ?thesis by blast
  qed
qed

definition wenv1 :: "verification_env \<Rightarrow> wallet_query_env" where
  "wenv1 v = \<lparr>wqe_listed = (\<lambda>_ _. Inr (bst_entities tstore1)),
     wqe_parse = (\<lambda>_. Some \<lparr>icr_ski = Some ''ski'', icr_ca = False, icr_aki = Some ''aki''\<rparr>), wqe_verification = v\<rparr>"

theorem wallet_reaches_listed_issuers_witness:
  "\<forall>v. (\<exists>urls. wallet_entry ''etsi_tl'' urls \<in> set (toWalletAuthorities (wenv1 v) [tref1] ''t'' ''h'') \<and> ''https://list'' \<in> set urls)
    \<or> (\<exists>values i. wallet_entry ''aki'' values \<in> set (toWalletAuthorities (wenv1 v) [tref1] ''t'' ''h'') \<and> i \<in> set values)"
proof
  fix v
  have e: "bst_entities tstore1 = [\<lparr>ten_entityId = Some ''issuer'', ten_services = [\<lparr>tsv_type = EaaIssuance, tsv_certValue = ''cert''\<rparr>]\<rparr>]"
    by (simp add: tstore1_def)
  have "is_issuance \<lparr>tsv_type = EaaIssuance, tsv_certValue = ''cert''\<rparr>" by code_simp
  then show "(\<exists>urls. wallet_entry ''etsi_tl'' urls \<in> set (toWalletAuthorities (wenv1 v) [tref1] ''t'' ''h'') \<and> ''https://list'' \<in> set urls)
    \<or> (\<exists>values i. wallet_entry ''aki'' values \<in> set (toWalletAuthorities (wenv1 v) [tref1] ''t'' ''h'') \<and> i \<in> set values)"
    using wallet_reaches_listed_issuers [of tref1 "[tref1]" "wenv1 v" "''t''" "bst_entities tstore1" _ _ "''h''" "''https://list''"]
    by (fastforce simp: wenv1_def e list_url_def tref1_def external_ref_def)
qed

text \<open>The query sent to the wallet differs from the configured one only in its trusted authorities, and
  contains none when the escape hatch for such wallets is set: without them it is the configured query, with
  the tenant's host filled in.\<close>

theorem wallet_query_keeps_claims:
  "applyTrustedAuthoritiesPolicy (buildDcqlQuery env removeTA q tenantId) True
     = applyTrustedAuthoritiesPolicy
         (replace_strings (replaceAll ''<TENANT_URL>'' (vne_publicUrl (wqe_verification env) @ ''/issuers/'' @ tenantId)) q) True"
  by (simp add: buildDcqlQuery_def Let_def policy_strips policy_transform)

end
