(* ===== verification/Verification_Examples.thy ===== *)
theory Verification_Examples
  imports Presentation_Response Trust_Properties
begin

text \<open>
  A small verifier on which the theorems are applied: one issuer in the trust list, a library that accepts
  one SD-JWT VC and one mdoc, a session with a request object, and the response of its wallet.
\<close>

section \<open>Parameters\<close>

definition vissuer_key1 :: json where
  "vissuer_key1 = JObj [(''kty'', JStr ''EC''), (''crv'', JStr ''P-256''), (''x'', JStr ''issuer'')]"

definition vholder_key1 :: json where
  "vholder_key1 = JObj [(''kty'', JStr ''EC''), (''crv'', JStr ''P-256''), (''x'', JStr ''holder'')]"

definition vpayload1 :: json where
  "vpayload1 = JObj [(''vct'', JStr ''pid''), (''age'', JNum 21), (''cnf'', JObj [(''jwk'', vholder_key1)])]"

definition vkb1 :: json where
  "vkb1 = JObj [(''iat'', JNum 0), (''aud'', JStr ''x509_hash:h''), (''nonce'', JStr ''n''),
     (''transaction_data_hashes'', JArr [JStr ''sha256:td''])]"

definition vcrypto1 :: crypto_env where
  "vcrypto1 = \<lparr>
     sve_json64 = (\<lambda>s. if s = ''h'' then Inr (JObj [(''x5c'', JArr [JStr ''cert''])]) else if s = ''k'' then Inr vkb1
       else Inl ''not JSON''),
     sve_certKey = (\<lambda>_. Inr (Inr vissuer_key1)),
     sve_getVerifier = (\<lambda>k. Inr (\<lambda>data signature. Inr (signature = coalesce (jstr (jget ''x'' k)) []))),
     sve_hash = (\<lambda>a t. a @ '':'' @ t), sve_fetchStatusListJwt = (\<lambda>_. Inl ''unavailable''),
     sve_parseUrl = (\<lambda>_. None), sve_trust = trustenv1\<rparr>"

text \<open>The library accepts one credential, with the key binding JWT of the nonce \<open>n\<close>.\<close>

definition vlibrary1 :: sdjwt_library where
  "vlibrary1 cbs cred o' st =
     (let (ok, st1) = cbk_verifier cbs ''h.p'' ''issuer'' st
      in if ok \<and> set (lop_requiredClaimKeys o') \<subseteq> {''age''} \<and> lop_keyBindingNonce o' = Some ''n''
           \<and> cbk_kbVerifier cbs ''h.k'' ''holder'' vpayload1 = Inr True
         then (Inr \<lparr>vrs_payload = vpayload1, vrs_kb = Some vkb1\<rparr>, st1)
         else (Inl (Plain ''Invalid credential''), st1))"

lemma vlibrary1_checks: "library_checks (\<lambda>_. [''age'']) vcrypto1 vlibrary1"
  unfolding library_checks_def
proof (intro allI impI)
  fix cbs cred o' st result st'
  assume "vlibrary1 cbs cred o' st = (Inr result, st')"
  then have run: "cbk_verifier cbs ''h.p'' ''issuer'' st = (True, st')" "set (lop_requiredClaimKeys o') \<subseteq> {''age''}"
    "lop_keyBindingNonce o' = Some ''n''" "cbk_kbVerifier cbs ''h.k'' ''holder'' vpayload1 = Inr True"
    "result = \<lparr>vrs_payload = vpayload1, vrs_kb = Some vkb1\<rparr>"
    by (auto simp: vlibrary1_def Let_def split: prod.splits if_splits)
  have status: "jget ''status_list'' (jget ''status'' (Some vpayload1)) = None" by code_simp
  have kb: "sve_json64 vcrypto1 (split_on CHR ''.'' ''h.k'' ! 1) = Inr vkb1" "jget ''nonce'' (Some vkb1) = Some (JStr ''n'')"
    by code_simp+
  have bound: "\<exists>data signature kb. cbk_kbVerifier cbs data signature (vrs_payload result) = Inr True
      \<and> sve_json64 vcrypto1 (split_on CHR ''.'' data ! 1) = Inr kb
      \<and> vrs_kb result = Some kb \<and> jget ''nonce'' (Some kb) = Some (JStr ''n'')"
  proof (intro exI conjI)
    show "cbk_kbVerifier cbs ''h.k'' ''holder'' (vrs_payload result) = Inr True" using run(4,5) by simp
    show "sve_json64 vcrypto1 (split_on CHR ''.'' ''h.k'' ! 1) = Inr vkb1" by (rule kb(1))
    show "vrs_kb result = Some vkb1" using run(5) by simp
  qed (rule kb(2))
  have no_status: "jget ''status_list'' (jget ''status'' (Some (vrs_payload result))) = None" using status run(5) by simp
  have bound': "\<forall>nonce. lop_keyBindingNonce o' = Some nonce \<and> nonce \<noteq> [] \<longrightarrow>
      (\<exists>data signature kb. cbk_kbVerifier cbs data signature (vrs_payload result) = Inr True
        \<and> sve_json64 vcrypto1 (split_on CHR ''.'' data ! 1) = Inr kb
        \<and> vrs_kb result = Some kb \<and> jget ''nonce'' (Some kb) = Some (JStr nonce))"
  proof (intro allI impI)
    fix nonce assume "lop_keyBindingNonce o' = Some nonce \<and> nonce \<noteq> []"
    with run(3) have "nonce = ''n''" by simp
    with bound show "\<exists>data signature kb. cbk_kbVerifier cbs data signature (vrs_payload result) = Inr True
        \<and> sve_json64 vcrypto1 (split_on CHR ''.'' data ! 1) = Inr kb
        \<and> vrs_kb result = Some kb \<and> jget ''nonce'' (Some kb) = Some (JStr nonce)"
      by (simp only:)
  qed
  show "(\<exists>data signature st1. cbk_verifier cbs data signature st = (True, st1)
           \<and> (\<forall>fetch check. cbk_status cbs = Some (fetch, check)
                \<and> jget ''status_list'' (jget ''status'' (Some (vrs_payload result))) \<noteq> None \<longrightarrow>
                (\<exists>sdata ssignature. check sdata ssignature st1)))
        \<and> set (lop_requiredClaimKeys o') \<subseteq> set [''age'']
        \<and> (\<forall>nonce. lop_keyBindingNonce o' = Some nonce \<and> nonce \<noteq> [] \<longrightarrow>
             (\<exists>data signature kb. cbk_kbVerifier cbs data signature (vrs_payload result) = Inr True
                \<and> sve_json64 vcrypto1 (split_on CHR ''.'' data ! 1) = Inr kb
                \<and> vrs_kb result = Some kb \<and> jget ''nonce'' (Some kb) = Some (JStr nonce)))"
  proof (intro conjI)
    show "\<exists>data signature st1. cbk_verifier cbs data signature st = (True, st1)
        \<and> (\<forall>fetch check. cbk_status cbs = Some (fetch, check)
             \<and> jget ''status_list'' (jget ''status'' (Some (vrs_payload result))) \<noteq> None \<longrightarrow>
             (\<exists>sdata ssignature. check sdata ssignature st1))"
      by (rule exI [of _ "''h.p''"], rule exI [of _ "''issuer''"], rule exI [of _ st']) (simp add: run(1) no_status)
    show "set (lop_requiredClaimKeys o') \<subseteq> set [''age'']" using run(2) by simp
  qed (rule bound')
qed

definition vdocument1 :: mdoc_document where
  "vdocument1 = \<lparr>mdd_docType = ''mdl'', mdd_namespaces = [(''ns'', Some [(''age'', JNum 21)])], mdd_x5chain = Some [''cert'']\<rparr>"

definition vmdoc1 :: mdoc_env where
  "vmdoc1 = \<lparr>mde_decode = (\<lambda>_. Inr (Some [vdocument1])),
     mde_transcript = (\<lambda>sd. case sd of Session_Oid4vp h \<Rightarrow> Inr (coalesce (ohv_nonce h) []) | _ \<Rightarrow> Inl ''unsupported''),
     mde_verifyDeviceResponse = (\<lambda>request vp transcript certs disabled. (if transcript = ''n'' then Inr () else Inl ''signature'', False)),
     mde_sha256Json = (\<lambda>_. ''hash''), mde_trust = trustenv1\<rparr>"

definition vrequest_payload1 :: json where
  "vrequest_payload1 = JObj [(''nonce'', JStr ''n''), (''client_id'', JStr ''x509_hash:h''),
     (''dcql_query'', JObj [(''credentials'', JArr [
        JObj [(''id'', JStr ''pid''), (''format'', JStr ''dc+sd-jwt'')],
        JObj [(''id'', JStr ''mdl''), (''format'', JStr ''mso_mdoc'')]])])]"

definition venv1 :: verification_env where
  "venv1 = \<lparr>vne_publicUrl = ''https://v'', vne_verifierX509Der = (\<lambda>_ _. Inr ''der''), vne_uri = (\<lambda>s. s),
     vne_decodeJwt = (\<lambda>_. Inr vrequest_payload1), vne_json64 = (\<lambda>_. None), vne_crypto = vcrypto1,
     vne_sdjwt = vlibrary1, vne_mdoc = vmdoc1\<rparr>"


section \<open>A session and its query\<close>

definition vclaim1 :: dcql_claim where
  "vclaim1 = \<lparr>dqc_id = None, dqc_path = [Seg_Str ''age''], dqc_values = Some [JNum 21]\<rparr>"

definition vmclaim1 :: dcql_claim where
  "vmclaim1 = \<lparr>dqc_id = Some ''a'', dqc_path = [Seg_Str ''ns'', Seg_Str ''age''], dqc_values = None\<rparr>"

definition vcredential1 :: query_credential where
  "vcredential1 = \<lparr>dqq_id = ''pid'', dqq_multiple = None, dqq_claims = Some [vclaim1], dqq_claim_sets = None,
     qcr_trusted_authorities = Some [Etsi_Tl [tref1]], qcr_format = None\<rparr>"

definition vcredential2 :: query_credential where
  "vcredential2 = \<lparr>dqq_id = ''mdl'', dqq_multiple = None, dqq_claims = Some [vmclaim1], dqq_claim_sets = Some [[''a'']],
     qcr_trusted_authorities = Some [Etsi_Tl [tref1]], qcr_format = None\<rparr>"

definition vquery1 :: presentation_query where
  "vquery1 = \<lparr>pqy_tenantId = ''t'', pqy_statusCheckMode = None, pqy_skewSeconds = None,
     pqy_credentials = [vcredential1, vcredential2], pqy_credential_sets = None\<rparr>"

definition vsession1 :: session where
  "vsession1 = (blank_session ''s'' ''t'' 0)\<lparr>s_requestObject := Some ''jwt'', s_vp_nonce := Some ''n'',
     s_clientId := Some ''x509_hash:h'', s_walletNonce := Some ''w'', s_requestId := Some ''r''\<rparr>"

definition vresponse1 :: auth_response where
  "vresponse1 = \<lparr>arp_vp_token = [(''pid'', [''sdjwt'']), (''mdl'', [''mdoc''])], arp_state = Some ''w'',
     arp_iat = None, arp_exp = None\<rparr>"

definition vbinding1 :: oid4vp_binding where
  "vbinding1 = binding_of vsession1 (Some (signed_request_of vrequest_payload1))"

definition vcontext1 :: verification_context where
  "vcontext1 = \<lparr>vcx_credentialId = ''pid'', vcx_binding = Openid4vp vbinding1,
     vcx_options = verifierTrustOptions [tref1] (Some ''t'') None None None,
     vcx_claims = Some [vclaim1], vcx_claimSets = None\<rparr>"

definition vcontext2 :: verification_context where
  "vcontext2 = vcontext1\<lparr>vcx_credentialId := ''mdl'', vcx_claims := Some [vmclaim1], vcx_claimSets := Some [[vmclaim1]]\<rparr>"

definition is_verified :: "verification_error + credential_verification \<Rightarrow> bool" where
  "is_verified r = (case r of Inr (Verified _) \<Rightarrow> True | _ \<Rightarrow> False)"

lemma is_verifiedD: "is_verified r \<Longrightarrow> \<exists>v. r = Inr (Verified v)"
  by (auto simp: is_verified_def split: sum.splits credential_verification.splits)

definition is_right :: "'a + 'b \<Rightarrow> bool" where
  "is_right r = (case r of Inr _ \<Rightarrow> True | Inl _ \<Rightarrow> False)"

lemma is_rightD: "is_right r \<Longrightarrow> \<exists>v. r = Inr v"
  by (auto simp: is_right_def split: sum.splits)

lemma sdjwt_accepted1: "is_verified (sdjwt_format_verify vcrypto1 vlibrary1 50 ''sdjwt'' vcontext1)"
  by code_simp

lemma mdoc_accepted1: "is_verified (Inr (mdoc_format_verify vmdoc1 50 ''mdoc'' vcontext2))"
  by code_simp

lemma response_verified1: "is_right (verifyPresentationResponse venv1 50 vresponse1 vquery1 vsession1)"
  by code_simp

end
