(* ===== verification/Dcql_Properties.thy ===== *)
theory Dcql_Properties
  imports Dcql_Policy Claims_Properties
begin

text \<open>
  The DCQL policy against what a claims path means: which values a path denotes, when the disclosed claims
  satisfy a query, which credentials a query requires, and the claims of an issuer configuration under the
  paths of a query.
\<close>

section \<open>The values a path denotes\<close>

inductive denotes :: "segment list \<Rightarrow> json \<Rightarrow> json \<Rightarrow> bool" where
  here: "denotes [] v v"
| member: "s \<noteq> Seg_Null \<Longrightarrow> map_of kvs (property_key s) = Some x \<Longrightarrow> denotes p x w \<Longrightarrow> denotes (s # p) (JObj kvs) w"
| element: "arrayIndex s = Some i \<Longrightarrow> i < length xs \<Longrightarrow> denotes p (xs ! i) w \<Longrightarrow> denotes (s # p) (JArr xs) w"
| any_element: "x \<in> set xs \<Longrightarrow> denotes p x w \<Longrightarrow> denotes (Seg_Null # p) (JArr xs) w"

inductive_simps denotes_Nil [simp]: "denotes [] v w"
inductive_cases denotes_Cons: "denotes (s # p) v w"

lemma arrayIndex_null [simp]: "arrayIndex Seg_Null = None"
  by (simp add: arrayIndex_def)

lemma denotes_step: "denotes (s # p) v w \<longleftrightarrow> (\<exists>x \<in> set (selectPathSegment v s). denotes p x w)"
proof (cases v)
  case (JArr xs)
  show ?thesis
  proof (cases "arrayIndex s")
    case None
    with JArr show ?thesis by (auto simp: selectPathSegment_def intro: denotes.intros elim!: denotes_Cons)
  next
    case (Some i)
    then have "s \<noteq> Seg_Null" by auto
    with JArr Some show ?thesis by (auto simp: selectPathSegment_def intro: denotes.intros elim!: denotes_Cons)
  qed
next
  case (JObj kvs)
  show ?thesis
  proof (cases "map_of kvs (property_key s)")
    case None
    with JObj show ?thesis by (auto simp: selectPathSegment_def elim!: denotes_Cons)
  next
    case (Some x)
    with JObj show ?thesis by (auto simp: selectPathSegment_def intro: denotes.intros elim!: denotes_Cons)
  qed
qed (auto simp: selectPathSegment_def elim!: denotes_Cons)

lemma select_fold:
  "w \<in> set (foldl (\<lambda>selected s. concat (map (\<lambda>current. selectPathSegment current s) selected)) vs p)
     \<longleftrightarrow> (\<exists>v \<in> set vs. denotes p v w)"
  by (induction p arbitrary: vs) (auto simp: denotes_step)

lemma select_denotes: "w \<in> set (selectClaimValues v path) \<longleftrightarrow> denotes path v w"
  by (simp add: selectClaimValues_def select_fold)


lemma select_empty: "selectClaimValues v path = [] \<longleftrightarrow> (\<forall>w. \<not> denotes path v w)"
  by (metis select_denotes list.set_intros(1) list.exhaust empty_iff empty_set)


section \<open>Satisfied claims\<close>

text \<open>A claim query is satisfied by values: there is one, and one of them is a requested value.\<close>

definition claim_satisfied :: "json set \<Rightarrow> dcql_claim \<Rightarrow> bool" where
  "claim_satisfied values c \<longleftrightarrow> values \<noteq> {}
     \<and> (\<forall>requested. dqc_values c = Some requested \<longrightarrow> (\<exists>w \<in> values. is_primitive w \<and> w \<in> set requested))"

lemma strict_equal_requested: "isRequestedValue w vs \<longleftrightarrow> is_primitive w \<and> w \<in> set vs"
  by (auto simp: isRequestedValue_def strict_equal_def list_ex_iff)

lemma selection_satisfied:
  "isClaimSelectionSatisfied (evaluate_claims cs f) \<longleftrightarrow> (\<forall>c \<in> set cs. claim_satisfied (set (f c)) c)"
  by (auto simp: isClaimSelectionSatisfied_def evaluate_claims_def filter_empty_conv claim_satisfied_def
      value_accepted_def list_ex_iff strict_equal_requested split: option.splits)

definition sdjwt_values :: "json \<Rightarrow> dcql_claim \<Rightarrow> json set" where
  "sdjwt_values payload c = {w. denotes (dqc_path c) payload w}"

lemma sdjwt_selection_satisfied:
  "isClaimSelectionSatisfied (evaluateClaimSelection payload cs)
     \<longleftrightarrow> (\<forall>c \<in> set cs. claim_satisfied (sdjwt_values payload c) c)"
proof -
  have "set (selectClaimValues payload (dqc_path c)) = sdjwt_values payload c" for c
    by (auto simp: sdjwt_values_def select_denotes)
  then show ?thesis by (simp add: evaluateClaimSelection_def selection_satisfied)
qed

lemma mdoc_selection_satisfied:
  "isClaimSelectionSatisfied (evaluateMdocClaimSelection claims cs)
     \<longleftrightarrow> (\<forall>c \<in> set cs. claim_satisfied (set (mdoc_values claims c)) c)"
  by (simp add: evaluateMdocClaimSelection_def selection_satisfied)


section \<open>Required credentials\<close>

text \<open>What a DCQL query requires: one option of every required set, or without sets every credential.\<close>

definition credentials_satisfied ::
    "string list \<Rightarrow> 'a dcql_credential_scheme list \<Rightarrow> dcql_set list option \<Rightarrow> bool" where
  "credentials_satisfied received credentials sets \<longleftrightarrow>
     (case sets of
        Some (s # ss) \<Rightarrow> (\<forall>t \<in> set (s # ss). dqs_required t \<noteq> Some False \<longrightarrow>
          (\<exists>option \<in> set (dqs_options t). set option \<subseteq> set received))
      | _ \<Rightarrow> (\<forall>q \<in> set credentials. dqq_id q \<in> set received))"

lemma unsatisfied_none: "unsatisfied_sets received ss = [] \<longleftrightarrow> (\<forall>s \<in> set ss. set_satisfied received s)"
proof -
  have "filter (\<lambda>(i, s). \<not> set_satisfied received s) (enumerate n ss) = []
      \<longleftrightarrow> (\<forall>s \<in> set ss. set_satisfied received s)" for n
    by (induction ss arbitrary: n) auto
  then show ?thesis by (simp add: unsatisfied_sets_def)
qed

lemma set_satisfied_iff:
  "set_satisfied received s \<longleftrightarrow>
     (dqs_required s \<noteq> Some False \<longrightarrow> (\<exists>option \<in> set (dqs_options s). set option \<subseteq> set received))"
  by (auto simp: set_satisfied_def list_ex_iff list_all_iff subset_iff)

lemma missing_none:
  "findMissingCredentials received credentials sets = None \<longleftrightarrow> credentials_satisfied received credentials sets"
proof (cases "sets = None \<or> sets = Some []")
  case True
  then have "findMissingCredentials received credentials sets = None
      \<longleftrightarrow> filter (\<lambda>i. i \<notin> set received) (map dqq_id credentials) = []"
    by (elim disjE; simp add: findMissingCredentials_def Let_def split: if_split)
  with True show ?thesis by (auto simp: filter_empty_conv credentials_satisfied_def)
next
  case False
  then obtain s ss where sets: "sets = Some (s # ss)" by (cases sets; cases "the sets") auto
  then have "findMissingCredentials received credentials sets = None \<longleftrightarrow> unsatisfied_sets received (s # ss) = []"
    by (simp add: findMissingCredentials_def Let_def)
  with sets show ?thesis by (simp add: unsatisfied_none set_satisfied_iff credentials_satisfied_def)
qed

text \<open>The presence check accepts exactly the responses that satisfy the DCQL query: every credential
  set that is not optional has an option all of whose credentials were received, and a query without
  credential sets has every credential received.\<close>

theorem missing_credentials_exact:
  "findMissingCredentials received credentials sets = None \<longleftrightarrow> credentials_satisfied received credentials sets"
  by (rule missing_none)


section \<open>Claims of an issuer configuration\<close>

lemma get_path_denotes: "string_path p \<Longrightarrow> get_path v p = Some w \<Longrightarrow> denotes p v w"
proof (induction p arbitrary: v)
  case (Cons s p)
  from Cons.prems obtain k where s: "s = Seg_Str k" and sp: "p = [] \<or> string_path p"
    by (auto simp: string_path_def split: segment.splits)
  from Cons.prems(2) obtain kvs x where v: "v = JObj kvs" "map_of kvs (segmentToKey s) = Some x" "get_path x p = Some w"
    by (cases v) (auto split: option.splits)
  have "denotes p x w" using sp v(3) Cons.IH by (auto intro: denotes.here)
  with v(1,2) s show ?case by (auto intro!: denotes.member simp: property_key_def segmentToKey_def)
qed (simp add: string_path_def)

text \<open>An issuer's defaults satisfy a query for them. A credential configuration whose claim paths are
  names, none a prefix of another, issues default claims that satisfy every DCQL claim query for the path
  of a field with a default, when the query requests no values or requests the default among them.\<close>

theorem default_claims_satisfy_query:
  assumes "fs = filter has_default (flattenFields trees)" "sorted_wrt incomparable (map cf_path fs)"
    and "list_all (string_path \<circ> cf_path) fs"
    and "\<forall>c \<in> set cs. \<exists>f \<in> set fs. dqc_path c = cf_path f
      \<and> (\<forall>vs. dqc_values c = Some vs \<longrightarrow> is_primitive (the (cf_defaultValue f)) \<and> the (cf_defaultValue f) \<in> set vs)"
  shows "isClaimSelectionSatisfied (evaluateClaimSelection (buildClaims trees) cs)"
  unfolding sdjwt_selection_satisfied
proof
  fix c assume "c \<in> set cs"
  with assms(4) obtain f where f: "f \<in> set fs" "dqc_path c = cf_path f"
    and vs: "\<And>vs. dqc_values c = Some vs \<Longrightarrow> is_primitive (the (cf_defaultValue f)) \<and> the (cf_defaultValue f) \<in> set vs"
    by blast
  obtain w where w: "cf_defaultValue f = Some w" using f(1) assms(1) by (auto simp: has_default_def)
  have "denotes (cf_path f) (buildClaims trees) w"
    by (rule get_path_denotes) (use default_claims_read_back [OF assms(1-3) f(1)] w assms(3) f(1) in \<open>auto simp: list_all_iff\<close>)
  with f(2) vs w show "claim_satisfied (sdjwt_values (buildClaims trees) c) c"
    by (auto simp: claim_satisfied_def sdjwt_values_def)
qed

definition dclaim1 :: dcql_claim where
  "dclaim1 = \<lparr>dqc_id = None, dqc_path = [Seg_Str ''address'', Seg_Str ''city''],
     dqc_values = Some [JStr ''Basel'', JStr ''Bern'']\<rparr>"

theorem default_claims_satisfy_query_witness:
  "isClaimSelectionSatisfied (evaluateClaimSelection (buildClaims ctrees1) [dclaim1])"
proof -
  have fs: "filter has_default (flattenFields ctrees1) = [
      cfield1 [Seg_Str ''address'', Seg_Str ''city''] (Some (JStr ''Bern'')) True,
      cfield1 [Seg_Str ''address'', Seg_Str ''zip''] (Some (JNum 3000)) False,
      cfield1 [Seg_Str ''name''] (Some (JStr ''Ada'')) False]"
    by (simp add: flattened1 has_default_def cfield1_def)
  show ?thesis
    by (rule default_claims_satisfy_query [OF refl]; unfold fs)
      (simp_all add: cfield1_def incomparable_def is_prefix_of_def string_path_def dclaim1_def is_primitive_def)
qed

end
