(* ===== verification/Verification_Properties.thy ===== *)
theory Verification_Properties
  imports Verification_Examples Dcql_Properties
begin

text \<open>
  What a verified presentation guarantees: the issuer signature and the holder binding of an SD-JWT VC, the
  device response and the chain of an mdoc, the status of a credential, transaction data, and the claims the
  query asked for.
\<close>

section \<open>SD-JWT VC\<close>

lemma library_accepts:
  assumes "library_checks disclosed env lib" "lib cbs cred o' st = (Inr result, st')"
  shows "\<exists>data signature st1. cbk_verifier cbs data signature st = (True, st1)
    \<and> (\<forall>fetch check. cbk_status cbs = Some (fetch, check) \<longrightarrow>
         jget ''status_list'' (jget ''status'' (Some (vrs_payload result))) \<noteq> None \<longrightarrow>
         (\<exists>sdata ssignature. check sdata ssignature st1))"
proof -
  note all = assms(1) [unfolded library_checks_def, THEN spec [of _ cbs], THEN spec [of _ cred], THEN spec [of _ o'],
    THEN spec [of _ st], THEN spec [of _ result], THEN spec [of _ st'], THEN mp, OF assms(2)]
  from all [THEN conjunct1] show ?thesis by (elim exE conjE) blast
qed

lemma library_binds:
  assumes "library_checks disclosed env lib" "lib cbs cred o' st = (Inr result, st')"
    and "lop_keyBindingNonce o' = Some nonce" "nonce \<noteq> []"
  shows "\<exists>data signature kb. cbk_kbVerifier cbs data signature (vrs_payload result) = Inr True
    \<and> sve_json64 env (split_on CHR ''.'' data ! 1) = Inr kb
    \<and> vrs_kb result = Some kb \<and> jget ''nonce'' (Some kb) = Some (JStr nonce)"
proof -
  note all = assms(1) [unfolded library_checks_def, THEN spec [of _ cbs], THEN spec [of _ cred], THEN spec [of _ o'],
    THEN spec [of _ st], THEN spec [of _ result], THEN spec [of _ st'], THEN mp, OF assms(2)]
  from all [THEN conjunct2, THEN conjunct2, THEN spec [of _ nonce], THEN mp] assms(3,4) show ?thesis by simp
qed

lemma library_result_run:
  assumes "library_result env lib now cred options lopts audience = Inr result"
  shows "\<exists>check failure st. lib (service_callbacks env now options audience check) cred lopts
      \<lparr>dst_matchedEntity = None, dst_failure = failure\<rparr> = (Inr result, st)
    \<and> (rvp_enabled (resolveRevocationPolicy options) \<and> rvp_failClosed (resolveRevocationPolicy options) \<longrightarrow> check)"
proof -
  let ?run = "verifyWithStatusMode env lib now cred options lopts audience"
  have run: "\<exists>st. lib (service_callbacks env now options audience b) cred lopts
      \<lparr>dst_matchedEntity = None, dst_failure = f\<rparr> = (Inr result, st)" if "fst (?run b f) = Inr result" for b f
    using that
    by (cases "lib (service_callbacks env now options audience b) cred lopts \<lparr>dst_matchedEntity = None, dst_failure = f\<rparr>")
      (simp add: verifyWithStatusMode_def Let_def)
  have "(\<not> rvp_enabled (resolveRevocationPolicy options) \<and> fst (?run False None) = Inr result)
    \<or> fst (?run True None) = Inr result
    \<or> (\<not> rvp_failClosed (resolveRevocationPolicy options) \<and> (\<exists>f. fst (?run False f) = Inr result))"
    using assms unfolding library_result_def Let_def
    by (auto simp: map_failure_returns split: prod.splits sum.splits if_splits)
      (metis fst_conv)+
  then show ?thesis using run by blast
qed

definition credential_run ::
    "crypto_env \<Rightarrow> date \<Rightarrow> verifier_options \<Rightarrow> matched_entity option \<Rightarrow> bool" where
  "credential_run env now options m \<longleftrightarrow> (\<exists>data signature. verifyCredential env now data signature options = Inr m)"

lemma callback_verified:
  assumes "cbk_verifier (service_callbacks env now options audience check) data signature st = (True, st1)"
  shows "verifyCredential env now data signature options = Inr (dst_matchedEntity st1)"
  using assms by (auto simp: service_callbacks_def split: sum.splits)

lemma sdjwt_verify_returns:
  assumes "sdjwt_verify env lib now cred options lopts audience mode = Inr result"
  shows "library_result env lib now cred options lopts audience = Inr result"
    and "rvp_enabled (resolveRevocationPolicy options) \<Longrightarrow>
      checkStatusMechanism (vrs_payload result) (rvp_failClosed (resolveRevocationPolicy options)) = Inr ()"
    and "vop_transactionData options = Some (t # ts) \<Longrightarrow>
      validateTransactionDataHashes env (vrs_kb result) (t # ts) = Inr ()"
    and "vop_ts12TransactionData options = Some True \<Longrightarrow> validateTs12KeyBinding (vrs_kb result) mode = Inr ()"
  using assms unfolding sdjwt_verify_def Let_def by (auto simp: returns split: if_splits)

lemma sdjwt_format_verified:
  assumes "sdjwt_format_verify env lib now cred ctx = Inr (Verified r)" "vcx_binding ctx = Openid4vp b"
  shows "\<exists>result mode. sdjwt_verify env lib now cred (vcx_options ctx) (sdjwt_context_options ctx b)
      (keyBindingAudience env b) mode = Inr result \<and> r = sdjwt_claim_result (vrs_payload result) ctx"
  using assms by (auto simp: sdjwt_format_verify_def split: sum.splits verification_error.splits)



text \<open>In strict mode the status is checked. Under the documented checks of the library, an SD-JWT VC that
  is accepted with status checks that fail closed has no status claim, or its status list was verified
  against the entity that vouches for the credential.\<close>

theorem strict_status_checked:
  assumes "library_checks disclosed env lib"
    and "resolveRevocationPolicy options = DEFAULT_REVOCATION_POLICY"
    and "sdjwt_verify env lib now cred options lopts audience mode = Inr result"
  shows "jget ''status'' (Some (vrs_payload result)) = None
    \<or> (\<exists>data signature sdata ssignature m. verifyCredential env now data signature options = Inr m
        \<and> verifyStatusList env now sdata ssignature options m)"
proof -
  have strict: "rvp_enabled (resolveRevocationPolicy options)" "rvp_failClosed (resolveRevocationPolicy options)"
    using assms(2) by (simp_all add: DEFAULT_REVOCATION_POLICY_def)
  obtain failure st where lib: "lib (service_callbacks env now options audience True) cred lopts
      \<lparr>dst_matchedEntity = None, dst_failure = failure\<rparr> = (Inr result, st)"
    using library_result_run [OF sdjwt_verify_returns(1) [OF assms(3)]] strict by auto
  let ?cbs = "service_callbacks env now options audience True"
  have status: "cbk_status ?cbs = Some (sve_fetchStatusListJwt env,
      \<lambda>data signature st. verifyStatusList env now data signature options (dst_matchedEntity st))"
    by (simp add: service_callbacks_def)
  have "\<exists>data signature st1. cbk_verifier ?cbs data signature \<lparr>dst_matchedEntity = None, dst_failure = failure\<rparr> = (True, st1)
      \<and> (jget ''status_list'' (jget ''status'' (Some (vrs_payload result))) \<noteq> None \<longrightarrow>
           (\<exists>sdata ssignature. verifyStatusList env now sdata ssignature options (dst_matchedEntity st1)))"
    using library_accepts [OF assms(1) lib] status by simp
  then obtain data signature st1 where
    c: "cbk_verifier ?cbs data signature \<lparr>dst_matchedEntity = None, dst_failure = failure\<rparr> = (True, st1)" and
    s: "jget ''status_list'' (jget ''status'' (Some (vrs_payload result))) \<noteq> None \<longrightarrow>
      (\<exists>sdata ssignature. verifyStatusList env now sdata ssignature options (dst_matchedEntity st1))"
    by (elim exE conjE)
  note v = callback_verified [OF c]
  have "checkStatusMechanism (vrs_payload result) True = Inr ()"
    using sdjwt_verify_returns(2) [OF assms(3) strict(1)] strict(2) by simp
  then have "jget ''status'' (Some (vrs_payload result)) = None
      \<or> jget ''status_list'' (jget ''status'' (Some (vrs_payload result))) \<noteq> None"
    by (auto simp: checkStatusMechanism_def Let_def returns split: if_splits)
  with v s show ?thesis by blast
qed


definition vlopts1 :: library_options where
  "vlopts1 = sdjwt_context_options vcontext1 vbinding1"

lemma sdjwt_run1: "is_right (sdjwt_verify vcrypto1 vlibrary1 50 ''sdjwt'' (vcx_options vcontext1) vlopts1
    (Some ''x509_hash:h'') None)"
  by code_simp

theorem strict_status_checked_witness:
  "\<exists>result. sdjwt_verify vcrypto1 vlibrary1 50 ''sdjwt'' (vcx_options vcontext1) vlopts1 (Some ''x509_hash:h'') None = Inr result
    \<and> (jget ''status'' (Some (vrs_payload result)) = None
       \<or> (\<exists>data signature sdata ssignature m.
            verifyCredential vcrypto1 50 data signature (vcx_options vcontext1) = Inr m
          \<and> verifyStatusList vcrypto1 50 sdata ssignature (vcx_options vcontext1) m))"
proof -
  obtain result where r: "sdjwt_verify vcrypto1 vlibrary1 50 ''sdjwt'' (vcx_options vcontext1) vlopts1
      (Some ''x509_hash:h'') None = Inr result"
    using is_rightD [OF sdjwt_run1] by blast
  have p: "resolveRevocationPolicy (vcx_options vcontext1) = DEFAULT_REVOCATION_POLICY" by code_simp
  show ?thesis by (rule exI [of _ result], rule conjI [OF r strict_status_checked [OF vlibrary1_checks p r]])
qed


text \<open>The signature of a status list counts as valid unless the check throws: one that answers \<open>false\<close> is
  enough when no revocation certificate is listed.\<close>

lemma forged_status_list_accepted:
  assumes "jwt_header env data = Inr header" "resolvePublicKey env header = Inr key"
    and "key_verifier env (Some key) = Inr check" "check data signature = Inr False"
    and "\<And>m. matched = Some m \<Longrightarrow> mte_revocationCert m = None"
  shows "verifyStatusList env now data signature options matched"
  using assms by (cases matched) (simp_all add: verifyStatusList_def ebind_def verifyStatusListSignature_def)


section \<open>Transaction data\<close>

definition hash_algorithm :: "json option \<Rightarrow> string" where
  "hash_algorithm kb = (case jget ''transaction_data_hashes_alg'' kb of
     None \<Rightarrow> ''sha-256'' | Some JNull \<Rightarrow> ''sha-256'' | Some v \<Rightarrow> js_text v)"

text \<open>The transaction data the user saw. The check accepts a key binding JWT exactly when its list of
  hashes is, entry by entry and in the order of the request, the hash of the requested transaction data under
  one of the three supported algorithms, SHA-256 unless the JWT names another.\<close>

theorem transaction_hashes_exact:
  "validateTransactionDataHashes env kb transactionData = Inr () \<longleftrightarrow>
     (\<exists>algorithm. node_algorithm (hash_algorithm kb) = Some algorithm
        \<and> jget ''transaction_data_hashes'' kb
          = Some (JArr (map (\<lambda>t. JStr (sve_hash env algorithm t)) transactionData)))"
proof (cases "\<exists>received. jget ''transaction_data_hashes'' kb = Some (JArr received)")
  case True
  then obtain received where rc: "jget ''transaction_data_hashes'' kb = Some (JArr received)" by blast
  then have kb: "jtruthy kb" by (cases kb) (auto simp: jtruthy_def jget_def split: json.splits)
  show ?thesis
  proof (cases "length received = length transactionData")
    case False
    then have "received \<noteq> map f transactionData" for f by auto
    with rc kb False show ?thesis by (auto simp: validateTransactionDataHashes_def)
  next
    case len: True
    show ?thesis
    proof (cases "node_algorithm (hash_algorithm kb)")
      case None
      with rc kb len show ?thesis by (simp add: validateTransactionDataHashes_def hash_algorithm_def Let_def)
    next
      case (Some a)
      with rc kb len show ?thesis
        by (simp add: validateTransactionDataHashes_def hash_algorithm_def Let_def check_hashes_returns)
    qed
  qed
next
  case False
  then show ?thesis by (auto simp: validateTransactionDataHashes_def split: option.splits json.splits)
qed

section \<open>mdoc\<close>

lemma mdoc_verified:
  assumes "mdr_verified (mdoc_verify env now vp sd options paths)"
  shows "\<exists>d r. first_document env vp = Some d \<and> device_response_accepted env now vp d sd options paths = Inr ()
    \<and> validateIssuerCertificateChain env now d options = Inr r \<and> chr_verified r
    \<and> mdr_claims (mdoc_verify env now vp sd options paths) = mdoc_claims d"
proof (cases "first_document env vp")
  case None
  then show ?thesis
    using assms by (auto simp: mdoc_verify_def first_document_def handleVerificationError_def Let_def ebind_def
        split: sum.splits option.splits list.splits)
next
  case (Some d)
  then have dec: "ebind (mde_decode env vp) (\<lambda>documents. case documents of
      Some (d # _) \<Rightarrow> Inr d | _ \<Rightarrow> Inl ''mDOC document not found in device response'') = Inr d"
    by (auto simp: first_document_def ebind_def split: sum.splits option.splits list.splits)
  show ?thesis
  proof (cases "ebind (device_response_accepted env now vp d sd options paths) (\<lambda>_. validateIssuerCertificateChain env now d options)")
    case (Inl e)
    then show ?thesis using assms dec by (simp add: mdoc_verify_def handleVerificationError_def Let_def)
  next
    case (Inr r)
    with assms dec have "chr_verified r" "mdr_claims (mdoc_verify env now vp sd options paths) = mdoc_claims d"
      by (auto simp: mdoc_verify_def split: if_splits)
    with Inr Some show ?thesis by (auto simp: returns)
  qed
qed

lemma device_response_run:
  assumes "device_response_accepted env now vp d sd options paths = Inr ()"
  shows "\<exists>request transcript certs disabled u.
      (case sd of Session_Iso_18013 t \<Rightarrow> Inr t | _ \<Rightarrow> mde_transcript env sd) = Inr transcript
    \<and> mde_verifyDeviceResponse env request vp transcript certs disabled = (Inr (), u)
    \<and> (resolveRevocationPolicy options = DEFAULT_REVOCATION_POLICY \<longrightarrow> \<not> disabled)"
proof -
  let ?p = "resolveRevocationPolicy options"
  let ?request = "buildDeviceRequest (mdd_docType d) paths (claims_by_namespace d)"
  let ?certs = "buildTrustedCertificates (getTrustedCertificateBuffers (mde_trust env) now (vop_trustListSource options))
    (getTrustedStatusCertificateBuffers (mde_trust env) now (vop_trustListSource options)) (mdd_x5chain d)"
  obtain transcript where t: "(case sd of Session_Iso_18013 t \<Rightarrow> Inr t | _ \<Rightarrow> mde_transcript env sd) = Inr transcript"
    using assms by (auto simp: device_response_accepted_def returns Let_def)
  obtain x u where first: "mde_verifyDeviceResponse env ?request vp transcript (?certs True) (\<not> rvp_enabled ?p) = (x, u)"
    by fastforce
  obtain y w where second: "mde_verifyDeviceResponse env ?request vp transcript (?certs False) True = (y, w)"
    by fastforce
  have "x = Inr () \<or> (y = Inr () \<and> \<not> rvp_failClosed ?p)"
    using assms t first second by (auto simp: device_response_accepted_def Let_def split: sum.splits if_splits)
  then show ?thesis
  proof
    assume "x = Inr ()"
    with first t show ?thesis
      by (intro exI [of _ ?request] exI [of _ transcript] exI [of _ "?certs True"] exI [of _ "\<not> rvp_enabled ?p"] exI [of _ u])
        (simp add: DEFAULT_REVOCATION_POLICY_def)
  next
    assume "y = Inr () \<and> \<not> rvp_failClosed ?p"
    with second t show ?thesis
      by (intro exI [of _ ?request] exI [of _ transcript] exI [of _ "?certs False"] exI [of _ True] exI [of _ w])
        (auto simp: DEFAULT_REVOCATION_POLICY_def)
  qed
qed

lemma try_claim_sets_found:
  "try_claim_sets run css st = Inl r \<Longrightarrow> \<exists>cs \<in> set css. r = run cs \<and> mdr_verified r
     \<and> isClaimSelectionSatisfied (evaluateMdocClaimSelection (mdr_claims r) cs)"
  by (induction run css st rule: try_claim_sets.induct) (auto simp: Let_def split: if_splits)

lemma mdoc_format_verified:
  assumes "mdoc_format_verify env now credential ctx = Verified r" "vcr_claimSetSatisfied r \<noteq> Some False"
  shows "\<exists>paths m. m = mdoc_verify env now credential (mdoc_session_data_of env (vcx_binding ctx)) (vcx_options ctx) paths
    \<and> mdr_verified m \<and> vcr_claims r = mdr_claims m
    \<and> (case vcx_claimSets ctx of
         Some css \<Rightarrow> \<exists>cs \<in> set css. isClaimSelectionSatisfied (evaluateMdocClaimSelection (mdr_claims m) cs)
       | None \<Rightarrow> (let check = evaluateMdocClaimSelection (mdr_claims m) (coalesce (vcx_claims ctx) [])
           in vcr_missingClaims r = csr_missing check \<and> vcr_mismatchedClaims r = csr_mismatched check))"
proof (cases "vcx_claimSets ctx")
  case None
  with assms(1) show ?thesis
    by (auto simp: mdoc_format_verify_def Let_def mdoc_failed_def split: if_splits)
next
  case (Some css)
  let ?run = "\<lambda>cs. mdoc_verify env now credential (mdoc_session_data_of env (vcx_binding ctx)) (vcx_options ctx)
    (Some (map dqc_path cs))"
  obtain m where m: "try_claim_sets ?run css \<lparr>css_lastFailure = None, css_lastVerified = None, css_mismatched = []\<rparr> = Inl m"
    and r: "vcr_claims r = mdr_claims m"
    using assms Some
    by (auto simp: mdoc_format_verify_def verifyClaimSets_def mdoc_failed_def split: sum.splits option.splits)
  from try_claim_sets_found [OF m] r Some show ?thesis by auto
qed

text \<open>C15: An accepted mdoc is authentic and bound to the request. The first document of the device response
  passed the library's verification for a session transcript of this request (its nonce, client and response
  address, or its origin), the issuer's certificate chain was validated for issuance, with status validation
  when checks fail closed, and the claims handed on are the elements of that document.\<close>

theorem accepted_mdoc_sound:
  assumes "mdoc_format_verify env now credential ctx = Verified r" "vcr_claimSetSatisfied r \<noteq> Some False"
    and "vcx_binding ctx = Openid4vp b"
  shows "\<exists>d chain request transcript certs disabled u.
      first_document env credential = Some d \<and> vcr_claims r = mdoc_claims d
    \<and> mde_transcript env (mdoc_session_data_of env (Openid4vp b)) = Inr transcript
    \<and> mde_verifyDeviceResponse env request credential transcript certs disabled = (Inr (), u)
    \<and> (resolveRevocationPolicy (vcx_options ctx) = DEFAULT_REVOCATION_POLICY \<longrightarrow> \<not> disabled)
    \<and> validateIssuerCertificateChain env now d (vcx_options ctx) = Inr chain \<and> chr_verified chain"
proof -
  let ?sd = "mdoc_session_data_of env (vcx_binding ctx)"
  obtain paths m where m: "m = mdoc_verify env now credential ?sd (vcx_options ctx) paths" "mdr_verified m"
    "vcr_claims r = mdr_claims m"
    using mdoc_format_verified [OF assms(1,2)] by blast
  obtain d chain where d: "first_document env credential = Some d"
    "device_response_accepted env now credential d ?sd (vcx_options ctx) paths = Inr ()"
    "validateIssuerCertificateChain env now d (vcx_options ctx) = Inr chain" "chr_verified chain" "mdr_claims m = mdoc_claims d"
    using mdoc_verified [OF m(2) [unfolded m(1)]] m(1) by blast
  have sd: "(case ?sd of Session_Iso_18013 t \<Rightarrow> Inr t | _ \<Rightarrow> mde_transcript env ?sd) = mde_transcript env ?sd"
    by (simp add: assms(3) mdoc_session_data_of_def Let_def)
  from device_response_run [OF d(2), unfolded sd] obtain request transcript certs disabled u where run:
    "mde_transcript env ?sd = Inr transcript"
    "mde_verifyDeviceResponse env request credential transcript certs disabled = (Inr (), u)"
    "resolveRevocationPolicy (vcx_options ctx) = DEFAULT_REVOCATION_POLICY \<longrightarrow> \<not> disabled"
    by (elim exE conjE)
  from run(1) have "mde_transcript env (mdoc_session_data_of env (Openid4vp b)) = Inr transcript" by (simp add: assms(3))
  moreover have "vcr_claims r = mdoc_claims d" using m(3) d(5) by simp
  ultimately show ?thesis using d run by (intro exI conjI) assumption+
qed

theorem accepted_mdoc_sound_witness:
  "\<exists>r d. mdoc_format_verify vmdoc1 50 ''mdoc'' vcontext2 = Verified r \<and> first_document vmdoc1 ''mdoc'' = Some d
    \<and> vcr_claims r = mdoc_claims d"
proof -
  obtain r where r: "mdoc_format_verify vmdoc1 50 ''mdoc'' vcontext2 = Verified r"
    using is_verifiedD [OF mdoc_accepted1] by blast
  have "(case mdoc_format_verify vmdoc1 50 ''mdoc'' vcontext2 of Verified r \<Rightarrow> vcr_claimSetSatisfied r = Some True
      | _ \<Rightarrow> False)"
    by code_simp
  with r have s: "vcr_claimSetSatisfied r \<noteq> Some False" by simp
  have b: "vcx_binding vcontext2 = Openid4vp vbinding1" by (simp add: vcontext2_def vcontext1_def)
  obtain d where "first_document vmdoc1 ''mdoc'' = Some d" "vcr_claims r = mdoc_claims d"
    using accepted_mdoc_sound [OF r s b] by (elim exE conjE) (rule that)
  with r show ?thesis by blast
qed


section \<open>The response satisfies the query\<close>

text \<open>The claims of a credential satisfy one selection of claim queries: for an SD-JWT VC on the disclosed
  payload, from which the holder key and the status reference are then removed; for an mdoc on its elements.\<close>

definition claims_satisfy :: "(string \<times> json) list \<Rightarrow> dcql_claim list \<Rightarrow> bool" where
  "claims_satisfy claims selection \<longleftrightarrow>
     (\<exists>payload. claims = jdel ''status'' (jdel ''cnf'' (obj_of (Some payload)))
        \<and> (\<forall>c \<in> set selection. claim_satisfied (sdjwt_values payload c) c))
     \<or> (\<forall>c \<in> set selection. claim_satisfied (set (mdoc_values claims c)) c)"

lemma sdjwt_result_satisfied:
  assumes "vcr_mismatchedClaims (sdjwt_claim_result payload ctx) = []" "vcr_missingClaims (sdjwt_claim_result payload ctx) = []"
    and "vcr_claimSetSatisfied (sdjwt_claim_result payload ctx) \<noteq> Some False"
  shows "\<exists>sel \<in> set (coalesce (vcx_claimSets ctx) [coalesce (vcx_claims ctx) []]).
    isClaimSelectionSatisfied (evaluateClaimSelection payload sel)"
proof (cases "vcx_claimSets ctx")
  case None
  with assms show ?thesis
    by (auto simp: sdjwt_claim_result_def Let_def isClaimSelectionSatisfied_def split: if_splits)
next
  case (Some css)
  with assms(3) show ?thesis by (auto simp: sdjwt_claim_result_def Let_def list_ex_iff)
qed

text \<open>The interface of a credential format: the claims it reports without a complaint satisfy one of the
  selections of the query.\<close>

definition offered_selections :: "verification_context \<Rightarrow> dcql_claim list list" where
  "offered_selections ctx = coalesce (vcx_claimSets ctx) [coalesce (vcx_claims ctx) []]"

locale credential_format =
  fixes verify :: "string \<Rightarrow> verification_context \<Rightarrow> verification_error + credential_verification"
  assumes reported_claims: "verify credential ctx = Inr (Verified r) \<Longrightarrow> vcx_binding ctx = Openid4vp b \<Longrightarrow>
    vcr_mismatchedClaims r = [] \<Longrightarrow> vcr_missingClaims r = [] \<Longrightarrow> vcr_claimSetSatisfied r \<noteq> Some False \<Longrightarrow>
    \<exists>sel \<in> set (offered_selections ctx). claims_satisfy (vcr_claims r) sel"
begin

lemma enforced_claims:
  assumes "verify credential ctx = Inr res" "vcx_binding ctx = Openid4vp b" "enforce_claims q format res = Inr claims"
  shows "\<exists>sel \<in> set (offered_selections ctx). claims_satisfy claims sel"
  using assms reported_claims [of credential ctx _ b]
  by (auto simp: enforce_claims_def split: credential_verification.splits if_splits)

end

interpretation sdjwt_format: credential_format "sdjwt_format_verify crypto lib now" for crypto lib now
proof unfold_locales
  fix credential ctx r b
  assume v: "sdjwt_format_verify crypto lib now credential ctx = Inr (Verified r)" "vcx_binding ctx = Openid4vp b"
    and ok: "vcr_mismatchedClaims r = []" "vcr_missingClaims r = []" "vcr_claimSetSatisfied r \<noteq> Some False"
  from sdjwt_format_verified [OF v] obtain result :: verification_result where r: "r = sdjwt_claim_result (vrs_payload result) ctx"
    by blast
  have "vcr_claims r = jdel ''status'' (jdel ''cnf'' (obj_of (Some (vrs_payload result))))"
    by (simp add: r sdjwt_claim_result_def Let_def)
  with sdjwt_result_satisfied [OF ok [unfolded r]] show "\<exists>sel \<in> set (offered_selections ctx). claims_satisfy (vcr_claims r) sel"
    by (auto simp: claims_satisfy_def sdjwt_selection_satisfied offered_selections_def)
qed

interpretation mdoc_format: credential_format "\<lambda>credential ctx. Inr (mdoc_format_verify menv now credential ctx)" for menv now
proof unfold_locales
  fix credential ctx r b
  assume v: "Inr (mdoc_format_verify menv now credential ctx) = (Inr (Verified r) :: verification_error + credential_verification)"
    and ok: "vcr_mismatchedClaims r = []" "vcr_missingClaims r = []" "vcr_claimSetSatisfied r \<noteq> Some False"
  from v have "mdoc_format_verify menv now credential ctx = Verified r" by simp
  from mdoc_format_verified [OF this ok(3)] obtain m :: mdoc_result where m: "vcr_claims r = mdr_claims m" and
    "case vcx_claimSets ctx of
       Some css \<Rightarrow> \<exists>cs \<in> set css. isClaimSelectionSatisfied (evaluateMdocClaimSelection (mdr_claims m) cs)
     | None \<Rightarrow> (let check = evaluateMdocClaimSelection (mdr_claims m) (coalesce (vcx_claims ctx) [])
         in vcr_missingClaims r = csr_missing check \<and> vcr_mismatchedClaims r = csr_mismatched check)"
    by blast
  then have "\<exists>sel \<in> set (offered_selections ctx). isClaimSelectionSatisfied (evaluateMdocClaimSelection (mdr_claims m) sel)"
    using ok(1,2) by (auto simp: Let_def isClaimSelectionSatisfied_def offered_selections_def split: option.splits)
  with m show "\<exists>sel \<in> set (offered_selections ctx). claims_satisfy (vcr_claims r) sel"
    by (auto simp: claims_satisfy_def mdoc_selection_satisfied)
qed

text \<open>The registry resolves to a format that keeps the contract.\<close>

lemma resolved_format: "resolve_format env now format = Inr verify \<Longrightarrow> credential_format verify"
  using sdjwt_format.credential_format_axioms mdoc_format.credential_format_axioms
  by (auto simp: resolve_format_def split: if_splits)

definition context_for ::
    "presentation_query \<Rightarrow> session \<Rightarrow> json option \<Rightarrow> query_credential \<Rightarrow> verification_context \<Rightarrow> bool" where
  "context_for query s payload q ctx \<longleftrightarrow>
     vcx_binding ctx = Openid4vp (binding_of s (map_option signed_request_of payload))
     \<and> (\<exists>refs td ts12. vcx_options ctx = presentation_options query s q refs td ts12)
     \<and> (\<exists>sels. claimSelections q = Inr sels \<and> set (offered_selections ctx) = set sels)"

text \<open>Every presentation that verified did so under its format, in the context of this query and session.\<close>

lemma verify_presented_runs:
  assumes "verify_presented env now query s payload q presented = Inr values"
  shows "(dqq_multiple q = Some True \<or> length presented \<le> 1)
    \<and> (\<exists>ctx format verify. context_for query s payload q ctx \<and> (presented \<noteq> [] \<longrightarrow> resolve_format env now format = Inr verify)
      \<and> list_all2 (\<lambda>p claims. \<exists>res. verify p ctx = Inr res \<and> enforce_claims q format res = Inr claims) presented values)"
proof -
  from assms obtain td refs ts12 format sels where c: "dqq_multiple q = Some True \<or> length presented \<le> 1"
    "claimSelections q = Inr sels"
    "all_results (map (\<lambda>credential.
       ebind (resolve_format env now format) (\<lambda>verify.
       ebind (verify credential
         \<lparr>vcx_credentialId = dqq_id q, vcx_binding = Openid4vp (binding_of s (map_option signed_request_of payload)),
          vcx_options = presentation_options query s q refs td ts12,
          vcx_claims = dqq_claims q, vcx_claimSets = (if has_claim_sets q then Some sels else None)\<rparr>)
         (enforce_claims q format))) presented) = Inr values"
    unfolding verify_presented_def ebind_returns require_returns map_failure_returns by (elim exE conjE) (rule that)
  let ?ctx = "\<lparr>vcx_credentialId = dqq_id q, vcx_binding = Openid4vp (binding_of s (map_option signed_request_of payload)),
          vcx_options = presentation_options query s q refs td ts12,
          vcx_claims = dqq_claims q, vcx_claimSets = (if has_claim_sets q then Some sels else None)\<rparr>"
  have "\<not> has_claim_sets q \<Longrightarrow> sels = [coalesce (dqq_claims q) []]"
    using c(2) by (auto simp: claimSelections_def has_claim_sets_def Let_def split: option.splits list.splits)
  then have ctx: "context_for query s payload q ?ctx"
    using c(2) by (auto simp: context_for_def offered_selections_def)
  obtain verify where v: "presented \<noteq> [] \<longrightarrow> resolve_format env now format = Inr verify"
    using c(3) by (cases presented; cases "resolve_format env now format") auto
  have "list_all2 (\<lambda>p claims. \<exists>res. verify p ?ctx = Inr res \<and> enforce_claims q format res = Inr claims) presented values"
    using c(3) v by (cases "presented = []")
      (auto simp: all_results_returns list_all2_map1 returns elim!: list_all2_mono)
  with c(1) ctx v show ?thesis by blast
qed

lemma verify_presented_claims:
  assumes "verify_presented env now query s payload q presented = Inr values" "claims \<in> set values"
  shows "\<exists>sels sel. claimSelections q = Inr sels \<and> sel \<in> set sels \<and> claims_satisfy claims sel"
proof -
  obtain ctx format verify where ctx: "context_for query s payload q ctx"
    and v: "presented \<noteq> [] \<longrightarrow> resolve_format env now format = Inr verify"
    and runs: "list_all2 (\<lambda>p claims. \<exists>res. verify p ctx = Inr res \<and> enforce_claims q format res = Inr claims) presented values"
    using verify_presented_runs [OF assms(1)] by blast
  from list_all2_right [OF runs assms(2)] obtain p res where p: "p \<in> set presented" and r: "verify p ctx = Inr res"
    "enforce_claims q format res = Inr claims"
    by blast
  have f: "credential_format verify" by (rule resolved_format) (use v p in auto)
  have "\<exists>b. vcx_binding ctx = Openid4vp b" using ctx by (auto simp: context_for_def)
  with credential_format.enforced_claims [OF f r(1) _ r(2)] have "\<exists>sel \<in> set (offered_selections ctx). claims_satisfy claims sel"
    by blast
  with ctx show ?thesis by (auto simp: context_for_def)
qed

lemma verify_response_ids:
  assumes "all_results (map (\<lambda>(i, ps). verify_credential_id env now query s payload i ps) received) = Inr vs"
  shows "list_all2 (\<lambda>(i, ps) (j, values). j = i \<and> (\<exists>q. List.find (\<lambda>q. dqq_id q = i) (pqy_credentials query) = Some q
    \<and> verify_presented env now query s payload q ps = Inr values)) received vs"
proof -
  have "list_all2 (\<lambda>x r. verify_credential_id env now query s payload (fst x) (snd x) = Inr r) received vs"
    using assms by (simp add: all_results_returns list_all2_map1 case_prod_unfold)
  then show ?thesis
    by (rule list_all2_mono) (auto simp: verify_credential_id_def returns split: option.splits)
qed

lemma list_all2_map_fst:
  "list_all2 (\<lambda>(i, ps) (j, vs). j = i \<and> P i ps vs) xs ys \<Longrightarrow> map fst ys = map fst xs"
  by (induction rule: list_all2_induct) auto

lemma verified_response:
  assumes "verifyPresentationResponse env now response query s = Inr vs"
  shows "\<exists>payload received. received = filter (\<lambda>(_, ps). ps \<noteq> []) (arp_vp_token response)
    \<and> credentials_satisfied (map fst received) (pqy_credentials query) (pqy_credential_sets query)
    \<and> list_all2 (\<lambda>(i, ps) (j, values). j = i \<and> (\<exists>q. List.find (\<lambda>q. dqq_id q = i) (pqy_credentials query) = Some q
        \<and> verify_presented env now query s payload q ps = Inr values)) received vs"
proof -
  let ?received = "filter (\<lambda>(_, ps). ps \<noteq> []) (arp_vp_token response)"
  have m: "findMissingCredentials (map fst ?received) (pqy_credentials query) (pqy_credential_sets query) = None"
    using assms by (auto simp: verifyPresentationResponse_def Let_def split: option.splits)
  with assms obtain payload where
    "all_results (map (\<lambda>(i, ps). verify_credential_id env now query s payload i ps) ?received) = Inr vs"
    by (auto simp: verifyPresentationResponse_def Let_def returns)
  from verify_response_ids [OF this] missing_none [of "map fst ?received"] m show ?thesis by blast
qed



end
