(* ===== verification/Response_Properties.thy ===== *)
theory Response_Properties
  imports Verification_Properties
begin

text \<open>
  The endpoint of the verifier: the shape of a parsed authorization response, what a completed response
  proves, the responses that come too late, the record of a failed verification, and the request object a
  response is bound to.
\<close>

section \<open>Parsing the response\<close>

text \<open>The presentations of a response as JSON.\<close>

definition presentations_json :: "(string \<times> string list) list \<Rightarrow> json" where
  "presentations_json ps = JObj (map (\<lambda>(k, xs). (k, JArr (map JStr xs))) ps)"

lemma presentation_list_strings:
  "is_presentation_list v \<longleftrightarrow> v = JArr (map JStr (strings_of v)) \<and> strings_of v \<noteq> []"
proof (cases v)
  case (JArr xs)
  have "list_all (\<lambda>x. case x of JStr _ \<Rightarrow> True | _ \<Rightarrow> False) xs \<longleftrightarrow>
      xs = map JStr (List.map_filter (\<lambda>x. case x of JStr s \<Rightarrow> Some s | _ \<Rightarrow> None) xs)"
  proof (induction xs)
    case (Cons x xs)
    have "length (List.map_filter (\<lambda>x. case x of JStr s \<Rightarrow> Some s | _ \<Rightarrow> None) xs) \<le> length xs"
      by (simp add: List.map_filter_def)
    then have "x # xs \<noteq> map JStr (List.map_filter (\<lambda>x. case x of JStr s \<Rightarrow> Some s | _ \<Rightarrow> None) xs)"
      by (metis Suc_n_not_le_n length_Cons length_map)
    with Cons show ?case by (cases x) (auto simp: List.map_filter_simps)
  qed (simp add: List.map_filter_simps)
  with JArr show ?thesis by (auto simp: is_presentation_list_def strings_of_def arr_of_def)
qed (simp_all add: is_presentation_list_def strings_of_def)

lemma presentations_typed:
  "list_all (\<lambda>(_, p). is_presentation_list p) ps \<longleftrightarrow>
     JObj ps = presentations_json (map (\<lambda>(k, p). (k, strings_of p)) ps)
     \<and> list_all (\<lambda>(_, xs). xs \<noteq> []) (map (\<lambda>(k, p). (k, strings_of p)) ps)"
  by (induction ps) (auto simp: presentations_json_def presentation_list_strings)

lemma presentations_read_back:
  "map (\<lambda>(k, p). (k, strings_of p)) (map (\<lambda>(k, xs). (k, JArr (map JStr xs))) ps) = ps"
  by (induction ps) (auto simp: strings_of_def arr_of_def List.map_filter_def comp_def)

lemma optional_string: "optional_member is_string v \<longleftrightarrow> v = map_option JStr (jstr v)"
  by (auto simp: optional_member_def is_string_def jstr_def split: option.splits json.splits)

lemma optional_number: "optional_member is_number v \<longleftrightarrow> v = map_option JNum (number_of v)"
  by (auto simp: optional_member_def is_number_def number_of_def split: option.splits json.splits)

lemma jstr_string: "jstr (map_option JStr x) = x" by (cases x) (simp_all add: jstr_def)

lemma number_of_number: "number_of (map_option JNum x) = x" by (cases x) (simp_all add: number_of_def)

lemma schema_object:
  assumes "AuthResponseSchema v"
  obtains kvs ps where "v = JObj kvs" "fst ` set kvs \<subseteq> {''vp_token'', ''state'', ''iat'', ''exp''}"
    "map_of kvs ''vp_token'' = Some (JObj ps)" "list_all (\<lambda>(_, p). is_presentation_list p) ps"
    "optional_member is_string (map_of kvs ''state'')" "optional_member is_number (map_of kvs ''iat'')"
    "optional_member is_number (map_of kvs ''exp'')"
proof (cases v)
  case (JObj kvs)
  with assms have all: "list_all (\<lambda>(k, _). k \<in> set [''vp_token'', ''state'', ''iat'', ''exp'']) kvs"
    "optional_member is_string (map_of kvs ''state'')" "optional_member is_number (map_of kvs ''iat'')"
    "optional_member is_number (map_of kvs ''exp'')"
    and "case map_of kvs ''vp_token'' of Some (JObj ps) \<Rightarrow> list_all (\<lambda>(_, p). is_presentation_list p) ps | _ \<Rightarrow> False"
    by (simp_all add: AuthResponseSchema_def)
  then obtain ps where ps: "map_of kvs ''vp_token'' = Some (JObj ps)" "list_all (\<lambda>(_, p). is_presentation_list p) ps"
    by (auto split: option.splits json.splits)
  have "fst ` set kvs \<subseteq> {''vp_token'', ''state'', ''iat'', ''exp''}" using all(1) by (auto simp: list_all_iff)
  then show ?thesis using that JObj ps all by blast
qed (use assms in \<open>simp_all add: AuthResponseSchema_def\<close>)

text \<open>C24: The parser of authorization responses is exact. It returns a response if and only if the decrypted
  value is an object with no other members than the four of the schema, whose presentations are non-empty
  arrays of strings, whose state is a string and whose times are numbers; and the parsed fields are these
  members.\<close>

theorem parsed_response_typed:
  "parse_authorization_response v = Inr r \<longleftrightarrow>
     (\<exists>kvs. v = JObj kvs \<and> fst ` set kvs \<subseteq> {''vp_token'', ''state'', ''iat'', ''exp''}
        \<and> map_of kvs ''vp_token'' = Some (presentations_json (arp_vp_token r))
        \<and> list_all (\<lambda>(_, xs). xs \<noteq> []) (arp_vp_token r)
        \<and> map_of kvs ''state'' = map_option JStr (arp_state r)
        \<and> map_of kvs ''iat'' = map_option JNum (arp_iat r) \<and> map_of kvs ''exp'' = map_option JNum (arp_exp r))"
  (is "?l \<longleftrightarrow> ?r")
proof
  assume l: ?l
  then have schema: "AuthResponseSchema v" and r: "r = \<lparr>arp_vp_token = map (\<lambda>(k, p). (k, strings_of p)) (obj_of (jget ''vp_token'' (Some v))),
        arp_state = jstr (jget ''state'' (Some v)), arp_iat = number_of (jget ''iat'' (Some v)),
        arp_exp = number_of (jget ''exp'' (Some v))\<rparr>"
    by (auto simp: parse_authorization_response_def split: if_splits)
  from schema_object [OF schema] obtain kvs ps where v: "v = JObj kvs"
    and keys: "fst ` set kvs \<subseteq> {''vp_token'', ''state'', ''iat'', ''exp''}"
    and v': "map_of kvs ''vp_token'' = Some (JObj ps)" "list_all (\<lambda>(_, p). is_presentation_list p) ps"
    "optional_member is_string (map_of kvs ''state'')" "optional_member is_number (map_of kvs ''iat'')"
    "optional_member is_number (map_of kvs ''exp'')"
    by (rule schema_object [OF schema])
  have fs: "arp_vp_token r = map (\<lambda>(k, p). (k, strings_of p)) ps" "arp_state r = jstr (map_of kvs ''state'')"
    "arp_iat r = number_of (map_of kvs ''iat'')" "arp_exp r = number_of (map_of kvs ''exp'')"
    using v v'(1) by (simp_all add: r jget_def obj_of_def)
  have tokens: "JObj ps = presentations_json (arp_vp_token r)" "list_all (\<lambda>(_, xs). xs \<noteq> []) (arp_vp_token r)"
    using v'(2) presentations_typed [of ps] fs(1) by simp_all
  have members: "map_of kvs ''state'' = map_option JStr (arp_state r)" "map_of kvs ''iat'' = map_option JNum (arp_iat r)"
    "map_of kvs ''exp'' = map_option JNum (arp_exp r)"
    using v'(3-5) fs(2-4) optional_string optional_number by simp_all
  have "map_of kvs ''vp_token'' = Some (presentations_json (arp_vp_token r))" using v'(1) tokens(1) by simp
  with v keys tokens(2) members show ?r by (intro exI [of _ kvs] conjI)
next
  assume ?r
  then obtain kvs where v: "v = JObj kvs" "fst ` set kvs \<subseteq> {''vp_token'', ''state'', ''iat'', ''exp''}"
    "map_of kvs ''vp_token'' = Some (presentations_json (arp_vp_token r))" "list_all (\<lambda>(_, xs). xs \<noteq> []) (arp_vp_token r)"
    "map_of kvs ''state'' = map_option JStr (arp_state r)" "map_of kvs ''iat'' = map_option JNum (arp_iat r)"
    "map_of kvs ''exp'' = map_option JNum (arp_exp r)"
    by blast
  let ?ps = "map (\<lambda>(k, xs). (k, JArr (map JStr xs))) (arp_vp_token r)"
  have "list_all (\<lambda>(_, p). is_presentation_list p) ?ps"
    using v(4) by (auto simp: list_all_iff is_presentation_list_def)
  moreover have "list_all (\<lambda>(k, _). k \<in> set [''vp_token'', ''state'', ''iat'', ''exp'']) kvs"
    using v(2) by (auto simp: list_all_iff)
  moreover have "optional_member is_string (map_of kvs ''state'')" "optional_member is_number (map_of kvs ''iat'')"
    "optional_member is_number (map_of kvs ''exp'')"
    by (simp_all add: v(5-7) optional_string optional_number jstr_string number_of_number)
  ultimately have "AuthResponseSchema v"
    by (simp add: AuthResponseSchema_def v(1,3) presentations_json_def)
  then show ?l
    by (simp add: parse_authorization_response_def v(1,3,5-7) jget_def presentations_json_def obj_of_def
        presentations_read_back [simplified] jstr_string number_of_number)
qed


section \<open>Completing a response\<close>

lemma completed_run:
  assumes "completePresentationResponse now input db = (Inr o', db', events)"
  shows "fst (updateUnconsumedForTenant now (cp_tenantId input) (cp_sessionId input) (completion_update now input) db)"
    and "db' = snd (updateUnconsumedForTenant now (cp_tenantId input) (cp_sessionId input) (completion_update now input) db)"
    and "events = announce now (cp_sessionId input) Completed"
  using assms by (auto simp: completePresentationResponse_def split: prod.splits if_splits)

lemma not_completed_run:
  assumes "completePresentationResponse now input db = (Inl e, db', events)"
  shows "db' = db" "events = []"
  using assms claim_session_refused [of now "cp_tenantId input" "cp_sessionId input" "completion_update now input" db]
  by (auto simp: completePresentationResponse_def split: prod.splits if_splits)

text \<open>A failure is recorded for an unconsumed session only; the reply is an error in every case.\<close>

lemma recordFailure_reply: "isl (fst (recordFailure env now s redirect report webhook db))"
  by (simp add: recordFailure_def Let_def split: prod.splits option.splits)

lemma failPresentation_refused:
  assumes "\<forall>u. updateUnconsumedForTenant now (fl_tenantId input) (fl_sessionId input) u db = (False, db)"
  shows "failPresentationResponse publisher now input db
    = (\<lparr>fr_failed = False, fr_redirectUri = None, fr_publicationFailed = False\<rparr>, db, [])"
  using assms by (simp add: failPresentationResponse_def)

lemma failPresentation_events:
  "set (snd (snd (failPresentationResponse publisher now input db))) \<subseteq> {StatusChanged (fl_sessionId input) Failed now}"
  by (auto simp: failPresentationResponse_def announce_def Let_def split: prod.splits if_splits option.splits)

lemma recordFailure_run:
  "snd (recordFailure env now s redirect (m, c, cs) webhook db) = snd (failPresentationResponse (rse_publishFailure env) now
     \<lparr>fl_tenantId = s_tenantId s, fl_sessionId = s_id s, fl_message = m, fl_code = c, fl_credentials = cs,
      fl_publish = map_option (\<lambda>w. (w, s)) webhook\<rparr> db)"
  (is "_ = snd ?f")
  by (cases ?f) (simp add: recordFailure_def split: option.splits)

lemma recordFailure_refused:
  assumes "\<forall>u. updateUnconsumedForTenant now (s_tenantId s) (s_id s) u db = (False, db)"
  shows "snd (recordFailure env now s redirect report webhook db) = (db, [])"
  using assms by (cases report) (simp add: recordFailure_run failPresentation_refused)

lemma recordFailure_events:
  "set (snd (snd (recordFailure env now s redirect report webhook db))) \<subseteq> {StatusChanged (s_id s) Failed now}"
  by (cases report, simp only: recordFailure_run) (rule order_trans [OF failPresentation_events], simp)

lemma walletError_run:
  "snd (handleWalletError env now s (e, d) db) = snd (failPresentationResponse (rse_publishFailure env) now
     \<lparr>fl_tenantId = s_tenantId s, fl_sessionId = s_id s,
      fl_message = ''Wallet error: '' @ (if truthy d then e @ '': '' @ the d else e), fl_code = Some e, fl_credentials = None,
      fl_publish = map_option (\<lambda>w. (w, s)) (resolveFailureWebhook (rse_request env) s)\<rparr> db)"
  (is "_ = snd ?f")
  by (cases ?f) (simp add: handleWalletError_def Let_def split: option.splits)

lemma walletError_events:
  "set (snd (snd (handleWalletError env now s werr db))) \<subseteq> {StatusChanged (s_id s) Failed now}"
  by (cases werr, simp only: walletError_run) (rule order_trans [OF failPresentation_events], simp)

text \<open>A session that was just completed is not completed or failed again by the same request.\<close>

lemma claimed_once:
  assumes "final_consumed u = Some True"
  shows "updateUnconsumedForTenant now t i u' (snd (updateUnconsumedForTenant now t i u db))
    = (False, snd (updateUnconsumedForTenant now t i u db))"
proof -
  let ?db' = "snd (updateUnconsumedForTenant now t i u db)"
  have "\<not> unconsumed_where now t i (set_clause now u r)" for r
    using assms by (simp add: unconsumed_where_iff set_clause_consumed)
  then have "\<not> unconsumed_where now t i (if unconsumed_where now t i r then set_clause now u r else r)" for r
    by simp
  moreover have "?db' = map (\<lambda>r. if unconsumed_where now t i r then set_clause now u r else r) db"
    by (simp add: updateUnconsumedForTenant_def sql_update_def)
  ultimately have "\<forall>r \<in> set ?db'. \<not> unconsumed_where now t i r" by (simp only: set_map) blast
  then show ?thesis by (simp only: updateUnconsumedForTenant_def [of _ _ _ u'] sql_update_none) simp
qed

lemma completion_consumes: "final_consumed (completion_update now input) = Some True"
  by (simp add: completion_update_def)


definition completion_of :: "session \<Rightarrow> verified_presentation \<Rightarrow> string \<Rightarrow> complete_input" where
  "completion_of s vs responseCode =
     \<lparr>cp_tenantId = s_tenantId s, cp_sessionId = s_id s, cp_credentials = credentials_json vs,
      cp_responseCode = responseCode, cp_consumedAt = None\<rparr>"

lemma processed_run:
  assumes "processVerifiedPresentation env now response s vs code webhook raw db = (Inr redirect, db', events)"
  shows "validateState response (walletFacingId s) = Inr ()
    \<and> updateUnconsumedForTenant now (s_tenantId s) (s_id s) (completion_update now (completion_of s vs code)) db = (True, db')
    \<and> events = [StatusChanged (s_id s) Completed now]"
  using assms
  by (auto simp: processVerifiedPresentation_def completePresentationResponse_def completion_of_def announce_def
      split: sum.splits prod.splits if_splits)

lemma not_processed_run:
  assumes "processVerifiedPresentation env now response s vs code webhook raw db = (Inl e, db', events)"
  shows "db' = db \<and> events = []"
  using assms not_completed_run
  by (fastforce simp: processVerifiedPresentation_def split: sum.splits prod.splits)

lemma process_response_completed:
  assumes "StatusChanged i Completed t \<in> set (snd (snd
      (process_response env now code others s body raw response config webhook db)))"
  shows "\<exists>vs. verifyPresentationResponse (verification_of env) now response (presentation_query_of config) s = Inr vs
    \<and> validateState response (walletFacingId s) = Inr () \<and> i = s_id s \<and> t = now
    \<and> updateUnconsumedForTenant now (s_tenantId s) (s_id s) (completion_update now (completion_of s vs code)) (exec_stmts others db)
      = (True, fst (snd (process_response env now code others s body raw response config webhook db)))"
proof (cases "verifyPresentationResponse (verification_of env) now response (presentation_query_of config) s")
  case (Inl e)
  with assms recordFailure_events show ?thesis by (fastforce simp: process_response_def)
next
  case vs: (Inr vs)
  let ?db = "exec_stmts others db" and ?u = "completion_update now (completion_of s vs code)"
  obtain r db2 events where run: "processVerifiedPresentation env now response s vs code webhook raw ?db = (r, db2, events)"
    by (metis surj_pair)
  show ?thesis
  proof (cases r)
    case (Inl e)
    from not_processed_run [OF run [unfolded Inl]] have none: "db2 = ?db" "events = []" by simp_all
    show ?thesis
      using assms vs run Inl none recordFailure_events by (cases e) (fastforce simp: process_response_def)+
  next
    case (Inr redirect)
    note fin = processed_run [OF run [unfolded Inr]]
    have "\<forall>u. updateUnconsumedForTenant now (s_tenantId s) (s_id s) u db2 = (False, db2)"
      using claimed_once [OF completion_consumes, of now "s_tenantId s" "s_id s" _ now "completion_of s vs code" ?db] fin
      by simp
    note again = recordFailure_refused [OF this, of env]
    have out: "snd (process_response env now code others s body raw response config webhook db) = (db2, events)"
      using vs run Inr again
      by (simp add: process_response_def Let_def split_beta split: option.splits)
    with assms vs fin show ?thesis by simp
  qed
qed


lemma process_response_completes:
  assumes "verifyPresentationResponse (verification_of env) now response (presentation_query_of config) s = Inr vs"
    and "validateState response (walletFacingId s) = Inr ()"
    and "updateUnconsumedForTenant now (s_tenantId s) (s_id s) (completion_update now (completion_of s vs code)) (exec_stmts others db)
      = (True, db')"
  shows "StatusChanged (s_id s) Completed now \<in> set (snd (snd
      (process_response env now code others s body raw response config webhook db)))"
proof -
  obtain redirect where "processVerifiedPresentation env now response s vs code webhook raw (exec_stmts others db)
      = (Inr redirect, db', [StatusChanged (s_id s) Completed now])"
    using assms(2,3)
    by (simp add: processVerifiedPresentation_def completePresentationResponse_def completion_of_def announce_def)
  with assms(1) show ?thesis by (simp add: process_response_def Let_def split_beta split: option.splits)
qed

text \<open>The steps of the handler before the response is processed.\<close>

definition reaches_response ::
    "response_env \<Rightarrow> date \<Rightarrow> authorization_response \<Rightarrow> string \<Rightarrow> sessions \<Rightarrow> session \<Rightarrow> json \<Rightarrow> auth_response
       \<Rightarrow> presentation_config \<Rightarrow> json option \<Rightarrow> bool" where
  "reaches_response env now body nonce db s raw response config webhook \<longleftrightarrow>
     getForWalletRequest nonce db = Inr s \<and> \<not> s_consumed s \<and> assertSessionUsable s now = Inr ()
     \<and> body_error_of body = None \<and> decrypted_response env s body = Inr raw \<and> wallet_error_of raw = None
     \<and> parse_authorization_response raw = Inr response
     \<and> rqe_config (rse_request env) (s_requestId s) (s_tenantId s) = Inr config
     \<and> (if s_parsedWebhook s \<noteq> None then Inr (s_parsedWebhook s)
        else resolveWebhookFromEndpoint (rse_request env)
          (coalesce_opt (s_webhookEndpointId s) (pcf_webhookEndpointId config)) (s_tenantId s)) = Inr webhook"

lemma getResponse_reaches:
  "reaches_response env now body nonce db s raw response config webhook \<Longrightarrow>
     getResponse env now code others body nonce db
       = process_response env now code others s body raw response config webhook db"
  by (simp add: reaches_response_def getResponse_def split: if_splits)

lemma getResponse_parsed:
  assumes "getForWalletRequest nonce db = Inr s" "\<not> s_consumed s" "assertSessionUsable s now = Inr ()"
    and "body_error_of body = None" "decrypted_response env s body = Inr raw" "wallet_error_of raw = None"
    and "\<And>e. getResponse env now code others body nonce db = (Inl e, db, []) \<Longrightarrow> thesis"
    and "\<And>s raw response config webhook. reaches_response env now body nonce db s raw response config webhook \<Longrightarrow>
      getResponse env now code others body nonce db
        = process_response env now code others s body raw response config webhook db \<Longrightarrow> thesis"
  shows thesis
proof (cases "parse_authorization_response raw")
  case (Inl e)
  then show ?thesis using assms by (simp add: getResponse_def)
next
  case response: (Inr response)
  show ?thesis
  proof (cases "rqe_config (rse_request env) (s_requestId s) (s_tenantId s)")
    case (Inl e)
    then show ?thesis using assms response by (simp add: getResponse_def)
  next
    case config: (Inr config)
    let ?webhook = "if s_parsedWebhook s \<noteq> None then Inr (s_parsedWebhook s)
      else resolveWebhookFromEndpoint (rse_request env)
        (coalesce_opt (s_webhookEndpointId s) (pcf_webhookEndpointId config)) (s_tenantId s)"
    show ?thesis
    proof (cases ?webhook)
      case (Inl e)
      have "getResponse env now code others body nonce db = (Inl (Response_Thrown e), db, [])"
        using assms(1-6) response config Inl by (auto simp: getResponse_def split: if_splits)
      then show ?thesis by (rule assms(7))
    next
      case (Inr webhook)
      then have "reaches_response env now body nonce db s raw response config webhook"
        using assms(1-6) response config by (simp add: reaches_response_def)
      from assms(8) [OF this getResponse_reaches [OF this]] show ?thesis .
    qed
  qed
qed

lemma getResponse_cases:
  obtains (refused) e where "getResponse env now code others body nonce db = (Inl e, db, [])"
  | (wallet) s werr where "getForWalletRequest nonce db = Inr s"
      "getResponse env now code others body nonce db = handleWalletError env now s werr (exec_stmts others db)"
  | (response) s raw response config webhook where "reaches_response env now body nonce db s raw response config webhook"
      "getResponse env now code others body nonce db
         = process_response env now code others s body raw response config webhook db"
proof (cases "getForWalletRequest nonce db")
  case (Inl e)
  then show ?thesis using refused by (simp add: getResponse_def)
next
  case s: (Inr s)
  show ?thesis
  proof (cases "s_consumed s")
    case True
    with s show ?thesis using refused by (simp add: getResponse_def)
  next
    case fresh: False
    show ?thesis
    proof (cases "assertSessionUsable s now")
      case (Inl e)
      with s fresh show ?thesis using refused by (cases e) (simp add: getResponse_def)
    next
      case usable: (Inr u)
      note here = getResponse_def s fresh usable
      show ?thesis
      proof (cases "body_error_of body")
        case (Some werr)
        show ?thesis by (rule wallet [OF s, of werr]) (simp add: here Some)
      next
        case no_error: None
        show ?thesis
        proof (cases "decrypted_response env s body")
          case (Inl e)
          show ?thesis by (rule refused [of e]) (simp add: here no_error Inl)
        next
          case raw: (Inr raw)
          show ?thesis
          proof (cases "wallet_error_of raw")
            case (Some werr)
            show ?thesis by (rule wallet [OF s, of werr]) (simp add: here no_error raw Some)
          next
            case no_werr: None
            have "assertSessionUsable s now = Inr ()" using usable by simp
            from getResponse_parsed [OF s fresh this no_error raw no_werr, where code = code and others = others, OF refused response]
            show ?thesis .
          qed
        qed
      qed
    qed
  qed
qed


section \<open>An example\<close>

definition vtrust_ref1 :: json where
  "vtrust_ref1 = JObj [(''url'', JStr ''https://list''), (''verifierX509Der'', JStr ''der'')]"

definition vauthority1 :: json where
  "vauthority1 = JArr [JObj [(''type'', JStr ''etsi_tl''), (''values'', JArr [vtrust_ref1])]]"

definition vdcql1 :: json where
  "vdcql1 = JObj [(''credentials'', JArr [
     JObj [(''id'', JStr ''pid''), (''format'', JStr ''dc+sd-jwt''), (''trusted_authorities'', vauthority1),
       (''claims'', JArr [JObj [(''path'', JArr [JStr ''age'']), (''values'', JArr [JNum 21])]])]])]"

definition vconfig1 :: presentation_config where
  "vconfig1 = \<lparr>pcf_tenantId = ''t'', pcf_lifeTime = None, pcf_skewSeconds = None, pcf_statusCheckMode = None,
     pcf_dcql_query = vdcql1, pcf_transaction_data = None, pcf_registration_cert = None,
     pcf_webhookEndpointId = None, pcf_clientIdScheme = None, pcf_redirectUri = None, pcf_accessKeyChainId = None\<rparr>"

definition vcert1 :: access_certificate where
  "vcert1 = \<lparr>acc_keyId = ''k'', acc_dnsName = ''v'', acc_hash = ''h'', acc_chain = [''leaf'']\<rparr>"

text \<open>The signed request is its payload, with the text of the nonce as its only content: the decoder gives
  the request object of the session back.\<close>

definition vrequest_env1 :: request_env where
  "vrequest_env1 = \<lparr>rqe_removeTrustedAuthorities = False, rqe_config = (\<lambda>_ _. Inr vconfig1),
     rqe_registrarEnabled = (\<lambda>_. Inr False), rqe_registrationCertificate = (\<lambda>_ _ _. Inl ''disabled''),
     rqe_accessCertificate = (\<lambda>_ _. Inr vcert1), rqe_encodeTransactionData = (\<lambda>_. ''td''),
     rqe_sign = (\<lambda>_ _ _ _. Inl ''no key''), rqe_origin = Some, rqe_mdocAlgorithms = JArr [], rqe_webhook = (\<lambda>_ _. Inr None),
     rqe_uri = (\<lambda>s. s), rqe_jsonText = (\<lambda>_. ''json''), rqe_query = wenv1 venv1\<rparr>"

definition vresponse_env1 :: response_env where
  "vresponse_env1 = \<lparr>rse_decrypt = (\<lambda>jwe _ _. if jwe = ''jwe''
        then Inr (JObj [(''vp_token'', JObj [(''pid'', JArr [JStr ''sdjwt''])]), (''state'', JStr ''w'')])
        else if jwe = ''other'' then Inr (JObj [(''vp_token'', JObj []), (''state'', JStr ''w'')])
        else Inl ''decryption failed''),
     rse_parseJson = (\<lambda>_. None), rse_decodeUri = Some, rse_publishResult = (\<lambda>_ _ _ _ _. Inr None),
     rse_publishFailure = (\<lambda>_ _ _ _. Inr None), rse_request = vrequest_env1\<rparr>"

definition vbody1 :: "string \<Rightarrow> authorization_response" where
  "vbody1 jwe = \<lparr>arb_response = Some jwe, arb_sendResponse = False, arb_vp_token = None, arb_error = None,
     arb_error_description = None, arb_state = None\<rparr>"


section \<open>What a completed response proves\<close>


text \<open>C21: A late response changes nothing. When the session is consumed, finished or gone by the time the
  handler writes, whatever the response is, the wallet gets an error, no session changes and no
  change is announced.\<close>

theorem late_response_changes_nothing:
  assumes "getForWalletRequest nonce db = Inr s"
    and "\<not> session_live (s_tenantId s) (s_id s) (exec_stmts others db)"
  shows "isl (fst (getResponse env now code others body nonce db))
    \<and> snd (getResponse env now code others body nonce db) \<in> {(db, []), (exec_stmts others db, [])}"
proof -
  let ?db = "exec_stmts others db"
  have dead: "\<forall>u. updateUnconsumedForTenant now (s_tenantId s) (s_id s) u ?db = (False, ?db)"
    using claim_session_dead [OF assms(2)] by simp
  have wallet_dead: "isl (fst (handleWalletError env now s werr ?db)) \<and> snd (handleWalletError env now s werr ?db) = (?db, [])" for werr
    using dead by (cases werr) (simp add: handleWalletError_def failPresentation_refused)
  have record_dead: "snd (recordFailure env now s redirect report webhook ?db) = (?db, [])" for redirect report webhook
    by (rule recordFailure_refused [OF dead])
  have process_dead: "isl (fst (process_response env now code others s body raw response config webhook db))
      \<and> snd (process_response env now code others s body raw response config webhook db) = (?db, [])"
    for raw response config webhook
  proof (cases "verifyPresentationResponse (verification_of env) now response (presentation_query_of config) s")
    case (Inl e)
    then show ?thesis using record_dead recordFailure_reply by (simp add: process_response_def)
  next
    case vs: (Inr vs)
    have "\<exists>e. processVerifiedPresentation env now response s vs code webhook raw ?db = (Inl e, ?db, [])"
      using dead by (auto simp: processVerifiedPresentation_def completePresentationResponse_def split: sum.splits)
    then obtain e where "processVerifiedPresentation env now response s vs code webhook raw ?db = (Inl e, ?db, [])" by blast
    with vs show ?thesis using record_dead recordFailure_reply by (cases e) (simp_all add: process_response_def)
  qed
  show ?thesis
  proof (cases rule: getResponse_cases [of env now code others body nonce db])
    case (refused e)
    then show ?thesis by simp
  next
    case (wallet s' werr)
    with assms(1) wallet_dead show ?thesis by simp
  next
    case (response s' raw response config webhook)
    then have "s' = s" using assms(1) by (simp add: reaches_response_def)
    with response process_dead show ?thesis by simp
  qed
qed

text \<open>The session of the example, consumed by another request.\<close>

definition vsession2 :: session where
  "vsession2 = vsession1\<lparr>s_consumed := True\<rparr>"

theorem late_response_changes_nothing_witness:
  "isl (fst (getResponse vresponse_env1 50 ''code'' [Stmt_UpdateUnconsumed 40 ''t'' ''s'' [Set_consumed True]]
      (vbody1 ''jwe'') ''w'' [vsession1]))"
proof -
  have s: "getForWalletRequest ''w'' [vsession1] = Inr vsession1" by code_simp
  have dead: "\<not> session_live (s_tenantId vsession1) (s_id vsession1)
      (exec_stmts [Stmt_UpdateUnconsumed 40 ''t'' ''s'' [Set_consumed True]] [vsession1])"
    by (simp add: session_live_def updateUnconsumedForTenant_def sql_update_def unconsumed_where_def vsession1_def
        blank_session_def spent_def set_clause_consumed OPEN_SESSION_STATUSES_def)
  from late_response_changes_nothing [OF s dead] show ?thesis by blast
qed



section \<open>A failed verification\<close>

lemma failPresentation_accepted:
  assumes "r \<in> set db" "unconsumed_where now (fl_tenantId input) (fl_sessionId input) r"
  shows "set_clause now (failure_update input) r \<in> set (fst (snd (failPresentationResponse publisher now input db)))"
proof -
  have won: "fst (updateUnconsumedForTenant now (fl_tenantId input) (fl_sessionId input) (failure_update input) db)"
    using assms by (auto simp: updateUnconsumedForTenant_def fst_case_pair sql_update_affected)
  have "set_clause now (failure_update input) r \<in>
      (\<lambda>x. if unconsumed_where now (fl_tenantId input) (fl_sessionId input) x then set_clause now (failure_update input) x else x) ` set db"
    using assms by (intro image_eqI [of _ _ r]) simp_all
  then show ?thesis using claim_session_accepted [OF won] by (simp add: failPresentationResponse_def)
qed

text \<open>C22: A failed verification is recorded and never completes. When the credentials of a response do not
  verify and the session is still unused, the wallet gets an error; the session's row becomes failed with the
  message and code of the failure, its response key is deleted, and it stays without consumption and
  with the credentials it had.\<close>

theorem failed_verification_recorded:
  assumes "reaches_response env now body nonce db s raw response config webhook"
    and "verifyPresentationResponse (verification_of env) now response (presentation_query_of config) s = Inl e"
    and "failure_report e = (message, failureCode, credentials)"
    and "r \<in> set (exec_stmts others db)" "unconsumed_where now (s_tenantId s) (s_id s) r"
  shows "isl (fst (getResponse env now code others body nonce db))
    \<and> (\<exists>r' \<in> set (fst (snd (getResponse env now code others body nonce db))).
        s_id r' = s_id s \<and> s_tenantId r' = s_tenantId s \<and> s_status r' = Failed \<and> s_errorReason r' = Some message
      \<and> (truthy failureCode \<longrightarrow> s_failureCode r' = failureCode) \<and> s_responseEncryptionPrivateJwk r' = None
      \<and> \<not> s_consumed r' \<and> s_credentials r' = s_credentials r)"
proof -
  define input where "input = \<lparr>fl_tenantId = s_tenantId s, fl_sessionId = s_id s, fl_message = message, fl_code = failureCode,
     fl_credentials = credentials, fl_publish = map_option (\<lambda>w. (w, s)) webhook\<rparr>"
  let ?r = "set_clause now (failure_update input) r" and ?run = "getResponse env now code others body nonce db"
  have run: "?run = recordFailure env now s (s_redirectUri s) (message, failureCode, credentials) webhook (exec_stmts others db)"
    using getResponse_reaches [OF assms(1)] assms(2,3) by (simp add: process_response_def)
  have "?r \<in> set (fst (snd ?run))"
    unfolding run recordFailure_run input_def [symmetric]
    using failPresentation_accepted [of r "exec_stmts others db" now input] assms(4,5) by (simp add: input_def)
  moreover have "isl (fst ?run)" unfolding run by (rule recordFailure_reply)
  moreover have "s_id ?r = s_id s" "s_tenantId ?r = s_tenantId s" "\<not> s_consumed ?r"
    using assms(5) by (simp_all add: unconsumed_where_iff set_clause_consumed failure_update_def)
  moreover have "s_status ?r = Failed" "s_errorReason ?r = Some message" "s_responseEncryptionPrivateJwk ?r = None"
    "s_credentials ?r = s_credentials r" "truthy failureCode \<longrightarrow> s_failureCode ?r = failureCode"
    by (simp_all add: set_clause_def failure_update_def input_def)
  ultimately show ?thesis by (intro conjI bexI [of _ ?r]) simp_all
qed

lemma reaches1:
  "reaches_response vresponse_env1 50 (vbody1 ''other'') ''w'' [vsession1] vsession1
     (JObj [(''vp_token'', JObj []), (''state'', JStr ''w'')]) \<lparr>arp_vp_token = [], arp_state = Some ''w'', arp_iat = None, arp_exp = None\<rparr>
     vconfig1 None"
proof -
  have s: "getForWalletRequest ''w'' [vsession1] = Inr vsession1" by code_simp
  have u: "assertSessionUsable vsession1 50 = Inr ()" "\<not> s_consumed vsession1" by code_simp+
  have b: "body_error_of (vbody1 ''other'') = None" by code_simp
  have d: "decrypted_response vresponse_env1 vsession1 (vbody1 ''other'')
      = Inr (JObj [(''vp_token'', JObj []), (''state'', JStr ''w'')])" by code_simp
  have w: "wallet_error_of (JObj [(''vp_token'', JObj []), (''state'', JStr ''w'')]) = None" by code_simp
  have p: "parse_authorization_response (JObj [(''vp_token'', JObj []), (''state'', JStr ''w'')])
      = Inr \<lparr>arp_vp_token = [], arp_state = Some ''w'', arp_iat = None, arp_exp = None\<rparr>" by code_simp
  have c: "rqe_config (rse_request vresponse_env1) (s_requestId vsession1) (s_tenantId vsession1) = Inr vconfig1"
    by (simp add: vresponse_env1_def vrequest_env1_def)
  have h: "(if s_parsedWebhook vsession1 \<noteq> None then Inr (s_parsedWebhook vsession1)
      else resolveWebhookFromEndpoint (rse_request vresponse_env1)
        (coalesce_opt (s_webhookEndpointId vsession1) (pcf_webhookEndpointId vconfig1)) (s_tenantId vsession1)) = Inr None"
    by code_simp
  show ?thesis unfolding reaches_response_def by (intro conjI s u b d w p c h)
qed

theorem failed_verification_recorded_witness:
  "\<exists>r' \<in> set (fst (snd (getResponse vresponse_env1 50 ''code'' [] (vbody1 ''other'') ''w'' [vsession1]))).
     s_id r' = ''s'' \<and> s_status r' = Failed \<and> \<not> s_consumed r'"
proof -
  let ?response = "\<lparr>arp_vp_token = [], arp_state = Some ''w'', arp_iat = None, arp_exp = None\<rparr>"
  have "(case verifyPresentationResponse (verification_of vresponse_env1) 50 ?response (presentation_query_of vconfig1) vsession1
      of Inl e \<Rightarrow> True | Inr _ \<Rightarrow> False)"
    by code_simp
  then obtain e where e: "verifyPresentationResponse (verification_of vresponse_env1) 50 ?response
      (presentation_query_of vconfig1) vsession1 = Inl e"
    by (auto split: sum.splits)
  obtain message failureCode credentials where f: "failure_report e = (message, failureCode, credentials)" by (metis surj_pair)
  have r: "vsession1 \<in> set (exec_stmts [] [vsession1])" by simp
  have u: "unconsumed_where 50 (s_tenantId vsession1) (s_id vsession1) vsession1" by code_simp
  have i: "s_id vsession1 = ''s''" by code_simp
  from failed_verification_recorded [OF reaches1 e f r u, of "''code''", unfolded i] show ?thesis by blast
qed



section \<open>The request object and the response to it\<close>

lemma updated_row:
  assumes "r \<in> set db" "s_tenantId r = t" "s_id r = i"
  shows "set_clause now u r \<in> set (fst (updateForTenant now t i u db))"
  using assms by (force simp: updateForTenant_def sql_update_rows)

lemma request_row:
  assumes "createAuthorizationRequest env now [] [] nonce keys sid origin noRedirect db = (Inr jwt, db')"
  shows "\<exists>s r config cert dcql regCert header expectedOrigin. s \<in> set db \<and> s_id s = sid \<and> r \<in> set db'
    \<and> s_id r = sid \<and> s_tenantId r = s_tenantId s \<and> s_useDcApi r = s_useDcApi s \<and> s_walletNonce r = s_walletNonce s
    \<and> s_clientId r = s_clientId s \<and> s_responseUri r = s_responseUri s
    \<and> s_vp_nonce r = Some nonce \<and> s_responseEncryptionPrivateJwk r = Some (snd keys)
    \<and> rqe_sign env (request_payload env now s config (coalesce (s_clientId s) (createClientId cert X509_HASH)) nonce
          (fst keys) dcql regCert expectedOrigin) header (s_tenantId s) (acc_keyId cert) = Inr jwt"
proof -
  obtain s where s: "getForInternalFlow sid db = Inr s"
    using assms by (auto simp: createAuthorizationRequest_def split: sum.splits)
  then have row: "s \<in> set db" "s_id s = sid"
    by (auto simp: getForInternalFlow_def store_lookup_ok findByIdForInternalFlow_def dest!: sql_find_one_Some)
  let ?db1 = "if noRedirect then fst (updateForTenant now (s_tenantId s) (s_id s) [Set_redirectUri None] db) else db"
  define r1 where "r1 = (if noRedirect then set_clause now [Set_redirectUri None] s else s)"
  have r1: "r1 \<in> set ?db1" "s_tenantId r1 = s_tenantId s" "s_id r1 = s_id s"
    using updated_row [OF row(1) refl refl, of now "[Set_redirectUri None]"] row(1) by (simp_all add: r1_def)
  let ?db2 = "fst (updateForTenant now (s_tenantId s) (s_id s) [Set_vp_nonce (Some nonce)] ?db1)"
  define r2 where "r2 = set_clause now [Set_vp_nonce (Some nonce)] r1"
  have r2: "r2 \<in> set ?db2" "s_tenantId r2 = s_tenantId s" "s_id r2 = s_id s"
    using updated_row [OF r1] r1 by (simp_all add: r2_def)
  let ?db3 = "fst (updateForTenant now (s_tenantId s) (s_id s) [Set_responseEncryptionPrivateJwk (Some (snd keys))] ?db2)"
  define r3 where "r3 = set_clause now [Set_responseEncryptionPrivateJwk (Some (snd keys))] r2"
  have r3: "r3 \<in> set ?db3" "s_tenantId r3 = s_tenantId s" "s_id r3 = sid"
    using updated_row [OF r2] r2 row by (simp_all add: r3_def)
  have columns: "s_useDcApi r3 = s_useDcApi s" "s_walletNonce r3 = s_walletNonce s" "s_clientId r3 = s_clientId s"
    "s_responseUri r3 = s_responseUri s" "s_vp_nonce r3 = Some nonce" "s_responseEncryptionPrivateJwk r3 = Some (snd keys)"
    by (simp_all add: r3_def r2_def r1_def set_clause_def)
  obtain config cert dcql regCert header expectedOrigin where out: "db' = ?db3"
    "rqe_sign env (request_payload env now s config (coalesce (s_clientId s) (createClientId cert X509_HASH)) nonce
          (fst keys) dcql regCert expectedOrigin) header (s_tenantId s) (acc_keyId cert) = Inr jwt"
    using assms unfolding createAuthorizationRequest_def s
    by (simp add: Let_def split: sum.splits prod.splits) blast
  from row r3 columns out show ?thesis by blast
qed


lemma request_payload_fields:
  fixes env now s config clientId nonce publicJwk dcql regCert expectedOrigin
  defines "p \<equiv> request_payload env now s config clientId nonce publicJwk dcql regCert expectedOrigin"
  shows "signed_request_of p = \<lparr>srq_nonce = Some nonce, srq_client_id = Some clientId,
      srq_response_uri = Some (response_uri env (walletFacingId s)),
      srq_response_mode = Some (if s_useDcApi s then ''dc_api.jwt'' else ''direct_post.jwt''),
      srq_expected_origins = map_option (\<lambda>o'. [o']) expectedOrigin,
      srq_client_metadata = Some (client_metadata env publicJwk)\<rparr>"
    and "jget ''state'' (Some p) = (if s_useDcApi s then None else Some (JStr (walletFacingId s)))"
proof -
  have l: "jget k (Some p) = map_of (obj_of (Some p)) k" for k by (simp add: p_def request_payload_def jget_def obj_of_def)
  have o': "obj_of (Some p) = [(''response_type'', JStr ''vp_token''), (''client_id'', JStr clientId),
      (''response_uri'', JStr (response_uri env (walletFacingId s))),
      (''response_mode'', JStr (if s_useDcApi s then ''dc_api.jwt'' else ''direct_post.jwt'')), (''nonce'', JStr nonce)]
     @ json_member ''expected_origins'' (map_option (\<lambda>o'. JArr [JStr o']) expectedOrigin)
     @ [(''dcql_query'', dcql), (''client_metadata'', client_metadata env publicJwk)]
     @ (if s_useDcApi s then [] else [(''state'', JStr (walletFacingId s))])
     @ json_member ''transaction_data'' (requested_transaction_data env s config)
     @ [(''aud'', JStr (if starts_with clientId (X509_SAN_DNS @ '':'') then public_url env
          else ''https://self-issued.me/v2'')),
        (''exp'', JNum (now div 1000 + 60 * 60)), (''iat'', JNum (now div 1000))]
     @ json_member ''verifier_info'' (map_option (\<lambda>c. JArr [JObj [(''format'', JStr ''registration_cert''),
          (''data'', JStr c)]]) (if truthy regCert then regCert else None))"
    by (simp add: p_def request_payload_def obj_of_def)
  have m: "map_of (json_member k v) k' = (if k' = k then v else None)" for k k' v
    by (simp add: json_member_def split: option.splits)
  show "jget ''state'' (Some p) = (if s_useDcApi s then None else Some (JStr (walletFacingId s)))"
    by (simp add: l o' m map_add_def)
  show "signed_request_of p = \<lparr>srq_nonce = Some nonce, srq_client_id = Some clientId,
      srq_response_uri = Some (response_uri env (walletFacingId s)),
      srq_response_mode = Some (if s_useDcApi s then ''dc_api.jwt'' else ''direct_post.jwt''),
      srq_expected_origins = map_option (\<lambda>o'. [o']) expectedOrigin,
      srq_client_metadata = Some (client_metadata env publicJwk)\<rparr>"
    by (cases expectedOrigin)
      (simp_all add: signed_request_of_def l o' m map_add_def jstr_def string_list_def strings_of_def arr_of_def
        List.map_filter_simps)
qed

lemma request_thumbprint:
  "publicJwk \<noteq> JNull \<Longrightarrow> srq_client_metadata request = Some (client_metadata env publicJwk) \<Longrightarrow>
     responseEncryptionJwkThumbprint menv request = map_option (mde_sha256Json menv) (canonical_jwk publicJwk)"
  by (simp add: responseEncryptionJwkThumbprint_def client_metadata_def jget_def arr_of_def coalesce_def)


text \<open>C18: What the wallet was asked is what its response is checked against. When a request object was created
  undisturbed and the signed request decodes to what was signed, then the stored session and the request
  agree on the nonce and the state the response must carry; the private key of the session belongs to the key
  pair whose public key the request offers; and for a response sent back to the response address, the audience of the key binding JWT and the
  handover of an mdoc session are the client, nonce, address and key of that request.\<close>

theorem request_binds_response:
  assumes "createAuthorizationRequest env now [] [] nonce keys sid origin noRedirect db = (Inr jwt, db')"
    and "\<forall>payload header t k. rqe_sign env payload header t k = Inr jwt \<longrightarrow> vne_decodeJwt venv jwt = Inr payload"
  shows "\<exists>s payload request clientId. s \<in> set db' \<and> s_id s = sid
    \<and> vne_decodeJwt venv jwt = Inr payload \<and> request = signed_request_of payload
    \<and> srq_nonce request = Some nonce \<and> s_vp_nonce s = Some nonce
    \<and> s_responseEncryptionPrivateJwk s = Some (snd keys)
    \<and> srq_client_id request = Some clientId \<and> (s_clientId s = None \<or> s_clientId s = Some clientId)
    \<and> jget ''state'' (Some payload) = (if s_useDcApi s then None else Some (JStr (walletFacingId s)))
    \<and> (s_useDcApi s \<or>
        keyBindingAudience cenv (binding_of s (Some request)) = Some clientId
        \<and> (fst keys = JNull \<or> mdoc_session_data_of menv (Openid4vp (binding_of s (Some request)))
            = Session_Oid4vp \<lparr>ohv_nonce = Some nonce, ohv_clientId = Some clientId,
                ohv_responseUri = Some (response_uri env (walletFacingId s)), ohv_responseMode = ''direct_post.jwt'',
                ohv_jwkThumbprint = map_option (mde_sha256Json menv) (canonical_jwk (fst keys))\<rparr>))"
proof -
  from request_row [OF assms(1)] obtain s r config cert dcql regCert header expectedOrigin where
    row: "r \<in> set db'" "s_id r = sid" "s_useDcApi r = s_useDcApi s" "s_walletNonce r = s_walletNonce s" "s_clientId r = s_clientId s"
      "s_vp_nonce r = Some nonce" "s_responseEncryptionPrivateJwk r = Some (snd keys)" "s_id s = sid"
    and sign: "rqe_sign env (request_payload env now s config (coalesce (s_clientId s) (createClientId cert X509_HASH)) nonce
          (fst keys) dcql regCert expectedOrigin) header (s_tenantId s) (acc_keyId cert) = Inr jwt"
    by (elim exE conjE) (rule that)
  define clientId where "clientId = coalesce (s_clientId s) (createClientId cert X509_HASH)"
  define payload where "payload = request_payload env now s config clientId nonce (fst keys) dcql regCert expectedOrigin"
  have dec: "vne_decodeJwt venv jwt = Inr payload" using assms(2) sign by (auto simp: payload_def clientId_def)
  have w: "walletFacingId r = walletFacingId s" using row by (simp add: walletFacingId_def)
  note fields = request_payload_fields [of env now s config clientId nonce "fst keys" dcql regCert expectedOrigin,
    folded payload_def]
  let ?b = "binding_of r (Some (signed_request_of payload))"
  have aud: "\<not> s_useDcApi r \<Longrightarrow> keyBindingAudience cenv ?b = Some clientId"
    by (simp add: keyBindingAudience_def binding_of_def fields coalesce_opt_def)
  have session_data: "mdoc_session_data_of menv (Openid4vp ?b) = Session_Oid4vp \<lparr>ohv_nonce = Some nonce, ohv_clientId = Some clientId,
                ohv_responseUri = Some (response_uri env (walletFacingId r)), ohv_responseMode = ''direct_post.jwt'',
                ohv_jwkThumbprint = map_option (mde_sha256Json menv) (canonical_jwk (fst keys))\<rparr>"
    if "\<not> s_useDcApi r" "fst keys \<noteq> JNull"
    using that row(3) request_thumbprint [OF that(2), of "signed_request_of payload" env menv]
    by (simp add: mdoc_session_data_of_def binding_of_def fields coalesce_opt_def coalesce_def w)
  have client: "s_clientId r = None \<or> s_clientId r = Some clientId"
    using row(5) by (cases "s_clientId s") (simp_all add: clientId_def)
  show ?thesis
    by (rule exI [of _ r], rule exI [of _ payload], rule exI [of _ "signed_request_of payload"], rule exI [of _ clientId])
      (use row dec aud session_data client fields w in auto)
qed

definition vpayload2 :: json where
  "vpayload2 = request_payload vrequest_env1 50 vsession1 vconfig1 ''x509_hash:h'' ''n2'' (JObj [])
     (buildDcqlQuery (wenv1 venv1) False vdcql1 ''t'') None None"

definition vrequest_env2 :: request_env where
  "vrequest_env2 = vrequest_env1\<lparr>rqe_sign := \<lambda>payload _ _ _. if payload = vpayload2 then Inr ''jwt2'' else Inl ''no key''\<rparr>"

definition venv2 :: verification_env where
  "venv2 = venv1\<lparr>vne_decodeJwt := \<lambda>_. Inr vpayload2\<rparr>"

theorem request_binds_response_witness:
  "\<exists>s payload. vne_decodeJwt venv2 ''jwt2'' = Inr payload \<and> srq_nonce (signed_request_of payload) = Some ''n2''
    \<and> s \<in> set (snd (createAuthorizationRequest vrequest_env2 50 [] [] ''n2'' (JObj [], JObj []) ''s'' '''' False [vsession1]))
    \<and> s_vp_nonce s = Some ''n2''"
proof -
  have s: "getForInternalFlow ''s'' [vsession1] = Inr vsession1" by code_simp
  have payload: "request_payload vrequest_env2 50 vsession1 vconfig1 ''x509_hash:h'' ''n2'' (JObj [])
      (buildDcqlQuery (rqe_query vrequest_env2) False vdcql1 ''t'') None None = vpayload2"
    by (simp add: vpayload2_def vrequest_env2_def vrequest_env1_def request_payload_def response_uri_def public_url_def
        client_metadata_def requested_transaction_data_def)
  have run: "createAuthorizationRequest vrequest_env2 50 [] [] ''n2'' (JObj [], JObj []) ''s'' '''' False [vsession1]
      = (Inr ''jwt2'', snd (createAuthorizationRequest vrequest_env2 50 [] [] ''n2'' (JObj [], JObj []) ''s'' '''' False [vsession1]))"
    using payload
    by (simp add: createAuthorizationRequest_def s Let_def)
      (simp add: vrequest_env2_def vrequest_env1_def vsession1_def vconfig1_def blank_session_def)
  have dec: "\<forall>payload header t k. rqe_sign vrequest_env2 payload header t k = Inr ''jwt2'' \<longrightarrow>
      vne_decodeJwt venv2 ''jwt2'' = Inr payload"
    by (simp add: vrequest_env2_def venv2_def split: if_splits)
  show ?thesis using request_binds_response [OF run dec, where cenv = vcrypto1 and menv = vmdoc1] by blast
qed

end
