(* ===== verification/Outbound_Requests.thy ===== *)
theory Outbound_Requests
  imports Js_Values "HOL-Library.Word"
begin

text \<open>
  Requests to hosts that a credential, a trust list or a tenant names:
  \<open>webhook/outbound-url-policy.service.ts\<close> and \<open>trust/trust-fetch.service.ts\<close>. The URL parser, the name
  resolver, the recognition of an IPv6 address, UTF-8 decoding and the HTTP client are parameters. The
  resolver is asked twice for each hop, by the check and by the connection, and may answer differently.
  Every attempt to connect is recorded with the addresses the client may use; for a URL with an IP
  address the client does not ask the resolver.
\<close>

section \<open>Private addresses\<close>

text \<open>An octet of a dotted address has no leading zero.\<close>

definition ipv4_octet :: "string \<Rightarrow> nat option" where
  "ipv4_octet s = (if s = [] \<or> 3 < length s \<or> (hd s = CHR ''0'' \<and> 1 < length s) then None
     else (case digits_value s of None \<Rightarrow> None | Some n \<Rightarrow> if n \<le> 255 then Some n else None))"

fun all_some :: "'a option list \<Rightarrow> 'a list option" where
  "all_some [] = Some []"
| "all_some (x # xs) = (case x of None \<Rightarrow> None | Some y \<Rightarrow> map_option (Cons y) (all_some xs))"

definition ipv4_octets :: "string \<Rightarrow> nat list option" where
  "ipv4_octets s = (case all_some (map ipv4_octet (split_on CHR ''.'' s)) of
       Some os \<Rightarrow> if length os = 4 then Some os else None | None \<Rightarrow> None)"

definition private_octets :: "nat \<Rightarrow> nat \<Rightarrow> bool" where
  "private_octets a b =
     (if a = 10 then True
      else if a = 127 then True
      else if a = 100 \<and> 64 \<le> b \<and> b \<le> 127 then True
      else if a = 198 \<and> (b = 18 \<or> b = 19) then True
      else if a = 169 \<and> b = 254 then True
      else if a = 172 \<and> 16 \<le> b \<and> b \<le> 31 then True
      else if a = 192 \<and> b = 168 then True
      else if a = 0 then True
      else False)"

definition private_ipv6 :: "string \<Rightarrow> bool" where
  "private_ipv6 s =
     (if s = ''::1'' \<or> s = ''::'' then True
      else if starts_with s ''fc'' \<or> starts_with s ''fd'' then True
      else list_ex (starts_with s) [''fe8'', ''fe9'', ''fea'', ''feb''])"

definition MAPPED_PREFIX :: string where
  "MAPPED_PREFIX = ''::ffff:''"

function isPrivateIp :: "(string \<Rightarrow> bool) \<Rightarrow> string \<Rightarrow> bool" where
  "isPrivateIp isIPv6 address =
     (let normalized = toLowerCase address
      in if starts_with normalized MAPPED_PREFIX then isPrivateIp isIPv6 (drop (length MAPPED_PREFIX) normalized)
         else (case ipv4_octets normalized of
                 Some os \<Rightarrow> private_octets (os ! 0) (os ! 1)
               | None \<Rightarrow> if isIPv6 normalized then private_ipv6 normalized else True))"
  by pat_completeness auto
termination
proof (relation "measure (\<lambda>(_, s). length s)")
  fix isIPv6 :: "string \<Rightarrow> bool" and address x
  assume x: "x = toLowerCase address" "starts_with x MAPPED_PREFIX"
  then have "7 \<le> length x"
    by (auto simp: starts_with_def MAPPED_PREFIX_def dest: arg_cong [where f = length])
  with x(1) show "((isIPv6, drop (length MAPPED_PREFIX) x), isIPv6, address) \<in> measure (\<lambda>(_, s). length s)"
    by (simp add: MAPPED_PREFIX_def)
qed simp

declare isPrivateIp.simps [simp del]


section \<open>The policy\<close>

datatype config_value = Config_Flag bool | Config_Text string

record outbound_config =
  obc_allowHttp :: "config_value option"
  obc_allowPrivateNetwork :: "config_value option"
  obc_allowedHosts :: "string option"

definition readBoolean :: "config_value option \<Rightarrow> bool \<Rightarrow> bool" where
  "readBoolean configured fallback = (case configured of
       None \<Rightarrow> fallback
     | Some (Config_Flag b) \<Rightarrow> b
     | Some (Config_Text s) \<Rightarrow> toLowerCase s = ''true'')"

definition allowHttp :: "outbound_config \<Rightarrow> bool" where
  "allowHttp cfg = readBoolean (obc_allowHttp cfg) False"

definition allowPrivateNetwork :: "outbound_config \<Rightarrow> bool" where
  "allowPrivateNetwork cfg = readBoolean (obc_allowPrivateNetwork cfg) False"

definition allowedHosts :: "outbound_config \<Rightarrow> string list" where
  "allowedHosts cfg = (if \<not> truthy (obc_allowedHosts cfg) then []
     else filter (\<lambda>h. h \<noteq> []) (map (\<lambda>h. toLowerCase (js_trim h)) (split_on CHR '','' (the (obc_allowedHosts cfg)))))"

definition isReservedHost :: "string \<Rightarrow> bool" where
  "isReservedHost hostname \<longleftrightarrow> hostname = ''localhost'' \<or> ends_with hostname ''.localhost''"

record outbound_url =
  obu_protocol :: string
  obu_hostname :: string
  obu_origin :: string

record outbound_response =
  obr_status :: int
  obr_location :: "string option"
  obr_contentType :: "string option"
  obr_body :: string
  obr_bytes :: string

record outbound_options =
  obo_timeoutMs :: int
  obo_maxBytes :: int
  obo_headers :: "(string \<times> string) list option"
  obo_allowHttp :: "bool option"
  obo_trustedOrigins :: "string list option"
  obo_rejectUnauthorized :: "bool option"

text \<open>What the HTTP client reports of a request: an \<open>error\<close> event, the \<open>timeout\<close> event, or a response with
  its \<open>data\<close> chunks.\<close>

datatype transport =
    Transport_Error string
  | Transport_Timeout
  | Transport_Response int "string option" "string option" "string list"

record outbound_env =
  obe_parseUrl :: "string \<Rightarrow> outbound_url option"
  obe_join :: "string \<Rightarrow> string \<Rightarrow> string option"
  obe_isIPv6 :: "string \<Rightarrow> bool"
  obe_checkLookup :: "nat \<Rightarrow> string \<Rightarrow> string list option"
  obe_connectLookup :: "nat \<Rightarrow> string \<Rightarrow> string + string list"
  obe_send :: "nat \<Rightarrow> string \<Rightarrow> string list \<Rightarrow> outbound_options \<Rightarrow> transport"
  obe_utf8 :: "string \<Rightarrow> string"

definition is_ip :: "outbound_env \<Rightarrow> string \<Rightarrow> bool" where
  "is_ip env s \<longleftrightarrow> ipv4_octets s \<noteq> None \<or> obe_isIPv6 env s"

datatype outbound_error = Outbound_Bad_Request string | Outbound_Failure string

definition host_allowed :: "outbound_config \<Rightarrow> string \<Rightarrow> bool" where
  "host_allowed cfg hostname \<longleftrightarrow> allowedHosts cfg = []
     \<or> list_ex (\<lambda>entry. hostname = entry \<or> ends_with hostname (''.'' @ entry)) (allowedHosts cfg)"

definition protocol_allowed :: "outbound_config \<Rightarrow> bool option \<Rightarrow> string \<Rightarrow> bool" where
  "protocol_allowed cfg override protocol \<longleftrightarrow>
     protocol = ''https:'' \<or> (protocol = ''http:'' \<and> (override = Some True \<or> allowHttp cfg))"

definition assertSafeUrl ::
    "outbound_env \<Rightarrow> outbound_config \<Rightarrow> nat \<Rightarrow> string \<Rightarrow> bool option \<Rightarrow> outbound_error + unit" where
  "assertSafeUrl env cfg hop url override =
     (case obe_parseUrl env url of
        None \<Rightarrow> Inl (Outbound_Bad_Request ''Invalid outbound URL'')
      | Some parsed \<Rightarrow>
          ebind (require (protocol_allowed cfg override (toLowerCase (obu_protocol parsed)))
            (Outbound_Bad_Request ''Outbound URL must use HTTPS in this environment'')) (\<lambda>_.
          let hostname = toLowerCase (obu_hostname parsed)
          in ebind (require (host_allowed cfg hostname)
               (Outbound_Bad_Request ''Outbound URL host is not in the allowlist'')) (\<lambda>_.
             if allowPrivateNetwork cfg then Inr ()
             else ebind (require (\<not> isReservedHost hostname)
                  (Outbound_Bad_Request ''Outbound URL host is not allowed in this environment'')) (\<lambda>_.
               if is_ip env hostname
               then require (\<not> isPrivateIp (obe_isIPv6 env) hostname)
                  (Outbound_Bad_Request ''Outbound URL target resolves to a private or loopback IP'')
               else (case obe_checkLookup env hop hostname of
                       None \<Rightarrow> Inl (Outbound_Bad_Request ''Outbound URL host cannot be resolved'')
                     | Some [] \<Rightarrow> Inl (Outbound_Bad_Request ''Outbound URL host cannot be resolved'')
                     | Some (a # as) \<Rightarrow> require (\<not> list_ex (isPrivateIp (obe_isIPv6 env)) (a # as))
                        (Outbound_Bad_Request ''Outbound URL target resolves to a private or loopback IP''))))))"

definition originOf :: "outbound_env \<Rightarrow> string \<Rightarrow> string option" where
  "originOf env url = (case obe_parseUrl env url of
       None \<Rightarrow> None
     | Some p \<Rightarrow> if obu_origin p = ''null'' then None else Some (obu_origin p))"

definition isTrustedOrigin :: "outbound_env \<Rightarrow> string \<Rightarrow> string list option \<Rightarrow> bool" where
  "isTrustedOrigin env url trustedOrigins =
     (case originOf env url of
        None \<Rightarrow> False
      | Some orig \<Rightarrow> list_ex (\<lambda>t. originOf env t = Some orig) (coalesce trustedOrigins []))"


section \<open>Requests\<close>

definition safeLookup :: "outbound_env \<Rightarrow> outbound_config \<Rightarrow> nat \<Rightarrow> string \<Rightarrow> string + string list" where
  "safeLookup env cfg hop hostname =
     ebind (obe_connectLookup env hop hostname) (\<lambda>addresses.
       if \<not> allowPrivateNetwork cfg \<and> (addresses = [] \<or> list_ex (isPrivateIp (obe_isIPv6 env)) addresses)
       then Inl ''Outbound URL target resolves to a private or loopback IP'' else Inr addresses)"

text \<open>The addresses the client may connect to. It strips the brackets of an IPv6 address.\<close>

definition unbracketed :: "string \<Rightarrow> string" where
  "unbracketed h = (if starts_with h ''['' \<and> ends_with h '']'' then butlast (tl h) else h)"

definition connect_addresses ::
    "outbound_env \<Rightarrow> outbound_config \<Rightarrow> nat \<Rightarrow> bool \<Rightarrow> outbound_url \<Rightarrow> string + string list" where
  "connect_addresses env cfg hop trusted target =
     (let host = unbracketed (obu_hostname target)
      in if is_ip env host then Inr [host]
         else if trusted then obe_connectLookup env hop host else safeLookup env cfg hop host)"

text \<open>Collecting the chunks, until they exceed the limit.\<close>

fun read_chunks :: "int \<Rightarrow> int \<Rightarrow> string \<Rightarrow> string list \<Rightarrow> string option" where
  "read_chunks maxBytes got acc [] = Some acc"
| "read_chunks maxBytes got acc (c # cs) =
     (if maxBytes < got + int (length c) then None
      else read_chunks maxBytes (got + int (length c)) (acc @ c) cs)"

record connection =
  con_url :: string
  con_trusted :: bool
  con_addresses :: "string list"

definition settle :: "outbound_env \<Rightarrow> outbound_options \<Rightarrow> transport \<Rightarrow> outbound_error + outbound_response" where
  "settle env options t = (case t of
       Transport_Error e \<Rightarrow> Inl (Outbound_Failure e)
     | Transport_Timeout \<Rightarrow> Inl (Outbound_Failure
         (''Outbound request timed out after '' @ show_int (obo_timeoutMs options) @ '' ms''))
     | Transport_Response status location contentType chunks \<Rightarrow>
         (case read_chunks (obo_maxBytes options) 0 [] chunks of
            None \<Rightarrow> Inl (Outbound_Failure (''Outbound response exceeds '' @ show_int (obo_maxBytes options) @ '' bytes''))
          | Some bytes \<Rightarrow> Inr \<lparr>obr_status = status, obr_location = location, obr_contentType = contentType,
              obr_body = obe_utf8 env bytes, obr_bytes = bytes\<rparr>))"

definition outbound_get ::
    "outbound_env \<Rightarrow> outbound_config \<Rightarrow> nat \<Rightarrow> string \<Rightarrow> outbound_options
       \<Rightarrow> (outbound_error + outbound_response) \<times> connection list" where
  "outbound_get env cfg hop url options =
     (let trusted = isTrustedOrigin env url (obo_trustedOrigins options)
      in case (if trusted then Inr () else assertSafeUrl env cfg hop url (obo_allowHttp options)) of
           Inl e \<Rightarrow> (Inl e, [])
         | Inr _ \<Rightarrow>
             (case obe_parseUrl env url of
                None \<Rightarrow> (Inl (Outbound_Failure ''Invalid URL''), [])
              | Some target \<Rightarrow>
                  (case connect_addresses env cfg hop trusted target of
                     Inl e \<Rightarrow> (Inl (Outbound_Failure e), [])
                   | Inr addresses \<Rightarrow>
                       (settle env options (obe_send env hop url addresses options),
                        [\<lparr>con_url = url, con_trusted = trusted, con_addresses = addresses\<rparr>]))))"

text \<open>\<open>left\<close> is the number of hops still allowed, \<open>hop\<close> their index.\<close>

fun follow ::
    "outbound_env \<Rightarrow> outbound_config \<Rightarrow> outbound_options \<Rightarrow> nat \<Rightarrow> nat \<Rightarrow> nat \<Rightarrow> string
       \<Rightarrow> (outbound_error + outbound_response \<times> string) \<times> connection list" where
  "follow env cfg options maxRedirects 0 hop url =
     (Inl (Outbound_Bad_Request (''Outbound request exceeded '' @ show_nat maxRedirects @ '' redirects'')), [])"
| "follow env cfg options maxRedirects (Suc left) hop url =
     (case outbound_get env cfg hop url options of
        (Inl e, log) \<Rightarrow> (Inl e, log)
      | (Inr response, log) \<Rightarrow>
          (if obr_status response < 300 \<or> 400 \<le> obr_status response then (Inr (response, url), log)
           else if \<not> truthy (obr_location response)
           then (Inl (Outbound_Bad_Request (''Redirect from '' @ url @ '' has no location header'')), log)
           else (case obe_join env (the (obr_location response)) url of
                   None \<Rightarrow> (Inl (Outbound_Failure ''Invalid URL''), log)
                 | Some next \<Rightarrow>
                     (let (r, log') = follow env cfg options maxRedirects left (Suc hop) next in (r, log @ log')))))"

definition getFollowingRedirects ::
    "outbound_env \<Rightarrow> outbound_config \<Rightarrow> string \<Rightarrow> outbound_options \<Rightarrow> nat
       \<Rightarrow> (outbound_error + outbound_response \<times> string) \<times> connection list" where
  "getFollowingRedirects env cfg url options maxRedirects =
     follow env cfg options maxRedirects (Suc maxRedirects) 0 url"

definition outbound_message :: "outbound_error \<Rightarrow> string" where
  "outbound_message e = (case e of Outbound_Bad_Request m \<Rightarrow> m | Outbound_Failure m \<Rightarrow> m)"


section \<open>Fetching trust material\<close>

record fetch_options =
  fop_timeoutMs :: int
  fop_maxBytes :: int
  fop_accept :: "string option"

record fetch_settings =
  fse_publicUrl :: "string option"
  fse_internalUrl :: "string option"
  fse_production :: bool

definition MAX_REDIRECTS :: nat where
  "MAX_REDIRECTS = 5"

definition ownOrigins :: "fetch_settings \<Rightarrow> string list" where
  "ownOrigins st = map the (filter truthy [fse_publicUrl st, fse_internalUrl st])"

definition trust_fetch_options :: "fetch_settings \<Rightarrow> fetch_options \<Rightarrow> outbound_options" where
  "trust_fetch_options st options =
     \<lparr>obo_timeoutMs = fop_timeoutMs options, obo_maxBytes = fop_maxBytes options,
      obo_headers = (if truthy (fop_accept options) then Some [(''accept'', the (fop_accept options))] else None),
      obo_allowHttp = None, obo_trustedOrigins = Some (ownOrigins st),
      obo_rejectUnauthorized = Some (fse_production st)\<rparr>"

definition trust_fetch ::
    "outbound_env \<Rightarrow> outbound_config \<Rightarrow> fetch_settings \<Rightarrow> string \<Rightarrow> fetch_options
       \<Rightarrow> (string + outbound_response \<times> string) \<times> connection list" where
  "trust_fetch env cfg st url options =
     (case getFollowingRedirects env cfg url (trust_fetch_options st options) MAX_REDIRECTS of
        (Inl e, log) \<Rightarrow> (Inl (outbound_message e), log)
      | (Inr (response, final), log) \<Rightarrow>
          (if obr_status response < 200 \<or> 300 \<le> obr_status response
           then Inl (''Request failed with status code '' @ show_int (obr_status response))
           else Inr (response, final), log))"

end
