(* ===== verification/Outbound_Properties.thy ===== *)
theory Outbound_Properties
  imports Outbound_Requests
begin

text \<open>
  Where outbound requests may go: the IPv4 ranges the address check covers, and the hops of a request
  that follows redirects.
\<close>

section \<open>IPv4 ranges\<close>

text \<open>An address as the 32-bit word of its octets, and a range as the leading bits its addresses share.\<close>

definition ipv4_word :: "nat \<Rightarrow> nat \<Rightarrow> nat \<Rightarrow> nat \<Rightarrow> 32 word" where
  "ipv4_word a b c d = of_nat (((a * 256 + b) * 256 + c) * 256 + d)"

definition in_block :: "32 word \<Rightarrow> 32 word \<times> nat \<Rightarrow> bool" where
  "in_block w block = (case block of (net, n) \<Rightarrow> drop_bit (32 - n) w = drop_bit (32 - n) net)"

text \<open>RFC 1918, loopback, link-local, carrier-grade NAT, benchmarking and "this network".\<close>

definition private_blocks :: "(32 word \<times> nat) list" where
  "private_blocks =
     [(ipv4_word 10 0 0 0, 8), (ipv4_word 127 0 0 0, 8), (ipv4_word 100 64 0 0, 10), (ipv4_word 198 18 0 0, 15),
      (ipv4_word 169 254 0 0, 16), (ipv4_word 172 16 0 0, 12), (ipv4_word 192 168 0 0, 16), (ipv4_word 0 0 0 0, 8)]"

definition ipv4_text :: "nat \<Rightarrow> nat \<Rightarrow> nat \<Rightarrow> nat \<Rightarrow> string" where
  "ipv4_text a b c d = join ''.'' [show_nat a, show_nat b, show_nat c, show_nat d]"

lemma unat_ipv4:
  assumes "a < 256" "b < 256" "c < 256" "d < 256"
  shows "unat (ipv4_word a b c d) = ((a * 256 + b) * 256 + c) * 256 + d"
proof -
  have "((a * 256 + b) * 256 + c) * 256 + d < 2 ^ LENGTH(32)" using assms by simp
  then show ?thesis unfolding ipv4_word_def unat_of_nat by (rule mod_less)
qed

lemma in_block_iff:
  "in_block w (net, n) \<longleftrightarrow> unat w div 2 ^ (32 - n) = unat net div 2 ^ (32 - n)"
  unfolding in_block_def prod.case word_unat_eq_iff unat_drop_bit_eq by (simp add: drop_bit_eq_div)

lemma of_digit [simp]: "d < 10 \<Longrightarrow> (of_char (digit_char d) :: nat) = 48 + d"
  by (simp add: digit_char_def)

lemma digit_plain:
  assumes "d < 10"
  shows "digit_char d \<noteq> CHR ''.''" "digit_char d \<noteq> CHR '':''" "lower_char (digit_char d) = digit_char d"
    "digit_char d = CHR ''0'' \<longleftrightarrow> d = 0"
proof -
  have "digit_char d = c \<longleftrightarrow> 48 + d = (of_char c :: nat)" for c
    using of_digit [OF assms] by (metis char_of_char)
  then show "digit_char d \<noteq> CHR ''.''" "digit_char d \<noteq> CHR '':''" "digit_char d = CHR ''0'' \<longleftrightarrow> d = 0"
    using assms by auto
  show "lower_char (digit_char d) = digit_char d" using assms by (simp add: lower_char_def)
qed

lemma show_octet:
  "n < 1000 \<Longrightarrow> show_nat n = (if n < 10 then [digit_char n]
     else if n < 100 then [digit_char (n div 10), digit_char (n mod 10)]
     else [digit_char (n div 100), digit_char (n div 10 mod 10), digit_char (n mod 10)])"
proof -
  assume n: "n < 1000"
  have d: "n div 10 div 10 = n div 100" by (simp flip: div_mult2_eq)
  consider "n < 10" | "\<not> n < 10" "n < 100" | "\<not> n < 100" by linarith
  then show ?thesis
  proof cases
    case 2
    then have "n div 10 < 10" by (simp add: div_less_iff_less_mult)
    with 2 show ?thesis by (simp add: show_nat.simps [of n] show_nat.simps [of "n div 10"])
  next
    case 3
    then have "\<not> n div 10 < 10" "n div 100 < 10" using n by (simp_all add: div_less_iff_less_mult)
    with 3 show ?thesis
      by (simp add: show_nat.simps [of n] show_nat.simps [of "n div 10"] show_nat.simps [of "n div 100"] d)
  qed (simp add: show_nat.simps [of n])
qed

text \<open>The digits of an octet as numbers.\<close>

lemma octet_digits:
  assumes "n < 256"
  obtains x where "show_nat n = [digit_char x]" "x < 10" "n = x"
  | x y where "show_nat n = [digit_char x, digit_char y]" "0 < x" "x < 10" "y < 10" "n = 10 * x + y"
  | x y z where "show_nat n = [digit_char x, digit_char y, digit_char z]" "0 < x" "x < 10" "y < 10" "z < 10"
      "n = 100 * x + 10 * y + z"
proof -
  consider "n < 10" | "\<not> n < 10" "n < 100" | "\<not> n < 100" by linarith
  then show ?thesis
  proof cases
    case 1
    then show ?thesis using that(1) [of n] by (simp add: show_octet)
  next
    case 2
    show ?thesis
      by (rule that(2) [of "n div 10" "n mod 10"]) (use 2 in \<open>simp_all add: show_octet div_less_iff_less_mult\<close>)
  next
    case 3
    have "n = 10 * (n div 10) + n mod 10" "n div 10 = 10 * (n div 10 div 10) + n div 10 mod 10" by simp_all
    moreover have "n div 100 = n div 10 div 10" by (simp flip: div_mult2_eq)
    ultimately have "n = 100 * (n div 100) + 10 * (n div 10 mod 10) + n mod 10" by linarith
    then show ?thesis
      by (intro that(3) [of "n div 100" "n div 10 mod 10" "n mod 10"])
        (use 3 assms in \<open>simp_all add: show_octet div_less_iff_less_mult\<close>)
  qed
qed

lemma octet_read:
  assumes "n < 256"
  shows "ipv4_octet (show_nat n) = Some n"
  by (rule octet_digits [OF assms]) (use assms in \<open>simp_all add: ipv4_octet_def digits_value_def digit_plain\<close>)

lemma octet_plain:
  assumes "n < 256"
  shows "show_nat n \<noteq> []" "\<forall>c \<in> set (show_nat n). c \<noteq> CHR ''.'' \<and> c \<noteq> CHR '':'' \<and> lower_char c = c"
  by (rule octet_digits [OF assms]; simp add: digit_plain)+

lemma split_on_plain: "CHR ''.'' \<notin> set s \<Longrightarrow> split_on CHR ''.'' s = [s]"
  by (induction s) auto

lemma split_on_join: "CHR ''.'' \<notin> set s \<Longrightarrow> split_on CHR ''.'' (s @ CHR ''.'' # t) = s # split_on CHR ''.'' t"
  by (induction s) auto

lemma ipv4_text_octets:
  assumes "a < 256" "b < 256" "c < 256" "d < 256"
  shows "ipv4_octets (toLowerCase (ipv4_text a b c d)) = Some [a, b, c, d]"
    and "\<not> starts_with (toLowerCase (ipv4_text a b c d)) MAPPED_PREFIX"
proof -
  note p = octet_plain [OF assms(1)] octet_plain [OF assms(2)] octet_plain [OF assms(3)] octet_plain [OF assms(4)]
  have low: "map lower_char s = s" if "\<forall>c \<in> set s. c \<noteq> CHR ''.'' \<and> c \<noteq> CHR '':'' \<and> lower_char c = c" for s
    using that by (simp add: map_idI)
  have dot: "lower_char CHR ''.'' = CHR ''.''" by code_simp
  have lowered: "toLowerCase (ipv4_text a b c d) = show_nat a @ CHR ''.'' # show_nat b @ CHR ''.'' # show_nat c @ CHR ''.'' # show_nat d"
    using p by (simp add: toLowerCase_def ipv4_text_def low dot)
  have nodot: "CHR ''.'' \<notin> set (show_nat a)" "CHR ''.'' \<notin> set (show_nat b)" "CHR ''.'' \<notin> set (show_nat c)"
    "CHR ''.'' \<notin> set (show_nat d)" using p by auto
  show "ipv4_octets (toLowerCase (ipv4_text a b c d)) = Some [a, b, c, d]"
    using nodot by (simp add: lowered ipv4_octets_def split_on_join split_on_plain octet_read assms)
  have "hd (show_nat a) \<noteq> CHR '':''" using p(1,2) by (cases "show_nat a") auto
  then show "\<not> starts_with (toLowerCase (ipv4_text a b c d)) MAPPED_PREFIX"
    using p(1) by (cases "show_nat a") (auto simp: lowered starts_with_def MAPPED_PREFIX_def)
qed

lemma leading_octet:
  assumes "b < 256" "j \<le> 8"
  shows "(a * 256 + b) div 2 ^ j div 2 ^ (8 - j) = (a :: nat)" "(a * 256 + b) div 2 ^ j mod 2 ^ (8 - j) = b div 2 ^ j"
    "(a * 256 + b) div 2 ^ j = a * 2 ^ (8 - j) + b div 2 ^ j"
proof -
  have e: "(256 :: nat) = 2 ^ (8 - j) * 2 ^ j" using assms(2) by (simp flip: power_add)
  then have "a * 256 = a * 2 ^ (8 - j) * 2 ^ j" by (simp only: mult.assoc)
  then have q: "(a * 256 + b) div 2 ^ j = a * 2 ^ (8 - j) + b div 2 ^ j"
    by (simp only: div_mult_self3 [OF power_not_zero [OF zero_neq_numeral [symmetric]]])
  have "b div 2 ^ j < 2 ^ (8 - j)" using assms(1) e by (simp add: div_less_iff_less_mult)
  then show "(a * 256 + b) div 2 ^ j div 2 ^ (8 - j) = a" "(a * 256 + b) div 2 ^ j mod 2 ^ (8 - j) = b div 2 ^ j"
    "(a * 256 + b) div 2 ^ j = a * 2 ^ (8 - j) + b div 2 ^ j"
    by (simp_all add: q)
qed

text \<open>The numeric form of a range of at most 16 leading bits.\<close>

lemma block_iff:
  assumes "a < 256" "b < 256" "c < 256" "d < 256" "n < 256" "m < 256" "j \<le> 8"
  shows "in_block (ipv4_word a b c d) (ipv4_word n m 0 0, 16 - j) \<longleftrightarrow> a = n \<and> b div 2 ^ j = m div 2 ^ j"
proof -
  have e: "(2 :: nat) ^ (32 - (16 - j)) = 65536 * 2 ^ j" using assms(7) by (simp add: power_add)
  have q: "(((x * 256 + y) * 256 + z) * 256 + w) div (65536 * k) = (x * 256 + y) div k"
    if "z < 256" "w < 256" for x y z w k :: nat
  proof -
    have "((x * 256 + y) * 256 + z) * 256 + w = (x * 256 + y) * 65536 + (z * 256 + w)" "z * 256 + w < 65536"
      using that by simp_all
    then have "(((x * 256 + y) * 256 + z) * 256 + w) div 65536 = x * 256 + y" by simp
    then show ?thesis by (simp only: div_mult2_eq)
  qed
  have "unat (ipv4_word n m 0 0) = ((n * 256 + m) * 256 + 0) * 256 + 0"
    by (rule unat_ipv4) (use assms in simp_all)
  then have net: "unat (ipv4_word n m 0 0) div (65536 * 2 ^ j) = (n * 256 + m) div 2 ^ j"
    by (rule ssubst) (rule q, simp_all)
  have "unat (ipv4_word a b c d) div (65536 * 2 ^ j) = (a * 256 + b) div 2 ^ j"
    unfolding unat_ipv4 [OF assms(1-4)] by (rule q [OF assms(3,4)])
  with net have "in_block (ipv4_word a b c d) (ipv4_word n m 0 0, 16 - j)
      \<longleftrightarrow> (a * 256 + b) div 2 ^ j = (n * 256 + m) div 2 ^ j"
    unfolding in_block_iff e by (simp only:)
  also have "\<dots> \<longleftrightarrow> a = n \<and> b div 2 ^ j = m div 2 ^ j"
  proof
    assume "(a * 256 + b) div 2 ^ j = (n * 256 + m) div 2 ^ j"
    then show "a = n \<and> b div 2 ^ j = m div 2 ^ j"
      using leading_octet(1,2) [OF assms(2,7), of a] leading_octet(1,2) [OF assms(6,7), of n] by (simp only:)
  next
    assume "a = n \<and> b div 2 ^ j = m div 2 ^ j"
    then show "(a * 256 + b) div 2 ^ j = (n * 256 + m) div 2 ^ j"
      by (simp only: leading_octet(3) [OF assms(2,7)] leading_octet(3) [OF assms(6,7)])
  qed
  finally show ?thesis .
qed

lemma div_between:
  assumes "0 < s"
  shows "(x :: nat) div s = q \<longleftrightarrow> q * s \<le> x \<and> x < Suc q * s"
proof -
  have "q \<le> x div s \<longleftrightarrow> q * s \<le> x" using assms by (rule less_eq_div_iff_mult_less_eq)
  moreover have "x div s < Suc q \<longleftrightarrow> x < Suc q * s" using assms by (rule div_less_iff_less_mult)
  ultimately show ?thesis by linarith
qed

lemma private_block:
  assumes "a < 256" "b < 256" "c < 256" "d < 256"
  shows "list_ex (in_block (ipv4_word a b c d)) private_blocks \<longleftrightarrow> private_octets a b"
proof -
  note i = block_iff [OF assms]
  have "b div 64 = 1 \<longleftrightarrow> 64 \<le> b \<and> b \<le> 127" "b div 2 = 9 \<longleftrightarrow> b = 18 \<or> b = 19" "b div 16 = 1 \<longleftrightarrow> 16 \<le> b \<and> b \<le> 31"
    by (auto simp: div_between)
  then show ?thesis
    using i [of 10 0 8] i [of 127 0 8] i [of 100 64 6] i [of 198 18 1] i [of 169 254 0] i [of 172 16 4] i [of 192 168 0]
      i [of 0 0 8] assms(2)
    by (auto simp: private_blocks_def private_octets_def)
qed

text \<open>C30: The address check refuses exactly the IPv4 addresses of eight ranges. Written in dotted form, also
  as an IPv4-mapped IPv6 address, an address is private if and only if its 32-bit word lies in 10.0.0.0/8,
  127.0.0.0/8, 100.64.0.0/10, 198.18.0.0/15, 169.254.0.0/16, 172.16.0.0/12, 192.168.0.0/16 or 0.0.0.0/8.\<close>

theorem private_ipv4_blocks:
  assumes "a < 256" "b < 256" "c < 256" "d < 256"
  shows "(isPrivateIp isIPv6 (ipv4_text a b c d) \<longleftrightarrow> list_ex (in_block (ipv4_word a b c d)) private_blocks)
    \<and> (isPrivateIp isIPv6 (''::FFFF:'' @ ipv4_text a b c d) \<longleftrightarrow> list_ex (in_block (ipv4_word a b c d)) private_blocks)"
proof (rule conjI)
  note o = ipv4_text_octets [OF assms]
  have direct: "isPrivateIp isIPv6 s \<longleftrightarrow> private_octets a b" if "toLowerCase s = toLowerCase (ipv4_text a b c d)" for s
    using o that by (simp add: isPrivateIp.simps [of isIPv6 s] Let_def)
  note blocks = private_block [OF assms]
  show "isPrivateIp isIPv6 (ipv4_text a b c d) \<longleftrightarrow> list_ex (in_block (ipv4_word a b c d)) private_blocks"
    by (simp add: direct blocks)
  have pre: "toLowerCase ''::FFFF:'' = MAPPED_PREFIX" by code_simp
  have low: "toLowerCase (''::FFFF:'' @ ipv4_text a b c d) = MAPPED_PREFIX @ toLowerCase (ipv4_text a b c d)"
    using pre by (simp add: toLowerCase_def)
  have "isPrivateIp isIPv6 (''::FFFF:'' @ ipv4_text a b c d) = isPrivateIp isIPv6 (toLowerCase (ipv4_text a b c d))"
    unfolding isPrivateIp.simps [of isIPv6 "''::FFFF:'' @ ipv4_text a b c d"] low Let_def by (simp add: starts_with_def)
  then show "isPrivateIp isIPv6 (''::FFFF:'' @ ipv4_text a b c d) \<longleftrightarrow> list_ex (in_block (ipv4_word a b c d)) private_blocks"
    by (simp only: direct [OF toLowerCase_idem] blocks)
qed

section \<open>The hops of a request\<close>

text \<open>Documented behaviour of the runtime: the URL parser gives host and scheme in lower case, a name in
  brackets is neither an IP address to \<open>net.isIP\<close> nor resolvable.\<close>

definition runtime_ok :: "outbound_env \<Rightarrow> bool" where
  "runtime_ok env \<longleftrightarrow>
     (\<forall>u p. obe_parseUrl env u = Some p \<longrightarrow> toLowerCase (obu_hostname p) = obu_hostname p
        \<and> toLowerCase (obu_protocol p) = obu_protocol p)
     \<and> (\<forall>hop h. starts_with h ''['' \<longrightarrow> obe_checkLookup env hop h = None \<and> \<not> obe_isIPv6 env h)"

definition hop_allowed :: "outbound_env \<Rightarrow> outbound_config \<Rightarrow> outbound_options \<Rightarrow> connection \<Rightarrow> bool" where
  "hop_allowed env cfg options c \<longleftrightarrow>
     (if con_trusted c
      then originOf env (con_url c) \<noteq> None
        \<and> (\<exists>t \<in> set (coalesce (obo_trustedOrigins options) []). originOf env t = originOf env (con_url c))
      else (\<exists>p. obe_parseUrl env (con_url c) = Some p \<and> protocol_allowed cfg (obo_allowHttp options) (obu_protocol p)
              \<and> host_allowed cfg (obu_hostname p) \<and> \<not> isReservedHost (obu_hostname p))
        \<and> con_addresses c \<noteq> [] \<and> (\<forall>a \<in> set (con_addresses c). \<not> isPrivateIp (obe_isIPv6 env) a))"

lemma bracket_no_ipv4: "starts_with s ''['' \<Longrightarrow> ipv4_octets s = None"
proof -
  assume "starts_with s ''[''"
  then obtain t where s: "s = CHR ''['' # t" by (cases s) (auto simp: starts_with_def)
  obtain p ps where "split_on CHR ''.'' s = (CHR ''['' # p) # ps"
    by (cases "split_on CHR ''.'' t") (auto simp: s)
  moreover have "ipv4_octet (CHR ''['' # p) = None" by (simp add: ipv4_octet_def digits_value_def)
  ultimately show ?thesis by (simp add: ipv4_octets_def)
qed

lemma safe_url_checked:
  assumes "assertSafeUrl env cfg hop url override = Inr ()" "\<not> allowPrivateNetwork cfg" "runtime_ok env"
  obtains p where "obe_parseUrl env url = Some p" "protocol_allowed cfg override (obu_protocol p)"
    "host_allowed cfg (obu_hostname p)" "\<not> isReservedHost (obu_hostname p)"
    "is_ip env (obu_hostname p) \<longrightarrow> \<not> isPrivateIp (obe_isIPv6 env) (obu_hostname p)"
    "\<not> starts_with (obu_hostname p) ''[''"
proof -
  obtain p where p: "obe_parseUrl env url = Some p"
    using assms(1) by (auto simp: assertSafeUrl_def split: option.splits)
  then have low: "toLowerCase (obu_hostname p) = obu_hostname p" "toLowerCase (obu_protocol p) = obu_protocol p"
    using assms(3) by (auto simp: runtime_ok_def)
  note a = assms(1) [unfolded assertSafeUrl_def p option.case low Let_def, simplified assms(2) if_False]
  have br: "starts_with (obu_hostname p) ''['' \<Longrightarrow> \<not> is_ip env (obu_hostname p) \<and> obe_checkLookup env hop (obu_hostname p) = None"
    using assms(3) bracket_no_ipv4 [of "obu_hostname p"] by (auto simp: runtime_ok_def is_ip_def)
  show ?thesis
    by (rule that [OF p]) (use a br in \<open>auto simp: returns split: if_splits option.splits list.splits\<close>)
qed

lemma connect_safe:
  assumes "connect_addresses env cfg hop False p = Inr addresses" "\<not> allowPrivateNetwork cfg"
    "is_ip env (obu_hostname p) \<longrightarrow> \<not> isPrivateIp (obe_isIPv6 env) (obu_hostname p)"
    "\<not> starts_with (obu_hostname p) ''[''"
  shows "addresses \<noteq> []" "\<forall>a \<in> set addresses. \<not> isPrivateIp (obe_isIPv6 env) a"
  using assms by (auto simp: connect_addresses_def unbracketed_def safeLookup_def returns list_ex_iff Let_def
      split: if_splits)

lemma get_hop_allowed:
  assumes "\<not> allowPrivateNetwork cfg" "runtime_ok env" "c \<in> set (snd (outbound_get env cfg hop url options))"
  shows "hop_allowed env cfg options c"
proof (cases "isTrustedOrigin env url (obo_trustedOrigins options)")
  case True
  then have "con_trusted c" "con_url c = url"
    using assms(3) by (auto simp: outbound_get_def split: option.splits sum.splits)
  with True show ?thesis
    by (auto simp: hop_allowed_def isTrustedOrigin_def list_ex_iff split: option.splits)
next
  case False
  then obtain target addresses where
    t: "assertSafeUrl env cfg hop url (obo_allowHttp options) = Inr ()" "obe_parseUrl env url = Some target"
      "connect_addresses env cfg hop False target = Inr addresses"
      "c = \<lparr>con_url = url, con_trusted = False, con_addresses = addresses\<rparr>"
    using assms(3) by (auto simp: outbound_get_def Let_def split: option.splits sum.splits)
  from safe_url_checked [OF t(1) assms(1,2)] obtain p where
    p: "obe_parseUrl env url = Some p" "protocol_allowed cfg (obo_allowHttp options) (obu_protocol p)"
      "host_allowed cfg (obu_hostname p)" "\<not> isReservedHost (obu_hostname p)"
      "is_ip env (obu_hostname p) \<longrightarrow> \<not> isPrivateIp (obe_isIPv6 env) (obu_hostname p)"
      "\<not> starts_with (obu_hostname p) ''[''" by blast
  then have "target = p" using t(2) by simp
  with connect_safe [OF t(3) assms(1)] p t(4) show ?thesis by (auto simp: hop_allowed_def)
qed

lemma get_one_connection: "length (snd (outbound_get env cfg hop url options)) \<le> 1"
  by (simp add: outbound_get_def Let_def split: option.split sum.split)

lemma follow_connections:
  "length (snd (follow env cfg options n left hop url)) \<le> left
   \<and> (\<forall>c \<in> set (snd (follow env cfg options n left hop url)).
        \<exists>hop' url'. c \<in> set (snd (outbound_get env cfg hop' url' options)))"
proof (induction left arbitrary: hop url)
  case (Suc left)
  obtain r log where g: "outbound_get env cfg hop url options = (r, log)" by fastforce
  have one: "length log \<le> 1" using get_one_connection [of env cfg hop url options] by (simp add: g)
  have here: "\<forall>c \<in> set log. \<exists>hop' url'. c \<in> set (snd (outbound_get env cfg hop' url' options))"
    by (intro ballI exI [of _ hop] exI [of _ url]) (simp add: g)
  show ?case
  proof (cases "\<exists>response next. r = Inr response \<and> \<not> (obr_status response < 300 \<or> 400 \<le> obr_status response)
      \<and> truthy (obr_location response) \<and> obe_join env (the (obr_location response)) url = Some next")
    case True
    then obtain response "next" where n: "r = Inr response" "\<not> (obr_status response < 300 \<or> 400 \<le> obr_status response)"
      "truthy (obr_location response)" "obe_join env (the (obr_location response)) url = Some next" by blast
    then have "snd (follow env cfg options n (Suc left) hop url) = log @ snd (follow env cfg options n left (Suc hop) next)"
      by (simp add: g split_beta Let_def)
    with Suc.IH [of "Suc hop" "next"] one here show ?thesis by auto
  next
    case False
    then have "snd (follow env cfg options n (Suc left) hop url) = log"
      by (auto simp: g split: sum.splits option.splits)
    with one here show ?thesis by simp
  qed
qed simp

text \<open>C31: A request that follows redirects cannot be steered into the internal network. Unless private
  networks are allowed, at most one connection per hop is made, and every connection goes either to one of
  the trusted origins, or to a URL with an allowed scheme whose host passes the allowlist and whose
  addresses, the ones the connection itself uses, are all public, whatever the resolver answers to
  the two lookups and wherever a response redirects.\<close>

theorem outbound_connections_safe:
  assumes "\<not> allowPrivateNetwork cfg" "runtime_ok env"
  shows "length (snd (getFollowingRedirects env cfg url options n)) \<le> Suc n
    \<and> (\<forall>c \<in> set (snd (getFollowingRedirects env cfg url options n)). hop_allowed env cfg options c)"
  using follow_connections [of env cfg options n "Suc n" 0 url] get_hop_allowed [OF assms]
  by (auto simp: getFollowingRedirects_def)

theorem private_ipv4_blocks_witness:
  "isPrivateIp (\<lambda>_. False) (ipv4_text 100 127 0 1) \<and> \<not> isPrivateIp (\<lambda>_. False) (ipv4_text 100 128 0 1)"
  using private_ipv4_blocks [of 100 127 0 1 "\<lambda>_. False"] private_ipv4_blocks [of 100 128 0 1 "\<lambda>_. False"]
    private_block [of 100 127 0 1] private_block [of 100 128 0 1]
  by (simp add: private_octets_def)

text \<open>A public host redirects to a name whose address changes to a private one after the check.\<close>

definition obenv1 :: outbound_env where
  "obenv1 = \<lparr>obe_parseUrl = (\<lambda>u. if u = ''https://a.example/'' then Some \<lparr>obu_protocol = ''https:'', obu_hostname = ''a.example'', obu_origin = ''https://a.example''\<rparr>
        else if u = ''https://b.example/'' then Some \<lparr>obu_protocol = ''https:'', obu_hostname = ''b.example'', obu_origin = ''https://b.example''\<rparr>
        else None),
     obe_join = (\<lambda>l _. Some l), obe_isIPv6 = (\<lambda>_. False),
     obe_checkLookup = (\<lambda>_ h. if starts_with h ''['' then None else Some [''93.184.216.34'']),
     obe_connectLookup = (\<lambda>_ h. if h = ''a.example'' then Inr [''93.184.216.34''] else Inr [''10.0.0.7'']),
     obe_send = (\<lambda>_ _ _ _. Transport_Response 302 (Some ''https://b.example/'') None []),
     obe_utf8 = (\<lambda>s. s)\<rparr>"

definition obconfig1 :: outbound_config where
  "obconfig1 = \<lparr>obc_allowHttp = None, obc_allowPrivateNetwork = None, obc_allowedHosts = None\<rparr>"

definition oboptions1 :: outbound_options where
  "oboptions1 = \<lparr>obo_timeoutMs = 1000, obo_maxBytes = 1000, obo_headers = None, obo_allowHttp = None,
     obo_trustedOrigins = None, obo_rejectUnauthorized = None\<rparr>"

lemma obrun1:
  "getFollowingRedirects obenv1 obconfig1 ''https://a.example/'' oboptions1 5 =
     (Inl (Outbound_Failure ''Outbound URL target resolves to a private or loopback IP''),
      [\<lparr>con_url = ''https://a.example/'', con_trusted = False, con_addresses = [''93.184.216.34'']\<rparr>])"
  by code_simp

lemma obenv1_ok: "runtime_ok obenv1" "\<not> allowPrivateNetwork obconfig1"
proof -
  have "toLowerCase ''a.example'' = ''a.example''" "toLowerCase ''b.example'' = ''b.example''" "toLowerCase ''https:'' = ''https:''"
    by code_simp+
  then show "runtime_ok obenv1" by (auto simp: runtime_ok_def obenv1_def split: if_splits)
  show "\<not> allowPrivateNetwork obconfig1" by code_simp
qed

theorem outbound_connections_safe_witness:
  "(\<exists>c. snd (getFollowingRedirects obenv1 obconfig1 ''https://a.example/'' oboptions1 5) = [c] \<and> \<not> con_trusted c
     \<and> hop_allowed obenv1 obconfig1 oboptions1 c)
   \<and> \<not> (\<exists>r. fst (getFollowingRedirects obenv1 obconfig1 ''https://a.example/'' oboptions1 5) = Inr r)"
  using outbound_connections_safe [OF obenv1_ok(2,1), of "''https://a.example/''" oboptions1 5] by (simp add: obrun1)

end
