(* ===== verification/Bounded_Cache.thy ===== *)
theory Bounded_Cache
  imports Js_Values
begin

text \<open>
  The bounded in-memory cache of the status list verifier (\<open>shared/utils/bounded-ttl-cache.ts\<close>). The
  \<open>Map\<close> of entries is the list of its entries in iteration order, from least to most recently used.
  Every operation reads the clock as \<open>now\<close>; none of them awaits anything in between.
\<close>

section \<open>Operations\<close>

record cache_limits =
  clm_maxEntries :: int
  clm_maxBytes :: int

record 'v cache_entry =
  cen_value :: 'v
  cen_bytes :: int
  cen_expiresAt :: date

record 'v ttl_cache =
  ttc_entries :: "(string \<times> 'v cache_entry) list"
  ttc_totalBytes :: int

definition empty_cache :: "'v ttl_cache" where
  "empty_cache = \<lparr>ttc_entries = [], ttc_totalBytes = 0\<rparr>"

definition map_delete :: "string \<Rightarrow> (string \<times> 'a) list \<Rightarrow> (string \<times> 'a) list" where
  "map_delete key es = filter (\<lambda>(k, _). k \<noteq> key) es"

text \<open>\<open>Map.set\<close> of a key that is not in the map adds it at the end.\<close>

definition map_append :: "string \<Rightarrow> 'a \<Rightarrow> (string \<times> 'a) list \<Rightarrow> (string \<times> 'a) list" where
  "map_append key e es = es @ [(key, e)]"

definition cache_delete :: "string \<Rightarrow> 'v ttl_cache \<Rightarrow> 'v ttl_cache" where
  "cache_delete key c = (case map_of (ttc_entries c) key of
       None \<Rightarrow> c
     | Some e \<Rightarrow> \<lparr>ttc_entries = map_delete key (ttc_entries c), ttc_totalBytes = ttc_totalBytes c - cen_bytes e\<rparr>)"

definition cache_get :: "date \<Rightarrow> string \<Rightarrow> 'v ttl_cache \<Rightarrow> 'v option \<times> 'v ttl_cache" where
  "cache_get now key c = (case map_of (ttc_entries c) key of
       None \<Rightarrow> (None, c)
     | Some e \<Rightarrow>
         if cen_expiresAt e \<le> now then (None, cache_delete key c)
         else (Some (cen_value e), c\<lparr>ttc_entries := map_append key e (map_delete key (ttc_entries c))\<rparr>))"

text \<open>Iterating over a \<open>Map\<close> whose current entry is deleted visits each of the entries once.\<close>

definition deleteExpired :: "date \<Rightarrow> 'v ttl_cache \<Rightarrow> 'v ttl_cache" where
  "deleteExpired now c =
     foldl (\<lambda>c' (k, e). if cen_expiresAt e \<le> now then cache_delete k c' else c') c (ttc_entries c)"

definition fits_limits :: "cache_limits \<Rightarrow> int \<Rightarrow> 'v ttl_cache \<Rightarrow> bool" where
  "fits_limits lim bytes c \<longleftrightarrow> int (length (ttc_entries c)) < clm_maxEntries lim \<and> ttc_totalBytes c + bytes \<le> clm_maxBytes lim"

fun evict :: "cache_limits \<Rightarrow> int \<Rightarrow> string list \<Rightarrow> 'v ttl_cache \<Rightarrow> 'v ttl_cache" where
  "evict lim bytes [] c = c"
| "evict lim bytes (k # ks) c =
     (if fits_limits lim bytes c then c else evict lim bytes ks (cache_delete k c))"

definition cache_set ::
    "cache_limits \<Rightarrow> date \<Rightarrow> string \<Rightarrow> 'v \<Rightarrow> int \<Rightarrow> date \<Rightarrow> 'v ttl_cache \<Rightarrow> bool \<times> 'v ttl_cache" where
  "cache_set lim now key value bytes expiresAt c =
     (let live = deleteExpired now (cache_delete key c)
      in if expiresAt \<le> now \<or> clm_maxBytes lim < bytes then (False, live)
         else let room = evict lim bytes (map fst (ttc_entries live)) live
              in (True, \<lparr>ttc_entries = map_append key \<lparr>cen_value = value, cen_bytes = bytes, cen_expiresAt = expiresAt\<rparr>
                                         (ttc_entries room),
                         ttc_totalBytes = ttc_totalBytes room + bytes\<rparr>))"

definition cache_clear :: "'v ttl_cache \<Rightarrow> 'v ttl_cache" where
  "cache_clear c = \<lparr>ttc_entries = [], ttc_totalBytes = 0\<rparr>"

definition cache_size :: "'v ttl_cache \<Rightarrow> nat" where
  "cache_size c = length (ttc_entries c)"

definition cache_keys :: "'v ttl_cache \<Rightarrow> string list" where
  "cache_keys c = map fst (ttc_entries c)"


section \<open>The invariant\<close>

definition entries_bytes :: "(string \<times> 'v cache_entry) list \<Rightarrow> int" where
  "entries_bytes es = sum_list (map (cen_bytes \<circ> snd) es)"

text \<open>The counted bytes are those of the entries; \<open>cache_ok\<close> adds the limits.\<close>

definition counted :: "'v ttl_cache \<Rightarrow> bool" where
  "counted c \<longleftrightarrow> distinct (map fst (ttc_entries c)) \<and> ttc_totalBytes c = entries_bytes (ttc_entries c)
     \<and> (\<forall>x \<in> set (ttc_entries c). 0 \<le> cen_bytes (snd x))"

definition cache_ok :: "cache_limits \<Rightarrow> 'v ttl_cache \<Rightarrow> bool" where
  "cache_ok lim c \<longleftrightarrow> counted c \<and> int (length (ttc_entries c)) \<le> clm_maxEntries lim \<and> ttc_totalBytes c \<le> clm_maxBytes lim"

lemma entries_bytes_simps [simp]:
  "entries_bytes [] = 0" "entries_bytes (x # es) = cen_bytes (snd x) + entries_bytes es"
  "entries_bytes (es @ fs) = entries_bytes es + entries_bytes fs"
  by (simp_all add: entries_bytes_def)

lemma entries_bytes_filter:
  "\<forall>x \<in> set es. 0 \<le> cen_bytes (snd x) \<Longrightarrow> entries_bytes (filter P es) \<le> entries_bytes es"
  by (induction es) auto

lemma entries_bytes_nonneg: "\<forall>x \<in> set es. 0 \<le> cen_bytes (snd x) \<Longrightarrow> 0 \<le> entries_bytes es"
  by (induction es) auto

lemma map_delete_absent: "key \<notin> fst ` set es \<Longrightarrow> map_delete key es = es"
  by (induction es) (auto simp: map_delete_def)

lemma entries_bytes_delete:
  "distinct (map fst es) \<Longrightarrow> map_of es key = Some e \<Longrightarrow>
     entries_bytes (map_delete key es) = entries_bytes es - cen_bytes e"
proof (induction es)
  case (Cons x es)
  then show ?case
    using map_delete_absent [of key es] by (cases x) (auto simp: map_delete_def split: if_splits)
qed simp

lemma delete_entries: "ttc_entries (cache_delete key c) = map_delete key (ttc_entries c)"
  by (auto simp: cache_delete_def map_delete_absent map_of_eq_None_iff split: option.splits)

lemma delete_counted [intro]: "counted c \<Longrightarrow> counted (cache_delete key c)"
proof (cases "map_of (ttc_entries c) key")
  case (Some e)
  assume "counted c"
  then have c: "distinct (map fst (ttc_entries c))" "ttc_totalBytes c = entries_bytes (ttc_entries c)"
    "\<forall>x \<in> set (ttc_entries c). 0 \<le> cen_bytes (snd x)" by (simp_all add: counted_def)
  have "distinct (map fst (map_delete key (ttc_entries c)))"
    using c(1) by (simp add: map_delete_def distinct_map_filter)
  moreover have "\<forall>x \<in> set (map_delete key (ttc_entries c)). 0 \<le> cen_bytes (snd x)"
    using c(3) by (simp add: map_delete_def)
  ultimately show ?thesis
    using entries_bytes_delete [OF c(1) Some] c(2) Some by (simp add: counted_def cache_delete_def)
qed (simp add: cache_delete_def)

text \<open>Dropping entries keeps a cache within its limits.\<close>

lemma fewer_entries_ok:
  assumes "cache_ok lim c" "counted d" "ttc_entries d = filter P (ttc_entries c)"
  shows "cache_ok lim d"
proof -
  have "length (ttc_entries d) \<le> length (ttc_entries c)" by (simp add: assms(3))
  moreover have "ttc_totalBytes d \<le> ttc_totalBytes c"
    using assms entries_bytes_filter [of "ttc_entries c" P] by (simp add: cache_ok_def counted_def)
  ultimately show ?thesis using assms(1,2) by (auto simp: cache_ok_def)
qed

lemma fold_delete:
  assumes "counted c" "distinct (map fst es)"
  shows "counted (foldl (\<lambda>c' (k, e). if P e then cache_delete k c' else c') c es)
    \<and> ttc_entries (foldl (\<lambda>c' (k, e). if P e then cache_delete k c' else c') c es)
        = filter (\<lambda>(k, _). \<forall>e. (k, e) \<in> set es \<longrightarrow> \<not> P e) (ttc_entries c)"
  using assms
proof (induction es arbitrary: c)
  case Nil
  have "filter (\<lambda>(k, _). \<forall>e. (k, e) \<in> set [] \<longrightarrow> \<not> P e) (ttc_entries c) = ttc_entries c"
    by (rule filter_True) auto
  with Nil show ?case by simp
next
  case (Cons x es)
  obtain k e where x: "x = (k, e)" by (cases x)
  let ?c = "if P e then cache_delete k c else c"
  have "counted ?c" using Cons.prems(1) by auto
  moreover have "filter (\<lambda>(k', _). \<forall>e'. (k', e') \<in> set es \<longrightarrow> \<not> P e') (ttc_entries ?c)
      = filter (\<lambda>(k', _). \<forall>e'. (k', e') \<in> set (x # es) \<longrightarrow> \<not> P e') (ttc_entries c)"
  proof (cases "P e")
    case True
    then show ?thesis
      by (auto simp: x delete_entries map_delete_def intro!: filter_cong)
  next
    case False
    then show ?thesis by (auto simp: x intro!: filter_cong)
  qed
  ultimately show ?case using Cons.IH [of ?c] Cons.prems(2) by (simp add: x)
qed

lemma deleteExpired_entries:
  assumes "counted c"
  shows "counted (deleteExpired now c)"
    and "ttc_entries (deleteExpired now c) = filter (\<lambda>(_, e). now < cen_expiresAt e) (ttc_entries c)"
proof -
  have d: "distinct (map fst (ttc_entries c))" using assms by (simp add: counted_def)
  note f = fold_delete [OF assms d, of "\<lambda>e. cen_expiresAt e \<le> now", folded deleteExpired_def]
  show "counted (deleteExpired now c)" using f by blast
  have "filter (\<lambda>(k, _). \<forall>e. (k, e) \<in> set (ttc_entries c) \<longrightarrow> \<not> cen_expiresAt e \<le> now) (ttc_entries c)
      = filter (\<lambda>(_, e). now < cen_expiresAt e) (ttc_entries c)"
    by (rule filter_cong) (use d in \<open>auto simp: not_le dest: eq_key_imp_eq_value\<close>)
  with f show "ttc_entries (deleteExpired now c) = filter (\<lambda>(_, e). now < cen_expiresAt e) (ttc_entries c)" by simp
qed


section \<open>Eviction\<close>

definition room_for :: "cache_limits \<Rightarrow> int \<Rightarrow> (string \<times> 'v cache_entry) list \<Rightarrow> bool" where
  "room_for lim bytes es \<longleftrightarrow> int (length es) < clm_maxEntries lim \<and> entries_bytes es + bytes \<le> clm_maxBytes lim"

lemma fits_room_for: "counted c \<Longrightarrow> fits_limits lim bytes c \<longleftrightarrow> room_for lim bytes (ttc_entries c)"
  by (simp add: fits_limits_def room_for_def counted_def)

text \<open>The least number of the oldest entries is dropped that makes room for the new one.\<close>

lemma evict_entries:
  assumes "counted c" "ttc_entries c = es"
  shows "counted (evict lim bytes (map fst es) c) \<and>
    (\<exists>n \<le> length es. ttc_entries (evict lim bytes (map fst es) c) = drop n es
       \<and> (n < length es \<longrightarrow> room_for lim bytes (drop n es)) \<and> (\<forall>m < n. \<not> room_for lim bytes (drop m es)))"
  using assms
proof (induction es arbitrary: c)
  case Nil
  then show ?case by simp
next
  case (Cons x es)
  obtain k e where x: "x = (k, e)" by (cases x)
  show ?case
  proof (cases "fits_limits lim bytes c")
    case True
    then have "room_for lim bytes (x # es)" using Cons.prems fits_room_for [of c lim bytes] by simp
    with True Cons.prems show ?thesis by (intro conjI exI [of _ 0]) (auto simp: x)
  next
    case False
    then have full: "\<not> room_for lim bytes (x # es)" using Cons.prems fits_room_for [of c lim bytes] by simp
    let ?d = "cache_delete k c"
    have "k \<notin> fst ` set es" using Cons.prems by (simp add: counted_def x)
    then have "ttc_entries ?d = es"
      using map_delete_absent [of k es] by (simp add: delete_entries Cons.prems(2) x) (simp add: map_delete_def)
    with Cons.IH [OF delete_counted [OF Cons.prems(1)]] obtain n where
      n: "n \<le> length es" "counted (evict lim bytes (map fst es) ?d)"
        "ttc_entries (evict lim bytes (map fst es) ?d) = drop n es"
        "n < length es \<longrightarrow> room_for lim bytes (drop n es)" "\<forall>m < n. \<not> room_for lim bytes (drop m es)" by blast
    have "\<not> room_for lim bytes (drop m (x # es))" if "m < Suc n" for m
      using that full n(5) by (cases m) auto
    with n False show ?thesis by (intro conjI exI [of _ "Suc n"]) (auto simp: x)
  qed
qed

text \<open>The entry of a key with its contents.\<close>

definition held :: "'v ttl_cache \<Rightarrow> (string \<times> 'v \<times> date) set" where
  "held c = (\<lambda>(k, e). (k, cen_value e, cen_expiresAt e)) ` set (ttc_entries c)"

definition live_entries :: "date \<Rightarrow> string \<Rightarrow> 'v ttl_cache \<Rightarrow> (string \<times> 'v cache_entry) list" where
  "live_entries now key c = filter (\<lambda>(k, e). k \<noteq> key \<and> now < cen_expiresAt e) (ttc_entries c)"

lemma cache_set_live:
  assumes "counted c"
  shows "counted (deleteExpired now (cache_delete key c))"
    and "ttc_entries (deleteExpired now (cache_delete key c)) = live_entries now key c"
  using deleteExpired_entries [OF delete_counted [OF assms], of now key]
  by (auto simp: delete_entries map_delete_def live_entries_def intro!: filter_cong)

lemma cache_set_stored:
  assumes "counted c" "now < expiresAt" "bytes \<le> clm_maxBytes lim"
  obtains n where "n \<le> length (live_entries now key c)"
    "fst (cache_set lim now key value bytes expiresAt c)"
    "ttc_entries (snd (cache_set lim now key value bytes expiresAt c)) = drop n (live_entries now key c) @
       [(key, \<lparr>cen_value = value, cen_bytes = bytes, cen_expiresAt = expiresAt\<rparr>)]"
    "ttc_totalBytes (snd (cache_set lim now key value bytes expiresAt c))
       = entries_bytes (drop n (live_entries now key c)) + bytes"
    "n < length (live_entries now key c) \<longrightarrow> room_for lim bytes (drop n (live_entries now key c))"
    "\<forall>m < n. \<not> room_for lim bytes (drop m (live_entries now key c))"
proof -
  let ?l = "deleteExpired now (cache_delete key c)"
  note l = cache_set_live [OF assms(1), of now key]
  from evict_entries [OF l(1) refl, of lim bytes, unfolded l(2)] obtain n where
    n: "n \<le> length (live_entries now key c)" "counted (evict lim bytes (map fst (live_entries now key c)) ?l)"
      "ttc_entries (evict lim bytes (map fst (live_entries now key c)) ?l) = drop n (live_entries now key c)"
      "n < length (live_entries now key c) \<longrightarrow> room_for lim bytes (drop n (live_entries now key c))"
      "\<forall>m < n. \<not> room_for lim bytes (drop m (live_entries now key c))" by blast
  show ?thesis
    by (rule that [of n]) (use n assms(2,3) l(2) in \<open>simp_all add: cache_set_def Let_def map_append_def counted_def\<close>)
qed

lemma cache_set_refused:
  assumes "counted c" "expiresAt \<le> now \<or> clm_maxBytes lim < bytes"
  shows "\<not> fst (cache_set lim now key value bytes expiresAt c)"
    and "counted (snd (cache_set lim now key value bytes expiresAt c))"
    and "ttc_entries (snd (cache_set lim now key value bytes expiresAt c)) = live_entries now key c"
  using cache_set_live [OF assms(1), of now key] assms(2) by (auto simp: cache_set_def Let_def)


section \<open>Operations keep a cache within its limits\<close>

lemma ok_counted: "cache_ok lim c \<Longrightarrow> counted c"
  by (simp add: cache_ok_def)

lemma empty_ok: "0 \<le> clm_maxEntries lim \<Longrightarrow> 0 \<le> clm_maxBytes lim \<Longrightarrow> cache_ok lim empty_cache"
  by (simp add: cache_ok_def counted_def empty_cache_def)

lemma clear_ok: "cache_ok lim c \<Longrightarrow> cache_ok lim (cache_clear c)"
  using entries_bytes_nonneg [of "ttc_entries c"] by (auto simp: cache_ok_def counted_def cache_clear_def)

lemma delete_ok: "cache_ok lim c \<Longrightarrow> cache_ok lim (cache_delete key c)"
  by (rule fewer_entries_ok) (auto simp: delete_entries map_delete_def dest: ok_counted)

lemma deleteExpired_ok: "cache_ok lim c \<Longrightarrow> cache_ok lim (deleteExpired now c)"
  by (rule fewer_entries_ok) (auto simp: deleteExpired_entries dest: ok_counted)

lemma get_ok: "cache_ok lim c \<Longrightarrow> cache_ok lim (snd (cache_get now key c))"
proof (cases "map_of (ttc_entries c) key")
  case None
  assume "cache_ok lim c"
  with None show ?thesis by (simp add: cache_get_def)
next
  case (Some e)
  assume ok: "cache_ok lim c"
  then have d: "distinct (map fst (ttc_entries c))" by (simp add: cache_ok_def counted_def)
  have mem: "(key, e) \<in> set (ttc_entries c)" using Some by (rule map_of_SomeD)
  have len: "Suc (length (map_delete key (ttc_entries c))) \<le> length (ttc_entries c)"
    using mem length_filter_less [of "(key, e)" "ttc_entries c" "\<lambda>(k, _). k \<noteq> key"] by (simp add: map_delete_def Suc_le_eq)
  show ?thesis
  proof (cases "cen_expiresAt e \<le> now")
    case True
    with Some delete_ok [OF ok, of key] show ?thesis by (simp add: cache_get_def)
  next
    case False
    have key: "key \<notin> fst ` set (map_delete key (ttc_entries c))" by (auto simp: map_delete_def)
    have "distinct (map fst (map_delete key (ttc_entries c)))" using d by (simp add: map_delete_def distinct_map_filter)
    moreover have "0 \<le> cen_bytes e" using ok mem by (auto simp: cache_ok_def counted_def)
    moreover have "\<forall>x \<in> set (map_delete key (ttc_entries c)). 0 \<le> cen_bytes (snd x)"
      using ok by (auto simp: cache_ok_def counted_def map_delete_def)
    ultimately show ?thesis
      using Some False ok key len entries_bytes_delete [OF d Some]
      by (auto simp: cache_get_def cache_ok_def counted_def map_append_def)
  qed
qed

lemma set_ok:
  assumes "cache_ok lim c" "0 \<le> bytes" "0 < clm_maxEntries lim"
  shows "cache_ok lim (snd (cache_set lim now key value bytes expiresAt c))"
proof (cases "now < expiresAt \<and> bytes \<le> clm_maxBytes lim")
  case False
  then have r: "expiresAt \<le> now \<or> clm_maxBytes lim < bytes" by auto
  show ?thesis
    by (rule fewer_entries_ok [OF assms(1) cache_set_refused(2) [OF ok_counted [OF assms(1)] r]])
      (use cache_set_refused(3) [OF ok_counted [OF assms(1)] r] in \<open>simp add: live_entries_def\<close>)
next
  case True
  let ?l = "live_entries now key c"
  have c: "counted c" using assms(1) by (rule ok_counted)
  obtain n where n: "ttc_entries (snd (cache_set lim now key value bytes expiresAt c)) = drop n ?l @
       [(key, \<lparr>cen_value = value, cen_bytes = bytes, cen_expiresAt = expiresAt\<rparr>)]"
    "ttc_totalBytes (snd (cache_set lim now key value bytes expiresAt c)) = entries_bytes (drop n ?l) + bytes"
    "n < length ?l \<longrightarrow> room_for lim bytes (drop n ?l)" "n \<le> length ?l"
    by (rule cache_set_stored [OF c, of now expiresAt bytes lim key "value"]) (use True in auto)
  have room: "room_for lim bytes (drop n ?l)"
    using n(3,4) True assms(3) by (cases "n < length ?l") (auto simp: room_for_def)
  have sub: "set (drop n ?l) \<subseteq> {x \<in> set (ttc_entries c). fst x \<noteq> key}"
    using set_drop_subset [of n ?l] by (auto simp: live_entries_def)
  have "distinct (map fst ?l)" using c by (simp add: counted_def live_entries_def distinct_map_filter)
  then have dist: "distinct (map fst (drop n ?l))" by (simp flip: drop_map)
  have key: "key \<notin> fst ` set (drop n ?l)" using sub by auto
  have "\<forall>x \<in> set (drop n ?l). 0 \<le> cen_bytes (snd x)" using sub c by (auto simp: counted_def)
  with n(1,2) room key dist assms(2) show ?thesis
    by (simp add: cache_ok_def counted_def room_for_def)
qed


section \<open>What a cache answers\<close>

text \<open>The contract the callers rely on: a value that is read was stored under the key and has not expired,
  and an operation adds nothing but the value it stores.\<close>

locale expiring_cache =
  fixes lookup :: "date \<Rightarrow> string \<Rightarrow> 'c \<Rightarrow> 'v option \<times> 'c"
    and store :: "date \<Rightarrow> string \<Rightarrow> 'v \<Rightarrow> int \<Rightarrow> date \<Rightarrow> 'c \<Rightarrow> bool \<times> 'c"
    and contents :: "'c \<Rightarrow> (string \<times> 'v \<times> date) set"
  assumes lookup_stored: "fst (lookup now key c) = Some v \<Longrightarrow> \<exists>expiresAt. (key, v, expiresAt) \<in> contents c \<and> now < expiresAt"
    and lookup_adds_nothing: "contents (snd (lookup now key c)) \<subseteq> contents c"
    and store_adds: "contents (snd (store now key v bytes expiresAt c)) \<subseteq> insert (key, v, expiresAt) (contents c)"
begin

text \<open>Read-through: a property of every stored value holds of what is read, if it holds of what is stored.\<close>

lemma lookup_keeps:
  "\<forall>(k, v, e) \<in> contents c. P k v e \<Longrightarrow> \<forall>(k, v, e) \<in> contents (snd (lookup now key c)). P k v e"
  using lookup_adds_nothing [of now key c] by blast

lemma store_keeps:
  "\<forall>(k, v, e) \<in> contents c. P k v e \<Longrightarrow> P key v expiresAt \<Longrightarrow>
     \<forall>(k, v, e) \<in> contents (snd (store now key v bytes expiresAt c)). P k v e"
  using store_adds [of now key v bytes expiresAt c] by blast

lemma looked_up:
  assumes "\<forall>(k, v, e) \<in> contents c. P k v e" "fst (lookup now key c) = Some v"
  shows "\<exists>e. P key v e \<and> now < e"
  using assms lookup_stored [OF assms(2)] by blast

end

lemma held_delete: "held (cache_delete key c) \<subseteq> held c"
  by (auto simp: held_def delete_entries map_delete_def)

lemma held_foldl:
  "held (foldl (\<lambda>c' (k, e). if P e then cache_delete k c' else c') c es) \<subseteq> held c"
proof (induction es arbitrary: c)
  case (Cons x es)
  obtain k e where x: "x = (k, e)" by (cases x)
  show ?case using Cons.IH [of "if P e then cache_delete k c else c"] held_delete [of k c] by (auto simp: x split: if_splits)
qed simp

lemma held_evict: "held (evict lim bytes ks c) \<subseteq> held c"
proof (induction lim bytes ks c rule: evict.induct)
  case (2 lim bytes k ks c)
  then show ?case using held_delete [of k c] by (cases "fits_limits lim bytes c") auto
qed simp

interpretation ttl: expiring_cache cache_get "cache_set lim" held for lim
proof
  fix now key c and v :: 'a
  assume "fst (cache_get now key c) = Some v"
  then show "\<exists>expiresAt. (key, v, expiresAt) \<in> held c \<and> now < expiresAt"
    by (force simp: cache_get_def held_def dest: map_of_SomeD split: option.splits if_splits)
next
  fix now key and c :: "'a ttl_cache"
  show "held (snd (cache_get now key c)) \<subseteq> held c"
    using held_delete [of key c]
    by (auto simp: cache_get_def held_def map_append_def map_delete_def dest!: map_of_SomeD split: option.splits)
next
  fix now key bytes expiresAt c and v :: 'a
  show "held (snd (cache_set lim now key v bytes expiresAt c)) \<subseteq> insert (key, v, expiresAt) (held c)"
  proof -
    let ?l = "deleteExpired now (cache_delete key c)"
    have "held ?l \<subseteq> held c"
      using held_foldl [of "\<lambda>e. cen_expiresAt e \<le> now" "cache_delete key c"] held_delete [of key c]
      unfolding deleteExpired_def by blast
    moreover have "held (evict lim bytes (map fst (ttc_entries ?l)) ?l) \<subseteq> held ?l" by (rule held_evict)
    ultimately have "held (evict lim bytes (map fst (ttc_entries ?l)) ?l) \<subseteq> held c" "held ?l \<subseteq> held c" by blast+
    moreover have "held (snd (cache_set lim now key v bytes expiresAt c)) =
        (if expiresAt \<le> now \<or> clm_maxBytes lim < bytes then held ?l
         else insert (key, v, expiresAt) (held (evict lim bytes (map fst (ttc_entries ?l)) ?l)))"
      by (simp add: cache_set_def Let_def held_def map_append_def)
    ultimately show ?thesis by auto
  qed
qed

end
