(* ===== verification/Status_List_Fetch.thy ===== *)
theory Status_List_Fetch
  imports Bounded_Cache Outbound_Requests
begin

text \<open>
  Status lists of presented credentials and wallet attestations:
  \<open>trust/status-list-verifier.service.ts\<close> and \<open>trust/wua-status.ts\<close>. The library
  \<open>@owf/token-status-list\<close>, decoding a JWT and the fetch (\<^term>\<open>trust_fetch\<close>) are parameters; a token
  in CWT form is its bytes. \<open>now\<close> is the time of the cache lookup, \<open>later\<close> that of the answer.
\<close>

section \<open>Tokens and the library\<close>

definition STATUS_LIST_MAX_BYTES :: int where
  "STATUS_LIST_MAX_BYTES = 10 * 1024 * 1024"

definition STATUS_LIST_TIMEOUT_MS :: int where
  "STATUS_LIST_TIMEOUT_MS = 10000"

definition STATUS_LIST_CWT :: string where
  "STATUS_LIST_CWT = ''application/statuslist+cwt''"

definition DEFAULT_CACHE_TTL_MS :: int where
  "DEFAULT_CACHE_TTL_MS = 5 * 60 * 1000"

definition MAX_CACHE_TTL_MS :: int where
  "MAX_CACHE_TTL_MS = 60 * 60 * 1000"

definition token_cache_limits :: cache_limits where
  "token_cache_limits = \<lparr>clm_maxEntries = 1000, clm_maxBytes = 32 * 1024 * 1024\<rparr>"

definition parsed_cache_limits :: cache_limits where
  "parsed_cache_limits = \<lparr>clm_maxEntries = 1000, clm_maxBytes = 64 * 1024 * 1024\<rparr>"

definition PARSED_BYTES_PER_STATUS :: int where
  "PARSED_BYTES_PER_STATUS = 8"

datatype status_token = Token_Jwt string | Token_Cwt string

fun tokenBytes :: "status_token \<Rightarrow> int" where
  "tokenBytes (Token_Jwt s) = int (length s) * 2"
| "tokenBytes (Token_Cwt bs) = int (length bs)"

record 's cwt_payload =
  cwp_statusList :: 's
  cwp_timeToLive :: "int option"
  cwp_expirationTime :: "date option"

record 's status_library =
  sll_entry :: "string \<Rightarrow> string + string \<times> int"
  sll_jwtList :: "string \<Rightarrow> string + 's"
  sll_decodeJwt :: "string \<Rightarrow> string + json"
  sll_cwt :: "string \<Rightarrow> string + 's cwt_payload"
  sll_getStatus :: "'s \<Rightarrow> int \<Rightarrow> string + int"
  sll_totalStatuses :: "'s \<Rightarrow> nat"

datatype status_list_error =
    List_Unavailable string
  | Status_Type_Error string
  | Status_Library_Error string

fun status_message :: "status_list_error \<Rightarrow> string" where
  "status_message (List_Unavailable m) = m"
| "status_message (Status_Type_Error m) = m"
| "status_message (Status_Library_Error m) = m"

record 's status_caches =
  stc_cache :: "'s ttl_cache"
  stc_cachedJwts :: "string ttl_cache"
  stc_cachedCwts :: "string ttl_cache"

type_synonym fetcher = "string \<Rightarrow> fetch_options \<Rightarrow> string + outbound_response"


section \<open>Fetching a token\<close>

definition status_fetch_options :: "string option \<Rightarrow> fetch_options" where
  "status_fetch_options accept =
     \<lparr>fop_timeoutMs = STATUS_LIST_TIMEOUT_MS, fop_maxBytes = STATUS_LIST_MAX_BYTES, fop_accept = accept\<rparr>"

definition fetchStatusListToken :: "fetcher \<Rightarrow> string \<Rightarrow> bool \<Rightarrow> status_list_error + status_token" where
  "fetchStatusListToken fetch uri cwt =
     (case fetch uri (status_fetch_options (Some (if cwt then STATUS_LIST_CWT else ''application/statuslist+jwt''))) of
        Inl e \<Rightarrow> Inl (List_Unavailable (''Failed to fetch status list from '' @ uri @ '': '' @ e))
      | Inr response \<Rightarrow>
          (if contains_text (toLowerCase (coalesce (obr_contentType response) [])) STATUS_LIST_CWT
           then Inr (Token_Cwt (obr_bytes response)) else Inr (Token_Jwt (js_trim (obr_body response)))))"

text \<open>A ttl or exp of 0 counts as none.\<close>

definition cacheExpiresAt :: "date \<Rightarrow> int option \<Rightarrow> int option \<Rightarrow> date" where
  "cacheExpiresAt now ttl exp =
     (let ttlMs = (case ttl of None \<Rightarrow> DEFAULT_CACHE_TTL_MS
            | Some t \<Rightarrow> if t = 0 then DEFAULT_CACHE_TTL_MS else min (t * 1000) MAX_CACHE_TTL_MS)
      in case exp of None \<Rightarrow> now + ttlMs | Some e \<Rightarrow> if e = 0 then now + ttlMs else min (now + ttlMs) (e * 1000))"

definition number_claim :: "string \<Rightarrow> json \<Rightarrow> int option" where
  "number_claim k payload = (case jget k (Some payload) of Some (JNum n) \<Rightarrow> Some n | _ \<Rightarrow> None)"

definition cwt_expiry :: "'s cwt_payload \<Rightarrow> int option" where
  "cwt_expiry p = map_option (\<lambda>t. t div 1000) (cwp_expirationTime p)"

text \<open>The list of a token with its ttl and exp.\<close>

definition parse_token :: "'s status_library \<Rightarrow> status_token \<Rightarrow> status_list_error + 's \<times> int option \<times> int option" where
  "parse_token lib token = (case token of
       Token_Jwt jwt \<Rightarrow>
         ebind (map_failure Status_Library_Error (sll_jwtList lib jwt)) (\<lambda>list.
         ebind (map_failure Status_Library_Error (sll_decodeJwt lib jwt)) (\<lambda>payload.
         Inr (list, number_claim ''ttl'' payload, number_claim ''exp'' payload)))
     | Token_Cwt bytes \<Rightarrow>
         ebind (map_failure Status_Library_Error (sll_cwt lib bytes)) (\<lambda>p.
         Inr (cwp_statusList p, cwp_timeToLive p, cwt_expiry p)))"

text \<open>What a cache miss fetches for each of the caches.\<close>

definition fetch_list ::
    "'s status_library \<Rightarrow> fetcher \<Rightarrow> string \<Rightarrow> status_list_error + status_token \<times> 's \<times> int option \<times> int option" where
  "fetch_list lib fetch uri =
     ebind (fetchStatusListToken fetch uri False) (\<lambda>token.
     ebind (parse_token lib token) (\<lambda>(list, ttl, exp). Inr (token, list, ttl, exp)))"

definition fetch_jwt :: "'s status_library \<Rightarrow> fetcher \<Rightarrow> string \<Rightarrow> status_list_error + string \<times> json" where
  "fetch_jwt lib fetch uri =
     ebind (fetchStatusListToken fetch uri False) (\<lambda>token. case token of
         Token_Cwt _ \<Rightarrow> Inl (Status_Type_Error (''Status list at '' @ uri @ '' returned CWT while JWT was requested''))
       | Token_Jwt jwt \<Rightarrow> ebind (map_failure Status_Library_Error (sll_decodeJwt lib jwt)) (\<lambda>p. Inr (jwt, p)))"

definition fetch_cwt :: "'s status_library \<Rightarrow> fetcher \<Rightarrow> string \<Rightarrow> status_list_error + string \<times> 's cwt_payload" where
  "fetch_cwt lib fetch uri =
     ebind (fetchStatusListToken fetch uri True) (\<lambda>token. case token of
         Token_Jwt _ \<Rightarrow> Inl (Status_Type_Error (''Status list at '' @ uri @ '' was not served as '' @ STATUS_LIST_CWT))
       | Token_Cwt bytes \<Rightarrow> ebind (map_failure Status_Library_Error (sll_cwt lib bytes)) (\<lambda>p. Inr (bytes, p)))"


section \<open>The service\<close>

definition getStatusList ::
    "'s status_library \<Rightarrow> fetcher \<Rightarrow> date \<Rightarrow> date \<Rightarrow> string \<Rightarrow> 's status_caches
       \<Rightarrow> (status_list_error + 's) \<times> 's status_caches" where
  "getStatusList lib fetch now later uri st =
     (case cache_get now uri (stc_cache st) of
        (Some list, c) \<Rightarrow> (Inr list, st\<lparr>stc_cache := c\<rparr>)
      | (None, c) \<Rightarrow>
          (case fetch_list lib fetch uri of
             Inl e \<Rightarrow> (Inl e, st\<lparr>stc_cache := c\<rparr>)
           | Inr (token, list, ttl, exp) \<Rightarrow>
               (Inr list, st\<lparr>stc_cache := snd (cache_set parsed_cache_limits later uri list
                  (tokenBytes token + int (sll_totalStatuses lib list) * PARSED_BYTES_PER_STATUS)
                  (cacheExpiresAt later ttl exp) c)\<rparr>)))"

record status_check =
  sck_status :: int
  sck_isValid :: bool
  sck_description :: string

definition getStatusDescription :: "int \<Rightarrow> string" where
  "getStatusDescription status =
     (if status = 0 then ''Valid'' else if status = 1 then ''Invalid/Revoked'' else if status = 2 then ''Suspended''
      else ''Unknown status ('' @ show_int status @ '')'')"

definition checkStatus ::
    "'s status_library \<Rightarrow> fetcher \<Rightarrow> date \<Rightarrow> date \<Rightarrow> string \<Rightarrow> int \<Rightarrow> 's status_caches
       \<Rightarrow> (status_list_error + status_check) \<times> 's status_caches" where
  "checkStatus lib fetch now later uri index st =
     (let (r, st') = getStatusList lib fetch now later uri st
      in (ebind r (\<lambda>list. ebind (map_failure Status_Library_Error (sll_getStatus lib list index)) (\<lambda>status.
            Inr \<lparr>sck_status = status, sck_isValid = (status = 0), sck_description = getStatusDescription status\<rparr>)), st'))"

definition getStatusEntryFromJwt :: "'s status_library \<Rightarrow> string \<Rightarrow> (string \<times> int) option" where
  "getStatusEntryFromJwt lib jwt = (case sll_entry lib jwt of Inl _ \<Rightarrow> None | Inr e \<Rightarrow> Some e)"

definition checkStatusFromJwt ::
    "'s status_library \<Rightarrow> fetcher \<Rightarrow> date \<Rightarrow> date \<Rightarrow> string \<Rightarrow> 's status_caches
       \<Rightarrow> (status_list_error + status_check option) \<times> 's status_caches" where
  "checkStatusFromJwt lib fetch now later jwt st = (case getStatusEntryFromJwt lib jwt of
       None \<Rightarrow> (Inr None, st)
     | Some (uri, idx) \<Rightarrow>
         (let (r, st') = checkStatus lib fetch now later uri idx st in (ebind r (\<lambda>c. Inr (Some c)), st')))"

text \<open>An empty cached JWT would be fetched again.\<close>

definition getStatusListJwt ::
    "'s status_library \<Rightarrow> fetcher \<Rightarrow> date \<Rightarrow> date \<Rightarrow> string \<Rightarrow> 's status_caches
       \<Rightarrow> (status_list_error + string) \<times> 's status_caches" where
  "getStatusListJwt lib fetch now later uri st =
     (let (cached, c) = cache_get now uri (stc_cachedJwts st)
      in if truthy cached then (Inr (the cached), st\<lparr>stc_cachedJwts := c\<rparr>)
         else (case fetch_jwt lib fetch uri of
                 Inl e \<Rightarrow> (Inl e, st\<lparr>stc_cachedJwts := c\<rparr>)
               | Inr (jwt, payload) \<Rightarrow>
                   (Inr jwt, st\<lparr>stc_cachedJwts := snd (cache_set token_cache_limits later uri jwt (tokenBytes (Token_Jwt jwt))
                      (cacheExpiresAt later (number_claim ''ttl'' payload) (number_claim ''exp'' payload)) c)\<rparr>)))"

definition getStatusListCwt ::
    "'s status_library \<Rightarrow> fetcher \<Rightarrow> date \<Rightarrow> date \<Rightarrow> string \<Rightarrow> 's status_caches
       \<Rightarrow> (status_list_error + string) \<times> 's status_caches" where
  "getStatusListCwt lib fetch now later uri st =
     (case cache_get now uri (stc_cachedCwts st) of
        (Some bytes, c) \<Rightarrow> (Inr bytes, st\<lparr>stc_cachedCwts := c\<rparr>)
      | (None, c) \<Rightarrow>
          (case fetch_cwt lib fetch uri of
             Inl e \<Rightarrow> (Inl e, st\<lparr>stc_cachedCwts := c\<rparr>)
           | Inr (bytes, p) \<Rightarrow>
               (Inr bytes, st\<lparr>stc_cachedCwts := snd (cache_set token_cache_limits later uri bytes (tokenBytes (Token_Cwt bytes))
                  (cacheExpiresAt later (cwp_timeToLive p) (cwt_expiry p)) c)\<rparr>)))"

text \<open>\<open>mdocFetch\<close>: the body and the content type for the mdoc library. Identifier lists are not cached.\<close>

definition mdocFetch ::
    "'s status_library \<Rightarrow> fetcher \<Rightarrow> date \<Rightarrow> date \<Rightarrow> string \<Rightarrow> string option \<Rightarrow> 's status_caches
       \<Rightarrow> (status_list_error + string \<times> string option) \<times> 's status_caches" where
  "mdocFetch lib fetch now later uri accept st =
     (if contains_text (coalesce accept []) STATUS_LIST_CWT
      then (let (r, st') = getStatusListCwt lib fetch now later uri st
            in (ebind r (\<lambda>cwt. Inr (cwt, Some STATUS_LIST_CWT)), st'))
      else (case fetch uri (status_fetch_options (if truthy accept then accept else None)) of
              Inl e \<Rightarrow> (Inl (List_Unavailable (''Failed to fetch identifier list from '' @ uri @ '': '' @ e)), st)
            | Inr response \<Rightarrow> (Inr (obr_bytes response,
                if truthy (obr_contentType response) then obr_contentType response else None), st)))"

definition clearCache :: "string option \<Rightarrow> 's status_caches \<Rightarrow> 's status_caches" where
  "clearCache uri st =
     (if truthy uri
      then \<lparr>stc_cache = cache_delete (the uri) (stc_cache st), stc_cachedJwts = cache_delete (the uri) (stc_cachedJwts st),
            stc_cachedCwts = cache_delete (the uri) (stc_cachedCwts st)\<rparr>
      else \<lparr>stc_cache = cache_clear (stc_cache st), stc_cachedJwts = cache_clear (stc_cachedJwts st),
            stc_cachedCwts = cache_clear (stc_cachedCwts st)\<rparr>)"

text \<open>The sizes and the URIs.\<close>

definition getCacheStats :: "date \<Rightarrow> 's status_caches \<Rightarrow> (nat \<times> nat \<times> string set) \<times> 's status_caches" where
  "getCacheStats now st =
     (let st' = \<lparr>stc_cache = deleteExpired now (stc_cache st), stc_cachedJwts = deleteExpired now (stc_cachedJwts st),
                 stc_cachedCwts = deleteExpired now (stc_cachedCwts st)\<rparr>
      in ((cache_size (stc_cache st'), cache_size (stc_cachedJwts st'),
           set (cache_keys (stc_cache st') @ cache_keys (stc_cachedJwts st') @ cache_keys (stc_cachedCwts st'))), st'))"


section \<open>The status reference of an attestation\<close>

datatype wua_kind = Wia | Ka

definition status_container :: "wua_kind \<Rightarrow> string" where
  "status_container kind = (case kind of Wia \<Rightarrow> ''client_status'' | Ka \<Rightarrow> ''key_storage_status'')"

text \<open>The index and the URI. A container or status that is \<open>null\<close> reads as \<open>undefined\<close>.\<close>

definition asEntry :: "json option \<Rightarrow> (int \<times> string) option" where
  "asEntry v = (let list = jget ''status_list'' v
     in case jget ''idx'' list of
          Some (JNum idx) \<Rightarrow>
            (if idx < 0 then None
             else (case jget ''uri'' list of Some (JStr uri) \<Rightarrow> if uri = [] then None else Some (idx, uri) | _ \<Rightarrow> None))
        | _ \<Rightarrow> None)"

definition wuaStatusEntryFromPayload :: "json \<Rightarrow> wua_kind \<Rightarrow> (int \<times> string) option" where
  "wuaStatusEntryFromPayload payload kind =
     coalesce_opt (asEntry (jget ''status'' (jget (status_container kind) (Some payload))))
       (asEntry (jget ''status'' (Some payload)))"

definition wuaStatusEntry :: "'s status_library \<Rightarrow> string \<Rightarrow> wua_kind \<Rightarrow> (int \<times> string) option" where
  "wuaStatusEntry lib jwt kind = (case sll_decodeJwt lib jwt of
     Inl _ \<Rightarrow> None | Inr payload \<Rightarrow> wuaStatusEntryFromPayload payload kind)"

end
