(* ===== verification/Wallet_Attestation.thy ===== *)
theory Wallet_Attestation
  imports Status_List_Fetch Sdjwt_Verifier
begin

text \<open>
  Wallet and key attestations: \<open>trust/wallet-attestation.service.ts\<close>. The attestation check of the
  protocol library and the decoding of a JWT header are parameters, certificates and trust lists those of
  \<^term>\<open>trust_env\<close>. A request downloads the status list up to twice: \<open>fetch\<close> and \<open>clock\<close> are
  indexed by the download and by the moment.
\<close>

section \<open>The certificate of the wallet provider\<close>

datatype attestation_error = Unauthorized string | Attestation_Error string

record 's attestation_env =
  ate_crypto :: crypto_env
  ate_header :: "string \<Rightarrow> string + json"
  ate_library :: "string \<Rightarrow> string \<Rightarrow> string \<Rightarrow> string option \<Rightarrow> string + unit"
  ate_status :: "'s status_library"

definition x5c_missing :: "json \<Rightarrow> bool" where
  "x5c_missing header \<longleftrightarrow> (case jget ''x5c'' (Some header) of Some (JArr xs) \<Rightarrow> xs = [] | v \<Rightarrow> \<not> jtruthy v)"

definition x5c_texts :: "json \<Rightarrow> string + string list" where
  "x5c_texts header = (case jget ''x5c'' (Some header) of
     Some (JArr xs) \<Rightarrow> all_results (map x5c_entry xs)
   | _ \<Rightarrow> Inl ''x5c.map is not a function'')"

definition store_anchors :: "trust_env \<Rightarrow> built_store \<Rightarrow> certificate list" where
  "store_anchors env store = parseTrustAnchors env (map tsv_certValue (concat (map ten_services (bst_entities store))))"

definition validateWalletSolutionCertificate ::
    "'s attestation_env \<Rightarrow> string \<Rightarrow> trust_list_ref list \<Rightarrow> string
       \<Rightarrow> attestation_error + matched_entity \<times> built_store" where
  "validateWalletSolutionCertificate env jwt inputs tenantId =
     (let trust = sve_trust (ate_crypto env)
      in ebind (map_failure Attestation_Error (normalizeTrustListRefs (Some inputs))) (\<lambda>refs.
         ebind (require (refs \<noteq> [])
           (Unauthorized ''No wallet provider trust lists configured for wallet attestation verification'')) (\<lambda>_.
         ebind (map_failure Attestation_Error (ate_header env jwt)) (\<lambda>header.
         ebind (require (\<not> x5c_missing header)
           (Unauthorized ''Wallet attestation JWT does not contain X.509 certificate chain (x5c header)'')) (\<lambda>_.
         ebind (map_failure Attestation_Error (tve_store trust \<lparr>tsr_tenantId = Some tenantId, tsr_lotes = refs,
                  tsr_acceptedServiceTypes = Some walletSolutionServiceTypes\<rparr>)) (\<lambda>store.
         ebind (require (bst_entities store \<noteq> [])
           (Unauthorized ''No trusted wallet providers found in configured trust lists'')) (\<lambda>_.
         ebind (map_failure Attestation_Error (ebind (x5c_texts header) (parseX5c trust))) (\<lambda>chain.
         case ebind (buildPath trust (hd chain) chain (store_anchors trust store)) (\<lambda>path.
                pathMatchesTrustedEntities trust path (bst_entities store) Pinned_Leaf WalletSolution) of
           Inl e \<Rightarrow> Inl (Unauthorized (''Certificate chain validation failed: '' @ e))
         | Inr None \<Rightarrow> Inl (Unauthorized
             ''Wallet provider certificate is not trusted - no matching entity in trust list'')
         | Inr (Some m) \<Rightarrow> Inr (m, store)))))))))"


section \<open>The signer of the status list\<close>

text \<open>Only a verifier that throws refuses the signature, a result of false does not.\<close>

definition wallet_status_signature ::
    "'s attestation_env \<Rightarrow> string \<Rightarrow> matched_entity option \<Rightarrow> built_store option \<Rightarrow> bool" where
  "wallet_status_signature env listJwt matched store =
     (let trust = sve_trust (ate_crypto env)
      in case ate_header env listJwt of
           Inl _ \<Rightarrow> False
         | Inr header \<Rightarrow>
             if x5c_missing header then matched = None
             else (case ebind (x5c_texts header) (\<lambda>x5c. ebind (sve_certKey (ate_crypto env) (hd x5c)) (\<lambda>key.
                          ebind key (\<lambda>jwk. ebind (key_verifier (ate_crypto env) (Some jwk)) (\<lambda>check. Inr (x5c, check))))) of
                     Inl _ \<Rightarrow> False
                   | Inr (x5c, check) \<Rightarrow>
                       (case split_on CHR ''.'' listJwt of
                          h # p # s # _ \<Rightarrow>
                            (case check (h @ ''.'' @ p) s of
                               Inl _ \<Rightarrow> False
                             | Inr _ \<Rightarrow>
                                 (case (matched, store) of
                                    (Some m, Some st) \<Rightarrow>
                                      (case mte_revocationCert m of
                                         None \<Rightarrow> True
                                       | Some rc \<Rightarrow>
                                           (case ebind (parseX5c trust x5c) (\<lambda>presented. ebind (buildPath trust (hd presented)
                                                     presented (store_anchors trust st)) (\<lambda>path. Inr (presented, path))) of
                                              Inl _ \<Rightarrow> False
                                            | Inr (presented, path) \<Rightarrow>
                                                (path \<noteq> [] \<and> crt_thumbprint rc = crt_thumbprint
                                                   (if isCaCert rc then last path else hd presented))))
                                  | _ \<Rightarrow> True))
                        | _ \<Rightarrow> False)))"


section \<open>Checking the status\<close>

definition wua_label :: "wua_kind \<Rightarrow> string" where
  "wua_label kind = (case kind of Wia \<Rightarrow> ''Wallet attestation'' | Ka \<Rightarrow> ''Key attestation'')"

definition validateAttestationStatus ::
    "'s attestation_env \<Rightarrow> (nat \<Rightarrow> fetcher) \<Rightarrow> (nat \<Rightarrow> date) \<Rightarrow> string \<Rightarrow> wua_kind \<Rightarrow> matched_entity option
       \<Rightarrow> built_store option \<Rightarrow> 's status_caches \<Rightarrow> (attestation_error + unit) \<times> 's status_caches" where
  "validateAttestationStatus env fetch clock jwt kind matched store st =
     (case wuaStatusEntry (ate_status env) jwt kind of
        None \<Rightarrow> (Inr (), st)
      | Some (idx, uri) \<Rightarrow>
          (case getStatusListJwt (ate_status env) (fetch 0) (clock 0) (clock 1) uri st of
             (Inl _, st1) \<Rightarrow> (Inr (), st1)
           | (Inr listJwt, st1) \<Rightarrow>
               if \<not> wallet_status_signature env listJwt matched store
               then (Inl (Unauthorized (wua_label kind @
                 '' status list JWT signature verification failed - not signed by trusted revocation certificate'')), st1)
               else (case checkStatus (ate_status env) (fetch 1) (clock 2) (clock 3) uri idx st1 of
                       (Inl _, st2) \<Rightarrow> (Inr (), st2)
                     | (Inr check, st2) \<Rightarrow>
                         (if sck_isValid check then Inr ()
                          else Inl (Unauthorized (wua_label kind @ '' is not valid: '' @ sck_description check)), st2))))"


section \<open>Verifying an attestation\<close>

record presented_attestation =
  cla_jwt :: string
  cla_popJwt :: "string option"

definition attestation_refusal :: "attestation_error \<Rightarrow> attestation_error" where
  "attestation_refusal e = (case e of
     Unauthorized m \<Rightarrow> Unauthorized m
   | Attestation_Error m \<Rightarrow> Unauthorized (''Wallet attestation verification failed: '' @ m))"

definition verifyWalletAttestation ::
    "'s attestation_env \<Rightarrow> (nat \<Rightarrow> fetcher) \<Rightarrow> (nat \<Rightarrow> date) \<Rightarrow> string \<Rightarrow> presented_attestation option \<Rightarrow> string
       \<Rightarrow> bool \<Rightarrow> trust_list_ref list \<Rightarrow> 's status_caches \<Rightarrow> (attestation_error + unit) \<times> 's status_caches" where
  "verifyWalletAttestation env fetch clock tenantId attestation server required inputs st =
     (case attestation of
        None \<Rightarrow> (require (\<not> required) (Unauthorized ''Wallet attestation is required but not provided''), st)
      | Some a \<Rightarrow>
          (case ebind (map_failure Attestation_Error (ate_library env tenantId server (cla_jwt a) (cla_popJwt a))) (\<lambda>_.
                  validateWalletSolutionCertificate env (cla_jwt a) inputs tenantId) of
             Inl e \<Rightarrow> (Inl (attestation_refusal e), st)
           | Inr (m, store) \<Rightarrow>
               (let (r, st') = validateAttestationStatus env fetch clock (cla_jwt a) Wia (Some m) (Some store) st
                in (map_failure attestation_refusal r, st'))))"

definition verifyKeyAttestationStatus ::
    "'s attestation_env \<Rightarrow> (nat \<Rightarrow> fetcher) \<Rightarrow> (nat \<Rightarrow> date) \<Rightarrow> string \<Rightarrow> trust_list_ref list \<Rightarrow> string
       \<Rightarrow> 's status_caches \<Rightarrow> (attestation_error + unit) \<times> 's status_caches" where
  "verifyKeyAttestationStatus env fetch clock jwt inputs tenantId st =
     (case map_failure Attestation_Error (normalizeTrustListRefs (Some inputs)) of
        Inl e \<Rightarrow> (Inl e, st)
      | Inr refs \<Rightarrow>
          (if refs = [] then (Inr (), st)
           else (case validateWalletSolutionCertificate env jwt inputs tenantId of
                   Inl e \<Rightarrow> (Inl e, st)
                 | Inr (m, store) \<Rightarrow> validateAttestationStatus env fetch clock jwt Ka (Some m) (Some store) st)))"

end
