(* ===== verification/Attestation_Properties.thy ===== *)
theory Attestation_Properties
  imports Wallet_Attestation
begin

text \<open>
  What the status list caches guarantee over any history of requests, and what an accepted wallet
  attestation has shown.
\<close>

section \<open>Histories of the status list service\<close>

text \<open>The tokens that were downloaded, with the URI and the time of the answer.\<close>

type_synonym downloads = "(string \<times> status_token \<times> date) list"

definition downloaded :: "fetcher \<Rightarrow> string \<Rightarrow> bool \<Rightarrow> bool \<Rightarrow> date \<Rightarrow> downloads" where
  "downloaded fetch uri cwt hit later =
     (if hit then [] else case fetchStatusListToken fetch uri cwt of Inl _ \<Rightarrow> [] | Inr token \<Rightarrow> [(uri, token, later)])"

inductive status_history ::
    "'s status_library \<Rightarrow> downloads \<Rightarrow> date \<Rightarrow> 's status_caches \<Rightarrow> bool" for lib where
  hist_start: "status_history lib [] t \<lparr>stc_cache = empty_cache, stc_cachedJwts = empty_cache, stc_cachedCwts = empty_cache\<rparr>"
| hist_list: "status_history lib log t st \<Longrightarrow> t \<le> now \<Longrightarrow> now \<le> later \<Longrightarrow>
    status_history lib (log @ downloaded fetch uri False (fst (cache_get now uri (stc_cache st)) \<noteq> None) later) later
      (snd (getStatusList lib fetch now later uri st))"
| hist_jwt: "status_history lib log t st \<Longrightarrow> t \<le> now \<Longrightarrow> now \<le> later \<Longrightarrow>
    status_history lib (log @ downloaded fetch uri False (truthy (fst (cache_get now uri (stc_cachedJwts st)))) later) later
      (snd (getStatusListJwt lib fetch now later uri st))"
| hist_cwt: "status_history lib log t st \<Longrightarrow> t \<le> now \<Longrightarrow> now \<le> later \<Longrightarrow>
    status_history lib (log @ downloaded fetch uri True (fst (cache_get now uri (stc_cachedCwts st)) \<noteq> None) later) later
      (snd (getStatusListCwt lib fetch now later uri st))"
| hist_clear: "status_history lib log t st \<Longrightarrow> t \<le> now \<Longrightarrow> status_history lib log now (clearCache uri st)"
| hist_stats: "status_history lib log t st \<Longrightarrow> t \<le> now \<Longrightarrow> status_history lib log now (snd (getCacheStats now st))"

lemma expires_within: "cacheExpiresAt now ttl exp \<le> now + MAX_CACHE_TTL_MS"
  by (auto simp: cacheExpiresAt_def DEFAULT_CACHE_TTL_MS_def MAX_CACHE_TTL_MS_def Let_def min_def split: option.split)

text \<open>A cached entry was downloaded, and expires within the longest cache time after that.\<close>

definition from_log :: "downloads \<Rightarrow> (status_token \<Rightarrow> 'v \<Rightarrow> bool) \<Rightarrow> string \<Rightarrow> 'v \<Rightarrow> date \<Rightarrow> bool" where
  "from_log log reads uri v expiresAt \<longleftrightarrow>
     (\<exists>token t0. (uri, token, t0) \<in> set log \<and> reads token v \<and> expiresAt \<le> t0 + MAX_CACHE_TTL_MS)"

definition reads_list :: "'s status_library \<Rightarrow> status_token \<Rightarrow> 's \<Rightarrow> bool" where
  "reads_list lib token v \<longleftrightarrow> (\<exists>ttl exp. parse_token lib token = Inr (v, ttl, exp))"

definition caches_sound :: "'s status_library \<Rightarrow> downloads \<Rightarrow> 's status_caches \<Rightarrow> bool" where
  "caches_sound lib log st \<longleftrightarrow>
     (\<forall>(k, v, e) \<in> held (stc_cache st). from_log log (reads_list lib) k v e)
     \<and> (\<forall>(k, v, e) \<in> held (stc_cachedJwts st). from_log log (\<lambda>token v. token = Token_Jwt v) k v e)
     \<and> (\<forall>(k, v, e) \<in> held (stc_cachedCwts st). from_log log (\<lambda>token v. token = Token_Cwt v) k v e)"

definition caches_ok :: "'s status_caches \<Rightarrow> bool" where
  "caches_ok st \<longleftrightarrow> cache_ok parsed_cache_limits (stc_cache st) \<and> cache_ok token_cache_limits (stc_cachedJwts st)
     \<and> cache_ok token_cache_limits (stc_cachedCwts st)"

lemma from_log_more: "from_log log reads k v e \<Longrightarrow> from_log (log @ extra) reads k v e"
  by (auto simp: from_log_def)

lemma all_from_log_more:
  "\<forall>(k, v, e) \<in> S. from_log log reads k v e \<Longrightarrow> \<forall>(k, v, e) \<in> S. from_log (log @ extra) reads k v e"
  by (auto intro: from_log_more)

lemma from_log_fetched:
  "(uri, token, later) \<in> set extra \<Longrightarrow> reads token v \<Longrightarrow> from_log (log @ extra) reads uri v (cacheExpiresAt later ttl exp)"
  using expires_within by (force simp: from_log_def)

text \<open>The outcomes of the three reads.\<close>

lemma fetch_jwt_returns:
  "fetch_jwt lib fetch uri = Inr x \<Longrightarrow> \<exists>v payload. fetchStatusListToken fetch uri False = Inr (Token_Jwt v) \<and> x = (v, payload)"
  unfolding fetch_jwt_def
  by (cases "fetchStatusListToken fetch uri False") (auto simp: returns split: status_token.split_asm)

lemma fetch_cwt_returns:
  "fetch_cwt lib fetch uri = Inr x \<Longrightarrow> \<exists>v p. fetchStatusListToken fetch uri True = Inr (Token_Cwt v) \<and> x = (v, p)"
  unfolding fetch_cwt_def
  by (cases "fetchStatusListToken fetch uri True") (auto simp: returns split: status_token.split_asm)

lemma getStatusList_cases:
  obtains (hit) v where "fst (cache_get now uri (stc_cache st)) = Some v"
      "getStatusList lib fetch now later uri st = (Inr v, st\<lparr>stc_cache := snd (cache_get now uri (stc_cache st))\<rparr>)"
  | (failed) e where "fst (cache_get now uri (stc_cache st)) = None"
      "getStatusList lib fetch now later uri st = (Inl e, st\<lparr>stc_cache := snd (cache_get now uri (stc_cache st))\<rparr>)"
  | (fetched) token v ttl exp where "fst (cache_get now uri (stc_cache st)) = None"
      "fetchStatusListToken fetch uri False = Inr token" "parse_token lib token = Inr (v, ttl, exp)"
      "getStatusList lib fetch now later uri st = (Inr v, st\<lparr>stc_cache := snd (cache_set parsed_cache_limits later uri v
         (tokenBytes token + int (sll_totalStatuses lib v) * PARSED_BYTES_PER_STATUS) (cacheExpiresAt later ttl exp)
         (snd (cache_get now uri (stc_cache st))))\<rparr>)"
proof -
  obtain c where g: "cache_get now uri (stc_cache st) = (fst (cache_get now uri (stc_cache st)), c)"
    by (cases "cache_get now uri (stc_cache st)") auto
  show ?thesis
  proof (cases "fst (cache_get now uri (stc_cache st))")
    case (Some v)
    then show ?thesis using g by (intro hit [of v]) (auto simp: getStatusList_def)
  next
    case None
    show ?thesis
    proof (cases "fetch_list lib fetch uri")
      case (Inl e)
      then show ?thesis using g None by (intro failed [of e]) (auto simp: getStatusList_def)
    next
      case (Inr x)
      then obtain token v ttl exp where "fetchStatusListToken fetch uri False = Inr token"
        "parse_token lib token = Inr (v, ttl, exp)" "x = (token, v, ttl, exp)" by (auto simp: fetch_list_def returns)
      then show ?thesis using g None Inr by (intro fetched [of token v ttl exp]) (auto simp: getStatusList_def)
    qed
  qed
qed

lemma getStatusListJwt_cases:
  obtains (hit) v where "truthy (fst (cache_get now uri (stc_cachedJwts st)))" "fst (cache_get now uri (stc_cachedJwts st)) = Some v"
      "getStatusListJwt lib fetch now later uri st = (Inr v, st\<lparr>stc_cachedJwts := snd (cache_get now uri (stc_cachedJwts st))\<rparr>)"
  | (failed) e where "\<not> truthy (fst (cache_get now uri (stc_cachedJwts st)))"
      "getStatusListJwt lib fetch now later uri st = (Inl e, st\<lparr>stc_cachedJwts := snd (cache_get now uri (stc_cachedJwts st))\<rparr>)"
  | (fetched) v ttl exp where "\<not> truthy (fst (cache_get now uri (stc_cachedJwts st)))"
      "fetchStatusListToken fetch uri False = Inr (Token_Jwt v)"
      "getStatusListJwt lib fetch now later uri st = (Inr v, st\<lparr>stc_cachedJwts := snd (cache_set token_cache_limits later uri v
         (tokenBytes (Token_Jwt v)) (cacheExpiresAt later ttl exp) (snd (cache_get now uri (stc_cachedJwts st))))\<rparr>)"
proof (cases "truthy (fst (cache_get now uri (stc_cachedJwts st)))")
  case True
  then show ?thesis
    by (intro hit [of "the (fst (cache_get now uri (stc_cachedJwts st)))"])
      (auto simp: getStatusListJwt_def split_beta dest: truthyE)
next
  case False
  show ?thesis
  proof (cases "fetch_jwt lib fetch uri")
    case (Inl e)
    with False show ?thesis by (intro failed [of e]) (auto simp: getStatusListJwt_def split_beta)
  next
    case (Inr x)
    then obtain v payload where "fetchStatusListToken fetch uri False = Inr (Token_Jwt v)" "x = (v, payload)"
      using fetch_jwt_returns by blast
    with False Inr show ?thesis
      by (intro fetched [of v "number_claim ''ttl'' payload" "number_claim ''exp'' payload"])
        (auto simp: getStatusListJwt_def split_beta)
  qed
qed

lemma getStatusListCwt_cases:
  obtains (hit) v where "fst (cache_get now uri (stc_cachedCwts st)) = Some v"
      "getStatusListCwt lib fetch now later uri st = (Inr v, st\<lparr>stc_cachedCwts := snd (cache_get now uri (stc_cachedCwts st))\<rparr>)"
  | (failed) e where "fst (cache_get now uri (stc_cachedCwts st)) = None"
      "getStatusListCwt lib fetch now later uri st = (Inl e, st\<lparr>stc_cachedCwts := snd (cache_get now uri (stc_cachedCwts st))\<rparr>)"
  | (fetched) v ttl exp where "fst (cache_get now uri (stc_cachedCwts st)) = None"
      "fetchStatusListToken fetch uri True = Inr (Token_Cwt v)"
      "getStatusListCwt lib fetch now later uri st = (Inr v, st\<lparr>stc_cachedCwts := snd (cache_set token_cache_limits later uri v
         (tokenBytes (Token_Cwt v)) (cacheExpiresAt later ttl exp) (snd (cache_get now uri (stc_cachedCwts st))))\<rparr>)"
proof (cases "fst (cache_get now uri (stc_cachedCwts st))")
  case (Some v)
  then show ?thesis
    by (intro hit [of v]; cases "cache_get now uri (stc_cachedCwts st)") (auto simp: getStatusListCwt_def)
next
  case None
  then obtain c where g: "cache_get now uri (stc_cachedCwts st) = (None, c)"
    by (cases "cache_get now uri (stc_cachedCwts st)") auto
  show ?thesis
  proof (cases "fetch_cwt lib fetch uri")
    case (Inl e)
    with g show ?thesis by (intro failed [of e]) (auto simp: getStatusListCwt_def)
  next
    case (Inr x)
    then obtain v p where "fetchStatusListToken fetch uri True = Inr (Token_Cwt v)" "x = (v, p)"
      using fetch_cwt_returns by blast
    with g Inr show ?thesis
      by (intro fetched [of v "cwp_timeToLive p" "cwt_expiry p"]) (auto simp: getStatusListCwt_def)
  qed
qed

lemma tokenBytes_nonneg [simp]: "0 \<le> tokenBytes token"
  by (cases token) simp_all

lemma limits_positive [simp]: "0 < clm_maxEntries token_cache_limits" "0 < clm_maxEntries parsed_cache_limits"
  "0 \<le> clm_maxEntries token_cache_limits" "0 \<le> clm_maxEntries parsed_cache_limits"
  "0 \<le> clm_maxBytes token_cache_limits" "0 \<le> clm_maxBytes parsed_cache_limits"
  by (simp_all add: token_cache_limits_def parsed_cache_limits_def)

lemma history_ok: "status_history lib log t st \<Longrightarrow> caches_ok st"
proof (induction rule: status_history.induct)
  case hist_start
  then show ?case by (simp add: caches_ok_def empty_ok)
next
  case (hist_list log t st now later fetch uri)
  then show ?case
    by (cases rule: getStatusList_cases [of now uri st lib fetch later])
      (auto simp: caches_ok_def PARSED_BYTES_PER_STATUS_def intro!: get_ok set_ok)
next
  case (hist_jwt log t st now later fetch uri)
  then show ?case
    by (cases rule: getStatusListJwt_cases [of now uri st lib fetch later])
      (auto simp: caches_ok_def intro!: get_ok set_ok simp del: tokenBytes.simps)
next
  case (hist_cwt log t st now later fetch uri)
  then show ?case
    by (cases rule: getStatusListCwt_cases [of now uri st lib fetch later])
      (auto simp: caches_ok_def intro!: get_ok set_ok simp del: tokenBytes.simps)
next
  case (hist_clear log t st now uri)
  then show ?case by (auto simp: caches_ok_def clearCache_def delete_ok clear_ok)
next
  case (hist_stats log t st now)
  then show ?case by (simp add: caches_ok_def getCacheStats_def Let_def deleteExpired_ok)
qed

lemma history_times: "status_history lib log t st \<Longrightarrow> (uri, token, t0) \<in> set log \<Longrightarrow> t0 \<le> t"
  by (induction arbitrary: uri token t0 rule: status_history.induct)
    (fastforce simp: downloaded_def split: if_splits sum.splits)+

lemma held_clear: "held (cache_clear c) = {}"
  by (simp add: held_def cache_clear_def)

lemma held_expired: "held (deleteExpired now c) \<subseteq> held c"
  unfolding deleteExpired_def by (rule held_foldl)

lemma sound_part:
  assumes "\<forall>(k, v, e) \<in> S. from_log log reads k v e"
    and "\<forall>(k, v, e) \<in> S'. (k, v, e) \<in> S \<or> from_log (log @ new) reads k v e"
  shows "\<forall>(k, v, e) \<in> S'. from_log (log @ new) reads k v e"
proof (rule ballI)
  fix x
  assume x: "x \<in> S'"
  obtain k v e where e: "x = (k, v, e)" by (cases x)
  from bspec [OF assms(2) x] have "(k, v, e) \<in> S \<or> from_log (log @ new) reads k v e" by (simp add: e)
  then have "from_log (log @ new) reads k v e"
    using assms(1) from_log_more [of log reads k v e new] by auto
  then show "case x of (k, v, e) \<Rightarrow> from_log (log @ new) reads k v e" by (simp add: e)
qed

text \<open>Each read keeps the two other caches and the entries of its own, and adds what it downloaded.\<close>

lemma caches_soundI:
  assumes "caches_sound lib log st"
    and "\<forall>(k, v, e) \<in> held (stc_cache st'). (k, v, e) \<in> held (stc_cache st) \<or> from_log (log @ new) (reads_list lib) k v e"
    and "\<forall>(k, v, e) \<in> held (stc_cachedJwts st'). (k, v, e) \<in> held (stc_cachedJwts st)
           \<or> from_log (log @ new) (\<lambda>token v. token = Token_Jwt v) k v e"
    and "\<forall>(k, v, e) \<in> held (stc_cachedCwts st'). (k, v, e) \<in> held (stc_cachedCwts st)
           \<or> from_log (log @ new) (\<lambda>token v. token = Token_Cwt v) k v e"
  shows "caches_sound lib (log @ new) st'"
  using assms unfolding caches_sound_def by (intro conjI; elim conjE; intro sound_part)

lemma get_held: "(k, v, e) \<in> held (snd (cache_get now key c)) \<Longrightarrow> (k, v, e) \<in> held c"
  using ttl.lookup_adds_nothing [of now key c] by blast

lemma set_held:
  "(k, v', e) \<in> held (snd (cache_set lim later key v bytes expiresAt c)) \<Longrightarrow>
     (k, v', e) \<in> held c \<or> (k = key \<and> v' = v \<and> e = expiresAt)"
  using ttl.store_adds [of lim later key v bytes expiresAt c] by blast

lemma history_sound: "status_history lib log t st \<Longrightarrow> caches_sound lib log st"
proof (induction rule: status_history.induct)
  case hist_start
  then show ?case by (simp add: caches_sound_def held_def empty_cache_def)
next
  case (hist_list log t st now later fetch uri)
  show ?case
  proof (rule caches_soundI [OF hist_list.IH], goal_cases)
    case 1
    show ?case
    proof (cases rule: getStatusList_cases [of now uri st lib fetch later])
      case (fetched token v ttl exp)
      then have "from_log (log @ downloaded fetch uri False (fst (cache_get now uri (stc_cache st)) \<noteq> None) later)
          (reads_list lib) uri v (cacheExpiresAt later ttl exp)"
        by (intro from_log_fetched [of _ token]) (auto simp: downloaded_def reads_list_def)
      with fetched show ?thesis by (auto dest!: set_held get_held)
    qed (auto dest: get_held)
  qed (cases rule: getStatusList_cases [of now uri st lib fetch later]; auto)+
next
  case (hist_jwt log t st now later fetch uri)
  show ?case
  proof (rule caches_soundI [OF hist_jwt.IH], goal_cases)
    case 2
    show ?case
    proof (cases rule: getStatusListJwt_cases [of now uri st lib fetch later])
      case (fetched v ttl exp)
      then have "from_log (log @ downloaded fetch uri False (truthy (fst (cache_get now uri (stc_cachedJwts st)))) later)
          (\<lambda>token v. token = Token_Jwt v) uri v (cacheExpiresAt later ttl exp)"
        by (intro from_log_fetched [of _ "Token_Jwt v"]) (auto simp: downloaded_def)
      with fetched show ?thesis by (auto dest!: set_held get_held)
    qed (auto dest: get_held)
  qed (cases rule: getStatusListJwt_cases [of now uri st lib fetch later]; auto)+
next
  case (hist_cwt log t st now later fetch uri)
  show ?case
  proof (rule caches_soundI [OF hist_cwt.IH], goal_cases)
    case 3
    show ?case
    proof (cases rule: getStatusListCwt_cases [of now uri st lib fetch later])
      case (fetched v ttl exp)
      then have "from_log (log @ downloaded fetch uri True (fst (cache_get now uri (stc_cachedCwts st)) \<noteq> None) later)
          (\<lambda>token v. token = Token_Cwt v) uri v (cacheExpiresAt later ttl exp)"
        by (intro from_log_fetched [of _ "Token_Cwt v"]) (auto simp: downloaded_def)
      with fetched show ?thesis by (auto dest!: set_held get_held)
    qed (auto dest: get_held)
  qed (cases rule: getStatusListCwt_cases [of now uri st lib fetch later]; auto)+
next
  case (hist_clear log t st now uri)
  have "caches_sound lib (log @ []) (clearCache uri st)"
    by (rule caches_soundI [OF hist_clear.IH]) (auto simp: clearCache_def held_clear dest: held_delete [THEN subsetD])
  then show ?case by simp
next
  case (hist_stats log t st now)
  have "caches_sound lib (log @ []) (snd (getCacheStats now st))"
    by (rule caches_soundI [OF hist_stats.IH]) (auto simp: getCacheStats_def Let_def dest: held_expired [THEN subsetD])
  then show ?case by simp
qed

text \<open>C32: The caches of the status list verifier stay small, whatever status lists are presented. After any
  history of lookups, downloads, clearings and statistics, each of them holds at most 1000 entries, the
  counted bytes of each are exactly those of its entries, and they stay below 64 MiB for parsed lists and
  32 MiB for tokens.\<close>

theorem status_caches_bounded:
  assumes "status_history lib log t st"
  shows "(cache_size (stc_cache st) \<le> 1000 \<and> entries_bytes (ttc_entries (stc_cache st)) \<le> 67108864
        \<and> ttc_totalBytes (stc_cache st) = entries_bytes (ttc_entries (stc_cache st)))
    \<and> (cache_size (stc_cachedJwts st) \<le> 1000 \<and> entries_bytes (ttc_entries (stc_cachedJwts st)) \<le> 33554432
        \<and> ttc_totalBytes (stc_cachedJwts st) = entries_bytes (ttc_entries (stc_cachedJwts st)))
    \<and> (cache_size (stc_cachedCwts st) \<le> 1000 \<and> entries_bytes (ttc_entries (stc_cachedCwts st)) \<le> 33554432
        \<and> ttc_totalBytes (stc_cachedCwts st) = entries_bytes (ttc_entries (stc_cachedCwts st)))"
  using history_ok [OF assms]
  by (auto simp: caches_ok_def cache_ok_def counted_def cache_size_def token_cache_limits_def parsed_cache_limits_def)

text \<open>C33: The status information behind an answer is never older than an hour, whatever ttl and expiry the
  server claims. After any history, a list that the service returns, from the cache or freshly downloaded,
  was read from a token that was downloaded from the same URI less than an hour before.\<close>

theorem status_answers_recent:
  assumes "status_history lib log t st" "t \<le> now" "now \<le> later"
    and "fst (getStatusList lib fetch now later uri st) = Inr list"
  shows "\<exists>token t0. (uri, token, t0) \<in> set (log @ downloaded fetch uri False
      (fst (cache_get now uri (stc_cache st)) \<noteq> None) later)
    \<and> reads_list lib token list \<and> t0 \<le> later \<and> now < t0 + 60 * 60 * 1000"
proof (cases rule: getStatusList_cases [of now uri st lib fetch later])
  case (hit v)
  have "\<forall>(k, v, e) \<in> held (stc_cache st). from_log log (reads_list lib) k v e"
    using history_sound [OF assms(1)] by (simp add: caches_sound_def)
  from ttl.looked_up [OF this hit(1)] obtain e where e: "from_log log (reads_list lib) uri v e" "now < e" by blast
  then obtain token t0 where "(uri, token, t0) \<in> set log" "reads_list lib token v" "e \<le> t0 + MAX_CACHE_TTL_MS"
    by (auto simp: from_log_def)
  with e(2) hit(2) assms(2,3,4) history_times [OF assms(1), of uri token t0] show ?thesis
    by (intro exI [of _ token] exI [of _ t0]) (auto simp: MAX_CACHE_TTL_MS_def)
next
  case (fetched token v ttl exp)
  with assms(3,4) show ?thesis
    by (intro exI [of _ token] exI [of _ later]) (auto simp: downloaded_def reads_list_def)
qed (use assms(4) in auto)


section \<open>Accepted attestations\<close>

text \<open>The certificate of the provider: a listed one, at the end of a path from the presented leaf.\<close>

definition listed_provider ::
    "'s attestation_env \<Rightarrow> trust_list_ref list \<Rightarrow> string \<Rightarrow> string \<Rightarrow> matched_entity \<Rightarrow> built_store \<Rightarrow> bool" where
  "listed_provider env inputs tenantId jwt m store \<longleftrightarrow>
     (\<exists>refs header chain path. normalizeTrustListRefs (Some inputs) = Inr refs \<and> refs \<noteq> []
        \<and> tve_store (sve_trust (ate_crypto env)) \<lparr>tsr_tenantId = Some tenantId, tsr_lotes = refs,
             tsr_acceptedServiceTypes = Some walletSolutionServiceTypes\<rparr> = Inr store
        \<and> ate_header env jwt = Inr header \<and> ebind (x5c_texts header) (parseX5c (sve_trust (ate_crypto env))) = Inr chain
        \<and> buildPath (sve_trust (ate_crypto env)) (hd chain) chain (store_anchors (sve_trust (ate_crypto env)) store) = Inr path
        \<and> path \<noteq> [] \<and> mte_entity m \<in> set (bst_entities store)
        \<and> (\<exists>s \<in> set (ten_services (mte_entity m)). service_type_filter WalletSolution s
             \<and> tve_parseDer (sve_trust (ate_crypto env)) (tsv_certValue s) = Inr (mte_issuanceCert m))
        \<and> crt_thumbprint (mte_issuanceCert m)
            = crt_thumbprint (if mte_matchMode m = Match_Leaf_Pinned then hd path else last path))"

lemma validated_provider:
  assumes "validateWalletSolutionCertificate env jwt inputs tenantId = Inr (m, store)"
  shows "listed_provider env inputs tenantId jwt m store"
proof -
  let ?t = "sve_trust (ate_crypto env)"
  obtain refs header store' chain where
    r: "map_failure Attestation_Error (normalizeTrustListRefs (Some inputs)) = Inr refs" "refs \<noteq> []"
      "map_failure Attestation_Error (ate_header env jwt) = Inr header" "\<not> x5c_missing header"
      "map_failure Attestation_Error (tve_store ?t \<lparr>tsr_tenantId = Some tenantId, tsr_lotes = refs,
         tsr_acceptedServiceTypes = Some walletSolutionServiceTypes\<rparr>) = Inr store'" "bst_entities store' \<noteq> []"
      "map_failure Attestation_Error (ebind (x5c_texts header) (parseX5c ?t)) = Inr chain"
      "(case ebind (buildPath ?t (hd chain) chain (store_anchors ?t store')) (\<lambda>path.
           pathMatchesTrustedEntities ?t path (bst_entities store') Pinned_Leaf WalletSolution) of
         Inl e \<Rightarrow> Inl (Unauthorized (''Certificate chain validation failed: '' @ e))
       | Inr None \<Rightarrow> Inl (Unauthorized ''Wallet provider certificate is not trusted - no matching entity in trust list'')
       | Inr (Some m) \<Rightarrow> Inr (m, store')) = Inr (m, store)"
    using assms unfolding validateWalletSolutionCertificate_def Let_def ebind_returns require_returns
    by (elim exE conjE) (rule that)
  from r(8) have last_step: "store' = store" "ebind (buildPath ?t (hd chain) chain (store_anchors ?t store')) (\<lambda>path.
         pathMatchesTrustedEntities ?t path (bst_entities store') Pinned_Leaf WalletSolution) = Inr (Some m)"
    by (simp_all split: sum.splits option.splits)
  have a: "normalizeTrustListRefs (Some inputs) = Inr refs" "refs \<noteq> []"
      "tve_store ?t \<lparr>tsr_tenantId = Some tenantId, tsr_lotes = refs, tsr_acceptedServiceTypes = Some walletSolutionServiceTypes\<rparr> = Inr store"
      "ate_header env jwt = Inr header" "ebind (x5c_texts header) (parseX5c ?t) = Inr chain"
      "ebind (buildPath ?t (hd chain) chain (store_anchors ?t store)) (\<lambda>path.
         pathMatchesTrustedEntities ?t path (bst_entities store) Pinned_Leaf WalletSolution) = Inr (Some m)"
    using r(1-7) last_step unfolding map_failure_returns by simp_all
  from a(6) obtain path where p: "buildPath ?t (hd chain) chain (store_anchors ?t store) = Inr path"
    "pathMatchesTrustedEntities ?t path (bst_entities store) Pinned_Leaf WalletSolution = Inr (Some m)"
    by (auto simp: returns)
  then obtain leaf rest where l: "path = leaf # rest"
    "match_entities ?t leaf (last path) Pinned_Leaf WalletSolution (bst_entities store) = Inr (Some m)"
    by (auto simp: pathMatchesTrustedEntities_def split: list.splits)
  note f = match_entities_found [OF l(2)]
  then have mode: "match_mode_of leaf (last path) Pinned_Leaf (mte_issuanceCert m) = Some (mte_matchMode m)" by blast
  have thumb: "crt_thumbprint (mte_issuanceCert m)
      = crt_thumbprint (if mte_matchMode m = Match_Leaf_Pinned then hd path else last path)"
    using match_mode_thumbprint [OF mode] l(1) by auto
  show ?thesis
    unfolding listed_provider_def
    by (intro exI [of _ refs] exI [of _ header] exI [of _ chain] exI [of _ path] conjI a p(1) thumb)
      (use f l(1) in auto)
qed

text \<open>The status list was signed for the provider and does not revoke, as far as it can be obtained.\<close>

definition status_not_refused ::
    "'s attestation_env \<Rightarrow> (nat \<Rightarrow> fetcher) \<Rightarrow> (nat \<Rightarrow> date) \<Rightarrow> string \<Rightarrow> wua_kind \<Rightarrow> matched_entity
       \<Rightarrow> built_store \<Rightarrow> 's status_caches \<Rightarrow> bool" where
  "status_not_refused env fetch clock jwt kind m store st \<longleftrightarrow>
     (\<forall>idx uri listJwt st1. wuaStatusEntry (ate_status env) jwt kind = Some (idx, uri)
        \<longrightarrow> getStatusListJwt (ate_status env) (fetch 0) (clock 0) (clock 1) uri st = (Inr listJwt, st1)
        \<longrightarrow> wallet_status_signature env listJwt (Some m) (Some store)
          \<and> (\<forall>check. fst (checkStatus (ate_status env) (fetch 1) (clock 2) (clock 3) uri idx st1) = Inr check
               \<longrightarrow> sck_status check = 0))"

lemma checkStatus_valid:
  "fst (checkStatus lib fetch now later uri idx st) = Inr check \<Longrightarrow> sck_isValid check \<longleftrightarrow> sck_status check = 0"
  by (auto simp: checkStatus_def split_beta returns)

lemma status_accepted:
  assumes "fst (validateAttestationStatus env fetch clock jwt kind (Some m) (Some store) st) = Inr ()"
  shows "status_not_refused env fetch clock jwt kind m store st"
  unfolding status_not_refused_def
proof (intro allI impI)
  fix idx uri listJwt st1
  assume e: "wuaStatusEntry (ate_status env) jwt kind = Some (idx, uri)"
    "getStatusListJwt (ate_status env) (fetch 0) (clock 0) (clock 1) uri st = (Inr listJwt, st1)"
  let ?c = "checkStatus (ate_status env) (fetch 1) (clock 2) (clock 3) uri idx st1"
  have sig: "wallet_status_signature env listJwt (Some m) (Some store)"
    using assms e by (auto simp: validateAttestationStatus_def split: if_splits)
  have "sck_status check = 0" if c: "fst ?c = Inr check" for check
  proof -
    obtain st2 where "?c = (Inr check, st2)" using c by (cases ?c) auto
    then have "sck_isValid check"
      using assms e sig by (auto simp: validateAttestationStatus_def split: if_splits)
    then show ?thesis using checkStatus_valid [OF c] by simp
  qed
  with sig show "wallet_status_signature env listJwt (Some m) (Some store)
      \<and> (\<forall>check. fst ?c = Inr check \<longrightarrow> sck_status check = 0)" by blast
qed


section \<open>Examples\<close>

text \<open>Two tokens: in \<open>h.p.s\<close> entry 3 is revoked, in \<open>x.y.z\<close> nothing is.\<close>

definition atlibrary1 :: "int list status_library" where
  "atlibrary1 = \<lparr>sll_entry = (\<lambda>_. Inl []), sll_jwtList = (\<lambda>t. Inr (if t = ''h.p.s'' then [0, 0, 0, 1] else [0, 0, 0, 0])),
     sll_decodeJwt = (\<lambda>_. Inr (JObj [(''ttl'', JNum 100000),
       (''client_status'', JObj [(''status'', JObj [(''status_list'', JObj [(''idx'', JNum 3), (''uri'', JStr ''u'')])])])])),
     sll_cwt = (\<lambda>_. Inl []), sll_getStatus = (\<lambda>l i. Inr (l ! nat i)), sll_totalStatuses = length\<rparr>"

definition atfetch1 :: "string \<Rightarrow> fetcher" where
  "atfetch1 body = (\<lambda>_ _. Inr \<lparr>obr_status = 200, obr_location = None, obr_contentType = None, obr_body = body, obr_bytes = body\<rparr>)"

definition atcaches1 :: "int list status_caches" where
  "atcaches1 = \<lparr>stc_cache = empty_cache, stc_cachedJwts = empty_cache, stc_cachedCwts = empty_cache\<rparr>"

definition atcaches2 :: "int list status_caches" where
  "atcaches2 = snd (getStatusList atlibrary1 (atfetch1 ''x.y.z'') 1000 1000 ''u'' atcaches1)"

lemma athistory1: "status_history atlibrary1 [(''u'', Token_Jwt ''x.y.z'', 1000)] 1000 atcaches2"
proof -
  have d: "[] @ downloaded (atfetch1 ''x.y.z'') ''u'' False (fst (cache_get 1000 ''u'' (stc_cache atcaches1)) \<noteq> None) 1000
      = [(''u'', Token_Jwt ''x.y.z'', 1000)]" by code_simp
  have "status_history atlibrary1 [] 1000 atcaches1" unfolding atcaches1_def by (rule hist_start)
  from hist_list [OF this, of 1000 1000 "atfetch1 ''x.y.z''" "''u''"] show ?thesis by (simp only: d atcaches2_def order_refl)
qed

theorem status_caches_bounded_witness:
  "cache_size (stc_cache atcaches2) = 1 \<and> cache_size (stc_cache atcaches2) \<le> 1000 \<and> ttc_totalBytes (stc_cache atcaches2) = 42
     \<and> entries_bytes (ttc_entries (stc_cache atcaches2)) = 42"
proof -
  have "cache_size (stc_cache atcaches2) = 1" "ttc_totalBytes (stc_cache atcaches2) = 42" by code_simp+
  with status_caches_bounded [OF athistory1] show ?thesis by simp
qed

text \<open>Within the hour the cached list answers, although the server now serves another.\<close>

theorem status_answers_recent_witness:
  "fst (getStatusList atlibrary1 (atfetch1 ''h.p.s'') 3600999 3601000 ''u'' atcaches2) = Inr [0, 0, 0, 0]
   \<and> (\<exists>token t0. reads_list atlibrary1 token [0, 0, 0, 0] \<and> (3600999 :: int) < t0 + 60 * 60 * 1000)
   \<and> fst (getStatusList atlibrary1 (atfetch1 ''h.p.s'') 3601000 3601000 ''u'' atcaches2) = Inr [0, 0, 0, 1]"
proof -
  have r: "fst (getStatusList atlibrary1 (atfetch1 ''h.p.s'') 3600999 3601000 ''u'' atcaches2) = Inr [0, 0, 0, 0]"
    "fst (getStatusList atlibrary1 (atfetch1 ''h.p.s'') 3601000 3601000 ''u'' atcaches2) = Inr [0, 0, 0, 1]" by code_simp+
  have "(1000 :: int) \<le> 3600999" "(3600999 :: int) \<le> 3601000" by simp_all
  from status_answers_recent [OF athistory1 this r(1)] r show ?thesis by blast
qed

definition atcert1 :: certificate where
  "atcert1 = \<lparr>crt_thumbprint = ''t'', crt_subject = ''CN=Wallet'', crt_ca = None, crt_notBefore = 0, crt_notAfter = 10\<rparr>"

definition atentity1 :: trusted_entity where
  "atentity1 = \<lparr>ten_entityId = Some ''wallet'', ten_services = [\<lparr>tsv_type = WalletSolution, tsv_certValue = ''c''\<rparr>]\<rparr>"

definition attrust1 :: trust_env where
  "attrust1 = \<lparr>tve_parseX5c = (\<lambda>_. Inr atcert1), tve_parseDer = (\<lambda>_. Inr atcert1), tve_build = (\<lambda>leaf _. Inr [leaf]),
     tve_store = (\<lambda>_. Inr \<lparr>bst_fetchedAt = 0, bst_nextUpdate = None, bst_entities = [atentity1]\<rparr>),
     tve_federation = (\<lambda>_ _. undefined), tve_nextUpdate = (\<lambda>_. None)\<rparr>"

definition atenv1 :: "int list attestation_env" where
  "atenv1 = \<lparr>ate_crypto = \<lparr>sve_json64 = (\<lambda>_. Inl []),
       sve_certKey = (\<lambda>_. Inr (Inr (JObj [(''kty'', JStr ''EC''), (''crv'', JStr ''P-256'')]))),
       sve_getVerifier = (\<lambda>_. Inr (\<lambda>_ _. Inr True)), sve_hash = (\<lambda>_ d. d), sve_fetchStatusListJwt = (\<lambda>_. Inl []),
       sve_parseUrl = (\<lambda>_. None), sve_trust = attrust1\<rparr>,
     ate_header = (\<lambda>_. Inr (JObj [(''x5c'', JArr [JStr ''c''])])),
     ate_library = (\<lambda>_ _ _ _. Inr ()), ate_status = atlibrary1\<rparr>"

definition attested1 :: presented_attestation where
  "attested1 = \<lparr>cla_jwt = ''a.b.c'', cla_popJwt = Some ''d.e.f''\<rparr>"

definition atlist1 :: trust_list_ref where
  "atlist1 = external_ref ''https://lists.example'' None (Some ''pem'') None"

text \<open>The certificate of the provider expired at time 10; its validity period is not checked.\<close>

lemma atrun1:
  "fst (verifyWalletAttestation atenv1 (\<lambda>_. atfetch1 ''x.y.z'') (\<lambda>_. 1000) ''tenant'' (Some attested1) ''as'' True [atlist1] atcaches1) = Inr ()"
  by code_simp


text \<open>The list whose signature is checked and the list the status is read from are two downloads. Here the
  checked list revokes the attestation, the second one does not, and the attestation is accepted; when both
  downloads serve the first list it is refused.\<close>

lemma revoked_in_checked_list_accepted:
  "fst (verifyWalletAttestation atenv1 (\<lambda>n. atfetch1 (if n = 0 then ''h.p.s'' else ''x.y.z'')) (\<lambda>_. 1000) ''tenant''
     (Some attested1) ''as'' True [atlist1] atcaches1) = Inr ()"
  "fst (verifyWalletAttestation atenv1 (\<lambda>_. atfetch1 ''h.p.s'') (\<lambda>_. 1000) ''tenant'' (Some attested1) ''as'' True
     [atlist1] atcaches1) = Inl (Unauthorized ''Wallet attestation is not valid: Invalid/Revoked'')"
  by code_simp+

end
