(* ===== verification/Chained_Store.thy ===== *)
theory Chained_Store
  imports Federation_Trust Dpop_Proofs
begin

text \<open>
  Sessions of the chained authorization server (\<open>oid4vci/authorization/domain/chained-as-session.ts\<close>),
  their repository (\<open>adapters/typeorm-chained-as-session.repository.ts\<close>) with the clean-up job, and the
  helpers of its endpoints (\<open>shared/chained-as-token.util.ts\<close>, \<open>shared/pkce.util.ts\<close>,
  \<open>shared/authorization-server-metadata.util.ts\<close>). The column \<open>updatedAt\<close>, which nothing reads, is left out.
\<close>

section \<open>Sessions\<close>

datatype chained_status =
    Pending_Authorize
  | Pending_Upstream_Callback
  | Pending_Vp_Callback
  | Chained_Authorized
  | Token_Issued
  | Chained_Expired

record chained_session =
  cas_id :: string
  cas_tenantId :: string
  cas_status :: chained_status
  cas_issuerState :: string
  cas_clientId :: string
  cas_redirectUri :: string
  cas_codeChallenge :: "string option"
  cas_codeChallengeMethod :: "string option"
  cas_walletState :: "string option"
  cas_scope :: "string option"
  cas_authorizationDetails :: "json list option"
  cas_dpopJkt :: "string option"
  cas_upstreamState :: "string option"
  cas_upstreamNonce :: "string option"
  cas_upstreamCodeVerifier :: "string option"
  cas_vpPresentationConfigId :: "string option"
  cas_vpResponseCode :: "string option"
  cas_upstreamIdTokenClaims :: "json option"
  cas_upstreamAccessTokenClaims :: "json option"
  cas_authorizationCode :: "string option"
  cas_authorizationCodeExpiresAt :: "date option"
  cas_accessTokenJti :: "string option"
  cas_refreshToken :: "string option"
  cas_refreshTokenExpiresAt :: "date option"
  cas_createdAt :: date
  cas_expiresAt :: date

type_synonym chained_sessions = "chained_session list"

section \<open>The repository\<close>

text \<open>\<open>save\<close> inserts the session or updates every column of its row that differs.\<close>

definition cas_save :: "chained_session \<Rightarrow> chained_sessions \<Rightarrow> chained_sessions" where
  "cas_save s db = (if list_ex (\<lambda>r. cas_id r = cas_id s) db
     then map (\<lambda>r. if cas_id r = cas_id s then s else r) db else db @ [s])"

definition cas_findForTenant :: "string \<Rightarrow> string \<Rightarrow> chained_status \<Rightarrow> chained_sessions \<Rightarrow> chained_session option" where
  "cas_findForTenant tenantId i status db =
     sql_find_one (\<lambda>r. cas_id r = i \<and> cas_tenantId r = tenantId \<and> cas_status r = status) db"

definition findByUpstreamState ::
    "string \<Rightarrow> string \<Rightarrow> chained_status option \<Rightarrow> chained_sessions \<Rightarrow> chained_session option" where
  "findByUpstreamState tenantId upstreamState status db =
     sql_find_one (\<lambda>r. cas_tenantId r = tenantId \<and> cas_upstreamState r = Some upstreamState
       \<and> (case status of None \<Rightarrow> True | Some st \<Rightarrow> cas_status r = st)) db"

definition findAuthorizedByCode :: "string \<Rightarrow> string \<Rightarrow> chained_sessions \<Rightarrow> chained_session option" where
  "findAuthorizedByCode tenantId code db =
     sql_find_one (\<lambda>r. cas_tenantId r = tenantId \<and> cas_authorizationCode r = Some code
       \<and> cas_status r = Chained_Authorized) db"

definition cas_findByRefreshToken :: "string \<Rightarrow> string \<Rightarrow> chained_sessions \<Rightarrow> chained_session option" where
  "cas_findByRefreshToken tenantId token db =
     sql_find_one (\<lambda>r. cas_tenantId r = tenantId \<and> cas_refreshToken r = Some token) db"

definition findByIssuerState :: "string \<Rightarrow> string \<Rightarrow> chained_sessions \<Rightarrow> chained_session option" where
  "findByIssuerState tenantId issuerState db =
     sql_find_one (\<lambda>r. cas_tenantId r = tenantId \<and> cas_issuerState r = issuerState) db"

definition cas_expired_where :: "date \<Rightarrow> chained_session \<Rightarrow> bool" where
  "cas_expired_where now r \<longleftrightarrow> cas_expiresAt r < now \<and>
     (cas_refreshToken r = None
      \<or> (case cas_refreshTokenExpiresAt r of
           Some t \<Rightarrow> t < now
         | None \<Rightarrow> cas_createdAt r < now - DEFAULT_REFRESH_TOKEN_LIFETIME_SECONDS * 1000))"

definition cas_deleteExpired :: "date \<Rightarrow> chained_sessions \<Rightarrow> chained_sessions \<times> nat" where
  "cas_deleteExpired now db = sql_delete (cas_expired_where now) db"

text \<open>The job ignores an error of the database.\<close>

definition chained_cleanup :: "date \<Rightarrow> chained_sessions \<Rightarrow> chained_sessions" where
  "chained_cleanup now db = fst (cas_deleteExpired now db)"


section \<open>Errors\<close>

text \<open>\<open>Chained_Untrusted_Issuer\<close> is the bad request whose text ends with the reason of the federation policy.\<close>

datatype chained_error =
    Chained_Bad_Request string
  | Chained_OAuth_Error oauth_error
  | Chained_Unsupported_Grant string
  | Chained_Unauthorized string
  | Chained_Not_Found string
  | Chained_Untrusted_Issuer chain_reason
  | Chained_Failure string


section \<open>PKCE\<close>

definition assertPkceCodeChallenge :: "string option \<Rightarrow> string option \<Rightarrow> chained_error + unit" where
  "assertPkceCodeChallenge challenge method = map_failure Chained_OAuth_Error (assertS256CodeChallenge challenge method)"

definition verifyPkceCodeChallenge ::
    "(string \<Rightarrow> string) \<Rightarrow> string option \<Rightarrow> string option \<Rightarrow> string option \<Rightarrow> chained_error + unit" where
  "verifyPkceCodeChallenge sha256 challenge method verifier =
     ebind (require (truthy challenge \<and> method = Some ''S256'') (Chained_Bad_Request ''PKCE with S256 is required'')) (\<lambda>_.
     case checkPkce sha256 challenge method verifier of
       Pkce_Mismatch \<Rightarrow> Inl (Chained_Unauthorized ''Invalid code_verifier'')
     | Pkce_Missing_Verifier \<Rightarrow> Inl (Chained_Bad_Request ''code_verifier is required'')
     | _ \<Rightarrow> Inr ())"

lemma verifyPkceCodeChallenge_returns [returns]:
  "verifyPkceCodeChallenge sha256 challenge method verifier = Inr u \<longleftrightarrow>
     truthy challenge \<and> method = Some ''S256'' \<and> truthy verifier \<and> sha256 (the verifier) = the challenge"
  by (auto simp: verifyPkceCodeChallenge_def checkPkce_def returns split: pkce_check.splits if_splits)


section \<open>Redirects\<close>

text \<open>\<open>set_params\<close> sets query parameters of a URL; a redirect URI that is no URL throws.\<close>

type_synonym set_params = "string \<Rightarrow> (string \<times> string) list \<Rightarrow> string option"

definition truthy_param :: "string \<Rightarrow> string option \<Rightarrow> (string \<times> string) list" where
  "truthy_param k v = (if truthy v then [(k, the v)] else [])"

definition redirect_to :: "set_params \<Rightarrow> string \<Rightarrow> (string \<times> string) list \<Rightarrow> chained_error + string" where
  "redirect_to set_params uri params =
     (case set_params uri params of None \<Rightarrow> Inl (Chained_Failure ''Invalid URL'') | Some u \<Rightarrow> Inr u)"

definition buildAuthorizationErrorRedirect ::
    "set_params \<Rightarrow> string \<Rightarrow> string \<Rightarrow> string option \<Rightarrow> string option \<Rightarrow> chained_error + string" where
  "buildAuthorizationErrorRedirect set_params redirectUri err description walletState =
     redirect_to set_params redirectUri
       ([(''error'', err)] @ truthy_param ''error_description'' description @ truthy_param ''state'' walletState)"

definition buildAuthorizationCodeRedirect ::
    "set_params \<Rightarrow> string \<Rightarrow> string \<Rightarrow> string option \<Rightarrow> string option \<Rightarrow> chained_error + string" where
  "buildAuthorizationCodeRedirect set_params redirectUri code walletState issuer =
     redirect_to set_params redirectUri
       ([(''code'', code)] @ truthy_param ''iss'' issuer @ truthy_param ''state'' walletState)"


section \<open>Access tokens\<close>

definition non_empty_details :: "chained_session \<Rightarrow> (string \<times> json) list" where
  "non_empty_details s = (case cas_authorizationDetails s of
     Some (d # ds) \<Rightarrow> [(''authorization_details'', JArr (d # ds))] | _ \<Rightarrow> [])"

definition buildAccessTokenPayload ::
    "date \<Rightarrow> string \<Rightarrow> string \<Rightarrow> chained_session \<Rightarrow> int \<Rightarrow> string \<Rightarrow> string option \<Rightarrow> (string \<times> json) list" where
  "buildAccessTokenPayload now issuer audience s tokenLifetime jti dpopJkt =
     [(''iss'', JStr issuer), (''sub'', JStr (cas_clientId s)), (''aud'', JStr audience), (''iat'', JNum (now div 1000)),
      (''exp'', JNum (now div 1000 + tokenLifetime)), (''jti'', JStr jti), (''issuer_state'', JStr (cas_issuerState s)),
      (''client_id'', JStr (cas_clientId s))]
     @ (if truthy dpopJkt then [(''cnf'', JObj [(''jkt'', JStr (the dpopJkt))])] else [])
     @ non_empty_details s"

record token_body =
  tkb_grant_type :: string
  tkb_code :: "string option"
  tkb_refresh_token :: "string option"
  tkb_client_id :: "string option"
  tkb_redirect_uri :: "string option"
  tkb_code_verifier :: "string option"

definition resolveSessionForTokenRequest ::
    "date \<Rightarrow> chained_sessions \<Rightarrow> string \<Rightarrow> token_body \<Rightarrow> refresh_policy \<Rightarrow> chained_error + chained_session" where
  "resolveSessionForTokenRequest now db tenantId request policy =
     (if tkb_grant_type request = ''refresh_token''
      then ebind (require (rp_enabled policy)
             (Chained_Unsupported_Grant ''Refresh tokens are disabled for this authorization server'')) (\<lambda>_.
           ebind (require (truthy (tkb_refresh_token request))
             (Chained_Bad_Request ''refresh_token is required for refresh_token grant'')) (\<lambda>_.
           case cas_findByRefreshToken tenantId (the (tkb_refresh_token request)) db of
             None \<Rightarrow> Inl (Chained_Unauthorized ''Invalid or expired refresh_token'')
           | Some s \<Rightarrow>
               ebind (require (\<not> enforcedRefreshTokenExpiry (cas_refreshTokenExpiresAt s) (cas_createdAt s) policy < now)
                 (Chained_Unauthorized ''refresh_token has expired'')) (\<lambda>_. Inr s)))
      else ebind (require (truthy (tkb_code request))
             (Chained_Bad_Request ''code is required for authorization_code grant'')) (\<lambda>_.
           case findAuthorizedByCode tenantId (the (tkb_code request)) db of
             None \<Rightarrow> Inl (Chained_Unauthorized ''Invalid authorization code'')
           | Some s \<Rightarrow> Inr s))"

text \<open>An expired code marks the session.\<close>

definition assertTokenRequestSessionValid ::
    "(string \<Rightarrow> string) \<Rightarrow> date \<Rightarrow> chained_session \<Rightarrow> token_body \<Rightarrow> chained_sessions
       \<Rightarrow> (chained_error + unit) \<times> chained_sessions" where
  "assertTokenRequestSessionValid sha256 now s request db =
     (if tkb_grant_type request = ''authorization_code''
        \<and> (case cas_authorizationCodeExpiresAt s of None \<Rightarrow> False | Some t \<Rightarrow> t < now)
      then (Inl (Chained_Unauthorized ''Authorization code expired''), cas_save (s\<lparr>cas_status := Chained_Expired\<rparr>) db)
      else (ebind (require (\<not> (truthy (tkb_redirect_uri request) \<and> tkb_redirect_uri request \<noteq> Some (cas_redirectUri s)))
              (Chained_Bad_Request ''redirect_uri mismatch'')) (\<lambda>_.
            if tkb_grant_type request = ''authorization_code''
            then verifyPkceCodeChallenge sha256 (cas_codeChallenge s) (cas_codeChallengeMethod s) (tkb_code_verifier request)
            else Inr ()), db))"

definition DEFAULT_DPOP_SIGNING_ALGS :: "string list" where
  "DEFAULT_DPOP_SIGNING_ALGS = [''ES256'', ''ES384'', ''ES512'']"

definition chained_dpop_input ::
    "string \<Rightarrow> string \<Rightarrow> string option \<Rightarrow> string option \<Rightarrow> bool \<Rightarrow> dpop_proof_input" where
  "chained_dpop_input issuer endpoint jwt expected required =
     \<lparr>dq_jwt = jwt, dq_method = ''POST'', dq_url = issuer @ ''/'' @ endpoint,
      dq_authorizationServerMetadata = JObj [(''issuer'', JStr issuer), (''token_endpoint'', JStr (issuer @ ''/token'')),
        (''dpop_signing_alg_values_supported'', JArr (map JStr DEFAULT_DPOP_SIGNING_ALGS))],
      dq_expectedJwkThumbprint = expected, dq_required = required\<rparr>"

definition verifyChainedAsDpopProof ::
    "(string \<Rightarrow> thrown + json) \<Rightarrow> dpop_library \<Rightarrow> jti_stmt list \<Rightarrow> string \<Rightarrow> string \<Rightarrow> string option \<Rightarrow> string option
       \<Rightarrow> bool \<Rightarrow> dpop_proofs \<Rightarrow> (chained_error + string option) \<times> dpop_proofs" where
  "verifyChainedAsDpopProof decodeHeader library others issuer endpoint jwt expected required proofs =
     (let (r, proofs') = verifyDpopProof decodeHeader library others (chained_dpop_input issuer endpoint jwt expected required) proofs
      in (map_failure Chained_OAuth_Error r, proofs'))"

text \<open>The proof key binds the session.\<close>

definition bound_session :: "chained_session \<Rightarrow> string option \<Rightarrow> chained_session" where
  "bound_session s jkt = (if truthy jkt then s\<lparr>cas_dpopJkt := jkt\<rparr> else s)"

definition bound_token_type :: "string option \<Rightarrow> string" where
  "bound_token_type jkt = (if truthy jkt then ''DPoP'' else ''Bearer'')"

definition resolveTokenBinding ::
    "(string \<Rightarrow> thrown + json) \<Rightarrow> dpop_library \<Rightarrow> jti_stmt list \<Rightarrow> string \<Rightarrow> bool option \<Rightarrow> chained_session
       \<Rightarrow> string option \<Rightarrow> dpop_proofs \<Rightarrow> (chained_error + string \<times> string option) \<times> dpop_proofs" where
  "resolveTokenBinding decodeHeader library others issuer requireDPoP s jwt proofs =
     (let (r, proofs') = verifyChainedAsDpopProof decodeHeader library others issuer ''token'' jwt (cas_dpopJkt s)
            (requireDPoP = Some True \<or> truthy (cas_dpopJkt s)) proofs
      in (ebind r (\<lambda>jkt. Inr (bound_token_type jkt, if truthy jkt then jkt else None)), proofs'))"

definition retainSessionForIssuedTokens :: "date \<Rightarrow> chained_session \<Rightarrow> chained_session" where
  "retainSessionForIssuedTokens accessTokenExpiresAt s =
     s\<lparr>cas_expiresAt := max (max (cas_expiresAt s) accessTokenExpiresAt) (coalesce (cas_refreshTokenExpiresAt s) 0)\<rparr>"

text \<open>\<open>token\<close> is the fresh refresh token.\<close>

definition issueRefreshTokenIfEnabled ::
    "date \<Rightarrow> string \<Rightarrow> token_settings option \<Rightarrow> string \<Rightarrow> chained_session \<Rightarrow> string option \<times> chained_session" where
  "issueRefreshTokenIfEnabled now token settings grant_type s =
     (let policy = refreshTokenPolicy settings
      in if \<not> rp_enabled policy then (None, s)
         else (Some token, s\<lparr>cas_refreshTokenExpiresAt := Some (if grant_type = ''refresh_token''
                 then enforcedRefreshTokenExpiry (cas_refreshTokenExpiresAt s) (cas_createdAt s) policy
                 else refreshTokenExpiresAt policy now),
               cas_refreshToken := Some token\<rparr>))"


section \<open>Metadata\<close>

definition wallet_attestation_metadata :: "bool \<Rightarrow> json list \<times> json option" where
  "wallet_attestation_metadata required =
     (if required then ([JStr ''attest_jwt_client_auth'', JStr ''none''], Some (JArr [JStr ''ES256'']))
      else ([JStr ''none''], None))"

definition authorization_server_metadata :: "string \<Rightarrow> string \<Rightarrow> string list \<Rightarrow> bool \<Rightarrow> (string \<times> json) list" where
  "authorization_server_metadata issuer jwksUri grantTypes attestationRequired =
     (let (methods, algs) = wallet_attestation_metadata attestationRequired
      in [(''issuer'', JStr issuer), (''authorization_endpoint'', JStr (issuer @ ''/authorize'')),
          (''token_endpoint'', JStr (issuer @ ''/token'')),
          (''pushed_authorization_request_endpoint'', JStr (issuer @ ''/par'')), (''jwks_uri'', JStr jwksUri),
          (''response_types_supported'', JArr [JStr ''code'']), (''grant_types_supported'', JArr (map JStr grantTypes)),
          (''authorization_details_types_supported'', JArr [JStr ''openid_credential'']),
          (''token_endpoint_auth_methods_supported'', JArr methods),
          (''code_challenge_methods_supported'', JArr [JStr ''S256'']),
          (''dpop_signing_alg_values_supported'', JArr (map JStr DEFAULT_DPOP_SIGNING_ALGS))]
         @ (case algs of None \<Rightarrow> [] | Some a \<Rightarrow>
              [(''client_attestation_signing_alg_values_supported'', a),
               (''client_attestation_pop_signing_alg_values_supported'', a)]))"

definition buildJwksResponse :: "(string \<times> json) list \<Rightarrow> string \<Rightarrow> json" where
  "buildJwksResponse publicKey fallbackKid =
     JObj [(''keys'', JArr [JObj (jset ''kid'' (if jtruthy (map_of publicKey ''kid'') then the (map_of publicKey ''kid'')
        else JStr fallbackKid) publicKey)])]"


section \<open>Lemmas\<close>

lemma save_set:
  "set (cas_save s db) = insert s {r \<in> set db. cas_id r \<noteq> cas_id s}"
  by (auto simp: cas_save_def list_ex_iff)

lemma save_unique [intro]: "unique_key cas_id db \<Longrightarrow> unique_key cas_id (cas_save s db)"
proof (cases "list_ex (\<lambda>r. cas_id r = cas_id s) db")
  case True
  assume u: "unique_key cas_id db"
  have "map cas_id (cas_save s db) = map cas_id db" using True by (simp add: cas_save_def)
  with u show ?thesis by (simp add: unique_key_def)
next
  case False
  assume "unique_key cas_id db"
  with False show ?thesis by (auto simp: cas_save_def unique_key_def list_ex_iff)
qed

lemma found_row:
  assumes "sql_find_one P db = Some s"
  shows "s \<in> set db" "P s"
  using sql_find_one_Some [OF assms] by auto

lemma resolved_by_code:
  assumes "resolveSessionForTokenRequest now db tenantId request policy = Inr s" "tkb_grant_type request \<noteq> ''refresh_token''"
  shows "s \<in> set db \<and> cas_tenantId s = tenantId \<and> cas_authorizationCode s = tkb_code request
    \<and> truthy (tkb_code request) \<and> cas_status s = Chained_Authorized"
proof -
  have "findAuthorizedByCode tenantId (the (tkb_code request)) db = Some s" "truthy (tkb_code request)"
    using assms by (auto simp: resolveSessionForTokenRequest_def returns split: option.splits)
  then show ?thesis using sql_find_one_Some by (cases "tkb_code request") (fastforce simp: findAuthorizedByCode_def)+
qed

lemma resolved_by_refresh:
  assumes "resolveSessionForTokenRequest now db tenantId request policy = Inr s" "tkb_grant_type request = ''refresh_token''"
  shows "s \<in> set db \<and> cas_tenantId s = tenantId \<and> cas_refreshToken s = tkb_refresh_token request
    \<and> truthy (tkb_refresh_token request) \<and> rp_enabled policy
    \<and> now \<le> enforcedRefreshTokenExpiry (cas_refreshTokenExpiresAt s) (cas_createdAt s) policy"
proof -
  have "cas_findByRefreshToken tenantId (the (tkb_refresh_token request)) db = Some s" "truthy (tkb_refresh_token request)"
    "rp_enabled policy" "now \<le> enforcedRefreshTokenExpiry (cas_refreshTokenExpiresAt s) (cas_createdAt s) policy"
    using assms by (auto simp: resolveSessionForTokenRequest_def returns split: option.splits)
  then show ?thesis using sql_find_one_Some by (cases "tkb_refresh_token request") (fastforce simp: cas_findByRefreshToken_def)+
qed

lemma valid_token_request:
  assumes "assertTokenRequestSessionValid sha256 now s request db = (Inr u, db')"
  shows "db' = db"
    and "tkb_grant_type request = ''authorization_code'' \<Longrightarrow>
      (case cas_authorizationCodeExpiresAt s of None \<Rightarrow> True | Some t \<Rightarrow> now \<le> t)
      \<and> cas_codeChallengeMethod s = Some ''S256'' \<and> truthy (cas_codeChallenge s) \<and> truthy (tkb_code_verifier request)
      \<and> sha256 (the (tkb_code_verifier request)) = the (cas_codeChallenge s)"
    and "truthy (tkb_redirect_uri request) \<longrightarrow> tkb_redirect_uri request = Some (cas_redirectUri s)"
  using assms by (auto simp: assertTokenRequestSessionValid_def returns split: if_splits option.splits)

end
