(* ===== verification/Chained_Server.thy ===== *)
theory Chained_Server
  imports Chained_Store Authorize_Request
begin

text \<open>
  The chained authorization server (\<open>oid4vci/authorization/chained-as/chained-as.service.ts\<close>), which lets an
  upstream OpenID provider authenticate the user, and what it shares with the managed servers of
  \<open>Managed_Servers\<close>. The tenant's configuration, attestation and DPoP verification, the upstream provider,
  the keys and URLs are parameters (\<open>chained_env\<close>); \<open>clock k\<close> is the handler's \<open>k\<close>-th look at the clock and
  \<open>between\<close> what other requests do to the sessions between the handler's lookup and its last \<open>save\<close>. A
  discovery request that joins one in flight is not modelled.
\<close>

section \<open>Configuration\<close>

record upstream_config =
  ups_issuer :: string
  ups_clientId :: string
  ups_clientSecret :: "string option"
  ups_scopes :: "string list option"

text \<open>An entry of \<open>authorizationServers\<close> with the columns of every type of server.\<close>

record managed_server = built_in_server +
  mas_id :: "string option"
  mas_issuer :: "string option"
  mas_upstream :: "upstream_config option"
  mas_presentationConfigId :: "string option"
  mas_immediateWalletRedirect :: "bool option"

record tenant_issuance =
  tni_settings :: issuance_settings
  tni_servers :: "managed_server list option"
  tni_federation :: "federation_source option"

record discovery_document =
  dsc_authorization_endpoint :: string
  dsc_token_endpoint :: string

record cached_discovery =
  cdc_doc :: discovery_document
  cdc_fetchedAt :: date
  cdc_expiresAt :: date

record exchange_input =
  exi_tokenEndpoint :: string
  exi_code :: string
  exi_redirectUri :: string
  exi_clientId :: string
  exi_clientSecret :: "string option"
  exi_codeVerifier :: "string option"

record exchange_result =
  exr_accessToken :: "string option"
  exr_idToken :: "string option"

record chained_env =
  che_publicUrl :: string
  che_issuance :: "string \<Rightarrow> tenant_issuance"
  che_attestation :: "string \<Rightarrow> client_attestation option \<Rightarrow> string \<Rightarrow> bool \<Rightarrow> json list \<Rightarrow> string + unit"
  che_header :: "string \<Rightarrow> thrown + json"
  che_dpop :: dpop_library
  che_sha256 :: "string \<Rightarrow> string"
  che_set_params :: set_params
  che_traversal :: traversal_limits
  che_entity :: resolver
  che_discover :: "string \<Rightarrow> string + discovery_document"
  che_exchange :: "exchange_input \<Rightarrow> string + exchange_result"
  che_decodeJwt :: "string \<Rightarrow> json option"
  che_getKid :: "string \<Rightarrow> string + string"
  che_publicKey :: "string \<Rightarrow> string \<Rightarrow> string + (string \<times> json) list"
  che_signJWT :: "(string \<times> json) list \<Rightarrow> json \<Rightarrow> string \<Rightarrow> string \<Rightarrow> string + string"

text \<open>The tables and caches of a process: authorization sessions, the sessions of offers and presentations,
  DPoP proofs, discovery documents, federation evaluations.\<close>

record chained_state =
  chs_sessions :: chained_sessions
  chs_offers :: sessions
  chs_proofs :: dpop_proofs
  chs_discovery :: "string \<Rightarrow> cached_discovery option"
  chs_federation :: evaluation_cache

definition CHAINED_REQUEST_URI_PREFIX :: string where
  "CHAINED_REQUEST_URI_PREFIX = ''urn:ietf:params:oauth:request_uri:''"

definition CHAINED_SESSION_LIFETIME_SECONDS :: int where
  "CHAINED_SESSION_LIFETIME_SECONDS = 600"

definition CHAINED_CODE_LIFETIME_SECONDS :: int where
  "CHAINED_CODE_LIFETIME_SECONDS = 300"

definition getChainedAsBaseUrl :: "chained_env \<Rightarrow> string \<Rightarrow> string" where
  "getChainedAsBaseUrl env tenantId = che_publicUrl env @ ''/issuers/'' @ tenantId @ ''/chained-as''"

definition authorization_servers :: "chained_env \<Rightarrow> string \<Rightarrow> managed_server list" where
  "authorization_servers env tenantId = coalesce (tni_servers (che_issuance env tenantId)) []"

definition getChainedAsConfig :: "chained_env \<Rightarrow> string \<Rightarrow> chained_error + managed_server" where
  "getChainedAsConfig env tenantId =
     (case List.find (\<lambda>c. bi_enabled c \<noteq> Some False \<and> bi_type c = Some ''chained'' \<and> truthy (mas_id c)
             \<and> mas_upstream c \<noteq> None) (authorization_servers env tenantId) of
        None \<Rightarrow> Inl (Chained_Not_Found ''Chained Authorization Server is not enabled for this tenant'')
      | Some c \<Rightarrow> Inr c)"

definition server_attestation_policy :: "chained_env \<Rightarrow> string \<Rightarrow> managed_server \<Rightarrow> bool \<times> json list" where
  "server_attestation_policy env tenantId config =
     resolveWalletAttestationPolicy (tni_settings (che_issuance env tenantId)) (Some (built_in_server.truncate config))"

definition attest_wallet ::
    "chained_env \<Rightarrow> string \<Rightarrow> string \<Rightarrow> managed_server \<Rightarrow> client_attestation option \<Rightarrow> chained_error + unit" where
  "attest_wallet env tenantId base config attestation =
     (let (required, trustLists) = server_attestation_policy env tenantId config
      in map_failure Chained_Unauthorized (che_attestation env tenantId attestation base required trustLists))"


section \<open>Pushed authorization requests\<close>

record chained_par =
  cpr_response_type :: string
  cpr_client_id :: string
  cpr_redirect_uri :: string
  cpr_code_challenge :: "string option"
  cpr_code_challenge_method :: "string option"
  cpr_state :: "string option"
  cpr_scope :: "string option"
  cpr_issuer_state :: "string option"
  cpr_authorization_details :: "json list option"

text \<open>An \<open>issuer_state\<close> must name an offer that can be redeemed; \<open>fresh\<close> replaces a missing one.\<close>

definition resolve_issuer_state ::
    "date \<Rightarrow> string \<Rightarrow> string option \<Rightarrow> string \<Rightarrow> sessions \<Rightarrow> chained_error + string" where
  "resolve_issuer_state now tenantId issuerState fresh offers =
     (if truthy issuerState
      then (case getForTenant tenantId issuerState None offers of
              Inl _ \<Rightarrow> Inl (Chained_Bad_Request ''Invalid issuer_state'')
            | Inr s \<Rightarrow> (case assertSessionUsable s now of
                Inl _ \<Rightarrow> Inl (Chained_Bad_Request ''Invalid issuer_state'')
              | Inr _ \<Rightarrow> Inr (the issuerState)))
      else Inr fresh)"

definition pushed_chained_session ::
    "string \<Rightarrow> string \<Rightarrow> string \<Rightarrow> chained_par \<Rightarrow> string option \<Rightarrow> string option \<Rightarrow> date \<Rightarrow> date \<Rightarrow> chained_session" where
  "pushed_chained_session tenantId sessionId issuerState q jkt presentationConfigId now stamp =
     \<lparr>cas_id = sessionId, cas_tenantId = tenantId, cas_status = Pending_Authorize, cas_issuerState = issuerState,
      cas_clientId = cpr_client_id q, cas_redirectUri = cpr_redirect_uri q, cas_codeChallenge = cpr_code_challenge q,
      cas_codeChallengeMethod = cpr_code_challenge_method q, cas_walletState = cpr_state q, cas_scope = cpr_scope q,
      cas_authorizationDetails = cpr_authorization_details q, cas_dpopJkt = jkt, cas_upstreamState = None,
      cas_upstreamNonce = None, cas_upstreamCodeVerifier = None, cas_vpPresentationConfigId = presentationConfigId,
      cas_vpResponseCode = None, cas_upstreamIdTokenClaims = None, cas_upstreamAccessTokenClaims = None,
      cas_authorizationCode = None, cas_authorizationCodeExpiresAt = None, cas_accessTokenJti = None,
      cas_refreshToken = None, cas_refreshTokenExpiresAt = None, cas_createdAt = stamp,
      cas_expiresAt = now + CHAINED_SESSION_LIFETIME_SECONDS * 1000\<rparr>"

text \<open>The body of both \<open>handlePar\<close>: \<open>freshState\<close> and \<open>sessionId\<close> are the two UUIDs.\<close>

definition push_request ::
    "chained_env \<Rightarrow> (nat \<Rightarrow> date) \<Rightarrow> jti_stmt list \<Rightarrow> string \<Rightarrow> string \<Rightarrow> string \<Rightarrow> string \<Rightarrow> managed_server
       \<Rightarrow> string option \<Rightarrow> chained_par \<Rightarrow> string option \<Rightarrow> client_attestation option \<Rightarrow> chained_state
       \<Rightarrow> (chained_error + string \<times> int) \<times> chained_state" where
  "push_request env clock others freshState sessionId tenantId base config presentationConfigId q dpopJwt attestation st =
     (case ebind (require (cpr_response_type q = ''code'') (Chained_Bad_Request ''Invalid response_type, must be \"code\"''))
             (\<lambda>_. assertPkceCodeChallenge (cpr_code_challenge q) (cpr_code_challenge_method q)) of
        Inl e \<Rightarrow> (Inl e, st)
      | Inr _ \<Rightarrow>
     (let (proof, proofs) = verifyChainedAsDpopProof (che_header env) (che_dpop env) others base ''par'' dpopJwt None False
            (chs_proofs st);
          st1 = st\<lparr>chs_proofs := proofs\<rparr>
      in case ebind proof (\<lambda>jkt.
              ebind (require (bi_requireDPoP config \<noteq> Some True \<or> truthy jkt) (Chained_Bad_Request ''DPoP is required'')) (\<lambda>_.
              ebind (attest_wallet env tenantId base config attestation) (\<lambda>_.
              ebind (resolve_issuer_state (clock 0) tenantId (cpr_issuer_state q) freshState (chs_offers st)) (\<lambda>issuerState.
              Inr (pushed_chained_session tenantId sessionId issuerState q jkt presentationConfigId (clock 1) (clock 2)))))) of
           Inl e \<Rightarrow> (Inl e, st1)
         | Inr s \<Rightarrow> (Inr (CHAINED_REQUEST_URI_PREFIX @ sessionId, CHAINED_SESSION_LIFETIME_SECONDS),
                    st1\<lparr>chs_sessions := cas_save s (chs_sessions st1)\<rparr>)))"

definition chained_handlePar ::
    "chained_env \<Rightarrow> (nat \<Rightarrow> date) \<Rightarrow> jti_stmt list \<Rightarrow> string \<Rightarrow> string \<Rightarrow> string \<Rightarrow> chained_par \<Rightarrow> string option
       \<Rightarrow> client_attestation option \<Rightarrow> chained_state \<Rightarrow> (chained_error + string \<times> int) \<times> chained_state" where
  "chained_handlePar env clock others freshState sessionId tenantId q dpopJwt attestation st =
     (case getChainedAsConfig env tenantId of
        Inl e \<Rightarrow> (Inl e, st)
      | Inr config \<Rightarrow> push_request env clock others freshState sessionId tenantId (getChainedAsBaseUrl env tenantId) config
          None q dpopJwt attestation st)"


section \<open>The upstream provider\<close>

definition DISCOVERY_TTL_MS :: int where
  "DISCOVERY_TTL_MS = 5 * 60 * 1000"

definition DISCOVERY_STALE_MS :: int where
  "DISCOVERY_STALE_MS = 60 * 60 * 1000"

definition tenant_federation :: "chained_env \<Rightarrow> string \<Rightarrow> federation_source option" where
  "tenant_federation env tenantId = (case tni_federation (che_issuance env tenantId) of
       None \<Rightarrow> None | Some f \<Rightarrow> if fsr_trustAnchors f = [] then None else Some f)"

definition assertFederationTrustForUpstreamIssuer ::
    "chained_env \<Rightarrow> (nat \<Rightarrow> date) \<Rightarrow> string \<Rightarrow> federation_source option \<Rightarrow> evaluation_cache
       \<Rightarrow> (chained_error + unit) \<times> evaluation_cache" where
  "assertFederationTrustForUpstreamIssuer env clock upstreamIssuer source cache =
     (if source = None \<or> getMode source = Lote_Only then (Inr (), cache)
      else (let ((trusted, reason), cache') = evaluateAuthorizationServerTrust (che_traversal env) (che_entity env)
                  (clock 0) (clock 1) upstreamIssuer source cache
            in (require trusted (Chained_Untrusted_Issuer reason), cache')))"

text \<open>The policy is checked before the cache is read; a document at most an hour old answers for a provider
  that fails.\<close>

definition getUpstreamDiscovery ::
    "chained_env \<Rightarrow> (nat \<Rightarrow> date) \<Rightarrow> string \<Rightarrow> string \<Rightarrow> chained_state
       \<Rightarrow> (chained_error + discovery_document) \<times> chained_state" where
  "getUpstreamDiscovery env clock tenantId issuer st =
     (case assertFederationTrustForUpstreamIssuer env clock issuer (tenant_federation env tenantId) (chs_federation st) of
        (Inl e, cache) \<Rightarrow> (Inl e, st\<lparr>chs_federation := cache\<rparr>)
      | (Inr _, cache) \<Rightarrow>
          (let st1 = st\<lparr>chs_federation := cache\<rparr>; now = clock 2; cached = chs_discovery st issuer
           in if (case cached of None \<Rightarrow> False | Some c \<Rightarrow> now < cdc_expiresAt c)
              then (Inr (cdc_doc (the cached)), st1)
              else (case che_discover env issuer of
                      Inr doc \<Rightarrow> (Inr doc, st1\<lparr>chs_discovery := (chs_discovery st)(issuer \<mapsto>
                         \<lparr>cdc_doc = doc, cdc_fetchedAt = clock 3, cdc_expiresAt = clock 4 + DISCOVERY_TTL_MS\<rparr>)\<rparr>)
                    | Inl _ \<Rightarrow>
                        (if (case cached of None \<Rightarrow> False | Some c \<Rightarrow> now - cdc_fetchedAt c \<le> DISCOVERY_STALE_MS)
                         then Inr (cdc_doc (the cached))
                         else Inl (Chained_Bad_Request ''Failed to fetch upstream OIDC configuration''), st1))))"


section \<open>Authorizing\<close>

text \<open>The session a \<open>request_uri\<close> names, for both servers; an expired one is marked.\<close>

definition pushed_session_of ::
    "date \<Rightarrow> string \<Rightarrow> string \<Rightarrow> string \<Rightarrow> chained_sessions \<Rightarrow> (chained_error + chained_session) \<times> chained_sessions" where
  "pushed_session_of now tenantId clientId requestUri db =
     (if \<not> starts_with requestUri CHAINED_REQUEST_URI_PREFIX
      then (Inl (Chained_Bad_Request ''Invalid request_uri format''), db)
      else case cas_findForTenant tenantId (drop (length CHAINED_REQUEST_URI_PREFIX) requestUri) Pending_Authorize db of
        None \<Rightarrow> (Inl (Chained_Bad_Request ''Invalid or expired request_uri''), db)
      | Some s \<Rightarrow>
          (if cas_clientId s \<noteq> clientId then (Inl (Chained_Bad_Request ''Client ID mismatch''), db)
           else if cas_expiresAt s < now
           then (Inl (Chained_Bad_Request ''Session expired''), cas_save (s\<lparr>cas_status := Chained_Expired\<rparr>) db)
           else (Inr s, db)))"

text \<open>The random values of a request upstream: state, nonce and PKCE verifier.\<close>

type_synonym upstream_secrets = "string \<times> string \<times> string"

definition awaiting_upstream :: "upstream_secrets \<Rightarrow> chained_session \<Rightarrow> chained_session" where
  "awaiting_upstream secrets s = (case secrets of (state, nonce, verifier) \<Rightarrow>
     s\<lparr>cas_status := Pending_Upstream_Callback, cas_upstreamState := Some state, cas_upstreamNonce := Some nonce,
       cas_upstreamCodeVerifier := Some verifier\<rparr>)"

definition chained_callback_url :: "chained_env \<Rightarrow> string \<Rightarrow> string" where
  "chained_callback_url env tenantId = getChainedAsBaseUrl env tenantId @ ''/callback''"

definition upstream_request :: "chained_env \<Rightarrow> string \<Rightarrow> upstream_config \<Rightarrow> upstream_secrets \<Rightarrow> (string \<times> string) list" where
  "upstream_request env tenantId up secrets = (case secrets of (state, nonce, verifier) \<Rightarrow>
     [(''response_type'', ''code''), (''client_id'', ups_clientId up), (''redirect_uri'', chained_callback_url env tenantId),
      (''scope'', join '' '' (coalesce (ups_scopes up) [''openid''])), (''state'', state), (''nonce'', nonce),
      (''code_challenge'', che_sha256 env verifier), (''code_challenge_method'', ''S256'')])"

definition chained_handleAuthorize ::
    "chained_env \<Rightarrow> (nat \<Rightarrow> date) \<Rightarrow> (chained_sessions \<Rightarrow> chained_sessions) \<Rightarrow> upstream_secrets \<Rightarrow> string \<Rightarrow> string \<Rightarrow> string
       \<Rightarrow> chained_state \<Rightarrow> (chained_error + string) \<times> chained_state" where
  "chained_handleAuthorize env clock between secrets tenantId clientId requestUri st =
     (case getChainedAsConfig env tenantId of
        Inl e \<Rightarrow> (Inl e, st)
      | Inr config \<Rightarrow>
     (case mas_upstream config of
        None \<Rightarrow> (Inl (Chained_Bad_Request ''Upstream OIDC provider not configured''), st)
      | Some up \<Rightarrow>
     (case pushed_session_of (clock 0) tenantId clientId requestUri (chs_sessions st) of
        (Inl e, db) \<Rightarrow> (Inl e, st\<lparr>chs_sessions := db\<rparr>)
      | (Inr s, _) \<Rightarrow>
     (case getUpstreamDiscovery env (\<lambda>k. clock (Suc k)) tenantId (ups_issuer up) st of
        (Inl e, st1) \<Rightarrow> (Inl e, st1\<lparr>chs_sessions := between (chs_sessions st1)\<rparr>)
      | (Inr doc, st1) \<Rightarrow>
          (redirect_to (che_set_params env) (dsc_authorization_endpoint doc) (upstream_request env tenantId up secrets),
           st1\<lparr>chs_sessions := cas_save (awaiting_upstream secrets s) (between (chs_sessions st1))\<rparr>)))))"


section \<open>The callback of the upstream provider\<close>

definition handleUpstreamError ::
    "chained_env \<Rightarrow> string \<Rightarrow> string \<Rightarrow> string \<Rightarrow> string option \<Rightarrow> chained_state \<Rightarrow> (chained_error + string) \<times> chained_state" where
  "handleUpstreamError env tenantId state err description st =
     (case findByUpstreamState tenantId state None (chs_sessions st) of
        None \<Rightarrow> (Inl (Chained_Bad_Request ''Invalid callback state''), st)
      | Some s \<Rightarrow>
          (buildAuthorizationErrorRedirect (che_set_params env) (cas_redirectUri s) err description (cas_walletState s),
           st\<lparr>chs_sessions := cas_save (s\<lparr>cas_status := Chained_Expired\<rparr>) (chs_sessions st)\<rparr>))"

definition exchangeUpstreamCode ::
    "chained_env \<Rightarrow> chained_session \<Rightarrow> string \<Rightarrow> upstream_config \<Rightarrow> discovery_document \<Rightarrow> string \<Rightarrow> string + chained_session" where
  "exchangeUpstreamCode env s code up doc callbackUrl =
     ebind (che_exchange env \<lparr>exi_tokenEndpoint = dsc_token_endpoint doc, exi_code = code, exi_redirectUri = callbackUrl,
              exi_clientId = ups_clientId up, exi_clientSecret = ups_clientSecret up,
              exi_codeVerifier = cas_upstreamCodeVerifier s\<rparr>) (\<lambda>tokens.
     ebind (if truthy (exr_idToken tokens)
            then (case che_decodeJwt env (the (exr_idToken tokens)) of
                    None \<Rightarrow> Inl ''Invalid JWT''
                  | Some claims \<Rightarrow> Inr (s\<lparr>cas_upstreamIdTokenClaims := Some claims\<rparr>))
            else Inr s) (\<lambda>s1.
     Inr (s1\<lparr>cas_upstreamAccessTokenClaims := Some (coalesce
            (case exr_accessToken tokens of None \<Rightarrow> None | Some t \<Rightarrow> che_decodeJwt env t) (JObj []))\<rparr>)))"

definition authorized_session :: "string \<Rightarrow> date \<Rightarrow> chained_session \<Rightarrow> chained_session" where
  "authorized_session code now s =
     s\<lparr>cas_status := Chained_Authorized, cas_authorizationCode := Some code,
       cas_authorizationCodeExpiresAt := Some (now + CHAINED_CODE_LIFETIME_SECONDS * 1000)\<rparr>"

text \<open>\<open>newCode\<close> is the code for the wallet, \<open>code\<close> and \<open>state\<close> come from the provider.\<close>

definition handleUpstreamCallback ::
    "chained_env \<Rightarrow> (nat \<Rightarrow> date) \<Rightarrow> (chained_sessions \<Rightarrow> chained_sessions) \<Rightarrow> string \<Rightarrow> string \<Rightarrow> string \<Rightarrow> string
       \<Rightarrow> string option \<Rightarrow> string option \<Rightarrow> chained_state \<Rightarrow> (chained_error + string) \<times> chained_state" where
  "handleUpstreamCallback env clock between newCode tenantId code state err description st =
     (if truthy err then handleUpstreamError env tenantId state (the err) description st
      else case findByUpstreamState tenantId state (Some Pending_Upstream_Callback) (chs_sessions st) of
        None \<Rightarrow> (Inl (Chained_Bad_Request ''Invalid or expired callback state''), st)
      | Some s \<Rightarrow>
     (case getChainedAsConfig env tenantId of
        Inl e \<Rightarrow> (Inl e, st)
      | Inr config \<Rightarrow>
     (case mas_upstream config of
        None \<Rightarrow> (Inl (Chained_Bad_Request ''Upstream OIDC provider not configured''), st)
      | Some up \<Rightarrow>
     (case getUpstreamDiscovery env clock tenantId (ups_issuer up) st of
        (Inl e, st1) \<Rightarrow> (Inl e, st1\<lparr>chs_sessions := between (chs_sessions st1)\<rparr>)
      | (Inr doc, st1) \<Rightarrow>
     (let db = between (chs_sessions st1)
      in case exchangeUpstreamCode env s code up doc (chained_callback_url env tenantId) of
           Inl _ \<Rightarrow>
             (buildAuthorizationErrorRedirect (che_set_params env) (cas_redirectUri s) ''server_error''
                (Some ''Failed to exchange code with upstream provider'') (cas_walletState s),
              st1\<lparr>chs_sessions := cas_save (s\<lparr>cas_status := Chained_Expired\<rparr>) db\<rparr>)
         | Inr s1 \<Rightarrow>
             (buildAuthorizationCodeRedirect (che_set_params env) (cas_redirectUri s) newCode (cas_walletState s) None,
              st1\<lparr>chs_sessions := cas_save (authorized_session newCode (clock 5) s1) db\<rparr>))))))"


section \<open>The token endpoint\<close>

text \<open>The token of both servers is signed with the configured key or the tenant's.\<close>

definition chained_signing_key ::
    "chained_env \<Rightarrow> string \<Rightarrow> managed_server \<Rightarrow> chained_error + string \<times> (string \<times> json) list" where
  "chained_signing_key env tenantId config =
     (let configured = (case bi_token config of None \<Rightarrow> None | Some t \<Rightarrow> ts_signingKeyId t)
      in map_failure Chained_Failure
           (ebind (if truthy configured then Inr (the configured) else che_getKid env tenantId) (\<lambda>keyId.
            ebind (che_publicKey env tenantId keyId) (\<lambda>publicKey. Inr (keyId, publicKey)))))"

definition sign_chained_token ::
    "chained_env \<Rightarrow> string \<Rightarrow> managed_server \<Rightarrow> (string \<times> json) list \<Rightarrow> chained_error + string" where
  "sign_chained_token env tenantId config payload =
     ebind (chained_signing_key env tenantId config) (\<lambda>(keyId, publicKey).
       let kid = (if jtruthy (map_of publicKey ''kid'') then the (map_of publicKey ''kid'') else JStr keyId)
       in map_failure Chained_Failure (che_signJWT env payload
            (JObj [(''alg'', JStr ''ES256''), (''kid'', kid), (''typ'', JStr ''at+jwt'')]) tenantId keyId))"

record chained_reply =
  crp_access_token :: string
  crp_token_type :: string
  crp_expires_in :: int
  crp_scope :: "string option"
  crp_authorization_details :: "json list option"
  crp_refresh_token :: "string option"

definition chained_token_lifetime :: "managed_server \<Rightarrow> int" where
  "chained_token_lifetime config =
     (let configured = (case bi_token config of None \<Rightarrow> None | Some t \<Rightarrow> ts_lifetimeSeconds t)
      in if coalesce configured 0 = 0 then 3600 else the configured)"

definition chained_audience :: "chained_env \<Rightarrow> string \<Rightarrow> string" where
  "chained_audience env tenantId = che_publicUrl env @ ''/issuers/'' @ tenantId"

text \<open>\<open>secrets\<close> are the token's identifier and the refresh token; the session is saved with both.\<close>

definition issued_chained_session ::
    "(nat \<Rightarrow> date) \<Rightarrow> string \<times> string \<Rightarrow> managed_server \<Rightarrow> string \<Rightarrow> string option \<Rightarrow> chained_session
       \<Rightarrow> string option \<times> chained_session" where
  "issued_chained_session clock secrets config grant_type jkt s =
     (let (refresh, s1) = issueRefreshTokenIfEnabled (clock 3) (snd secrets) (bi_token config) grant_type
            ((bound_session s jkt)\<lparr>cas_status := Token_Issued, cas_accessTokenJti := Some (fst secrets)\<rparr>)
      in (refresh, retainSessionForIssuedTokens (clock 4 + chained_token_lifetime config * 1000) s1))"

definition chained_reply_of :: "string \<Rightarrow> string \<Rightarrow> managed_server \<Rightarrow> chained_session \<Rightarrow> string option \<Rightarrow> chained_reply" where
  "chained_reply_of accessToken tokenType config s refresh =
     \<lparr>crp_access_token = accessToken, crp_token_type = tokenType, crp_expires_in = chained_token_lifetime config,
      crp_scope = cas_scope s,
      crp_authorization_details = (if cas_authorizationDetails s = Some [] then None else cas_authorizationDetails s),
      crp_refresh_token = (if truthy refresh then refresh else None)\<rparr>"

text \<open>The checks of a token request: the session it redeems. Only an expired code writes.\<close>

definition redeemable_session ::
    "chained_env \<Rightarrow> date \<Rightarrow> string \<Rightarrow> string \<Rightarrow> managed_server \<Rightarrow> token_body \<Rightarrow> client_attestation option
       \<Rightarrow> chained_sessions \<Rightarrow> chained_error + chained_session" where
  "redeemable_session env now tenantId base config q attestation db =
     ebind (require (tkb_grant_type q = ''authorization_code'' \<or> tkb_grant_type q = ''refresh_token'')
       (Chained_Bad_Request ''Invalid grant_type, must be \"authorization_code\" or \"refresh_token\"'')) (\<lambda>_.
     ebind (attest_wallet env tenantId base config attestation) (\<lambda>_.
     resolveSessionForTokenRequest now db tenantId q (refreshTokenPolicy (bi_token config))))"

definition redeemed_session ::
    "chained_env \<Rightarrow> (nat \<Rightarrow> date) \<Rightarrow> string \<Rightarrow> string \<Rightarrow> managed_server \<Rightarrow> token_body \<Rightarrow> client_attestation option
       \<Rightarrow> chained_sessions \<Rightarrow> (chained_error + chained_session) \<times> chained_sessions" where
  "redeemed_session env clock tenantId base config q attestation db =
     (case redeemable_session env (clock 0) tenantId base config q attestation db of
        Inl e \<Rightarrow> (Inl e, db)
      | Inr s \<Rightarrow> (case assertTokenRequestSessionValid (che_sha256 env) (clock 1) s q db of
          (Inl e, db') \<Rightarrow> (Inl e, db')
        | (Inr _, db') \<Rightarrow> (Inr s, db')))"

text \<open>The body of both \<open>handleToken\<close>: \<open>extra\<close> adds the server's own claims to the payload.\<close>

definition redeem_chained_token ::
    "chained_env \<Rightarrow> (nat \<Rightarrow> date) \<Rightarrow> (chained_sessions \<Rightarrow> chained_sessions) \<Rightarrow> jti_stmt list \<Rightarrow> string \<times> string \<Rightarrow> string
       \<Rightarrow> string \<Rightarrow> managed_server \<Rightarrow> (chained_session \<Rightarrow> (string \<times> json) list \<Rightarrow> (string \<times> json) list) \<Rightarrow> token_body
       \<Rightarrow> string option \<Rightarrow> client_attestation option \<Rightarrow> chained_state \<Rightarrow> (chained_error + chained_reply) \<times> chained_state" where
  "redeem_chained_token env clock between others secrets tenantId base config extra q dpopJwt attestation st =
     (case redeemed_session env clock tenantId base config q attestation (chs_sessions st) of
        (Inl e, db) \<Rightarrow> (Inl e, st\<lparr>chs_sessions := db\<rparr>)
      | (Inr s, _) \<Rightarrow>
     (let (binding, proofs) = resolveTokenBinding (che_header env) (che_dpop env) others base (bi_requireDPoP config) s
            dpopJwt (chs_proofs st);
          st1 = st\<lparr>chs_proofs := proofs, chs_sessions := between (chs_sessions st)\<rparr>
      in case ebind binding (\<lambda>(tokenType, jkt).
              ebind (sign_chained_token env tenantId config (extra s (buildAccessTokenPayload (clock 2) base
                (chained_audience env tenantId) s (chained_token_lifetime config) (fst secrets) jkt))) (\<lambda>accessToken.
              Inr (tokenType, jkt, accessToken))) of
           Inl e \<Rightarrow> (Inl e, st1)
         | Inr (tokenType, jkt, accessToken) \<Rightarrow>
             (let (refresh, s1) = issued_chained_session clock secrets config (tkb_grant_type q) jkt s
              in (Inr (chained_reply_of accessToken tokenType config s refresh),
                  st1\<lparr>chs_sessions := cas_save s1 (chs_sessions st1)\<rparr>))))"

text \<open>\<open>buildTokenPayload\<close>: the subject of the upstream provider; an \<open>undefined\<close> claim is not serialized.\<close>

definition upstream_claims :: "chained_session \<Rightarrow> (string \<times> json) list \<Rightarrow> (string \<times> json) list" where
  "upstream_claims s payload =
     (let claims = cas_upstreamIdTokenClaims s;
          copy = (\<lambda>to from p. case jget from claims of None \<Rightarrow> p | Some v \<Rightarrow> jset to v p)
      in if jtruthy claims then copy ''upstream_iss'' ''iss'' (copy ''upstream_sub'' ''sub'' payload) else payload)"

definition chained_handleToken ::
    "chained_env \<Rightarrow> (nat \<Rightarrow> date) \<Rightarrow> (chained_sessions \<Rightarrow> chained_sessions) \<Rightarrow> jti_stmt list \<Rightarrow> string \<times> string \<Rightarrow> string
       \<Rightarrow> token_body \<Rightarrow> string option \<Rightarrow> client_attestation option \<Rightarrow> chained_state
       \<Rightarrow> (chained_error + chained_reply) \<times> chained_state" where
  "chained_handleToken env clock between others secrets tenantId q dpopJwt attestation st =
     (case getChainedAsConfig env tenantId of
        Inl e \<Rightarrow> (Inl e, st)
      | Inr config \<Rightarrow> redeem_chained_token env clock between others secrets tenantId (getChainedAsBaseUrl env tenantId) config
          upstream_claims q dpopJwt attestation st)"


section \<open>Keys, metadata and the upstream identity\<close>

definition server_jwks :: "chained_env \<Rightarrow> string \<Rightarrow> managed_server \<Rightarrow> chained_error + json" where
  "server_jwks env tenantId config =
     ebind (chained_signing_key env tenantId config) (\<lambda>(keyId, publicKey). Inr (buildJwksResponse publicKey keyId))"

definition chained_getJwks :: "chained_env \<Rightarrow> string \<Rightarrow> chained_error + json" where
  "chained_getJwks env tenantId = ebind (getChainedAsConfig env tenantId) (server_jwks env tenantId)"

definition server_metadata ::
    "chained_env \<Rightarrow> string \<Rightarrow> string \<Rightarrow> string \<Rightarrow> managed_server \<Rightarrow> (string \<times> json) list" where
  "server_metadata env tenantId base path config =
     authorization_server_metadata base (che_publicUrl env @ ''/.well-known/jwks.json/issuers/'' @ tenantId @ path)
       (if rp_enabled (refreshTokenPolicy (bi_token config)) then [''authorization_code'', ''refresh_token'']
        else [''authorization_code''])
       (fst (server_attestation_policy env tenantId config))"

definition chained_getMetadata :: "chained_env \<Rightarrow> string \<Rightarrow> chained_error + (string \<times> json) list" where
  "chained_getMetadata env tenantId = ebind (getChainedAsConfig env tenantId) (\<lambda>config.
     Inr (server_metadata env tenantId (getChainedAsBaseUrl env tenantId) ''/chained-as'' config))"

record upstream_identity =
  upi_iss :: json
  upi_sub :: json
  upi_token_claims :: "(string \<times> json) list"

text \<open>The \<open>??\<close> of two claims: \<open>null\<close> counts as missing.\<close>

definition claim_or :: "json option \<Rightarrow> json \<Rightarrow> json" where
  "claim_or v d = (case v of None \<Rightarrow> d | Some JNull \<Rightarrow> d | Some x \<Rightarrow> x)"

definition getUpstreamIdentityByIssuerState :: "string \<Rightarrow> string \<Rightarrow> chained_sessions \<Rightarrow> upstream_identity option" where
  "getUpstreamIdentityByIssuerState tenantId issuerState db =
     (case findByIssuerState tenantId issuerState db of
        None \<Rightarrow> None
      | Some s \<Rightarrow>
          (let idc = cas_upstreamIdTokenClaims s; acc = cas_upstreamAccessTokenClaims s
           in if \<not> jtruthy idc \<and> \<not> jtruthy acc then None
              else Some \<lparr>upi_iss = claim_or (jget ''iss'' idc) (claim_or (jget ''iss'' acc) (JStr [])),
                         upi_sub = claim_or (jget ''sub'' idc) (claim_or (jget ''sub'' acc) (JStr [])),
                         upi_token_claims = foldl (\<lambda>out (k, v). jset k v out) (obj_of acc) (obj_of idc)\<rparr>))"

end
