(* ===== verification/Managed_Servers.thy ===== *)
theory Managed_Servers
  imports Chained_Server
begin

text \<open>
  Managed authorization servers (\<open>oid4vci/authorization/authorization-servers/authorization-servers.service.ts\<close>):
  a server of type \<open>oid4vp\<close> authenticates the holder by asking for a presentation. They share the table of
  authorization sessions with the chained server. The verifier's \<open>createRequest\<close> is a parameter that may
  write the session of the presentation.
\<close>

section \<open>Configured servers\<close>

definition getAuthorizationServerBaseUrl :: "chained_env \<Rightarrow> string \<Rightarrow> string \<Rightarrow> string" where
  "getAuthorizationServerBaseUrl env tenantId serverId =
     che_publicUrl env @ ''/issuers/'' @ tenantId @ ''/authorization-servers/'' @ serverId"

definition getEnabledAuthorizationServers :: "chained_env \<Rightarrow> string \<Rightarrow> managed_server list" where
  "getEnabledAuthorizationServers env tenantId =
     filter (\<lambda>c. bi_enabled c \<noteq> Some False \<and> bi_type c = Some ''oid4vp'' \<and> truthy (mas_id c)
       \<and> truthy (mas_presentationConfigId c)) (authorization_servers env tenantId)"

text \<open>The first occurrence of every URL is kept.\<close>

definition getExternalAuthorizationServerUrls :: "chained_env \<Rightarrow> string \<Rightarrow> string list" where
  "getExternalAuthorizationServerUrls env tenantId =
     rev (remdups (rev (map (\<lambda>c. the (mas_issuer c))
       (filter (\<lambda>c. bi_enabled c \<noteq> Some False \<and> bi_type c = Some ''external'' \<and> truthy (mas_issuer c))
         (authorization_servers env tenantId)))))"

definition hasEnabledChainedAuthorizationServer :: "chained_env \<Rightarrow> string \<Rightarrow> bool" where
  "hasEnabledChainedAuthorizationServer env tenantId \<longleftrightarrow>
     list_ex (\<lambda>c. bi_enabled c \<noteq> Some False \<and> bi_type c = Some ''chained'' \<and> mas_upstream c \<noteq> None)
       (authorization_servers env tenantId)"

definition getAuthorizationServerConfig :: "chained_env \<Rightarrow> string \<Rightarrow> string \<Rightarrow> chained_error + managed_server" where
  "getAuthorizationServerConfig env tenantId serverId =
     (case List.find (\<lambda>c. mas_id c = Some serverId) (getEnabledAuthorizationServers env tenantId) of
        None \<Rightarrow> Inl (Chained_Not_Found (''Authorization server '' @ quoted serverId @ '' is not configured for this tenant''))
      | Some c \<Rightarrow> Inr c)"

definition getAuthorizationServerIssuerUrls :: "chained_env \<Rightarrow> string \<Rightarrow> string list" where
  "getAuthorizationServerIssuerUrls env tenantId =
     map (\<lambda>c. getAuthorizationServerBaseUrl env tenantId (the (mas_id c))) (getEnabledAuthorizationServers env tenantId)"

definition getDefaultAuthorizationServerUrl ::
    "chained_env \<Rightarrow> string \<Rightarrow> string option \<Rightarrow> chained_error + string option" where
  "getDefaultAuthorizationServerUrl env tenantId preferred =
     (if truthy preferred
      then ebind (getAuthorizationServerConfig env tenantId (the preferred))
             (\<lambda>_. Inr (Some (getAuthorizationServerBaseUrl env tenantId (the preferred))))
      else (case getEnabledAuthorizationServers env tenantId of
              [] \<Rightarrow> Inr None
            | c # _ \<Rightarrow> Inr (Some (getAuthorizationServerBaseUrl env tenantId (the (mas_id c))))))"


section \<open>Pushing and authorizing a request\<close>

definition managed_handlePar ::
    "chained_env \<Rightarrow> (nat \<Rightarrow> date) \<Rightarrow> jti_stmt list \<Rightarrow> string \<Rightarrow> string \<Rightarrow> string \<Rightarrow> string \<Rightarrow> chained_par \<Rightarrow> string option
       \<Rightarrow> client_attestation option \<Rightarrow> chained_state \<Rightarrow> (chained_error + string \<times> int) \<times> chained_state" where
  "managed_handlePar env clock others freshState sessionId tenantId serverId q dpopJwt attestation st =
     (case getAuthorizationServerConfig env tenantId serverId of
        Inl e \<Rightarrow> (Inl e, st)
      | Inr config \<Rightarrow> push_request env clock others freshState sessionId tenantId
          (getAuthorizationServerBaseUrl env tenantId serverId) config (mas_presentationConfigId config) q dpopJwt attestation st)"

text \<open>\<open>encodeURIComponent\<close> of a string of Latin-1 characters: UTF-8, percent-encoded.\<close>

definition uri_unreserved :: "char \<Rightarrow> bool" where
  "uri_unreserved c = (let n = of_char c :: nat
     in (48 \<le> n \<and> n \<le> 57) \<or> (65 \<le> n \<and> n \<le> 90) \<or> (97 \<le> n \<and> n \<le> 122) \<or> c \<in> set ''-_.!~*()'' \<or> c = CHR 0x27)"

definition hex_char :: "nat \<Rightarrow> char" where
  "hex_char d = char_of (if d < 10 then 48 + d else 55 + d)"

definition percent_byte :: "nat \<Rightarrow> string" where
  "percent_byte n = [CHR ''%'', hex_char (n div 16), hex_char (n mod 16)]"

definition encodeURIComponent :: "string \<Rightarrow> string" where
  "encodeURIComponent s = concat (map (\<lambda>c. let n = of_char c :: nat
     in if uri_unreserved c then [c]
        else if n < 128 then percent_byte n
        else percent_byte (192 + n div 64) @ percent_byte (128 + n mod 64)) s)"

text \<open>\<open>createRequest\<close>: the presentation configuration, session, redirect URI, tenant and origin.\<close>

type_synonym create_request = "string \<Rightarrow> string \<Rightarrow> string \<Rightarrow> string \<Rightarrow> string \<Rightarrow> sessions \<Rightarrow> (string + string) \<times> sessions"

definition vp_callback_url :: "chained_env \<Rightarrow> string \<Rightarrow> string \<Rightarrow> string \<Rightarrow> string" where
  "vp_callback_url env tenantId serverId sid =
     getAuthorizationServerBaseUrl env tenantId serverId @ ''/vp-callback?cas='' @ encodeURIComponent sid"

definition managed_handleAuthorize ::
    "chained_env \<Rightarrow> create_request \<Rightarrow> (nat \<Rightarrow> date) \<Rightarrow> string \<Rightarrow> string \<Rightarrow> string \<Rightarrow> string \<Rightarrow> string option
       \<Rightarrow> chained_state \<Rightarrow> (chained_error + string \<times> bool) \<times> chained_state" where
  "managed_handleAuthorize env createRequest clock tenantId serverId clientId requestUri origin st =
     (case getAuthorizationServerConfig env tenantId serverId of
        Inl e \<Rightarrow> (Inl e, st)
      | Inr config \<Rightarrow>
     (case pushed_session_of (clock 0) tenantId clientId requestUri (chs_sessions st) of
        (Inl e, db) \<Rightarrow> (Inl e, st\<lparr>chs_sessions := db\<rparr>)
      | (Inr s, db) \<Rightarrow>
     (let st1 = st\<lparr>chs_sessions := cas_save (s\<lparr>cas_status := Pending_Vp_Callback\<rparr>) db\<rparr>;
          callback = vp_callback_url env tenantId serverId (cas_id s);
          configId = the (mas_presentationConfigId config);
          (_, offers) = createSession_execute (clock 1) \<lparr>ns_id = cas_id s, ns_tenantId = tenantId,
             ns_columns = [Set_requestId (Some configId), Set_redirectUri (Some callback)]\<rparr> (chs_offers st1);
          (offer, offers') = createRequest configId (cas_id s) callback tenantId
             (if truthy origin then the origin else che_publicUrl env) offers
      in (ebind (map_failure Chained_Failure offer)
            (\<lambda>uri. Inr (''openid4vp://?'' @ uri, mas_immediateWalletRedirect config \<noteq> Some False)),
          st1\<lparr>chs_offers := offers'\<rparr>))))"


section \<open>The callback of the verifier\<close>

text \<open>\<open>error\<close> is a query parameter of the callback. A verifier session that does not exist ends the request.\<close>

definition refuse_callback ::
    "chained_env \<Rightarrow> chained_session \<Rightarrow> string \<Rightarrow> string option \<Rightarrow> chained_state \<Rightarrow> (chained_error + string) \<times> chained_state" where
  "refuse_callback env s err description st =
     (buildAuthorizationErrorRedirect (che_set_params env) (cas_redirectUri s) err description (cas_walletState s),
      st\<lparr>chs_sessions := cas_save (s\<lparr>cas_status := Chained_Expired\<rparr>) (chs_sessions st)\<rparr>)"

definition presented_to_offer :: "date \<Rightarrow> chained_session \<Rightarrow> session \<Rightarrow> sessions \<Rightarrow> sessions" where
  "presented_to_offer now s verified offers =
     (if cas_issuerState s \<noteq> [] \<and> jtruthy (s_credentials verified)
      then fst (updateForTenant now (cas_tenantId s) (cas_issuerState s) [Set_credentials (s_credentials verified)] offers)
      else offers)"

definition handleVerifierCallback ::
    "chained_env \<Rightarrow> (nat \<Rightarrow> date) \<Rightarrow> string \<Rightarrow> string \<Rightarrow> string \<Rightarrow> string \<Rightarrow> string option \<Rightarrow> string option \<Rightarrow> string option
       \<Rightarrow> chained_state \<Rightarrow> (chained_error + string) \<times> chained_state" where
  "handleVerifierCallback env clock newCode tenantId serverId sid responseCode err description st =
     (case getAuthorizationServerConfig env tenantId serverId of
        Inl e \<Rightarrow> (Inl e, st)
      | Inr _ \<Rightarrow>
     (case cas_findForTenant tenantId sid Pending_Vp_Callback (chs_sessions st) of
        None \<Rightarrow> (Inl (Chained_Bad_Request ''Invalid or expired callback session''), st)
      | Some s \<Rightarrow>
     (if truthy err then refuse_callback env s (the err) description st
      else case getForTenant (cas_tenantId s) (Some (cas_id s)) None (chs_offers st) of
        Inl _ \<Rightarrow> (Inl (Chained_Not_Found ''Session not found''), st)
      | Inr verified \<Rightarrow>
          (if s_status verified \<noteq> Completed \<or> \<not> truthy responseCode \<or> s_responseCode verified \<noteq> responseCode
           then refuse_callback env s ''invalid_request'' (Some ''OID4VP verification did not complete successfully'') st
           else (buildAuthorizationCodeRedirect (che_set_params env) (cas_redirectUri s) newCode (cas_walletState s)
                   (Some (getAuthorizationServerBaseUrl env tenantId serverId)),
                 st\<lparr>chs_offers := presented_to_offer (clock 0) s verified (chs_offers st),
                    chs_sessions := cas_save ((authorized_session newCode (clock 1) s)\<lparr>cas_vpResponseCode := responseCode\<rparr>)
                      (chs_sessions st)\<rparr>)))))"


section \<open>The token endpoint\<close>

text \<open>\<open>Object.assign\<close>: an array contributes its indices.\<close>

definition assign_claims :: "json \<Rightarrow> (string \<times> json) list \<Rightarrow> (string \<times> json) list" where
  "assign_claims claims out = (case claims of
     JObj kvs \<Rightarrow> foldl (\<lambda>o' (k, v). jset k v o') out kvs
   | JArr vs \<Rightarrow> foldl (\<lambda>o' (i, v). jset (show_nat i) v o') out (enumerate 0 vs)
   | _ \<Rightarrow> out)"

definition credential_claims_of :: "json \<Rightarrow> json" where
  "credential_claims_of c = claim_or (jget ''claims'' (Some c))
     (claim_or (case jget ''values'' (Some c) of
        Some (JArr vs) \<Rightarrow> (case vs of [] \<Rightarrow> None | v # _ \<Rightarrow> Some v) | other \<Rightarrow> other) JNull)"

text \<open>\<^term>\<open>None\<close> where a \<open>null\<close> credential throws.\<close>

primrec assign_presented :: "json list \<Rightarrow> (string \<times> json) list \<Rightarrow> (string \<times> json) list option" where
  "assign_presented [] out = Some out"
| "assign_presented (c # cs) out =
     (if c = JNull then None else assign_presented cs (assign_claims (credential_claims_of c) out))"

definition presentedClaims :: "json option \<Rightarrow> (string \<times> json) list option option" where
  "presentedClaims credentials = (case credentials of
     Some (JArr (c # cs)) \<Rightarrow> (case assign_presented (c # cs) [] of
         None \<Rightarrow> None | Some [] \<Rightarrow> Some None | Some (kv # kvs) \<Rightarrow> Some (Some (kv # kvs)))
   | _ \<Rightarrow> Some None)"

text \<open>An issuance session that is missing, or whose credentials cannot be read, adds nothing.\<close>

definition presented_claims :: "string \<Rightarrow> sessions \<Rightarrow> chained_session \<Rightarrow> (string \<times> json) list \<Rightarrow> (string \<times> json) list" where
  "presented_claims tenantId offers s payload =
     (if cas_issuerState s = [] then payload
      else case getForTenant tenantId (Some (cas_issuerState s)) None offers of
        Inl _ \<Rightarrow> payload
      | Inr offer \<Rightarrow> (case presentedClaims (s_credentials offer) of
          Some (Some claims) \<Rightarrow> jset ''presented_claims'' (JObj claims) payload
        | _ \<Rightarrow> payload))"

definition managed_handleToken ::
    "chained_env \<Rightarrow> (nat \<Rightarrow> date) \<Rightarrow> (chained_sessions \<Rightarrow> chained_sessions) \<Rightarrow> jti_stmt list \<Rightarrow> string \<times> string \<Rightarrow> string
       \<Rightarrow> string \<Rightarrow> token_body \<Rightarrow> string option \<Rightarrow> client_attestation option \<Rightarrow> chained_state
       \<Rightarrow> (chained_error + chained_reply) \<times> chained_state" where
  "managed_handleToken env clock between others secrets tenantId serverId q dpopJwt attestation st =
     (case getAuthorizationServerConfig env tenantId serverId of
        Inl e \<Rightarrow> (Inl e, st)
      | Inr config \<Rightarrow> redeem_chained_token env clock between others secrets tenantId
          (getAuthorizationServerBaseUrl env tenantId serverId) config (presented_claims tenantId (chs_offers st))
          q dpopJwt attestation st)"


section \<open>Metadata and keys\<close>

definition managed_getMetadata :: "chained_env \<Rightarrow> string \<Rightarrow> string \<Rightarrow> chained_error + (string \<times> json) list" where
  "managed_getMetadata env tenantId serverId = ebind (getAuthorizationServerConfig env tenantId serverId) (\<lambda>config.
     Inr (server_metadata env tenantId (getAuthorizationServerBaseUrl env tenantId serverId)
       (''/authorization-servers/'' @ serverId) config))"

definition managed_getJwks :: "chained_env \<Rightarrow> string \<Rightarrow> string \<Rightarrow> chained_error + json" where
  "managed_getJwks env tenantId serverId =
     ebind (getAuthorizationServerConfig env tenantId serverId) (server_jwks env tenantId)"

end
