(* ===== verification/Chained_Machine.thy ===== *)
theory Chained_Machine
  imports Managed_Servers
begin

text \<open>
  The life of an authorization session as a state machine, in which \<open>code\<close> is the code a session gets, and the handlers of both kinds of server as its
  implementation: whatever a request does to the table, it is one step of one session, or a pushed session.
  \<open>chained_history\<close> is the sequence of tables that requests leave, with handlers that read one table and save
  to a later one.
\<close>

section \<open>The machine\<close>

definition freshly_pushed :: "chained_session \<Rightarrow> bool" where
  "freshly_pushed s \<longleftrightarrow> cas_status s = Pending_Authorize \<and> truthy (cas_codeChallenge s)
     \<and> cas_codeChallengeMethod s = Some ''S256'' \<and> cas_authorizationCode s = None \<and> cas_refreshToken s = None
     \<and> cas_upstreamAccessTokenClaims s = None \<and> cas_vpResponseCode s = None"

inductive session_step :: "string \<Rightarrow> chained_session \<Rightarrow> chained_session \<Rightarrow> bool" where
  expire: "session_step code s (s\<lparr>cas_status := Chained_Expired\<rparr>)"
| send_upstream: "cas_status s = Pending_Authorize \<Longrightarrow> session_step code s (awaiting_upstream secrets s)"
| ask_presentation: "cas_status s = Pending_Authorize \<Longrightarrow> session_step code s (s\<lparr>cas_status := Pending_Vp_Callback\<rparr>)"
| upstream_success: "cas_status s = Pending_Upstream_Callback
    \<Longrightarrow> session_step code s (authorized_session code now
          (s\<lparr>cas_upstreamIdTokenClaims := idClaims, cas_upstreamAccessTokenClaims := Some accessClaims\<rparr>))"
| presentation_success: "cas_status s = Pending_Vp_Callback \<Longrightarrow> truthy responseCode
    \<Longrightarrow> session_step code s ((authorized_session code now s)\<lparr>cas_vpResponseCode := responseCode\<rparr>)"
| redeem: "(grant = ''authorization_code'' \<and> cas_status s = Chained_Authorized) \<or> (grant = ''refresh_token'' \<and> cas_refreshToken s \<noteq> None)
    \<Longrightarrow> session_step code s (snd (issued_chained_session clock secrets config grant jkt s))"

text \<open>A request that reads \<open>db\<close> and writes \<open>cur\<close>.\<close>

definition table_step :: "string \<Rightarrow> chained_sessions \<Rightarrow> chained_sessions \<Rightarrow> chained_sessions \<Rightarrow> bool" where
  "table_step code db cur db' \<longleftrightarrow> db' = cur \<or> db' = db
     \<or> (\<exists>s'. (freshly_pushed s' \<or> (\<exists>s \<in> set db. session_step code s s')) \<and> (db' = cas_save s' cur \<or> db' = cas_save s' db))"

lemma table_step_same [intro]: "table_step code db cur db" "table_step code db cur cur"
  by (simp_all add: table_step_def)

lemma table_step_save [intro]:
  assumes "s \<in> set db" "session_step code s s'"
  shows "table_step code db cur (cas_save s' cur)" "table_step code db cur (cas_save s' db)"
  using assms by (auto simp: table_step_def)

lemma table_step_pushed [intro]: "freshly_pushed s' \<Longrightarrow> table_step code db cur (cas_save s' db)"
  by (auto simp: table_step_def)


section \<open>The handlers implement it\<close>

lemma push_request_step:
  assumes "push_request env clock others freshState sessionId tenantId base config pcid q dpopJwt attestation st = (r, st')"
  shows "table_step code (chs_sessions st) cur (chs_sessions st')"
proof -
  show ?thesis
  proof (cases "ebind (require (cpr_response_type q = ''code'') (Chained_Bad_Request ''Invalid response_type, must be \"code\"''))
             (\<lambda>_. assertPkceCodeChallenge (cpr_code_challenge q) (cpr_code_challenge_method q))")
    case (Inl e)
    with assms show ?thesis by (auto simp: push_request_def)
  next
    case (Inr u)
    then have "truthy (cpr_code_challenge q)" "cpr_code_challenge_method q = Some ''S256''"
      by (auto simp: returns assertPkceCodeChallenge_def assertS256CodeChallenge_def map_failure_def split: sum.splits)
    then have "\<And>iss jkt n m. freshly_pushed (pushed_chained_session tenantId sessionId iss q jkt pcid n m)"
      by (simp add: freshly_pushed_def pushed_chained_session_def)
    note pushed = table_step_pushed [OF this]
    obtain pf proofs where v: "verifyChainedAsDpopProof (che_header env) (che_dpop env) others base ''par'' dpopJwt None False
        (chs_proofs st) = (pf, proofs)" by fastforce
    from assms Inr v show ?thesis
      by (auto simp: push_request_def Let_def returns pushed split: sum.split_asm)
  qed
qed

lemma pushed_session_of_step:
  assumes "pushed_session_of now tenantId clientId requestUri db = (r, db')"
  shows "table_step code db cur db'"
    and "r = Inr s \<Longrightarrow> db' = db \<and> s \<in> set db \<and> cas_status s = Pending_Authorize \<and> cas_clientId s = clientId
           \<and> now \<le> cas_expiresAt s \<and> cas_tenantId s = tenantId"
  using assms sql_find_one_Some
  by (fastforce simp: pushed_session_of_def cas_findForTenant_def intro: session_step.expire split: if_splits option.splits)+

lemma getUpstreamDiscovery_sessions:
  assumes "getUpstreamDiscovery env clock tenantId issuer st = (r, st1)"
  shows "chs_sessions st1 = chs_sessions st" "chs_offers st1 = chs_offers st"
  using assms by (auto simp: getUpstreamDiscovery_def Let_def split: sum.split_asm prod.split_asm if_split_asm)

lemma chained_handlePar_step:
  assumes "chained_handlePar env clock others freshState sessionId tenantId q dpopJwt attestation st = (r, st')"
  shows "table_step code (chs_sessions st) cur (chs_sessions st')"
  using assms push_request_step by (fastforce simp: chained_handlePar_def split: sum.splits)

lemma managed_handlePar_step:
  assumes "managed_handlePar env clock others freshState sessionId tenantId serverId q dpopJwt attestation st = (r, st')"
  shows "table_step code (chs_sessions st) cur (chs_sessions st')"
  using assms push_request_step by (fastforce simp: managed_handlePar_def split: sum.splits)

lemma chained_handleAuthorize_step:
  assumes "chained_handleAuthorize env clock between secrets tenantId clientId requestUri st = (r, st')"
  shows "table_step code (chs_sessions st) (between (chs_sessions st)) (chs_sessions st')"
proof -
  obtain p db where p: "pushed_session_of (clock 0) tenantId clientId requestUri (chs_sessions st) = (p, db)" by fastforce
  show ?thesis
  proof (cases p)
    case (Inl e)
    then show ?thesis using assms p pushed_session_of_step(1) [OF p]
      by (auto simp: chained_handleAuthorize_def split: sum.splits option.splits)
  next
    case (Inr s)
    have s: "s \<in> set (chs_sessions st)" "cas_status s = Pending_Authorize"
      using pushed_session_of_step(2) [OF p Inr] by auto
    note save = table_step_save(1) [OF s(1) session_step.send_upstream [OF s(2)]]
    show ?thesis using assms p Inr
      by (auto simp: chained_handleAuthorize_def save split: sum.split_asm option.split_asm prod.split_asm
          dest!: getUpstreamDiscovery_sessions(1))
  qed
qed


lemma managed_handleAuthorize_step:
  assumes "managed_handleAuthorize env createRequest clock tenantId serverId clientId requestUri origin st = (r, st')"
  shows "table_step code (chs_sessions st) cur (chs_sessions st')"
proof -
  obtain p db where p: "pushed_session_of (clock 0) tenantId clientId requestUri (chs_sessions st) = (p, db)" by fastforce
  show ?thesis
  proof (cases p)
    case (Inl e)
    then show ?thesis using assms p pushed_session_of_step(1) [OF p]
      by (auto simp: managed_handleAuthorize_def split: sum.split_asm)
  next
    case (Inr s)
    have s: "s \<in> set (chs_sessions st)" "cas_status s = Pending_Authorize" "db = chs_sessions st"
      using pushed_session_of_step(2) [OF p Inr] by auto
    note save = table_step_save(2) [OF s(1) session_step.ask_presentation [OF s(2)]]
    show ?thesis using assms p Inr s(3)
      by (auto simp: managed_handleAuthorize_def save Let_def split: sum.split_asm prod.split_asm)
  qed
qed

lemma handleUpstreamError_step:
  assumes "handleUpstreamError env tenantId state err description st = (r, st')"
  shows "table_step code (chs_sessions st) cur (chs_sessions st')"
proof (cases "findByUpstreamState tenantId state None (chs_sessions st)")
  case (Some s)
  then have "s \<in> set (chs_sessions st)" by (auto simp: findByUpstreamState_def dest: sql_find_one_Some)
  from table_step_save(2) [OF this session_step.expire] Some assms show ?thesis
    by (auto simp: handleUpstreamError_def)
qed (use assms in \<open>auto simp: handleUpstreamError_def\<close>)

lemma exchanged_session:
  assumes "exchangeUpstreamCode env s code up doc callbackUrl = Inr s1"
  obtains idClaims accessClaims where
    "s1 = s\<lparr>cas_upstreamIdTokenClaims := idClaims, cas_upstreamAccessTokenClaims := Some accessClaims\<rparr>"
proof -
  obtain s0 claims where s1: "s1 = s0\<lparr>cas_upstreamAccessTokenClaims := Some claims\<rparr>"
    and s0: "s0 = s \<or> (\<exists>c. s0 = s\<lparr>cas_upstreamIdTokenClaims := c\<rparr>)"
    using assms by (auto simp: exchangeUpstreamCode_def returns split: if_split_asm option.split_asm)
  show thesis
  proof (cases "s0 = s")
    case True
    with s1 show thesis by (intro that [where idClaims = "cas_upstreamIdTokenClaims s" and accessClaims = claims]) simp
  next
    case False
    with s0 obtain c where "s0 = s\<lparr>cas_upstreamIdTokenClaims := c\<rparr>" by blast
    with s1 show thesis by (intro that [where idClaims = c and accessClaims = claims]) simp
  qed
qed

lemma handleUpstreamCallback_step:
  assumes "handleUpstreamCallback env clock between newCode tenantId code state err description st = (r, st')"
  shows "table_step newCode (chs_sessions st) (between (chs_sessions st)) (chs_sessions st')"
proof (cases "truthy err")
  case True
  with assms show ?thesis by (auto simp: handleUpstreamCallback_def intro: handleUpstreamError_step)
next
  case False
  show ?thesis
  proof (cases "findByUpstreamState tenantId state (Some Pending_Upstream_Callback) (chs_sessions st)")
    case None
    with assms False show ?thesis by (auto simp: handleUpstreamCallback_def)
  next
    case (Some s)
    then have s: "s \<in> set (chs_sessions st)" "cas_status s = Pending_Upstream_Callback"
      by (auto simp: findByUpstreamState_def dest: sql_find_one_Some)
    have ok: "table_step newCode (chs_sessions st) (between (chs_sessions st))
        (cas_save (authorized_session newCode now s1) (between (chs_sessions st)))"
      if x: "exchangeUpstreamCode env s code up doc url = Inr s1" for up doc url s1 now
    proof -
      obtain i a where "s1 = s\<lparr>cas_upstreamIdTokenClaims := i, cas_upstreamAccessTokenClaims := Some a\<rparr>"
        by (rule exchanged_session [OF x])
      with table_step_save(1) [OF s(1) session_step.upstream_success [OF s(2)]] show ?thesis by simp
    qed
    note expired = table_step_save(1) [OF s(1) session_step.expire]
    from assms False Some show ?thesis
      by (auto simp: handleUpstreamCallback_def Let_def expired ok split: sum.split_asm option.split_asm prod.split_asm
          dest!: getUpstreamDiscovery_sessions(1))
  qed
qed

lemma handleVerifierCallback_step:
  assumes "handleVerifierCallback env clock newCode tenantId serverId sid responseCode err description st = (r, st')"
  shows "table_step newCode (chs_sessions st) cur (chs_sessions st')"
proof (cases "cas_findForTenant tenantId sid Pending_Vp_Callback (chs_sessions st)")
  case None
  with assms show ?thesis by (auto simp: handleVerifierCallback_def split: sum.split_asm)
next
  case (Some s)
  then have s: "s \<in> set (chs_sessions st)" "cas_status s = Pending_Vp_Callback"
    by (auto simp: cas_findForTenant_def dest: sql_find_one_Some)
  note steps = table_step_save(2) [OF s(1) session_step.expire] table_step_save(2) [OF s(1) session_step.presentation_success [OF s(2)]]
  from assms Some show ?thesis
    by (auto simp: handleVerifierCallback_def refuse_callback_def steps split: sum.split_asm if_split_asm)
qed


lemma redeemed_session_cases:
  assumes "redeemed_session env clock tenantId base config q attestation db = (r, db')"
  obtains
    (refused) e where "r = Inl e" "table_step code db cur db'"
  | (redeemed) s where "r = Inr s" "db' = db" "s \<in> set db" "cas_tenantId s = tenantId"
      "(tkb_grant_type q = ''authorization_code'' \<and> cas_status s = Chained_Authorized
          \<and> cas_authorizationCode s = tkb_code q \<and> truthy (tkb_code q)
          \<and> (case cas_authorizationCodeExpiresAt s of None \<Rightarrow> True | Some t \<Rightarrow> clock 1 \<le> t)
          \<and> cas_codeChallengeMethod s = Some ''S256'' \<and> truthy (tkb_code_verifier q)
          \<and> che_sha256 env (the (tkb_code_verifier q)) = the (cas_codeChallenge s))
       \<or> (tkb_grant_type q = ''refresh_token'' \<and> truthy (tkb_refresh_token q) \<and> cas_refreshToken s = tkb_refresh_token q
          \<and> rp_enabled (refreshTokenPolicy (bi_token config))
          \<and> clock 0 \<le> enforcedRefreshTokenExpiry (cas_refreshTokenExpiresAt s) (cas_createdAt s)
               (refreshTokenPolicy (bi_token config)))"
      "attest_wallet env tenantId base config attestation = Inr ()"
      "truthy (tkb_redirect_uri q) \<longrightarrow> tkb_redirect_uri q = Some (cas_redirectUri s)"
proof -
  show thesis
  proof (cases "redeemable_session env (clock 0) tenantId base config q attestation db")
    case (Inl e)
    with assms have "r = Inl e" "db' = db" by (auto simp: redeemed_session_def)
    then show thesis by (intro refused) auto
  next
    case c: (Inr s)
    then have grant: "tkb_grant_type q = ''authorization_code'' \<or> tkb_grant_type q = ''refresh_token''"
      and att: "attest_wallet env tenantId base config attestation = Inr ()"
      and res: "resolveSessionForTokenRequest (clock 0) db tenantId q (refreshTokenPolicy (bi_token config)) = Inr s"
      by (auto simp: redeemable_session_def returns)
    obtain v dv where v: "assertTokenRequestSessionValid (che_sha256 env) (clock 1) s q db = (v, dv)" by fastforce
    have s: "s \<in> set db" "cas_tenantId s = tenantId"
      using grant resolved_by_code [OF res] resolved_by_refresh [OF res] by fastforce+
    show thesis
    proof (cases v)
      case (Inl e)
      have "table_step code db cur dv"
        using v table_step_save(2) [OF s(1) session_step.expire]
        by (auto simp: assertTokenRequestSessionValid_def split: if_split_asm)
      then show thesis using assms c v Inl by (intro refused [of e]) (auto simp: redeemed_session_def)
    next
      case (Inr u)
      note valid = valid_token_request [OF v [unfolded Inr]]
      show thesis
      proof (rule redeemed [of s])
        show "r = Inr s" "db' = db"
          using assms c v Inr valid(1) by (auto simp: redeemed_session_def)
        show "truthy (tkb_redirect_uri q) \<longrightarrow> tkb_redirect_uri q = Some (cas_redirectUri s)" by (rule valid(3))
      qed (use grant att s valid(2) resolved_by_code [OF res] resolved_by_refresh [OF res] in auto)
    qed
  qed
qed


lemma redeem_chained_token_cases:
  assumes "redeem_chained_token env clock between others secrets tenantId base config extra q dpopJwt attestation st = (r, st')"
  obtains
    (refused) e db where "r = Inl e" "redeemed_session env clock tenantId base config q attestation (chs_sessions st) = (Inl e, db)"
      "chs_sessions st' = db"
  | (unsigned) e where "r = Inl e" "chs_sessions st' = between (chs_sessions st)"
  | (issued) s tokenType jkt proofs accessToken where
      "redeemed_session env clock tenantId base config q attestation (chs_sessions st) = (Inr s, chs_sessions st)"
      "resolveTokenBinding (che_header env) (che_dpop env) others base (bi_requireDPoP config) s dpopJwt (chs_proofs st)
         = (Inr (tokenType, jkt), proofs)"
      "sign_chained_token env tenantId config (extra s (buildAccessTokenPayload (clock 2) base
         (chained_audience env tenantId) s (chained_token_lifetime config) (fst secrets) jkt)) = Inr accessToken"
      "r = Inr (chained_reply_of accessToken tokenType config s
         (fst (issued_chained_session clock secrets config (tkb_grant_type q) jkt s)))"
      "chs_sessions st' = cas_save (snd (issued_chained_session clock secrets config (tkb_grant_type q) jkt s))
         (between (chs_sessions st))"
proof -
  obtain c db where c: "redeemed_session env clock tenantId base config q attestation (chs_sessions st) = (c, db)" by fastforce
  show thesis
  proof (cases c)
    case (Inl e)
    with assms c show thesis by (intro refused [of e db]) (auto simp: redeem_chained_token_def)
  next
    case s: (Inr s)
    with c have db: "db = chs_sessions st" by (cases rule: redeemed_session_cases [OF c]) auto
    obtain b proofs where b: "resolveTokenBinding (che_header env) (che_dpop env) others base (bi_requireDPoP config) s
        dpopJwt (chs_proofs st) = (b, proofs)" by fastforce
    show thesis
    proof (cases b)
      case (Inl e)
      with assms c s b show thesis by (intro unsigned [of e]) (auto simp: redeem_chained_token_def)
    next
      case (Inr k)
      obtain tokenType jkt where k: "k = (tokenType, jkt)" by fastforce
      show thesis
      proof (cases "sign_chained_token env tenantId config (extra s (buildAccessTokenPayload (clock 2) base
         (chained_audience env tenantId) s (chained_token_lifetime config) (fst secrets) jkt))")
        case x: (Inl e)
        with assms c s b Inr k show thesis by (intro unsigned [of e]) (auto simp: redeem_chained_token_def)
      next
        case x: (Inr accessToken)
        obtain refresh s1 where i: "issued_chained_session clock secrets config (tkb_grant_type q) jkt s = (refresh, s1)"
          by fastforce
        from assms c s b Inr k x i db show thesis
          by (intro issued [of s tokenType jkt proofs accessToken]) (auto simp: redeem_chained_token_def)
      qed
    qed
  qed
qed

lemma redeem_chained_token_step:
  assumes "redeem_chained_token env clock between others secrets tenantId base config extra q dpopJwt attestation st = (r, st')"
  shows "table_step code (chs_sessions st) (between (chs_sessions st)) (chs_sessions st')"
  using assms
proof (cases rule: redeem_chained_token_cases)
  case (refused e db)
  from refused(2) have "table_step code (chs_sessions st) (between (chs_sessions st)) db"
    by (cases rule: redeemed_session_cases [where cur = "between (chs_sessions st)"]) auto
  with refused(3) show ?thesis by simp
next
  case (issued s tokenType jkt proofs accessToken)
  have "s \<in> set (chs_sessions st) \<and> session_step code s (snd (issued_chained_session clock secrets config (tkb_grant_type q) jkt s))"
    using issued(1) by (cases rule: redeemed_session_cases) (auto intro!: session_step.redeem)
  with issued(5) show ?thesis by (auto intro: table_step_save(1))
qed auto

lemma chained_handleToken_step:
  assumes "chained_handleToken env clock between others secrets tenantId q dpopJwt attestation st = (r, st')"
  shows "table_step code (chs_sessions st) (between (chs_sessions st)) (chs_sessions st')"
  using assms by (auto simp: chained_handleToken_def split: sum.split_asm intro: redeem_chained_token_step)

lemma managed_handleToken_step:
  assumes "managed_handleToken env clock between others secrets tenantId serverId q dpopJwt attestation st = (r, st')"
  shows "table_step code (chs_sessions st) (between (chs_sessions st)) (chs_sessions st')"
  using assms by (auto simp: managed_handleToken_def split: sum.split_asm intro: redeem_chained_token_step)


section \<open>Requests and histories\<close>

text \<open>A request from one state to the next: \<open>code\<close> is the code it may give to a session, and \<open>late\<close> holds of
  requests that succeed and save only at the end, after what \<open>between\<close> did.\<close>

inductive chained_request ::
    "chained_env \<Rightarrow> create_request \<Rightarrow> string \<Rightarrow> (chained_sessions \<Rightarrow> chained_sessions) \<Rightarrow> chained_state \<Rightarrow> bool \<Rightarrow> chained_state \<Rightarrow> bool"
  for env createRequest code between where
  par: "chained_handlePar env clock others freshState sessionId tenantId q dpopJwt attestation st = (r, st')
    \<Longrightarrow> chained_request env createRequest code between st False st'"
| managed_par: "managed_handlePar env clock others freshState sessionId tenantId serverId q dpopJwt attestation st = (r, st')
    \<Longrightarrow> chained_request env createRequest code between st False st'"
| authorize: "chained_handleAuthorize env clock between secrets tenantId clientId requestUri st = (r, st')
    \<Longrightarrow> chained_request env createRequest code between st (isl r = False) st'"
| managed_authorize:
    "managed_handleAuthorize env createRequest clock tenantId serverId clientId requestUri origin st = (r', st')
    \<Longrightarrow> chained_request env createRequest code between st False st'"
| upstream_callback: "handleUpstreamCallback env clock between code tenantId upCode state err description st = (r, st')
    \<Longrightarrow> chained_request env createRequest code between st (\<not> truthy err \<and> isl r = False) st'"
| verifier_callback: "handleVerifierCallback env clock code tenantId serverId sid responseCode err description st = (r, st')
    \<Longrightarrow> chained_request env createRequest code between st False st'"
| token: "chained_handleToken env clock between others tokenSecrets tenantId q' dpopJwt attestation st = (r'', st')
    \<Longrightarrow> chained_request env createRequest code between st (isl r'' = False) st'"
| managed_token: "managed_handleToken env clock between others tokenSecrets tenantId serverId q' dpopJwt attestation st = (r'', st')
    \<Longrightarrow> chained_request env createRequest code between st (isl r'' = False) st'"

lemma chained_request_step:
  assumes "chained_request env createRequest code between st late st'"
  shows "table_step code (chs_sessions st) (between (chs_sessions st)) (chs_sessions st')"
  using assms
  by cases (auto intro: chained_handlePar_step managed_handlePar_step chained_handleAuthorize_step managed_handleAuthorize_step
      handleUpstreamCallback_step handleVerifierCallback_step chained_handleToken_step managed_handleToken_step)

text \<open>The tables requests leave, the latest first. A request reads a table of the history and saves to the
  latest, \<open>cur\<close>; only one that is \<open>late\<close> may have read an older table.\<close>

inductive chained_history :: "chained_env \<Rightarrow> create_request \<Rightarrow> chained_sessions list \<Rightarrow> bool"
  for env createRequest where
  initial: "chained_history env createRequest [[]]"
| request: "chained_history env createRequest (cur # hist) \<Longrightarrow> chs_sessions st \<in> set (cur # hist)
    \<Longrightarrow> chained_request env createRequest code between st late st' \<Longrightarrow> between (chs_sessions st) = cur
    \<Longrightarrow> chs_sessions st = cur \<or> late
    \<Longrightarrow> chained_history env createRequest (chs_sessions st' # cur # hist)"
| cleanup: "chained_history env createRequest (cur # hist)
    \<Longrightarrow> chained_history env createRequest (chained_cleanup now cur # cur # hist)"

text \<open>Requests one after the other, none of which gives out \<open>c\<close> again.\<close>

inductive later_sessions :: "chained_env \<Rightarrow> create_request \<Rightarrow> string \<Rightarrow> chained_sessions \<Rightarrow> chained_sessions \<Rightarrow> bool"
  for env createRequest c db where
  same: "later_sessions env createRequest c db db"
| request: "later_sessions env createRequest c db (chs_sessions st) \<Longrightarrow> code \<noteq> c
    \<Longrightarrow> chained_request env createRequest code (\<lambda>d. d) st late st' \<Longrightarrow> later_sessions env createRequest c db (chs_sessions st')"
| cleanup: "later_sessions env createRequest c db db'
    \<Longrightarrow> later_sessions env createRequest c db (chained_cleanup now db')"


section \<open>Properties of every session of a history\<close>

locale session_invariant =
  fixes P :: "chained_session \<Rightarrow> bool"
  assumes pushed: "freshly_pushed s \<Longrightarrow> P s"
    and step: "session_step code s s' \<Longrightarrow> P s \<Longrightarrow> P s'"
begin

lemma after_step:
  assumes "table_step code db cur db'" "\<forall>s \<in> set db. P s" "\<forall>s \<in> set cur. P s"
  shows "\<forall>s \<in> set db'. P s"
proof -
  have "\<forall>s \<in> set db'. P s" if "freshly_pushed s' \<or> (\<exists>s \<in> set db. session_step code s s')"
    "db' = cas_save s' cur \<or> db' = cas_save s' db" for s'
  proof -
    have "P s'" using that(1) assms(2) pushed step by blast
    with that(2) assms(2,3) show ?thesis by (auto simp: save_set)
  qed
  with assms show ?thesis unfolding table_step_def by blast
qed

lemma in_history:
  assumes "chained_history env createRequest hist"
  shows "\<forall>db \<in> set hist. \<forall>s \<in> set db. P s"
  using assms
proof induction
  case (request cur hist st code between late st')
  from request.IH request.hyps(2,4) after_step [OF chained_request_step [OF request.hyps(3)]] show ?case by auto
next
  case (cleanup cur hist now)
  then show ?case by (auto simp: chained_cleanup_def cas_deleteExpired_def sql_delete_rows)
qed simp

end

text \<open>A session with a code or token has been authenticated: the upstream provider redeemed the code of its
  callback, or the verifier completed its presentation. Every session proves PKCE with S256, and a code expires.\<close>

definition authenticated_session :: "chained_session \<Rightarrow> bool" where
  "authenticated_session s \<longleftrightarrow> cas_upstreamAccessTokenClaims s \<noteq> None \<or> truthy (cas_vpResponseCode s)"

definition sound_session :: "chained_session \<Rightarrow> bool" where
  "sound_session s \<longleftrightarrow> truthy (cas_codeChallenge s) \<and> cas_codeChallengeMethod s = Some ''S256''
     \<and> (cas_authorizationCode s \<noteq> None \<or> cas_refreshToken s \<noteq> None \<or> cas_status s = Chained_Authorized
        \<longrightarrow> authenticated_session s)"

definition expiring_code :: "chained_session \<Rightarrow> bool" where
  "expiring_code s \<longleftrightarrow> (cas_status s = Chained_Authorized \<longrightarrow> cas_authorizationCodeExpiresAt s \<noteq> None)"

lemma issued_columns:
  "cas_codeChallenge (snd (issued_chained_session clock secrets config grant jkt s)) = cas_codeChallenge s"
  "cas_codeChallengeMethod (snd (issued_chained_session clock secrets config grant jkt s)) = cas_codeChallengeMethod s"
  "cas_authorizationCode (snd (issued_chained_session clock secrets config grant jkt s)) = cas_authorizationCode s"
  "cas_upstreamAccessTokenClaims (snd (issued_chained_session clock secrets config grant jkt s)) = cas_upstreamAccessTokenClaims s"
  "cas_vpResponseCode (snd (issued_chained_session clock secrets config grant jkt s)) = cas_vpResponseCode s"
  "cas_status (snd (issued_chained_session clock secrets config grant jkt s)) = Token_Issued"
  "cas_id (snd (issued_chained_session clock secrets config grant jkt s)) = cas_id s"
  by (simp_all add: issued_chained_session_def issueRefreshTokenIfEnabled_def bound_session_def
      retainSessionForIssuedTokens_def Let_def split: prod.split)

interpretation sound: session_invariant sound_session
proof
  fix code s s' assume "session_step code s s'" "sound_session s"
  then show "sound_session s'"
    by cases (auto simp: sound_session_def authenticated_session_def authorized_session_def awaiting_upstream_def issued_columns
        split: prod.splits)
qed (auto simp: freshly_pushed_def sound_session_def)

interpretation expiring: session_invariant expiring_code
proof
  fix code s s' assume "session_step code s s'" "expiring_code s"
  then show "expiring_code s'"
    by cases (auto simp: expiring_code_def authorized_session_def awaiting_upstream_def issued_columns split: prod.splits)
qed (auto simp: freshly_pushed_def expiring_code_def)

end
