(* ===== verification/Chained_Properties.thy ===== *)
theory Chained_Properties
  imports Chained_Machine
begin

text \<open>
  What the chained and the managed authorization servers guarantee: who gets a token, how long its session is
  kept, that a redeemed code is spent, and that the flow of a wallet ends with a token. The lemmas before them
  show what a token says and what the servers do not check.
\<close>

section \<open>What a token says\<close>

lemma payload_claims:
  "map_of (buildAccessTokenPayload now issuer audience s l jti jkt) ''iss'' = Some (JStr issuer)"
  "map_of (buildAccessTokenPayload now issuer audience s l jti jkt) ''sub'' = Some (JStr (cas_clientId s))"
  "map_of (buildAccessTokenPayload now issuer audience s l jti jkt) ''issuer_state'' = Some (JStr (cas_issuerState s))"
  "truthy jkt \<Longrightarrow> map_of (buildAccessTokenPayload now issuer audience s l jti jkt) ''cnf'' = Some (JObj [(''jkt'', JStr (the jkt))])"
  by (simp_all add: buildAccessTokenPayload_def)

text \<open>The servers' own claims leave the claims of the session alone.\<close>

definition keeps_claims :: "((string \<times> json) list \<Rightarrow> (string \<times> json) list) \<Rightarrow> bool" where
  "keeps_claims f \<longleftrightarrow> (\<forall>p. \<forall>k \<in> {''iss'', ''sub'', ''issuer_state'', ''cnf''}. map_of (f p) k = map_of p k)"

lemma upstream_claims_keep: "keeps_claims (upstream_claims s)"
  by (auto simp: keeps_claims_def upstream_claims_def Let_def split: option.splits)

lemma presented_claims_keep: "keeps_claims (presented_claims tenantId offers s)"
  by (auto simp: keeps_claims_def presented_claims_def split: sum.splits option.splits)

lemma token_binding:
  assumes "resolveTokenBinding decodeHeader library others base requireDPoP s jwt proofs = (Inr (tokenType, jkt), proofs')"
  shows "requireDPoP = Some True \<or> truthy (cas_dpopJkt s) \<Longrightarrow> tokenType = ''DPoP'' \<and> truthy jkt"
    and "truthy (cas_dpopJkt s) \<Longrightarrow> jkt = cas_dpopJkt s"
proof -
  obtain r where v: "verifyDpopProof decodeHeader library others (chained_dpop_input base ''token'' jwt (cas_dpopJkt s)
      (requireDPoP = Some True \<or> truthy (cas_dpopJkt s))) proofs = (Inr r, proofs')"
    and r: "tokenType = bound_token_type r" "jkt = (if truthy r then r else None)"
    using assms by (auto simp: resolveTokenBinding_def verifyChainedAsDpopProof_def returns Let_def map_failure_def
        split: prod.split_asm sum.split_asm)
  note binds = verifyDpopProof_binds [OF v]
  show "requireDPoP = Some True \<or> truthy (cas_dpopJkt s) \<Longrightarrow> tokenType = ''DPoP'' \<and> truthy jkt"
    using binds(1) r by (simp add: chained_dpop_input_def bound_token_type_def)
  show "jkt = cas_dpopJkt s" if b: "truthy (cas_dpopJkt s)"
  proof -
    have "truthy r" using binds(1) b by (simp add: chained_dpop_input_def)
    with binds(2) b r show ?thesis by (simp add: chained_dpop_input_def)
  qed
qed

lemma signed_payload:
  assumes "sign_chained_token env tenantId config payload = Inr token"
  obtains header keyId where "che_signJWT env payload header tenantId keyId = Inr token"
  using assms by (auto simp: sign_chained_token_def returns Let_def split: prod.split_asm)


section \<open>Who gets a token\<close>

text \<open>What the session and the request of an issued token have in common.\<close>

definition token_authorized ::
    "chained_env \<Rightarrow> (nat \<Rightarrow> date) \<Rightarrow> string \<Rightarrow> string \<Rightarrow> managed_server \<Rightarrow> token_body \<Rightarrow> chained_reply \<Rightarrow> chained_session \<Rightarrow> bool" where
  "token_authorized env clock tenantId base config q reply s \<longleftrightarrow>
     cas_tenantId s = tenantId \<and> authenticated_session s
     \<and> ((tkb_grant_type q = ''authorization_code'' \<and> cas_authorizationCode s = tkb_code q
           \<and> cas_status s = Chained_Authorized
           \<and> (case cas_authorizationCodeExpiresAt s of None \<Rightarrow> False | Some t \<Rightarrow> clock 1 \<le> t)
           \<and> che_sha256 env (the (tkb_code_verifier q)) = the (cas_codeChallenge s))
        \<or> (tkb_grant_type q = ''refresh_token'' \<and> cas_refreshToken s = tkb_refresh_token q
           \<and> clock 0 \<le> enforcedRefreshTokenExpiry (cas_refreshTokenExpiresAt s) (cas_createdAt s)
                (refreshTokenPolicy (bi_token config))))
     \<and> (\<exists>payload header keyId. che_signJWT env payload header tenantId keyId = Inr (crp_access_token reply)
          \<and> map_of payload ''iss'' = Some (JStr base) \<and> map_of payload ''sub'' = Some (JStr (cas_clientId s))
          \<and> map_of payload ''issuer_state'' = Some (JStr (cas_issuerState s))
          \<and> (truthy (cas_dpopJkt s) \<longrightarrow> map_of payload ''cnf'' = Some (JObj [(''jkt'', JStr (the (cas_dpopJkt s)))])))
     \<and> (bi_requireDPoP config = Some True \<or> truthy (cas_dpopJkt s) \<longrightarrow> crp_token_type reply = ''DPoP'')"

lemma redeemed_token_authorized:
  assumes history: "chained_history env createRequest hist" "chs_sessions st \<in> set hist"
    and redeemed: "redeem_chained_token env clock between others secrets tenantId base config extra q dpopJwt attestation st
      = (Inr reply, st')"
    and keeps: "\<And>s. keeps_claims (extra s)"
  shows "\<exists>s \<in> set (chs_sessions st). token_authorized env clock tenantId base config q reply s"
  using redeemed
proof (cases rule: redeem_chained_token_cases)
  case (issued s tokenType jkt proofs accessToken)
  let ?payload = "extra s (buildAccessTokenPayload (clock 2) base (chained_audience env tenantId) s
    (chained_token_lifetime config) (fst secrets) jkt)"
  obtain header keyId where signed: "che_signJWT env ?payload header tenantId keyId = Inr accessToken"
    using signed_payload [OF issued(3)] .
  have reply: "crp_access_token reply = accessToken" "crp_token_type reply = tokenType"
    using issued(4) by (simp_all add: chained_reply_of_def)
  note binding = token_binding [OF issued(2)]
  have claims: "map_of ?payload ''iss'' = Some (JStr base)" "map_of ?payload ''sub'' = Some (JStr (cas_clientId s))"
    "map_of ?payload ''issuer_state'' = Some (JStr (cas_issuerState s))"
    "truthy jkt \<Longrightarrow> map_of ?payload ''cnf'' = Some (JObj [(''jkt'', JStr (the jkt))])"
    using keeps by (simp_all add: keeps_claims_def payload_claims)
  have payload: "\<exists>payload header keyId. che_signJWT env payload header tenantId keyId = Inr (crp_access_token reply)
      \<and> map_of payload ''iss'' = Some (JStr base) \<and> map_of payload ''sub'' = Some (JStr (cas_clientId s))
      \<and> map_of payload ''issuer_state'' = Some (JStr (cas_issuerState s))
      \<and> (truthy (cas_dpopJkt s) \<longrightarrow> map_of payload ''cnf'' = Some (JObj [(''jkt'', JStr (the (cas_dpopJkt s)))]))"
  proof (intro exI [of _ ?payload] exI [of _ header] exI [of _ keyId] conjI impI)
    assume "truthy (cas_dpopJkt s)"
    with binding(2) claims(4) show "map_of ?payload ''cnf'' = Some (JObj [(''jkt'', JStr (the (cas_dpopJkt s)))])" by simp
  qed (use signed reply claims in simp_all)
  show ?thesis
    using issued(1)
  proof (cases rule: redeemed_session_cases)
    case (redeemed s')
    then have s: "s \<in> set (chs_sessions st)" by simp
    with history sound.in_history expiring.in_history have "sound_session s" "expiring_code s" by blast+
    moreover from redeemed have "cas_authorizationCode s \<noteq> None \<or> cas_refreshToken s \<noteq> None"
      by (auto elim!: truthyE)
    ultimately have "authenticated_session s" by (auto simp: sound_session_def)
    moreover have "case cas_authorizationCodeExpiresAt s of None \<Rightarrow> False | Some t \<Rightarrow> clock 1 \<le> t"
      if "tkb_grant_type q = ''authorization_code''"
      using that redeemed \<open>expiring_code s\<close> by (auto simp: expiring_code_def split: option.split_asm)
    ultimately have "token_authorized env clock tenantId base config q reply s"
      unfolding token_authorized_def using redeemed payload binding(1) reply by auto
    with s show ?thesis by blast
  qed simp
qed simp_all

lemma issued_token [consumes 1]:
  assumes "chained_handleToken env clock between others secrets tenantId q dpopJwt attestation st = (Inr reply, st')
      \<or> managed_handleToken env clock between others secrets tenantId serverId q dpopJwt attestation st = (Inr reply, st')"
  obtains base config extra where
    "getChainedAsConfig env tenantId = Inr config \<and> base = getChainedAsBaseUrl env tenantId
     \<or> getAuthorizationServerConfig env tenantId serverId = Inr config \<and> base = getAuthorizationServerBaseUrl env tenantId serverId"
    "\<And>s. keeps_claims (extra s)"
    "redeem_chained_token env clock between others secrets tenantId base config extra q dpopJwt attestation st = (Inr reply, st')"
proof -
  from assms consider
    (chained) config where "getChainedAsConfig env tenantId = Inr config"
      "redeem_chained_token env clock between others secrets tenantId (getChainedAsBaseUrl env tenantId) config
         upstream_claims q dpopJwt attestation st = (Inr reply, st')"
  | (managed) config where "getAuthorizationServerConfig env tenantId serverId = Inr config"
      "redeem_chained_token env clock between others secrets tenantId (getAuthorizationServerBaseUrl env tenantId serverId)
         config (presented_claims tenantId (chs_offers st)) q dpopJwt attestation st = (Inr reply, st')"
    by (cases "getChainedAsConfig env tenantId"; cases "getAuthorizationServerConfig env tenantId serverId")
      (auto simp: chained_handleToken_def managed_handleToken_def)
  then show thesis
    by cases (auto intro: that upstream_claims_keep presented_claims_keep)
qed



section \<open>A code is spent\<close>

definition spent_code :: "string \<Rightarrow> chained_sessions \<Rightarrow> bool" where
  "spent_code c db \<longleftrightarrow> (\<forall>r \<in> set db. cas_authorizationCode r = Some c \<longrightarrow> cas_status r \<noteq> Chained_Authorized)"

lemma session_step_spent:
  assumes "session_step code s s'" "code \<noteq> c"
  shows "cas_authorizationCode s' = Some c \<longrightarrow> cas_status s' \<noteq> Chained_Authorized \<or> cas_status s = Chained_Authorized \<and> s' = s"
  using assms by cases (auto simp: awaiting_upstream_def authorized_session_def issued_columns split: prod.splits)

lemma table_step_spent:
  assumes "table_step code db db db'" "code \<noteq> c" "spent_code c db"
  shows "spent_code c db'"
proof -
  have "spent_code c (cas_save s' db)" if "freshly_pushed s' \<or> (\<exists>s \<in> set db. session_step code s s')" for s'
  proof -
    have "cas_authorizationCode s' = Some c \<longrightarrow> cas_status s' \<noteq> Chained_Authorized"
      using that assms(2,3) session_step_spent [of code _ s' c] by (auto simp: spent_code_def freshly_pushed_def)
    with assms(3) show ?thesis by (auto simp: spent_code_def save_set)
  qed
  with assms(1,3) show ?thesis by (auto simp: table_step_def)
qed

lemma later_sessions_spent:
  assumes "later_sessions env createRequest c db db'" "spent_code c db"
  shows "spent_code c db'"
  using assms
proof induction
  case (request st code late st')
  with table_step_spent [OF chained_request_step [OF request.hyps(3)]] show ?case by simp
next
  case (cleanup db' now)
  then show ?case by (auto simp: spent_code_def chained_cleanup_def cas_deleteExpired_def sql_delete_rows)
qed

lemma redeem_spent_refused:
  assumes "spent_code c (chs_sessions st)" "tkb_grant_type q = ''authorization_code''" "tkb_code q = Some c"
  shows "isl (fst (redeem_chained_token env clock between others secrets tenantId base config extra q dpopJwt attestation st))"
proof -
  obtain r st' where r: "redeem_chained_token env clock between others secrets tenantId base config extra q dpopJwt attestation st
      = (r, st')" by fastforce
  then show ?thesis
  proof (cases rule: redeem_chained_token_cases)
    case (issued s tokenType jkt proofs accessToken)
    from issued(1) have False
      by (cases rule: redeemed_session_cases) (use assms in \<open>auto simp: spent_code_def\<close>)
    then show ?thesis ..
  qed (simp_all add: r)
qed

lemma redeem_spends:
  assumes "redeem_chained_token env clock (\<lambda>d. d) others secrets tenantId base config extra q dpopJwt attestation st = (Inr reply, st')"
    and "tkb_grant_type q = ''authorization_code''" "tkb_code q = Some c"
    and "\<forall>r \<in> set (chs_sessions st). \<forall>r' \<in> set (chs_sessions st).
      cas_authorizationCode r = Some c \<and> cas_authorizationCode r' = Some c \<longrightarrow> cas_id r = cas_id r'"
  shows "spent_code c (chs_sessions st')"
  using assms(1)
proof (cases rule: redeem_chained_token_cases)
  case (issued s tokenType jkt proofs accessToken)
  let ?s = "snd (issued_chained_session clock secrets config (tkb_grant_type q) jkt s)"
  from issued(1) have s: "s \<in> set (chs_sessions st)" "cas_authorizationCode s = Some c"
    by (cases rule: redeemed_session_cases; use assms(2,3) in auto)+
  have "cas_authorizationCode r \<noteq> Some c" if "r \<in> set (chs_sessions st)" "cas_id r \<noteq> cas_id s" for r
    using that s assms(4) by blast
  then show ?thesis
    unfolding issued(5) spent_code_def save_set by (auto simp: issued_columns)
qed simp_all

text \<open>C36: A code that a token request has redeemed is refused by the chained and by every managed server,
  whatever requests are handled between the two, one after the other.\<close>

theorem chained_code_single_use:
  assumes "chained_handleToken env clock (\<lambda>d. d) others secrets tenantId q dpopJwt attestation st = (Inr reply, st1)
      \<or> managed_handleToken env clock (\<lambda>d. d) others secrets tenantId serverId q dpopJwt attestation st = (Inr reply, st1)"
    and "tkb_grant_type q = ''authorization_code''" "tkb_code q = Some c"
    and "\<forall>r \<in> set (chs_sessions st). \<forall>r' \<in> set (chs_sessions st).
      cas_authorizationCode r = Some c \<and> cas_authorizationCode r' = Some c \<longrightarrow> cas_id r = cas_id r'"
    and "later_sessions env createRequest c (chs_sessions st1) (chs_sessions st2)"
    and "tkb_grant_type q2 = ''authorization_code''" "tkb_code q2 = Some c"
  shows "isl (fst (chained_handleToken env clock2 between2 others2 secrets2 tenantId2 q2 dpopJwt2 attestation2 st2))
    \<and> isl (fst (managed_handleToken env clock2 between2 others2 secrets2 tenantId2 serverId2 q2 dpopJwt2 attestation2 st2))"
proof -
  have "spent_code c (chs_sessions st1)"
    using assms(1)
  proof (cases rule: issued_token)
    case (1 base config extra)
    then show ?thesis by (intro redeem_spends [OF _ assms(2-4)])
  qed
  then have "spent_code c (chs_sessions st2)" by (rule later_sessions_spent [OF assms(5)])
  from redeem_spent_refused [OF this assms(6,7)] show ?thesis
    by (simp add: chained_handleToken_def managed_handleToken_def split: sum.split)
qed

text \<open>Two requests that both look the code up before either saves both get a token: the answer does not
  depend on what is saved in between.\<close>

lemma answer_ignores_interleaving:
  "fst (redeem_chained_token env clock between others secrets tenantId base config extra q dpopJwt attestation st)
   = fst (redeem_chained_token env clock between' others secrets tenantId base config extra q dpopJwt attestation st)"
  by (simp add: redeem_chained_token_def Let_def split: prod.split sum.split)

text \<open>The session of a code does not depend on the server it was authorized at: any server of the tenant
  redeems it, and names itself as the issuer of the token.\<close>

lemma code_redeemed_at_any_server:
  assumes "attest_wallet env tenantId base config attestation = Inr ()" "attest_wallet env tenantId base' config' attestation = Inr ()"
    and "tkb_grant_type q = ''authorization_code''"
  shows "redeemed_session env clock tenantId base config q attestation db = redeemed_session env clock tenantId base' config' q attestation db"
  using assms by (simp add: redeemed_session_def redeemable_session_def resolveSessionForTokenRequest_def)


text \<open>Neither the client of the request nor its attestation is compared with the client of the session.\<close>

lemma client_not_compared:
  "redeemed_session env clock tenantId base config (q\<lparr>tkb_client_id := client\<rparr>) attestation db
   = redeemed_session env clock tenantId base config q attestation db"
proof -
  have "redeemable_session env now tenantId base config (q\<lparr>tkb_client_id := client\<rparr>) attestation db
      = redeemable_session env now tenantId base config q attestation db" for now
    by (cases q) (simp only: redeemable_session_def resolveSessionForTokenRequest_def token_body.update_convs token_body.select_convs)
  moreover have "assertTokenRequestSessionValid sha now s (q\<lparr>tkb_client_id := client\<rparr>) db
      = assertTokenRequestSessionValid sha now s q db" for sha now s
    by (cases q) (simp only: assertTokenRequestSessionValid_def token_body.update_convs token_body.select_convs)
  ultimately show ?thesis by (simp only: redeemed_session_def)
qed


section \<open>Lifetimes\<close>

lemma issued_lifetimes:
  assumes "issued_chained_session clock secrets config grant jkt s = (refresh, s1)"
  shows "clock 4 + chained_token_lifetime config * 1000 \<le> cas_expiresAt s1" "cas_accessTokenJti s1 = Some (fst secrets)"
    and "refresh \<noteq> None \<Longrightarrow> cas_refreshToken s1 = refresh \<and> (\<exists>t. cas_refreshTokenExpiresAt s1 = Some t)"
    and "refresh \<noteq> None \<Longrightarrow> grant = ''refresh_token'' \<Longrightarrow> cas_refreshTokenExpiresAt s1
      = Some (enforcedRefreshTokenExpiry (cas_refreshTokenExpiresAt s) (cas_createdAt s) (refreshTokenPolicy (bi_token config)))"
  using assms by (auto simp: issued_chained_session_def issueRefreshTokenIfEnabled_def retainSessionForIssuedTokens_def
      bound_session_def Let_def split: if_split_asm)

lemma kept_until:
  assumes "s \<in> set db" "now \<le> cas_expiresAt s \<or> (cas_refreshToken s \<noteq> None \<and> cas_refreshTokenExpiresAt s = Some t \<and> now \<le> t)"
  shows "s \<in> set (chained_cleanup now db)"
  using assms by (auto simp: chained_cleanup_def cas_deleteExpired_def sql_delete_rows cas_expired_where_def)

text \<open>The session of an issued token survives the clean-up job until the access token expires, and until
  its refresh token expires; a refresh never moves that second time: it stays the expiry of the redeemed
  refresh token.\<close>

theorem chained_tokens_retained:
  assumes "chained_handleToken env clock between others secrets tenantId q dpopJwt attestation st = (Inr reply, st')
      \<or> managed_handleToken env clock between others secrets tenantId serverId q dpopJwt attestation st = (Inr reply, st')"
  shows "\<exists>s \<in> set (chs_sessions st). \<exists>s' \<in> set (chs_sessions st').
    cas_id s' = cas_id s \<and> cas_accessTokenJti s' = Some (fst secrets)
    \<and> (\<forall>now \<le> clock 4 + crp_expires_in reply * 1000. s' \<in> set (chained_cleanup now (chs_sessions st')))
    \<and> (crp_refresh_token reply \<noteq> None \<longrightarrow> cas_refreshToken s' = crp_refresh_token reply
        \<and> (\<exists>t. cas_refreshTokenExpiresAt s' = Some t \<and> (\<forall>now \<le> t. s' \<in> set (chained_cleanup now (chs_sessions st')))
            \<and> (tkb_grant_type q = ''refresh_token'' \<longrightarrow> cas_refreshToken s = tkb_refresh_token q
                \<and> (\<forall>t0. cas_refreshTokenExpiresAt s = Some t0 \<longrightarrow> t = t0))))"
  using assms
proof (cases rule: issued_token)
  case (1 base config extra)
  from 1(3) show ?thesis
  proof (cases rule: redeem_chained_token_cases)
    case (issued s tokenType jkt proofs accessToken)
    obtain refresh s' where i: "issued_chained_session clock secrets config (tkb_grant_type q) jkt s = (refresh, s')" by fastforce
    note life = issued_lifetimes [OF i]
    have s': "s' \<in> set (chs_sessions st')" using issued(5) i by (simp add: save_set)
    have s: "s \<in> set (chs_sessions st)"
      and grant: "tkb_grant_type q = ''refresh_token'' \<longrightarrow> cas_refreshToken s = tkb_refresh_token q"
      using issued(1) by (cases rule: redeemed_session_cases; auto)+
    have ids: "cas_id s' = cas_id s" using issued_columns(7) [of clock secrets config "tkb_grant_type q" jkt s] i by simp
    have reply: "crp_expires_in reply = chained_token_lifetime config" "crp_refresh_token reply \<noteq> None \<Longrightarrow> refresh = crp_refresh_token reply"
      using issued(4) i by (simp_all add: chained_reply_of_def split: if_split_asm)
    have access: "s' \<in> set (chained_cleanup now (chs_sessions st'))" if "now \<le> clock 4 + crp_expires_in reply * 1000" for now
      using kept_until [OF s'] that life(1) reply(1) by fastforce
    have refreshed: "cas_refreshToken s' = crp_refresh_token reply
        \<and> (\<exists>t. cas_refreshTokenExpiresAt s' = Some t \<and> (\<forall>now \<le> t. s' \<in> set (chained_cleanup now (chs_sessions st')))
            \<and> (tkb_grant_type q = ''refresh_token'' \<longrightarrow> cas_refreshToken s = tkb_refresh_token q
                \<and> (\<forall>t0. cas_refreshTokenExpiresAt s = Some t0 \<longrightarrow> t = t0)))"
      if r: "crp_refresh_token reply \<noteq> None"
    proof -
      from r reply(2) have refresh: "refresh = crp_refresh_token reply" "refresh \<noteq> None" by simp_all
      with life(3) obtain t where t: "cas_refreshToken s' = refresh" "cas_refreshTokenExpiresAt s' = Some t" by blast
      have "s' \<in> set (chained_cleanup now (chs_sessions st'))" if "now \<le> t" for now
        using that t refresh by (intro kept_until [OF s', of _ t]) simp
      then have "\<forall>now \<le> t. s' \<in> set (chained_cleanup now (chs_sessions st'))" by blast
      moreover have "t = t0" if "tkb_grant_type q = ''refresh_token''" "cas_refreshTokenExpiresAt s = Some t0" for t0
        using life(4) [OF refresh(2) that(1)] t that(2) by (simp add: enforcedRefreshTokenExpiry_def)
      ultimately show ?thesis using t refresh grant by blast
    qed
    show ?thesis using s s' ids life(2) access refreshed by blast
  qed simp_all
qed


section \<open>The flow of a wallet\<close>

lemma no_proof_needed:
  "verifyChainedAsDpopProof decodeHeader library others issuer endpoint None expected False proofs = (Inr None, proofs)"
  by (simp add: verifyChainedAsDpopProof_def verifyDpopProof_def chained_dpop_input_def map_failure_def)

lemma fresh_lookup: "\<forall>r \<in> set db. \<not> P r \<Longrightarrow> P s \<Longrightarrow> sql_find_one P (db @ [s]) = Some s"
  by (simp add: sql_find_one_append sql_find_one_None [THEN iffD2]) (simp add: sql_find_one_def)

lemma save_new: "\<forall>r \<in> set db. cas_id r \<noteq> cas_id s \<Longrightarrow> cas_save s db = db @ [s]"
  by (auto simp: cas_save_def list_ex_iff)

lemma save_last: "\<forall>r \<in> set db. cas_id r \<noteq> cas_id s \<Longrightarrow> cas_id s' = cas_id s \<Longrightarrow> cas_save s' (db @ [s]) = db @ [s']"
  by (auto simp: cas_save_def intro: map_idI)

lemma discovered:
  assumes "tenant_federation env tenantId = None" "che_discover env issuer = Inr doc"
  obtains doc' st' where "getUpstreamDiscovery env clock tenantId issuer st = (Inr doc', st')"
    "chs_sessions st' = chs_sessions st" "chs_offers st' = chs_offers st"
proof -
  obtain doc' st' where d: "getUpstreamDiscovery env clock tenantId issuer st = (Inr doc', st')"
  proof (cases "case chs_discovery st issuer of None \<Rightarrow> False | Some c \<Rightarrow> clock 2 < cdc_expiresAt c")
    case True
    with assms(1) show thesis
      by (intro that) (simp add: getUpstreamDiscovery_def assertFederationTrustForUpstreamIssuer_def)
  next
    case False
    with assms show thesis
      by (intro that) (simp add: getUpstreamDiscovery_def assertFederationTrustForUpstreamIssuer_def)
  qed
  show thesis by (rule that [OF d getUpstreamDiscovery_sessions [OF d]])
qed

text \<open>A tenant whose chained server works: an upstream provider that answers, URLs that parse, a key that
  signs, neither attestation nor DPoP required.\<close>

definition chained_server_works :: "chained_env \<Rightarrow> string \<Rightarrow> managed_server \<Rightarrow> upstream_config \<Rightarrow> exchange_result \<Rightarrow> bool" where
  "chained_server_works env tenantId config up tokens \<longleftrightarrow>
     getChainedAsConfig env tenantId = Inr config \<and> mas_upstream config = Some up
     \<and> attest_wallet env tenantId (getChainedAsBaseUrl env tenantId) config None = Inr ()
     \<and> bi_requireDPoP config \<noteq> Some True \<and> tenant_federation env tenantId = None
     \<and> (\<exists>doc. che_discover env (ups_issuer up) = Inr doc) \<and> (\<forall>u ps. che_set_params env u ps \<noteq> None)
     \<and> (\<forall>input. che_exchange env input = Inr tokens)
     \<and> (truthy (exr_idToken tokens) \<longrightarrow> che_decodeJwt env (the (exr_idToken tokens)) \<noteq> None)
     \<and> (\<forall>payload. \<exists>token. sign_chained_token env tenantId config payload = Inr token)"

lemma works_redirects: "chained_server_works env tenantId config up tokens \<Longrightarrow> \<exists>u. redirect_to (che_set_params env) uri ps = Inr u"
  unfolding chained_server_works_def redirect_to_def by (metis option.case_eq_if)

lemma works_configured:
  assumes "chained_server_works env tenantId config up tokens"
  shows "getChainedAsConfig env tenantId = Inr config" "mas_upstream config = Some up"
    "attest_wallet env tenantId (getChainedAsBaseUrl env tenantId) config None = Inr ()" "bi_requireDPoP config \<noteq> Some True"
  using assms by (auto simp: chained_server_works_def)

definition fresh_values :: "string \<Rightarrow> string \<Rightarrow> string \<Rightarrow> chained_sessions \<Rightarrow> bool" where
  "fresh_values sid state code db \<longleftrightarrow> (\<forall>r \<in> set db. cas_id r \<noteq> sid \<and> cas_upstreamState r \<noteq> Some state
     \<and> cas_authorizationCode r \<noteq> Some code)"

lemma authorize_pushed:
  assumes w: "chained_server_works env tenantId config up tokens"
    and st: "chs_sessions st = db @ [s]" "\<forall>r \<in> set db. cas_id r \<noteq> cas_id s"
    and s: "cas_tenantId s = tenantId" "cas_status s = Pending_Authorize" "clock 0 \<le> cas_expiresAt s"
  obtains redirect st' where
    "chained_handleAuthorize env clock (\<lambda>d. d) secrets tenantId (cas_clientId s) (CHAINED_REQUEST_URI_PREFIX @ cas_id s) st
       = (Inr redirect, st')" "chs_sessions st' = db @ [awaiting_upstream secrets s]" "chs_offers st' = chs_offers st"
proof -
  have find: "cas_findForTenant tenantId (cas_id s) Pending_Authorize (db @ [s]) = Some s"
    unfolding cas_findForTenant_def by (rule fresh_lookup) (use st(2) s in auto)
  have pushed: "pushed_session_of (clock 0) tenantId (cas_clientId s) (CHAINED_REQUEST_URI_PREFIX @ cas_id s) (db @ [s]) = (Inr s, db @ [s])"
    using find s(3) by (simp add: pushed_session_of_def starts_with_def)
  have saved: "cas_save (awaiting_upstream secrets s) (db @ [s]) = db @ [awaiting_upstream secrets s]"
    by (rule save_last [OF st(2)]) (simp add: awaiting_upstream_def split: prod.split)
  obtain doc where "che_discover env (ups_issuer up) = Inr doc" "tenant_federation env tenantId = None"
    using w unfolding chained_server_works_def by blast
  then obtain doc' st1 where d: "getUpstreamDiscovery env (\<lambda>k. clock (Suc k)) tenantId (ups_issuer up) st = (Inr doc', st1)"
    "chs_sessions st1 = db @ [s]" "chs_offers st1 = chs_offers st"
    using discovered st(1) by metis
  obtain u where u: "redirect_to (che_set_params env) (dsc_authorization_endpoint doc') (upstream_request env tenantId up secrets) = Inr u"
    using works_redirects [OF w] by blast
  show thesis
    using works_configured [OF w] st(1) pushed d u saved
    by (intro that [of u "st1\<lparr>chs_sessions := db @ [awaiting_upstream secrets s]\<rparr>"])
      (simp_all add: chained_handleAuthorize_def)
qed

lemma callback_authorizes:
  assumes w: "chained_server_works env tenantId config up tokens"
    and st: "chs_sessions st = db @ [s]" "\<forall>r \<in> set db. cas_id r \<noteq> cas_id s" "\<forall>r \<in> set db. cas_upstreamState r \<noteq> Some state"
    and s: "cas_tenantId s = tenantId" "cas_status s = Pending_Upstream_Callback" "cas_upstreamState s = Some state"
  obtains redirect st' i a where
    "handleUpstreamCallback env clock (\<lambda>d. d) code tenantId upCode state None None st = (Inr redirect, st')"
    "chs_sessions st' = db @ [authorized_session code (clock 5)
       (s\<lparr>cas_upstreamIdTokenClaims := i, cas_upstreamAccessTokenClaims := Some a\<rparr>)]" "chs_offers st' = chs_offers st"
proof -
  have find: "findByUpstreamState tenantId state (Some Pending_Upstream_Callback) (db @ [s]) = Some s"
    unfolding findByUpstreamState_def by (rule fresh_lookup) (use st(3) s in auto)
  obtain doc where "che_discover env (ups_issuer up) = Inr doc" "tenant_federation env tenantId = None"
    using w unfolding chained_server_works_def by blast
  then obtain doc' st1 where d: "getUpstreamDiscovery env clock tenantId (ups_issuer up) st = (Inr doc', st1)"
    "chs_sessions st1 = db @ [s]" "chs_offers st1 = chs_offers st"
    using discovered st(1) by metis
  have "\<exists>s1. exchangeUpstreamCode env s upCode up doc' (chained_callback_url env tenantId) = Inr s1"
    using w by (auto simp: exchangeUpstreamCode_def chained_server_works_def split: option.split)
  then obtain s1 where s1: "exchangeUpstreamCode env s upCode up doc' (chained_callback_url env tenantId) = Inr s1" ..
  obtain i a where e: "s1 = s\<lparr>cas_upstreamIdTokenClaims := i, cas_upstreamAccessTokenClaims := Some a\<rparr>"
    using exchanged_session [OF s1] .
  have saved: "cas_save (authorized_session code (clock 5) s1) (db @ [s]) = db @ [authorized_session code (clock 5) s1]"
    by (rule save_last [OF st(2)]) (simp add: authorized_session_def e)
  obtain u where u: "buildAuthorizationCodeRedirect (che_set_params env) (cas_redirectUri s) code (cas_walletState s) None = Inr u"
    using works_redirects [OF w] unfolding buildAuthorizationCodeRedirect_def by blast
  show thesis
    using works_configured [OF w] st(1) find d u s1 saved e
    by (intro that [where redirect = u and st' = "st1\<lparr>chs_sessions := db @ [authorized_session code (clock 5) s1]\<rparr>" and i = i and a = a])
      (simp_all add: handleUpstreamCallback_def Let_def)
qed

lemma token_for_code:
  assumes w: "chained_server_works env tenantId config up tokens"
    and st: "chs_sessions st = db @ [s]" "\<forall>r \<in> set db. cas_authorizationCode r \<noteq> Some code"
    and s: "cas_tenantId s = tenantId" "cas_status s = Chained_Authorized" "cas_authorizationCode s = Some code" "code \<noteq> []"
      "cas_authorizationCodeExpiresAt s = Some t" "clock 1 \<le> t" "cas_dpopJkt s = None"
      "truthy (cas_codeChallenge s)" "cas_codeChallengeMethod s = Some ''S256''"
      "verifier \<noteq> []" "che_sha256 env verifier = the (cas_codeChallenge s)"
    and q: "q = \<lparr>tkb_grant_type = ''authorization_code'', tkb_code = Some code, tkb_refresh_token = None,
      tkb_client_id = Some (cas_clientId s), tkb_redirect_uri = Some (cas_redirectUri s), tkb_code_verifier = Some verifier\<rparr>"
  obtains reply st' where "chained_handleToken env clock (\<lambda>d. d) others tokenSecrets tenantId q None None st = (Inr reply, st')"
proof -
  have find: "findAuthorizedByCode tenantId code (db @ [s]) = Some s"
    unfolding findAuthorizedByCode_def by (rule fresh_lookup) (use st(2) s in auto)
  have redeemable: "redeemable_session env (clock 0) tenantId (getChainedAsBaseUrl env tenantId) config q None (db @ [s]) = Inr s"
    using find works_configured [OF w] s(4)
    by (simp add: redeemable_session_def resolveSessionForTokenRequest_def q)
  have "verifyPkceCodeChallenge (che_sha256 env) (cas_codeChallenge s) (cas_codeChallengeMethod s) (Some verifier) = Inr ()"
    using s by (simp add: returns)
  then have "assertTokenRequestSessionValid (che_sha256 env) (clock 1) s q (db @ [s]) = (Inr (), db @ [s])"
    using s by (simp add: assertTokenRequestSessionValid_def q)
  with redeemable have session: "redeemed_session env clock tenantId (getChainedAsBaseUrl env tenantId) config q None (db @ [s])
      = (Inr s, db @ [s])"
    by (simp add: redeemed_session_def)
  have binding: "resolveTokenBinding (che_header env) (che_dpop env) others (getChainedAsBaseUrl env tenantId)
      (bi_requireDPoP config) s None (chs_proofs st) = (Inr (''Bearer'', None), chs_proofs st)"
    using works_configured(4) [OF w] s(7) by (simp add: resolveTokenBinding_def no_proof_needed bound_token_type_def)
  have "\<exists>token. sign_chained_token env tenantId config p = Inr token" for p
    using w by (simp add: chained_server_works_def)
  then obtain token where token: "sign_chained_token env tenantId config (upstream_claims s (buildAccessTokenPayload (clock 2)
      (getChainedAsBaseUrl env tenantId) (chained_audience env tenantId) s (chained_token_lifetime config) (fst tokenSecrets) None))
      = Inr token" by blast
  obtain refresh s1 where i: "issued_chained_session clock tokenSecrets config (tkb_grant_type q) None s = (refresh, s1)" by fastforce
  show thesis
    using works_configured(1) [OF w] st(1) session binding token i
    by (intro that [of "chained_reply_of token ''Bearer'' config s refresh"
          "st\<lparr>chs_proofs := chs_proofs st, chs_sessions := cas_save s1 (db @ [s])\<rparr>"])
      (simp add: chained_handleToken_def redeem_chained_token_def)
qed


lemma push_stores:
  assumes w: "chained_server_works env tenantId config up tokens"
    and q: "cpr_response_type q = ''code''" "truthy (cpr_code_challenge q)" "cpr_code_challenge_method q = Some ''S256''"
      "cpr_issuer_state q = Some issuerState" "issuerState \<noteq> []"
    and offer: "getForTenant tenantId (Some issuerState) None (chs_offers st) = Inr offer" "assertSessionUsable offer (clock 0) = Inr ()"
    and new: "\<forall>r \<in> set (chs_sessions st). cas_id r \<noteq> sessionId"
  shows "chained_handlePar env clock others freshState sessionId tenantId q None None st
    = (Inr (CHAINED_REQUEST_URI_PREFIX @ sessionId, CHAINED_SESSION_LIFETIME_SECONDS),
       st\<lparr>chs_sessions := chs_sessions st @ [pushed_chained_session tenantId sessionId issuerState q None None (clock 1) (clock 2)]\<rparr>)"
proof -
  have "cas_save (pushed_chained_session tenantId sessionId issuerState q None None (clock 1) (clock 2)) (chs_sessions st)
    = chs_sessions st @ [pushed_chained_session tenantId sessionId issuerState q None None (clock 1) (clock 2)]"
    by (rule save_new) (use new in \<open>simp add: pushed_chained_session_def\<close>)
  moreover have "resolve_issuer_state (clock 0) tenantId (cpr_issuer_state q) freshState (chs_offers st) = Inr issuerState"
    using q offer by (simp add: resolve_issuer_state_def)
  moreover have "assertPkceCodeChallenge (cpr_code_challenge q) (cpr_code_challenge_method q) = Inr ()"
    using q by (simp add: assertPkceCodeChallenge_def assertS256CodeChallenge_def map_failure_def)
  ultimately show ?thesis
    using works_configured [OF w] q(1)
    by (simp add: chained_handlePar_def push_request_def no_proof_needed)
qed

lemma flow_completes:
  assumes works: "chained_server_works env tenantId config up tokens"
    and pushed: "cpr_response_type q = ''code''" "truthy (cpr_code_challenge q)" "cpr_code_challenge_method q = Some ''S256''"
      "cpr_issuer_state q = Some issuerState" "issuerState \<noteq> []"
    and offer: "getForTenant tenantId (Some issuerState) None (chs_offers st) = Inr offer" "assertSessionUsable offer (clock1 0) = Inr ()"
    and fresh: "fresh_values sid state code (chs_sessions st)" "code \<noteq> []"
    and times: "clock2 0 \<le> clock1 1 + CHAINED_SESSION_LIFETIME_SECONDS * 1000"
      "clock4 1 \<le> clock3 5 + CHAINED_CODE_LIFETIME_SECONDS * 1000"
    and verifier: "verifier \<noteq> []" "che_sha256 env verifier = the (cpr_code_challenge q)"
  shows "\<exists>st1 st2 st3 st4 upstreamUrl walletUrl reply.
    chained_handlePar env clock1 others1 freshState sid tenantId q None None st
      = (Inr (CHAINED_REQUEST_URI_PREFIX @ sid, CHAINED_SESSION_LIFETIME_SECONDS), st1)
    \<and> chained_handleAuthorize env clock2 (\<lambda>d. d) (state, nonce, upVerifier) tenantId (cpr_client_id q)
        (CHAINED_REQUEST_URI_PREFIX @ sid) st1 = (Inr upstreamUrl, st2)
    \<and> handleUpstreamCallback env clock3 (\<lambda>d. d) code tenantId upCode state None None st2 = (Inr walletUrl, st3)
    \<and> chained_handleToken env clock4 (\<lambda>d. d) others4 tokenSecrets tenantId
        \<lparr>tkb_grant_type = ''authorization_code'', tkb_code = Some code, tkb_refresh_token = None,
         tkb_client_id = Some (cpr_client_id q), tkb_redirect_uri = Some (cpr_redirect_uri q), tkb_code_verifier = Some verifier\<rparr>
        None None st3 = (Inr reply, st4)"
proof -
  let ?db = "chs_sessions st"
  let ?s = "pushed_chained_session tenantId sid issuerState q None None (clock1 1) (clock1 2)"
  let ?s1 = "awaiting_upstream (state, nonce, upVerifier) ?s"
  let ?st1 = "st\<lparr>chs_sessions := ?db @ [?s]\<rparr>"
  have new: "\<forall>r \<in> set ?db. cas_id r \<noteq> sid" "\<forall>r \<in> set ?db. cas_upstreamState r \<noteq> Some state"
    "\<forall>r \<in> set ?db. cas_authorizationCode r \<noteq> Some code"
    using fresh(1) by (auto simp: fresh_values_def)
  have s: "cas_id ?s = sid" "cas_tenantId ?s = tenantId" "cas_status ?s = Pending_Authorize" "cas_clientId ?s = cpr_client_id q"
    "clock2 0 \<le> cas_expiresAt ?s"
    using times(1) by (simp_all add: pushed_chained_session_def)
  have par: "chained_handlePar env clock1 others1 freshState sid tenantId q None None st
      = (Inr (CHAINED_REQUEST_URI_PREFIX @ sid, CHAINED_SESSION_LIFETIME_SECONDS), ?st1)"
    by (rule push_stores [where clock = clock1, OF works pushed offer new(1)])
  obtain upstreamUrl st2 where authorized: "chained_handleAuthorize env clock2 (\<lambda>d. d) (state, nonce, upVerifier) tenantId
      (cpr_client_id q) (CHAINED_REQUEST_URI_PREFIX @ sid) ?st1 = (Inr upstreamUrl, st2)" "chs_sessions st2 = ?db @ [?s1]"
  proof -
    have stored: "chs_sessions ?st1 = ?db @ [?s]" "\<forall>r \<in> set ?db. cas_id r \<noteq> cas_id ?s" using new(1) s(1) by simp_all
    show thesis
      by (rule authorize_pushed [where clock = clock2 and secrets = "(state, nonce, upVerifier)", OF works stored s(2,3,5)])
        (rule that, simp_all only: s(1,4))
  qed
  have s1: "cas_id ?s1 = sid" "cas_tenantId ?s1 = tenantId" "cas_status ?s1 = Pending_Upstream_Callback"
    "cas_upstreamState ?s1 = Some state"
    using s by (simp_all add: awaiting_upstream_def)
  obtain walletUrl st3 i a where callback:
    "handleUpstreamCallback env clock3 (\<lambda>d. d) code tenantId upCode state None None st2 = (Inr walletUrl, st3)"
    "chs_sessions st3 = ?db @ [authorized_session code (clock3 5)
       (?s1\<lparr>cas_upstreamIdTokenClaims := i, cas_upstreamAccessTokenClaims := Some a\<rparr>)]"
    using callback_authorizes [OF works authorized(2) _ new(2) s1(2-4)] new(1) s1(1) by metis
  obtain reply st4 where "chained_handleToken env clock4 (\<lambda>d. d) others4 tokenSecrets tenantId
      \<lparr>tkb_grant_type = ''authorization_code'', tkb_code = Some code, tkb_refresh_token = None,
       tkb_client_id = Some (cpr_client_id q), tkb_redirect_uri = Some (cpr_redirect_uri q), tkb_code_verifier = Some verifier\<rparr>
      None None st3 = (Inr reply, st4)"
    by (rule token_for_code [OF works callback(2) new(3), where t = "clock3 5 + CHAINED_CODE_LIFETIME_SECONDS * 1000"
          and verifier = verifier])
      (use times(2) verifier pushed fresh(2) in
        \<open>simp_all add: authorized_session_def awaiting_upstream_def pushed_chained_session_def\<close>)
  with par authorized(1) callback(1) show ?thesis by blast
qed



section \<open>A concrete server\<close>

definition chup1 :: upstream_config where
  "chup1 = \<lparr>ups_issuer = ''https://idp'', ups_clientId = ''eudiplo'', ups_clientSecret = None, ups_scopes = None\<rparr>"

definition chserver1 :: managed_server where
  "chserver1 = \<lparr>bi_type = Some ''chained'', bi_enabled = Some True, bi_token = None, bi_requireDPoP = None,
     bi_walletAttestationRequired = None, bi_walletProviderTrustLists = None, mas_id = Some ''up'', mas_issuer = None,
     mas_upstream = Some chup1, mas_presentationConfigId = None, mas_immediateWalletRedirect = None\<rparr>"

definition chsettings1 :: issuance_settings where
  "chsettings1 = \<lparr>is_authorizationServers = None, is_signingKeyId = None, is_dPopRequired = None, is_txCodeMaxAttempts = None,
     is_walletAttestationRequired = None, is_walletProviderTrustLists = None\<rparr>"

definition chenv1 :: chained_env where
  "chenv1 = \<lparr>che_publicUrl = ''https://e'',
     che_issuance = (\<lambda>_. \<lparr>tni_settings = chsettings1, tni_servers = Some [chserver1], tni_federation = None\<rparr>),
     che_attestation = (\<lambda>_ attestation _ required _. if required \<and> attestation = None then Inl ''missing'' else Inr ()),
     che_header = (\<lambda>_. Inr (JObj [])), che_dpop = (\<lambda>_ _ proofs. (Inr None, proofs)), che_sha256 = rev,
     che_set_params = (\<lambda>u ps. Some u), che_traversal = DEFAULT_FEDERATION_TRAVERSAL_LIMITS, che_entity = (\<lambda>_ _. Inl ''none''),
     che_discover = (\<lambda>_. Inr \<lparr>dsc_authorization_endpoint = ''https://idp/auth'', dsc_token_endpoint = ''https://idp/token''\<rparr>),
     che_exchange = (\<lambda>_. Inr \<lparr>exr_accessToken = None, exr_idToken = Some ''id''\<rparr>),
     che_decodeJwt = (\<lambda>_. Some (JObj [(''sub'', JStr ''alice'')])), che_getKid = (\<lambda>_. Inr ''kid''),
     che_publicKey = (\<lambda>_ _. Inr []), che_signJWT = (\<lambda>_ _ _ _. Inr ''token'')\<rparr>"

definition chst1 :: chained_state where
  "chst1 = \<lparr>chs_sessions = [], chs_offers = [blank_session ''offer'' ''t'' 0], chs_proofs = [], chs_discovery = (\<lambda>_. None),
     chs_federation = (\<lambda>_. None)\<rparr>"

definition chpar1 :: chained_par where
  "chpar1 = \<lparr>cpr_response_type = ''code'', cpr_client_id = ''wallet'', cpr_redirect_uri = ''https://w'',
     cpr_code_challenge = Some ''cba'', cpr_code_challenge_method = Some ''S256'', cpr_state = None, cpr_scope = None,
     cpr_issuer_state = Some ''offer'', cpr_authorization_details = None\<rparr>"

definition chtoken1 :: token_body where
  "chtoken1 = \<lparr>tkb_grant_type = ''authorization_code'', tkb_code = Some ''code'', tkb_refresh_token = None,
     tkb_client_id = Some (cpr_client_id chpar1), tkb_redirect_uri = Some (cpr_redirect_uri chpar1), tkb_code_verifier = Some ''abc''\<rparr>"

lemma chserver1_config: "getChainedAsConfig chenv1 ''t'' = Inr chserver1"
  by (simp add: getChainedAsConfig_def authorization_servers_def chenv1_def chserver1_def)

lemma chserver1_works:
  "chained_server_works chenv1 ''t'' chserver1 chup1 \<lparr>exr_accessToken = None, exr_idToken = Some ''id''\<rparr>"
proof -
  have signs: "sign_chained_token chenv1 ''t'' chserver1 payload = Inr ''token''" for payload
    by (simp add: sign_chained_token_def chained_signing_key_def chserver1_def chenv1_def map_failure_def Let_def)
  have "attest_wallet chenv1 ''t'' base chserver1 None = Inr ()" for base
    by (simp add: attest_wallet_def server_attestation_policy_def resolveWalletAttestationPolicy_def chserver1_def chenv1_def
        chsettings1_def built_in_server.truncate_def map_failure_def)
  then show ?thesis
    using chserver1_config signs
    by (simp add: chained_server_works_def chserver1_def [symmetric]) (simp add: chserver1_def chenv1_def tenant_federation_def)
qed

lemma choffer1:
  "getForTenant ''t'' (Some ''offer'') None (chs_offers chst1) = Inr (blank_session ''offer'' ''t'' 0)"
  "assertSessionUsable (blank_session ''offer'' ''t'' 0) 0 = Inr ()"
  by code_simp+


definition chrequests1 :: create_request where
  "chrequests1 = (\<lambda>_ _ _ _ _ offers. (Inr [], offers))"

definition chst2 :: chained_state where
  "chst2 = snd (chained_handlePar chenv1 (\<lambda>_. 0) [] ''f'' ''s'' ''t'' chpar1 None None chst1)"

definition chst3 :: chained_state where
  "chst3 = snd (chained_handleAuthorize chenv1 (\<lambda>_. 0) (\<lambda>d. d) (''u'', ''n'', ''v'') ''t'' ''wallet''
     (CHAINED_REQUEST_URI_PREFIX @ ''s'') chst2)"

definition chst4 :: chained_state where
  "chst4 = snd (handleUpstreamCallback chenv1 (\<lambda>_. 0) (\<lambda>d. d) ''code'' ''t'' ''c'' ''u'' None None chst3)"

text \<open>A history that ends with an authorized session, and the token request that redeems it.\<close>

lemma chrequest1:
  "chained_request chenv1 chrequests1 [] (\<lambda>d. d) chst1 False chst2"
  "\<exists>late. chained_request chenv1 chrequests1 [] (\<lambda>d. d) chst2 late chst3"
  "\<exists>late. chained_request chenv1 chrequests1 ''code'' (\<lambda>d. d) chst3 late chst4"
  unfolding chst4_def chst3_def chst2_def
proof -
  show "chained_request chenv1 chrequests1 [] (\<lambda>d. d) chst1 False
      (snd (chained_handlePar chenv1 (\<lambda>_. 0) [] ''f'' ''s'' ''t'' chpar1 None None chst1))"
    by (rule chained_request.par [OF prod.collapse [symmetric]])
qed (intro exI, rule chained_request.authorize [OF prod.collapse [symmetric]],
    intro exI, rule chained_request.upstream_callback [OF prod.collapse [symmetric]])

lemma chhistory1:
  "chained_history chenv1 chrequests1 [chs_sessions chst4, chs_sessions chst3, chs_sessions chst2, []]"
proof -
  obtain l3 l4 where late: "chained_request chenv1 chrequests1 [] (\<lambda>d. d) chst2 l3 chst3"
    "chained_request chenv1 chrequests1 ''code'' (\<lambda>d. d) chst3 l4 chst4"
    using chrequest1(2,3) by blast
  have h1: "chained_history chenv1 chrequests1 [chs_sessions chst2, []]"
    by (rule chained_history.request [OF chained_history.initial _ chrequest1(1)]) (simp_all add: chst1_def)
  have h2: "chained_history chenv1 chrequests1 [chs_sessions chst3, chs_sessions chst2, []]"
    by (rule chained_history.request [OF h1 _ late(1)]) simp_all
  show ?thesis
    by (rule chained_history.request [OF h2 _ late(2)]) simp_all
qed

lemma chcodes1: "map cas_id (chs_sessions chst4) = [''s'']"
  by code_simp

lemma chtoken1: "\<exists>reply st'. chained_handleToken chenv1 (\<lambda>_. 0) (\<lambda>d. d) [] (''jti'', ''refresh'') ''t'' chtoken1 None None chst4
    = (Inr reply, st')"
proof -
  have "\<not> isl (fst (chained_handleToken chenv1 (\<lambda>_. 0) (\<lambda>d. d) [] (''jti'', ''refresh'') ''t'' chtoken1 None None chst4))"
    by code_simp
  then show ?thesis by (cases "chained_handleToken chenv1 (\<lambda>_. 0) (\<lambda>d. d) [] (''jti'', ''refresh'') ''t'' chtoken1 None None chst4")
    (metis fst_conv isl_def obj_sumE)
qed



theorem chained_code_single_use_witness:
  "\<exists>reply st'. chained_handleToken chenv1 (\<lambda>_. 0) (\<lambda>d. d) [] (''jti'', ''refresh'') ''t'' chtoken1 None None chst4 = (Inr reply, st')
    \<and> isl (fst (chained_handleToken chenv1 (\<lambda>_. 1) (\<lambda>d. d) [] (''jti2'', ''refresh2'') ''t'' chtoken1 None None st'))"
proof -
  obtain reply st' where t: "chained_handleToken chenv1 (\<lambda>_. 0) (\<lambda>d. d) [] (''jti'', ''refresh'') ''t'' chtoken1 None None chst4
    = (Inr reply, st')" using chtoken1 by blast
  have one: "\<forall>r \<in> set (chs_sessions chst4). cas_id r = ''s''" using chcodes1 by (metis image_eqI list.set_map set_ConsD set_empty empty_iff empty_set)
  have "tkb_grant_type chtoken1 = ''authorization_code''" "tkb_code chtoken1 = Some ''code''" by (simp_all add: chtoken1_def)
  with chained_code_single_use [OF disjI1 [OF t] this _ later_sessions.same [where env = chenv1 and createRequest = chrequests1] this] one t
  show ?thesis by auto
qed

theorem chained_tokens_retained_witness:
  "\<exists>reply st'. chained_handleToken chenv1 (\<lambda>_. 0) (\<lambda>d. d) [] (''jti'', ''refresh'') ''t'' chtoken1 None None chst4 = (Inr reply, st')
    \<and> (\<exists>s' \<in> set (chs_sessions st'). cas_accessTokenJti s' = Some ''jti'' \<and> s' \<in> set (chained_cleanup 0 (chs_sessions st')))"
proof -
  obtain reply st' where t: "chained_handleToken chenv1 (\<lambda>_. 0) (\<lambda>d. d) [] (''jti'', ''refresh'') ''t'' chtoken1 None None chst4
    = (Inr reply, st')" using chtoken1 by blast
  have "0 \<le> crp_expires_in (projr (fst (chained_handleToken chenv1 (\<lambda>_. 0) (\<lambda>d. d) [] (''jti'', ''refresh'') ''t'' chtoken1 None None chst4)))"
    by code_simp
  then have "0 \<le> crp_expires_in reply" by (simp add: t)
  with chained_tokens_retained [OF disjI1 [OF t]] t show ?thesis by fastforce
qed


end
