(* ===== verification/Interactive_Authorization.thy ===== *)
theory Interactive_Authorization
  imports Presentation_Response Authorize_Request
begin

text \<open>
  The interactive authorization endpoint (\<open>authorization/authorize/interactive-authorization.service.ts\<close> and
  its controller), its sessions (\<open>domain/interactive-auth-session.ts\<close>) and their repository
  (\<open>adapters/typeorm-interactive-auth-session.repository.ts\<close>): before a wallet gets an authorization code it
  runs the actions of a credential configuration, presentations and web pages, one after the other. Columns
  that hold the text of a JSON value hold the value. The dates of creation and update, which nothing reads,
  and log output are left out. A handler reads the row of its session once; what other requests do between
  that and its writes is the argument \<open>gap\<close>.
\<close>

section \<open>Actions and sessions\<close>

datatype interaction = Openid4vp_Presentation | Redirect_To_Web

definition interaction_text :: "interaction \<Rightarrow> string" where
  "interaction_text t = (case t of
     Openid4vp_Presentation \<Rightarrow> ''openid4vp_presentation'' | Redirect_To_Web \<Rightarrow> ''redirect_to_web'')"

text \<open>The arguments: \<open>label\<close> and \<open>presentationConfigId\<close>; \<open>label\<close>, \<open>url\<close>, \<open>callbackUrl\<close> and \<open>description\<close>.\<close>

datatype iae_action =
    Iae_Presentation "string option" string
  | Iae_Web "string option" string "string option" "string option"

definition action_interaction :: "iae_action \<Rightarrow> interaction" where
  "action_interaction a = (case a of
     Iae_Presentation _ _ \<Rightarrow> Openid4vp_Presentation | Iae_Web _ _ _ _ \<Rightarrow> Redirect_To_Web)"

datatype iae_status =
    Iae_Pending
  | All_Steps_Completed
  | Presentation_Received
  | Web_Auth_Completed
  | Code_Issued

record completed_step =
  cst_stepIndex :: nat
  cst_type :: interaction
  cst_data :: "string option"
  cst_completedAt :: date

record interactive_session =
  ias_id :: string
  ias_authSession :: string
  ias_tenantId :: string
  ias_clientId :: string
  ias_redirectUri :: "string option"
  ias_scope :: "string option"
  ias_codeChallenge :: "string option"
  ias_codeChallengeMethod :: "string option"
  ias_issuerState :: "string option"
  ias_walletState :: "string option"
  ias_authorizationDetails :: "json option"
  ias_interactionTypesSupported :: string
  ias_dpopJwk :: "json option"
  ias_status :: iae_status
  ias_requestUri :: "string option"
  ias_parExpiresAt :: "date option"
  ias_presentationData :: "string option"
  ias_iaeActions :: "iae_action list option"
  ias_currentStepIndex :: nat
  ias_completedStepsData :: "completed_step list option"
  ias_authorizationCode :: "string option"
  ias_expiresAt :: date

type_synonym interactive_sessions = "interactive_session list"


section \<open>The repository\<close>

text \<open>\<open>save\<close> of a session without a primary key inserts it with a new one.\<close>

definition iae_create :: "interactive_session \<Rightarrow> interactive_sessions \<Rightarrow> interactive_sessions" where
  "iae_create row db = db @ [row]"

definition iae_findForTenant :: "string \<Rightarrow> string \<Rightarrow> interactive_sessions \<Rightarrow> interactive_session option" where
  "iae_findForTenant tenantId authSession db =
     sql_find_one (\<lambda>r. ias_authSession r = authSession \<and> ias_tenantId r = tenantId) db"

definition iae_update ::
    "string \<Rightarrow> (interactive_session \<Rightarrow> interactive_session) \<Rightarrow> interactive_sessions \<Rightarrow> interactive_sessions" where
  "iae_update i changes db = fst (sql_update (\<lambda>r. ias_id r = i) changes db)"

definition iae_updateForTenant ::
    "string \<Rightarrow> string \<Rightarrow> (interactive_session \<Rightarrow> interactive_session) \<Rightarrow> interactive_sessions
       \<Rightarrow> bool \<times> interactive_sessions" where
  "iae_updateForTenant tenantId authSession changes db =
     (let (db', affected) = sql_update (\<lambda>r. ias_authSession r = authSession \<and> ias_tenantId r = tenantId) changes db
      in (0 < affected, db'))"

definition iae_delete :: "interactive_session \<Rightarrow> interactive_sessions \<Rightarrow> interactive_sessions" where
  "iae_delete s db = fst (sql_delete (\<lambda>r. ias_id r = ias_id s) db)"


section \<open>Environment, state, replies\<close>

text \<open>\<open>iae_credentialActions\<close> is \<open>(await getCredentialConfig(id, tenant))?.iaeActions\<close>, for the value a wallet
  sent as identifier; \<open>iae_presentationConfigs\<close> the identifiers of the configurations of a tenant, the most
  recent first.\<close>

record iae_env =
  iae_publicUrl :: string
  iae_credentialActions :: "json \<Rightarrow> string \<Rightarrow> string + iae_action list option"
  iae_presentationConfigs :: "string \<Rightarrow> string + string list"
  iae_parseJson :: "string \<Rightarrow> json option"
  iae_sha256 :: "string \<Rightarrow> string"
  iae_responses :: response_env

text \<open>The random values of one request.\<close>

record iae_fresh =
  iaf_id :: string
  iaf_authSession :: string
  iaf_requestUri :: string
  iaf_code :: string
  iaf_responseCode :: string
  iaf_request :: fresh_values

record iae_state =
  iae_sessions :: interactive_sessions
  iae_offers :: sessions

datatype iae_reply =
    Iae_Error string "string option"
  | Iae_Ask_Presentation string string
  | Iae_Ask_Web string string int
  | Iae_Code string

datatype iae_thrown = Iae_Bad_Request string | Iae_Thrown string

definition invalid_request :: "string \<Rightarrow> iae_reply" where
  "invalid_request d = Iae_Error ''invalid_request'' (Some d)"

definition createErrorResponse :: "string \<Rightarrow> string option \<Rightarrow> iae_reply" where
  "createErrorResponse err description = Iae_Error err description"

definition iae_metadata :: "iae_env \<Rightarrow> string \<Rightarrow> (string \<times> string) list" where
  "iae_metadata env tenantId = (let authServer = iae_publicUrl env @ ''/issuers/'' @ tenantId in
     [(''issuer'', authServer), (''authorization_endpoint'', authServer @ ''/authorize''),
      (''token_endpoint'', authServer @ ''/authorize/token''),
      (''interactive_authorization_endpoint'', authServer @ ''/authorize/interactive'')])"


section \<open>Parsing a request\<close>

record iae_body =
  iab_response_type :: "string option"
  iab_client_id :: "string option"
  iab_interaction_types_supported :: "string option"
  iab_redirect_uri :: "string option"
  iab_scope :: "string option"
  iab_code_challenge :: "string option"
  iab_code_challenge_method :: "string option"
  iab_authorization_details :: "json option"
  iab_state :: "string option"
  iab_issuer_state :: "string option"
  iab_auth_session :: "string option"
  iab_openid4vp_response :: "string option"
  iab_code_verifier :: "string option"

record initial_request =
  inr_response_type :: string
  inr_client_id :: string
  inr_interaction_types_supported :: string
  inr_redirect_uri :: "string option"
  inr_scope :: "string option"
  inr_code_challenge :: "string option"
  inr_code_challenge_method :: "string option"
  inr_authorization_details :: "json option"
  inr_state :: "string option"
  inr_issuer_state :: "string option"

record follow_up_request =
  fur_auth_session :: string
  fur_openid4vp_response :: "string option"
  fur_code_verifier :: "string option"

text \<open>An initial request comes with its DPoP proof, whose key is not read, and the two attestation headers.\<close>

datatype iae_request =
    Initial_Request initial_request "(string \<times> json) option" "(string \<times> string) option"
  | Follow_Up_Request follow_up_request

definition parseAuthorizationDetails :: "iae_env \<Rightarrow> json option \<Rightarrow> json option" where
  "parseAuthorizationDetails env v =
     (if \<not> jtruthy v then None
      else case v of Some (JStr s) \<Rightarrow> iae_parseJson env s | _ \<Rightarrow> v)"

definition parseRequest :: "iae_env \<Rightarrow> iae_body \<Rightarrow> (string \<Rightarrow> string option) \<Rightarrow> iae_thrown + iae_request" where
  "parseRequest env body headers =
     (let attestation = headers ''oauth-client-attestation'';
          pop = headers ''oauth-client-attestation-pop'';
          clientAttestation = (if truthy attestation \<and> truthy pop then Some (the attestation, the pop) else None);
          dpop = (if truthy (headers ''dpop'') then Some (the (headers ''dpop''), JObj []) else None)
      in if truthy (iab_auth_session body)
         then Inr (Follow_Up_Request \<lparr>fur_auth_session = the (iab_auth_session body),
                fur_openid4vp_response = iab_openid4vp_response body, fur_code_verifier = iab_code_verifier body\<rparr>)
         else if \<not> truthy (iab_interaction_types_supported body)
         then Inl (Iae_Bad_Request ''Missing required parameter: interaction_types_supported'')
         else Inr (Initial_Request \<lparr>
                inr_response_type = (if truthy (iab_response_type body) then the (iab_response_type body) else ''code''),
                inr_client_id = coalesce (iab_client_id body) [],
                inr_interaction_types_supported = the (iab_interaction_types_supported body),
                inr_redirect_uri = iab_redirect_uri body, inr_scope = iab_scope body,
                inr_code_challenge = iab_code_challenge body,
                inr_code_challenge_method = iab_code_challenge_method body,
                inr_authorization_details = parseAuthorizationDetails env (iab_authorization_details body),
                inr_state = iab_state body, inr_issuer_state = iab_issuer_state body\<rparr> dpop clientAttestation))"

text \<open>\<open>details?.length\<close>, and \<open>details[0]?.credential_configuration_id\<close>, of whatever value the wallet sent.\<close>

definition details_given :: "json option \<Rightarrow> bool" where
  "details_given v = (case v of Some (JArr xs) \<Rightarrow> xs \<noteq> [] | Some (JStr s) \<Rightarrow> s \<noteq> []
     | Some (JObj kvs) \<Rightarrow> jtruthy (map_of kvs ''length'') | _ \<Rightarrow> False)"

definition first_detail :: "json option \<Rightarrow> json option" where
  "first_detail v = (case v of Some (JArr (x # _)) \<Rightarrow> Some x | Some (JObj kvs) \<Rightarrow> map_of kvs ''0'' | _ \<Rightarrow> None)"

definition details_configuration :: "json option \<Rightarrow> json option" where
  "details_configuration v = (if details_given v then
     (let c = jget ''credential_configuration_id'' (first_detail v) in if jtruthy c then c else None) else None)"

definition supported_types :: "string \<Rightarrow> string list" where
  "supported_types s = map js_trim (split_on CHR '','' s)"

definition supports :: "string list \<Rightarrow> interaction \<Rightarrow> bool" where
  "supports types t \<longleftrightarrow> interaction_text t \<in> set types"


section \<open>Asking for an interaction\<close>

definition request_error_text :: "request_error \<Rightarrow> string" where
  "request_error_text e = (case e of Request_Client_Error m \<Rightarrow> m | Request_Failed m \<Rightarrow> m)"

definition presentation_failed :: "string \<Rightarrow> iae_reply" where
  "presentation_failed e = Iae_Error ''server_error'' (Some (''Failed to create presentation request: '' @ e))"

definition interaction_options :: "string \<Rightarrow> request_options" where
  "interaction_options authSession = \<lparr>rqo_session = Some authSession, rqo_webhook = None, rqo_redirectUri = None,
     rqo_transaction_data = None, rqo_skewSeconds = None, rqo_clientIdScheme = None, rqo_reference = None\<rparr>"

definition createOpenid4vpInteractionResponseForConfig ::
    "iae_env \<Rightarrow> date \<Rightarrow> fresh_values \<Rightarrow> string \<Rightarrow> string \<Rightarrow> string \<Rightarrow> string \<Rightarrow> sessions \<Rightarrow> iae_reply \<times> sessions" where
  "createOpenid4vpInteractionResponseForConfig env now fv authSession tenantId origin configId offers =
     (let (_, db1) = createSession_execute now \<lparr>ns_id = authSession, ns_tenantId = tenantId,
            ns_columns = [Set_requestId (Some configId)]\<rparr> offers;
          (result, db2) = createRequest (rse_request (iae_responses env)) now [] [] fv configId
            (interaction_options authSession) tenantId False origin db1
      in case result of
           Inl e \<Rightarrow> (presentation_failed (request_error_text e), db2)
         | Inr offer \<Rightarrow> (Iae_Ask_Presentation authSession (ofr_uri offer), db2))"

text \<open>The configuration of the fallback: that of the first presentation action, otherwise the first of the tenant.\<close>

definition presentation_config_of :: "iae_action list option \<Rightarrow> string option" where
  "presentation_config_of actions = (case actions of None \<Rightarrow> None
     | Some as \<Rightarrow> (case List.find (\<lambda>a. action_interaction a = Openid4vp_Presentation) as of
         Some (Iae_Presentation _ c) \<Rightarrow> Some c | _ \<Rightarrow> None))"

definition fallback_config :: "iae_env \<Rightarrow> string \<Rightarrow> json option \<Rightarrow> string + string option" where
  "fallback_config env tenantId details =
     ebind (case details_configuration details of None \<Rightarrow> Inr None
            | Some c \<Rightarrow> ebind (iae_credentialActions env c tenantId) (\<lambda>as. Inr (presentation_config_of as)))
       (\<lambda>configId. if truthy configId then Inr configId
          else ebind (iae_presentationConfigs env tenantId)
            (\<lambda>configs. Inr (case configs of [] \<Rightarrow> None | c # _ \<Rightarrow> Some c)))"

definition createOpenid4vpInteractionResponse ::
    "iae_env \<Rightarrow> date \<Rightarrow> fresh_values \<Rightarrow> string \<Rightarrow> string \<Rightarrow> string \<Rightarrow> json option \<Rightarrow> sessions \<Rightarrow> iae_reply \<times> sessions" where
  "createOpenid4vpInteractionResponse env now fv authSession tenantId origin details offers =
     (case fallback_config env tenantId details of
        Inl e \<Rightarrow> (presentation_failed e, offers)
      | Inr configId \<Rightarrow>
          (if truthy configId
           then createOpenid4vpInteractionResponseForConfig env now fv authSession tenantId origin (the configId) offers
           else (Iae_Error ''server_error'' (Some ''No presentation configuration available''), offers)))"

text \<open>The page of the action is not part of the reply. The code does not wait for the update.\<close>

definition createRedirectToWebResponseForUrl ::
    "date \<Rightarrow> string \<Rightarrow> string \<Rightarrow> string \<Rightarrow> interactive_sessions \<Rightarrow> iae_reply \<times> interactive_sessions" where
  "createRedirectToWebResponseForUrl now uuid authSession tenantId db =
     (let requestUri = request_uri_prefix @ uuid; expiresIn = 600
      in (Iae_Ask_Web authSession requestUri expiresIn,
          snd (iae_updateForTenant tenantId authSession (\<lambda>r. r\<lparr>ias_requestUri := Some requestUri,
            ias_parExpiresAt := Some (now + expiresIn * 1000)\<rparr>) db)))"

definition ask_presentation ::
    "iae_env \<Rightarrow> date \<Rightarrow> iae_fresh \<Rightarrow> string \<Rightarrow> string \<Rightarrow> string \<Rightarrow> string \<Rightarrow> iae_state \<Rightarrow> iae_reply \<times> iae_state" where
  "ask_presentation env now fresh authSession tenantId origin configId st =
     (let (reply, db) = createOpenid4vpInteractionResponseForConfig env now (iaf_request fresh) authSession tenantId
            origin configId (iae_offers st)
      in (reply, st\<lparr>iae_offers := db\<rparr>))"

definition ask_web :: "date \<Rightarrow> iae_fresh \<Rightarrow> string \<Rightarrow> string \<Rightarrow> iae_state \<Rightarrow> iae_reply \<times> iae_state" where
  "ask_web now fresh authSession tenantId st =
     (let (reply, db) = createRedirectToWebResponseForUrl now (iaf_requestUri fresh) authSession tenantId (iae_sessions st)
      in (reply, st\<lparr>iae_sessions := db\<rparr>))"

definition executeIaeAction ::
    "iae_env \<Rightarrow> date \<Rightarrow> iae_fresh \<Rightarrow> string \<Rightarrow> string \<Rightarrow> string \<Rightarrow> iae_action \<Rightarrow> string list \<Rightarrow> iae_state
       \<Rightarrow> iae_reply \<times> iae_state" where
  "executeIaeAction env now fresh authSession tenantId origin action types st =
     (case action of
        Iae_Presentation _ configId \<Rightarrow>
          (if supports types Openid4vp_Presentation
           then ask_presentation env now fresh authSession tenantId origin configId st
           else (invalid_request ''Wallet does not support openid4vp_presentation interaction type'', st))
      | Iae_Web _ _ _ _ \<Rightarrow>
          (if supports types Redirect_To_Web then ask_web now fresh authSession tenantId st
           else (invalid_request ''Wallet does not support redirect_to_web interaction type'', st)))"


section \<open>The initial request\<close>

definition offerRedemptionError :: "date \<Rightarrow> string \<Rightarrow> string \<Rightarrow> sessions \<Rightarrow> iae_reply option" where
  "offerRedemptionError now tenantId issuerState offers =
     (case getForTenant tenantId (Some issuerState) None offers of
        Inl _ \<Rightarrow> Some (invalid_request ''Invalid issuer_state'')
      | Inr offer \<Rightarrow>
          (if map_option or_flow (s_credentialPayload offer) = Some Pre_Authorized_Code_Flow
           then Some (invalid_request ''Invalid issuer_state'')
           else (case assertOfferRedeemable offer now Invalid_Request of
                   Inl e \<Rightarrow> Some (Iae_Error (code_text (oa_code e)) (oa_description e))
                 | Inr _ \<Rightarrow> None)))"

definition initial_actions :: "iae_env \<Rightarrow> string \<Rightarrow> json option \<Rightarrow> string + iae_action list option" where
  "initial_actions env tenantId details =
     (case details_configuration details of None \<Rightarrow> Inr None
      | Some c \<Rightarrow> ebind (iae_credentialActions env c tenantId)
          (\<lambda>as. Inr (if as = Some [] then None else as)))"

definition initial_session ::
    "date \<Rightarrow> iae_fresh \<Rightarrow> initial_request \<Rightarrow> string \<Rightarrow> (string \<times> json) option \<Rightarrow> iae_action list option
       \<Rightarrow> interactive_session" where
  "initial_session now fresh request tenantId dpop actions = \<lparr>
     ias_id = iaf_id fresh, ias_authSession = iaf_authSession fresh, ias_tenantId = tenantId,
     ias_clientId = inr_client_id request, ias_redirectUri = inr_redirect_uri request, ias_scope = inr_scope request,
     ias_codeChallenge = inr_code_challenge request, ias_codeChallengeMethod = inr_code_challenge_method request,
     ias_issuerState = inr_issuer_state request, ias_walletState = inr_state request,
     ias_authorizationDetails = (if jtruthy (inr_authorization_details request)
       then inr_authorization_details request else None),
     ias_interactionTypesSupported = inr_interaction_types_supported request,
     ias_dpopJwk = map_option snd dpop, ias_status = Iae_Pending, ias_requestUri = None, ias_parExpiresAt = None,
     ias_presentationData = None, ias_iaeActions = actions, ias_currentStepIndex = 0,
     ias_completedStepsData = Some [], ias_authorizationCode = None, ias_expiresAt = now + 10 * 60 * 1000\<rparr>"

text \<open>The checks that precede the session.\<close>

definition refuse_initial :: "date \<Rightarrow> initial_request \<Rightarrow> string \<Rightarrow> sessions \<Rightarrow> iae_reply option" where
  "refuse_initial now request tenantId offers =
     (if inr_client_id request = [] then Some (invalid_request ''Missing required parameter: client_id'')
      else case assertS256CodeChallenge (inr_code_challenge request) (inr_code_challenge_method request) of
        Inl e \<Rightarrow> Some (Iae_Error (code_text (oa_code e)) (oa_description e))
      | Inr _ \<Rightarrow> (if truthy (inr_issuer_state request)
          then offerRedemptionError now tenantId (the (inr_issuer_state request)) offers else None))"

definition handleInitialRequest ::
    "iae_env \<Rightarrow> (nat \<Rightarrow> date) \<Rightarrow> iae_fresh \<Rightarrow> initial_request \<Rightarrow> string \<Rightarrow> string \<Rightarrow> (string \<times> json) option
       \<Rightarrow> iae_state \<Rightarrow> (iae_thrown + iae_reply) \<times> iae_state" where
  "handleInitialRequest env clock fresh request tenantId origin dpop st =
     (case refuse_initial (clock 0) request tenantId (iae_offers st) of
        Some reply \<Rightarrow> (Inr reply, st)
      | None \<Rightarrow>
     (case initial_actions env tenantId (inr_authorization_details request) of
        Inl e \<Rightarrow> (Inl (Iae_Thrown e), st)
      | Inr actions \<Rightarrow>
     (let types = supported_types (inr_interaction_types_supported request);
          authSession = iaf_authSession fresh;
          st1 = st\<lparr>iae_sessions := iae_create (initial_session (clock 1) fresh request tenantId dpop actions)
            (iae_sessions st)\<rparr>
      in apfst Inr (case actions of
           Some (a # _) \<Rightarrow> executeIaeAction env (clock 2) fresh authSession tenantId origin a types st1
         | _ \<Rightarrow>
             (if supports types Openid4vp_Presentation
              then (let (reply, db) = createOpenid4vpInteractionResponse env (clock 2) (iaf_request fresh) authSession
                          tenantId origin (inr_authorization_details request) (iae_offers st1)
                    in (reply, st1\<lparr>iae_offers := db\<rparr>))
              else if supports types Redirect_To_Web then ask_web (clock 2) fresh authSession tenantId st1
              else (invalid_request ''No supported interaction type available'', st1))))))"


section \<open>The follow-up request\<close>

definition validateAuthSession ::
    "date \<Rightarrow> string \<Rightarrow> string \<Rightarrow> interactive_sessions \<Rightarrow> (iae_reply + interactive_session) \<times> interactive_sessions" where
  "validateAuthSession now authSession tenantId db =
     (case iae_findForTenant tenantId authSession db of
        None \<Rightarrow> (Inl (invalid_request ''Invalid or expired auth_session''), db)
      | Some r \<Rightarrow>
          (if ias_expiresAt r < now
           then (Inl (invalid_request ''Auth session has expired''), iae_delete r db)
           else (Inr r, db)))"

record session_context =
  sct_iaeActions :: "iae_action list option"
  sct_completedStepsData :: "completed_step list"
  sct_supportedTypes :: "string list"

definition parseSessionContext :: "interactive_session \<Rightarrow> session_context" where
  "parseSessionContext r = \<lparr>sct_iaeActions = ias_iaeActions r,
     sct_completedStepsData = coalesce (ias_completedStepsData r) [],
     sct_supportedTypes = supported_types (ias_interactionTypesSupported r)\<rparr>"

definition currentInteraction :: "interactive_session \<Rightarrow> session_context \<Rightarrow> interaction option" where
  "currentInteraction r context = (case sct_iaeActions context of
     Some as \<Rightarrow> (if ias_currentStepIndex r < length as
                 then Some (action_interaction (as ! ias_currentStepIndex r)) else None)
   | None \<Rightarrow> List.find (supports (sct_supportedTypes context)) [Openid4vp_Presentation, Redirect_To_Web])"

definition response_fields :: "string list" where
  "response_fields = [''response'', ''error'', ''error_description'', ''error_uri'', ''state'']"

definition parseAuthorizationResponse :: "iae_env \<Rightarrow> string \<Rightarrow> authorization_response option" where
  "parseAuthorizationResponse env v = (case iae_parseJson env v of
     Some (JObj kvs) \<Rightarrow>
       (if list_all (\<lambda>k. optional_member is_string (map_of kvs k)) response_fields
        then Some \<lparr>arb_response = jstr (map_of kvs ''response''), arb_sendResponse = False, arb_vp_token = None,
          arb_error = jstr (map_of kvs ''error''), arb_error_description = jstr (map_of kvs ''error_description''),
          arb_state = jstr (map_of kvs ''state'')\<rparr>
        else None)
   | _ \<Rightarrow> None)"

definition presentationSession :: "string \<Rightarrow> string \<Rightarrow> sessions \<Rightarrow> session option" where
  "presentationSession tenantId authSession db =
     (case getForTenant tenantId (Some authSession) None db of Inl _ \<Rightarrow> None | Inr s \<Rightarrow> Some s)"

text \<open>The response goes to the verifier unless its session is completed already; a response that the verifier
  refuses shows in the status of the session only.\<close>

definition submit_response ::
    "iae_env \<Rightarrow> date \<Rightarrow> string \<Rightarrow> session_stmt list \<Rightarrow> authorization_response \<Rightarrow> session \<Rightarrow> sessions \<Rightarrow> sessions" where
  "submit_response env now responseCode others response presentation db =
     (if s_status presentation = Completed then db
      else fst (snd (getResponse (iae_responses env) now responseCode others response
        (coalesce (s_walletNonce presentation) (s_id presentation)) db)))"

definition handleOpenid4vpResponse ::
    "iae_env \<Rightarrow> (nat \<Rightarrow> date) \<Rightarrow> string \<Rightarrow> session_stmt list \<Rightarrow> string \<Rightarrow> interactive_session \<Rightarrow> iae_state
       \<Rightarrow> (iae_reply + unit) \<times> iae_state" where
  "handleOpenid4vpResponse env clock responseCode others openid4vpResponse r st =
     (case parseAuthorizationResponse env openid4vpResponse of
        None \<Rightarrow> (Inl (invalid_request ''Invalid openid4vp_response format''), st)
      | Some response \<Rightarrow>
     (case presentationSession (ias_tenantId r) (ias_authSession r) (iae_offers st) of
        None \<Rightarrow> (Inl (invalid_request ''No presentation was requested for this auth_session''), st)
      | Some presentation \<Rightarrow>
     (let offers = submit_response env (clock 1) responseCode others response presentation (iae_offers st);
          st1 = st\<lparr>iae_offers := offers\<rparr>
      in case presentationSession (ias_tenantId r) (ias_authSession r) offers of
           None \<Rightarrow> (Inl (Iae_Error ''access_denied'' (Some ''The presentation could not be verified'')), st1)
         | Some verified \<Rightarrow>
             (if s_status verified \<noteq> Completed
              then (Inl (Iae_Error ''access_denied'' (Some ''The presentation could not be verified'')), st1)
              else (Inr (), \<lparr>iae_sessions = iae_update (ias_id r) (\<lambda>x. x\<lparr>ias_status := Presentation_Received,
                       ias_presentationData := Some openid4vpResponse\<rparr>) (iae_sessions st1),
                     iae_offers = (if truthy (ias_issuerState r) \<and> jtruthy (s_credentials verified)
                       then fst (updateForTenant (clock 2) (ias_tenantId r) (the (ias_issuerState r))
                              [Set_credentials (s_credentials verified)] offers)
                       else offers)\<rparr>)))))"

definition handleCodeVerifier :: "iae_env \<Rightarrow> string \<Rightarrow> interactive_session \<Rightarrow> iae_reply + unit" where
  "handleCodeVerifier env codeVerifier r =
     ebind (require (truthy (ias_codeChallenge r))
       (invalid_request ''No code_challenge was provided in initial request'')) (\<lambda>_.
     ebind (require (checkS256Pkce (iae_sha256 env) (ias_codeChallenge r) (ias_codeChallengeMethod r)
                (Some codeVerifier) = Pkce_Valid)
       (Iae_Error ''invalid_grant'' (Some ''Invalid code_verifier''))) (\<lambda>_.
     require (ias_status r = Web_Auth_Completed)
       (Iae_Error ''access_denied'' (Some ''Web authorization not completed''))))"

text \<open>The session of the offer gets the code with the challenge of the initial request.\<close>

definition interactive_queries :: "interactive_session \<Rightarrow> session_authorization" where
  "interactive_queries r = \<lparr>aq_issuer_state = None, aq_response_type = None, aq_client_id = None,
     aq_redirect_uri = None, aq_resource = None, aq_scope = None, aq_code_challenge = ias_codeChallenge r,
     aq_code_challenge_method = ias_codeChallengeMethod r, aq_dpop_jkt = None, aq_request_uri = None,
     aq_auth_session = None, aq_state = None, aq_authorization_details = None\<rparr>"

definition interactive_grant :: "date \<Rightarrow> string \<Rightarrow> interactive_session \<Rightarrow> session_update" where
  "interactive_grant now code r =
     [Set_authorization_code (Some code),
      Set_authorization_code_expires_at (Some (now + AUTHORIZATION_CODE_LIFETIME_SECONDS * 1000)),
      Set_auth_queries (Some (interactive_queries r))]"

definition issueAuthorizationCode ::
    "date \<Rightarrow> string \<Rightarrow> interactive_session \<Rightarrow> iae_state \<Rightarrow> iae_reply \<times> iae_state" where
  "issueAuthorizationCode now code r st =
     (Iae_Code code,
      \<lparr>iae_sessions = iae_update (ias_id r) (\<lambda>x. x\<lparr>ias_authorizationCode := Some code, ias_status := Code_Issued\<rparr>)
         (iae_sessions st),
       iae_offers = (if truthy (ias_issuerState r)
         then fst (updateForTenant now (ias_tenantId r) (the (ias_issuerState r)) (interactive_grant now code r)
                (iae_offers st))
         else iae_offers st)\<rparr>)"

definition advanceOrComplete ::
    "iae_env \<Rightarrow> date \<Rightarrow> iae_fresh \<Rightarrow> interactive_session \<Rightarrow> session_context \<Rightarrow> string \<Rightarrow> string \<Rightarrow> iae_state
       \<Rightarrow> iae_reply \<times> iae_state" where
  "advanceOrComplete env now fresh r context tenantId origin st =
     (let actions = coalesce (sct_iaeActions context) []; next_index = Suc (ias_currentStepIndex r)
      in if next_index < length actions
         then executeIaeAction env now fresh (ias_authSession r) tenantId origin (actions ! next_index)
                (sct_supportedTypes context)
                (st\<lparr>iae_sessions := iae_update (ias_id r) (\<lambda>x. x\<lparr>ias_currentStepIndex := next_index,
                   ias_completedStepsData := Some (sct_completedStepsData context), ias_status := Iae_Pending\<rparr>)
                   (iae_sessions st)\<rparr>)
         else issueAuthorizationCode now (iaf_code fresh) r
                (st\<lparr>iae_sessions := iae_update (ias_id r) (\<lambda>x. x\<lparr>
                   ias_completedStepsData := Some (sct_completedStepsData context),
                   ias_status := All_Steps_Completed\<rparr>) (iae_sessions st)\<rparr>))"


text \<open>\<open>processOpenid4vpFollow\<close>, \<open>processCodeVerifierFollow\<close>: a step that succeeds is recorded.\<close>

definition record_step ::
    "date \<Rightarrow> interaction \<Rightarrow> string option \<Rightarrow> interactive_session \<Rightarrow> session_context \<Rightarrow> session_context" where
  "record_step now type data r context = context\<lparr>sct_completedStepsData := sct_completedStepsData context
     @ [\<lparr>cst_stepIndex = ias_currentStepIndex r, cst_type = type, cst_data = data, cst_completedAt = now\<rparr>]\<rparr>"

definition processOpenid4vpFollow ::
    "iae_env \<Rightarrow> (nat \<Rightarrow> date) \<Rightarrow> iae_fresh \<Rightarrow> session_stmt list \<Rightarrow> string \<Rightarrow> interactive_session \<Rightarrow> session_context
       \<Rightarrow> string \<Rightarrow> string \<Rightarrow> iae_state \<Rightarrow> iae_reply \<times> iae_state" where
  "processOpenid4vpFollow env clock fresh others openid4vpResponse r context tenantId origin st =
     (case handleOpenid4vpResponse env clock (iaf_responseCode fresh) others openid4vpResponse r st of
        (Inl reply, st1) \<Rightarrow> (reply, st1)
      | (Inr _, st1) \<Rightarrow> advanceOrComplete env (clock 4) fresh r
          (record_step (clock 3) Openid4vp_Presentation (Some openid4vpResponse) r context) tenantId origin st1)"

definition processCodeVerifierFollow ::
    "iae_env \<Rightarrow> (nat \<Rightarrow> date) \<Rightarrow> iae_fresh \<Rightarrow> string \<Rightarrow> interactive_session \<Rightarrow> session_context
       \<Rightarrow> string \<Rightarrow> string \<Rightarrow> iae_state \<Rightarrow> iae_reply \<times> iae_state" where
  "processCodeVerifierFollow env clock fresh codeVerifier r context tenantId origin st =
     (case handleCodeVerifier env codeVerifier r of
        Inl reply \<Rightarrow> (reply, st)
      | Inr _ \<Rightarrow> advanceOrComplete env (clock 4) fresh r
          (record_step (clock 3) Redirect_To_Web None r context) tenantId origin st)"

definition unexpected_response :: "interaction \<Rightarrow> iae_reply" where
  "unexpected_response t =
     invalid_request (''The current step does not expect a '' @ interaction_text t @ '' response'')"

text \<open>The part of the handler that runs on the row that was read.\<close>

definition answer_step ::
    "iae_env \<Rightarrow> (nat \<Rightarrow> date) \<Rightarrow> iae_fresh \<Rightarrow> session_stmt list \<Rightarrow> follow_up_request \<Rightarrow> interactive_session
       \<Rightarrow> string \<Rightarrow> string \<Rightarrow> iae_state \<Rightarrow> iae_reply \<times> iae_state" where
  "answer_step env clock fresh others request r tenantId origin st =
     (if truthy (ias_authorizationCode r) then (invalid_request ''The auth_session was already used'', st)
      else (let context = parseSessionContext r; expected = currentInteraction r context
        in if truthy (fur_openid4vp_response request)
           then (if expected \<noteq> Some Openid4vp_Presentation then (unexpected_response Openid4vp_Presentation, st)
                 else processOpenid4vpFollow env clock fresh others (the (fur_openid4vp_response request)) r context
                        tenantId origin st)
           else if truthy (fur_code_verifier request)
           then (if expected \<noteq> Some Redirect_To_Web then (unexpected_response Redirect_To_Web, st)
                 else processCodeVerifierFollow env clock fresh (the (fur_code_verifier request)) r context
                        tenantId origin st)
           else (invalid_request ''Missing openid4vp_response or code_verifier'', st)))"

definition handleFollowUpRequest ::
    "iae_env \<Rightarrow> (nat \<Rightarrow> date) \<Rightarrow> iae_fresh \<Rightarrow> (iae_state \<Rightarrow> iae_state) \<Rightarrow> session_stmt list \<Rightarrow> follow_up_request
       \<Rightarrow> string \<Rightarrow> string \<Rightarrow> iae_state \<Rightarrow> iae_reply \<times> iae_state" where
  "handleFollowUpRequest env clock fresh gap others request tenantId origin st =
     (case validateAuthSession (clock 0) (fur_auth_session request) tenantId (iae_sessions st) of
        (Inl reply, db) \<Rightarrow> (reply, st\<lparr>iae_sessions := db\<rparr>)
      | (Inr r, _) \<Rightarrow> answer_step env clock fresh others request r tenantId origin (gap st))"


section \<open>The endpoint\<close>

text \<open>Every exception becomes a reply.\<close>

definition thrown_reply :: "iae_thrown \<Rightarrow> iae_reply" where
  "thrown_reply e = (case e of
     Iae_Bad_Request m \<Rightarrow> invalid_request m | Iae_Thrown m \<Rightarrow> Iae_Error ''server_error'' (Some m))"

definition handleRequest ::
    "iae_env \<Rightarrow> (nat \<Rightarrow> date) \<Rightarrow> iae_fresh \<Rightarrow> (iae_state \<Rightarrow> iae_state) \<Rightarrow> session_stmt list \<Rightarrow> iae_body
       \<Rightarrow> (string \<Rightarrow> string option) \<Rightarrow> string \<Rightarrow> string \<Rightarrow> iae_state \<Rightarrow> iae_reply \<times> iae_state" where
  "handleRequest env clock fresh gap others body headers tenantId origin st =
     (case parseRequest env body headers of
        Inl e \<Rightarrow> (thrown_reply e, st)
      | Inr (Initial_Request request dpop _) \<Rightarrow>
          (case handleInitialRequest env clock fresh request tenantId origin dpop st of
             (Inl e, st1) \<Rightarrow> (thrown_reply e, st1) | (Inr reply, st1) \<Rightarrow> (reply, st1))
      | Inr (Follow_Up_Request request) \<Rightarrow>
          handleFollowUpRequest env clock fresh gap others request tenantId origin st)"

definition interactiveAuthorization ::
    "iae_env \<Rightarrow> (nat \<Rightarrow> date) \<Rightarrow> iae_fresh \<Rightarrow> (iae_state \<Rightarrow> iae_state) \<Rightarrow> session_stmt list \<Rightarrow> iae_body
       \<Rightarrow> (string \<Rightarrow> string option) \<Rightarrow> string \<Rightarrow> string option \<Rightarrow> iae_state \<Rightarrow> (nat \<times> iae_reply) \<times> iae_state" where
  "interactiveAuthorization env clock fresh gap others body headers tenantId origin st =
     (let requestOrigin = (if truthy origin then the origin else coalesce (headers ''referer'') []);
          (reply, st1) = handleRequest env clock fresh gap others body headers tenantId requestOrigin st
      in ((case reply of Iae_Error _ _ \<Rightarrow> 400 | _ \<Rightarrow> 200, reply), st1))"


section \<open>Completing a web step\<close>

definition completeWebAuthorization ::
    "date \<Rightarrow> (interactive_sessions \<Rightarrow> interactive_sessions) \<Rightarrow> string \<Rightarrow> string \<Rightarrow> interactive_sessions
       \<Rightarrow> bool \<times> interactive_sessions" where
  "completeWebAuthorization now between authSession tenantId db =
     (case iae_findForTenant tenantId authSession db of
        None \<Rightarrow> (False, db)
      | Some r \<Rightarrow>
          (if ias_expiresAt r < now \<or> currentInteraction r (parseSessionContext r) \<noteq> Some Redirect_To_Web
           then (False, db)
           else iae_updateForTenant tenantId authSession (\<lambda>x. x\<lparr>ias_status := Web_Auth_Completed\<rparr>) (between db)))"

text \<open>The token of the management API names a tenant.\<close>

definition completeWebAuth ::
    "date \<Rightarrow> (interactive_sessions \<Rightarrow> interactive_sessions) \<Rightarrow> string option \<Rightarrow> string \<Rightarrow> string \<Rightarrow> interactive_sessions
       \<Rightarrow> (string + bool) \<times> interactive_sessions" where
  "completeWebAuth now between tokenTenant authSession tenantId db =
     (if tokenTenant \<noteq> Some tenantId then (Inl ''The token does not belong to this tenant'', db)
      else apfst Inr (completeWebAuthorization now between authSession tenantId db))"

end
