(* ===== verification/Interactive_Machine.thy ===== *)
theory Interactive_Machine
  imports Interactive_Authorization Response_Properties
begin

text \<open>
  Interactive authorization as a state machine over two tables, the interactive sessions and the sessions of
  offers and presentations: the requests of wallets, the completion of web steps by the backend of the
  issuer, responses to the verifier and the statements of other requests, in any order. A follow-up request
  may act on a row that other requests have changed since it was read. The events say what has happened;
  the invariant ties the tables to them.
\<close>

section \<open>Statements that leave a presentation alone\<close>

fun sets_request :: "assign \<Rightarrow> bool" where
  "sets_request (Set_requestId v) = True"
| "sets_request _ = False"

definition quiet_update :: "session_update \<Rightarrow> bool" where
  "quiet_update u \<longleftrightarrow> list_all (\<lambda>a. \<not> sets_request a) u \<and> final_status u \<noteq> Some Completed"

text \<open>Statements of handlers that neither create nor complete the presentation session \<open>i\<close>, nor change what it asks for.\<close>

fun leaves_presentation :: "string \<Rightarrow> session_stmt \<Rightarrow> bool" where
  "leaves_presentation i (Stmt_Create now ns) = (ns_id ns \<noteq> i)"
| "leaves_presentation i (Stmt_Update now t j u) = (j = i \<longrightarrow> quiet_update u)"
| "leaves_presentation i (Stmt_UpdateUnconsumed now t j u) = (j = i \<longrightarrow> quiet_update u)"
| "leaves_presentation i (Stmt_ChangeState now t j u) = (j = i \<longrightarrow> quiet_update u)"
| "leaves_presentation i (Stmt_ChangeStateFrom now t j from_statuses u) = (j = i \<longrightarrow> quiet_update u)"
| "leaves_presentation i _ = True"

lemma apply_assigns_request:
  "list_all (\<lambda>a. \<not> sets_request a) u \<Longrightarrow> s_requestId (apply_assigns u r) = s_requestId r"
proof (induction u arbitrary: r)
  case (Cons a u)
  then show ?case by (cases a) auto
qed simp

lemma set_clause_request:
  "list_all (\<lambda>a. \<not> sets_request a) u \<Longrightarrow> s_requestId (set_clause now u r) = s_requestId r"
  by (simp add: set_clause_def apply_assigns_request)

lemma quiet_update_row:
  assumes "quiet_update u"
  shows "s_requestId (set_clause now u r) = s_requestId r"
    and "s_status (set_clause now u r) = Completed \<Longrightarrow> s_status r = Completed"
  using assms by (auto simp: quiet_update_def set_clause_request set_clause_status coalesce_def split: option.splits)

lemma quiet_anonymize: "quiet_update anonymize_columns"
  by (simp add: quiet_update_def anonymize_columns_def)

lemma leaves_presentation_row:
  assumes "leaves_presentation (s_id r) st" "stmt_row st db r = Some r'"
  shows "s_requestId r' = s_requestId r \<and> (s_status r' = Completed \<longrightarrow> s_status r = Completed)"
proof (cases st)
  case (Stmt_Anonymize now t c)
  with assms(2) quiet_update_row [OF quiet_anonymize] show ?thesis by (auto split: if_splits)
next
  case (Stmt_Bind now b)
  have "quiet_update [Set_externalIssuer (Some (eb_externalIssuer b)), Set_externalSubject (Some (eb_externalSubject b))]"
    by (simp add: quiet_update_def)
  from quiet_update_row [OF this] assms(2) Stmt_Bind show ?thesis by (auto split: if_splits)
next
  case (Stmt_ConsumeRequestUri stamp t i e now)
  have "quiet_update [Set_request_uri_expires_at (Some now)]" by (simp add: quiet_update_def)
  from quiet_update_row [OF this] assms(2) Stmt_ConsumeRequestUri show ?thesis by (auto split: if_splits)
qed (use assms quiet_update_row in \<open>auto simp: unconsumed_where_iff split: if_splits\<close>)


section \<open>Events\<close>

datatype iae_event =
    Started interactive_session
  | Web_Done string nat
  | Presented string "string option"
  | Code_Given string string

text \<open>A response verifies against the query that the session it names asks for.\<close>

definition verified_by ::
    "response_env \<Rightarrow> date \<Rightarrow> authorization_response \<Rightarrow> string \<Rightarrow> sessions \<Rightarrow> string \<Rightarrow> string option \<Rightarrow> bool" where
  "verified_by env now body nonce db i c \<longleftrightarrow> (\<exists>s raw response config webhook vs.
     reaches_response env now body nonce db s raw response config webhook \<and> s_id s = i \<and> s_requestId s = c
     \<and> verifyPresentationResponse (verification_of env) now response (presentation_query_of config) s = Inr vs)"

definition presented_events ::
    "response_env \<Rightarrow> date \<Rightarrow> authorization_response \<Rightarrow> string \<Rightarrow> sessions \<Rightarrow> iae_event set" where
  "presented_events env now body nonce db = {Presented i c | i c. verified_by env now body nonce db i c}"

definition started_events ::
    "iae_env \<Rightarrow> (nat \<Rightarrow> date) \<Rightarrow> iae_fresh \<Rightarrow> initial_request \<Rightarrow> string \<Rightarrow> (string \<times> json) option \<Rightarrow> sessions
       \<Rightarrow> iae_event set" where
  "started_events env clock fresh request tenantId dpop offers =
     {Started (initial_session (clock 1) fresh request tenantId dpop actions) | actions.
        refuse_initial (clock 0) request tenantId offers = None
        \<and> initial_actions env tenantId (inr_authorization_details request) = Inr actions}"

text \<open>The follow-up request hands the response of the wallet to the verifier.\<close>

definition submitted_events ::
    "iae_env \<Rightarrow> date \<Rightarrow> follow_up_request \<Rightarrow> interactive_session \<Rightarrow> sessions \<Rightarrow> iae_event set" where
  "submitted_events env now request r offers =
     {e. \<exists>body p. \<not> truthy (ias_authorizationCode r) \<and> truthy (fur_openid4vp_response request)
        \<and> currentInteraction r (parseSessionContext r) = Some Openid4vp_Presentation
        \<and> parseAuthorizationResponse env (the (fur_openid4vp_response request)) = Some body
        \<and> presentationSession (ias_tenantId r) (ias_authSession r) offers = Some p \<and> s_status p \<noteq> Completed
        \<and> e \<in> presented_events (iae_responses env) now body (coalesce (s_walletNonce p) (s_id p)) offers}"

definition code_events :: "follow_up_request \<Rightarrow> iae_reply \<Rightarrow> iae_event set" where
  "code_events request reply = {Code_Given (fur_auth_session request) code | code. reply = Iae_Code code}"

definition web_events ::
    "string \<Rightarrow> string \<Rightarrow> bool \<Rightarrow> interactive_sessions \<Rightarrow> iae_event set" where
  "web_events tenantId authSession success db =
     {Web_Done authSession (ias_currentStepIndex r) | r. success \<and> iae_findForTenant tenantId authSession db = Some r}"


section \<open>Histories\<close>

text \<open>Random identifiers: new ones are not in use.\<close>

definition unused :: "iae_fresh \<Rightarrow> iae_state \<Rightarrow> iae_event set \<Rightarrow> bool" where
  "unused fresh st L \<longleftrightarrow> (\<forall>s \<in> set (iae_offers st). s_id s \<noteq> iaf_authSession fresh)
     \<and> (\<forall>r. Started r \<in> L \<longrightarrow> ias_authSession r \<noteq> iaf_authSession fresh \<and> ias_id r \<noteq> iaf_id fresh)"

definition undisturbed :: "iae_event set \<Rightarrow> session_stmt list \<Rightarrow> bool" where
  "undisturbed L ss \<longleftrightarrow> (\<forall>r. Started r \<in> L \<longrightarrow> list_all (leaves_presentation (ias_authSession r)) ss)"

text \<open>\<open>iae_run env st0 L0 st L\<close>: from the tables \<open>st0\<close> to \<open>st\<close>; the events grow from \<open>L0\<close> to \<open>L\<close>. A follow-up
  request reads its row in \<open>st1\<close> and acts on \<open>st2\<close>.\<close>

inductive iae_run :: "iae_env \<Rightarrow> iae_state \<Rightarrow> iae_event set \<Rightarrow> iae_state \<Rightarrow> iae_event set \<Rightarrow> bool" for env where
  run_start: "iae_run env st L st L"
| run_initial: "iae_run env st0 L0 st L \<Longrightarrow> unused fresh st L \<Longrightarrow>
     handleInitialRequest env clock fresh request tenantId origin dpop st = (result, st') \<Longrightarrow>
     iae_run env st0 L0 st' (L \<union> started_events env clock fresh request tenantId dpop (iae_offers st))"
| run_refused: "iae_run env st0 L0 st L \<Longrightarrow>
     isl (fst (validateAuthSession (clock 0) (fur_auth_session request) tenantId (iae_sessions st))) \<Longrightarrow>
     handleFollowUpRequest env clock fresh gap others request tenantId origin st = (reply, st') \<Longrightarrow>
     iae_run env st0 L0 st' L"
| run_follow: "iae_run env st0 L0 st1 L1 \<Longrightarrow> iae_run env st1 L1 st2 L2 \<Longrightarrow> undisturbed L2 others \<Longrightarrow>
     fst (validateAuthSession (clock 0) (fur_auth_session request) tenantId (iae_sessions st1)) = Inr r \<Longrightarrow>
     handleFollowUpRequest env clock fresh (\<lambda>_. st2) others request tenantId origin st1 = (reply, st3) \<Longrightarrow>
     iae_run env st0 L0 st3
       (L2 \<union> submitted_events env (clock 1) request r (iae_offers st2) \<union> code_events request reply)"
| run_web: "iae_run env st0 L0 st L \<Longrightarrow>
     completeWebAuth now (\<lambda>db. db) token authSession tenantId (iae_sessions st) = (Inr success, db) \<Longrightarrow>
     iae_run env st0 L0 (st\<lparr>iae_sessions := db\<rparr>)
       (L \<union> web_events tenantId authSession success (iae_sessions st))"
| run_response: "iae_run env st0 L0 st L \<Longrightarrow> undisturbed L others \<Longrightarrow>
     getResponse (iae_responses env) now code others body nonce (iae_offers st) = (result, db, events) \<Longrightarrow>
     iae_run env st0 L0 (st\<lparr>iae_offers := db\<rparr>)
       (L \<union> presented_events (iae_responses env) now body nonce (iae_offers st))"
| run_others: "iae_run env st0 L0 st L \<Longrightarrow> undisturbed L ss \<Longrightarrow>
     iae_run env st0 L0 (st\<lparr>iae_offers := exec_stmts ss (iae_offers st)\<rparr>) L"

definition empty_state :: "sessions \<Rightarrow> iae_state" where
  "empty_state offers = \<lparr>iae_sessions = [], iae_offers = offers\<rparr>"


section \<open>The invariant\<close>

definition presentation_ids :: "iae_action list \<Rightarrow> string set" where
  "presentation_ids as = {c. \<exists>l. Iae_Presentation l c \<in> set as}"

text \<open>The configurations the steps of a session may ask for; without actions any.\<close>

definition asks :: "interactive_session \<Rightarrow> string \<Rightarrow> bool" where
  "asks r c \<longleftrightarrow> (case ias_iaeActions r of Some as \<Rightarrow> c \<in> presentation_ids as | None \<Rightarrow> True)"

definition presented :: "iae_event set \<Rightarrow> interactive_session \<Rightarrow> bool" where
  "presented L r \<longleftrightarrow> (\<exists>c. asks r c \<and> Presented (ias_authSession r) (Some c) \<in> L)"

definition steps_of :: "interactive_session \<Rightarrow> nat" where
  "steps_of r = (case ias_iaeActions r of Some as \<Rightarrow> length as | None \<Rightarrow> 1)"

definition step_done :: "iae_event set \<Rightarrow> interactive_session \<Rightarrow> nat \<Rightarrow> bool" where
  "step_done L r i \<longleftrightarrow> (case ias_iaeActions r of
     Some as \<Rightarrow> (if action_interaction (as ! i) = Openid4vp_Presentation then presented L r
                 else Web_Done (ias_authSession r) i \<in> L)
   | None \<Rightarrow> presented L r \<or> Web_Done (ias_authSession r) i \<in> L)"

text \<open>The columns no update changes.\<close>

definition same_start :: "interactive_session \<Rightarrow> interactive_session \<Rightarrow> bool" where
  "same_start r r' \<longleftrightarrow> ias_id r = ias_id r' \<and> ias_authSession r = ias_authSession r' \<and> ias_tenantId r = ias_tenantId r'
     \<and> ias_codeChallenge r = ias_codeChallenge r' \<and> ias_codeChallengeMethod r = ias_codeChallengeMethod r'
     \<and> ias_issuerState r = ias_issuerState r' \<and> ias_iaeActions r = ias_iaeActions r'"

definition interactive_row_ok :: "iae_event set \<Rightarrow> interactive_session \<Rightarrow> bool" where
  "interactive_row_ok L r \<longleftrightarrow> (\<exists>r0. Started r0 \<in> L \<and> same_start r0 r) \<and> ias_currentStepIndex r < steps_of r
     \<and> (\<forall>i < ias_currentStepIndex r. step_done L r i)
     \<and> (ias_status r = Web_Auth_Completed \<longrightarrow> step_done L r (ias_currentStepIndex r))"

definition offers_ok :: "iae_event set \<Rightarrow> sessions \<Rightarrow> bool" where
  "offers_ok L db \<longleftrightarrow> (\<forall>s \<in> set db. \<forall>r. Started r \<in> L \<and> ias_authSession r = s_id s \<longrightarrow>
     (\<exists>c. s_requestId s = Some c \<and> asks r c) \<and> (s_status s = Completed \<longrightarrow> presented L r))"

definition started_ok :: "interactive_session \<Rightarrow> bool" where
  "started_ok r \<longleftrightarrow> truthy (ias_codeChallenge r) \<and> ias_codeChallengeMethod r = Some ''S256'' \<and> 0 < steps_of r"

definition events_ok :: "iae_event set \<Rightarrow> bool" where
  "events_ok L \<longleftrightarrow>
     (\<forall>r r'. Started r \<in> L \<and> Started r' \<in> L \<and> (ias_authSession r = ias_authSession r' \<or> ias_id r = ias_id r') \<longrightarrow> r = r')
     \<and> (\<forall>r. Started r \<in> L \<longrightarrow> started_ok r)
     \<and> (\<forall>a code. Code_Given a code \<in> L \<longrightarrow>
          (\<exists>r. Started r \<in> L \<and> ias_authSession r = a \<and> (\<forall>i < steps_of r. step_done L r i)))"

definition rows_ok :: "iae_event set \<Rightarrow> interactive_sessions \<Rightarrow> bool" where
  "rows_ok L db \<longleftrightarrow> (\<forall>r \<in> set db. interactive_row_ok L r)
     \<and> (\<forall>r \<in> set db. \<forall>r' \<in> set db. ias_authSession r = ias_authSession r' \<longrightarrow> r = r')"

definition iae_ok :: "iae_state \<Rightarrow> iae_event set \<Rightarrow> bool" where
  "iae_ok st L \<longleftrightarrow> rows_ok L (iae_sessions st) \<and> offers_ok L (iae_offers st) \<and> events_ok L"

lemma presented_mono: "presented L r \<Longrightarrow> L \<subseteq> L' \<Longrightarrow> presented L' r"
  by (auto simp: presented_def)

lemma step_done_mono: "step_done L r i \<Longrightarrow> L \<subseteq> L' \<Longrightarrow> step_done L' r i"
  by (auto simp: step_done_def intro: presented_mono split: option.splits if_splits)

lemma row_ok_mono: "interactive_row_ok L r \<Longrightarrow> L \<subseteq> L' \<Longrightarrow> interactive_row_ok L' r"
  by (auto simp: interactive_row_ok_def intro: step_done_mono)

lemma rows_ok_mono: "rows_ok L db \<Longrightarrow> L \<subseteq> L' \<Longrightarrow> rows_ok L' db"
  by (auto simp: rows_ok_def intro: row_ok_mono)

lemma rows_okD: "rows_ok L db \<Longrightarrow> r \<in> set db \<Longrightarrow> interactive_row_ok L r"
  by (simp add: rows_ok_def)

lemma same_start_facts:
  assumes "same_start r r'"
  shows "steps_of r = steps_of r'" "asks r c = asks r' c" "presented L r = presented L r'" "step_done L r i = step_done L r' i"
  using assms by (auto simp: same_start_def steps_of_def asks_def presented_def step_done_def split: option.split)

lemma row_started: "interactive_row_ok L r \<Longrightarrow> \<exists>r0. Started r0 \<in> L \<and> same_start r0 r"
  by (simp add: interactive_row_ok_def)

lemma events_okD:
  assumes "events_ok L"
  shows "Started r \<in> L \<Longrightarrow> Started r' \<in> L \<Longrightarrow> ias_authSession r = ias_authSession r' \<Longrightarrow> r = r'"
    and "Started r \<in> L \<Longrightarrow> Started r' \<in> L \<Longrightarrow> ias_id r = ias_id r' \<Longrightarrow> r = r'"
    and "Started r \<in> L \<Longrightarrow> started_ok r"
  using assms by (auto simp: events_ok_def)

text \<open>New events of which none starts a session or hands out a code.\<close>

lemma events_ok_more:
  assumes "events_ok L" "\<And>e. e \<in> E \<Longrightarrow> \<exists>i c. e = Presented i c \<or> (\<exists>a n. e = Web_Done a n)"
  shows "events_ok (L \<union> E)"
proof -
  have "Started r \<in> L \<union> E \<longleftrightarrow> Started r \<in> L" "Code_Given a c \<in> L \<union> E \<longleftrightarrow> Code_Given a c \<in> L" for r a c
    using assms(2) by auto
  then show ?thesis using assms(1) step_done_mono [of L _ _ "L \<union> E"]
    unfolding events_ok_def by (metis Un_upper1)
qed

lemma offers_ok_more:
  assumes "offers_ok L db" "\<And>r. Started r \<in> L' \<Longrightarrow> Started r \<in> L" "L \<subseteq> L'"
  shows "offers_ok L' db"
  using assms presented_mono [OF _ assms(3)] unfolding offers_ok_def by blast


section \<open>The invariant and the offers\<close>

definition permitted :: "iae_event set \<Rightarrow> session_stmt \<Rightarrow> bool" where
  "permitted L st \<longleftrightarrow> (\<forall>r. Started r \<in> L \<longrightarrow> leaves_presentation (ias_authSession r) st
     \<or> (presented L r \<and> (\<exists>now t i u. st = Stmt_UpdateUnconsumed now t i u \<and> list_all (\<lambda>a. \<not> sets_request a) u)))"

lemma permitted_row:
  assumes "permitted L st" "Started q \<in> L" "ias_authSession q = s_id r" "stmt_row st db r = Some r'"
  shows "s_requestId r' = s_requestId r \<and> (s_status r' = Completed \<longrightarrow> s_status r = Completed \<or> presented L q)"
proof -
  consider "leaves_presentation (s_id r) st"
    | now t i u where "presented L q" "st = Stmt_UpdateUnconsumed now t i u" "list_all (\<lambda>a. \<not> sets_request a) u"
    using assms(1-3) unfolding permitted_def by metis
  then show ?thesis
  proof cases
    case 1
    from leaves_presentation_row [OF this assms(4)] show ?thesis by blast
  next
    case 2
    with assms(4) show ?thesis by (auto simp: set_clause_request split: if_splits)
  qed
qed

lemma permitted_insert:
  assumes "permitted L st" "Started q \<in> L" "s \<in> set (stmt_insert st db)"
  shows "ias_authSession q \<noteq> s_id s"
  using assms by (cases st) (auto simp: permitted_def split: if_splits)

lemma offers_ok_stmt:
  assumes "offers_ok L db" "permitted L st"
  shows "offers_ok L (exec_stmt st db)"
  unfolding offers_ok_def
proof (intro ballI allI impI)
  fix s r assume s: "s \<in> set (exec_stmt st db)" and r: "Started r \<in> L \<and> ias_authSession r = s_id s"
  then obtain s0 where s0: "s0 \<in> set db" "stmt_row st db s0 = Some s"
    using permitted_insert [OF assms(2)] by (auto simp: exec_stmt_set)
  with r stmt_row_id have i: "ias_authSession r = s_id s0" by force
  with s0(1) r assms(1) have "(\<exists>c. s_requestId s0 = Some c \<and> asks r c) \<and> (s_status s0 = Completed \<longrightarrow> presented L r)"
    by (auto simp: offers_ok_def)
  with permitted_row [OF assms(2) _ i s0(2)] r
  show "(\<exists>c. s_requestId s = Some c \<and> asks r c) \<and> (s_status s = Completed \<longrightarrow> presented L r)" by auto
qed

lemma offers_ok_stmts:
  "offers_ok L db \<Longrightarrow> list_all (permitted L) ss \<Longrightarrow> offers_ok L (exec_stmts ss db)"
  by (induction ss arbitrary: db) (simp_all add: offers_ok_stmt)

lemma undisturbed_permitted: "undisturbed L ss \<Longrightarrow> list_all (permitted L) ss"
  by (auto simp: undisturbed_def permitted_def list_all_iff)


section \<open>What a response writes\<close>

text \<open>The handler of a response runs the statements of the others and single-use updates of its session, which
  complete it only after a verification.\<close>

definition response_stmt :: "session_stmt list \<Rightarrow> (string \<Rightarrow> bool) \<Rightarrow> session_stmt \<Rightarrow> bool" where
  "response_stmt others verified st \<longleftrightarrow> st \<in> set others \<or> (\<exists>now t i u. st = Stmt_UpdateUnconsumed now t i u
     \<and> list_all (\<lambda>a. \<not> sets_request a) u \<and> (final_status u = Some Completed \<longrightarrow> verified i))"

definition writes :: "(session_stmt \<Rightarrow> bool) \<Rightarrow> sessions \<Rightarrow> sessions \<Rightarrow> bool" where
  "writes P db db' \<longleftrightarrow> (\<exists>ss. db' = exec_stmts ss db \<and> list_all P ss)"

lemma writes_none [simp, intro]: "writes P db db"
  unfolding writes_def by (intro exI [of _ "[]"]) simp

lemma writes_more: "writes P db (exec_stmts ss db)" if "list_all P ss"
  using that by (auto simp: writes_def)

lemma writes_trans: "writes P db db1 \<Longrightarrow> writes P db1 db2 \<Longrightarrow> writes P db db2"
  unfolding writes_def by (elim exE conjE) (metis exec_stmts_append list_all_append)

lemma writes_mono: "writes P db db' \<Longrightarrow> (\<And>st. P st \<Longrightarrow> Q st) \<Longrightarrow> writes Q db db'"
  unfolding writes_def by (metis list_all_iff)

lemma writes_offers_ok: "offers_ok L db \<Longrightarrow> writes (permitted L) db db' \<Longrightarrow> offers_ok L db'"
  by (auto simp: writes_def intro: offers_ok_stmts)

lemma others_response: "list_all (response_stmt others verified) others"
  by (simp add: list_all_iff response_stmt_def)

lemma failure_writes:
  "writes (response_stmt others verified) db (fst (snd (failPresentationResponse publisher now input db)))"
proof -
  have "fst (snd (failPresentationResponse publisher now input db))
      = exec_stmts [Stmt_UpdateUnconsumed now (fl_tenantId input) (fl_sessionId input) (failure_update input)] db"
    by (simp add: failPresentationResponse_def Let_def split_beta)
  moreover have "list_all (response_stmt others verified)
      [Stmt_UpdateUnconsumed now (fl_tenantId input) (fl_sessionId input) (failure_update input)]"
    by (simp add: response_stmt_def failure_update_def coalesce_def)
  ultimately show ?thesis by (metis writes_more)
qed

lemma record_writes:
  "writes (response_stmt others verified) db (fst (snd (recordFailure env now s redirect report webhook db)))"
  by (cases report) (simp add: recordFailure_run failure_writes)

lemma wallet_error_writes:
  "writes (response_stmt others verified) db (fst (snd (handleWalletError env now s werr db)))"
  by (cases werr) (simp add: walletError_run failure_writes)

lemma processed_writes:
  assumes "verified (s_id s)"
  shows "writes (response_stmt others verified) db
    (fst (snd (processVerifiedPresentation env now response s vs code webhook raw db)))"
proof -
  let ?run = "processVerifiedPresentation env now response s vs code webhook raw db"
  let ?st = "Stmt_UpdateUnconsumed now (s_tenantId s) (s_id s) (completion_update now (completion_of s vs code))"
  obtain r db' events where run: "?run = (r, db', events)" by (metis surj_pair)
  show ?thesis
  proof (cases r)
    case (Inl e)
    with not_processed_run [of env now response s vs code webhook raw db e db' events] run show ?thesis by simp
  next
    case (Inr redirect)
    with processed_run [of env now response s vs code webhook raw db redirect db' events] run
    have "fst (snd ?run) = exec_stmts [?st] db" by simp
    moreover have "list_all (response_stmt others verified) [?st]"
      using assms by (simp add: response_stmt_def completion_update_def)
    ultimately show ?thesis by (metis writes_more)
  qed
qed

lemma process_writes:
  assumes "\<And>vs. verifyPresentationResponse (verification_of env) now response (presentation_query_of config) s = Inr vs \<Longrightarrow>
    verified (s_id s)"
  shows "writes (response_stmt others verified) db
    (fst (snd (process_response env now code others s body raw response config webhook db)))"
proof -
  let ?P = "response_stmt others verified" and ?db = "exec_stmts others db"
  have start: "writes ?P db ?db" by (rule writes_more [OF others_response])
  note failing = writes_trans [OF start record_writes [where others = others and verified = verified]]
  show ?thesis
  proof (cases "verifyPresentationResponse (verification_of env) now response (presentation_query_of config) s")
    case (Inl e)
    with failing show ?thesis by (simp add: process_response_def)
  next
    case vs: (Inr vs)
    obtain r db2 events where run: "processVerifiedPresentation env now response s vs code webhook raw ?db = (r, db2, events)"
      by (metis surj_pair)
    have "writes ?P ?db db2"
      using processed_writes [where verified = verified and s = s and others = others and env = env and db = ?db
          and now = now and response = response and vs = vs and code = code and webhook = webhook and raw = raw]
        assms [OF vs] run by simp
    then have w: "writes ?P db db2" by (rule writes_trans [OF start])
    note again = writes_trans [OF w record_writes [where others = others and verified = verified]]
    show ?thesis
    proof (cases r)
      case (Inl e)
      then show ?thesis using vs run w again by (cases e) (simp_all add: process_response_def)
    next
      case (Inr redirect)
      then show ?thesis using vs run w again
        by (simp add: process_response_def Let_def split_beta split: option.split)
    qed
  qed
qed

lemma response_writes:
  "writes (response_stmt others (\<lambda>i. \<exists>c. verified_by env now body nonce db i c)) db
     (fst (snd (getResponse env now code others body nonce db)))"
proof (cases rule: getResponse_cases [of env now code others body nonce db])
  case (refused e)
  then show ?thesis by simp
next
  case (wallet s werr)
  then show ?thesis
    using writes_trans [OF writes_more [OF others_response] wallet_error_writes] by simp
next
  case (response s raw response config webhook)
  show ?thesis unfolding response(2)
    by (rule process_writes) (use response(1) in \<open>unfold verified_by_def, blast\<close>)
qed

lemma reached_session: "reaches_response env now body nonce db s raw response config webhook \<Longrightarrow> s \<in> set db"
  by (auto simp: reaches_response_def getForWalletRequest_def store_lookup_ok findForWalletRequest_def
      dest!: sql_find_one_Some split: option.splits)

text \<open>A response keeps the invariant, with the events it causes.\<close>

lemma response_offers_ok:
  fixes env now body nonce db L
  defines "L' \<equiv> L \<union> presented_events env now body nonce db"
  assumes "offers_ok L db" "undisturbed L others"
  shows "offers_ok L' (fst (snd (getResponse env now code others body nonce db)))"
proof (rule writes_offers_ok)
  have started: "Started r \<in> L' \<Longrightarrow> Started r \<in> L" for r by (auto simp: L'_def presented_events_def)
  show ok: "offers_ok L' db" by (rule offers_ok_more [OF assms(2) started]) (auto simp: L'_def)
  have "permitted L' st" if "response_stmt others (\<lambda>i. \<exists>c. verified_by env now body nonce db i c) st" for st
  proof -
    have seen: "presented L' r" if v: "verified_by env now body nonce db (ias_authSession r) c" and r: "Started r \<in> L'" for r c
    proof -
      obtain s where s: "s \<in> set db" "s_id s = ias_authSession r" "s_requestId s = c"
        using v reached_session unfolding verified_by_def by blast
      with ok r obtain c' where "c = Some c'" "asks r c'" by (fastforce simp: offers_ok_def)
      with v show ?thesis by (auto simp: presented_def L'_def presented_events_def)
    qed
    from that consider "st \<in> set others"
      | now' t i u where "st = Stmt_UpdateUnconsumed now' t i u" "list_all (\<lambda>a. \<not> sets_request a) u"
        "final_status u = Some Completed \<longrightarrow> (\<exists>c. verified_by env now body nonce db i c)"
      unfolding response_stmt_def by blast
    then show ?thesis
    proof cases
      case 1
      with assms(3) started show ?thesis by (auto simp: permitted_def undisturbed_def list_all_iff)
    next
      case 2
      then show ?thesis using seen by (auto simp: permitted_def quiet_update_def)
    qed
  qed
  then show "writes (permitted L') db (fst (snd (getResponse env now code others body nonce db)))"
    by (rule writes_mono [OF response_writes])
qed


section \<open>The invariant and the tables\<close>

definition tables_ok :: "iae_state \<Rightarrow> iae_event set \<Rightarrow> bool" where
  "tables_ok st L \<longleftrightarrow> rows_ok L (iae_sessions st) \<and> offers_ok L (iae_offers st)"

lemma iae_ok_split: "iae_ok st L \<longleftrightarrow> tables_ok st L \<and> events_ok L"
  by (auto simp: iae_ok_def tables_ok_def)

lemma rows_ok_map:
  assumes "rows_ok L db" "\<And>x. x \<in> set db \<Longrightarrow> interactive_row_ok L x \<Longrightarrow> interactive_row_ok L (g x)"
    "\<And>x. ias_authSession (g x) = ias_authSession x"
  shows "rows_ok L (map g db)"
  unfolding rows_ok_def
proof (intro conjI ballI impI)
  fix y assume "y \<in> set (map g db)"
  then show "interactive_row_ok L y" using assms(1,2) by (auto simp: rows_ok_def)
next
  fix y y' assume y: "y \<in> set (map g db)" "y' \<in> set (map g db)" "ias_authSession y = ias_authSession y'"
  then obtain x x' where "x \<in> set db" "x' \<in> set db" "y = g x" "y' = g x'" by auto
  moreover from this y(3) have "ias_authSession x = ias_authSession x'" by (simp add: assms(3))
  ultimately show "y = y'" using assms(1) unfolding rows_ok_def by metis
qed

lemma iae_update_ok:
  assumes "rows_ok L db" "\<And>x. x \<in> set db \<Longrightarrow> ias_id x = i \<Longrightarrow> interactive_row_ok L x \<Longrightarrow> interactive_row_ok L (f x)"
    "\<And>x. ias_authSession (f x) = ias_authSession x"
  shows "rows_ok L (iae_update i f db)"
  unfolding iae_update_def sql_update_def fst_conv by (rule rows_ok_map [OF assms(1)]) (simp_all add: assms(2,3))

lemma iae_updateForTenant_ok:
  assumes "rows_ok L db"
    "\<And>x. x \<in> set db \<Longrightarrow> ias_authSession x = a \<Longrightarrow> ias_tenantId x = t \<Longrightarrow> interactive_row_ok L x \<Longrightarrow> interactive_row_ok L (f x)"
    "\<And>x. ias_authSession (f x) = ias_authSession x"
  shows "rows_ok L (snd (iae_updateForTenant t a f db))"
  unfolding iae_updateForTenant_def sql_update_def Let_def prod.case snd_conv
  by (rule rows_ok_map [OF assms(1)]) (simp_all add: assms(2,3))

lemma iae_delete_ok: "rows_ok L db \<Longrightarrow> rows_ok L (iae_delete s db)"
  by (auto simp: rows_ok_def iae_delete_def sql_delete_rows)

lemma row_ok_change:
  assumes "interactive_row_ok L x" "same_start x y" "ias_currentStepIndex y = ias_currentStepIndex x"
    "ias_status y = Web_Auth_Completed \<Longrightarrow> ias_status x = Web_Auth_Completed"
  shows "interactive_row_ok L y"
proof -
  have "same_start q x \<Longrightarrow> same_start q y" for q using assms(2) by (simp add: same_start_def)
  with assms same_start_facts [OF assms(2)] show ?thesis unfolding interactive_row_ok_def by metis
qed

lemma create_offers_ok:
  assumes "offers_ok L db" "\<And>q. Started q \<in> L \<Longrightarrow> ias_authSession q = a \<Longrightarrow> asks q c"
  shows "offers_ok L (snd (createSession_execute now \<lparr>ns_id = a, ns_tenantId = t, ns_columns = [Set_requestId (Some c)]\<rparr> db))"
  unfolding offers_ok_def
proof (intro ballI allI impI)
  let ?ns = "\<lparr>ns_id = a, ns_tenantId = t, ns_columns = [Set_requestId (Some c)]\<rparr>"
  fix s q assume "s \<in> set (snd (createSession_execute now ?ns db))" and q: "Started q \<in> L \<and> ias_authSession q = s_id s"
  then have "s \<in> set db \<or> s = fst (repo_create now ?ns db)"
    by (auto simp: createSession_execute_def create_as_rows set_map_filter split: if_splits)
  then show "(\<exists>c. s_requestId s = Some c \<and> asks q c) \<and> (s_status s = Completed \<longrightarrow> presented L q)"
  proof
    assume "s \<in> set db"
    with assms(1) q show ?thesis by (auto simp: offers_ok_def)
  next
    assume s: "s = fst (repo_create now ?ns db)"
    then have i: "s_id s = a" by simp
    show ?thesis
    proof (cases "sql_find_one (\<lambda>r. s_id r = a) db")
      case None
      then have "s_requestId s = Some c" "s_status s = Active"
        using s by (simp_all add: repo_create_def blank_session_def Let_def)
      with assms(2) q i show ?thesis by simp
    next
      case (Some r)
      then have "s_requestId s = Some c" "s_status s = s_status r"
        using s by (simp_all add: repo_create_def Let_def set_clause_def)
      moreover have "r \<in> set db" "s_id r = a" using Some by (auto dest: sql_find_one_Some)
      ultimately show ?thesis using assms q i by (auto simp: offers_ok_def)
    qed
  qed
qed

lemma update_offers_ok:
  assumes "offers_ok L db" "quiet_update u"
  shows "offers_ok L (fst (updateForTenant now t i u db))"
  using offers_ok_stmt [OF assms(1), of "Stmt_Update now t i u"] assms(2) by (simp add: permitted_def)

lemma createRequest_offers_ok:
  assumes "offers_ok L db"
  shows "offers_ok L (snd (createRequest env now others1 others2 fv c (interaction_options a) t dc origin db))"
proof -
  have q: "quiet_update [Set_walletNonce w, Set_requestUrl u, Set_expiresAt e, Set_useDcApi d, Set_clientId k]"
    "quiet_update [Set_walletNonce w, Set_requestUrl u, Set_expiresAt e, Set_useDcApi d, Set_clientId k,
       Set_responseUri x, Set_vp_nonce n]" for w u e d k x n
    by (simp_all add: quiet_update_def)
  show ?thesis
    using assms update_offers_ok [OF assms q(1)] update_offers_ok [OF assms q(2)]
    by (auto simp: createRequest_def interaction_options_def createRedirectUriRequest_def createSignedRequest_def Let_def
        split: sum.split)
qed

lemma forConfig_offers_ok:
  assumes "offers_ok L db" "\<And>q. Started q \<in> L \<Longrightarrow> ias_authSession q = a \<Longrightarrow> asks q c"
  shows "offers_ok L (snd (createOpenid4vpInteractionResponseForConfig env now fv a t origin c db))"
  using createRequest_offers_ok [OF create_offers_ok [OF assms]]
  by (auto simp: createOpenid4vpInteractionResponseForConfig_def Let_def split_beta split: sum.split)

lemma ask_web_ok:
  assumes "tables_ok st L"
  shows "tables_ok (snd (ask_web now fresh a t st)) L"
proof -
  have "rows_ok L (snd (iae_updateForTenant t a (\<lambda>r. r\<lparr>ias_requestUri := u, ias_parExpiresAt := e\<rparr>) (iae_sessions st)))"
    for u e
    by (rule iae_updateForTenant_ok) (use assms in \<open>auto simp: tables_ok_def same_start_def intro: row_ok_change\<close>)
  with assms show ?thesis
    by (auto simp: ask_web_def createRedirectToWebResponseForUrl_def tables_ok_def Let_def)
qed

lemma executeIaeAction_ok:
  assumes "tables_ok st L" "\<And>q l c. Started q \<in> L \<Longrightarrow> ias_authSession q = a \<Longrightarrow> action = Iae_Presentation l c \<Longrightarrow> asks q c"
  shows "tables_ok (snd (executeIaeAction env now fresh a t origin action types st)) L"
proof (cases action)
  case (Iae_Presentation l c)
  have "offers_ok L (snd (createOpenid4vpInteractionResponseForConfig env now (iaf_request fresh) a t origin c (iae_offers st)))"
    by (rule forConfig_offers_ok) (use assms Iae_Presentation in \<open>auto simp: tables_ok_def\<close>)
  with assms(1) Iae_Presentation show ?thesis
    by (auto simp: executeIaeAction_def ask_presentation_def tables_ok_def split_beta)
next
  case Iae_Web
  with assms(1) ask_web_ok show ?thesis by (simp add: executeIaeAction_def)
qed

lemma executeIaeAction_no_code:
  "fst (executeIaeAction env now fresh a t origin action types st) \<noteq> Iae_Code code"
  by (auto simp: executeIaeAction_def ask_presentation_def ask_web_def createRedirectToWebResponseForUrl_def
      createOpenid4vpInteractionResponseForConfig_def presentation_failed_def invalid_request_def Let_def split_beta
      split: iae_action.splits sum.splits)


section \<open>The initial request\<close>

lemma refuse_initial_checked:
  assumes "refuse_initial now request tenantId offers = None"
  shows "truthy (inr_code_challenge request)" "inr_code_challenge_method request = Some ''S256''"
  using assms by (auto simp: refuse_initial_def assertS256CodeChallenge_def require_def split: if_splits)

lemma initial_actions_some: "initial_actions env tenantId details = Inr actions \<Longrightarrow> actions \<noteq> Some []"
  by (auto simp: initial_actions_def returns split: option.splits if_splits)

lemma initial_session_simps [simp]:
  "ias_id (initial_session now fresh request t dpop as) = iaf_id fresh"
  "ias_authSession (initial_session now fresh request t dpop as) = iaf_authSession fresh"
  "ias_tenantId (initial_session now fresh request t dpop as) = t"
  "ias_iaeActions (initial_session now fresh request t dpop as) = as"
  "ias_currentStepIndex (initial_session now fresh request t dpop as) = 0"
  "ias_status (initial_session now fresh request t dpop as) = Iae_Pending"
  "ias_authorizationCode (initial_session now fresh request t dpop as) = None"
  "ias_codeChallenge (initial_session now fresh request t dpop as) = inr_code_challenge request"
  "ias_codeChallengeMethod (initial_session now fresh request t dpop as) = inr_code_challenge_method request"
  "ias_issuerState (initial_session now fresh request t dpop as) = inr_issuer_state request"
  by (simp_all add: initial_session_def)

lemma same_start_refl [simp]: "same_start r r"
  by (simp add: same_start_def)

lemma started_session:
  assumes "refuse_initial now request tenantId offers = None"
    "initial_actions env tenantId (inr_authorization_details request) = Inr actions"
  shows "started_ok (initial_session later fresh request tenantId dpop actions)"
  using refuse_initial_checked [OF assms(1)] initial_actions_some [OF assms(2)]
  by (auto simp: started_ok_def steps_of_def split: option.splits)

lemma events_ok_started:
  assumes "events_ok L" "unused fresh st L" "started_ok r0" "ias_id r0 = iaf_id fresh" "ias_authSession r0 = iaf_authSession fresh"
  shows "events_ok (L \<union> {Started r0})"
proof -
  have new: "ias_authSession r \<noteq> ias_authSession r0" "ias_id r \<noteq> ias_id r0" if "Started r \<in> L" for r
    using assms(2,4,5) that by (auto simp: unused_def)
  have sd: "step_done L r i \<Longrightarrow> step_done (L \<union> {Started r0}) r i" for r i
    by (erule step_done_mono) blast
  have "\<exists>r. Started r \<in> L \<union> {Started r0} \<and> ias_authSession r = a \<and> (\<forall>i < steps_of r. step_done (L \<union> {Started r0}) r i)"
    if "Code_Given a code \<in> L" for a code
    using assms(1) that sd unfolding events_ok_def by (metis UnI1)
  moreover have "r = r'"
    if "Started r \<in> L \<union> {Started r0}" "Started r' \<in> L \<union> {Started r0}" "ias_authSession r = ias_authSession r' \<or> ias_id r = ias_id r'"
    for r r'
    using that new [of r] new [of r'] events_okD(1,2) [OF assms(1), of r r'] by auto
  moreover have "started_ok r" if "Started r \<in> L \<union> {Started r0}" for r
    using that assms(3) events_okD(3) [OF assms(1), of r] by auto
  ultimately show ?thesis unfolding events_ok_def by blast
qed

lemma initial_tables_ok:
  assumes "tables_ok st L" "unused fresh st L" "started_ok r0" "ias_id r0 = iaf_id fresh"
    "ias_authSession r0 = iaf_authSession fresh" "ias_currentStepIndex r0 = 0" "ias_status r0 = Iae_Pending"
  shows "tables_ok (st\<lparr>iae_sessions := iae_create r0 (iae_sessions st)\<rparr>) (L \<union> {Started r0})"
proof -
  let ?L = "L \<union> {Started r0}"
  have "interactive_row_ok ?L r0" using assms(3,6,7) by (auto simp: interactive_row_ok_def started_ok_def)
  moreover have "ias_authSession x \<noteq> ias_authSession r0 \<and> ias_authSession r0 \<noteq> ias_authSession x"
    if x: "x \<in> set (iae_sessions st)" for x
  proof -
    obtain x0 where "Started x0 \<in> L" "same_start x0 x"
      using x assms(1) rows_okD [of L "iae_sessions st" x] row_started [of L x] unfolding tables_ok_def by blast
    with assms(2,5) show ?thesis by (auto simp: unused_def same_start_def)
  qed
  ultimately have "rows_ok ?L (iae_create r0 (iae_sessions st))"
    using assms(1) by (auto simp: iae_create_def tables_ok_def rows_ok_def intro: row_ok_mono [of L])
  moreover have "offers_ok ?L (iae_offers st)"
    unfolding offers_ok_def
  proof (intro ballI allI impI)
    fix s r assume s: "s \<in> set (iae_offers st)" and r: "Started r \<in> ?L \<and> ias_authSession r = s_id s"
    with assms(2,5) have "Started r \<in> L" by (auto simp: unused_def)
    with s r assms(1) presented_mono [of L r ?L]
    show "(\<exists>c. s_requestId s = Some c \<and> asks r c) \<and> (s_status s = Completed \<longrightarrow> presented ?L r)"
      by (auto simp: tables_ok_def offers_ok_def)
  qed
  ultimately show ?thesis by (simp add: tables_ok_def)
qed

lemma initial_step:
  assumes "handleInitialRequest env clock fresh request tenantId origin dpop st = (result, st')"
    and "iae_ok st L" "unused fresh st L"
  shows "iae_ok st' (L \<union> started_events env clock fresh request tenantId dpop (iae_offers st))"
proof (cases "refuse_initial (clock 0) request tenantId (iae_offers st)")
  case (Some reply)
  with assms show ?thesis by (simp add: handleInitialRequest_def started_events_def)
next
  case none: None
  show ?thesis
  proof (cases "initial_actions env tenantId (inr_authorization_details request)")
    case (Inl e)
    with none assms show ?thesis by (simp add: handleInitialRequest_def started_events_def)
  next
    case (Inr actions)
    let ?r = "initial_session (clock 1) fresh request tenantId dpop actions"
    let ?L = "L \<union> {Started ?r}" and ?st = "st\<lparr>iae_sessions := iae_create ?r (iae_sessions st)\<rparr>"
    have L: "started_events env clock fresh request tenantId dpop (iae_offers st) = {Started ?r}"
      using none Inr by (simp add: started_events_def)
    note start = started_session [OF none Inr, of "clock 1" fresh dpop]
    have ev: "events_ok ?L" by (rule events_ok_started [OF _ assms(3) start]) (use assms(2) in \<open>auto simp: iae_ok_split\<close>)
    have tab: "tables_ok ?st ?L"
      by (rule initial_tables_ok [OF _ assms(3) start]) (use assms(2) in \<open>auto simp: iae_ok_split\<close>)
    have own: "q = ?r" if "Started q \<in> ?L" "ias_authSession q = iaf_authSession fresh" for q
      using events_okD(1) [OF ev that(1), of ?r] that(2) by simp
    have "tables_ok st' ?L"
    proof (cases "\<exists>a as. actions = Some (a # as)")
      case True
      then obtain a as where as: "actions = Some (a # as)" by blast
      have "tables_ok (snd (executeIaeAction env (clock 2) fresh (iaf_authSession fresh) tenantId origin a
          (supported_types (inr_interaction_types_supported request)) ?st)) ?L"
      proof (rule executeIaeAction_ok [OF tab])
        fix q l c assume q: "Started q \<in> ?L" "ias_authSession q = iaf_authSession fresh" "a = Iae_Presentation l c"
        from own [OF q(1,2)] as q(3) show "asks q c" by (auto simp: asks_def presentation_ids_def)
      qed
      with assms(1) none Inr as show ?thesis by (auto simp: handleInitialRequest_def Let_def apfst_def map_prod_def split_beta)
    next
      case False
      with initial_actions_some [OF Inr] have as: "actions = None" by (cases actions) (auto simp: neq_Nil_conv)
      then have any: "Started q \<in> ?L \<Longrightarrow> ias_authSession q = iaf_authSession fresh \<Longrightarrow> asks q c" for q c
        using own [of q] by (simp add: asks_def)
      have offers: "offers_ok ?L (iae_offers st)" using tab by (simp add: tables_ok_def)
      note one = forConfig_offers_ok [OF offers any]
      have vp: "offers_ok ?L (snd (createOpenid4vpInteractionResponse env (clock 2) (iaf_request fresh) (iaf_authSession fresh)
          tenantId origin (inr_authorization_details request) (iae_offers st)))"
        using one offers by (auto simp: createOpenid4vpInteractionResponse_def split: sum.split)
      show ?thesis
        using assms(1) none Inr as vp tab ask_web_ok [OF tab, of "clock 2" fresh "iaf_authSession fresh" tenantId]
        by (auto simp: handleInitialRequest_def Let_def apfst_def map_prod_def split_beta tables_ok_def split: if_splits)
    qed
    with ev show ?thesis by (simp add: L iae_ok_split)
  qed
qed


section \<open>The follow-up request\<close>

lemma same_row:
  assumes "events_ok L" "interactive_row_ok L x" "interactive_row_ok L r" "ias_id x = ias_id r"
  shows "same_start x r"
proof -
  obtain x0 r0 where s: "Started x0 \<in> L" "same_start x0 x" "Started r0 \<in> L" "same_start r0 r"
    using assms(2,3) row_started by blast
  then have "x0 = r0" using events_okD(2) [OF assms(1) s(1,3)] assms(4) by (simp add: same_start_def)
  with s show ?thesis by (simp add: same_start_def)
qed

lemma update_row_ok:
  assumes "tables_ok st L" "\<And>x. interactive_row_ok L x \<Longrightarrow> ias_id x = ias_id r \<Longrightarrow> interactive_row_ok L (f x)"
    "\<And>x. ias_authSession (f x) = ias_authSession x"
  shows "tables_ok (st\<lparr>iae_sessions := iae_update (ias_id r) f (iae_sessions st)\<rparr>) L"
  using assms iae_update_ok [of L "iae_sessions st" "ias_id r" f] by (simp add: tables_ok_def)

lemma advance_row_ok:
  assumes "events_ok L" "interactive_row_ok L r" "step_done L r (ias_currentStepIndex r)" "Suc (ias_currentStepIndex r) < steps_of r"
    "interactive_row_ok L x" "ias_id x = ias_id r"
  shows "interactive_row_ok L (x\<lparr>ias_currentStepIndex := Suc (ias_currentStepIndex r), ias_completedStepsData := c, ias_status := Iae_Pending\<rparr>)"
    (is "interactive_row_ok L ?y")
proof -
  have x: "same_start x r" by (rule same_row [OF assms(1,5,2,6)])
  then have y: "same_start ?y r" by (simp add: same_start_def)
  obtain x0 where "Started x0 \<in> L" "same_start x0 x" using assms(5) row_started by blast
  then have "\<exists>r0. Started r0 \<in> L \<and> same_start r0 ?y" by (auto simp: same_start_def)
  moreover have "step_done L r i" if "i < Suc (ias_currentStepIndex r)" for i
    using that assms(2,3) by (cases "i = ias_currentStepIndex r") (auto simp: interactive_row_ok_def)
  ultimately show ?thesis using assms(4) same_start_facts [OF y] by (simp add: interactive_row_ok_def)
qed

lemma quiet_grant: "quiet_update (interactive_grant now code r)"
  by (simp add: quiet_update_def interactive_grant_def)

lemma issue_ok:
  assumes "tables_ok st L"
  shows "tables_ok (snd (issueAuthorizationCode now code r st)) L"
proof -
  have "tables_ok (st\<lparr>iae_sessions := iae_update (ias_id r) (\<lambda>x. x\<lparr>ias_authorizationCode := Some code, ias_status := Code_Issued\<rparr>)
      (iae_sessions st)\<rparr>) L"
    by (rule update_row_ok [OF assms]) (auto intro: row_ok_change simp: same_start_def)
  then show ?thesis
    using update_offers_ok [OF _ quiet_grant] by (auto simp: issueAuthorizationCode_def tables_ok_def)
qed

lemma advance_ok:
  assumes "tables_ok st L" "events_ok L" "interactive_row_ok L r" "step_done L r (ias_currentStepIndex r)"
    and "sct_iaeActions context = ias_iaeActions r"
    and "advanceOrComplete env now fresh r context tenantId origin st = (reply, st')"
  shows "tables_ok st' L \<and> (\<forall>code. reply = Iae_Code code \<longrightarrow> (\<forall>i < steps_of r. step_done L r i))"
proof (cases "Suc (ias_currentStepIndex r) < length (coalesce (ias_iaeActions r) [])")
  case True
  let ?n = "Suc (ias_currentStepIndex r)"
  obtain as where as: "ias_iaeActions r = Some as" "?n < length as" using True by (cases "ias_iaeActions r") auto
  let ?st = "st\<lparr>iae_sessions := iae_update (ias_id r) (\<lambda>x. x\<lparr>ias_currentStepIndex := ?n,
      ias_completedStepsData := Some (sct_completedStepsData context), ias_status := Iae_Pending\<rparr>) (iae_sessions st)\<rparr>"
  have st: "tables_ok ?st L"
    by (rule update_row_ok [OF assms(1)]) (use as in \<open>simp_all add: advance_row_ok [OF assms(2-4)] steps_of_def\<close>)
  have run: "executeIaeAction env now fresh (ias_authSession r) tenantId origin (as ! ?n) (sct_supportedTypes context) ?st = (reply, st')"
    using assms(5,6) as by (simp add: advanceOrComplete_def Let_def)
  have "tables_ok (snd (executeIaeAction env now fresh (ias_authSession r) tenantId origin (as ! ?n) (sct_supportedTypes context) ?st)) L"
  proof (rule executeIaeAction_ok [OF st])
    fix q l c assume q: "Started q \<in> L" "ias_authSession q = ias_authSession r" "as ! ?n = Iae_Presentation l c"
    obtain r0 where r0: "Started r0 \<in> L" "same_start r0 r" using assms(3) row_started by blast
    with q(1,2) have "q = r0" by (intro events_okD(1) [OF assms(2)]) (auto simp: same_start_def)
    with r0 as q(3) nth_mem [OF as(2)] show "asks q c" by (auto simp: same_start_def asks_def presentation_ids_def)
  qed
  moreover have "reply \<noteq> Iae_Code code" for code
    using executeIaeAction_no_code [of env now fresh "ias_authSession r" tenantId origin "as ! ?n" "sct_supportedTypes context" ?st code]
    by (simp add: run)
  ultimately show ?thesis by (simp add: run)
next
  case False
  let ?st = "st\<lparr>iae_sessions := iae_update (ias_id r) (\<lambda>x. x\<lparr>ias_completedStepsData := Some (sct_completedStepsData context),
      ias_status := All_Steps_Completed\<rparr>) (iae_sessions st)\<rparr>"
  have "tables_ok ?st L"
    by (rule update_row_ok [OF assms(1)]) (auto intro: row_ok_change simp: same_start_def)
  then have "tables_ok (snd (issueAuthorizationCode now (iaf_code fresh) r ?st)) L" by (rule issue_ok)
  then have "tables_ok st' L" using False assms(5,6) by (simp add: advanceOrComplete_def Let_def)
  moreover have "step_done L r i" if "i < steps_of r" for i
  proof -
    have "i \<le> ias_currentStepIndex r" using False that by (auto simp: steps_of_def split: option.splits)
    with assms(3,4) show ?thesis by (cases "i = ias_currentStepIndex r") (auto simp: interactive_row_ok_def)
  qed
  ultimately show ?thesis by blast
qed


lemma context_actions [simp]:
  "sct_iaeActions (parseSessionContext r) = ias_iaeActions r"
  "sct_iaeActions (record_step now type data r context) = sct_iaeActions context"
  by (simp_all add: parseSessionContext_def record_step_def)

text \<open>What the current interaction says about the step that completes it.\<close>

lemma interaction_step:
  assumes "interactive_row_ok L r" "currentInteraction r (parseSessionContext r) = Some t"
    and "t = Openid4vp_Presentation \<Longrightarrow> presented L r"
    and "t = Redirect_To_Web \<Longrightarrow> step_done L r (ias_currentStepIndex r)"
  shows "step_done L r (ias_currentStepIndex r)"
proof (cases t)
  case Openid4vp_Presentation
  with assms(2,3) show ?thesis by (auto simp: step_done_def currentInteraction_def split: option.splits if_splits)
next
  case Redirect_To_Web
  with assms(4) show ?thesis by simp
qed

lemma presentationSession_found:
  assumes "presentationSession t a db = Some p"
  shows "p \<in> set db \<and> s_id p = a"
  using assms getForTenant_ok [of t "Some a" None db p] by (auto simp: presentationSession_def split: sum.splits)

lemma submitted_response:
  assumes "\<not> truthy (ias_authorizationCode r)" "truthy (fur_openid4vp_response request)"
    and "currentInteraction r (parseSessionContext r) = Some Openid4vp_Presentation"
    and "parseAuthorizationResponse env (the (fur_openid4vp_response request)) = Some body"
    and "presentationSession (ias_tenantId r) (ias_authSession r) offers = Some p"
    and "offers_ok L offers" "undisturbed L others"
  shows "offers_ok (L \<union> submitted_events env now request r offers) (submit_response env now code others body p offers)"
proof (cases "s_status p = Completed")
  case True
  then have "submitted_events env now request r offers = {}" using assms(5) by (simp add: submitted_events_def)
  with True assms(6) show ?thesis by (simp add: submit_response_def)
next
  case False
  then have "submitted_events env now request r offers
      = presented_events (iae_responses env) now body (coalesce (s_walletNonce p) (s_id p)) offers"
    using assms(1-5) by (simp add: submitted_events_def)
  with False response_offers_ok [OF assms(6,7)] show ?thesis by (simp add: submit_response_def)
qed

lemma submitted_presented: "e \<in> submitted_events env now request r offers \<Longrightarrow> \<exists>i c. e = Presented i c"
  by (auto simp: submitted_events_def presented_events_def)

lemma tables_ok_events:
  assumes "tables_ok st L" "\<And>e. e \<in> E \<Longrightarrow> \<exists>i c. e = Presented i c \<or> (\<exists>a n. e = Web_Done a n)"
  shows "tables_ok st (L \<union> E)"
proof -
  have "offers_ok (L \<union> E) (iae_offers st)"
    by (rule offers_ok_more [of L]) (use assms in \<open>auto simp: tables_ok_def\<close>)
  with assms(1) rows_ok_mono [of L _ "L \<union> E"] show ?thesis by (auto simp: tables_ok_def)
qed

lemma vp_response_ok:
  fixes env clock request r st L
  defines "L' \<equiv> L \<union> submitted_events env (clock 1) request r (iae_offers st)"
  assumes "\<not> truthy (ias_authorizationCode r)" "truthy (fur_openid4vp_response request)"
    and "currentInteraction r (parseSessionContext r) = Some Openid4vp_Presentation"
    and "tables_ok st L" "events_ok L" "interactive_row_ok L r" "undisturbed L others"
    and "handleOpenid4vpResponse env clock code others (the (fur_openid4vp_response request)) r st = (result, st')"
  shows "tables_ok st' L' \<and> (result = Inr () \<longrightarrow> presented L' r)"
proof -
  have same: "tables_ok st L'" unfolding L'_def
    by (rule tables_ok_events [OF assms(5)]) (use submitted_presented in blast)
  consider (refused) reply where "(result, st') = (Inl reply, st)"
    | (submitted) body p where
      "parseAuthorizationResponse env (the (fur_openid4vp_response request)) = Some body"
      "presentationSession (ias_tenantId r) (ias_authSession r) (iae_offers st) = Some p"
    using assms(9) by (auto simp: handleOpenid4vpResponse_def split: option.splits)
  then show ?thesis
  proof cases
    case (refused reply)
    with same show ?thesis by simp
  next
    case (submitted body p)
    let ?db = "submit_response env (clock 1) code others body p (iae_offers st)"
    have db: "offers_ok L' ?db" unfolding L'_def
      by (rule submitted_response [OF assms(2-4) submitted]) (use assms(5,8) in \<open>simp_all add: tables_ok_def\<close>)
    then have st1: "tables_ok (st\<lparr>iae_offers := ?db\<rparr>) L'" using same by (simp add: tables_ok_def)
    show ?thesis
    proof (cases "\<exists>v. presentationSession (ias_tenantId r) (ias_authSession r) ?db = Some v \<and> s_status v = Completed")
      case False
      with assms(9) submitted st1 show ?thesis
        by (auto simp: handleOpenid4vpResponse_def Let_def split: option.splits)
    next
      case True
      then obtain v where v: "presentationSession (ias_tenantId r) (ias_authSession r) ?db = Some v" "s_status v = Completed" by blast
      let ?f = "\<lambda>x. x\<lparr>ias_status := Presentation_Received, ias_presentationData := fur_openid4vp_response request\<rparr>"
      have "tables_ok ((st\<lparr>iae_offers := ?db\<rparr>)\<lparr>iae_sessions := iae_update (ias_id r) ?f (iae_sessions (st\<lparr>iae_offers := ?db\<rparr>))\<rparr>) L'"
        by (rule update_row_ok [OF st1]) (auto intro: row_ok_change simp: same_start_def)
      then have rows: "rows_ok L' (iae_update (ias_id r) ?f (iae_sessions st))" by (simp add: tables_ok_def)
      have "quiet_update [Set_credentials (s_credentials v)]" by (simp add: quiet_update_def)
      note creds = update_offers_ok [OF db this]
      obtain r0 where r0: "Started r0 \<in> L'" "same_start r0 r" using assms(7) row_started unfolding L'_def by blast
      with presentationSession_found [OF v(1)] v(2) db have "presented L' r0"
        by (auto simp: offers_ok_def same_start_def)
      then have seen: "presented L' r" using same_start_facts(3) [OF r0(2)] by simp
      have "fur_openid4vp_response request = Some (the (fur_openid4vp_response request))"
        using assms(3) truthyE by fastforce
      with assms(9) submitted v rows db creds seen show ?thesis
        by (auto simp: handleOpenid4vpResponse_def tables_ok_def Let_def)
    qed
  qed
qed


lemma answer_step_ok:
  fixes env clock request r st L
  defines "L' \<equiv> L \<union> submitted_events env (clock 1) request r (iae_offers st)"
  assumes "answer_step env clock fresh others request r tenantId origin st = (reply, st')"
    and "tables_ok st L" "events_ok L" "interactive_row_ok L r" "undisturbed L others"
  shows "tables_ok st' L' \<and> (\<forall>code. reply = Iae_Code code \<longrightarrow> (\<forall>i < steps_of r. step_done L' r i))"
proof -
  let ?ctx = "parseSessionContext r"
  have L': "L \<subseteq> L'" by (simp add: L'_def)
  have row: "interactive_row_ok L' r" by (rule row_ok_mono [OF assms(5) L'])
  have ev: "events_ok L'" unfolding L'_def
    by (rule events_ok_more [OF assms(4)]) (use submitted_presented in blast)
  have same: "tables_ok st L'" unfolding L'_def
    by (rule tables_ok_events [OF assms(3)]) (use submitted_presented in blast)
  have advanced: "tables_ok st' L' \<and> (\<forall>code. reply = Iae_Code code \<longrightarrow> (\<forall>i < steps_of r. step_done L' r i))"
    if "tables_ok st1 L'" "step_done L' r (ias_currentStepIndex r)"
      "advanceOrComplete env (clock 4) fresh r (record_step (clock 3) t d r ?ctx) tenantId origin st1 = (reply, st')" for st1 t d
    by (rule advance_ok [OF that(1) ev row that(2) _ that(3)]) simp
  consider (refused) reply' where "reply = invalid_request reply'" "st' = st"
    | (vp) "\<not> truthy (ias_authorizationCode r)" "truthy (fur_openid4vp_response request)"
        "currentInteraction r ?ctx = Some Openid4vp_Presentation"
        "processOpenid4vpFollow env clock fresh others (the (fur_openid4vp_response request)) r ?ctx tenantId origin st = (reply, st')"
    | (web) "currentInteraction r ?ctx = Some Redirect_To_Web"
        "processCodeVerifierFollow env clock fresh (the (fur_code_verifier request)) r ?ctx tenantId origin st = (reply, st')"
    using assms(2) by (auto simp: answer_step_def unexpected_response_def Let_def split: if_splits)
  then show ?thesis
  proof cases
    case (refused reply')
    with same show ?thesis by (simp add: invalid_request_def)
  next
    case vp
    obtain result st1 where run: "handleOpenid4vpResponse env clock (iaf_responseCode fresh) others
        (the (fur_openid4vp_response request)) r st = (result, st1)" by fastforce
    note ok = vp_response_ok [OF vp(1-3) assms(3-6) run, folded L'_def]
    show ?thesis
    proof (cases result)
      case (Inl e)
      have "e \<noteq> Iae_Code code" for code
        using run Inl by (auto simp: handleOpenid4vpResponse_def invalid_request_def Let_def split: option.splits if_splits)
      with ok vp(4) run Inl show ?thesis by (auto simp: processOpenid4vpFollow_def)
    next
      case (Inr u)
      with ok have "presented L' r" "tables_ok st1 L'" by simp_all
      with interaction_step [OF row vp(3)] advanced vp(4) run Inr show ?thesis
        by (simp add: processOpenid4vpFollow_def)
    qed
  next
    case web
    show ?thesis
    proof (cases "handleCodeVerifier env (the (fur_code_verifier request)) r")
      case (Inl e)
      then have "e \<noteq> Iae_Code code" for code
        by (auto simp: handleCodeVerifier_def require_def invalid_request_def split: if_splits)
      with same web(2) Inl show ?thesis by (auto simp: processCodeVerifierFollow_def)
    next
      case (Inr u)
      then have "ias_status r = Web_Auth_Completed" by (auto simp: handleCodeVerifier_def returns)
      with row have "step_done L' r (ias_currentStepIndex r)" by (simp add: interactive_row_ok_def)
      with advanced [OF same] web(2) Inr show ?thesis by (simp add: processCodeVerifierFollow_def)
    qed
  qed
qed

lemma validated_row:
  assumes "fst (validateAuthSession now a t db) = Inr r"
  shows "r \<in> set db" "ias_authSession r = a" "ias_tenantId r = t" "\<not> ias_expiresAt r < now"
  using assms by (auto simp: validateAuthSession_def iae_findForTenant_def dest!: sql_find_one_Some split: option.splits if_splits)

lemma events_ok_code:
  assumes "events_ok L" "interactive_row_ok L r" "\<And>i. i < steps_of r \<Longrightarrow> step_done L r i"
  shows "events_ok (L \<union> {Code_Given (ias_authSession r) code})"
proof -
  let ?L = "L \<union> {Code_Given (ias_authSession r) code}"
  obtain r0 where r0: "Started r0 \<in> L" "same_start r0 r" using assms(2) row_started by blast
  have mono: "step_done L q i \<Longrightarrow> step_done ?L q i" for q i by (erule step_done_mono) blast
  have "\<forall>i < steps_of r0. step_done ?L r0 i" using assms(3) mono same_start_facts [OF r0(2)] by simp
  with r0 have "\<exists>q. Started q \<in> ?L \<and> ias_authSession q = ias_authSession r \<and> (\<forall>i < steps_of q. step_done ?L q i)"
    by (auto simp: same_start_def)
  moreover have "\<exists>q. Started q \<in> ?L \<and> ias_authSession q = a \<and> (\<forall>i < steps_of q. step_done ?L q i)" if "Code_Given a c \<in> L" for a c
    using assms(1) that mono unfolding events_ok_def by (metis UnI1)
  ultimately show ?thesis using assms(1) unfolding events_ok_def by auto
qed

lemma follow_step:
  assumes "iae_ok st1 L1" "iae_ok st2 L2" "L1 \<subseteq> L2" "undisturbed L2 others"
    and "fst (validateAuthSession (clock 0) (fur_auth_session request) tenantId (iae_sessions st1)) = Inr r"
    and "handleFollowUpRequest env clock fresh (\<lambda>_. st2) others request tenantId origin st1 = (reply, st3)"
  shows "iae_ok st3 (L2 \<union> submitted_events env (clock 1) request r (iae_offers st2) \<union> code_events request reply)"
proof -
  let ?L = "L2 \<union> submitted_events env (clock 1) request r (iae_offers st2)"
  note r = validated_row [OF assms(5)]
  have row: "interactive_row_ok L2 r" using assms(1,3) r(1) by (auto simp: iae_ok_def intro: row_ok_mono dest: rows_okD)
  have run: "answer_step env clock fresh others request r tenantId origin st2 = (reply, st3)"
    using assms(5,6) by (cases "validateAuthSession (clock 0) (fur_auth_session request) tenantId (iae_sessions st1)")
      (auto simp: handleFollowUpRequest_def)
  have ok: "tables_ok st3 ?L" "\<And>code. reply = Iae_Code code \<Longrightarrow> \<forall>i < steps_of r. step_done ?L r i"
    using answer_step_ok [OF run _ _ row assms(4)] assms(2) by (auto simp: iae_ok_split)
  have ev: "events_ok ?L"
    by (rule events_ok_more) (use assms(2) submitted_presented in \<open>auto simp: iae_ok_split\<close>)
  show ?thesis
  proof (cases "\<exists>code. reply = Iae_Code code")
    case False
    then have "code_events request reply = {}" by (auto simp: code_events_def)
    with ok(1) ev show ?thesis by (simp add: iae_ok_split)
  next
    case True
    then obtain code where code: "reply = Iae_Code code" by blast
    then have e: "code_events request reply = {Code_Given (ias_authSession r) code}" using r(2) by (auto simp: code_events_def)
    have "events_ok (?L \<union> {Code_Given (ias_authSession r) code})"
      by (rule events_ok_code [OF ev row_ok_mono [OF row]]) (use ok(2) [OF code] in auto)
    moreover have "tables_ok st3 (?L \<union> {Code_Given (ias_authSession r) code})"
    proof -
      have "offers_ok (?L \<union> {Code_Given (ias_authSession r) code}) (iae_offers st3)"
        by (rule offers_ok_more [of ?L]) (use ok(1) in \<open>auto simp: tables_ok_def\<close>)
      with ok(1) rows_ok_mono [of ?L _ "?L \<union> {Code_Given (ias_authSession r) code}"] show ?thesis
        by (auto simp: tables_ok_def)
    qed
    ultimately show ?thesis by (simp add: iae_ok_split e)
  qed
qed


section \<open>The invariant of every history\<close>

lemma refused_step:
  assumes "isl (fst (validateAuthSession (clock 0) (fur_auth_session request) tenantId (iae_sessions st)))"
    and "handleFollowUpRequest env clock fresh gap others request tenantId origin st = (reply, st')" "iae_ok st L"
  shows "iae_ok st' L"
proof -
  obtain e db where v: "validateAuthSession (clock 0) (fur_auth_session request) tenantId (iae_sessions st) = (Inl e, db)"
    using assms(1) by (cases "validateAuthSession (clock 0) (fur_auth_session request) tenantId (iae_sessions st)")
      (auto simp: isl_def)
  then have "db = iae_sessions st \<or> (\<exists>r. db = iae_delete r (iae_sessions st))"
    by (auto simp: validateAuthSession_def split: option.splits if_splits)
  with assms(2,3) v iae_delete_ok show ?thesis by (auto simp: handleFollowUpRequest_def iae_ok_def)
qed

lemma row_ok_completed:
  assumes "interactive_row_ok L r" "step_done L r (ias_currentStepIndex r)"
  shows "interactive_row_ok L (r\<lparr>ias_status := Web_Auth_Completed\<rparr>)"
proof -
  have s: "same_start r (r\<lparr>ias_status := Web_Auth_Completed\<rparr>)" by (simp add: same_start_def)
  obtain r0 where "Started r0 \<in> L" "same_start r0 r" using assms(1) row_started by blast
  then have "\<exists>r0. Started r0 \<in> L \<and> same_start r0 (r\<lparr>ias_status := Web_Auth_Completed\<rparr>)" by (auto simp: same_start_def)
  with assms same_start_facts [OF s] show ?thesis by (simp add: interactive_row_ok_def)
qed

lemma web_step:
  assumes "completeWebAuth now (\<lambda>db. db) token a t (iae_sessions st) = (Inr success, db)" "iae_ok st L"
  shows "iae_ok (st\<lparr>iae_sessions := db\<rparr>) (L \<union> web_events t a success (iae_sessions st))"
proof -
  let ?L = "L \<union> web_events t a success (iae_sessions st)"
  have web: "e \<in> web_events t a success (iae_sessions st) \<Longrightarrow> \<exists>a n. e = Web_Done a n" for e
    by (auto simp: web_events_def)
  have ev: "events_ok ?L" by (rule events_ok_more) (use assms(2) web in \<open>auto simp: iae_ok_split\<close>)
  have tab: "tables_ok st ?L" by (rule tables_ok_events) (use assms(2) web in \<open>auto simp: iae_ok_split\<close>)
  have run: "completeWebAuthorization now (\<lambda>db. db) a t (iae_sessions st) = (success, db)"
    using assms(1) by (cases "completeWebAuthorization now (\<lambda>db. db) a t (iae_sessions st)")
      (auto simp: completeWebAuth_def split: if_splits)
  show ?thesis
  proof (cases "\<exists>r. iae_findForTenant t a (iae_sessions st) = Some r \<and> currentInteraction r (parseSessionContext r) = Some Redirect_To_Web
      \<and> iae_updateForTenant t a (\<lambda>x. x\<lparr>ias_status := Web_Auth_Completed\<rparr>) (iae_sessions st) = (success, db)")
    case False
    with run have "db = iae_sessions st" by (auto simp: completeWebAuthorization_def split: option.splits if_splits)
    with tab ev show ?thesis by (simp add: iae_ok_split)
  next
    case True
    then obtain r where r: "iae_findForTenant t a (iae_sessions st) = Some r"
      "currentInteraction r (parseSessionContext r) = Some Redirect_To_Web"
      "iae_updateForTenant t a (\<lambda>x. x\<lparr>ias_status := Web_Auth_Completed\<rparr>) (iae_sessions st) = (success, db)" by blast
    have found: "r \<in> set (iae_sessions st)" "ias_authSession r = a" "ias_tenantId r = t"
      using r(1) by (auto simp: iae_findForTenant_def dest!: sql_find_one_Some)
    have "success" using r(3) found by (auto simp: iae_updateForTenant_def Let_def split_beta sql_update_affected)
    then have done_now: "Web_Done a (ias_currentStepIndex r) \<in> ?L" using r(1) by (auto simp: web_events_def)
    have row: "interactive_row_ok ?L r" using tab found(1) by (auto simp: tables_ok_def dest: rows_okD)
    have step: "step_done ?L r (ias_currentStepIndex r)"
      using done_now r(2) found(2) by (auto simp: step_done_def currentInteraction_def split: option.splits if_splits)
    have "rows_ok ?L (snd (iae_updateForTenant t a (\<lambda>x. x\<lparr>ias_status := Web_Auth_Completed\<rparr>) (iae_sessions st)))"
    proof (rule iae_updateForTenant_ok)
      show rows: "rows_ok ?L (iae_sessions st)" using tab by (simp add: tables_ok_def)
      fix x assume "x \<in> set (iae_sessions st)" "ias_authSession x = a"
      with rows found have "x = r" by (simp add: rows_ok_def)
      then show "interactive_row_ok ?L (x\<lparr>ias_status := Web_Auth_Completed\<rparr>)" using row_ok_completed [OF row step] by simp
    qed simp
    with r(3) tab ev show ?thesis by (simp add: iae_ok_split tables_ok_def)
  qed
qed


lemma response_step:
  assumes "getResponse (iae_responses env) now code others body nonce (iae_offers st) = (result, db, events)"
    and "iae_ok st L" "undisturbed L others"
  shows "iae_ok (st\<lparr>iae_offers := db\<rparr>) (L \<union> presented_events (iae_responses env) now body nonce (iae_offers st))"
proof -
  let ?E = "presented_events (iae_responses env) now body nonce (iae_offers st)"
  have new: "\<exists>i c. e = Presented i c \<or> (\<exists>a n. e = Web_Done a n)" if "e \<in> ?E" for e
    using that by (auto simp: presented_events_def)
  have "offers_ok (L \<union> ?E) db"
    using response_offers_ok [OF _ assms(3), of "iae_offers st" "iae_responses env" now body nonce code] assms(1,2)
    by (simp add: iae_ok_def)
  moreover have "rows_ok (L \<union> ?E) (iae_sessions st)" using assms(2) rows_ok_mono [of L _ "L \<union> ?E"] by (simp add: iae_ok_def)
  moreover have "events_ok (L \<union> ?E)" by (rule events_ok_more [OF _ new]) (use assms(2) in \<open>simp_all add: iae_ok_def\<close>)
  ultimately show ?thesis by (simp add: iae_ok_def)
qed

lemma run_ok:
  assumes "iae_run env st0 L0 st L" "iae_ok st0 L0"
  shows "iae_ok st L \<and> L0 \<subseteq> L"
  using assms
proof (induction rule: iae_run.induct)
  case (run_initial st0 L0 st L fresh clock request tenantId origin dpop result st')
  then show ?case using initial_step by blast
next
  case (run_refused st0 L0 st L clock request tenantId fresh gap others origin reply st')
  then show ?case using refused_step by blast
next
  case (run_follow st0 L0 st1 L1 st2 L2 others clock request tenantId r fresh origin reply st3)
  then have "iae_ok st1 L1" "iae_ok st2 L2" "L0 \<subseteq> L1" "L1 \<subseteq> L2" by blast+
  with follow_step [OF this(1,2,4) run_follow.hyps(3-5)] show ?case by blast
next
  case (run_web st0 L0 st L now token authSession tenantId success db)
  then show ?case using web_step by blast
next
  case (run_response st0 L0 st L others now code body nonce result db events)
  then show ?case using response_step by blast
next
  case (run_others st0 L0 st L ss)
  then show ?case using offers_ok_stmts undisturbed_permitted by (auto simp: iae_ok_def)
qed simp

lemma interactive_empty_ok: "iae_ok (empty_state offers) {}"
  by (simp add: iae_ok_def rows_ok_def offers_ok_def events_ok_def empty_state_def)

lemmas history_ok_events = run_ok [OF _ interactive_empty_ok, THEN conjunct1]

end
