(* ===== verification/Interactive_Properties.thy ===== *)
theory Interactive_Properties
  imports Interactive_Machine
begin

text \<open>
  What an authorization code of the interactive endpoint proves: which steps were done, which challenge the
  code is bound to; that a wallet that does its steps gets one; and the presentation step that is not checked.
\<close>

section \<open>What a code proves\<close>

text \<open>C11: No code without the steps. In any history of initial and follow-up requests, completions by the
  backend, responses to the verifier and statements of other requests, where a follow-up request may act on a
  row that others have changed since, and a completion on the row it checked, a session that was given a code has done its steps: for every web
  action of the configuration the backend of the tenant completed that very step, and for every presentation
  action a response was verified against the query of a presentation action of the session. Without actions,
  one presentation or one completed web step precedes the code.\<close>

theorem interactive_code_needs_steps:
  assumes "iae_run env (empty_state offers) {} st L" "Code_Given a code \<in> L"
  shows "\<exists>r. Started r \<in> L \<and> ias_authSession r = a \<and>
    (case ias_iaeActions r of
       None \<Rightarrow> Web_Done a 0 \<in> L \<or> (\<exists>c. Presented a (Some c) \<in> L)
     | Some as \<Rightarrow> as \<noteq> [] \<and> (\<forall>i < length as. case as ! i of
           Iae_Web _ _ _ _ \<Rightarrow> Web_Done a i \<in> L
         | Iae_Presentation _ _ \<Rightarrow> \<exists>c \<in> presentation_ids as. Presented a (Some c) \<in> L))"
proof -
  have ok: "events_ok L" using history_ok_events [OF assms(1)] by (simp add: iae_ok_def)
  with assms(2) obtain r where r: "Started r \<in> L" "ias_authSession r = a" "\<forall>i < steps_of r. step_done L r i"
    unfolding events_ok_def by blast
  have "0 < steps_of r" using events_okD(3) [OF ok r(1)] by (simp add: started_ok_def)
  with r show ?thesis
    by (intro exI [of _ r])
      (auto simp: steps_of_def step_done_def presented_def asks_def action_interaction_def
        split: option.splits iae_action.split iae_action.split_asm)
qed

text \<open>The challenge of the initial request is the one every row of the session keeps.\<close>

lemma row_challenge:
  assumes "iae_ok st L" "r \<in> set (iae_sessions st)"
  obtains r0 where "Started r0 \<in> L" "same_start r0 r" "truthy (ias_codeChallenge r)"
    "ias_codeChallengeMethod r = Some ''S256''"
proof -
  have "interactive_row_ok L r" using assms by (auto simp: iae_ok_def dest: rows_okD)
  then obtain r0 where "Started r0 \<in> L" "same_start r0 r" using row_started by blast
  moreover from this have "started_ok r0" using assms(1) events_okD(3) by (auto simp: iae_ok_def)
  ultimately show ?thesis using that by (auto simp: started_ok_def same_start_def)
qed

text \<open>Where a reply is a code, the last thing the handler does is to issue it.\<close>

lemma answer_code:
  assumes "answer_step env clock fresh others request r tenantId origin st = (Iae_Code code, st')"
  obtains (issued) st1 where "issueAuthorizationCode (clock 4) (iaf_code fresh) r st1 = (Iae_Code code, st')"
proof -
  have adv: thesis if run: "advanceOrComplete env (clock 4) fresh r ctx tenantId origin st1 = (Iae_Code code, st')" for ctx st1
  proof (cases "Suc (ias_currentStepIndex r) < length (coalesce (sct_iaeActions ctx) [])")
    case True
    then show ?thesis using run executeIaeAction_no_code by (auto simp: advanceOrComplete_def Let_def) (metis fst_conv)
  next
    case False
    with run issued show ?thesis by (auto simp: advanceOrComplete_def Let_def)
  qed
  have vp: thesis if run: "processOpenid4vpFollow env clock fresh others v r ctx tenantId origin st = (Iae_Code code, st')" for v ctx
  proof (cases "handleOpenid4vpResponse env clock (iaf_responseCode fresh) others v r st")
    case (Pair result st1)
    show ?thesis
    proof (cases result)
      case (Inl e)
      have "e \<noteq> Iae_Code code"
        using Pair Inl by (auto simp: handleOpenid4vpResponse_def invalid_request_def Let_def split: option.splits if_splits)
      with run Pair Inl show ?thesis by (simp add: processOpenid4vpFollow_def)
    next
      case (Inr u)
      with run Pair adv show ?thesis by (simp add: processOpenid4vpFollow_def)
    qed
  qed
  have web: thesis if run: "processCodeVerifierFollow env clock fresh v r ctx tenantId origin st = (Iae_Code code, st')" for v ctx
  proof (cases "handleCodeVerifier env v r")
    case (Inl e)
    then have "e \<noteq> Iae_Code code" by (auto simp: handleCodeVerifier_def require_def invalid_request_def split: if_splits)
    with run Inl show ?thesis by (simp add: processCodeVerifierFollow_def)
  next
    case (Inr u)
    with run adv show ?thesis by (simp add: processCodeVerifierFollow_def)
  qed
  from assms vp web show thesis
    by (auto simp: answer_step_def invalid_request_def unexpected_response_def Let_def split: if_splits)
qed

text \<open>C38: The code is bound to the challenge of the initial request. When a follow-up request in any history is
  answered with a code, the session of the offer that the wallet named holds this code for 60 seconds, together with
  the challenge the initial request of this very session sent, so the check of the token endpoint passes for a
  verifier if and only if it hashes to that challenge.\<close>

theorem interactive_code_bound:
  assumes "iae_run env (empty_state offers) {} st1 L1" "iae_run env st1 L1 st2 L2"
    and "fst (validateAuthSession (clock 0) (fur_auth_session request) tenantId (iae_sessions st1)) = Inr r"
    and "handleFollowUpRequest env clock fresh (\<lambda>_. st2) others request tenantId origin st1 = (Iae_Code code, st3)"
    and "s \<in> set (iae_offers st3)" "s_tenantId s = tenantId" "ias_issuerState r = Some (s_id s)" "s_id s \<noteq> []"
  shows "\<exists>r0 challenge. Started r0 \<in> L1 \<and> ias_authSession r0 = fur_auth_session request
    \<and> ias_codeChallenge r0 = Some challenge
    \<and> s_authorization_code s = Some code \<and> s_authorization_code_expires_at s = Some (clock 4 + 60 * 1000)
    \<and> (\<exists>q. s_auth_queries s = Some q \<and> (\<forall>verifier.
          checkS256Pkce (iae_sha256 env) (aq_code_challenge q) (aq_code_challenge_method q) verifier = Pkce_Valid
          \<longleftrightarrow> (\<exists>v. verifier = Some v \<and> v \<noteq> [] \<and> iae_sha256 env v = challenge)))"
proof -
  note r = validated_row [OF assms(3)]
  have ok: "iae_ok st1 L1" by (rule history_ok_events [OF assms(1)])
  from row_challenge [OF ok r(1)] obtain r0 where r0: "Started r0 \<in> L1" "same_start r0 r" "truthy (ias_codeChallenge r)"
    "ias_codeChallengeMethod r = Some ''S256''" .
  then obtain challenge where ch: "ias_codeChallenge r = Some challenge" "challenge \<noteq> []" using truthyE by blast
  have "answer_step env clock fresh others request r tenantId origin st2 = (Iae_Code code, st3)"
    using assms(3,4) by (cases "validateAuthSession (clock 0) (fur_auth_session request) tenantId (iae_sessions st1)")
      (auto simp: handleFollowUpRequest_def)
  then obtain st where issue: "issueAuthorizationCode (clock 4) (iaf_code fresh) r st = (Iae_Code code, st3)"
    by (rule answer_code)
  have "s \<in> set (fst (updateForTenant (clock 4) tenantId (s_id s) (interactive_grant (clock 4) code r) (iae_offers st)))"
    using issue assms(5,7,8) r(3) by (auto simp: issueAuthorizationCode_def)
  then obtain s0 where "s = set_clause (clock 4) (interactive_grant (clock 4) code r) s0"
    using assms(6) by (auto simp: updateForTenant_def sql_update_def split: if_splits)
  then have s: "s_authorization_code s = Some code" "s_authorization_code_expires_at s = Some (clock 4 + 60 * 1000)"
    "s_auth_queries s = Some (interactive_queries r)"
    by (simp_all add: set_clause_def interactive_grant_def AUTHORIZATION_CODE_LIFETIME_SECONDS_def)
  have pkce: "checkS256Pkce (iae_sha256 env) (Some challenge) (Some ''S256'') verifier = Pkce_Valid
      \<longleftrightarrow> (\<exists>v. verifier = Some v \<and> v \<noteq> [] \<and> iae_sha256 env v = challenge)" for verifier
    using ch(2) by (cases verifier) (auto simp: checkS256Pkce_valid)
  show ?thesis
    using r0 ch s r(2) by (intro exI [of _ r0] exI [of _ challenge]) (auto simp: same_start_def interactive_queries_def pkce)
qed



section \<open>Web steps complete\<close>

text \<open>The row of a session is the only one with its identifiers.\<close>

definition owned :: "interactive_session \<Rightarrow> interactive_sessions \<Rightarrow> bool" where
  "owned r db \<longleftrightarrow> r \<in> set db \<and> (\<forall>x \<in> set db. ias_authSession x = ias_authSession r \<or> ias_id x = ias_id r \<longrightarrow> x = r)"

lemma owned_found: "owned r db \<Longrightarrow> iae_findForTenant (ias_tenantId r) (ias_authSession r) db = Some r"
  unfolding iae_findForTenant_def
  by (cases "sql_find_one (\<lambda>x. ias_authSession x = ias_authSession r \<and> ias_tenantId x = ias_tenantId r) db")
    (auto simp: owned_def sql_find_one_None dest!: sql_find_one_Some)

lemma owned_map:
  assumes "owned r db" "P r" "\<And>x. P x \<Longrightarrow> x \<in> set db \<Longrightarrow> x = r" "ias_id (f r) = ias_id r" "ias_authSession (f r) = ias_authSession r"
  shows "owned (f r) (map (\<lambda>x. if P x then f x else x) db)"
proof -
  have "y = f r" if y: "y \<in> set (map (\<lambda>x. if P x then f x else x) db)" and same: "ias_authSession y = ias_authSession r \<or> ias_id y = ias_id r" for y
  proof -
    obtain x where x: "x \<in> set db" "y = (if P x then f x else x)" using y by auto
    show ?thesis
    proof (cases "P x")
      case True
      with x assms(3) show ?thesis by simp
    next
      case False
      with x(2) same have "ias_authSession x = ias_authSession r \<or> ias_id x = ias_id r" by simp
      with x(1) assms(1) have "x = r" unfolding owned_def by blast
      with False assms(2) show ?thesis by simp
    qed
  qed
  moreover have "f r \<in> set (map (\<lambda>x. if P x then f x else x) db)" using assms(1,2) by (force simp: owned_def)
  ultimately show ?thesis unfolding owned_def assms(4,5) by blast
qed

lemma owned_update:
  assumes "owned r db" "ias_id (f r) = ias_id r" "ias_authSession (f r) = ias_authSession r"
  shows "owned (f r) (iae_update (ias_id r) f db)"
  unfolding iae_update_def sql_update_def fst_conv
  by (rule owned_map [where f = f and r = r, OF assms(1) _ _ assms(2,3)]) (use assms(1) in \<open>auto simp: owned_def\<close>)

lemma owned_updateForTenant:
  assumes "owned r db" "ias_id (f r) = ias_id r" "ias_authSession (f r) = ias_authSession r"
  shows "fst (iae_updateForTenant (ias_tenantId r) (ias_authSession r) f db)"
    "owned (f r) (snd (iae_updateForTenant (ias_tenantId r) (ias_authSession r) f db))"
proof -
  show "fst (iae_updateForTenant (ias_tenantId r) (ias_authSession r) f db)"
    using assms(1) by (auto simp: iae_updateForTenant_def Let_def split_beta sql_update_affected owned_def)
  show "owned (f r) (snd (iae_updateForTenant (ias_tenantId r) (ias_authSession r) f db))"
    unfolding iae_updateForTenant_def sql_update_def Let_def prod.case snd_conv
    by (rule owned_map [where f = f and r = r, OF assms(1) _ _ assms(2,3)]) (use assms(1) in \<open>auto simp: owned_def\<close>)
qed

text \<open>One round: the backend completes the step, the wallet sends its verifier. \<open>web_rounds k\<close> are \<open>k + 1\<close> rounds, and
  \<open>clock k\<close> and \<open>fresh k\<close> are those of the round with \<open>k\<close> to follow.\<close>

definition web_round ::
    "iae_env \<Rightarrow> (nat \<Rightarrow> date) \<Rightarrow> iae_fresh \<Rightarrow> string \<Rightarrow> string \<Rightarrow> string \<Rightarrow> string \<Rightarrow> iae_state \<Rightarrow> iae_reply \<times> iae_state" where
  "web_round env clock fresh t origin a v st =
     (let (_, db) = completeWebAuth (clock 0) (\<lambda>db. db) (Some t) a t (iae_sessions st)
      in handleFollowUpRequest env clock fresh (\<lambda>s. s) []
           \<lparr>fur_auth_session = a, fur_openid4vp_response = None, fur_code_verifier = Some v\<rparr> t origin (st\<lparr>iae_sessions := db\<rparr>))"

primrec web_rounds ::
    "iae_env \<Rightarrow> (nat \<Rightarrow> nat \<Rightarrow> date) \<Rightarrow> (nat \<Rightarrow> iae_fresh) \<Rightarrow> string \<Rightarrow> string \<Rightarrow> string \<Rightarrow> string \<Rightarrow> nat \<Rightarrow> iae_state \<Rightarrow> iae_reply \<times> iae_state" where
  "web_rounds env clock fresh t origin a v 0 st = web_round env (clock 0) (fresh 0) t origin a v st"
| "web_rounds env clock fresh t origin a v (Suc k) st =
     web_rounds env clock fresh t origin a v k (snd (web_round env (clock (Suc k)) (fresh (Suc k)) t origin a v st))"

definition is_web :: "iae_action \<Rightarrow> bool" where
  "is_web a \<longleftrightarrow> action_interaction a = Redirect_To_Web"

text \<open>A session all of whose open steps are web steps, and whose challenge the verifier meets.\<close>

definition web_session :: "iae_env \<Rightarrow> date \<Rightarrow> string \<Rightarrow> iae_action list \<Rightarrow> interactive_session \<Rightarrow> bool" where
  "web_session env deadline v as r \<longleftrightarrow> ias_iaeActions r = Some as \<and> list_all is_web as \<and> \<not> truthy (ias_authorizationCode r)
     \<and> ias_expiresAt r = deadline \<and> supports (supported_types (ias_interactionTypesSupported r)) Redirect_To_Web
     \<and> truthy (ias_codeChallenge r) \<and> ias_codeChallengeMethod r = Some ''S256''
     \<and> v \<noteq> [] \<and> iae_sha256 env v = the (ias_codeChallenge r)"

lemma web_round_step:
  fixes env clock fresh origin v st r deadline
  assumes "owned r (iae_sessions st)" "web_session env deadline v as r" "ias_currentStepIndex r < length as" "clock 0 \<le> deadline"
  defines "run \<equiv> web_round env clock fresh (ias_tenantId r) origin (ias_authSession r) v st"
  shows "if Suc (ias_currentStepIndex r) = length as then fst run = Iae_Code (iaf_code fresh)
    else \<exists>r'. owned r' (iae_sessions (snd run)) \<and> web_session env deadline v as r' \<and> ias_authSession r' = ias_authSession r
       \<and> ias_tenantId r' = ias_tenantId r \<and> ias_currentStepIndex r' = Suc (ias_currentStepIndex r)"
proof -
  let ?i = "ias_currentStepIndex r" and ?t = "ias_tenantId r" and ?a = "ias_authSession r"
  let ?done = "r\<lparr>ias_status := Web_Auth_Completed\<rparr>"
  note w = assms(2) [unfolded web_session_def] assms(4)
  have web: "action_interaction (as ! ?i) = Redirect_To_Web" using w assms(3) by (simp add: list_all_length is_web_def)
  obtain db where db: "completeWebAuth (clock 0) (\<lambda>db. db) (Some ?t) ?a ?t (iae_sessions st) = (Inr True, db)" "owned ?done db"
    using owned_updateForTenant [OF assms(1), of "\<lambda>x. x\<lparr>ias_status := Web_Auth_Completed\<rparr>"] owned_found [OF assms(1)] w web assms(3)
    by (cases "iae_updateForTenant ?t ?a (\<lambda>x. x\<lparr>ias_status := Web_Auth_Completed\<rparr>) (iae_sessions st)")
      (auto simp: completeWebAuth_def completeWebAuthorization_def currentInteraction_def)
  have "validateAuthSession (clock 0) ?a ?t db = (Inr ?done, db)"
    using owned_found [OF db(2)] w by (simp add: validateAuthSession_def)
  moreover have "handleCodeVerifier env v ?done = Inr ()"
    using w by (simp add: handleCodeVerifier_def checkS256Pkce_valid)
  ultimately have run: "run = advanceOrComplete env (clock 4) fresh ?done
      (record_step (clock 3) Redirect_To_Web None ?done (parseSessionContext ?done)) ?t origin (st\<lparr>iae_sessions := db\<rparr>)"
    using db(1) w web assms(3)
    by (simp add: run_def web_round_def handleFollowUpRequest_def answer_step_def Let_def currentInteraction_def
        processCodeVerifierFollow_def)
  show ?thesis
  proof (cases "Suc ?i = length as")
    case True
    with run w show ?thesis by (simp add: advanceOrComplete_def issueAuthorizationCode_def Let_def)
  next
    case False
    then have next_step: "Suc ?i < length as" using assms(3) by simp
    then obtain l u c d where n: "as ! Suc ?i = Iae_Web l u c d"
      using w by (cases "as ! Suc ?i") (auto simp: list_all_length is_web_def action_interaction_def)
    let ?f = "\<lambda>x. x\<lparr>ias_currentStepIndex := Suc ?i, ias_completedStepsData := Some (sct_completedStepsData
        (record_step (clock 3) Redirect_To_Web None ?done (parseSessionContext ?done))), ias_status := Iae_Pending\<rparr>"
    let ?g = "\<lambda>x. x\<lparr>ias_requestUri := Some (request_uri_prefix @ iaf_requestUri fresh), ias_parExpiresAt := Some (clock 4 + 600 * 1000)\<rparr>"
    have "owned (?f ?done) (iae_update (ias_id ?done) ?f db)" by (rule owned_update [OF db(2)]) simp_all
    from owned_updateForTenant(2) [OF this, of ?g]
    have "owned (?g (?f ?done)) (iae_sessions (snd run))"
      unfolding run using w next_step n
      by (simp add: advanceOrComplete_def Let_def executeIaeAction_def parseSessionContext_def record_step_def ask_web_def
          createRedirectToWebResponseForUrl_def split_beta)
    moreover have "web_session env deadline v as (?g (?f ?done))" using w by (simp add: web_session_def)
    ultimately show ?thesis using False by (intro if_not_P [THEN iffD2] exI [of _ "?g (?f ?done)"]) auto
  qed
qed

lemma web_rounds_end:
  assumes "owned r (iae_sessions st)" "web_session env deadline v as r" "ias_currentStepIndex r + Suc k = length as"
    and deadline: "\<And>j. clock j 0 \<le> deadline"
  shows "fst (web_rounds env clock fresh (ias_tenantId r) origin (ias_authSession r) v k st) = Iae_Code (iaf_code (fresh 0))"
  using assms(1-3)
proof (induction k arbitrary: r st)
  case 0
  with web_round_step [where clock = "clock 0" and fresh = "fresh 0" and origin = origin, OF 0(1,2) _ deadline] show ?case by simp
next
  case (Suc k)
  then obtain r' where r': "owned r' (iae_sessions (snd (web_round env (clock (Suc k)) (fresh (Suc k)) (ias_tenantId r) origin
      (ias_authSession r) v st)))"
    "web_session env deadline v as r'" "ias_authSession r' = ias_authSession r" "ias_tenantId r' = ias_tenantId r"
    "ias_currentStepIndex r' = Suc (ias_currentStepIndex r)"
    using web_round_step [where clock = "clock (Suc k)" and fresh = "fresh (Suc k)" and origin = origin, OF Suc.prems(1,2) _ deadline]
      Suc.prems(3) by (auto split: if_splits)
  from Suc.IH [OF r'(1,2)] Suc.prems(3) r'(3-5) show ?case by simp
qed

text \<open>A completion that checked an earlier web step completes the current one, which may not be done yet.\<close>

lemma late_completion:
  assumes "iae_findForTenant t a db1 = Some r1" "iae_findForTenant t a db2 = Some r2"
    and "\<forall>r \<in> {r1, r2}. now \<le> ias_expiresAt r \<and> currentInteraction r (parseSessionContext r) = Some Redirect_To_Web"
  shows "completeWebAuth now (\<lambda>_. db2) (Some t) a t db1 = completeWebAuth now (\<lambda>db. db) (Some t) a t db2"
  using assms by (auto simp: completeWebAuth_def completeWebAuthorization_def)

text \<open>C39: A wallet that does its steps gets its code. When an accepted initial request names a configuration whose
  actions are web pages, and in each round the backend completes the current step and the wallet sends the
  verifier of its challenge before the session expires, the request after the last page is answered with the
  authorization code.\<close>

theorem web_steps_complete:
  assumes "refuse_initial (start 0) request tenantId (iae_offers st) = None"
    and "initial_actions env tenantId (inr_authorization_details request) = Inr (Some as)" "list_all is_web as"
    and "supports (supported_types (inr_interaction_types_supported request)) Redirect_To_Web"
    and "\<forall>x \<in> set (iae_sessions st). ias_authSession x \<noteq> iaf_authSession fresh \<and> ias_id x \<noteq> iaf_id fresh"
    and "verifier \<noteq> []" "inr_code_challenge request = Some (iae_sha256 env verifier)" "\<And>k. clock k 0 \<le> start 1 + 10 * 60 * 1000"
  shows "fst (web_rounds env clock later tenantId origin (iaf_authSession fresh) verifier (length as - 1)
      (snd (handleInitialRequest env start fresh request tenantId origin dpop st))) = Iae_Code (iaf_code (later 0))"
proof -
  let ?r = "initial_session (start 1) fresh request tenantId dpop (Some as)"
  let ?g = "\<lambda>x. x\<lparr>ias_requestUri := Some (request_uri_prefix @ iaf_requestUri fresh), ias_parExpiresAt := Some (start 2 + 600 * 1000)\<rparr>"
  obtain a as' where as: "as = a # as'" using initial_actions_some [OF assms(2)] by (cases as) auto
  then obtain l u c d where a: "a = Iae_Web l u c d"
    using assms(3) by (cases a) (auto simp: is_web_def action_interaction_def)
  have own: "owned ?r (iae_create ?r (iae_sessions st))" using assms(5) by (auto simp: owned_def iae_create_def)
  have "owned (?g ?r) (snd (iae_updateForTenant tenantId (iaf_authSession fresh) ?g (iae_create ?r (iae_sessions st))))"
    using owned_updateForTenant(2) [OF own, of ?g] by simp
  then have st1: "owned (?g ?r) (iae_sessions (snd (handleInitialRequest env start fresh request tenantId origin dpop st)))"
    using assms(1,2,4) as a
    by (simp add: handleInitialRequest_def Let_def executeIaeAction_def ask_web_def createRedirectToWebResponseForUrl_def
        split_beta apfst_def map_prod_def)
  have s: "web_session env (start 1 + 10 * 60 * 1000) verifier as (?g ?r)"
    using assms(3,4,6,7) refuse_initial_checked [OF assms(1)] by (simp add: web_session_def initial_session_def)
  from web_rounds_end [where env = env and v = verifier and as = as and clock = clock and fresh = later and origin = origin and
      k = "length as - 1", OF st1 s _ assms(8)] show ?thesis by (simp add: as)
qed


section \<open>An example\<close>

text \<open>The verifier of the other examples; the first step asks for the presentation \<open>r\<close>, \<open>second\<close> is the second.\<close>

definition iaenv1 :: "iae_action \<Rightarrow> iae_env" where
  "iaenv1 second = \<lparr>iae_publicUrl = ''https://i'',
     iae_credentialActions = (\<lambda>_ _. Inr (Some [Iae_Presentation None ''r'', second])),
     iae_presentationConfigs = (\<lambda>_. Inr []),
     iae_parseJson = (\<lambda>v. if v = ''vp'' then Some (JObj [(''response'', JStr ''jwe'')])
       else if v = ''{}'' then Some (JObj []) else None),
     iae_sha256 = (\<lambda>v. ''hash '' @ v), iae_responses = vresponse_env1\<rparr>"

definition iafresh1 :: iae_fresh where
  "iafresh1 = \<lparr>iaf_id = ''i'', iaf_authSession = ''s'', iaf_requestUri = ''u'', iaf_code = ''code'', iaf_responseCode = ''rc'',
     iaf_request = \<lparr>frv_session = ''x'', frv_walletNonce = ''w'', frv_nonce = ''n'', frv_keys = (JNull, JNull)\<rparr>\<rparr>"

definition iainitial1 :: initial_request where
  "iainitial1 = \<lparr>inr_response_type = ''code'', inr_client_id = ''c'',
     inr_interaction_types_supported = ''openid4vp_presentation, redirect_to_web'', inr_redirect_uri = None, inr_scope = None,
     inr_code_challenge = Some ''hash v'', inr_code_challenge_method = Some ''S256'',
     inr_authorization_details = Some (JArr [JObj [(''credential_configuration_id'', JStr ''pid'')]]), inr_state = None,
     inr_issuer_state = Some ''o''\<rparr>"

definition iafollow1 :: "string option \<Rightarrow> string option \<Rightarrow> follow_up_request" where
  "iafollow1 response verifier =
     \<lparr>fur_auth_session = ''s'', fur_openid4vp_response = response, fur_code_verifier = verifier\<rparr>"

definition iaoffers1 :: sessions where "iaoffers1 = [blank_session ''o'' ''t'' 0]"

text \<open>After the initial request the request object is signed; then the wallet responds.\<close>

definition iasigned1 :: "session_stmt list" where
  "iasigned1 = [Stmt_Update 20 ''t'' ''s'' [Set_vp_nonce (Some ''n''), Set_requestObject (Some ''jwt'')]]"

definition iastate1 :: "iae_action \<Rightarrow> iae_state" where
  "iastate1 second = snd (handleInitialRequest (iaenv1 second) (\<lambda>_. 10) iafresh1 iainitial1 ''t'' [] None (empty_state iaoffers1))"

definition iastate2 :: "iae_action \<Rightarrow> iae_state" where
  "iastate2 second = iastate1 second\<lparr>iae_offers := exec_stmts iasigned1 (iae_offers (iastate1 second))\<rparr>"

definition iaanswer :: "iae_action \<Rightarrow> follow_up_request \<Rightarrow> iae_state \<Rightarrow> iae_reply \<times> iae_state" where
  "iaanswer second request st = handleFollowUpRequest (iaenv1 second) (\<lambda>_. 50) iafresh1 (\<lambda>_. st) [] request ''t'' [] st"

definition iastate3 :: "iae_action \<Rightarrow> iae_state" where
  "iastate3 second = snd (iaanswer second (iafollow1 (Some ''vp'') None) (iastate2 second))"

definition iaweb1 :: iae_action where "iaweb1 = Iae_Web None ''https://page'' None None"

definition iavp1 :: iae_action where "iavp1 = Iae_Presentation None ''q''"

lemma iaenv1_simps [simp]:
  "iae_responses (iaenv1 second) = vresponse_env1" "iae_sha256 (iaenv1 second) v = ''hash '' @ v"
  "iae_credentialActions (iaenv1 second) c t = Inr (Some [Iae_Presentation None ''r'', second])"
  "rse_request vresponse_env1 = vrequest_env1" "rqe_config vrequest_env1 i t = Inr vconfig1"
  "pcf_clientIdScheme vconfig1 = None" "pcf_accessKeyChainId vconfig1 = None" "pcf_lifeTime vconfig1 = None"
  "rqe_accessCertificate vrequest_env1 t k = Inr vcert1" "rqe_uri vrequest_env1 v = v" "acc_hash vcert1 = ''h''"
  "vne_publicUrl (wqe_verification (wenv1 venv1)) = ''https://v''"
  by (simp_all add: iaenv1_def vresponse_env1_def vrequest_env1_def vconfig1_def vcert1_def
      wenv1_def venv1_def)

text \<open>The presentation session when the first step was asked for.\<close>

definition iasession1 :: session where
  "iasession1 = (blank_session ''s'' ''t'' 10)\<lparr>s_requestId := Some ''r'', s_walletNonce := Some ''w'',
     s_requestUrl := Some (''openid4vp://?client_id=x509_hash:h&request_uri=https://v/presentations/w/oid4vp/request''
       @ ''&request_uri_method=get''),
     s_expiresAt := Some 300010, s_useDcApi := False, s_clientId := Some ''x509_hash:h''\<rparr>"

lemma asked1:
  "snd (createOpenid4vpInteractionResponseForConfig (iaenv1 second) 10 (iaf_request iafresh1) ''s'' ''t'' [] ''r'' iaoffers1)
     = iaoffers1 @ [iasession1]"
  by (simp add: createOpenid4vpInteractionResponseForConfig_def createSession_execute_def repo_create_def iaoffers1_def
      sql_find_one_def blank_session_def createRequest_def interaction_options_def createSignedRequest_def Let_def
      resolveClientIdScheme_def REDIRECT_URI_def X509_HASH_def iafresh1_def updateForTenant_def sql_update_def set_clause_def
      expiry_of_def iasession1_def createClientId_def X509_SAN_DNS_def query_string_def public_url_def vrequest_env1_def)

definition iarow1 :: "iae_action \<Rightarrow> interactive_session" where
  "iarow1 second = initial_session 10 iafresh1 iainitial1 ''t'' None (Some [Iae_Presentation None ''r'', second])"

lemma initial1: "refuse_initial 10 iainitial1 ''t'' iaoffers1 = None"
  by code_simp

lemma supports1: "supports (supported_types ''openid4vp_presentation, redirect_to_web'') t"
proof (cases t)
  case Openid4vp_Presentation
  have "supports (supported_types ''openid4vp_presentation, redirect_to_web'') Openid4vp_Presentation" by code_simp
  with Openid4vp_Presentation show ?thesis by simp
next
  case Redirect_To_Web
  have "supports (supported_types ''openid4vp_presentation, redirect_to_web'') Redirect_To_Web" by code_simp
  with Redirect_To_Web show ?thesis by simp
qed

lemma actions1:
  "initial_actions (iaenv1 second) ''t'' (inr_authorization_details iainitial1) = Inr (Some [Iae_Presentation None ''r'', second])"
  by (simp add: initial_actions_def iainitial1_def details_configuration_def details_given_def first_detail_def jget_def jtruthy_def Let_def)

lemma state1: "iastate1 second = \<lparr>iae_sessions = [iarow1 second], iae_offers = iaoffers1 @ [iasession1]\<rparr>"
proof -
  have t: "inr_interaction_types_supported iainitial1 = ''openid4vp_presentation, redirect_to_web''" by (simp add: iainitial1_def)
  have f: "iaf_authSession iafresh1 = ''s''" by (simp add: iafresh1_def)
  show ?thesis
    using asked1 [of second]
    by (simp add: iastate1_def handleInitialRequest_def empty_state_def initial1 actions1 t f Let_def executeIaeAction_def supports1
        ask_presentation_def iae_create_def iarow1_def split_beta)
qed

definition iasession2 :: session where
  "iasession2 = iasession1\<lparr>s_vp_nonce := Some ''n'', s_requestObject := Some ''jwt'', s_updatedAt := 20\<rparr>"

lemma session2 [simp]: "s_id iasession2 = ''s''" "s_tenantId iasession2 = ''t''" "s_requestId iasession2 = Some ''r''"
  "s_walletNonce iasession2 = Some ''w''" "s_status iasession2 = Active" "s_consumed iasession2 = False"
  "s_expiresAt iasession2 = Some 300010"
  by (simp_all add: iasession2_def iasession1_def blank_session_def)

lemma iaoffers1_eq [simp]: "iaoffers1 = [blank_session ''o'' ''t'' 0]" by (simp add: iaoffers1_def)

lemma blank_simps: "s_id (blank_session i t now) = i" "s_tenantId (blank_session i t now) = t"
    "s_walletNonce (blank_session i t now) = None"
  by (simp_all add: blank_session_def)

lemma state2: "iastate2 second = \<lparr>iae_sessions = [iarow1 second], iae_offers = iaoffers1 @ [iasession2]\<rparr>"
  by (simp add: iastate2_def state1 iasigned1_def updateForTenant_def sql_update_def set_clause_def iasession2_def iasession1_def
      blank_session_def)

lemma reaches2:
  "reaches_response vresponse_env1 50 (vbody1 ''jwe'') ''w'' (iaoffers1 @ [iasession2]) iasession2
     (JObj [(''vp_token'', JObj [(''pid'', JArr [JStr ''sdjwt''])]), (''state'', JStr ''w'')])
     \<lparr>arp_vp_token = [(''pid'', [''sdjwt''])], arp_state = Some ''w'', arp_iat = None, arp_exp = None\<rparr> vconfig1 None"
proof -
  have s: "getForWalletRequest ''w'' (iaoffers1 @ [iasession2]) = Inr iasession2"
    by (simp add: getForWalletRequest_def store_lookup_def findForWalletRequest_def sql_find_one_def blank_simps)
  have u: "assertSessionUsable iasession2 50 = Inr ()" "\<not> s_consumed iasession2" by code_simp+
  have b: "body_error_of (vbody1 ''jwe'') = None" by code_simp
  have d: "decrypted_response vresponse_env1 iasession2 (vbody1 ''jwe'')
      = Inr (JObj [(''vp_token'', JObj [(''pid'', JArr [JStr ''sdjwt''])]), (''state'', JStr ''w'')])" by code_simp
  have w: "wallet_error_of (JObj [(''vp_token'', JObj [(''pid'', JArr [JStr ''sdjwt''])]), (''state'', JStr ''w'')]) = None" by code_simp
  have p: "parse_authorization_response (JObj [(''vp_token'', JObj [(''pid'', JArr [JStr ''sdjwt''])]), (''state'', JStr ''w'')])
      = Inr \<lparr>arp_vp_token = [(''pid'', [''sdjwt''])], arp_state = Some ''w'', arp_iat = None, arp_exp = None\<rparr>" by code_simp
  have c: "rqe_config (rse_request vresponse_env1) (s_requestId iasession2) (s_tenantId iasession2) = Inr vconfig1" by simp
  have h: "(if s_parsedWebhook iasession2 \<noteq> None then Inr (s_parsedWebhook iasession2)
      else resolveWebhookFromEndpoint (rse_request vresponse_env1)
        (coalesce_opt (s_webhookEndpointId iasession2) (pcf_webhookEndpointId vconfig1)) (s_tenantId iasession2)) = Inr None"
    by code_simp
  show ?thesis unfolding reaches_response_def by (intro conjI s u b d w p c h)
qed

lemma verified2:
  "is_right (verifyPresentationResponse (verification_of vresponse_env1) 50
     \<lparr>arp_vp_token = [(''pid'', [''sdjwt''])], arp_state = Some ''w'', arp_iat = None, arp_exp = None\<rparr>
     (presentation_query_of vconfig1) iasession2)"
  by code_simp

definition iavs1 :: verified_presentation where
  "iavs1 = projr (verifyPresentationResponse (verification_of vresponse_env1) 50
     \<lparr>arp_vp_token = [(''pid'', [''sdjwt''])], arp_state = Some ''w'', arp_iat = None, arp_exp = None\<rparr>
     (presentation_query_of vconfig1) iasession2)"

definition iasession3 :: session where
  "iasession3 = set_clause 50 (completion_update 50 (completion_of iasession2 iavs1 ''rc'')) iasession2"

lemma session3 [simp]: "s_id iasession3 = ''s''" "s_tenantId iasession3 = ''t''" "s_requestId iasession3 = Some ''r''"
  "s_status iasession3 = Completed" "jtruthy (s_credentials iasession3)"
  by (simp_all add: iasession3_def set_clause_def completion_update_def completion_of_def jtruthy_def)

lemma submit1:
  "submit_response (iaenv1 second) 50 ''rc'' [] (vbody1 ''jwe'') iasession2 (iaoffers1 @ [iasession2]) = iaoffers1 @ [iasession3]"
proof -
  let ?response = "\<lparr>arp_vp_token = [(''pid'', [''sdjwt''])], arp_state = Some ''w'', arp_iat = None, arp_exp = None\<rparr>"
  obtain v where "verifyPresentationResponse (verification_of vresponse_env1) 50 ?response (presentation_query_of vconfig1) iasession2 = Inr v"
    using is_rightD [OF verified2] by blast
  then have vs: "verifyPresentationResponse (verification_of vresponse_env1) 50 ?response (presentation_query_of vconfig1) iasession2 = Inr iavs1"
    by (simp add: iavs1_def)
  have usable: "session_usable iasession2 50" using reaches2 by (simp add: reaches_response_def assertSessionUsable_iff)
  have state: "validateState ?response (walletFacingId iasession2) = Inr ()" by code_simp
  have upd: "updateUnconsumedForTenant 50 (s_tenantId iasession2) (s_id iasession2) (completion_update 50 (completion_of iasession2 iavs1 ''rc''))
      (exec_stmts [] (iaoffers1 @ [iasession2])) = (True, iaoffers1 @ [iasession3])"
    by (simp add: updateUnconsumedForTenant_def sql_update_def unconsumed_where_iff blank_simps iasession3_def usable)
  from process_response_completed [OF process_response_completes [OF vs state upd, of "vbody1 ''jwe''" _ None]] vs upd
  have "fst (snd (process_response vresponse_env1 50 ''rc'' [] iasession2 (vbody1 ''jwe'')
      (JObj [(''vp_token'', JObj [(''pid'', JArr [JStr ''sdjwt''])]), (''state'', JStr ''w'')]) ?response vconfig1 None (iaoffers1 @ [iasession2])))
      = iaoffers1 @ [iasession3]"
    by simp
  then show ?thesis using getResponse_reaches [OF reaches2] by (simp add: submit_response_def)
qed

definition iaoffer2 :: session where
  "iaoffer2 = set_clause 50 [Set_credentials (s_credentials iasession3)] (blank_session ''o'' ''t'' 0)"

lemma iarow1_simps [simp]: "ias_id (iarow1 second) = ''i''" "ias_authSession (iarow1 second) = ''s''" "ias_tenantId (iarow1 second) = ''t''"
  "ias_iaeActions (iarow1 second) = Some [Iae_Presentation None ''r'', second]" "ias_currentStepIndex (iarow1 second) = 0"
  "ias_authorizationCode (iarow1 second) = None" "ias_issuerState (iarow1 second) = Some ''o''"
  "ias_interactionTypesSupported (iarow1 second) = ''openid4vp_presentation, redirect_to_web''" "ias_expiresAt (iarow1 second) = 600010"
  "ias_codeChallenge (iarow1 second) = Some ''hash v''" "ias_codeChallengeMethod (iarow1 second) = Some ''S256''"
  by (simp_all add: iarow1_def initial_session_def iafresh1_def iainitial1_def)

lemma parsed1 [simp]: "parseAuthorizationResponse (iaenv1 second) ''vp'' = Some (vbody1 ''jwe'')"
  "\<exists>b. parseAuthorizationResponse (iaenv1 second) ''{}'' = Some b"
  by (simp_all add: parseAuthorizationResponse_def iaenv1_def response_fields_def optional_member_def is_string_def jstr_def vbody1_def)

lemma presentation1:
  "presentationSession ''t'' ''s'' (blank_session ''o'' ''t'' 0 # [iasession2]) = Some iasession2"
  "presentationSession ''t'' ''s'' (blank_session ''o'' ''t'' 0 # [iasession3]) = Some iasession3"
  "presentationSession ''t'' ''s'' (iaoffer2 # [iasession3]) = Some iasession3"
  by (simp_all add: presentationSession_def getForTenant_def store_lookup_def findForTenant_def sql_find_one_def typeWhere_def
      blank_simps iaoffer2_def)

definition iarow2 :: "iae_action \<Rightarrow> interactive_session" where
  "iarow2 second = (iarow1 second)\<lparr>ias_status := Presentation_Received, ias_presentationData := Some ''vp''\<rparr>"

lemma handled1:
  "handleOpenid4vpResponse (iaenv1 second) (\<lambda>_. 50) ''rc'' [] ''vp'' (iarow1 second) (iastate2 second)
     = (Inr (), \<lparr>iae_sessions = [iarow2 second], iae_offers = [iaoffer2, iasession3]\<rparr>)"
  using submit1 [of second]
  by (simp add: handleOpenid4vpResponse_def state2 presentation1 Let_def iae_update_def sql_update_def updateForTenant_def
      iaoffer2_def iarow2_def blank_simps)

definition iarow3 :: "iae_action \<Rightarrow> interactive_session" where
  "iarow3 second = (iarow2 second)\<lparr>ias_currentStepIndex := 1,
     ias_completedStepsData := Some [\<lparr>cst_stepIndex = 0, cst_type = Openid4vp_Presentation, cst_data = Some ''vp'', cst_completedAt = 50\<rparr>],
     ias_status := Iae_Pending\<rparr>"

lemma state3_asks:
  "iaanswer second (iafollow1 (Some ''vp'') None) (iastate2 second)
     = executeIaeAction (iaenv1 second) 50 iafresh1 ''s'' ''t'' [] second
         (supported_types ''openid4vp_presentation, redirect_to_web'')
         \<lparr>iae_sessions = [iarow3 second], iae_offers = [iaoffer2, iasession3]\<rparr>"
proof -
  have v: "validateAuthSession 50 ''s'' ''t'' (iae_sessions (iastate2 second)) = (Inr (iarow1 second), [iarow1 second])"
    by (simp add: validateAuthSession_def state2 iae_findForTenant_def sql_find_one_def)
  have f: "iaf_responseCode iafresh1 = ''rc''" by (simp add: iafresh1_def)
  have c: "coalesce (ias_completedStepsData (iarow1 second)) [] = []" by (simp add: iarow1_def initial_session_def)
  show ?thesis
    by (simp add: iaanswer_def handleFollowUpRequest_def v iafollow1_def answer_step_def Let_def currentInteraction_def
        action_interaction_def processOpenid4vpFollow_def handled1 f advanceOrComplete_def parseSessionContext_def record_step_def
        iae_update_def sql_update_def iarow2_def iarow3_def c)
qed

text \<open>The second presentation: the session is asked for again, but stays completed.\<close>

definition iasession4 :: session where
  "iasession4 = iasession3\<lparr>s_requestId := Some ''q'', s_walletNonce := Some ''w'', s_requestUrl := s_requestUrl iasession1,
     s_expiresAt := Some 300050, s_useDcApi := False, s_clientId := Some ''x509_hash:h''\<rparr>"

lemma offer2 [simp]: "s_id iaoffer2 = ''o''" "s_tenantId iaoffer2 = ''t''"
  by (simp_all add: iaoffer2_def blank_simps)

lemma asked2:
  "snd (createOpenid4vpInteractionResponseForConfig (iaenv1 second) 50 (iaf_request iafresh1) ''s'' ''t'' [] ''q'' [iaoffer2, iasession3])
     = [iaoffer2, iasession4]"
proof -
  have u: "s_updatedAt iasession3 = 50" by (simp add: iasession3_def set_clause_def)
  show ?thesis
    by (simp add: createOpenid4vpInteractionResponseForConfig_def createSession_execute_def repo_create_def
      sql_find_one_def createRequest_def interaction_options_def createSignedRequest_def Let_def
      resolveClientIdScheme_def REDIRECT_URI_def X509_HASH_def iafresh1_def updateForTenant_def sql_update_def set_clause_def
      expiry_of_def iasession4_def iasession1_def createClientId_def X509_SAN_DNS_def query_string_def public_url_def vrequest_env1_def u)
qed

lemma state3_vp: "iastate3 iavp1 = \<lparr>iae_sessions = [iarow3 iavp1], iae_offers = [iaoffer2, iasession4]\<rparr>"
  using asked2 [of iavp1]
  by (simp add: iastate3_def state3_asks executeIaeAction_def iavp1_def supports1 ask_presentation_def split_beta)

lemma row3 [simp]: "ias_id (iarow3 second) = ''i''" "ias_authSession (iarow3 second) = ''s''" "ias_tenantId (iarow3 second) = ''t''"
  "ias_iaeActions (iarow3 second) = Some [Iae_Presentation None ''r'', second]" "ias_currentStepIndex (iarow3 second) = 1"
  "ias_authorizationCode (iarow3 second) = None" "ias_issuerState (iarow3 second) = Some ''o''"
  "ias_interactionTypesSupported (iarow3 second) = ''openid4vp_presentation, redirect_to_web''" "ias_expiresAt (iarow3 second) = 600010"
  "ias_codeChallenge (iarow3 second) = Some ''hash v''" "ias_codeChallengeMethod (iarow3 second) = Some ''S256''"
  by (simp_all add: iarow3_def iarow2_def)

lemma session4 [simp]: "s_id iasession4 = ''s''" "s_tenantId iasession4 = ''t''" "s_status iasession4 = Completed"
  "s_requestId iasession4 = Some ''q''" "s_credentials iasession4 = s_credentials iasession3"
  by (simp_all add: iasession4_def)

lemma presentation4: "presentationSession ''t'' ''s'' [iaoffer2, iasession4] = Some iasession4"
  by (simp add: presentationSession_def getForTenant_def store_lookup_def findForTenant_def sql_find_one_def typeWhere_def)

lemma code_without_second:
  "fst (iaanswer iavp1 (iafollow1 (Some ''{}'') None) (iastate3 iavp1)) = Iae_Code ''code''"
proof -
  have v: "validateAuthSession 50 ''s'' ''t'' [iarow3 iavp1] = (Inr (iarow3 iavp1), [iarow3 iavp1])"
    by (simp add: validateAuthSession_def iae_findForTenant_def sql_find_one_def)
  obtain b where b: "parseAuthorizationResponse (iaenv1 iavp1) ''{}'' = Some b" using parsed1(2) by blast
  have i: "action_interaction iavp1 = Openid4vp_Presentation" by (simp add: iavp1_def action_interaction_def)
  have f: "iaf_code iafresh1 = ''code''" by (simp add: iafresh1_def)
  show ?thesis
    by (simp add: iaanswer_def handleFollowUpRequest_def v iafollow1_def answer_step_def Let_def currentInteraction_def
        i processOpenid4vpFollow_def handleOpenid4vpResponse_def b state3_vp presentation4 submit_response_def
        advanceOrComplete_def parseSessionContext_def record_step_def issueAuthorizationCode_def f)
qed

text \<open>The web step.\<close>

definition iarow4 :: interactive_session where
  "iarow4 = (iarow3 iaweb1)\<lparr>ias_requestUri := Some ''urn:ietf:params:oauth:request_uri:u'', ias_parExpiresAt := Some 600050\<rparr>"

lemma state3_web: "iaanswer iaweb1 (iafollow1 (Some ''vp'') None) (iastate2 iaweb1)
   = (Iae_Ask_Web ''s'' ''urn:ietf:params:oauth:request_uri:u'' 600, \<lparr>iae_sessions = [iarow4], iae_offers = [iaoffer2, iasession3]\<rparr>)"
  by (simp add: state3_asks executeIaeAction_def iaweb1_def supports1 ask_web_def createRedirectToWebResponseForUrl_def
      iae_updateForTenant_def sql_update_def iarow4_def request_uri_prefix_def iafresh1_def Let_def)

definition iarow5 :: interactive_session where "iarow5 = iarow4\<lparr>ias_status := Web_Auth_Completed\<rparr>"

lemma completed_web:
  "completeWebAuth 60 (\<lambda>db. db) (Some ''t'') ''s'' ''t'' [iarow4] = (Inr True, [iarow5])"
  by (simp add: completeWebAuth_def completeWebAuthorization_def iae_findForTenant_def sql_find_one_def iarow4_def iarow5_def
      currentInteraction_def parseSessionContext_def action_interaction_def iaweb1_def iae_updateForTenant_def sql_update_def)

definition iastate4 :: iae_state where
  "iastate4 = \<lparr>iae_sessions = [iarow5], iae_offers = [iaoffer2, iasession3]\<rparr>"

definition iaoffer3 :: session where
  "iaoffer3 = set_clause 50 (interactive_grant 50 ''code'' iarow5) iaoffer2"

lemma code_after_web:
  "fst (iaanswer iaweb1 (iafollow1 None (Some ''v'')) iastate4) = Iae_Code ''code''"
  "iae_offers (snd (iaanswer iaweb1 (iafollow1 None (Some ''v'')) iastate4)) = [iaoffer3, iasession3]"
  "fst (validateAuthSession 50 ''s'' ''t'' (iae_sessions iastate4)) = Inr iarow5"
proof -
  have v: "validateAuthSession 50 ''s'' ''t'' [iarow5] = (Inr iarow5, [iarow5])"
    by (simp add: validateAuthSession_def iae_findForTenant_def sql_find_one_def iarow5_def iarow4_def)
  then show "fst (validateAuthSession 50 ''s'' ''t'' (iae_sessions iastate4)) = Inr iarow5" by (simp add: iastate4_def)
  have ok: "handleCodeVerifier (iaenv1 iaweb1) ''v'' iarow5 = Inr ()"
    by (simp add: handleCodeVerifier_def iarow5_def iarow4_def checkS256Pkce_valid)
  have r: "ias_id iarow5 = ''i''" "ias_authorizationCode iarow5 = None" "ias_currentStepIndex iarow5 = 1"
    "ias_iaeActions iarow5 = Some [Iae_Presentation None ''r'', iaweb1]"
    by (simp_all add: iarow5_def iarow4_def)
  have w: "action_interaction iaweb1 = Redirect_To_Web" "iaf_code iafresh1 = ''code''"
    by (simp_all add: iaweb1_def action_interaction_def iafresh1_def)
  have run: "iaanswer iaweb1 (iafollow1 None (Some ''v'')) iastate4
      = issueAuthorizationCode 50 ''code'' iarow5 (\<lparr>iae_sessions = iae_update ''i'' (\<lambda>x. x\<lparr>
          ias_completedStepsData := Some (sct_completedStepsData (record_step 50 Redirect_To_Web None iarow5 (parseSessionContext iarow5))),
          ias_status := All_Steps_Completed\<rparr>) [iarow5], iae_offers = [iaoffer2, iasession3]\<rparr>)"
    by (simp add: iaanswer_def handleFollowUpRequest_def iastate4_def v iafollow1_def answer_step_def Let_def
        currentInteraction_def processCodeVerifierFollow_def advanceOrComplete_def ok r w)
  show "fst (iaanswer iaweb1 (iafollow1 None (Some ''v'')) iastate4) = Iae_Code ''code''"
    "iae_offers (snd (iaanswer iaweb1 (iafollow1 None (Some ''v'')) iastate4)) = [iaoffer3, iasession3]"
    unfolding run by (simp_all add: issueAuthorizationCode_def iarow5_def iarow4_def updateForTenant_def sql_update_def iaoffer3_def)
qed

lemma submitted_from:
  assumes "e \<in> submitted_events env now request r offers"
  shows "\<exists>s \<in> set offers. e = Presented (s_id s) (s_requestId s)"
  using assms reached_session unfolding submitted_events_def presented_events_def verified_by_def by blast

text \<open>The history up to the second step.\<close>

lemma history1:
  obtains L where "iae_run (iaenv1 second) (empty_state iaoffers1) {} (iastate3 second) L" "Started (iarow1 second) \<in> L"
    "\<And>i c. Presented i c \<in> L \<Longrightarrow> c \<noteq> Some ''q''"
proof -
  let ?env = "iaenv1 second" and ?st0 = "empty_state iaoffers1"
  let ?L1 = "{} \<union> started_events ?env (\<lambda>_. 10) iafresh1 iainitial1 ''t'' None (iae_offers ?st0)"
  have L1: "started_events ?env (\<lambda>_. 10) iafresh1 iainitial1 ''t'' None (iae_offers ?st0) = {Started (iarow1 second)}"
    by (auto simp: started_events_def empty_state_def initial1 [simplified] actions1 iarow1_def)
  have "unused iafresh1 ?st0 {}" by (simp add: unused_def empty_state_def blank_simps iafresh1_def)
  then have "iae_run ?env ?st0 {} (iastate1 second) ?L1"
    using run_initial [OF run_start, of iafresh1 ?st0 "{}" ?env "\<lambda>_. 10" iainitial1 "''t''" "[]" None _ "iastate1 second"]
    by (metis iastate1_def prod.collapse)
  moreover have "undisturbed ?L1 iasigned1" by (simp add: undisturbed_def L1 iasigned1_def quiet_update_def)
  ultimately have run2: "iae_run ?env ?st0 {} (iastate2 second) ?L1" unfolding iastate2_def by (rule run_others)
  let ?request = "iafollow1 (Some ''vp'') None"
  let ?L3 = "?L1 \<union> submitted_events ?env 50 ?request (iarow1 second) (iae_offers (iastate2 second))
    \<union> code_events ?request (fst (iaanswer second ?request (iastate2 second)))"
  have v: "fst (validateAuthSession 50 (fur_auth_session ?request) ''t'' (iae_sessions (iastate2 second))) = Inr (iarow1 second)"
    by (simp add: validateAuthSession_def state2 iae_findForTenant_def sql_find_one_def iafollow1_def)
  have a: "handleFollowUpRequest ?env (\<lambda>_. 50) iafresh1 (\<lambda>_. iastate2 second) [] ?request ''t'' [] (iastate2 second)
      = (fst (iaanswer second ?request (iastate2 second)), iastate3 second)"
    by (simp add: iastate3_def iaanswer_def)
  have "iae_run ?env ?st0 {} (iastate3 second) ?L3"
    using run_follow [OF run2 run_start, of "[]" "\<lambda>_. 50" ?request "''t''" "iarow1 second" iafresh1 "[]"] v a
    by (simp add: undisturbed_def)
  moreover have "c \<noteq> Some ''q''" if e: "Presented i c \<in> ?L3" for i c
  proof -
    have "Presented i c \<in> submitted_events ?env 50 ?request (iarow1 second) (iae_offers (iastate2 second))"
      using e by (auto simp: started_events_def code_events_def)
    from submitted_from [OF this] show ?thesis by (auto simp: state2 blank_session_def)
  qed
  moreover have "Started (iarow1 second) \<in> ?L3" unfolding L1 by simp
  ultimately show thesis using that [of ?L3] by blast
qed


text \<open>With a web page as the second step, the wallet gets its code after the backend completed it.\<close>

lemma history2:
  obtains L where "iae_run (iaenv1 iaweb1) (empty_state iaoffers1) {} iastate4 L"
proof -
  obtain L where "iae_run (iaenv1 iaweb1) (empty_state iaoffers1) {} (iastate3 iaweb1) L" by (rule history1) blast
  moreover have s: "iastate3 iaweb1 = \<lparr>iae_sessions = [iarow4], iae_offers = [iaoffer2, iasession3]\<rparr>"
    by (simp add: iastate3_def state3_web)
  ultimately show thesis using that run_web completed_web unfolding iastate4_def by fastforce
qed

lemma answer4:
  "\<exists>st'. handleFollowUpRequest (iaenv1 iaweb1) (\<lambda>_. 50) iafresh1 (\<lambda>_. iastate4) [] (iafollow1 None (Some ''v'')) ''t'' [] iastate4
     = (Iae_Code ''code'', st') \<and> iae_offers st' = [iaoffer3, iasession3]"
  using code_after_web(1,2) unfolding iaanswer_def by (metis prod.collapse)

theorem interactive_code_needs_steps_witness:
  "\<exists>st L r. iae_run (iaenv1 iaweb1) (empty_state iaoffers1) {} st L \<and> Code_Given ''s'' ''code'' \<in> L
     \<and> Started r \<in> L \<and> ias_authSession r = ''s''
     \<and> (\<forall>as. ias_iaeActions r = Some as \<longrightarrow> (\<forall>i < length as. as ! i = iaweb1 \<longrightarrow> Web_Done ''s'' i \<in> L))"
proof -
  let ?request = "iafollow1 None (Some ''v'')"
  obtain L where L: "iae_run (iaenv1 iaweb1) (empty_state iaoffers1) {} iastate4 L" by (rule history2)
  obtain st' where st': "handleFollowUpRequest (iaenv1 iaweb1) (\<lambda>_. 50) iafresh1 (\<lambda>_. iastate4) [] ?request ''t'' [] iastate4
      = (Iae_Code ''code'', st')" using answer4 by blast
  have v: "fst (validateAuthSession 50 (fur_auth_session ?request) ''t'' (iae_sessions iastate4)) = Inr iarow5"
    using code_after_web(3) by (simp add: iafollow1_def)
  let ?L = "L \<union> submitted_events (iaenv1 iaweb1) 50 ?request iarow5 (iae_offers iastate4) \<union> code_events ?request (Iae_Code ''code'')"
  have run: "iae_run (iaenv1 iaweb1) (empty_state iaoffers1) {} st' ?L"
    using run_follow [OF L run_start, of "[]" "\<lambda>_. 50" ?request "''t''" iarow5 iafresh1 "[]" "Iae_Code ''code''" st'] v st'
    by (simp add: undisturbed_def)
  have code: "Code_Given ''s'' ''code'' \<in> ?L" by (simp add: code_events_def iafollow1_def)
  from interactive_code_needs_steps [OF run code] obtain r where r: "Started r \<in> ?L" "ias_authSession r = ''s''"
    "case ias_iaeActions r of
       None \<Rightarrow> Web_Done ''s'' 0 \<in> ?L \<or> (\<exists>c. Presented ''s'' (Some c) \<in> ?L)
     | Some as \<Rightarrow> as \<noteq> [] \<and> (\<forall>i < length as. case as ! i of
           Iae_Web _ _ _ _ \<Rightarrow> Web_Done ''s'' i \<in> ?L
         | Iae_Presentation _ _ \<Rightarrow> \<exists>c \<in> presentation_ids as. Presented ''s'' (Some c) \<in> ?L)"
    by blast
  have "Web_Done ''s'' i \<in> ?L" if as: "ias_iaeActions r = Some as" "i < length as" "as ! i = iaweb1" for as i
  proof -
    have "case as ! i of Iae_Web _ _ _ _ \<Rightarrow> Web_Done ''s'' i \<in> ?L
         | Iae_Presentation _ _ \<Rightarrow> \<exists>c \<in> presentation_ids as. Presented ''s'' (Some c) \<in> ?L"
      using r(3) as(1,2) by (simp only: option.case)
    then show ?thesis unfolding as(3) iaweb1_def by (simp only: iae_action.case)
  qed
  with run code r(1,2) show ?thesis by blast
qed

theorem interactive_code_bound_witness:
  "\<exists>q. s_auth_queries iaoffer3 = Some q \<and> checkS256Pkce (iae_sha256 (iaenv1 iaweb1)) (aq_code_challenge q)
      (aq_code_challenge_method q) (Some ''v'') = Pkce_Valid
   \<and> checkS256Pkce (iae_sha256 (iaenv1 iaweb1)) (aq_code_challenge q) (aq_code_challenge_method q) None \<noteq> Pkce_Valid"
proof -
  let ?request = "iafollow1 None (Some ''v'')"
  obtain L where L: "iae_run (iaenv1 iaweb1) (empty_state iaoffers1) {} iastate4 L" by (rule history2)
  obtain st' where st': "handleFollowUpRequest (iaenv1 iaweb1) (\<lambda>_. 50) iafresh1 (\<lambda>_. iastate4) [] ?request ''t'' [] iastate4
      = (Iae_Code ''code'', st')" "iae_offers st' = [iaoffer3, iasession3]" using answer4 by blast
  have v: "fst (validateAuthSession 50 (fur_auth_session ?request) ''t'' (iae_sessions iastate4)) = Inr iarow5"
    using code_after_web(3) by (simp add: iafollow1_def)
  have s: "iaoffer3 \<in> set (iae_offers st')" "s_tenantId iaoffer3 = ''t''" "ias_issuerState iarow5 = Some (s_id iaoffer3)" "s_id iaoffer3 \<noteq> []"
    using st'(2) by (simp_all add: iaoffer3_def iarow5_def iarow4_def)
  from interactive_code_bound [OF L run_start, where clock = "\<lambda>_. 50" and request = ?request and tenantId = "''t''" and r = iarow5
      and fresh = iafresh1 and others = "[]" and origin = "[]", OF v st'(1) s]
  obtain challenge q where q: "s_auth_queries iaoffer3 = Some q" "\<And>verifier.
      checkS256Pkce (iae_sha256 (iaenv1 iaweb1)) (aq_code_challenge q) (aq_code_challenge_method q) verifier = Pkce_Valid
      \<longleftrightarrow> (\<exists>v. verifier = Some v \<and> v \<noteq> [] \<and> iae_sha256 (iaenv1 iaweb1) v = challenge)" by blast
  have "q = interactive_queries iarow5" using q(1) by (simp add: iaoffer3_def set_clause_def interactive_grant_def)
  then have "checkS256Pkce (iae_sha256 (iaenv1 iaweb1)) (aq_code_challenge q) (aq_code_challenge_method q) (Some ''v'') = Pkce_Valid"
    by (simp add: interactive_queries_def checkS256Pkce_valid iarow5_def iarow4_def)
  with q show ?thesis by (intro exI [of _ q]) simp
qed

text \<open>A configuration with two web pages.\<close>

definition iaenv2 :: iae_env where
  "iaenv2 = (iaenv1 iaweb1)\<lparr>iae_credentialActions := (\<lambda>_ _. Inr (Some [iaweb1, iaweb1]))\<rparr>"

theorem web_steps_complete_witness:
  "fst (web_rounds iaenv2 (\<lambda>_ _. 50) (\<lambda>_. iafresh1) ''t'' [] ''s'' ''v'' 1
     (snd (handleInitialRequest iaenv2 (\<lambda>_. 10) iafresh1 iainitial1 ''t'' [] None (empty_state iaoffers1)))) = Iae_Code ''code''"
proof -
  have a: "initial_actions iaenv2 ''t'' (inr_authorization_details iainitial1) = Inr (Some [iaweb1, iaweb1])"
    by (simp add: initial_actions_def iaenv2_def iainitial1_def details_configuration_def details_given_def first_detail_def
        jget_def jtruthy_def Let_def)
  have t: "supports (supported_types (inr_interaction_types_supported iainitial1)) Redirect_To_Web"
    using supports1 by (simp add: iainitial1_def)
  have r: "refuse_initial 10 iainitial1 ''t'' (iae_offers (empty_state iaoffers1)) = None"
    using initial1 by (simp add: empty_state_def)
  have c: "inr_code_challenge iainitial1 = Some (iae_sha256 iaenv2 ''v'')" by (simp add: iainitial1_def iaenv2_def)
  show ?thesis
    using web_steps_complete [where start = "\<lambda>_. 10" and clock = "\<lambda>_ _. 50" and later = "\<lambda>_. iafresh1" and fresh = iafresh1
        and origin = "[]" and dpop = None and verifier = "''v''", OF r a _ t _ _ c]
    by (simp add: is_web_def iaweb1_def action_interaction_def empty_state_def iafresh1_def)
qed

end
