(* ===== verification/Spec2Isabelle.thy ===== *)
theory Spec2Isabelle
  imports Session_Properties Status_Slots Authorization_Flow Credential_Properties Claims_Properties Dpop_Proofs
    Response_Properties Outbound_Properties Attestation_Properties Chained_Properties
    Interactive_Properties
begin

text \<open>
  EUDIPLO (\<open>apps/backend\<close>) issues and verifies credentials for wallets: an OpenID4VCI issuer with an
  OAuth authorization server, an OpenID4VP verifier, and status lists for the issued credentials. This
  development models the parts of it that keep state and decide: the session that every issuance and
  every presentation runs through, the wallet flows over it, the status lists, and the authorization
  server.

  How the parts interact. A session row is created by an offer, a presentation request or a wallet's
  pushed authorization request. Cancellation, clean-up, the wallet's requests and the token endpoint
  write it by single SQL statements, from several requests, jobs and backend instances at a time.
  Everything that must happen once (a response, an offer, a request URI, a code) rests on a conditional
  update of that row. Issuing allocates entries of status lists; revoking writes them by a
  compare-and-set on the version column.

  Common ground.
  \<^item> \<open>Eudiplo_Base\<close>: options as \<open>undefined\<close>, JSON values, \<open>ebind\<close> and \<open>require\<close> for code that throws, one
    SQL statement on a table as a list of rows (\<open>sql_find_one\<close>, \<open>sql_update\<close>, \<open>sql_delete\<close>,
    \<open>sql_insert\<close>), and the locale \<open>single_use\<close>: a claim that wins at most once in any interleaving.
    Times are milliseconds as \<^typ>\<open>int\<close>, as JavaScript dates are numbers far below the limit of exact
    integers. \<open>Js_Values\<close>: operations of JavaScript on strings and JSON values that several parts use.

  Sessions (\<open>session/\<close>).
  \<^item> \<open>Session_Types\<close>, \<open>Session_Update\<close>, \<open>Session_Rules\<close>: \<open>domain/\<close>; the session row, an update as
    the list of the columns it sets, statuses, usability, retention.
  \<^item> \<open>Session_Repository\<close>, \<open>Session_Statements\<close>, \<open>Session_Guarantees\<close>:
    \<open>adapters/typeorm-session.repository.ts\<close>; every method, the writing statements as one type, and
    what they guarantee whatever runs in between. Three interpretations of \<open>single_use\<close>: the single-use
    update, the request URI, the offer; a fourth, for the status change, is in \<open>Session_Lifecycle\<close>.
  \<^item> \<open>Session_Search\<close>, \<open>Session_Listing\<close>: \<open>domain/session-search.ts\<close>, the list of the management API.
  \<^item> \<open>Session_Lifecycle\<close>: \<open>application/\<close>; status changes with their events, cancelling, cleaning up,
    counting attempts, external binding.
  \<^item> \<open>Wallet_Flows\<close>: presentation requests and responses (\<open>verifier/oid4vp/application\<close>), offers and
    notifications (\<open>issuer/issuance/oid4vci/application\<close>).
  \<^item> \<open>Session_Properties\<close>: their properties.

  Status lists (\<open>issuer/status-list/\<close>).
  \<^item> \<open>Status_Value\<close>, \<open>Status_Store\<close>, \<open>Status_List\<close>: value rules, tables with the versioned writes, and
    every operation of \<open>status-list.service.ts\<close>. The optimistic retries run \<open>maxRetries = 3\<close> times by
    recursion on the attempts left, as the loops of the code do, so every operation is total; what
    other writers do in a gap between two statements is the parameter \<open>gap\<close>.
  \<^item> \<open>Status_Runs\<close>: the step relation of any number of writers that read rows and write later, with
    its invariants by rule induction. \<open>Status_Handlers\<close>: each operation is a run of it.
    \<open>Status_Quiet\<close>, \<open>Status_Outcomes\<close>: the results without interference. \<open>Status_Slots\<close>: the slots of
    the active credential policy, with their own runs.
  \<^item> \<open>Status_Properties\<close>, \<open>Status_Outcomes\<close> and \<open>Status_Slots\<close> state the properties.

  Authorization server (\<open>issuer/issuance/oid4vci/authorization/\<close>).
  \<^item> \<open>OAuth_Rules\<close>: \<open>domain/\<close>; errors, PKCE, pushed request parameters, token policies, client and
    grant binding.
  \<^item> \<open>Authorize_Request\<close>: \<open>application/push-authorization-request.ts\<close> and
    \<open>authorize-pushed-request.ts\<close>. \<open>Token_Exchange\<close>: \<open>application/exchange-access-token.ts\<close>. A handler
    takes the statements that other requests run between its own, and a clock that is read several times.
  \<^item> \<open>OAuth_Properties\<close>: what a token proves, single use of codes, transaction codes.
    \<open>Authorization_Flow\<close>: from the pushed request to the token.

  Chained and managed authorization servers (\<open>issuer/issuance/oid4vci/authorization/\<close>).
  \<^item> \<open>Chained_Store\<close>: \<open>domain/chained-as-session.ts\<close>, its repository and clean-up job, and the helpers in
    \<open>shared/\<close>: PKCE, redirects, token payloads, DPoP binding, refresh tokens, metadata.
  \<^item> \<open>Chained_Server\<close>: \<open>chained-as/chained-as.service.ts\<close>, whose users an upstream OpenID provider
    authenticates. \<open>Managed_Servers\<close>: \<open>authorization-servers/authorization-servers.service.ts\<close>, whose users
    present a credential. Both keep their sessions in one table.
  \<^item> \<open>Chained_Machine\<close>: the life of a session as a state machine (\<open>session_step\<close>), every handler as a step
    of it, the histories of requests that read one table and save to a later one, and the locale
    \<open>session_invariant\<close> with two interpretations. \<open>Chained_Properties\<close>: who gets a token, that a code is
    spent, how long a session is kept, and that the flow of a wallet completes.

  Interactive authorization (\<open>authorization/authorize/\<close>).
  \<^item> \<open>Interactive_Authorization\<close>: \<open>interactive-authorization.service.ts\<close>, its controller, sessions and
    repository; the steps a wallet runs before it gets a code. The row of the session is read once per
    request; \<open>gap\<close> is what other requests do after that.
  \<^item> \<open>Interactive_Machine\<close>: histories of initial and follow-up requests, completions of web steps, responses
    to the verifier and other statements (\<open>iae_run\<close>), and the invariant that ties both tables to what has
    happened. A completion is atomic there; \<open>late_completion\<close> is the overlap that is left out.
    \<open>Interactive_Properties\<close>: the steps and the challenge behind a code, that a wallet which does its steps
    gets one, and the presentation step that is accepted unverified.

  Issuing credentials (\<open>issuer/configuration/credentials/\<close>, \<open>issuer/issuance/oid4vci/\<close>).
  \<^item> \<open>Claims_Derivation\<close>: \<open>utils/derive.ts\<close>; default claims, disclosure frame, metadata and JSON schema
    of the claim fields of a configuration. \<open>Claims_Properties\<close>: their properties.
  \<^item> \<open>Credential_Claims\<close>: where the claims of a request come from, their validation, and the issuing of
    one credential (\<open>application/\<close>, \<open>domain/\<close>).
  \<^item> \<open>Issuance_Store\<close>: the tables of proof nonces, DPoP proof identifiers and deferred transactions
    (\<open>adapters/\<close>), each with an interpretation of \<open>single_use\<close>. \<open>Dpop_Proofs\<close>: \<open>shared/dpop.util.ts\<close>.
  \<^item> \<open>Credential_Requests\<close>, \<open>Credential_Access\<close>: the decisions on a credential request: its token, the
    session the token belongs to, the configuration, nonces, proofs and key attestations.
  \<^item> \<open>Deferred_Credentials\<close>: \<open>deferred-credential.service.ts\<close>, \<open>deferred.controller.ts\<close>.
    \<open>Credential_Endpoint\<close>: \<open>oid4vci.service.ts\<close>, the credential and notification endpoints. A handler
    takes, for every gap between two of its statements, the statements of other requests.
  \<^item> \<open>Credential_Rules\<close>, \<open>Credential_Examples\<close>, \<open>Credential_Properties\<close>: what an issued credential
    proves, single use of nonces and deferred credentials, the reported errors; with the data the
    witnesses share.

  Verifying presentations (\<open>verifier/\<close>, \<open>trust/\<close>).
  \<^item> \<open>Dcql_Policy\<close>: \<open>presentations/domain/dcql-claim-policy.ts\<close>; which credentials, claims and values a
    response must contain. \<open>Dcql_Properties\<close>: what it means for a response to satisfy a query.
  \<^item> \<open>Trust_Lists\<close>: trust list references, the trust store and the options of a verification.
    \<open>Federation_Trust\<close>: the search for a trust anchor over \<open>authority_hints\<close> and its cache; the recursion
    of \<open>visit\<close> counts down the hops that \<open>maxDepth\<close> leaves, one more than the code allows, so the refusal
    of the code is always reached. \<open>Chain_Validation\<close>: the certificate chain of a credential against a
    trust store. \<open>Trust_Properties\<close>: their properties.
  \<^item> \<open>Verifier_Types\<close>, \<open>Sdjwt_Verifier\<close>, \<open>Mdoc_Verifier\<close>: the two credential formats. The SD-JWT library
    is an argument that calls the callbacks of the service, with the hypothesis \<open>library_checks\<close> on what
    it checks; the mdoc library is an argument that is called.
  \<^item> \<open>Presentation_Verification\<close>: parsing a response and verifying every presentation in it.
    \<open>Wallet_Query\<close>: the query as the wallet gets it. \<open>Presentation_Endpoint\<close>, \<open>Presentation_Response\<close>:
    \<open>oid4vp.service.ts\<close>, creating requests and handling responses.
  \<^item> \<open>Verification_Properties\<close>: what an accepted credential guarantees; the locale \<open>credential_format\<close> is
    the interface of a format, interpreted on both. \<open>Response_Properties\<close>: what a completed, a late and a
    failed response do to the session. \<open>Verification_Examples\<close>: the verifier the witnesses share.

  Requests to foreign hosts, status lists of others (\<open>webhook/\<close>, \<open>trust/\<close>, \<open>shared/utils/\<close>).
  \<^item> \<open>Outbound_Requests\<close>: \<open>outbound-url-policy.service.ts\<close> and \<open>trust-fetch.service.ts\<close>; which addresses a
    request may reach, redirects, limits. The recursion of \<open>follow\<close> counts the hops that are left, the
    bound of the loop in the code. \<open>Outbound_Properties\<close>: private addresses, and the safety of every connection.
  \<^item> \<open>Bounded_Cache\<close>: \<open>bounded-ttl-cache.ts\<close>, with its contract as the locale \<open>expiring_cache\<close>.
    \<open>Status_List_Fetch\<close>: \<open>status-list-verifier.service.ts\<close>, \<open>wua-status.ts\<close>, over three such caches.
  \<^item> \<open>Wallet_Attestation\<close>: \<open>wallet-attestation.service.ts\<close>. \<open>Attestation_Properties\<close>: the caches are bounded
    and their answers recent; what an accepted attestation proves.

  Parameters. Cryptography, the OAuth and OpenID libraries, URL and JSON parsing, random numbers, the
  webhook receivers and the database dialect are arguments. No property assumes more of them than it
  states.

  Not modelled: the credential formats and the verification of their proofs (library code), the issuer
  metadata document, the JavaScript object prototype (a claim path with the segment \<open>__proto__\<close>), the
  verification of fetched trust lists and the registrar (HTTP clients), ISO 18013-7, configuration import,
  keys, authentication, the web client and the generated SDK. Log output and delays between retries
  are left out of the modelled operations.
\<close>

end
